(* ===== verification/Prelude.thy ===== *)
theory Prelude
  imports Main "HOL-Library.Word"
begin

text \<open>
  Shared vocabulary of the development: machine integers, byte strings, the
  Rust \<open>Result\<close> type as a sum, checked arithmetic, big-endian integer encoding,
  and the locales every component with mutable state is an instance of:
  \<open>step_system\<close> (an invariant kept by one step is kept by every run),
  \<open>step_frame\<close> (an observation no step changes is the same after every run),
  \<open>step_order\<close> (a preorder every step respects orders the ends of a run) and
  \<open>once_only\<close> (an authority granted at most once in every run).
\<close>

section \<open>Types\<close>

type_synonym u8 = "8 word"
type_synonym u16 = "16 word"
type_synonym u32 = "32 word"
type_synonym u64 = "64 word"
type_synonym u128 = "128 word"
type_synonym bytes = "u8 list"

text \<open>A Rust \<open>Result\<close>: \<open>Err\<close> is the left summand, \<open>Ok\<close> the right one.\<close>

abbreviation Ok :: "'a \<Rightarrow> 'e + 'a" where "Ok \<equiv> Inr"
abbreviation Err :: "'e \<Rightarrow> 'e + 'a" where "Err \<equiv> Inl"

text \<open>The \<open>?\<close> operator: an error returns early, a value continues.\<close>

definition and_then :: "'e + 'a \<Rightarrow> ('a \<Rightarrow> 'e + 'b) \<Rightarrow> 'e + 'b" where
  "and_then r k = (case r of Inl e \<Rightarrow> Inl e | Inr a \<Rightarrow> k a)"

definition is_ok :: "'e + 'a \<Rightarrow> bool" where
  "is_ok r = (case r of Inl _ \<Rightarrow> False | Inr _ \<Rightarrow> True)"

text \<open>\<open>Result::map_err\<close> and \<open>Option::ok_or\<close>.\<close>

definition map_err :: "('e \<Rightarrow> 'f) \<Rightarrow> 'e + 'a \<Rightarrow> 'f + 'a" where
  "map_err f r = (case r of Inl e \<Rightarrow> Inl (f e) | Inr a \<Rightarrow> Inr a)"

definition ok_or :: "'e \<Rightarrow> 'a option \<Rightarrow> 'e + 'a" where
  "ok_or err r = (case r of None \<Rightarrow> Inl err | Some a \<Rightarrow> Inr a)"

lemma map_err_simps [simp]:
  "map_err f (Inl e) = Inl (f e)"
  "map_err f (Inr a) = Inr a"
  by (simp_all add: map_err_def)

lemma ok_or_simps [simp]:
  "ok_or err None = Inl err"
  "ok_or err (Some a) = Inr a"
  by (simp_all add: ok_or_def)

lemma map_err_Inr: "map_err f r = Inr a \<longleftrightarrow> r = Inr a"
  by (cases r) simp_all

lemma ok_or_Inr: "ok_or err r = Inr a \<longleftrightarrow> r = Some a"
  by (cases r) simp_all

lemma and_then_simps [simp]:
  "and_then (Inl e) k = Inl e"
  "and_then (Inr a) k = k a"
  by (simp_all add: and_then_def)

lemma and_then_Inr: "and_then r k = Inr b \<longleftrightarrow> (\<exists>a. r = Inr a \<and> k a = Inr b)"
  by (cases r) auto

lemma and_then_Inl: "and_then r k = Inl e \<longleftrightarrow> r = Inl e \<or> (\<exists>a. r = Inr a \<and> k a = Inl e)"
  by (cases r) auto

lemma and_then_assoc: "and_then (and_then r k) h = and_then r (\<lambda>a. and_then (k a) h)"
  by (cases r) simp_all

lemma and_then_cong: "r = r' \<Longrightarrow> (\<And>a. r' = Inr a \<Longrightarrow> k a = k' a) \<Longrightarrow> and_then r k = and_then r' k'"
  by (cases r') simp_all

lemma is_ok_simps [simp]: "\<not> is_ok (Inl e)" "is_ok (Inr a)"
  by (simp_all add: is_ok_def)

lemma is_okE: "is_ok r \<Longrightarrow> (\<And>a. r = Inr a \<Longrightarrow> P) \<Longrightarrow> P"
  by (cases r) auto

section \<open>Fixed-width arithmetic\<close>

definition checked_add :: "'a::len word \<Rightarrow> 'a word \<Rightarrow> 'a word option" where
  "checked_add a b = (if unat a + unat b < 2 ^ LENGTH('a) then Some (a + b) else None)"

definition checked_mul :: "'a::len word \<Rightarrow> 'a word \<Rightarrow> 'a word option" where
  "checked_mul a b = (if unat a * unat b < 2 ^ LENGTH('a) then Some (a * b) else None)"

lemma checked_add_Some:
  "checked_add a b = Some c \<longleftrightarrow> unat a + unat b < 2 ^ LENGTH('a) \<and> c = (a + b :: 'a::len word)"
  by (auto simp: checked_add_def)

lemma checked_mul_Some:
  "checked_mul a b = Some c \<longleftrightarrow> unat a * unat b < 2 ^ LENGTH('a) \<and> c = (a * b :: 'a::len word)"
  by (auto simp: checked_mul_def)

lemma unat_checked_add: "checked_add a b = Some c \<Longrightarrow> unat c = unat a + unat b"
  by (auto simp: checked_add_Some unat_word_ariths)

lemma unat_checked_mul: "checked_mul a b = Some c \<Longrightarrow> unat c = unat a * unat b"
  by (auto simp: checked_mul_Some unat_word_ariths)

section \<open>Zero arrays and big-endian integers\<close>

text \<open>\<open>[0; 32]\<close>, the value every 32-byte commitment of the program is compared with.\<close>

definition zero32 :: bytes where
  "zero32 = replicate 32 0"

text \<open>\<open>to_be_bytes\<close> on an \<open>n\<close>-byte unsigned integer.\<close>

fun be_bytes :: "nat \<Rightarrow> nat \<Rightarrow> bytes" where
  "be_bytes 0 v = []"
| "be_bytes (Suc n) v = be_bytes n (v div 256) @ [word_of_nat (v mod 256)]"

lemma length_be_bytes [simp]: "length (be_bytes n v) = n"
  by (induction n v rule: be_bytes.induct) simp_all

lemma byte_of_nat_inject:
  assumes "(word_of_nat (v mod 256) :: u8) = word_of_nat (w mod 256)"
  shows "v mod 256 = w mod 256"
proof -
  have "unat (word_of_nat (v mod 256) :: u8) = unat (word_of_nat (w mod 256) :: u8)"
    using assms by simp
  then show ?thesis by (simp add: unat_of_nat)
qed

lemma be_bytes_inject:
  "be_bytes n v = be_bytes n w \<Longrightarrow> v < 256 ^ n \<Longrightarrow> w < 256 ^ n \<Longrightarrow> v = w"
proof (induction n arbitrary: v w)
  case 0
  then show ?case by simp
next
  case (Suc n)
  then have "be_bytes n (v div 256) = be_bytes n (w div 256)"
    and low: "v mod 256 = w mod 256"
    by (auto dest: byte_of_nat_inject)
  moreover have "v div 256 < 256 ^ n" "w div 256 < 256 ^ n"
    using Suc.prems by (simp_all add: less_mult_imp_div_less mult.commute)
  ultimately have "v div 256 = w div 256"
    using Suc.IH by blast
  with low show ?case
    by (metis mult_div_mod_eq)
qed

text \<open>\<open>from_be_bytes\<close>, as a natural number.\<close>

definition of_be_bytes :: "bytes \<Rightarrow> nat" where
  "of_be_bytes bs = foldl (\<lambda>a b. a * 256 + unat b) 0 bs"

lemma of_be_bytes_be_bytes [simp]: "of_be_bytes (be_bytes n v) = v mod 256 ^ n"
proof (induction n v rule: be_bytes.induct)
  case (2 n v)
  have "unat (word_of_nat (v mod 256) :: u8) = v mod 256"
    by (simp add: unat_of_nat)
  with 2 show ?case
    by (simp add: of_be_bytes_def mod_mult2_eq mult.commute)
qed (simp add: of_be_bytes_def)

section \<open>Runs of a state machine\<close>

text \<open>
  A run applies the steps of a list of events from the left. Every component whose
  methods take \<open>&mut self\<close> is run this way.
\<close>

abbreviation run :: "('s \<Rightarrow> 'e \<Rightarrow> 's) \<Rightarrow> 's \<Rightarrow> 'e list \<Rightarrow> 's" where
  "run \<equiv> foldl"

text \<open>The event of a run that first makes a state predicate true.\<close>

lemma run_first:
  assumes "\<not> Q s" and "Q (run step s es)"
  shows "\<exists>pre e post. es = pre @ e # post \<and> \<not> Q (run step s pre) \<and> Q (step (run step s pre) e)"
  using assms
proof (induction es rule: rev_induct)
  case Nil
  then show ?case by simp
next
  case (snoc e es)
  show ?case
  proof (cases "Q (run step s es)")
    case True
    with snoc obtain pre e' post where
      "es = pre @ e' # post" "\<not> Q (run step s pre)" "Q (step (run step s pre) e')"
      by blast
    then show ?thesis
      by (intro exI [of _ pre] exI [of _ e'] exI [of _ "post @ [e]"]) simp
  next
    case False
    with snoc.prems show ?thesis by auto
  qed
qed

locale step_system =
  fixes step :: "'s \<Rightarrow> 'e \<Rightarrow> 's"
    and inv :: "'s \<Rightarrow> bool"
  assumes step_inv: "inv s \<Longrightarrow> inv (step s e)"
begin

lemma run_inv: "inv s \<Longrightarrow> inv (run step s es)"
  by (induction es arbitrary: s) (simp_all add: step_inv)

end

locale step_frame = step_system +
  fixes obs :: "'a \<Rightarrow> 'c"
  assumes step_obs: "inv s \<Longrightarrow> obs (step s e) = obs s"
begin

lemma run_obs: "inv s \<Longrightarrow> obs (run step s es) = obs s"
  by (induction es arbitrary: s) (simp_all add: step_inv step_obs)

end

text \<open>States that only grow: \<open>le\<close> is a preorder every step respects.\<close>

locale step_order = step_system +
  fixes le :: "'a \<Rightarrow> 'a \<Rightarrow> bool"
  assumes le_refl: "le s s"
    and le_trans: "le s s' \<Longrightarrow> le s' s'' \<Longrightarrow> le s s''"
    and step_le: "inv s \<Longrightarrow> le s (step s e)"
begin

lemma run_le: "inv s \<Longrightarrow> le s (run step s es)"
proof (induction es arbitrary: s)
  case Nil
  show ?case by (simp add: le_refl)
next
  case (Cons e es)
  then have "le (step s e) (run step (step s e) es)" by (simp add: step_inv)
  with step_le [OF Cons.prems] show ?case by (auto intro: le_trans)
qed

end

section \<open>Authority granted at most once\<close>

text \<open>
  The journals of the program hand out a one-time authority (to submit, to sign, to
  broadcast). \<open>grant_count\<close> counts the grants of a run; \<open>once_only\<close> is the contract that
  makes the count at most one: a grant needs an armed state and disarms it, and nothing
  arms a disarmed state again.
\<close>

fun grant_count :: "('s \<Rightarrow> 'e \<Rightarrow> 's) \<Rightarrow> ('s \<Rightarrow> 'e \<Rightarrow> bool) \<Rightarrow> 's \<Rightarrow> 'e list \<Rightarrow> nat" where
  "grant_count step grants s [] = 0"
| "grant_count step grants s (e # es) =
     (if grants s e then 1 else 0) + grant_count step grants (step s e) es"

locale once_only = step_system +
  fixes grants :: "'a \<Rightarrow> 'b \<Rightarrow> bool" and armed :: "'a \<Rightarrow> bool"
  assumes grants_armed: "inv s \<Longrightarrow> grants s e \<Longrightarrow> armed s"
    and grants_disarms: "inv s \<Longrightarrow> grants s e \<Longrightarrow> \<not> armed (step s e)"
    and stays_disarmed: "inv s \<Longrightarrow> \<not> armed s \<Longrightarrow> \<not> armed (step s e)"
begin

lemma disarmed_never_grants:
  "inv s \<Longrightarrow> \<not> armed s \<Longrightarrow> grant_count step grants s es = 0 \<and> \<not> armed (run step s es)"
  by (induction es arbitrary: s) (auto dest: grants_armed stays_disarmed step_inv)

lemma grants_at_most_once: "inv s \<Longrightarrow> grant_count step grants s es \<le> 1"
proof (induction es arbitrary: s)
  case Nil
  then show ?case by simp
next
  case (Cons e es)
  show ?case
  proof (cases "grants s e")
    case True
    with Cons.prems have "grant_count step grants (step s e) es = 0"
      using disarmed_never_grants [OF step_inv] grants_disarms by blast
    with True show ?thesis by simp
  next
    case False
    with Cons show ?thesis by (simp add: step_inv)
  qed
qed

end

end
