(* ===== verification/Swap_Clock.thy ===== *)
theory Swap_Clock
  imports Prelude
begin

text \<open>
  The typed clocks, deadlines and recovery schedules of \<open>crates/swap-core/src/lib.rs\<close>:
  pairs, directions and chains; whole-second and LEZ-millisecond timestamps; chain
  positions that are only ever compared inside one clock domain; the conservative
  cross-chain safety margin; and the pair- and direction-aware recovery schedule.
\<close>

named_theorems clock_defs \<open>definitions of the clock and schedule operations\<close>

section \<open>Pairs, directions, participants, chains\<close>

datatype pair = Pair_Bitcoin | Pair_Monero | Pair_Zcash

datatype swap_direction = TakerSellsForeign | TakerSellsLez

datatype participant = Maker | Taker

fun other :: "participant \<Rightarrow> participant" where
  "other Maker = Taker"
| "other Taker = Maker"

datatype chain = Chain_Lez | Chain_Bitcoin | Chain_Monero | Chain_Zcash

fun chain_from_pair :: "pair \<Rightarrow> chain" where
  "chain_from_pair Pair_Bitcoin = Chain_Bitcoin"
| "chain_from_pair Pair_Monero = Chain_Monero"
| "chain_from_pair Pair_Zcash = Chain_Zcash"

datatype clock_basis = BlockHeight | Timestamp

section \<open>Phases and errors\<close>

datatype phase =
    Offered
  | AwaitingTakerConfirmations
  | TakerLockConfirmed
  | AwaitingMakerConfirmations
  | BothLegsLocked
  | TakerLockReorged
  | MakerLockReorged
  | ClaimEvidenceAvailable
  | Completed
  | MakerLegRefunded
  | TakerLegRefunded
  | Refunded
  | MakerRecoveryAvailable

datatype core_error =
    InvalidIdentifier
  | InvalidConfirmationPolicy
  | TimestampConversionOverflow
  | InsufficientTimelockMargin
  | WrongRefundChain string chain chain
  | WrongDeadlineClock chain clock_basis chain clock_basis
  | WrongTimelockOrder pair chain chain
  | UnsupportedDirection pair swap_direction
  | UnexpectedClaimant participant participant
  | TakerLockNotConfirmed
  | MakerLockNotConfirmed
  | ConflictingTakerLock
  | ConflictingMakerLock
  | ConflictingClaimEvidence
  | ConflictingTakerClaim
  | InvalidPhase phase phase
  | TimelockNotExpired
  | RecoveryRequiresTakerRefundEvent
  | WrongRecoveryEventChain chain chain
  | InsufficientRecoveryEventConfirmations u32 u32
  | ConflictingTakerRefundEvent
  | ConflictingMakerRecovery

section \<open>Timestamps\<close>

datatype unix_seconds = UnixSeconds u64

datatype lez_unix_milliseconds = LezUnixMilliseconds u64

fun seconds_value :: "unix_seconds \<Rightarrow> u64" where
  "seconds_value (UnixSeconds v) = v"

fun milliseconds_value :: "lez_unix_milliseconds \<Rightarrow> u64" where
  "milliseconds_value (LezUnixMilliseconds v) = v"

definition checked_to_lez_milliseconds ::
    "unix_seconds \<Rightarrow> core_error + lez_unix_milliseconds" where
  [clock_defs]: "checked_to_lez_milliseconds s =
     (case checked_mul (seconds_value s) 1000 of
        Some v \<Rightarrow> Ok (LezUnixMilliseconds v)
      | None \<Rightarrow> Err TimestampConversionOverflow)"

definition to_unix_seconds_floor :: "lez_unix_milliseconds \<Rightarrow> unix_seconds" where
  [clock_defs]: "to_unix_seconds_floor t = UnixSeconds (milliseconds_value t div 1000)"

definition to_unix_seconds_ceil :: "lez_unix_milliseconds \<Rightarrow> unix_seconds" where
  [clock_defs]: "to_unix_seconds_ceil t =
     (let seconds = milliseconds_value t div 1000;
          partial = (if milliseconds_value t mod 1000 = 0 then 0 else 1)
      in UnixSeconds (seconds + partial))"

section \<open>Chain positions\<close>

record chain_position =
  pos_chain :: chain
  pos_basis :: clock_basis
  pos_value :: u64

definition block_height :: "chain \<Rightarrow> u64 \<Rightarrow> chain_position" where
  [clock_defs]: "block_height c height =
     \<lparr>pos_chain = c, pos_basis = BlockHeight, pos_value = height\<rparr>"

definition timestamp :: "chain \<Rightarrow> u64 \<Rightarrow> chain_position" where
  [clock_defs]: "timestamp c secs =
     \<lparr>pos_chain = c, pos_basis = Timestamp, pos_value = secs\<rparr>"

definition lez_timestamp_from_milliseconds_floor ::
    "lez_unix_milliseconds \<Rightarrow> chain_position" where
  [clock_defs]: "lez_timestamp_from_milliseconds_floor t =
     timestamp Chain_Lez (seconds_value (to_unix_seconds_floor t))"

section \<open>Cross-chain safety margin\<close>

record timelock_safety =
  earlier_chain :: chain
  later_chain :: chain
  earlier_refund_latest :: u64
  later_refund_earliest :: u64
  required_margin :: u64

definition timelock_safety_between ::
    "chain \<Rightarrow> chain \<Rightarrow> u64 \<Rightarrow> u64 \<Rightarrow> u64 \<Rightarrow> core_error + timelock_safety" where
  [clock_defs]: "timelock_safety_between earlier later earlier_latest later_earliest margin =
     (case checked_add earlier_latest margin of
        None \<Rightarrow> Err InsufficientTimelockMargin
      | Some required_later_time \<Rightarrow>
          if earlier = later \<or> margin = 0 \<or> later_earliest < required_later_time
          then Err InsufficientTimelockMargin
          else Ok \<lparr>earlier_chain = earlier, later_chain = later,
                   earlier_refund_latest = earlier_latest,
                   later_refund_earliest = later_earliest,
                   required_margin = margin\<rparr>)"

section \<open>Recovery schedules\<close>

datatype maker_recovery_trigger =
    Deadline chain_position
  | CanonicalTakerRefund chain u32

record recovery_schedule =
  rs_maker_trigger :: maker_recovery_trigger
  rs_taker_refund :: chain_position
  rs_safety :: "timelock_safety option"

text \<open>The chains a deadline schedule expects: the maker's refund chain, then the taker's.\<close>

fun expected_chains :: "swap_direction \<Rightarrow> chain \<Rightarrow> chain \<times> chain" where
  "expected_chains TakerSellsForeign foreign = (Chain_Lez, foreign)"
| "expected_chains TakerSellsLez foreign = (foreign, Chain_Lez)"

definition recovery_schedule_new ::
    "pair \<Rightarrow> swap_direction \<Rightarrow> chain_position \<Rightarrow> chain_position \<Rightarrow> timelock_safety
     \<Rightarrow> core_error + recovery_schedule" where
  [clock_defs]: "recovery_schedule_new pair direction maker_refund taker_refund safety =
     (if pair = Pair_Monero
      then (if direction = TakerSellsForeign then Err (UnsupportedDirection pair direction)
            else Err RecoveryRequiresTakerRefundEvent)
      else
        let foreign = chain_from_pair pair;
            (maker_chain, taker_chain) = expected_chains direction foreign;
            (earlier, later) = (if pair = Pair_Bitcoin
                                then (pos_chain maker_refund, pos_chain taker_refund)
                                else (Chain_Lez, Chain_Zcash))
        in if pos_chain maker_refund \<noteq> maker_chain
           then Err (WrongRefundChain ''maker'' maker_chain (pos_chain maker_refund))
           else if pos_chain taker_refund \<noteq> taker_chain
           then Err (WrongRefundChain ''taker'' taker_chain (pos_chain taker_refund))
           else if (earlier_chain safety, later_chain safety) \<noteq> (earlier, later)
           then Err (WrongTimelockOrder pair earlier later)
           else Ok \<lparr>rs_maker_trigger = Deadline maker_refund,
                    rs_taker_refund = taker_refund,
                    rs_safety = Some safety\<rparr>)"

definition xmr_lez_first :: "chain_position \<Rightarrow> u32 \<Rightarrow> core_error + recovery_schedule" where
  [clock_defs]: "xmr_lez_first taker_refund required_event_confirmations =
     (if pos_chain taker_refund \<noteq> Chain_Lez
      then Err (WrongRefundChain ''taker'' Chain_Lez (pos_chain taker_refund))
      else if required_event_confirmations = 0 then Err InvalidConfirmationPolicy
      else Ok \<lparr>rs_maker_trigger = CanonicalTakerRefund Chain_Lez required_event_confirmations,
               rs_taker_refund = taker_refund,
               rs_safety = None\<rparr>)"

definition deadline_for_chain :: "recovery_schedule \<Rightarrow> chain \<Rightarrow> chain_position option" where
  [clock_defs]: "deadline_for_chain rs c =
     (case rs_maker_trigger rs of
        Deadline d \<Rightarrow>
          if pos_chain d = c then Some d
          else if pos_chain (rs_taker_refund rs) = c then Some (rs_taker_refund rs) else None
      | CanonicalTakerRefund _ _ \<Rightarrow>
          if pos_chain (rs_taker_refund rs) = c then Some (rs_taker_refund rs) else None)"

definition required_safety_margin_seconds :: "recovery_schedule \<Rightarrow> u64 option" where
  [clock_defs]: "required_safety_margin_seconds rs = map_option required_margin (rs_safety rs)"

definition deadline_reached :: "chain_position \<Rightarrow> chain_position \<Rightarrow> core_error + bool" where
  [clock_defs]: "deadline_reached deadline observed =
     (if pos_chain deadline \<noteq> pos_chain observed \<or> pos_basis deadline \<noteq> pos_basis observed
      then Err (WrongDeadlineClock (pos_chain deadline) (pos_basis deadline)
                  (pos_chain observed) (pos_basis observed))
      else Ok (pos_value observed \<ge> pos_value deadline))"

definition maker_deadline_reached ::
    "recovery_schedule \<Rightarrow> chain_position \<Rightarrow> core_error + bool" where
  [clock_defs]: "maker_deadline_reached rs observed =
     (case rs_maker_trigger rs of
        Deadline deadline \<Rightarrow> deadline_reached deadline observed
      | CanonicalTakerRefund _ _ \<Rightarrow> Err RecoveryRequiresTakerRefundEvent)"

definition taker_refund_reached ::
    "recovery_schedule \<Rightarrow> chain_position \<Rightarrow> core_error + bool" where
  [clock_defs]: "taker_refund_reached rs observed = deadline_reached (rs_taker_refund rs) observed"

section \<open>Lemmas\<close>

lemma other_involution [simp]: "other (other p) = p"
  by (cases p) simp_all

lemma other_neq [simp]: "other p \<noteq> p"
  by (cases p) simp_all

lemma deadline_reached_True:
  "deadline_reached d q = Ok True \<longleftrightarrow>
     pos_chain q = pos_chain d \<and> pos_basis q = pos_basis d \<and> pos_value d \<le> pos_value q"
  by (auto simp: deadline_reached_def)

lemma deadline_reached_self [simp]: "deadline_reached d d = Ok True"
  by (simp add: deadline_reached_True)

lemma deadline_reached_cases:
  obtains e where "deadline_reached d q = Err e"
  | "deadline_reached d q = Ok True"
  | "deadline_reached d q = Ok False"
  by (cases "deadline_reached d q") auto

lemma timelock_safety_between_Ok:
  "timelock_safety_between a b el le m = Ok s \<longleftrightarrow>
     unat el + unat m < 2 ^ 64 \<and> a \<noteq> b \<and> m \<noteq> 0 \<and> unat el + unat m \<le> unat le \<and>
     s = \<lparr>earlier_chain = a, later_chain = b, earlier_refund_latest = el,
          later_refund_earliest = le, required_margin = m\<rparr>"
proof (cases "checked_add el m")
  case None
  then have "\<not> unat el + unat m < 2 ^ 64"
    by (simp add: checked_add_def split: if_splits)
  with None show ?thesis
    by (simp add: timelock_safety_between_def)
next
  case (Some c)
  then have c: "unat c = unat el + unat m" and bound: "unat el + unat m < 2 ^ 64"
    by (rule unat_checked_add, simp add: checked_add_Some)
  from Some bound show ?thesis
    by (auto simp: timelock_safety_between_def word_less_nat_alt c not_less)
qed

lemma recovery_schedule_new_Ok:
  "recovery_schedule_new p d m t s = Ok rs \<longleftrightarrow>
     p \<noteq> Pair_Monero \<and>
     (pos_chain m, pos_chain t) = expected_chains d (chain_from_pair p) \<and>
     (earlier_chain s, later_chain s) =
       (if p = Pair_Bitcoin then (pos_chain m, pos_chain t) else (Chain_Lez, Chain_Zcash)) \<and>
     rs = \<lparr>rs_maker_trigger = Deadline m, rs_taker_refund = t, rs_safety = Some s\<rparr>"
  by (cases p; cases d) (auto simp: recovery_schedule_new_def)

end
