(* ===== verification/Swap_Coordinator.thy ===== *)
theory Swap_Coordinator
  imports Swap_Clock
begin

text \<open>
  The chain-independent swap state machine of \<open>crates/swap-core/src/lib.rs\<close>: the
  \<open>SwapCoordinator\<close> record and its ten mutating observations. A method taking
  \<open>&mut self\<close> returns its \<open>Result\<close> together with the coordinator after the call, so
  that what an error leaves behind is a fact to prove and not a convention of the
  model. \<open>apply_event\<close> runs one observation, \<open>coord_step\<close> keeps its state, and a
  trace is a run of \<open>coord_step\<close>.
\<close>

named_theorems coord_defs \<open>definitions of the coordinator operations\<close>

section \<open>Identifiers, proofs, policies\<close>

datatype swap_id = SwapId string

definition swap_id_new :: "string \<Rightarrow> core_error + swap_id" where
  "swap_id_new text = (if text = [] \<or> length text > 128 then Err InvalidIdentifier else Ok (SwapId text))"

record chain_proof =
  transaction_id :: string
  confirmations :: u32

definition chain_proof_new :: "string \<Rightarrow> u32 \<Rightarrow> core_error + chain_proof" where
  "chain_proof_new tx confs =
     (if tx = [] \<or> length tx > 128 then Err InvalidIdentifier
      else Ok \<lparr>transaction_id = tx, confirmations = confs\<rparr>)"

record chain_event_proof =
  event_chain :: chain
  event_proof :: chain_proof

definition chain_event_proof_new ::
    "chain \<Rightarrow> string \<Rightarrow> u32 \<Rightarrow> core_error + chain_event_proof" where
  "chain_event_proof_new c tx confs =
     and_then (chain_proof_new tx confs) (\<lambda>p. Ok \<lparr>event_chain = c, event_proof = p\<rparr>)"

datatype confirmation_policy = ConfirmationPolicy u32

definition confirmation_policy_new :: "u32 \<Rightarrow> core_error + confirmation_policy" where
  "confirmation_policy_new n =
     (if n = 0 then Err InvalidConfirmationPolicy else Ok (ConfirmationPolicy n))"

fun required :: "confirmation_policy \<Rightarrow> u32" where
  "required (ConfirmationPolicy n) = n"

definition default_maker_confirmation_policy :: confirmation_policy where
  "default_maker_confirmation_policy = ConfirmationPolicy 1"

text \<open>The SHA-256 function of the \<open>sha2\<close> package is the parameter \<open>sha256\<close>.\<close>

datatype claim_evidence = ClaimEvidence bytes

definition claim_evidence_new :: "(bytes \<Rightarrow> bytes) \<Rightarrow> bytes \<Rightarrow> claim_evidence" where
  "claim_evidence_new sha256 secret = ClaimEvidence (sha256 secret)"

section \<open>The coordinator\<close>

record swap_coordinator =
  sc_id :: swap_id
  sc_pair :: pair
  sc_direction :: swap_direction
  sc_confirmation_policy :: confirmation_policy
  sc_maker_confirmation_policy :: confirmation_policy
  sc_recovery_schedule :: recovery_schedule
  sc_phase :: phase
  taker_funding_confirmed :: bool
  maker_funding_confirmed :: bool
  taker_lock_transaction_id :: "string option"
  maker_lock_transaction_id :: "string option"
  sc_claim_evidence :: "claim_evidence option"
  revealing_claim_transaction_id :: "string option"
  followup_claim_transaction_id :: "string option"
  taker_refund_event_transaction_id :: "string option"
  maker_recovery_transaction_id :: "string option"

definition coordinator_new_with_confirmation_policies ::
    "swap_id \<Rightarrow> pair \<Rightarrow> swap_direction \<Rightarrow> confirmation_policy \<Rightarrow> confirmation_policy
     \<Rightarrow> recovery_schedule \<Rightarrow> swap_coordinator" where
  "coordinator_new_with_confirmation_policies i p d taker_policy maker_policy rs =
     \<lparr>sc_id = i, sc_pair = p, sc_direction = d,
      sc_confirmation_policy = taker_policy,
      sc_maker_confirmation_policy = maker_policy,
      sc_recovery_schedule = rs, sc_phase = Offered,
      taker_funding_confirmed = False, maker_funding_confirmed = False,
      taker_lock_transaction_id = None, maker_lock_transaction_id = None,
      sc_claim_evidence = None, revealing_claim_transaction_id = None,
      followup_claim_transaction_id = None, taker_refund_event_transaction_id = None,
      maker_recovery_transaction_id = None\<rparr>"

definition coordinator_new_with_direction ::
    "swap_id \<Rightarrow> pair \<Rightarrow> swap_direction \<Rightarrow> confirmation_policy \<Rightarrow> recovery_schedule
     \<Rightarrow> swap_coordinator" where
  "coordinator_new_with_direction i p d policy rs =
     coordinator_new_with_confirmation_policies i p d policy default_maker_confirmation_policy rs"

definition coordinator_new ::
    "swap_id \<Rightarrow> pair \<Rightarrow> confirmation_policy \<Rightarrow> recovery_schedule \<Rightarrow> swap_coordinator" where
  "coordinator_new i p policy rs = coordinator_new_with_direction i p TakerSellsForeign policy rs"

fun funded_chain :: "swap_coordinator \<Rightarrow> participant \<Rightarrow> chain" where
  "funded_chain s q =
     (case (sc_direction s, q) of
        (TakerSellsForeign, Taker) \<Rightarrow> chain_from_pair (sc_pair s)
      | (TakerSellsLez, Maker) \<Rightarrow> chain_from_pair (sc_pair s)
      | (TakerSellsForeign, Maker) \<Rightarrow> Chain_Lez
      | (TakerSellsLez, Taker) \<Rightarrow> Chain_Lez)"

fun funding_transaction_id :: "swap_coordinator \<Rightarrow> participant \<Rightarrow> string option" where
  "funding_transaction_id s Maker = maker_lock_transaction_id s"
| "funding_transaction_id s Taker = taker_lock_transaction_id s"

fun required_confirmations :: "swap_coordinator \<Rightarrow> participant \<Rightarrow> u32" where
  "required_confirmations s Maker = required (sc_maker_confirmation_policy s)"
| "required_confirmations s Taker = required (sc_confirmation_policy s)"

fun claimant_order :: "pair \<Rightarrow> swap_direction \<Rightarrow> participant" where
  "claimant_order Pair_Bitcoin _ = Taker"
| "claimant_order Pair_Zcash TakerSellsForeign = Taker"
| "claimant_order Pair_Monero _ = Maker"
| "claimant_order Pair_Zcash TakerSellsLez = Maker"

definition first_claimant :: "swap_coordinator \<Rightarrow> participant" where
  "first_claimant s = claimant_order (sc_pair s) (sc_direction s)"

section \<open>Funding observations\<close>

type_synonym coord_result = "(core_error + unit) \<times> swap_coordinator"

text \<open>
  The phase tables of the two lock observations. The last argument says whether claim
  evidence is already known.
\<close>

definition taker_lock_phase :: "phase \<Rightarrow> bool \<Rightarrow> bool \<Rightarrow> phase" where
  [coord_defs]: "taker_lock_phase ph confirmed evidence_known =
     (if ph \<in> {Offered, AwaitingTakerConfirmations, TakerLockConfirmed}
      then (if confirmed then TakerLockConfirmed else AwaitingTakerConfirmations)
      else if ph \<in> {BothLegsLocked, ClaimEvidenceAvailable} \<and> \<not> confirmed then TakerLockReorged
      else if ph = TakerLockReorged \<and> confirmed
      then (if evidence_known then ClaimEvidenceAvailable else BothLegsLocked)
      else ph)"

definition maker_lock_phase :: "phase \<Rightarrow> bool \<Rightarrow> bool \<Rightarrow> phase" where
  [coord_defs]: "maker_lock_phase ph confirmed evidence_known =
     (if ph = AwaitingMakerConfirmations \<and> \<not> confirmed then AwaitingMakerConfirmations
      else if ph \<in> {BothLegsLocked, ClaimEvidenceAvailable} \<and> \<not> confirmed then MakerLockReorged
      else if ph = MakerLockReorged \<and> confirmed \<and> evidence_known then ClaimEvidenceAvailable
      else if ph \<in> {AwaitingMakerConfirmations, MakerLockReorged} \<and> confirmed then BothLegsLocked
      else ph)"

definition observe_taker_lock :: "swap_coordinator \<Rightarrow> chain_proof \<Rightarrow> coord_result" where
  [coord_defs]: "observe_taker_lock s proof =
     (if taker_lock_transaction_id s \<notin> {None, Some (transaction_id proof)}
      then (Err ConflictingTakerLock, s)
      else if sc_phase s \<in> {Completed, Refunded} then (Ok (), s)
      else
        let confirmed = required (sc_confirmation_policy s) \<le> confirmations proof
        in (Ok (), s\<lparr>taker_lock_transaction_id := Some (transaction_id proof),
                     taker_funding_confirmed := confirmed,
                     sc_phase := taker_lock_phase (sc_phase s) confirmed
                                   (sc_claim_evidence s \<noteq> None)\<rparr>))"

definition observe_taker_lock_removed :: "swap_coordinator \<Rightarrow> string \<Rightarrow> coord_result" where
  [coord_defs]: "observe_taker_lock_removed s tx =
     (if taker_lock_transaction_id s \<noteq> Some tx then (Err ConflictingTakerLock, s)
      else
        let s = s\<lparr>taker_funding_confirmed := False\<rparr>
        in if sc_phase s \<in> {AwaitingTakerConfirmations, TakerLockConfirmed}
           then (Ok (), s\<lparr>taker_lock_transaction_id := None, sc_phase := Offered\<rparr>)
           else if sc_phase s \<in> {AwaitingMakerConfirmations, BothLegsLocked, ClaimEvidenceAvailable}
           then (Ok (), s\<lparr>sc_phase := TakerLockReorged\<rparr>)
           else (Ok (), s))"

definition observe_maker_lock :: "swap_coordinator \<Rightarrow> chain_proof \<Rightarrow> coord_result" where
  [coord_defs]: "observe_maker_lock s proof =
     (let confirmed = required (sc_maker_confirmation_policy s) \<le> confirmations proof
      in if sc_phase s \<in> {AwaitingMakerConfirmations, BothLegsLocked, MakerLockReorged,
                           ClaimEvidenceAvailable}
         then
           (if maker_lock_transaction_id s \<noteq> Some (transaction_id proof)
            then (Err ConflictingMakerLock, s)
            else (Ok (), s\<lparr>maker_funding_confirmed := confirmed,
                           sc_phase := maker_lock_phase (sc_phase s) confirmed
                                         (sc_claim_evidence s \<noteq> None)\<rparr>))
         else if sc_phase s \<noteq> TakerLockConfirmed
         then (case maker_lock_transaction_id s of
                 Some known \<Rightarrow>
                   if known = transaction_id proof then (Ok (), s) else (Err ConflictingMakerLock, s)
               | None \<Rightarrow> (Err TakerLockNotConfirmed, s))
         else (Ok (), s\<lparr>maker_lock_transaction_id := Some (transaction_id proof),
                        maker_funding_confirmed := confirmed,
                        sc_phase := (if confirmed then BothLegsLocked
                                     else AwaitingMakerConfirmations)\<rparr>))"

definition observe_maker_lock_removed :: "swap_coordinator \<Rightarrow> string \<Rightarrow> coord_result" where
  [coord_defs]: "observe_maker_lock_removed s tx =
     (if maker_lock_transaction_id s \<noteq> Some tx then (Err ConflictingMakerLock, s)
      else
        let s = s\<lparr>maker_funding_confirmed := False\<rparr>
        in if sc_phase s = AwaitingMakerConfirmations
           then (Ok (), s\<lparr>maker_lock_transaction_id := None, sc_phase := TakerLockConfirmed\<rparr>)
           else if sc_phase s \<in> {BothLegsLocked, ClaimEvidenceAvailable}
           then (Ok (), s\<lparr>sc_phase := MakerLockReorged\<rparr>)
           else (Ok (), s))"

fun observe_funding :: "swap_coordinator \<Rightarrow> participant \<Rightarrow> chain_proof \<Rightarrow> coord_result" where
  "observe_funding s Maker proof = observe_maker_lock s proof"
| "observe_funding s Taker proof = observe_taker_lock s proof"

fun observe_funding_removed :: "swap_coordinator \<Rightarrow> participant \<Rightarrow> string \<Rightarrow> coord_result" where
  "observe_funding_removed s Maker tx = observe_maker_lock_removed s tx"
| "observe_funding_removed s Taker tx = observe_taker_lock_removed s tx"

section \<open>Claims\<close>

definition both_legs_funded :: "swap_coordinator \<Rightarrow> core_error + unit" where
  [coord_defs]: "both_legs_funded s =
     (if \<not> taker_funding_confirmed s \<or> taker_lock_transaction_id s = None
      then Err TakerLockNotConfirmed
      else if \<not> maker_funding_confirmed s \<or> maker_lock_transaction_id s = None
      then Err MakerLockNotConfirmed
      else Ok ())"

definition observe_revealing_claim ::
    "swap_coordinator \<Rightarrow> participant \<Rightarrow> chain_proof \<Rightarrow> claim_evidence \<Rightarrow> coord_result" where
  [coord_defs]: "observe_revealing_claim s claimant proof evidence =
     (if claimant \<noteq> first_claimant s
      then (Err (UnexpectedClaimant (first_claimant s) claimant), s)
      else if sc_phase s = TakerLockReorged then (Err TakerLockNotConfirmed, s)
      else if sc_phase s = MakerLockReorged then (Err MakerLockNotConfirmed, s)
      else case both_legs_funded s of
        Inl e \<Rightarrow> (Err e, s)
      | Inr _ \<Rightarrow>
          if sc_phase s \<noteq> BothLegsLocked
          then (case (revealing_claim_transaction_id s, sc_claim_evidence s) of
                  (Some known_id, Some known_evidence) \<Rightarrow>
                    if known_id = transaction_id proof \<and> known_evidence = evidence
                    then (Ok (), s) else (Err ConflictingClaimEvidence, s)
                | _ \<Rightarrow> (Err (InvalidPhase BothLegsLocked (sc_phase s)), s))
          else (Ok (), s\<lparr>revealing_claim_transaction_id := Some (transaction_id proof),
                         sc_claim_evidence := Some evidence,
                         sc_phase := ClaimEvidenceAvailable\<rparr>))"

definition observe_followup_claim ::
    "swap_coordinator \<Rightarrow> participant \<Rightarrow> chain_proof \<Rightarrow> coord_result" where
  [coord_defs]: "observe_followup_claim s claimant proof =
     (if claimant \<noteq> other (first_claimant s)
      then (Err (UnexpectedClaimant (other (first_claimant s)) claimant), s)
      else if sc_phase s = TakerLockReorged then (Err TakerLockNotConfirmed, s)
      else if sc_phase s = MakerLockReorged then (Err MakerLockNotConfirmed, s)
      else case both_legs_funded s of
        Inl e \<Rightarrow> (Err e, s)
      | Inr _ \<Rightarrow>
          if sc_phase s \<noteq> ClaimEvidenceAvailable
          then (case followup_claim_transaction_id s of
                  Some known \<Rightarrow>
                    if known = transaction_id proof then (Ok (), s)
                    else (Err ConflictingTakerClaim, s)
                | None \<Rightarrow> (Err (InvalidPhase ClaimEvidenceAvailable (sc_phase s)), s))
          else (Ok (), s\<lparr>followup_claim_transaction_id := Some (transaction_id proof),
                         sc_phase := Completed\<rparr>))"

section \<open>Refunds and event-gated recovery\<close>

definition refund_maker_leg :: "swap_coordinator \<Rightarrow> chain_position \<Rightarrow> coord_result" where
  [coord_defs]: "refund_maker_leg s observed =
     (if sc_phase s \<notin> {BothLegsLocked, AwaitingMakerConfirmations, TakerLockReorged,
                        MakerLockReorged, TakerLegRefunded}
      then (Err (InvalidPhase BothLegsLocked (sc_phase s)), s)
      else case maker_deadline_reached (sc_recovery_schedule s) observed of
        Inl e \<Rightarrow> (Err e, s)
      | Inr False \<Rightarrow> (Err TimelockNotExpired, s)
      | Inr True \<Rightarrow>
          (Ok (), s\<lparr>sc_phase := (if sc_phase s = TakerLegRefunded then Refunded
                                 else MakerLegRefunded)\<rparr>))"

definition observe_taker_refund_for_maker_recovery ::
    "swap_coordinator \<Rightarrow> chain_event_proof \<Rightarrow> coord_result" where
  [coord_defs]: "observe_taker_refund_for_maker_recovery s evidence =
     (case rs_maker_trigger (sc_recovery_schedule s) of
        Deadline _ \<Rightarrow> (Err (InvalidPhase TakerLegRefunded (sc_phase s)), s)
      | CanonicalTakerRefund c needed \<Rightarrow>
          if event_chain evidence \<noteq> c
          then (Err (WrongRecoveryEventChain c (event_chain evidence)), s)
          else if taker_refund_event_transaction_id s
                    \<notin> {None, Some (transaction_id (event_proof evidence))}
          then (Err ConflictingTakerRefundEvent, s)
          else if confirmations (event_proof evidence) < needed
          then (if sc_phase s = MakerRecoveryAvailable
                then (Ok (), s\<lparr>sc_phase := TakerLegRefunded\<rparr>)
                else (Err (InsufficientRecoveryEventConfirmations needed
                             (confirmations (event_proof evidence))), s))
          else if sc_phase s \<in> {MakerRecoveryAvailable, Refunded} then (Ok (), s)
          else if sc_phase s \<noteq> TakerLegRefunded
          then (Err (InvalidPhase TakerLegRefunded (sc_phase s)), s)
          else (Ok (), s\<lparr>taker_refund_event_transaction_id :=
                           Some (transaction_id (event_proof evidence)),
                         sc_phase := MakerRecoveryAvailable\<rparr>))"

definition observe_maker_recovery :: "swap_coordinator \<Rightarrow> chain_proof \<Rightarrow> coord_result" where
  [coord_defs]: "observe_maker_recovery s proof =
     (if maker_recovery_transaction_id s \<notin> {None, Some (transaction_id proof)}
      then (Err ConflictingMakerRecovery, s)
      else if sc_phase s = Refunded \<and> maker_recovery_transaction_id s \<noteq> None then (Ok (), s)
      else if sc_phase s \<noteq> MakerRecoveryAvailable
      then (Err (InvalidPhase MakerRecoveryAvailable (sc_phase s)), s)
      else (Ok (), s\<lparr>maker_recovery_transaction_id := Some (transaction_id proof),
                     sc_phase := Refunded\<rparr>))"

definition refund_taker_leg :: "swap_coordinator \<Rightarrow> chain_position \<Rightarrow> coord_result" where
  [coord_defs]: "refund_taker_leg s observed =
     (if sc_phase s \<notin> {AwaitingTakerConfirmations, TakerLockConfirmed,
                        AwaitingMakerConfirmations, BothLegsLocked, TakerLockReorged,
                        MakerLockReorged, MakerLegRefunded}
      then (Err (InvalidPhase TakerLockConfirmed (sc_phase s)), s)
      else case taker_refund_reached (sc_recovery_schedule s) observed of
        Inl e \<Rightarrow> (Err e, s)
      | Inr False \<Rightarrow> (Err TimelockNotExpired, s)
      | Inr True \<Rightarrow>
          (Ok (), s\<lparr>sc_phase := (if sc_phase s \<in> {AwaitingTakerConfirmations,
                                     TakerLockConfirmed, MakerLegRefunded}
                                 then Refunded else TakerLegRefunded)\<rparr>))"

section \<open>Events and traces\<close>

datatype coord_event =
    EvFunding participant chain_proof
  | EvFundingRemoved participant string
  | EvRevealingClaim participant chain_proof claim_evidence
  | EvFollowupClaim participant chain_proof
  | EvRefundMaker chain_position
  | EvTakerRefundEvent chain_event_proof
  | EvMakerRecovery chain_proof
  | EvRefundTaker chain_position

fun apply_event :: "swap_coordinator \<Rightarrow> coord_event \<Rightarrow> coord_result" where
  "apply_event s (EvFunding q proof) = observe_funding s q proof"
| "apply_event s (EvFundingRemoved q tx) = observe_funding_removed s q tx"
| "apply_event s (EvRevealingClaim q proof ev) = observe_revealing_claim s q proof ev"
| "apply_event s (EvFollowupClaim q proof) = observe_followup_claim s q proof"
| "apply_event s (EvRefundMaker at) = refund_maker_leg s at"
| "apply_event s (EvTakerRefundEvent ev) = observe_taker_refund_for_maker_recovery s ev"
| "apply_event s (EvMakerRecovery proof) = observe_maker_recovery s proof"
| "apply_event s (EvRefundTaker at) = refund_taker_leg s at"

definition coord_step :: "swap_coordinator \<Rightarrow> coord_event \<Rightarrow> swap_coordinator" where
  "coord_step s e = snd (apply_event s e)"

lemma coord_event_cases [case_names TakerLock MakerLock TakerRemoved MakerRemoved Revealing
    Followup RefundMaker TakerRefund MakerRecovery RefundTaker]:
  obtains p where "e = EvFunding Taker p"
  | p where "e = EvFunding Maker p"
  | tx where "e = EvFundingRemoved Taker tx"
  | tx where "e = EvFundingRemoved Maker tx"
  | q p ev where "e = EvRevealingClaim q p ev"
  | q p where "e = EvFollowupClaim q p"
  | at where "e = EvRefundMaker at"
  | ev where "e = EvTakerRefundEvent ev"
  | p where "e = EvMakerRecovery p"
  | at where "e = EvRefundTaker at"
proof (cases e)
  case (EvFunding q p)
  then show ?thesis using that(1,2) by (cases q) auto
next
  case (EvFundingRemoved q tx)
  then show ?thesis using that(3,4) by (cases q) auto
qed (use that in auto)

end
