(* ===== verification/Coordinator_Spec.thy ===== *)
theory Coordinator_Spec
  imports Swap_Coordinator
begin

text \<open>
  The state-changing branches of the ten methods as one relation, a rule per branch: a call
  of a method of \<open>Swap_Coordinator\<close> either leaves the coordinator as it was or succeeds with
  one transition of the relation. The relation follows the code branch by branch and is the
  case and induction rule of the theories below; what the coordinator promises its caller is
  the lifecycle of \<open>Coordinator_Lifecycle\<close>.
\<close>

section \<open>The transition relation\<close>

inductive coord_trans :: "swap_coordinator \<Rightarrow> coord_event \<Rightarrow> swap_coordinator \<Rightarrow> bool" where
  taker_lock:
    "taker_lock_transaction_id s \<in> {None, Some (transaction_id p)} \<Longrightarrow>
     sc_phase s \<notin> {Completed, Refunded} \<Longrightarrow>
     c = (required (sc_confirmation_policy s) \<le> confirmations p) \<Longrightarrow>
     t = s\<lparr>taker_lock_transaction_id := Some (transaction_id p), taker_funding_confirmed := c,
           sc_phase := taker_lock_phase (sc_phase s) c (sc_claim_evidence s \<noteq> None)\<rparr> \<Longrightarrow>
     coord_trans s (EvFunding Taker p) t"
| taker_removed_uncommitted:
    "taker_lock_transaction_id s = Some tx \<Longrightarrow>
     sc_phase s \<in> {AwaitingTakerConfirmations, TakerLockConfirmed} \<Longrightarrow>
     t = s\<lparr>taker_funding_confirmed := False, taker_lock_transaction_id := None,
           sc_phase := Offered\<rparr> \<Longrightarrow>
     coord_trans s (EvFundingRemoved Taker tx) t"
| taker_removed_committed:
    "taker_lock_transaction_id s = Some tx \<Longrightarrow>
     sc_phase s \<in> {AwaitingMakerConfirmations, BothLegsLocked, ClaimEvidenceAvailable} \<Longrightarrow>
     t = s\<lparr>taker_funding_confirmed := False, sc_phase := TakerLockReorged\<rparr> \<Longrightarrow>
     coord_trans s (EvFundingRemoved Taker tx) t"
| taker_removed_flag:
    "taker_lock_transaction_id s = Some tx \<Longrightarrow>
     sc_phase s \<notin> {AwaitingTakerConfirmations, TakerLockConfirmed, AwaitingMakerConfirmations,
                    BothLegsLocked, ClaimEvidenceAvailable} \<Longrightarrow>
     t = s\<lparr>taker_funding_confirmed := False\<rparr> \<Longrightarrow>
     coord_trans s (EvFundingRemoved Taker tx) t"
| maker_lock_first:
    "sc_phase s = TakerLockConfirmed \<Longrightarrow>
     c = (required (sc_maker_confirmation_policy s) \<le> confirmations p) \<Longrightarrow>
     t = s\<lparr>maker_lock_transaction_id := Some (transaction_id p), maker_funding_confirmed := c,
           sc_phase := (if c then BothLegsLocked else AwaitingMakerConfirmations)\<rparr> \<Longrightarrow>
     coord_trans s (EvFunding Maker p) t"
| maker_lock_again:
    "sc_phase s \<in> {AwaitingMakerConfirmations, BothLegsLocked, MakerLockReorged,
                    ClaimEvidenceAvailable} \<Longrightarrow>
     maker_lock_transaction_id s = Some (transaction_id p) \<Longrightarrow>
     c = (required (sc_maker_confirmation_policy s) \<le> confirmations p) \<Longrightarrow>
     t = s\<lparr>maker_funding_confirmed := c,
           sc_phase := maker_lock_phase (sc_phase s) c (sc_claim_evidence s \<noteq> None)\<rparr> \<Longrightarrow>
     coord_trans s (EvFunding Maker p) t"
| maker_removed_uncommitted:
    "maker_lock_transaction_id s = Some tx \<Longrightarrow> sc_phase s = AwaitingMakerConfirmations \<Longrightarrow>
     t = s\<lparr>maker_funding_confirmed := False, maker_lock_transaction_id := None,
           sc_phase := TakerLockConfirmed\<rparr> \<Longrightarrow>
     coord_trans s (EvFundingRemoved Maker tx) t"
| maker_removed_committed:
    "maker_lock_transaction_id s = Some tx \<Longrightarrow>
     sc_phase s \<in> {BothLegsLocked, ClaimEvidenceAvailable} \<Longrightarrow>
     t = s\<lparr>maker_funding_confirmed := False, sc_phase := MakerLockReorged\<rparr> \<Longrightarrow>
     coord_trans s (EvFundingRemoved Maker tx) t"
| maker_removed_flag:
    "maker_lock_transaction_id s = Some tx \<Longrightarrow>
     sc_phase s \<notin> {AwaitingMakerConfirmations, BothLegsLocked, ClaimEvidenceAvailable} \<Longrightarrow>
     t = s\<lparr>maker_funding_confirmed := False\<rparr> \<Longrightarrow>
     coord_trans s (EvFundingRemoved Maker tx) t"
| revealing_claim:
    "q = first_claimant s \<Longrightarrow> sc_phase s = BothLegsLocked \<Longrightarrow> both_legs_funded s = Ok () \<Longrightarrow>
     t = s\<lparr>revealing_claim_transaction_id := Some (transaction_id p),
           sc_claim_evidence := Some ev, sc_phase := ClaimEvidenceAvailable\<rparr> \<Longrightarrow>
     coord_trans s (EvRevealingClaim q p ev) t"
| followup_claim:
    "q = other (first_claimant s) \<Longrightarrow> sc_phase s = ClaimEvidenceAvailable \<Longrightarrow>
     both_legs_funded s = Ok () \<Longrightarrow>
     t = s\<lparr>followup_claim_transaction_id := Some (transaction_id p), sc_phase := Completed\<rparr> \<Longrightarrow>
     coord_trans s (EvFollowupClaim q p) t"
| refund_maker:
    "sc_phase s \<in> {BothLegsLocked, AwaitingMakerConfirmations, TakerLockReorged,
                    MakerLockReorged, TakerLegRefunded} \<Longrightarrow>
     maker_deadline_reached (sc_recovery_schedule s) at = Ok True \<Longrightarrow>
     t = s\<lparr>sc_phase := (if sc_phase s = TakerLegRefunded then Refunded else MakerLegRefunded)\<rparr> \<Longrightarrow>
     coord_trans s (EvRefundMaker at) t"
| taker_refund_lost:
    "rs_maker_trigger (sc_recovery_schedule s) = CanonicalTakerRefund (event_chain ev) n \<Longrightarrow>
     taker_refund_event_transaction_id s \<in> {None, Some (transaction_id (event_proof ev))} \<Longrightarrow>
     confirmations (event_proof ev) < n \<Longrightarrow> sc_phase s = MakerRecoveryAvailable \<Longrightarrow>
     t = s\<lparr>sc_phase := TakerLegRefunded\<rparr> \<Longrightarrow>
     coord_trans s (EvTakerRefundEvent ev) t"
| taker_refund_seen:
    "rs_maker_trigger (sc_recovery_schedule s) = CanonicalTakerRefund (event_chain ev) n \<Longrightarrow>
     taker_refund_event_transaction_id s \<in> {None, Some (transaction_id (event_proof ev))} \<Longrightarrow>
     n \<le> confirmations (event_proof ev) \<Longrightarrow> sc_phase s = TakerLegRefunded \<Longrightarrow>
     t = s\<lparr>taker_refund_event_transaction_id := Some (transaction_id (event_proof ev)),
           sc_phase := MakerRecoveryAvailable\<rparr> \<Longrightarrow>
     coord_trans s (EvTakerRefundEvent ev) t"
| maker_recovery:
    "maker_recovery_transaction_id s \<in> {None, Some (transaction_id p)} \<Longrightarrow>
     sc_phase s = MakerRecoveryAvailable \<Longrightarrow>
     t = s\<lparr>maker_recovery_transaction_id := Some (transaction_id p), sc_phase := Refunded\<rparr> \<Longrightarrow>
     coord_trans s (EvMakerRecovery p) t"
| refund_taker:
    "sc_phase s \<in> {AwaitingTakerConfirmations, TakerLockConfirmed, AwaitingMakerConfirmations,
                    BothLegsLocked, TakerLockReorged, MakerLockReorged, MakerLegRefunded} \<Longrightarrow>
     taker_refund_reached (sc_recovery_schedule s) at = Ok True \<Longrightarrow>
     t = s\<lparr>sc_phase := (if sc_phase s \<in> {AwaitingTakerConfirmations, TakerLockConfirmed,
                            MakerLegRefunded} then Refunded else TakerLegRefunded)\<rparr> \<Longrightarrow>
     coord_trans s (EvRefundTaker at) t"

section \<open>The methods implement the relation\<close>

definition implements :: "swap_coordinator \<Rightarrow> coord_event \<Rightarrow> coord_result \<Rightarrow> bool" where
  "implements s e r \<longleftrightarrow> snd r = s \<or> fst r = Ok () \<and> coord_trans s e (snd r)"

lemma implements_same [simp]: "implements s e (x, s)"
  by (simp add: implements_def)

lemma implements_trans: "coord_trans s e t \<Longrightarrow> implements s e (Inr (), t)"
  by (simp add: implements_def)

lemmas implements_intros = coord_trans.intros [THEN implements_trans]

lemma implements_taker_lock: "implements s (EvFunding Taker p) (observe_taker_lock s p)"
  by (simp add: observe_taker_lock_def Let_def implements_intros(1))

lemma implements_taker_removed:
  "implements s (EvFundingRemoved Taker tx) (observe_taker_lock_removed s tx)"
  by (simp add: observe_taker_lock_removed_def Let_def implements_intros(2-4))

lemma implements_maker_lock: "implements s (EvFunding Maker p) (observe_maker_lock s p)"
  by (simp add: observe_maker_lock_def Let_def implements_intros(5,6) split: option.split)

lemma implements_maker_removed:
  "implements s (EvFundingRemoved Maker tx) (observe_maker_lock_removed s tx)"
  by (simp add: observe_maker_lock_removed_def Let_def implements_intros(7-9))

lemma implements_revealing:
  "implements s (EvRevealingClaim q p ev) (observe_revealing_claim s q p ev)"
  by (simp add: observe_revealing_claim_def implements_intros(10) split: option.split sum.split)

lemma implements_followup: "implements s (EvFollowupClaim q p) (observe_followup_claim s q p)"
  by (simp add: observe_followup_claim_def implements_intros(11) split: option.split sum.split)

lemma implements_refund_maker: "implements s (EvRefundMaker at) (refund_maker_leg s at)"
  by (simp add: refund_maker_leg_def implements_intros(12) split: bool.split sum.split)

lemma implements_taker_refund:
  "implements s (EvTakerRefundEvent ev) (observe_taker_refund_for_maker_recovery s ev)"
  by (simp add: observe_taker_refund_for_maker_recovery_def implements_intros(13,14)
      split: maker_recovery_trigger.split)

lemma implements_maker_recovery: "implements s (EvMakerRecovery p) (observe_maker_recovery s p)"
  by (simp add: observe_maker_recovery_def implements_intros(15))

lemma implements_refund_taker: "implements s (EvRefundTaker at) (refund_taker_leg s at)"
  by (simp add: refund_taker_leg_def implements_intros(16) split: bool.split sum.split)

lemmas implements_ops =
  implements_taker_lock implements_taker_removed implements_maker_lock implements_maker_removed
  implements_revealing implements_followup implements_refund_maker implements_taker_refund
  implements_maker_recovery implements_refund_taker

lemma apply_event_implements: "implements s e (apply_event s e)"
  by (cases e rule: coord_event_cases) (simp_all add: implements_ops)

lemma apply_event_of_trans: "coord_trans s e t \<Longrightarrow> apply_event s e = (Ok (), t)"
  by (cases rule: coord_trans.cases, assumption)
    (auto simp: observe_taker_lock_def observe_taker_lock_removed_def observe_maker_lock_def
      observe_maker_lock_removed_def observe_revealing_claim_def observe_followup_claim_def
      refund_maker_leg_def observe_taker_refund_for_maker_recovery_def observe_maker_recovery_def
      refund_taker_leg_def Let_def)

lemma coord_step_trans: "coord_step s e = s \<or> coord_trans s e (coord_step s e)"
  using apply_event_implements [of s e] by (auto simp: implements_def coord_step_def)

lemma coord_step_of_trans: "coord_trans s e t \<Longrightarrow> coord_step s e = t"
  by (simp only: coord_step_def apply_event_of_trans snd_conv)

lemma coord_step_changed: "coord_step s e \<noteq> s \<Longrightarrow> coord_trans s e (coord_step s e)"
  using coord_step_trans by blast

lemma coord_step_induct:
  "P s \<Longrightarrow> (\<And>t. coord_trans s e t \<Longrightarrow> P t) \<Longrightarrow> P (coord_step s e)"
  using coord_step_trans [of s e] by auto

end
