(* ===== verification/Coordinator_Invariants.thy ===== *)
theory Coordinator_Invariants
  imports Coordinator_Spec
begin

text \<open>
  Invariants, frames, histories and progress of the coordinator. \<open>phase_shape\<close> says which
  facts each phase implies about the recorded transaction identifiers; \<open>coord_inv\<close> adds
  the agreement between the two claim records and between the funding flags and the
  locks. The locales \<open>step_system\<close> and \<open>step_frame\<close> of the prelude are interpreted for
  the coordinator's step, once per preserved fact.
\<close>

section \<open>The invariant\<close>

text \<open>
  The arguments say whether the taker lock, the maker lock, the claim evidence, the
  follow-up claim, the taker refund event and the maker recovery are recorded.
\<close>

fun phase_shape :: "phase \<Rightarrow> bool \<Rightarrow> bool \<Rightarrow> bool \<Rightarrow> bool \<Rightarrow> bool \<Rightarrow> bool \<Rightarrow> bool" where
  "phase_shape Offered tk mk ev fu re mr = (\<not> tk \<and> \<not> mk \<and> \<not> ev \<and> \<not> fu \<and> \<not> re \<and> \<not> mr)"
| "phase_shape AwaitingTakerConfirmations tk mk ev fu re mr =
     (tk \<and> \<not> mk \<and> \<not> ev \<and> \<not> fu \<and> \<not> re \<and> \<not> mr)"
| "phase_shape TakerLockConfirmed tk mk ev fu re mr =
     (tk \<and> \<not> mk \<and> \<not> ev \<and> \<not> fu \<and> \<not> re \<and> \<not> mr)"
| "phase_shape AwaitingMakerConfirmations tk mk ev fu re mr =
     (tk \<and> mk \<and> \<not> ev \<and> \<not> fu \<and> \<not> re \<and> \<not> mr)"
| "phase_shape BothLegsLocked tk mk ev fu re mr =
     (tk \<and> mk \<and> \<not> ev \<and> \<not> fu \<and> \<not> re \<and> \<not> mr)"
| "phase_shape TakerLockReorged tk mk ev fu re mr = (tk \<and> mk \<and> \<not> fu \<and> \<not> re \<and> \<not> mr)"
| "phase_shape MakerLockReorged tk mk ev fu re mr = (tk \<and> mk \<and> \<not> fu \<and> \<not> re \<and> \<not> mr)"
| "phase_shape ClaimEvidenceAvailable tk mk ev fu re mr =
     (tk \<and> mk \<and> ev \<and> \<not> fu \<and> \<not> re \<and> \<not> mr)"
| "phase_shape Completed tk mk ev fu re mr = (tk \<and> mk \<and> ev \<and> fu \<and> \<not> re \<and> \<not> mr)"
| "phase_shape MakerLegRefunded tk mk ev fu re mr = (tk \<and> mk \<and> \<not> fu \<and> \<not> re \<and> \<not> mr)"
| "phase_shape TakerLegRefunded tk mk ev fu re mr = (tk \<and> mk \<and> \<not> fu \<and> \<not> mr)"
| "phase_shape MakerRecoveryAvailable tk mk ev fu re mr = (tk \<and> mk \<and> \<not> fu \<and> re \<and> \<not> mr)"
| "phase_shape Refunded tk mk ev fu re mr = (tk \<and> \<not> fu \<and> (mr \<longrightarrow> re))"

definition coord_inv :: "swap_coordinator \<Rightarrow> bool" where
  "coord_inv s \<longleftrightarrow>
     phase_shape (sc_phase s) (taker_lock_transaction_id s \<noteq> None)
       (maker_lock_transaction_id s \<noteq> None) (sc_claim_evidence s \<noteq> None)
       (followup_claim_transaction_id s \<noteq> None) (taker_refund_event_transaction_id s \<noteq> None)
       (maker_recovery_transaction_id s \<noteq> None) \<and>
     (revealing_claim_transaction_id s \<noteq> None \<longleftrightarrow> sc_claim_evidence s \<noteq> None) \<and>
     (taker_funding_confirmed s \<longrightarrow> taker_lock_transaction_id s \<noteq> None) \<and>
     (maker_funding_confirmed s \<longrightarrow> maker_lock_transaction_id s \<noteq> None)"

lemmas coord_inv_simps = coord_inv_def taker_lock_phase_def maker_lock_phase_def

lemma coord_trans_inv: "coord_trans s e t \<Longrightarrow> coord_inv s \<Longrightarrow> coord_inv t"
  by (cases "sc_phase s"; erule coord_trans.cases; auto simp: coord_inv_simps)

abbreviation coord_start ::
    "swap_id \<Rightarrow> pair \<Rightarrow> swap_direction \<Rightarrow> confirmation_policy \<Rightarrow> confirmation_policy
     \<Rightarrow> recovery_schedule \<Rightarrow> swap_coordinator" where
  "coord_start \<equiv> coordinator_new_with_confirmation_policies"

lemma coord_step_inv: "coord_inv s \<Longrightarrow> coord_inv (coord_step s e)"
  by (rule coord_step_induct) (auto intro: coord_trans_inv)

lemma coord_inv_new: "coord_inv (coord_start i p d tp mp rs)"
  by (simp add: coord_inv_def coordinator_new_with_confirmation_policies_def)

definition coord_terms where
  "coord_terms s = (sc_id s, sc_pair s, sc_direction s, sc_confirmation_policy s,
     sc_maker_confirmation_policy s, sc_recovery_schedule s)"

lemma coord_trans_terms: "coord_trans s e t \<Longrightarrow> coord_terms t = coord_terms s"
  by (induction rule: coord_trans.induct) (simp_all add: coord_terms_def)

lemma coord_inv_taker_known: "coord_inv s \<Longrightarrow> sc_phase s \<noteq> Offered \<Longrightarrow> \<exists>tx. taker_lock_transaction_id s = Some tx"
  by (cases "sc_phase s") (simp_all add: coord_inv_def)

lemma coord_inv_no_evidence: "coord_inv s \<Longrightarrow> sc_phase s = BothLegsLocked \<Longrightarrow> sc_claim_evidence s = None"
  by (simp add: coord_inv_def)

lemma coord_trans_evidence:
  "coord_trans s e t \<Longrightarrow> coord_inv s \<Longrightarrow> sc_claim_evidence s = Some ev \<Longrightarrow>
     sc_claim_evidence t = Some ev \<and> revealing_claim_transaction_id t = revealing_claim_transaction_id s"
  by (erule coord_trans.cases) (simp_all add: coord_inv_no_evidence)

definition locks_committed :: "swap_coordinator \<Rightarrow> bool" where
  "locks_committed s \<longleftrightarrow> sc_phase s \<notin> {Offered, AwaitingTakerConfirmations,
     TakerLockConfirmed, AwaitingMakerConfirmations}"

lemma coord_trans_committed:
  assumes "coord_trans s e t" "coord_inv s" "locks_committed s"
  shows "locks_committed t \<and> taker_lock_transaction_id t = taker_lock_transaction_id s \<and>
     maker_lock_transaction_id t = maker_lock_transaction_id s"
proof -
  from assms(2,3) obtain tx where tx: "taker_lock_transaction_id s = Some tx"
    by (auto simp: locks_committed_def dest: coord_inv_taker_known)
  from assms(1,3) show ?thesis
    by (cases rule: coord_trans.cases)
      (auto simp: locks_committed_def taker_lock_phase_def maker_lock_phase_def tx)
qed

section \<open>Runs\<close>

interpretation coord: step_system coord_step coord_inv
  by unfold_locales (rule coord_step_inv)

interpretation coord_terms: step_frame coord_step "\<lambda>_. True" coord_terms
  by unfold_locales (auto intro: coord_step_induct simp: coord_trans_terms)

lemma coord_new_inv_run:
  "coord_inv (run coord_step (coord_start i p d tp mp rs) es)"
  by (rule coord.run_inv) (rule coord_inv_new)

interpretation coord_locks: step_frame coord_step "\<lambda>s. coord_inv s \<and> locks_committed s"
    "\<lambda>s. (taker_lock_transaction_id s, maker_lock_transaction_id s)"
proof
  fix s :: swap_coordinator and e :: coord_event
  assume inv: "coord_inv s \<and> locks_committed s"
  then show "coord_inv (coord_step s e) \<and> locks_committed (coord_step s e)"
    by (intro coord_step_induct [of "\<lambda>t. coord_inv t \<and> locks_committed t"])
      (auto dest: coord_trans_committed coord_trans_inv)
  from inv show "(taker_lock_transaction_id (coord_step s e),
      maker_lock_transaction_id (coord_step s e)) =
      (taker_lock_transaction_id s, maker_lock_transaction_id s)"
    by (intro coord_step_induct [of "\<lambda>t. (taker_lock_transaction_id t,
      maker_lock_transaction_id t) = (taker_lock_transaction_id s, maker_lock_transaction_id s)"])
      (auto dest: coord_trans_committed)
qed

interpretation coord_evidence: step_frame coord_step
    "\<lambda>s. coord_inv s \<and> sc_claim_evidence s \<noteq> None"
    "\<lambda>s. (sc_claim_evidence s, revealing_claim_transaction_id s)"
proof
  fix s :: swap_coordinator and e :: coord_event
  assume inv: "coord_inv s \<and> sc_claim_evidence s \<noteq> None"
  then show "coord_inv (coord_step s e) \<and> sc_claim_evidence (coord_step s e) \<noteq> None"
    by (intro coord_step_induct [of "\<lambda>t. coord_inv t \<and> sc_claim_evidence t \<noteq> None"])
      (auto dest: coord_trans_evidence coord_trans_inv)
  from inv show "(sc_claim_evidence (coord_step s e),
      revealing_claim_transaction_id (coord_step s e)) =
      (sc_claim_evidence s, revealing_claim_transaction_id s)"
    by (intro coord_step_induct [of "\<lambda>t. (sc_claim_evidence t,
      revealing_claim_transaction_id t) = (sc_claim_evidence s, revealing_claim_transaction_id s)"])
      (auto dest: coord_trans_evidence)
qed

definition strip_flags :: "swap_coordinator \<Rightarrow> swap_coordinator" where
  "strip_flags s = s\<lparr>taker_funding_confirmed := False, maker_funding_confirmed := False\<rparr>"

lemma coord_trans_terminal:
  "coord_trans s e t \<Longrightarrow> sc_phase s \<in> {Completed, Refunded} \<Longrightarrow> strip_flags t = strip_flags s"
  by (elim insertE emptyE; erule coord_trans.cases; simp add: strip_flags_def)

interpretation coord_terminal: step_frame coord_step "\<lambda>s. sc_phase s \<in> {Completed, Refunded}"
    strip_flags
proof
  fix s :: swap_coordinator and e :: coord_event
  assume final: "sc_phase s \<in> {Completed, Refunded}"
  show "strip_flags (coord_step s e) = strip_flags s"
    by (rule coord_step_induct) (auto dest: coord_trans_terminal [OF _ final])
  then have "sc_phase (strip_flags (coord_step s e)) = sc_phase (strip_flags s)"
    by simp
  with final show "sc_phase (coord_step s e) \<in> {Completed, Refunded}"
    by (simp add: strip_flags_def)
qed

section \<open>Claim gates and histories\<close>

lemma coord_start_simps [simp]:
  "sc_phase (coord_start i p d tp mp rs) = Offered"
  "sc_claim_evidence (coord_start i p d tp mp rs) = None"
  "taker_funding_confirmed (coord_start i p d tp mp rs) = False"
  "maker_funding_confirmed (coord_start i p d tp mp rs) = False"
  by (simp_all add: coordinator_new_with_confirmation_policies_def)

lemma first_claimant_run: "first_claimant (run coord_step s es) = first_claimant s"
  using coord_terms.run_obs [of s es] by (simp add: coord_terms_def first_claimant_def)

lemma both_legs_funded_Ok:
  "both_legs_funded s = Ok () \<longleftrightarrow>
     taker_funding_confirmed s \<and> maker_funding_confirmed s \<and>
     taker_lock_transaction_id s \<noteq> None \<and> maker_lock_transaction_id s \<noteq> None"
  by (auto simp: both_legs_funded_def)

lemma revealing_claim_gate:
  "fst (observe_revealing_claim s q p ev) = Ok () \<Longrightarrow>
     q = first_claimant s \<and> both_legs_funded s = Ok () \<and>
     sc_phase s \<notin> {TakerLockReorged, MakerLockReorged}"
  by (auto simp: observe_revealing_claim_def split: if_splits sum.splits)

lemma followup_claim_gate:
  "fst (observe_followup_claim s q p) = Ok () \<Longrightarrow>
     q = other (first_claimant s) \<and> both_legs_funded s = Ok () \<and>
     sc_phase s \<notin> {TakerLockReorged, MakerLockReorged}"
  by (auto simp: observe_followup_claim_def split: if_splits sum.splits)

lemma coord_trans_reveals:
  "coord_trans s e t \<Longrightarrow> sc_claim_evidence s = None \<Longrightarrow> sc_claim_evidence t \<noteq> None \<Longrightarrow>
     \<exists>p ev. e = EvRevealingClaim (first_claimant s) p ev \<and> both_legs_funded s = Ok () \<and>
       sc_claim_evidence t = Some ev \<and> sc_phase s = BothLegsLocked"
  by (erule coord_trans.cases) auto

lemma coord_trans_completes:
  "coord_trans s e t \<Longrightarrow> sc_phase s \<noteq> Completed \<Longrightarrow> sc_phase t = Completed \<Longrightarrow>
     \<exists>p. e = EvFollowupClaim (other (first_claimant s)) p \<and> both_legs_funded s = Ok () \<and>
       sc_phase s = ClaimEvidenceAvailable"
  by (erule coord_trans.cases)
    (auto simp: taker_lock_phase_def maker_lock_phase_def split: if_splits)

lemma coord_step_accepted:
  "coord_step s e \<noteq> s \<Longrightarrow> apply_event s e = (Ok (), coord_step s e)"
  by (rule apply_event_of_trans) (rule coord_step_changed)

lemma evidence_history:
  assumes "sc_claim_evidence s = None" and "sc_claim_evidence (run coord_step s es) \<noteq> None"
  obtains pre p ev post s' where "es = pre @ EvRevealingClaim (first_claimant s) p ev # post"
    "apply_event (run coord_step s pre) (EvRevealingClaim (first_claimant s) p ev) = (Ok (), s')"
    "sc_claim_evidence (run coord_step s pre) = None" "sc_claim_evidence s' = Some ev"
    "sc_phase (run coord_step s pre) = BothLegsLocked" "both_legs_funded (run coord_step s pre) = Ok ()"
proof -
  let ?Q = "\<lambda>t. sc_claim_evidence t \<noteq> None"
  from run_first [of ?Q s coord_step es] assms obtain pre e post where
    es: "es = pre @ e # post" and before: "sc_claim_evidence (run coord_step s pre) = None"
    and after: "sc_claim_evidence (coord_step (run coord_step s pre) e) \<noteq> None"
    by blast
  from before after have changed: "coord_step (run coord_step s pre) e \<noteq> run coord_step s pre"
    by metis
  from coord_trans_reveals [OF coord_step_changed [OF this] before after] obtain p ev where
    "e = EvRevealingClaim (first_claimant s) p ev" "both_legs_funded (run coord_step s pre) = Ok ()"
    "sc_claim_evidence (coord_step (run coord_step s pre) e) = Some ev"
    "sc_phase (run coord_step s pre) = BothLegsLocked"
    by (auto simp: first_claimant_run)
  with coord_step_accepted [OF changed] es before show ?thesis by (intro that) simp_all
qed

lemma completion_history:
  assumes "sc_phase s \<noteq> Completed" and "sc_phase (run coord_step s es) = Completed"
  obtains pre p post s' where "es = pre @ EvFollowupClaim (other (first_claimant s)) p # post"
    "apply_event (run coord_step s pre) (EvFollowupClaim (other (first_claimant s)) p) = (Ok (), s')"
    "sc_phase (run coord_step s pre) = ClaimEvidenceAvailable" "sc_phase s' = Completed"
    "both_legs_funded (run coord_step s pre) = Ok ()"
proof -
  let ?Q = "\<lambda>t. sc_phase t = Completed"
  from run_first [of ?Q s coord_step es] assms obtain pre e post where
    es: "es = pre @ e # post" and before: "sc_phase (run coord_step s pre) \<noteq> Completed"
    and after: "sc_phase (coord_step (run coord_step s pre) e) = Completed"
    by blast
  from before after have changed: "coord_step (run coord_step s pre) e \<noteq> run coord_step s pre"
    by metis
  from coord_trans_completes [OF coord_step_changed [OF this] before after] obtain p where
    "e = EvFollowupClaim (other (first_claimant s)) p" "both_legs_funded (run coord_step s pre) = Ok ()"
    "sc_phase (run coord_step s pre) = ClaimEvidenceAvailable"
    by (auto simp: first_claimant_run)
  with coord_step_accepted [OF changed] es after show ?thesis by (intro that) simp_all
qed

section \<open>Refunds\<close>

abbreviation refund_phases :: "phase set" where
  "refund_phases \<equiv> {MakerLegRefunded, TakerLegRefunded, MakerRecoveryAvailable, Refunded}"

lemma coord_trans_refund_phases:
  "coord_trans s e t \<Longrightarrow> sc_phase s \<in> refund_phases \<Longrightarrow>
     sc_phase t \<in> refund_phases \<and> sc_claim_evidence t = sc_claim_evidence s"
  by (elim insertE emptyE; erule coord_trans.cases;
      simp add: taker_lock_phase_def maker_lock_phase_def)

interpretation coord_refund: step_frame coord_step "\<lambda>s. sc_phase s \<in> refund_phases"
    sc_claim_evidence
proof
  fix s :: swap_coordinator and e :: coord_event
  assume out: "sc_phase s \<in> refund_phases"
  show "sc_claim_evidence (coord_step s e) = sc_claim_evidence s"
    by (rule coord_step_induct) (auto dest: coord_trans_refund_phases [OF _ out])
  show "sc_phase (coord_step s e) \<in> refund_phases"
    by (rule coord_step_induct [of "\<lambda>t. sc_phase t \<in> refund_phases"])
      (use out in \<open>auto dest: coord_trans_refund_phases [OF _ out]\<close>)
qed

lemma coord_trans_first_refund:
  "coord_trans s e t \<Longrightarrow> sc_phase s \<notin> refund_phases \<Longrightarrow> sc_phase t \<in> refund_phases \<Longrightarrow>
     (\<exists>at. e = EvRefundMaker at \<and> maker_deadline_reached (sc_recovery_schedule s) at = Ok True) \<or>
     (\<exists>at. e = EvRefundTaker at \<and> taker_refund_reached (sc_recovery_schedule s) at = Ok True)"
  by (erule coord_trans.cases)
    (auto simp: taker_lock_phase_def maker_lock_phase_def split: if_splits)

lemma recovery_schedule_run:
  "sc_recovery_schedule (run coord_step s es) = sc_recovery_schedule s"
  using coord_terms.run_obs [of s es] by (simp add: coord_terms_def)

lemma first_refund_history:
  assumes "sc_phase s \<notin> refund_phases" and "sc_phase (run coord_step s es) \<in> refund_phases"
  shows "\<exists>pre e post at. es = pre @ e # post \<and>
    (e = EvRefundMaker at \<and> maker_deadline_reached (sc_recovery_schedule s) at = Ok True \<or>
     e = EvRefundTaker at \<and> taker_refund_reached (sc_recovery_schedule s) at = Ok True)"
proof -
  let ?Q = "\<lambda>t. sc_phase t \<in> refund_phases"
  from run_first [of ?Q s coord_step es] assms obtain pre e post where
    es: "es = pre @ e # post" and before: "sc_phase (run coord_step s pre) \<notin> refund_phases"
    and after: "sc_phase (coord_step (run coord_step s pre) e) \<in> refund_phases"
    by blast
  from before after have "coord_step (run coord_step s pre) e \<noteq> run coord_step s pre"
    by metis
  from coord_trans_first_refund [OF coord_step_changed [OF this] before after] es show ?thesis
    by (auto simp: recovery_schedule_run)
qed

lemma maker_deadline_True:
  "maker_deadline_reached rs at = Ok True \<longleftrightarrow>
     (\<exists>d. rs_maker_trigger rs = Deadline d \<and> deadline_reached d at = Ok True)"
  by (cases "rs_maker_trigger rs") (simp_all add: maker_deadline_reached_def)

section \<open>What the funding flags record\<close>

text \<open>
  \<open>last_depth_ok q s es b\<close> is history: whether the last accepted observation of the leg
  funded by \<open>q\<close> along the run was at or above its confirmation policy (\<open>b\<close> if there was
  none).
\<close>

definition depth_update :: "participant \<Rightarrow> swap_coordinator \<Rightarrow> coord_event \<Rightarrow> bool \<Rightarrow> bool" where
  "depth_update q s e b =
     (if fst (apply_event s e) \<noteq> Ok () then b
      else case e of
        EvFunding q' proof \<Rightarrow>
          if q' = q then required_confirmations s q \<le> confirmations proof else b
      | EvFundingRemoved q' _ \<Rightarrow> if q' = q then False else b
      | _ \<Rightarrow> b)"

fun last_depth_ok :: "participant \<Rightarrow> swap_coordinator \<Rightarrow> coord_event list \<Rightarrow> bool \<Rightarrow> bool" where
  "last_depth_ok q s [] b = b"
| "last_depth_ok q s (e # es) b = last_depth_ok q (coord_step s e) es (depth_update q s e b)"

lemma taker_lock_result:
  "sc_phase s \<notin> {Completed, Refunded} \<Longrightarrow>
     taker_funding_confirmed (snd (observe_taker_lock s p)) =
       (if fst (observe_taker_lock s p) \<noteq> Ok () then taker_funding_confirmed s
        else required (sc_confirmation_policy s) \<le> confirmations p)"
  by (auto simp: observe_taker_lock_def Let_def)

lemma taker_removed_result:
  "taker_funding_confirmed (snd (observe_taker_lock_removed s tx)) =
     (if fst (observe_taker_lock_removed s tx) \<noteq> Ok () then taker_funding_confirmed s else False)"
  by (auto simp: observe_taker_lock_removed_def Let_def)

lemma taker_flag_frame:
  assumes "coord_trans s e t"
    and "\<not> ((\<exists>p. e = EvFunding Taker p) \<or> (\<exists>tx. e = EvFundingRemoved Taker tx))"
  shows "taker_funding_confirmed t = taker_funding_confirmed s"
  using assms by (cases rule: coord_trans.cases) simp_all

lemma taker_flag_step:
  assumes "sc_phase s \<notin> {Completed, Refunded}"
  shows "taker_funding_confirmed (coord_step s e) = depth_update Taker s e (taker_funding_confirmed s)"
proof (cases "(\<exists>p. e = EvFunding Taker p) \<or> (\<exists>tx. e = EvFundingRemoved Taker tx)")
  case True
  with assms show ?thesis
    by (auto simp: coord_step_def depth_update_def taker_lock_result taker_removed_result)
next
  case False
  then have "taker_funding_confirmed (coord_step s e) = taker_funding_confirmed s"
    using coord_step_trans [of s e] taker_flag_frame [of s e "coord_step s e"] by auto
  moreover from False have "depth_update Taker s e b = b" for b
    by (cases e rule: coord_event_cases) (auto simp: depth_update_def)
  ultimately show ?thesis by simp
qed

lemma taker_flag_run:
  "sc_phase (run coord_step s es) \<notin> {Completed, Refunded} \<Longrightarrow>
     taker_funding_confirmed (run coord_step s es) =
       last_depth_ok Taker s es (taker_funding_confirmed s)"
proof (induction es arbitrary: s)
  case Nil
  then show ?case by simp
next
  case (Cons e es)
  then have "sc_phase s \<notin> {Completed, Refunded}"
    using coord_terminal.run_inv [of s "e # es"] by blast
  then show ?case
    using Cons by (simp add: taker_flag_step)
qed

text \<open>The maker flag records some observation at policy depth of the lock that is stored.\<close>

lemma maker_flag_trans:
  assumes "coord_trans s e t" "maker_funding_confirmed t"
  shows "(\<exists>p. e = EvFunding Maker p \<and> required (sc_maker_confirmation_policy s) \<le> confirmations p \<and>
      maker_lock_transaction_id t = Some (transaction_id p)) \<or>
    maker_funding_confirmed s \<and> maker_lock_transaction_id t = maker_lock_transaction_id s"
  using assms by (cases rule: coord_trans.cases) auto

definition maker_seen_deep :: "swap_coordinator \<Rightarrow> coord_event list \<Rightarrow> bool" where
  "maker_seen_deep s es \<longleftrightarrow>
     (\<exists>p. EvFunding Maker p \<in> set es \<and> required_confirmations s Maker \<le> confirmations p \<and>
        maker_lock_transaction_id (run coord_step s es) = Some (transaction_id p))"

lemma maker_policy_run:
  "sc_maker_confirmation_policy (run coord_step s es) = sc_maker_confirmation_policy s"
  using coord_terms.run_obs [of s es] by (simp add: coord_terms_def)

lemma maker_flag_run:
  assumes "\<not> maker_funding_confirmed s" "maker_funding_confirmed (run coord_step s es)"
  shows "maker_seen_deep s es"
  using assms(2)
proof (induction es rule: rev_induct)
  case Nil
  with assms(1) show ?case by simp
next
  case (snoc e es)
  let ?s = "run coord_step s es"
  have flag: "maker_funding_confirmed (coord_step ?s e)" using snoc.prems by simp
  from coord_step_trans [of ?s e]
  consider "maker_funding_confirmed ?s" "maker_lock_transaction_id (coord_step ?s e) = maker_lock_transaction_id ?s"
    | p where "e = EvFunding Maker p" "required (sc_maker_confirmation_policy s) \<le> confirmations p"
      "maker_lock_transaction_id (coord_step ?s e) = Some (transaction_id p)"
    using flag maker_flag_trans [of ?s e "coord_step ?s e"] by (auto simp: maker_policy_run)
  then show ?case
  proof cases
    case 1
    with snoc.IH show ?thesis by (auto simp: maker_seen_deep_def)
  next
    case 2
    then show ?thesis by (auto simp: maker_seen_deep_def)
  qed
qed

text \<open>Both locks were seen at policy depth: the taker lock when it was last observed, the maker
  lock at some time.\<close>

definition both_seen_deep :: "swap_coordinator \<Rightarrow> coord_event list \<Rightarrow> bool" where
  "both_seen_deep s es \<longleftrightarrow> last_depth_ok Taker s es False \<and> maker_seen_deep s es"

lemma funded_history:
  assumes "both_legs_funded (run coord_step (coord_start i p d tp mp rs) es) = Ok ()"
    and "sc_phase (run coord_step (coord_start i p d tp mp rs) es) \<notin> {Completed, Refunded}"
  shows "both_seen_deep (coord_start i p d tp mp rs) es"
  using assms taker_flag_run [OF assms(2)] maker_flag_run [of "coord_start i p d tp mp rs" es]
  by (simp add: both_seen_deep_def both_legs_funded_Ok)

section \<open>Progress to a terminal phase\<close>

lemma recovery_of_taker_leg_refunded:
  assumes "sc_phase s = TakerLegRefunded" "coord_inv s"
  shows "\<exists>es. length es \<le> 2 \<and> sc_phase (run coord_step s es) = Refunded"
proof (cases "rs_maker_trigger (sc_recovery_schedule s)")
  case (Deadline d)
  then have "coord_trans s (EvRefundMaker d) (s\<lparr>sc_phase := Refunded\<rparr>)"
    using assms by (intro coord_trans.refund_maker) (simp_all add: maker_deadline_reached_def)
  then show ?thesis
    by (intro exI [of _ "[EvRefundMaker d]"]) (simp add: coord_step_of_trans)
next
  case (CanonicalTakerRefund c n)
  define tx where "tx = (case taker_refund_event_transaction_id s of Some t \<Rightarrow> t | None \<Rightarrow> ''tx'')"
  define ev where "ev = \<lparr>event_chain = c, event_proof = \<lparr>transaction_id = tx, confirmations = n\<rparr>\<rparr>"
  define t where "t = s\<lparr>taker_refund_event_transaction_id := Some tx,
    sc_phase := MakerRecoveryAvailable\<rparr>"
  have 1: "coord_trans s (EvTakerRefundEvent ev) t"
    using assms CanonicalTakerRefund
    by (intro coord_trans.taker_refund_seen [of _ _ n])
      (auto simp: ev_def t_def tx_def split: option.split)
  let ?p = "\<lparr>transaction_id = ''tx'', confirmations = n\<rparr>"
  have 2: "coord_trans t (EvMakerRecovery ?p)
      (t\<lparr>maker_recovery_transaction_id := Some ''tx'', sc_phase := Refunded\<rparr>)"
    using assms by (intro coord_trans.maker_recovery) (simp_all add: t_def coord_inv_def)
  show ?thesis
    by (intro exI [of _ "[EvTakerRefundEvent ev, EvMakerRecovery ?p]"])
      (simp add: coord_step_of_trans [OF 1] coord_step_of_trans [OF 2])
qed

lemma recovery_of_recovery_available:
  assumes "sc_phase s = MakerRecoveryAvailable" "coord_inv s"
  shows "\<exists>es. length es \<le> 1 \<and> sc_phase (run coord_step s es) = Refunded"
proof -
  let ?p = "\<lparr>transaction_id = ''tx'', confirmations = 0\<rparr>"
  have 1: "coord_trans s (EvMakerRecovery ?p)
      (s\<lparr>maker_recovery_transaction_id := Some ''tx'', sc_phase := Refunded\<rparr>)"
    using assms by (intro coord_trans.maker_recovery) (simp_all add: coord_inv_def)
  show ?thesis
    by (intro exI [of _ "[EvMakerRecovery ?p]"]) (simp add: coord_step_of_trans [OF 1])
qed

lemma completion_of_claim_evidence:
  assumes ph: "sc_phase s = ClaimEvidenceAvailable" and inv: "coord_inv s"
  shows "\<exists>es. length es \<le> 3 \<and> sc_phase (run coord_step s es) = Completed"
proof -
  from ph inv obtain tk mk ev where
    tk: "taker_lock_transaction_id s = Some tk" and mk: "maker_lock_transaction_id s = Some mk"
    and ev: "sc_claim_evidence s = Some ev"
    by (auto simp: coord_inv_def)
  let ?tp = "\<lparr>transaction_id = tk, confirmations = required (sc_confirmation_policy s)\<rparr>"
  let ?mp = "\<lparr>transaction_id = mk, confirmations = required (sc_maker_confirmation_policy s)\<rparr>"
  define s1 where "s1 = s\<lparr>taker_funding_confirmed := True\<rparr>"
  define s2 where "s2 = s1\<lparr>maker_funding_confirmed := True\<rparr>"
  define s3 where "s3 = s2\<lparr>followup_claim_transaction_id := Some ''tx'', sc_phase := Completed\<rparr>"
  have 1: "coord_trans s (EvFunding Taker ?tp) s1"
    using ph tk by (intro coord_trans.taker_lock [of _ _ True])
      (simp_all add: s1_def taker_lock_phase_def)
  have 2: "coord_trans s1 (EvFunding Maker ?mp) s2"
    using ph mk by (intro coord_trans.maker_lock_again [of _ _ True])
      (simp_all add: s1_def s2_def maker_lock_phase_def)
  let ?p = "\<lparr>transaction_id = ''tx'', confirmations = 0\<rparr>"
  have 3: "coord_trans s2 (EvFollowupClaim (other (first_claimant s2)) ?p) s3"
    using ph tk mk by (intro coord_trans.followup_claim)
      (simp_all add: s1_def s2_def s3_def both_legs_funded_def)
  show ?thesis
    by (intro exI [of _ "[EvFunding Taker ?tp, EvFunding Maker ?mp,
          EvFollowupClaim (other (first_claimant s2)) ?p]"])
      (simp add: coord_step_of_trans [OF 1] coord_step_of_trans [OF 2] coord_step_of_trans [OF 3] s3_def)
qed

lemma refund_taker_now:
  assumes "sc_phase s \<in> {AwaitingTakerConfirmations, TakerLockConfirmed, AwaitingMakerConfirmations,
    BothLegsLocked, TakerLockReorged, MakerLockReorged, MakerLegRefunded}"
  shows "\<exists>e. sc_phase (coord_step s e) \<in> {Refunded, TakerLegRefunded}"
proof -
  let ?t = "s\<lparr>sc_phase := (if sc_phase s \<in> {AwaitingTakerConfirmations, TakerLockConfirmed,
    MakerLegRefunded} then Refunded else TakerLegRefunded)\<rparr>"
  have "coord_trans s (EvRefundTaker (rs_taker_refund (sc_recovery_schedule s))) ?t"
    using assms by (intro coord_trans.refund_taker) (simp_all add: taker_refund_reached_def)
  then have "coord_step s (EvRefundTaker (rs_taker_refund (sc_recovery_schedule s))) = ?t"
    by (rule coord_step_of_trans)
  then show ?thesis
    by (intro exI [of _ "EvRefundTaker (rs_taker_refund (sc_recovery_schedule s))"]) simp
qed

lemma locked_swap_terminates:
  assumes "coord_inv s" "sc_phase s \<noteq> Offered"
  shows "\<exists>es. length es \<le> 3 \<and> sc_phase (run coord_step s es) \<in> {Completed, Refunded}"
proof -
  consider (refundable) "sc_phase s \<in> {AwaitingTakerConfirmations, TakerLockConfirmed,
      AwaitingMakerConfirmations, BothLegsLocked, TakerLockReorged, MakerLockReorged, MakerLegRefunded}"
    | (revealed) "sc_phase s = ClaimEvidenceAvailable"
    | (taker_out) "sc_phase s = TakerLegRefunded"
    | (recoverable) "sc_phase s = MakerRecoveryAvailable"
    | (final) "sc_phase s \<in> {Completed, Refunded}"
    using assms(2) by (cases "sc_phase s") auto
  then show ?thesis
  proof cases
    case refundable
    then obtain e where e: "sc_phase (coord_step s e) \<in> {Refunded, TakerLegRefunded}"
      using refund_taker_now by blast
    show ?thesis
    proof (cases "sc_phase (coord_step s e) = Refunded")
      case True
      then show ?thesis by (intro exI [of _ "[e]"]) simp
    next
      case False
      with e have "sc_phase (coord_step s e) = TakerLegRefunded" by simp
      from recovery_of_taker_leg_refunded [OF this coord_step_inv [OF assms(1)]]
      obtain es where "length es \<le> 2" "sc_phase (run coord_step (coord_step s e) es) = Refunded"
        by blast
      then show ?thesis by (intro exI [of _ "e # es"]) simp
    qed
  next
    case revealed
    from completion_of_claim_evidence [OF this assms(1)] show ?thesis by blast
  next
    case taker_out
    from recovery_of_taker_leg_refunded [OF this assms(1)] show ?thesis
      by (metis insertCI le_Suc_eq numeral_2_eq_2 numeral_3_eq_3)
  next
    case recoverable
    from recovery_of_recovery_available [OF this assms(1)] show ?thesis
      by (metis insertCI le_trans one_le_numeral)
  next
    case final
    then show ?thesis by (intro exI [of _ "[]"]) simp
  qed
qed

end
