(* ===== verification/Coordinator_Lifecycle.thy ===== *)
theory Coordinator_Lifecycle
  imports Coordinator_Invariants
begin

text \<open>
  What the coordinator promises its caller, without its phases and phase tables: a swap is
  two locks, each seen at some depth, and a stage (\<open>swap_life\<close>). \<open>life_step\<close> says what an
  accepted observation does to them and \<open>life_refuses\<close> when an observation may be refused,
  and with which error. Every method, on every reachable coordinator, answers as they say.
  Two branches of the code that one may not expect are rules of their own: \<open>maker_unheeded\<close>
  (a maker lock is not looked at while the taker lock is shallow) and \<open>maker_gone_first\<close>
  (the maker may lock again although the taker lock is no longer deep).
\<close>

section \<open>Abstract swaps\<close>

text \<open>A lock as last observed: below its required depth, or at least that deep.\<close>

datatype lock = NoLock | ShallowLock string | DeepLock string

fun lock_id :: "lock \<Rightarrow> string option" where
  "lock_id NoLock = None"
| "lock_id (ShallowLock tx) = Some tx"
| "lock_id (DeepLock tx) = Some tx"

fun is_deep :: "lock \<Rightarrow> bool" where
  "is_deep (DeepLock tx) \<longleftrightarrow> True"
| "is_deep _ \<longleftrightarrow> False"

definition lock_seen :: "u32 \<Rightarrow> chain_proof \<Rightarrow> lock" where
  "lock_seen depth p =
     (if depth \<le> confirmations p then DeepLock (transaction_id p) else ShallowLock (transaction_id p))"

datatype stage =
    Locking       \<comment> \<open>the taker lock is missing or not deep yet\<close>
  | TakerSafe     \<comment> \<open>the taker lock was deep, the maker may lock\<close>
  | Committed     \<comment> \<open>the maker has locked\<close>
  | Revealed      \<comment> \<open>the first claim is known\<close>
  | Settled       \<comment> \<open>both claims are known\<close>
  | MakerBack     \<comment> \<open>the maker lock was refunded\<close>
  | TakerBack     \<comment> \<open>the taker lock was refunded\<close>
  | Recovering    \<comment> \<open>the refund of the taker lock is final, the maker may recover\<close>
  | Unwound       \<comment> \<open>nothing is left to refund\<close>

record swap_life =
  life_stage :: stage
  life_taker :: lock
  life_maker :: lock
  life_reveal :: "(string \<times> claim_evidence) option"
  life_followup :: "string option"
  life_refund_event :: "string option"
  life_recovery :: "string option"

text \<open>The terms both parties agreed on.\<close>

record swap_terms =
  taker_depth :: u32
  maker_depth :: u32
  revealer :: participant
  maker_trigger :: maker_recovery_trigger
  taker_refund_at :: chain_position

definition agreed ::
    "pair \<Rightarrow> swap_direction \<Rightarrow> confirmation_policy \<Rightarrow> confirmation_policy \<Rightarrow> recovery_schedule
     \<Rightarrow> swap_terms" where
  "agreed p d tp mp rs =
     \<lparr>taker_depth = required tp, maker_depth = required mp,
      revealer = (if p = Pair_Monero \<or> p = Pair_Zcash \<and> d = TakerSellsLez then Maker else Taker),
      maker_trigger = rs_maker_trigger rs, taker_refund_at = rs_taker_refund rs\<rparr>"

definition expired :: "chain_position \<Rightarrow> chain_position \<Rightarrow> bool" where
  "expired deadline now \<longleftrightarrow> pos_chain now = pos_chain deadline \<and> pos_basis now = pos_basis deadline \<and>
     pos_value deadline \<le> pos_value now"

abbreviation both_deep :: "swap_life \<Rightarrow> bool" where
  "both_deep x \<equiv> is_deep (life_taker x) \<and> is_deep (life_maker x)"

section \<open>Accepted observations\<close>

inductive life_step :: "swap_terms \<Rightarrow> swap_life \<Rightarrow> coord_event \<Rightarrow> swap_life \<Rightarrow> bool"
  for T :: swap_terms and x :: swap_life where
  taker_early:
    "life_stage x \<in> {Locking, TakerSafe} \<Longrightarrow> lock_id (life_taker x) \<in> {None, Some (transaction_id p)} \<Longrightarrow>
     l = lock_seen (taker_depth T) p \<Longrightarrow>
     y = x\<lparr>life_taker := l, life_stage := if is_deep l then TakerSafe else Locking\<rparr> \<Longrightarrow>
     life_step T x (EvFunding Taker p) y"
| taker_later:
    "life_stage x \<in> {Committed, Revealed, MakerBack, TakerBack, Recovering} \<Longrightarrow>
     lock_id (life_taker x) = Some (transaction_id p) \<Longrightarrow>
     y = x\<lparr>life_taker := lock_seen (taker_depth T) p\<rparr> \<Longrightarrow>
     life_step T x (EvFunding Taker p) y"
| taker_over:
    "life_stage x \<in> {Settled, Unwound} \<Longrightarrow> lock_id (life_taker x) = Some (transaction_id p) \<Longrightarrow>
     life_step T x (EvFunding Taker p) x"
| taker_gone_early:
    "life_stage x \<in> {Locking, TakerSafe} \<Longrightarrow> lock_id (life_taker x) = Some tx \<Longrightarrow>
     y = x\<lparr>life_taker := NoLock, life_stage := Locking\<rparr> \<Longrightarrow>
     life_step T x (EvFundingRemoved Taker tx) y"
| taker_gone_later:
    "life_stage x \<notin> {Locking, TakerSafe} \<Longrightarrow> lock_id (life_taker x) = Some tx \<Longrightarrow>
     y = x\<lparr>life_taker := ShallowLock tx\<rparr> \<Longrightarrow>
     life_step T x (EvFundingRemoved Taker tx) y"
| maker_first:
    "life_stage x = TakerSafe \<Longrightarrow> life_maker x = NoLock \<Longrightarrow>
     y = x\<lparr>life_maker := lock_seen (maker_depth T) p, life_stage := Committed\<rparr> \<Longrightarrow>
     life_step T x (EvFunding Maker p) y"
| maker_again:
    "life_stage x \<in> {Committed, Revealed} \<Longrightarrow> lock_id (life_maker x) = Some (transaction_id p) \<Longrightarrow>
     y = x\<lparr>life_maker := lock_seen (maker_depth T) p\<rparr> \<Longrightarrow>
     life_step T x (EvFunding Maker p) y"
| maker_unheeded:
    "life_stage x \<in> {Committed, Revealed} \<and> \<not> is_deep (life_taker x) \<or>
     life_stage x \<in> {Settled, MakerBack, TakerBack, Recovering, Unwound} \<Longrightarrow>
     lock_id (life_maker x) = Some (transaction_id p) \<Longrightarrow>
     life_step T x (EvFunding Maker p) x"
| maker_gone_first:
    "life_stage x = Committed \<Longrightarrow> life_maker x = ShallowLock tx \<Longrightarrow>
     y = x\<lparr>life_maker := NoLock, life_stage := TakerSafe\<rparr> \<Longrightarrow>
     life_step T x (EvFundingRemoved Maker tx) y"
| maker_gone_later:
    "lock_id (life_maker x) = Some tx \<Longrightarrow> y = x\<lparr>life_maker := ShallowLock tx\<rparr> \<Longrightarrow>
     life_step T x (EvFundingRemoved Maker tx) y"
| reveal:
    "q = revealer T \<Longrightarrow> life_stage x = Committed \<Longrightarrow> both_deep x \<Longrightarrow>
     y = x\<lparr>life_stage := Revealed, life_reveal := Some (transaction_id p, ev)\<rparr> \<Longrightarrow>
     life_step T x (EvRevealingClaim q p ev) y"
| reveal_again:
    "q = revealer T \<Longrightarrow> both_deep x \<Longrightarrow> life_reveal x = Some (transaction_id p, ev) \<Longrightarrow>
     life_step T x (EvRevealingClaim q p ev) x"
| followup:
    "q = other (revealer T) \<Longrightarrow> life_stage x = Revealed \<Longrightarrow> both_deep x \<Longrightarrow>
     y = x\<lparr>life_stage := Settled, life_followup := Some (transaction_id p)\<rparr> \<Longrightarrow>
     life_step T x (EvFollowupClaim q p) y"
| followup_again:
    "q = other (revealer T) \<Longrightarrow> both_deep x \<Longrightarrow> life_followup x = Some (transaction_id p) \<Longrightarrow>
     life_step T x (EvFollowupClaim q p) x"
| refund_maker:
    "life_stage x \<in> {Committed, TakerBack} \<or> life_stage x = Revealed \<and> \<not> both_deep x \<Longrightarrow>
     maker_trigger T = Deadline d \<Longrightarrow> expired d now \<Longrightarrow>
     y = x\<lparr>life_stage := if life_stage x = TakerBack then Unwound else MakerBack\<rparr> \<Longrightarrow>
     life_step T x (EvRefundMaker now) y"
| refund_taker_alone:
    "life_stage x \<in> {Locking, TakerSafe, MakerBack} \<Longrightarrow> life_taker x \<noteq> NoLock \<Longrightarrow>
     expired (taker_refund_at T) now \<Longrightarrow> y = x\<lparr>life_stage := Unwound\<rparr> \<Longrightarrow>
     life_step T x (EvRefundTaker now) y"
| refund_taker:
    "life_stage x = Committed \<or> life_stage x = Revealed \<and> \<not> both_deep x \<Longrightarrow>
     expired (taker_refund_at T) now \<Longrightarrow> y = x\<lparr>life_stage := TakerBack\<rparr> \<Longrightarrow>
     life_step T x (EvRefundTaker now) y"
| refund_final:
    "life_stage x = TakerBack \<Longrightarrow> maker_trigger T = CanonicalTakerRefund (event_chain ev) n \<Longrightarrow>
     n \<le> confirmations (event_proof ev) \<Longrightarrow>
     life_refund_event x \<in> {None, Some (transaction_id (event_proof ev))} \<Longrightarrow>
     y = x\<lparr>life_stage := Recovering, life_refund_event := Some (transaction_id (event_proof ev))\<rparr> \<Longrightarrow>
     life_step T x (EvTakerRefundEvent ev) y"
| refund_not_final:
    "life_stage x = Recovering \<Longrightarrow> maker_trigger T = CanonicalTakerRefund (event_chain ev) n \<Longrightarrow>
     confirmations (event_proof ev) < n \<Longrightarrow>
     life_refund_event x = Some (transaction_id (event_proof ev)) \<Longrightarrow> y = x\<lparr>life_stage := TakerBack\<rparr> \<Longrightarrow>
     life_step T x (EvTakerRefundEvent ev) y"
| refund_final_again:
    "life_stage x \<in> {Recovering, Unwound} \<Longrightarrow>
     maker_trigger T = CanonicalTakerRefund (event_chain ev) n \<Longrightarrow> n \<le> confirmations (event_proof ev) \<Longrightarrow>
     life_refund_event x \<in> {None, Some (transaction_id (event_proof ev))} \<Longrightarrow>
     life_step T x (EvTakerRefundEvent ev) x"
| recover:
    "life_stage x = Recovering \<Longrightarrow>
     y = x\<lparr>life_stage := Unwound, life_recovery := Some (transaction_id p)\<rparr> \<Longrightarrow>
     life_step T x (EvMakerRecovery p) y"
| recover_again:
    "life_stage x = Unwound \<Longrightarrow> life_recovery x = Some (transaction_id p) \<Longrightarrow>
     life_step T x (EvMakerRecovery p) x"

section \<open>Refused observations\<close>

inductive life_refuses :: "swap_terms \<Rightarrow> swap_life \<Rightarrow> coord_event \<Rightarrow> core_error \<Rightarrow> bool"
  for T :: swap_terms and x :: swap_life where
  other_taker_lock:
    "lock_id (life_taker x) \<notin> {None, Some (transaction_id p)} \<Longrightarrow>
     life_refuses T x (EvFunding Taker p) ConflictingTakerLock"
| unknown_taker_lock:
    "lock_id (life_taker x) \<noteq> Some tx \<Longrightarrow>
     life_refuses T x (EvFundingRemoved Taker tx) ConflictingTakerLock"
| other_maker_lock:
    "lock_id (life_maker x) \<notin> {None, Some (transaction_id p)} \<Longrightarrow>
     life_refuses T x (EvFunding Maker p) ConflictingMakerLock"
| maker_too_early:
    "life_maker x = NoLock \<Longrightarrow> life_stage x \<in> {Locking, Unwound} \<Longrightarrow>
     life_refuses T x (EvFunding Maker p) TakerLockNotConfirmed"
| unknown_maker_lock:
    "lock_id (life_maker x) \<noteq> Some tx \<Longrightarrow>
     life_refuses T x (EvFundingRemoved Maker tx) ConflictingMakerLock"
| reveal_by_other:
    "q \<noteq> revealer T \<Longrightarrow>
     life_refuses T x (EvRevealingClaim q p ev) (UnexpectedClaimant (revealer T) q)"
| reveal_taker_shallow:
    "q = revealer T \<Longrightarrow> \<not> is_deep (life_taker x) \<Longrightarrow>
     life_refuses T x (EvRevealingClaim q p ev) TakerLockNotConfirmed"
| reveal_maker_shallow:
    "q = revealer T \<Longrightarrow> \<not> is_deep (life_maker x) \<Longrightarrow>
     life_refuses T x (EvRevealingClaim q p ev) MakerLockNotConfirmed"
| reveal_conflict:
    "q = revealer T \<Longrightarrow> both_deep x \<Longrightarrow> life_reveal x \<notin> {None, Some (transaction_id p, ev)} \<Longrightarrow>
     life_refuses T x (EvRevealingClaim q p ev) ConflictingClaimEvidence"
| reveal_too_late:
    "q = revealer T \<Longrightarrow> both_deep x \<Longrightarrow> life_reveal x = None \<Longrightarrow>
     life_stage x \<in> {MakerBack, TakerBack, Recovering, Unwound} \<Longrightarrow>
     life_refuses T x (EvRevealingClaim q p ev) (InvalidPhase BothLegsLocked ph)"
| followup_by_other:
    "q \<noteq> other (revealer T) \<Longrightarrow>
     life_refuses T x (EvFollowupClaim q p) (UnexpectedClaimant (other (revealer T)) q)"
| followup_taker_shallow:
    "q = other (revealer T) \<Longrightarrow> \<not> is_deep (life_taker x) \<Longrightarrow>
     life_refuses T x (EvFollowupClaim q p) TakerLockNotConfirmed"
| followup_maker_shallow:
    "q = other (revealer T) \<Longrightarrow> \<not> is_deep (life_maker x) \<Longrightarrow>
     life_refuses T x (EvFollowupClaim q p) MakerLockNotConfirmed"
| followup_conflict:
    "q = other (revealer T) \<Longrightarrow> both_deep x \<Longrightarrow> life_followup x \<notin> {None, Some (transaction_id p)} \<Longrightarrow>
     life_refuses T x (EvFollowupClaim q p) ConflictingTakerClaim"
| followup_unrevealed:
    "q = other (revealer T) \<Longrightarrow> both_deep x \<Longrightarrow> life_followup x = None \<Longrightarrow>
     life_stage x \<in> {Committed, MakerBack, TakerBack, Recovering, Unwound} \<Longrightarrow>
     life_refuses T x (EvFollowupClaim q p) (InvalidPhase ClaimEvidenceAvailable ph)"
| no_maker_refund:
    "life_stage x \<notin> {Committed, TakerBack} \<Longrightarrow>
     life_refuses T x (EvRefundMaker now) (InvalidPhase BothLegsLocked ph)"
| maker_has_no_deadline:
    "maker_trigger T = CanonicalTakerRefund c n \<Longrightarrow>
     life_refuses T x (EvRefundMaker now) RecoveryRequiresTakerRefundEvent"
| maker_wrong_clock:
    "maker_trigger T = Deadline d \<Longrightarrow> (pos_chain now, pos_basis now) \<noteq> (pos_chain d, pos_basis d) \<Longrightarrow>
     life_refuses T x (EvRefundMaker now)
       (WrongDeadlineClock (pos_chain d) (pos_basis d) (pos_chain now) (pos_basis now))"
| maker_not_expired:
    "maker_trigger T = Deadline d \<Longrightarrow> pos_value now < pos_value d \<Longrightarrow>
     life_refuses T x (EvRefundMaker now) TimelockNotExpired"
| no_taker_refund:
    "life_stage x \<in> {Revealed, Settled, TakerBack, Recovering, Unwound} \<or> life_taker x = NoLock \<Longrightarrow>
     life_refuses T x (EvRefundTaker now) (InvalidPhase TakerLockConfirmed ph)"
| taker_wrong_clock:
    "d = taker_refund_at T \<Longrightarrow> (pos_chain now, pos_basis now) \<noteq> (pos_chain d, pos_basis d) \<Longrightarrow>
     life_refuses T x (EvRefundTaker now)
       (WrongDeadlineClock (pos_chain d) (pos_basis d) (pos_chain now) (pos_basis now))"
| taker_not_expired:
    "pos_value now < pos_value (taker_refund_at T) \<Longrightarrow>
     life_refuses T x (EvRefundTaker now) TimelockNotExpired"
| no_refund_event:
    "maker_trigger T = Deadline d \<or> life_stage x \<notin> {TakerBack, Recovering, Unwound} \<Longrightarrow>
     life_refuses T x (EvTakerRefundEvent ev) (InvalidPhase TakerLegRefunded ph)"
| event_wrong_chain:
    "maker_trigger T = CanonicalTakerRefund c n \<Longrightarrow> event_chain ev \<noteq> c \<Longrightarrow>
     life_refuses T x (EvTakerRefundEvent ev) (WrongRecoveryEventChain c (event_chain ev))"
| other_refund_event:
    "life_refund_event x \<notin> {None, Some (transaction_id (event_proof ev))} \<Longrightarrow>
     life_refuses T x (EvTakerRefundEvent ev) ConflictingTakerRefundEvent"
| event_shallow:
    "maker_trigger T = CanonicalTakerRefund c n \<Longrightarrow> confirmations (event_proof ev) < n \<Longrightarrow>
     life_stage x \<noteq> Recovering \<Longrightarrow>
     life_refuses T x (EvTakerRefundEvent ev)
       (InsufficientRecoveryEventConfirmations n (confirmations (event_proof ev)))"
| other_recovery:
    "life_recovery x \<notin> {None, Some (transaction_id p)} \<Longrightarrow>
     life_refuses T x (EvMakerRecovery p) ConflictingMakerRecovery"
| no_recovery:
    "life_stage x \<noteq> Recovering \<Longrightarrow>
     life_refuses T x (EvMakerRecovery p) (InvalidPhase MakerRecoveryAvailable ph)"

section \<open>The abstraction\<close>

definition lock_of :: "string option \<Rightarrow> bool \<Rightarrow> lock" where
  "lock_of tx confirmed =
     (case tx of None \<Rightarrow> NoLock | Some i \<Rightarrow> if confirmed then DeepLock i else ShallowLock i)"

fun stage_of :: "phase \<Rightarrow> bool \<Rightarrow> stage" where
  "stage_of Offered _ = Locking"
| "stage_of AwaitingTakerConfirmations _ = Locking"
| "stage_of TakerLockConfirmed _ = TakerSafe"
| "stage_of AwaitingMakerConfirmations _ = Committed"
| "stage_of BothLegsLocked _ = Committed"
| "stage_of TakerLockReorged revealed = (if revealed then Revealed else Committed)"
| "stage_of MakerLockReorged revealed = (if revealed then Revealed else Committed)"
| "stage_of ClaimEvidenceAvailable _ = Revealed"
| "stage_of Completed _ = Settled"
| "stage_of MakerLegRefunded _ = MakerBack"
| "stage_of TakerLegRefunded _ = TakerBack"
| "stage_of MakerRecoveryAvailable _ = Recovering"
| "stage_of Refunded _ = Unwound"

definition life_of :: "swap_coordinator \<Rightarrow> swap_life" where
  "life_of s =
     \<lparr>life_stage = stage_of (sc_phase s) (sc_claim_evidence s \<noteq> None),
      life_taker = lock_of (taker_lock_transaction_id s) (taker_funding_confirmed s),
      life_maker = lock_of (maker_lock_transaction_id s) (maker_funding_confirmed s),
      life_reveal = (case (revealing_claim_transaction_id s, sc_claim_evidence s) of
          (Some tx, Some ev) \<Rightarrow> Some (tx, ev) | _ \<Rightarrow> None),
      life_followup = followup_claim_transaction_id s,
      life_refund_event = taker_refund_event_transaction_id s,
      life_recovery = maker_recovery_transaction_id s\<rparr>"

definition terms_of :: "swap_coordinator \<Rightarrow> swap_terms" where
  "terms_of s = agreed (sc_pair s) (sc_direction s) (sc_confirmation_policy s)
     (sc_maker_confirmation_policy s) (sc_recovery_schedule s)"

text \<open>The phases that say a lock is not deep agree with the funding flags.\<close>

definition reorg_flags :: "swap_coordinator \<Rightarrow> bool" where
  "reorg_flags s \<longleftrightarrow> (sc_phase s = TakerLockReorged \<longrightarrow> \<not> taker_funding_confirmed s) \<and>
     (sc_phase s \<in> {MakerLockReorged, AwaitingMakerConfirmations} \<longrightarrow> \<not> maker_funding_confirmed s)"

lemma coord_trans_reorg: "coord_trans s e t \<Longrightarrow> reorg_flags s \<Longrightarrow> reorg_flags t"
  by (erule coord_trans.cases)
    (auto simp: reorg_flags_def taker_lock_phase_def maker_lock_phase_def split: if_splits)

interpretation coord_reorg: step_system coord_step reorg_flags
  by unfold_locales (rule coord_step_induct, auto intro: coord_trans_reorg)

section \<open>Every method answers as the lifecycle says\<close>

definition answers :: "swap_coordinator \<Rightarrow> coord_event \<Rightarrow> coord_result \<Rightarrow> bool" where
  "answers s e r \<longleftrightarrow>
     (case r of
        (Inr _, t) \<Rightarrow> life_step (terms_of s) (life_of s) e (life_of t)
      | (Inl err, t) \<Rightarrow> t = s \<and> life_refuses (terms_of s) (life_of s) e err)"

lemma answers_Err [simp]:
  "answers s e (Inl err, t) \<longleftrightarrow> t = s \<and> life_refuses (terms_of s) (life_of s) e err"
  by (simp add: answers_def)

lemma answers_Ok [simp]:
  "answers s e (Inr u, t) \<longleftrightarrow> life_step (terms_of s) (life_of s) e (life_of t)"
  by (simp add: answers_def)

lemma answers_eq:
  "fst r = Ok () \<Longrightarrow> answers s e r \<longleftrightarrow> life_step (terms_of s) (life_of s) e (life_of (snd r))"
  by (cases r) simp

lemma lock_of_id [simp]: "lock_id (lock_of tx c) = tx"
  by (simp add: lock_of_def split: option.split)

lemma lock_of_deep [simp]: "is_deep (lock_of tx c) \<longleftrightarrow> tx \<noteq> None \<and> c"
  by (simp add: lock_of_def split: option.split)

lemma lock_of_seen: "lock_of (Some (transaction_id p)) (n \<le> confirmations p) = lock_seen n p"
  by (simp add: lock_of_def lock_seen_def)

lemma lock_of_simps [simp]:
  "lock_of None c = NoLock" "lock_of (Some tx) False = ShallowLock tx" "lock_of (Some tx) True = DeepLock tx"
  "lock_of known c = NoLock \<longleftrightarrow> known = None"
  by (simp_all add: lock_of_def split: option.split)

lemma lock_seen_deep [simp]: "is_deep (lock_seen n p) \<longleftrightarrow> n \<le> confirmations p"
  by (simp add: lock_seen_def)

lemma revealer_terms: "revealer (terms_of s) = first_claimant s"
  by (cases "sc_pair s"; cases "sc_direction s")
    (simp_all add: terms_of_def agreed_def first_claimant_def)

lemma terms_of_simps [simp]:
  "taker_depth (terms_of s) = required (sc_confirmation_policy s)"
  "maker_depth (terms_of s) = required (sc_maker_confirmation_policy s)"
  "maker_trigger (terms_of s) = rs_maker_trigger (sc_recovery_schedule s)"
  "taker_refund_at (terms_of s) = rs_taker_refund (sc_recovery_schedule s)"
  by (simp_all add: terms_of_def agreed_def)

lemma life_of_simps [simp]:
  "life_stage (life_of s) = stage_of (sc_phase s) (sc_claim_evidence s \<noteq> None)"
  "life_taker (life_of s) = lock_of (taker_lock_transaction_id s) (taker_funding_confirmed s)"
  "life_maker (life_of s) = lock_of (maker_lock_transaction_id s) (maker_funding_confirmed s)"
  "life_followup (life_of s) = followup_claim_transaction_id s"
  "life_refund_event (life_of s) = taker_refund_event_transaction_id s"
  "life_recovery (life_of s) = maker_recovery_transaction_id s"
  by (simp_all add: life_of_def)

text \<open>Which stages the phase tables of the code keep.\<close>

lemma coord_inv_revealed:
  assumes "coord_inv s"
  shows "sc_phase s \<in> {AwaitingMakerConfirmations, BothLegsLocked} \<Longrightarrow> sc_claim_evidence s = None"
    "sc_phase s = ClaimEvidenceAvailable \<Longrightarrow> sc_claim_evidence s \<noteq> None"
  using assms by (auto simp: coord_inv_def)

lemma coord_inv_maker_known:
  assumes "coord_inv s"
  shows "sc_phase s \<in> {Offered, AwaitingTakerConfirmations, TakerLockConfirmed} \<Longrightarrow>
      maker_lock_transaction_id s = None"
    "sc_phase s \<notin> {Offered, AwaitingTakerConfirmations, TakerLockConfirmed, Refunded} \<Longrightarrow>
      maker_lock_transaction_id s \<noteq> None"
  using assms by (cases "sc_phase s"; simp add: coord_inv_def)+

lemma stage_maker_phase:
  assumes "ph \<in> {AwaitingMakerConfirmations, BothLegsLocked} \<Longrightarrow> ev = None"
    and "ph = ClaimEvidenceAvailable \<Longrightarrow> ev \<noteq> None"
  shows "stage_of (maker_lock_phase ph c (ev \<noteq> None)) (ev \<noteq> None) = stage_of ph (ev \<noteq> None)"
  using assms by (cases ph; cases c; cases ev) (simp_all add: maker_lock_phase_def)

lemma stage_taker_phase:
  assumes "ph \<in> {AwaitingMakerConfirmations, BothLegsLocked} \<Longrightarrow> ev = None"
    and "ph = ClaimEvidenceAvailable \<Longrightarrow> ev \<noteq> None"
    and "ph \<notin> {Offered, AwaitingTakerConfirmations, TakerLockConfirmed}"
  shows "stage_of (taker_lock_phase ph c (ev \<noteq> None)) (ev \<noteq> None) = stage_of ph (ev \<noteq> None)"
  using assms by (cases ph; cases c; cases ev) (simp_all add: taker_lock_phase_def)

lemma answers_taker_lock:
  assumes "coord_inv s"
  shows "answers s (EvFunding Taker p) (observe_taker_lock s p)"
proof (cases "taker_lock_transaction_id s \<in> {None, Some (transaction_id p)}")
  case True
  show ?thesis
  proof (cases "sc_phase s \<in> {Offered, AwaitingTakerConfirmations, TakerLockConfirmed}")
    case early: True
    with True show ?thesis
      by (auto simp: observe_taker_lock_def Let_def taker_lock_phase_def life_of_def lock_of_seen
          intro!: life_step.taker_early)
  next
    case False
    with True coord_inv_taker_known [OF assms] have tx: "taker_lock_transaction_id s = Some (transaction_id p)"
      by auto
    show ?thesis
    proof (cases "sc_phase s \<in> {Completed, Refunded}")
      case over: True
      with tx show ?thesis
        by (auto simp: observe_taker_lock_def intro!: life_step.taker_over)
    next
      case later: False
      have "life_stage (life_of s) \<in> {Committed, Revealed, MakerBack, TakerBack, Recovering}"
        using False later by (cases "sc_phase s") auto
      moreover have "life_of (snd (observe_taker_lock s p)) =
          (life_of s)\<lparr>life_taker := lock_seen (taker_depth (terms_of s)) p\<rparr>"
        using later tx stage_taker_phase [OF coord_inv_revealed [OF assms] False]
        by (simp add: observe_taker_lock_def Let_def life_of_def lock_of_seen)
      moreover have "fst (observe_taker_lock s p) = Ok ()"
        using later tx by (simp add: observe_taker_lock_def Let_def)
      ultimately show ?thesis
        using tx by (simp add: answers_eq life_step.taker_later)
    qed
  qed
qed (simp add: observe_taker_lock_def life_refuses.other_taker_lock)

lemma answers_taker_removed:
  assumes "coord_inv s"
  shows "answers s (EvFundingRemoved Taker tx) (observe_taker_lock_removed s tx)"
proof (cases "taker_lock_transaction_id s = Some tx")
  case True
  show ?thesis
  proof (cases "sc_phase s \<in> {Offered, AwaitingTakerConfirmations, TakerLockConfirmed}")
    case early: True
    with True assms show ?thesis
      by (auto simp: observe_taker_lock_removed_def Let_def life_of_def coord_inv_def
          intro!: life_step.taker_gone_early)
  next
    case False
    then have "life_stage (life_of s) \<notin> {Locking, TakerSafe}" by (cases "sc_phase s") auto
    moreover have "life_of (snd (observe_taker_lock_removed s tx)) =
        (life_of s)\<lparr>life_taker := ShallowLock tx\<rparr>"
      using False True coord_inv_revealed [OF assms]
      by (cases "sc_phase s") (simp_all add: observe_taker_lock_removed_def Let_def life_of_def)
    moreover have "fst (observe_taker_lock_removed s tx) = Ok ()"
      using True by (simp add: observe_taker_lock_removed_def Let_def)
    ultimately show ?thesis
      using True by (simp add: answers_eq life_step.taker_gone_later)
  qed
qed (simp add: observe_taker_lock_removed_def life_refuses.unknown_taker_lock)

lemma answers_maker_removed:
  assumes "coord_inv s" "reorg_flags s"
  shows "answers s (EvFundingRemoved Maker tx) (observe_maker_lock_removed s tx)"
proof (cases "maker_lock_transaction_id s = Some tx")
  case True
  show ?thesis
  proof (cases "sc_phase s = AwaitingMakerConfirmations")
    case waiting: True
    with assms True show ?thesis
      by (auto simp: observe_maker_lock_removed_def Let_def life_of_def reorg_flags_def
          intro!: life_step.maker_gone_first)
  next
    case False
    with True assms(1) show ?thesis
      by (cases "sc_phase s") (auto simp: observe_maker_lock_removed_def Let_def life_of_def coord_inv_def
          intro!: life_step.maker_gone_later)
  qed
qed (simp add: observe_maker_lock_removed_def life_refuses.unknown_maker_lock)

lemma answers_maker_lock:
  assumes "coord_inv s" "reorg_flags s"
  shows "answers s (EvFunding Maker p) (observe_maker_lock s p)"
proof -
  consider (again) "sc_phase s \<in> {AwaitingMakerConfirmations, BothLegsLocked, MakerLockReorged,
        ClaimEvidenceAvailable}"
    | (first) "sc_phase s = TakerLockConfirmed"
    | (early) "sc_phase s \<in> {Offered, AwaitingTakerConfirmations}"
    | (later) "sc_phase s \<in> {TakerLockReorged, Completed, MakerLegRefunded, TakerLegRefunded,
        MakerRecoveryAvailable, Refunded}"
    by (cases "sc_phase s") auto
  then show ?thesis
  proof cases
    case again
    show ?thesis
    proof (cases "maker_lock_transaction_id s = Some (transaction_id p)")
      case True
      have "life_stage (life_of s) \<in> {Committed, Revealed}"
        using again by (cases "sc_claim_evidence s") auto
      moreover have "life_of (snd (observe_maker_lock s p)) =
          (life_of s)\<lparr>life_maker := lock_seen (maker_depth (terms_of s)) p\<rparr>"
        using again True stage_maker_phase [OF coord_inv_revealed [OF assms(1)]]
        by (simp add: observe_maker_lock_def Let_def life_of_def lock_of_seen)
      moreover have "fst (observe_maker_lock s p) = Ok ()"
        using again True by (simp add: observe_maker_lock_def Let_def)
      ultimately show ?thesis
        using True by (simp add: answers_eq life_step.maker_again)
    next
      case False
      moreover have "maker_lock_transaction_id s \<noteq> None"
        using again coord_inv_maker_known(2) [OF assms(1)] by fastforce
      moreover have "observe_maker_lock s p = (Err ConflictingMakerLock, s)"
        using again False by (simp add: observe_maker_lock_def)
      ultimately show ?thesis by (simp add: life_refuses.other_maker_lock)
    qed
  next
    case first
    moreover from this have "maker_lock_transaction_id s = None"
      using coord_inv_maker_known(1) [OF assms(1)] by simp
    ultimately show ?thesis
      by (auto simp: observe_maker_lock_def Let_def life_of_def lock_of_seen intro!: life_step.maker_first)
  next
    case early
    moreover from this have "maker_lock_transaction_id s = None"
      using coord_inv_maker_known(1) [OF assms(1)] by auto
    ultimately show ?thesis
      by (auto simp: observe_maker_lock_def intro!: life_refuses.maker_too_early)
  next
    case later
    then have stage: "life_stage (life_of s) \<in> {Committed, Revealed} \<and> \<not> is_deep (life_taker (life_of s)) \<or>
        life_stage (life_of s) \<in> {Settled, MakerBack, TakerBack, Recovering, Unwound}"
      using assms(2) by (cases "sc_claim_evidence s") (auto simp: reorg_flags_def)
    show ?thesis
    proof (cases "maker_lock_transaction_id s")
      case None
      with later coord_inv_maker_known(2) [OF assms(1)] have "sc_phase s = Refunded" by fastforce
      with None show ?thesis by (simp add: observe_maker_lock_def life_refuses.maker_too_early)
    next
      case (Some tx)
      then have "observe_maker_lock s p =
          (if tx = transaction_id p then (Ok (), s) else (Err ConflictingMakerLock, s))"
        using later by (auto simp: observe_maker_lock_def)
      with Some stage show ?thesis
        by (simp add: life_refuses.other_maker_lock life_step.maker_unheeded del: life_of_simps(1,2))
    qed
  qed
qed

lemma life_reveal_of:
  assumes "coord_inv s"
  shows "life_reveal (life_of s) = None \<longleftrightarrow> sc_claim_evidence s = None"
    "life_reveal (life_of s) = Some (tx, ev) \<longleftrightarrow>
       revealing_claim_transaction_id s = Some tx \<and> sc_claim_evidence s = Some ev"
  using assms by (auto simp: life_of_def coord_inv_def split: option.split)

lemma reorg_shallow:
  assumes "reorg_flags s"
  shows "sc_phase s = TakerLockReorged \<Longrightarrow> \<not> taker_funding_confirmed s \<and> sc_phase s \<noteq> MakerLockReorged"
    "sc_phase s = MakerLockReorged \<Longrightarrow> \<not> maker_funding_confirmed s \<and> sc_phase s \<noteq> TakerLockReorged"
  using assms by (simp_all add: reorg_flags_def)

lemma funded_deep: "both_legs_funded s = Ok () \<longleftrightarrow> both_deep (life_of s)"
  by (auto simp: both_legs_funded_Ok)

lemma answers_revealing:
  assumes "coord_inv s" "reorg_flags s"
  shows "answers s (EvRevealingClaim q p ev) (observe_revealing_claim s q p ev)"
proof -
  note known = life_reveal_of [OF assms(1)]
  consider (by_other) "q \<noteq> first_claimant s"
    | (taker) "q = first_claimant s" "\<not> (taker_funding_confirmed s \<and> taker_lock_transaction_id s \<noteq> None)"
        "sc_phase s \<noteq> MakerLockReorged"
    | (maker) "q = first_claimant s" "\<not> (maker_funding_confirmed s \<and> maker_lock_transaction_id s \<noteq> None)"
        "sc_phase s \<noteq> TakerLockReorged"
        "sc_phase s = MakerLockReorged \<or> taker_funding_confirmed s \<and> taker_lock_transaction_id s \<noteq> None"
    | (first) "q = first_claimant s" "both_legs_funded s = Ok ()" "sc_phase s = BothLegsLocked"
    | (later) "q = first_claimant s" "both_legs_funded s = Ok ()"
        "sc_phase s \<notin> {BothLegsLocked, TakerLockReorged, MakerLockReorged}"
    using reorg_shallow [OF assms(2)] unfolding both_legs_funded_Ok by blast
  then show ?thesis
  proof cases
    case by_other
    then show ?thesis
      by (simp add: observe_revealing_claim_def revealer_terms [symmetric] life_refuses.reveal_by_other)
  next
    case taker
    then show ?thesis
      by (auto simp: observe_revealing_claim_def both_legs_funded_def revealer_terms
          intro!: life_refuses.reveal_taker_shallow)
  next
    case maker
    then show ?thesis
      by (auto simp: observe_revealing_claim_def both_legs_funded_def revealer_terms
          intro!: life_refuses.reveal_maker_shallow)
  next
    case first
    with first(2) [unfolded funded_deep] show ?thesis
      unfolding observe_revealing_claim_def
      by (auto intro!: life_step.reveal simp: revealer_terms) (simp add: life_of_def)
  next
    case later
    note deep = later(2) [unfolded funded_deep]
    show ?thesis
    proof (cases "sc_claim_evidence s")
      case None
      with later assms have "sc_phase s \<in> {MakerLegRefunded, TakerLegRefunded, MakerRecoveryAvailable, Refunded}"
        by (cases "sc_phase s") (auto simp: coord_inv_def reorg_flags_def both_legs_funded_Ok)
      with later None known(1) deep show ?thesis
        by (auto simp: observe_revealing_claim_def revealer_terms split: option.split
            intro!: life_refuses.reveal_too_late)
    next
      case (Some ev')
      with assms(1) obtain tx where tx: "revealing_claim_transaction_id s = Some tx"
        by (auto simp: coord_inv_def)
      show ?thesis
      proof (cases "tx = transaction_id p \<and> ev' = ev")
        case True
        with later Some tx known(2) deep show ?thesis
          by (auto simp: observe_revealing_claim_def revealer_terms intro!: life_step.reveal_again)
      next
        case False
        with later Some tx known have "life_reveal (life_of s) \<notin> {None, Some (transaction_id p, ev)}" by auto
        with later Some tx False deep show ?thesis
          by (auto simp: observe_revealing_claim_def revealer_terms intro!: life_refuses.reveal_conflict)
      qed
    qed
  qed
qed

lemma answers_followup:
  assumes "coord_inv s" "reorg_flags s"
  shows "answers s (EvFollowupClaim q p) (observe_followup_claim s q p)"
proof -
  consider (by_other) "q \<noteq> other (first_claimant s)"
    | (taker) "q = other (first_claimant s)" "\<not> (taker_funding_confirmed s \<and> taker_lock_transaction_id s \<noteq> None)"
        "sc_phase s \<noteq> MakerLockReorged"
    | (maker) "q = other (first_claimant s)" "\<not> (maker_funding_confirmed s \<and> maker_lock_transaction_id s \<noteq> None)"
        "sc_phase s \<noteq> TakerLockReorged"
        "sc_phase s = MakerLockReorged \<or> taker_funding_confirmed s \<and> taker_lock_transaction_id s \<noteq> None"
    | (first) "q = other (first_claimant s)" "both_legs_funded s = Ok ()" "sc_phase s = ClaimEvidenceAvailable"
    | (later) "q = other (first_claimant s)" "both_legs_funded s = Ok ()"
        "sc_phase s \<notin> {ClaimEvidenceAvailable, TakerLockReorged, MakerLockReorged}"
    using reorg_shallow [OF assms(2)] unfolding both_legs_funded_Ok by blast
  then show ?thesis
  proof cases
    case by_other
    then show ?thesis
      by (simp add: observe_followup_claim_def revealer_terms [symmetric] life_refuses.followup_by_other)
  next
    case taker
    then show ?thesis
      by (auto simp: observe_followup_claim_def both_legs_funded_def revealer_terms
          intro!: life_refuses.followup_taker_shallow)
  next
    case maker
    then show ?thesis
      by (auto simp: observe_followup_claim_def both_legs_funded_def revealer_terms
          intro!: life_refuses.followup_maker_shallow)
  next
    case first
    with first(2) [unfolded funded_deep] show ?thesis
      unfolding observe_followup_claim_def
      by (auto intro!: life_step.followup simp: revealer_terms) (simp add: life_of_def)
  next
    case later
    note deep = later(2) [unfolded funded_deep]
    show ?thesis
    proof (cases "followup_claim_transaction_id s")
      case None
      with later assms have "sc_phase s \<in> {BothLegsLocked, MakerLegRefunded, TakerLegRefunded,
          MakerRecoveryAvailable, Refunded}"
        by (cases "sc_phase s") (auto simp: coord_inv_def reorg_flags_def both_legs_funded_Ok)
      with later None deep show ?thesis
        by (auto simp: observe_followup_claim_def revealer_terms intro!: life_refuses.followup_unrevealed)
    next
      case (Some tx)
      with later deep show ?thesis
        by (auto simp: observe_followup_claim_def revealer_terms
            intro!: life_step.followup_again life_refuses.followup_conflict)
    qed
  qed
qed

lemma deadline_answer:
  obtains (expired) "deadline_reached d now = Ok True" "expired d now"
  | (early) "deadline_reached d now = Ok False" "pos_value now < pos_value d"
  | (clock) "deadline_reached d now =
        Err (WrongDeadlineClock (pos_chain d) (pos_basis d) (pos_chain now) (pos_basis now))"
      "(pos_chain now, pos_basis now) \<noteq> (pos_chain d, pos_basis d)"
  by (cases "(pos_chain now, pos_basis now) = (pos_chain d, pos_basis d)"; cases "pos_value d \<le> pos_value now")
    (auto simp: deadline_reached_def expired_def not_le)

lemma answers_refund_maker:
  assumes "coord_inv s" "reorg_flags s"
  shows "answers s (EvRefundMaker now) (refund_maker_leg s now)"
proof (cases "sc_phase s \<in> {BothLegsLocked, AwaitingMakerConfirmations, TakerLockReorged, MakerLockReorged,
    TakerLegRefunded}")
  case True
  show ?thesis
  proof (cases "rs_maker_trigger (sc_recovery_schedule s)")
    case (Deadline d)
    show ?thesis
    proof (cases rule: deadline_answer [of d now])
      case expired
      with True Deadline assms(2) show ?thesis
        by (auto simp: refund_maker_leg_def maker_deadline_reached_def life_of_def reorg_flags_def
            split: if_splits intro!: life_step.refund_maker)
    next
      case early
      with True Deadline show ?thesis
        by (auto simp: refund_maker_leg_def maker_deadline_reached_def intro!: life_refuses.maker_not_expired)
    next
      case clock
      with True Deadline show ?thesis
        by (auto simp: refund_maker_leg_def maker_deadline_reached_def intro!: life_refuses.maker_wrong_clock)
    qed
  next
    case (CanonicalTakerRefund c n)
    with True show ?thesis
      by (auto simp: refund_maker_leg_def maker_deadline_reached_def intro!: life_refuses.maker_has_no_deadline)
  qed
next
  case False
  then have "stage_of (sc_phase s) (sc_claim_evidence s \<noteq> None) \<notin> {Committed, TakerBack}"
    by (cases "sc_phase s") auto
  with False show ?thesis by (simp add: refund_maker_leg_def life_refuses.no_maker_refund)
qed

lemma refund_taker_result:
  assumes "sc_phase s \<in> {AwaitingTakerConfirmations, TakerLockConfirmed, AwaitingMakerConfirmations,
      BothLegsLocked, TakerLockReorged, MakerLockReorged, MakerLegRefunded}"
    and "\<And>t. t = s\<lparr>sc_phase := (if sc_phase s \<in> {AwaitingTakerConfirmations, TakerLockConfirmed,
      MakerLegRefunded} then Refunded else TakerLegRefunded)\<rparr> \<Longrightarrow>
      expired (rs_taker_refund (sc_recovery_schedule s)) now \<Longrightarrow>
      life_step (terms_of s) (life_of s) (EvRefundTaker now) (life_of t)"
  shows "answers s (EvRefundTaker now) (refund_taker_leg s now)"
proof (cases rule: deadline_answer [of "rs_taker_refund (sc_recovery_schedule s)" now])
  case expired
  with assms show ?thesis by (simp add: refund_taker_leg_def taker_refund_reached_def)
next
  case early
  with assms(1) show ?thesis
    by (simp add: refund_taker_leg_def taker_refund_reached_def life_refuses.taker_not_expired)
next
  case clock
  with assms(1) show ?thesis
    using life_refuses.taker_wrong_clock [of "rs_taker_refund (sc_recovery_schedule s)" "terms_of s" now]
    by (simp add: refund_taker_leg_def taker_refund_reached_def)
qed

lemma answers_refund_taker:
  assumes "coord_inv s" "reorg_flags s"
  shows "answers s (EvRefundTaker now) (refund_taker_leg s now)"
proof -
  consider (alone) "sc_phase s \<in> {AwaitingTakerConfirmations, TakerLockConfirmed, MakerLegRefunded}"
    | (both) "sc_phase s \<in> {AwaitingMakerConfirmations, BothLegsLocked, TakerLockReorged, MakerLockReorged}"
    | (none) "sc_phase s \<in> {Offered, ClaimEvidenceAvailable, Completed, TakerLegRefunded,
        MakerRecoveryAvailable, Refunded}"
    by (cases "sc_phase s") auto
  then show ?thesis
  proof cases
    case alone
    show ?thesis
    proof (rule refund_taker_result, goal_cases)
      case (2 t)
      have "life_taker (life_of s) \<noteq> NoLock" using alone coord_inv_taker_known [OF assms(1)] by auto
      moreover have "life_stage (life_of s) \<in> {Locking, TakerSafe, MakerBack}" using alone by auto
      moreover have "life_of t = (life_of s)\<lparr>life_stage := Unwound\<rparr>"
        using alone by (auto simp: 2(1) life_of_def)
      ultimately show ?case using 2(2) by (intro life_step.refund_taker_alone) simp_all
    qed (use alone in blast)
  next
    case both
    show ?thesis
    proof (rule refund_taker_result, goal_cases)
      case (2 t)
      have "life_stage (life_of s) = Committed \<or>
          life_stage (life_of s) = Revealed \<and> \<not> both_deep (life_of s)"
        using both assms(2) by (cases "sc_claim_evidence s") (auto simp: reorg_flags_def)
      moreover have "life_of t = (life_of s)\<lparr>life_stage := TakerBack\<rparr>"
        using both by (auto simp: 2(1) life_of_def)
      ultimately show ?case using 2(2) by (intro life_step.refund_taker) simp_all
    qed (use both in blast)
  next
    case none
    moreover from this have "life_stage (life_of s) \<in> {Revealed, Settled, TakerBack, Recovering, Unwound} \<or>
        life_taker (life_of s) = NoLock"
      using assms(1) by (auto simp: coord_inv_def)
    moreover have "refund_taker_leg s now = (Err (InvalidPhase TakerLockConfirmed (sc_phase s)), s)"
      using none by (auto simp: refund_taker_leg_def)
    ultimately show ?thesis by (simp only: answers_Err life_refuses.no_taker_refund)
  qed
qed

lemma answers_taker_refund:
  assumes "coord_inv s"
  shows "answers s (EvTakerRefundEvent ev) (observe_taker_refund_for_maker_recovery s ev)"
proof (cases "rs_maker_trigger (sc_recovery_schedule s)")
  case (Deadline d)
  then show ?thesis
    by (auto simp: observe_taker_refund_for_maker_recovery_def intro!: life_refuses.no_refund_event)
next
  case (CanonicalTakerRefund c n)
  let ?tx = "transaction_id (event_proof ev)" and ?n = "confirmations (event_proof ev)"
  consider (chain) "event_chain ev \<noteq> c"
    | (conflict) "event_chain ev = c" "taker_refund_event_transaction_id s \<notin> {None, Some ?tx}"
    | (shallow) "event_chain ev = c" "taker_refund_event_transaction_id s \<in> {None, Some ?tx}" "?n < n"
    | (deep) "event_chain ev = c" "taker_refund_event_transaction_id s \<in> {None, Some ?tx}" "n \<le> ?n"
    by fastforce
  then show ?thesis
  proof cases
    case chain
    with CanonicalTakerRefund show ?thesis
      by (auto simp: observe_taker_refund_for_maker_recovery_def intro!: life_refuses.event_wrong_chain)
  next
    case conflict
    with CanonicalTakerRefund show ?thesis
      by (auto simp: observe_taker_refund_for_maker_recovery_def intro!: life_refuses.other_refund_event)
  next
    case shallow
    show ?thesis
    proof (cases "sc_phase s = MakerRecoveryAvailable")
      case True
      with assms shallow have "taker_refund_event_transaction_id s = Some ?tx" by (auto simp: coord_inv_def)
      with True shallow CanonicalTakerRefund show ?thesis
        by (auto simp: observe_taker_refund_for_maker_recovery_def life_of_def intro!: life_step.refund_not_final)
    next
      case False
      then have "stage_of (sc_phase s) (sc_claim_evidence s \<noteq> None) \<noteq> Recovering"
        by (cases "sc_phase s") auto
      with False shallow CanonicalTakerRefund show ?thesis
        by (auto simp: observe_taker_refund_for_maker_recovery_def intro!: life_refuses.event_shallow)
    qed
  next
    case deep
    then have "\<not> ?n < n" by simp
    with deep CanonicalTakerRefund show ?thesis
      by (cases "sc_phase s")
        (auto simp: observe_taker_refund_for_maker_recovery_def life_of_def
          intro!: life_step.refund_final life_step.refund_final_again life_refuses.no_refund_event)
  qed
qed

lemma answers_maker_recovery:
  assumes "coord_inv s"
  shows "answers s (EvMakerRecovery p) (observe_maker_recovery s p)"
proof (cases "maker_recovery_transaction_id s \<in> {None, Some (transaction_id p)}")
  case True
  with assms show ?thesis
    by (cases "sc_phase s")
      (auto simp: observe_maker_recovery_def life_of_def coord_inv_def
        intro!: life_step.recover life_step.recover_again life_refuses.no_recovery)
qed (auto simp: observe_maker_recovery_def intro!: life_refuses.other_recovery)

lemma apply_event_answers:
  assumes "coord_inv s" "reorg_flags s"
  shows "answers s e (apply_event s e)"
  using assms
  by (cases e rule: coord_event_cases)
    (simp_all add: answers_taker_lock answers_taker_removed answers_maker_lock answers_maker_removed
      answers_revealing answers_followup answers_refund_maker answers_taker_refund answers_maker_recovery
      answers_refund_taker)

lemma reachable_reorg_flags: "reorg_flags (run coord_step (coord_start i p d tp mp rs) es)"
  by (rule coord_reorg.run_inv) (simp add: reorg_flags_def)

lemma terms_of_run: "terms_of (run coord_step (coord_start i p d tp mp rs) es) = agreed p d tp mp rs"
  using coord_terms.run_obs [of "coord_start i p d tp mp rs" es]
  by (simp add: coord_terms_def terms_of_def coordinator_new_with_confirmation_policies_def)

end
