(* ===== verification/Coordinator_Properties.thy ===== *)
theory Coordinator_Properties
  imports Coordinator_Lifecycle
begin

text \<open>
  What the coordinator guarantees, stated over every run from a new coordinator, with a
  concrete Bitcoin swap as the witness input. The last section has two ways in which a
  funding regression is lost, from every coordinator that is in the phase they start in.
\<close>

section \<open>A concrete swap\<close>

definition demo_btc :: swap_coordinator where
  "demo_btc = coord_start (SwapId ''swap-1'') Pair_Bitcoin TakerSellsForeign
     (ConfirmationPolicy 2) (ConfirmationPolicy 2)
     \<lparr>rs_maker_trigger = Deadline (timestamp Chain_Lez 1000),
      rs_taker_refund = block_height Chain_Bitcoin 500,
      rs_safety = Some \<lparr>earlier_chain = Chain_Lez, later_chain = Chain_Bitcoin,
        earlier_refund_latest = 1000, later_refund_earliest = 5000, required_margin = 3600\<rparr>\<rparr>"

definition lock_proof :: "string \<Rightarrow> u32 \<Rightarrow> chain_proof" where
  "lock_proof tx n = \<lparr>transaction_id = tx, confirmations = n\<rparr>"

abbreviation both_locked :: "coord_event list" where
  "both_locked \<equiv> [EvFunding Taker (lock_proof ''tk'' 2), EvFunding Maker (lock_proof ''mk'' 2)]"

abbreviation both_claimed :: "coord_event list" where
  "both_claimed \<equiv> both_locked @ [EvRevealingClaim Taker (lock_proof ''rv'' 1) (ClaimEvidence [1]),
     EvFollowupClaim Maker (lock_proof ''fu'' 1)]"

lemmas demo_simps = demo_btc_def coordinator_new_with_confirmation_policies_def coord_step_def
  coord_defs Let_def lock_proof_def clock_defs first_claimant_def word_le_nat_alt

lemma demo_locked: "sc_phase (run coord_step demo_btc both_locked) = BothLegsLocked"
  by (simp add: demo_simps)

lemma demo_completed: "sc_phase (run coord_step demo_btc both_claimed) = Completed"
  by (simp add: demo_simps)

section \<open>Schedules and clocks\<close>

text \<open>
  C32: A recovery schedule that passes validation puts the refund of the leg the revealing
  claimant takes on the earlier chain and the refund of the follow-up leg on the later
  chain, with the latest earlier refund plus the nonzero margin no later than the earliest
  later refund, computed without wrap-around.
\<close>

theorem schedule_reveal_leg_expires_first:
  assumes "timelock_safety_between a b latest earliest margin = Ok safety"
    and "recovery_schedule_new p d m t safety = Ok rs"
    and "s = coord_start i p d tp mp rs"
  shows "a = funded_chain s (other (first_claimant s)) \<and> b = funded_chain s (first_claimant s) \<and>
    rs_maker_trigger rs = Deadline m \<and> pos_chain m = funded_chain s Maker \<and>
    pos_chain (rs_taker_refund rs) = funded_chain s Taker \<and>
    unat latest + unat margin \<le> unat earliest \<and> 0 < unat margin"
  using assms
  by (cases p; cases d)
    (auto simp: timelock_safety_between_Ok recovery_schedule_new_Ok first_claimant_def
      coordinator_new_with_confirmation_policies_def unat_gt_0)

theorem schedule_reveal_leg_expires_first_witness:
  "\<exists>safety rs. timelock_safety_between Chain_Lez Chain_Bitcoin 1000 5000 3600 = Ok safety \<and>
     recovery_schedule_new Pair_Bitcoin TakerSellsForeign (timestamp Chain_Lez 1000)
       (block_height Chain_Bitcoin 500) safety = Ok rs \<and>
     Chain_Lez = funded_chain (coord_start (SwapId ''s'') Pair_Bitcoin TakerSellsForeign
       (ConfirmationPolicy 2) (ConfirmationPolicy 2) rs) Maker"
proof -
  define safety :: timelock_safety where
    "safety = \<lparr>earlier_chain = Chain_Lez, later_chain = Chain_Bitcoin,
      earlier_refund_latest = 1000, later_refund_earliest = 5000, required_margin = 3600\<rparr>"
  define rs where "rs = \<lparr>rs_maker_trigger = Deadline (timestamp Chain_Lez 1000),
    rs_taker_refund = block_height Chain_Bitcoin 500, rs_safety = Some safety\<rparr>"
  have 1: "timelock_safety_between Chain_Lez Chain_Bitcoin 1000 5000 3600 = Ok safety"
    by (simp add: timelock_safety_between_Ok safety_def)
  have 2: "recovery_schedule_new Pair_Bitcoin TakerSellsForeign (timestamp Chain_Lez 1000)
       (block_height Chain_Bitcoin 500) safety = Ok rs"
    by (simp add: recovery_schedule_new_Ok safety_def rs_def timestamp_def block_height_def)
  from schedule_reveal_leg_expires_first [OF 1 2 refl, of "SwapId ''s''" "ConfirmationPolicy 2"
      "ConfirmationPolicy 2"] 1 2 show ?thesis
    by (auto simp: timestamp_def)
qed

text \<open>
  A successful conversion of seconds to LEZ milliseconds multiplies by one thousand
  without wrap-around, and both the floor and the ceiling conversion give the seconds back.
\<close>

theorem milliseconds_round_trip:
  assumes "checked_to_lez_milliseconds s = Ok ms"
  shows "unat (milliseconds_value ms) = 1000 * unat (seconds_value s) \<and>
    to_unix_seconds_floor ms = s \<and> to_unix_seconds_ceil ms = s"
proof -
  obtain v where s: "s = UnixSeconds v" by (cases s) auto
  obtain w where ms: "ms = LezUnixMilliseconds w" by (cases ms) auto
  from assms have w: "unat w = unat v * 1000"
    by (auto simp: checked_to_lez_milliseconds_def s ms split: option.splits
        dest: unat_checked_mul)
  have "w div 1000 = v"
    by (rule word_unat_eq_iff [THEN iffD2]) (simp add: unat_div w)
  moreover have "w mod 1000 = 0"
    by (rule word_unat_eq_iff [THEN iffD2]) (simp add: unat_mod w)
  ultimately show ?thesis
    by (simp add: s ms w to_unix_seconds_floor_def to_unix_seconds_ceil_def)
qed

theorem milliseconds_round_trip_witness:
  "checked_to_lez_milliseconds (UnixSeconds 5) = Ok (LezUnixMilliseconds 5000) \<and>
   to_unix_seconds_floor (LezUnixMilliseconds 5000) = UnixSeconds 5"
proof -
  have "checked_to_lez_milliseconds (UnixSeconds 5) = Ok (LezUnixMilliseconds 5000)"
    by (simp add: checked_to_lez_milliseconds_def checked_mul_def)
  from this milliseconds_round_trip [OF this] show ?thesis by simp
qed

section \<open>Safety of every run\<close>

text \<open>
  C13: Every observation on every reachable coordinator is answered as the abstract
  lifecycle of two locks and nine stages says. If the method succeeds, the locks (missing,
  shallow or deep), the stage and the recorded claims and refunds move by a rule of the
  lifecycle: only the agreed claimant reveals and only while both locks are deep, only the
  other participant follows up, a leg is refunded only past its deadline. If it fails, the
  coordinator is unchanged and the lifecycle refuses the observation with that error.
\<close>

theorem coordinator_refines_lifecycle:
  "let s = run coord_step (coord_start i p d tp mp rs) es
   in case apply_event s e of
        (Inr _, t) \<Rightarrow> life_step (agreed p d tp mp rs) (life_of s) e (life_of t)
      | (Inl err, t) \<Rightarrow> t = s \<and> life_refuses (agreed p d tp mp rs) (life_of s) e err"
  using apply_event_answers [OF coord_new_inv_run reachable_reorg_flags, of i p d tp mp rs es e]
  unfolding answers_def terms_of_run Let_def .

text \<open>
  A coordinator method that returns an error leaves the coordinator exactly as it was.
\<close>

theorem coordinator_error_atomic:
  assumes "apply_event s e = (Err x, t)"
  shows "t = s"
  using apply_event_implements [of s e] assms by (auto simp: implements_def)

theorem coordinator_error_atomic_witness:
  "apply_event demo_btc (EvFunding Maker (lock_proof ''mk'' 2)) = (Err TakerLockNotConfirmed, demo_btc)"
proof -
  have "fst (apply_event demo_btc (EvFunding Maker (lock_proof ''mk'' 2))) =
      Err TakerLockNotConfirmed"
    by (simp add: demo_simps)
  then obtain t where t: "apply_event demo_btc (EvFunding Maker (lock_proof ''mk'' 2)) =
      (Err TakerLockNotConfirmed, t)"
    by (metis prod.collapse)
  from t coordinator_error_atomic [OF t] show ?thesis by simp
qed

text \<open>
  Every reachable coordinator has the record shape of its phase: which transaction
  identifiers are present in which phase, claim evidence present exactly when its claim
  identifier is, and funding flags set only for known locks.
\<close>

theorem reachable_shape: "coord_inv (run coord_step (coord_start i p d tp mp rs) es)"
  by (rule coord_new_inv_run)

text \<open>
  Once both locks are committed in a reachable coordinator, no sequence of further
  events changes either lock transaction identifier.
\<close>

theorem committed_locks_pinned:
  assumes "s = run coord_step (coord_start i p d tp mp rs) es" and "locks_committed s"
  shows "taker_lock_transaction_id (run coord_step s es') = taker_lock_transaction_id s \<and>
    maker_lock_transaction_id (run coord_step s es') = maker_lock_transaction_id s \<and>
    locks_committed (run coord_step s es')"
proof -
  from assms have inv: "coord_inv s \<and> locks_committed s"
    by (simp add: coord_new_inv_run)
  from coord_locks.run_obs [OF inv, of es'] coord_locks.run_inv [OF inv, of es'] show ?thesis
    by simp
qed

theorem committed_locks_pinned_witness:
  "taker_lock_transaction_id (run coord_step (run coord_step demo_btc both_locked)
     [EvFundingRemoved Taker ''tk'', EvFunding Taker (lock_proof ''forged'' 9)]) = Some ''tk''"
proof -
  let ?s = "run coord_step demo_btc both_locked"
  have "locks_committed ?s"
    unfolding locks_committed_def demo_locked by simp
  moreover have "taker_lock_transaction_id ?s = Some ''tk''"
    by (simp add: demo_simps)
  ultimately show ?thesis
    using committed_locks_pinned [OF _ \<open>locks_committed ?s\<close>, of _ _ _ _ _ _ both_locked] demo_btc_def
    by metis
qed

text \<open>
  Claim evidence recorded in a reachable coordinator and the identifier of the claim
  that revealed it are never replaced or lost, whatever events follow.
\<close>

theorem claim_evidence_permanent:
  assumes "s = run coord_step (coord_start i p d tp mp rs) es" and "sc_claim_evidence s = Some ev"
  shows "sc_claim_evidence (run coord_step s es') = Some ev \<and>
    revealing_claim_transaction_id (run coord_step s es') = revealing_claim_transaction_id s"
proof -
  from assms have inv: "coord_inv s \<and> sc_claim_evidence s \<noteq> None"
    by (simp add: coord_new_inv_run)
  from coord_evidence.run_obs [OF inv, of es'] assms(2) show ?thesis by simp
qed

theorem claim_evidence_permanent_witness:
  "sc_claim_evidence (run coord_step (run coord_step demo_btc both_claimed)
     [EvRevealingClaim Taker (lock_proof ''x'' 9) (ClaimEvidence [2])]) = Some (ClaimEvidence [1])"
proof -
  let ?s = "run coord_step demo_btc both_claimed"
  have ev: "sc_claim_evidence ?s = Some (ClaimEvidence [1])"
    by (simp add: demo_simps)
  show ?thesis
    using claim_evidence_permanent [OF _ ev, of _ _ _ _ _ _ both_claimed] demo_btc_def by metis
qed

text \<open>
  C1: If a run from a new coordinator ends Completed, its events contain a revealing claim
  by the first claimant of the pair and direction that the coordinator accepted as the first
  claim evidence, and later a follow-up claim of the other participant that it accepted with
  that evidence still stored and that made it Completed. Before each of the two, the last
  observation of the taker lock was at its policy depth and the stored maker lock had been
  observed at its policy depth.
\<close>

theorem completion_needs_both_claims:
  assumes "s0 = coord_start i p d tp mp rs" and "sc_phase (run coord_step s0 es) = Completed"
  shows "\<exists>before reveal ev between claim after s1 s2.
    es = before @ EvRevealingClaim (claimant_order p d) reveal ev # between @
         EvFollowupClaim (other (claimant_order p d)) claim # after \<and>
    apply_event (run coord_step s0 before) (EvRevealingClaim (claimant_order p d) reveal ev) = (Ok (), s1) \<and>
    sc_claim_evidence (run coord_step s0 before) = None \<and> sc_claim_evidence s1 = Some ev \<and>
    both_seen_deep s0 before \<and>
    apply_event (run coord_step s1 between) (EvFollowupClaim (other (claimant_order p d)) claim) = (Ok (), s2) \<and>
    sc_claim_evidence (run coord_step s1 between) = Some ev \<and> sc_phase s2 = Completed \<and>
    both_seen_deep s0 (before @ EvRevealingClaim (claimant_order p d) reveal ev # between)"
proof -
  have fc: "first_claimant s0 = claimant_order p d"
    by (simp add: assms(1) first_claimant_def coordinator_new_with_confirmation_policies_def)
  have start: "sc_phase s0 \<noteq> Completed" "sc_claim_evidence s0 = None"
    by (simp_all add: assms(1))
  have inv: "coord_inv (run coord_step s0 xs)" for xs by (simp add: assms(1) coord_new_inv_run)
  from completion_history [OF start(1) assms(2)] obtain pre claim after s2 where
    es: "es = pre @ EvFollowupClaim (other (claimant_order p d)) claim # after"
    and follow: "apply_event (run coord_step s0 pre) (EvFollowupClaim (other (claimant_order p d)) claim) = (Ok (), s2)"
      "sc_phase (run coord_step s0 pre) = ClaimEvidenceAvailable" "sc_phase s2 = Completed"
      "both_legs_funded (run coord_step s0 pre) = Ok ()"
    unfolding fc by blast
  from inv [of pre] follow(2) have "sc_claim_evidence (run coord_step s0 pre) \<noteq> None"
    by (auto simp: coord_inv_def)
  from evidence_history [OF start(2) this] obtain before reveal ev between s1 where
    pre: "pre = before @ EvRevealingClaim (claimant_order p d) reveal ev # between"
    and reveal: "apply_event (run coord_step s0 before) (EvRevealingClaim (claimant_order p d) reveal ev) = (Ok (), s1)"
      "sc_claim_evidence (run coord_step s0 before) = None" "sc_claim_evidence s1 = Some ev"
      "sc_phase (run coord_step s0 before) = BothLegsLocked" "both_legs_funded (run coord_step s0 before) = Ok ()"
    unfolding fc by blast
  have step: "coord_step (run coord_step s0 before) (EvRevealingClaim (claimant_order p d) reveal ev) = s1"
    by (simp only: coord_step_def reveal(1) snd_conv)
  then have s1: "run coord_step s0 pre = run coord_step s1 between" by (simp add: pre)
  have "coord_inv s1"
    using inv [of "before @ [EvRevealingClaim (claimant_order p d) reveal ev]"] step by simp
  then have ev: "sc_claim_evidence (run coord_step s1 between) = Some ev"
    using coord_evidence.run_obs [of s1 between] reveal(3) by simp
  have deep: "both_seen_deep s0 before" "both_seen_deep s0 pre"
    using reveal(4,5) follow(2,4) unfolding assms(1) by (intro funded_history; simp)+
  have split: "es = before @ EvRevealingClaim (claimant_order p d) reveal ev # between @
      EvFollowupClaim (other (claimant_order p d)) claim # after"
    by (simp add: es pre)
  note parts = reveal(1-3) deep(1) follow(1) [unfolded s1] ev follow(3) deep(2) [unfolded pre]
  show ?thesis by (intro exI conjI, rule split) (rule parts)+
qed

theorem completion_needs_both_claims_witness:
  "\<exists>before reveal ev between claim after s1.
    both_claimed = before @ EvRevealingClaim Taker reveal ev # between @
         EvFollowupClaim Maker claim # after \<and>
    apply_event (run coord_step demo_btc before) (EvRevealingClaim Taker reveal ev) = (Ok (), s1) \<and>
    both_seen_deep demo_btc before"
  using completion_needs_both_claims [OF demo_btc_def demo_completed]
  unfolding claimant_order.simps other.simps by blast

text \<open>
  C21: A run that reaches any refund or recovery phase contains a refund event whose
  observed position is on the chain and clock of the maker or taker deadline of the schedule
  and at or past its value.
\<close>

theorem refund_needs_expired_timelock:
  assumes "sc_phase (run coord_step (coord_start i p d tp mp rs) es) \<in> refund_phases"
  shows "\<exists>at d. (EvRefundMaker at \<in> set es \<and> rs_maker_trigger rs = Deadline d \<or>
      EvRefundTaker at \<in> set es \<and> rs_taker_refund rs = d) \<and>
    pos_chain at = pos_chain d \<and> pos_basis at = pos_basis d \<and> pos_value d \<le> pos_value at"
proof -
  have rs: "sc_recovery_schedule (coord_start i p d tp mp rs) = rs"
    by (simp add: coordinator_new_with_confirmation_policies_def)
  from first_refund_history [OF _ assms] obtain e at where "e \<in> set es" and
    "e = EvRefundMaker at \<and> maker_deadline_reached rs at = Ok True \<or>
     e = EvRefundTaker at \<and> taker_refund_reached rs at = Ok True"
    by (fastforce simp: rs)
  then show ?thesis
    by (auto simp: maker_deadline_True taker_refund_reached_def deadline_reached_True)
qed

theorem refund_needs_expired_timelock_witness:
  "\<exists>at d. (EvRefundMaker at \<in> set [EvFunding Taker (lock_proof ''tk'' 2),
        EvRefundTaker (block_height Chain_Bitcoin 500)] \<and>
        Deadline (timestamp Chain_Lez 1000) = Deadline d \<or>
      EvRefundTaker at \<in> set [EvFunding Taker (lock_proof ''tk'' 2),
        EvRefundTaker (block_height Chain_Bitcoin 500)] \<and> block_height Chain_Bitcoin 500 = d) \<and>
    pos_chain at = pos_chain d \<and> pos_basis at = pos_basis d \<and> pos_value d \<le> pos_value at"
proof -
  have "sc_phase (run coord_step demo_btc [EvFunding Taker (lock_proof ''tk'' 2),
      EvRefundTaker (block_height Chain_Bitcoin 500)]) \<in> refund_phases"
    by (simp add: demo_simps)
  from refund_needs_expired_timelock [OF this [unfolded demo_btc_def]] show ?thesis
    by simp
qed

text \<open>
  Once a leg is refunded or recovery has begun the coordinator stays in the refund
  phases: it never completes and never records new claim evidence.
\<close>

theorem no_claim_after_refund:
  assumes "sc_phase s \<in> refund_phases"
  shows "sc_phase (run coord_step s es) \<in> refund_phases \<and>
    sc_phase (run coord_step s es) \<noteq> Completed \<and>
    sc_claim_evidence (run coord_step s es) = sc_claim_evidence s"
  using coord_refund.run_inv [OF assms, of es] coord_refund.run_obs [OF assms, of es] by auto

theorem no_claim_after_refund_witness:
  "sc_phase (run coord_step (demo_btc\<lparr>sc_phase := MakerLegRefunded\<rparr>) both_claimed) \<noteq> Completed"
  using no_claim_after_refund [of "demo_btc\<lparr>sc_phase := MakerLegRefunded\<rparr>" both_claimed] by simp

text \<open>
  In Completed and Refunded no event changes anything but the two funding flags.
\<close>

theorem terminal_phases_absorb:
  assumes "sc_phase s \<in> {Completed, Refunded}"
  shows "strip_flags (run coord_step s es) = strip_flags s"
  using assms by (rule coord_terminal.run_obs)

theorem terminal_phases_absorb_witness:
  "strip_flags (run coord_step (run coord_step demo_btc both_claimed)
      [EvFundingRemoved Taker ''tk'', EvRefundTaker (block_height Chain_Bitcoin 500)]) =
   strip_flags (run coord_step demo_btc both_claimed)"
  by (rule terminal_phases_absorb) (simp only: demo_completed insertI1)

text \<open>
  Until a terminal phase, the taker funding flag of a reachable coordinator equals
  whether the last accepted taker observation was at or above the confirmation policy.
\<close>

theorem taker_flag_is_last_depth:
  assumes "sc_phase (run coord_step (coord_start i p d tp mp rs) es) \<notin> {Completed, Refunded}"
  shows "taker_funding_confirmed (run coord_step (coord_start i p d tp mp rs) es) =
    last_depth_ok Taker (coord_start i p d tp mp rs) es False"
  using taker_flag_run [OF assms] by simp

theorem taker_flag_is_last_depth_witness:
  "taker_funding_confirmed (run coord_step demo_btc both_locked) =
     last_depth_ok Taker demo_btc both_locked False"
proof -
  have "sc_phase (run coord_step demo_btc both_locked) \<notin> {Completed, Refunded}"
    unfolding demo_locked by simp
  from taker_flag_is_last_depth [OF this [unfolded demo_btc_def]] show ?thesis
    unfolding demo_btc_def .
qed

section \<open>Liveness\<close>

text \<open>
  C27: From every reachable coordinator that has left Offered, at most three further
  observations lead to Completed or Refunded: no phase is a dead end.
\<close>

theorem locked_swap_can_finish:
  assumes "s = run coord_step (coord_start i p d tp mp rs) es" and "sc_phase s \<noteq> Offered"
  shows "\<exists>es'. length es' \<le> 3 \<and> sc_phase (run coord_step s es') \<in> {Completed, Refunded}"
  using assms by (intro locked_swap_terminates) (simp_all add: coord_new_inv_run)

theorem locked_swap_can_finish_witness:
  "\<exists>es'. length es' \<le> 3 \<and>
     sc_phase (run coord_step (run coord_step demo_btc both_locked) es') \<in> {Completed, Refunded}"
proof -
  have "sc_phase (run coord_step demo_btc both_locked) \<noteq> Offered"
    unfolding demo_locked by simp
  from locked_swap_can_finish [OF _ this] demo_btc_def show ?thesis by metis
qed

section \<open>Lost funding regressions\<close>

lemma taker_regression:
  assumes "sc_phase s = BothLegsLocked" "both_legs_funded s = Ok ()"
    and "taker_lock_transaction_id s = Some (transaction_id low)"
    and "confirmations low < required (sc_confirmation_policy s)"
  shows "apply_event s (EvFunding Taker low) =
    (Ok (), s\<lparr>taker_funding_confirmed := False, sc_phase := TakerLockReorged\<rparr>)"
  using assms by (auto simp: observe_taker_lock_def Let_def taker_lock_phase_def intro: swap_coordinator.equality)

lemma maker_unheeded:
  assumes "sc_phase s = TakerLockReorged" "maker_lock_transaction_id s = Some (transaction_id m)"
  shows "apply_event s (EvFunding Maker m) = (Ok (), s)"
  using assms by (simp add: observe_maker_lock_def Let_def)

lemma maker_unheeded_run:
  assumes "sc_phase s = TakerLockReorged" "\<forall>m \<in> set ms. maker_lock_transaction_id s = Some (transaction_id m)"
  shows "run coord_step s (map (EvFunding Maker) ms) = s"
  using assms(2) by (induction ms) (simp_all add: coord_step_def maker_unheeded [OF assms(1)] del: apply_event.simps)

text \<open>
  C38: In any reachable coordinator with both legs locked and funded, let the taker lock
  fall below its policy. Then every observation of the known maker lock, at any depth,
  succeeds and changes nothing; when the taker lock is back at its policy the coordinator is
  exactly what it was, and the revealing claim is accepted, even if every maker depth
  reported meanwhile was below the maker policy.
\<close>

theorem maker_regression_lost:
  assumes "s = run coord_step (coord_start i p d tp mp rs) es" and "sc_phase s = BothLegsLocked"
    and "both_legs_funded s = Ok ()"
    and "taker_lock_transaction_id s = Some (transaction_id low)" and "confirmations low < required tp"
    and "transaction_id high = transaction_id low" and "required tp \<le> confirmations high"
    and "\<forall>m \<in> set ms. maker_lock_transaction_id s = Some (transaction_id m)"
  shows "(\<forall>m \<in> set ms. apply_event (coord_step s (EvFunding Taker low)) (EvFunding Maker m) =
      (Ok (), coord_step s (EvFunding Taker low))) \<and>
    run coord_step s (EvFunding Taker low # map (EvFunding Maker) ms @ [EvFunding Taker high]) = s \<and>
    fst (apply_event s (EvRevealingClaim (claimant_order p d) reveal ev)) = Ok ()"
proof -
  have terms: "sc_confirmation_policy s = tp" "first_claimant s = claimant_order p d"
    using coord_terms.run_obs [of "coord_start i p d tp mp rs" es]
    by (simp_all add: assms(1) coord_terms_def first_claimant_def coordinator_new_with_confirmation_policies_def)
  let ?t = "s\<lparr>taker_funding_confirmed := False, sc_phase := TakerLockReorged\<rparr>"
  have low: "coord_step s (EvFunding Taker low) = ?t"
    using taker_regression [OF assms(2-4)] assms(5) by (simp only: coord_step_def terms snd_conv)
  have "sc_claim_evidence s = None"
    using coord_inv_no_evidence [OF _ assms(2)] by (simp add: assms(1) coord_new_inv_run)
  moreover have "taker_funding_confirmed s" using assms(3) by (simp add: both_legs_funded_Ok)
  ultimately have high: "coord_step ?t (EvFunding Taker high) = s"
    using assms(2,4,6,7) terms
    by (simp add: coord_step_def observe_taker_lock_def Let_def taker_lock_phase_def)
  have "fst (apply_event s (EvRevealingClaim (claimant_order p d) reveal ev)) = Ok ()"
    using assms(2,3) by (simp add: observe_revealing_claim_def terms)
  moreover have "\<forall>m \<in> set ms. apply_event ?t (EvFunding Maker m) = (Ok (), ?t)"
    using assms(8) by (auto intro!: maker_unheeded simp del: apply_event.simps)
  moreover have "run coord_step ?t (map (EvFunding Maker) ms) = ?t"
    using assms(8) by (intro maker_unheeded_run) simp_all
  ultimately show ?thesis by (simp add: low high del: apply_event.simps)
qed

theorem maker_regression_lost_witness:
  "run coord_step (run coord_step demo_btc both_locked) [EvFunding Taker (lock_proof ''tk'' 1),
      EvFunding Maker (lock_proof ''mk'' 0), EvFunding Taker (lock_proof ''tk'' 2)] =
     run coord_step demo_btc both_locked \<and>
   fst (apply_event (run coord_step demo_btc both_locked)
     (EvRevealingClaim Taker (lock_proof ''rv'' 1) (ClaimEvidence [1]))) = Ok ()"
proof -
  have 1: "both_legs_funded (run coord_step demo_btc both_locked) = Ok ()"
    "taker_lock_transaction_id (run coord_step demo_btc both_locked) = Some (transaction_id (lock_proof ''tk'' 1))"
    "\<forall>m \<in> set [lock_proof ''mk'' 0]. maker_lock_transaction_id (run coord_step demo_btc both_locked) =
       Some (transaction_id m)"
    by (simp_all add: demo_simps)
  have 2: "confirmations (lock_proof ''tk'' 1) < required (ConfirmationPolicy 2)"
    "transaction_id (lock_proof ''tk'' 2) = transaction_id (lock_proof ''tk'' 1)"
    "required (ConfirmationPolicy 2) \<le> confirmations (lock_proof ''tk'' 2)"
    by (simp_all add: lock_proof_def word_less_nat_alt)
  from maker_regression_lost [OF arg_cong [where f = "\<lambda>s. run coord_step s both_locked", OF demo_btc_def]
      demo_locked 1(1,2) 2 1(3)]
  show ?thesis by (simp del: apply_event.simps foldl_Cons)
qed

text \<open>
  C39: In any reachable coordinator in TakerLockConfirmed, a maker lock below its policy, a
  taker depth below its policy and the removal of that maker lock lead back to
  TakerLockConfirmed with the taker lock not confirmed; the next maker lock, any
  transaction, is accepted, and one at its policy reaches BothLegsLocked.
\<close>

theorem maker_lock_accepted_below_taker_policy:
  assumes "s = run coord_step (coord_start i p d tp mp rs) es" and "sc_phase s = TakerLockConfirmed"
    and "confirmations m < required mp"
    and "taker_lock_transaction_id s = Some (transaction_id low)" and "confirmations low < required tp"
    and "t = run coord_step s [EvFunding Maker m, EvFunding Taker low, EvFundingRemoved Maker (transaction_id m)]"
  shows "sc_phase t = TakerLockConfirmed \<and> \<not> taker_funding_confirmed t \<and>
    fst (apply_event t (EvFunding Maker m')) = Ok () \<and>
    maker_lock_transaction_id (coord_step t (EvFunding Maker m')) = Some (transaction_id m') \<and>
    sc_phase (coord_step t (EvFunding Maker m')) =
      (if required mp \<le> confirmations m' then BothLegsLocked else AwaitingMakerConfirmations)"
proof -
  have terms: "sc_confirmation_policy s = tp" "sc_maker_confirmation_policy s = mp"
    using coord_terms.run_obs [of "coord_start i p d tp mp rs" es]
    by (simp_all add: assms(1) coord_terms_def coordinator_new_with_confirmation_policies_def)
  let ?u = "s\<lparr>maker_lock_transaction_id := Some (transaction_id m), maker_funding_confirmed := False,
    sc_phase := AwaitingMakerConfirmations\<rparr>"
  have 1: "coord_step s (EvFunding Maker m) = ?u"
    using assms(2,3) by (simp add: coord_step_def observe_maker_lock_def Let_def terms not_le)
  have 2: "coord_step ?u (EvFunding Taker low) = ?u\<lparr>taker_funding_confirmed := False\<rparr>"
    using assms(4,5) by (simp add: coord_step_def observe_taker_lock_def Let_def terms taker_lock_phase_def not_le)
  have t: "t = s\<lparr>maker_lock_transaction_id := None, maker_funding_confirmed := False,
      taker_funding_confirmed := False, sc_phase := TakerLockConfirmed\<rparr>"
    using 1 2 by (simp add: assms(6) coord_step_def observe_maker_lock_removed_def Let_def)
  show ?thesis
    by (simp add: t coord_step_def observe_maker_lock_def Let_def terms)
qed

theorem maker_lock_accepted_below_taker_policy_witness:
  "let t = run coord_step (run coord_step demo_btc [EvFunding Taker (lock_proof ''tk'' 2)])
        [EvFunding Maker (lock_proof ''mk'' 0), EvFunding Taker (lock_proof ''tk'' 1), EvFundingRemoved Maker ''mk'']
    in \<not> taker_funding_confirmed t \<and>
       sc_phase (coord_step t (EvFunding Maker (lock_proof ''mk2'' 2))) = BothLegsLocked"
proof -
  let ?s = "run coord_step demo_btc [EvFunding Taker (lock_proof ''tk'' 2)]"
  have 1: "sc_phase ?s = TakerLockConfirmed"
    "taker_lock_transaction_id ?s = Some (transaction_id (lock_proof ''tk'' 1))"
    by (simp_all add: demo_simps)
  have 2: "confirmations (lock_proof ''mk'' 0) < required (ConfirmationPolicy 2)"
    "confirmations (lock_proof ''tk'' 1) < required (ConfirmationPolicy 2)"
    "required (ConfirmationPolicy 2) \<le> confirmations (lock_proof ''mk2'' 2)"
    "transaction_id (lock_proof ''mk'' 0) = ''mk''"
    by (simp_all add: lock_proof_def word_less_nat_alt)
  from maker_lock_accepted_below_taker_policy [OF
      arg_cong [where f = "\<lambda>s. run coord_step s [EvFunding Taker (lock_proof ''tk'' 2)]", OF demo_btc_def]
      1(1) 2(1) 1(2) 2(2) refl, of "lock_proof ''mk2'' 2"] 2(3,4)
  show ?thesis by (simp add: Let_def del: foldl_Cons)
qed

end
