(* ===== verification/Effect_Plan.thy ===== *)
theory Effect_Plan
  imports Swap_Clock
begin

text \<open>
  The shared SDK vocabulary of \<open>crates/swap-sdk-core/src\<close>: nonzero versions
  (\<open>version.rs\<close>), error classification (\<open>error.rs\<close>), claim orders (\<open>lifecycle.rs\<close>) and the
  exact public-effect plan (\<open>public_effect.rs\<close>) with its validation, lookup, wire decoding
  and domain-separated commitment. A Rust \<open>str\<close> is the list of its UTF-8 bytes as
  characters; SHA-256 is the parameter \<open>sha256\<close>.
\<close>

named_theorems plan_defs \<open>definitions of the plan operations\<close>

section \<open>Versions\<close>

datatype version_error = Zero

datatype protocol_version = ProtocolVersion u16

datatype schema_version = SchemaVersion u16

definition protocol_version_new :: "u16 \<Rightarrow> version_error + protocol_version" where
  "protocol_version_new v = (if v = 0 then Err Zero else Ok (ProtocolVersion v))"

definition schema_version_new :: "u16 \<Rightarrow> version_error + schema_version" where
  "schema_version_new v = (if v = 0 then Err Zero else Ok (SchemaVersion v))"

fun protocol_version_get :: "protocol_version \<Rightarrow> u16" where
  "protocol_version_get (ProtocolVersion v) = v"

fun schema_version_get :: "schema_version \<Rightarrow> u16" where
  "schema_version_get (SchemaVersion v) = v"

definition schema_v1 :: schema_version where
  "schema_v1 = SchemaVersion 1"

section \<open>Error classification\<close>

datatype error_category =
    ObservationLag
  | MempoolResidence
  | DependencyUnavailable
  | ChainReorganization
  | MalformedEvidence
  | NonCanonicalEvidence
  | WrongNetwork
  | WrongAsset
  | WrongValue
  | TranscriptMismatch
  | CounterpartyProtocolViolation
  | UnsupportedDirectionCategory
  | UnsupportedCapability
  | UnsafeConfirmationProfile
  | UnsafeDeadlineProfile
  | UnsafeFeeProfile
  | PersistenceFailure
  | EncryptionFailure
  | OperatorInterventionRequired

datatype error_disposition =
    Retryable
  | Terminal
  | Unsupported
  | UnsafeProfile
  | LocalDurabilityFailure
  | OperatorIntervention

fun disposition :: "error_category \<Rightarrow> error_disposition" where
  "disposition ObservationLag = Retryable"
| "disposition MempoolResidence = Retryable"
| "disposition DependencyUnavailable = Retryable"
| "disposition ChainReorganization = Retryable"
| "disposition MalformedEvidence = Terminal"
| "disposition NonCanonicalEvidence = Terminal"
| "disposition WrongNetwork = Terminal"
| "disposition WrongAsset = Terminal"
| "disposition WrongValue = Terminal"
| "disposition TranscriptMismatch = Terminal"
| "disposition CounterpartyProtocolViolation = Terminal"
| "disposition UnsupportedDirectionCategory = Unsupported"
| "disposition UnsupportedCapability = Unsupported"
| "disposition UnsafeConfirmationProfile = UnsafeProfile"
| "disposition UnsafeDeadlineProfile = UnsafeProfile"
| "disposition UnsafeFeeProfile = UnsafeProfile"
| "disposition PersistenceFailure = LocalDurabilityFailure"
| "disposition EncryptionFailure = LocalDurabilityFailure"
| "disposition OperatorInterventionRequired = OperatorIntervention"

definition is_retryable :: "error_category \<Rightarrow> bool" where
  "is_retryable c \<longleftrightarrow> disposition c = Retryable"

section \<open>Claim order\<close>

datatype claim_leg = LezLeg | ForeignLeg

datatype claim_order_error = RepeatedLeg

record claim_order =
  revealing :: claim_leg
  followup :: claim_leg

definition claim_order_new :: "claim_leg \<Rightarrow> claim_leg \<Rightarrow> claim_order_error + claim_order" where
  "claim_order_new r f =
     (if (r, f) \<in> {(LezLeg, LezLeg), (ForeignLeg, ForeignLeg)} then Err RepeatedLeg
      else Ok \<lparr>revealing = r, followup = f\<rparr>)"

definition lez_then_foreign :: claim_order where
  "lez_then_foreign = \<lparr>revealing = LezLeg, followup = ForeignLeg\<rparr>"

definition foreign_then_lez :: claim_order where
  "foreign_then_lez = \<lparr>revealing = ForeignLeg, followup = LezLeg\<rparr>"

section \<open>Plan components\<close>

datatype public_effect_plan_error =
    UnsupportedSchemaVersion
  | InvalidStepId
  | InvalidExpectedPublicId
  | InvalidExactBytes
  | EmptyPlan
  | TooManySteps
  | DuplicateStepId
  | PlanBytesTooLarge

text \<open>\<open>str::split\<close> at one character: the components, with an empty one for an empty string.\<close>

fun split_at_char :: "char \<Rightarrow> string \<Rightarrow> string list" where
  "split_at_char c [] = [[]]"
| "split_at_char c (x # xs) =
     (if x = c then [] # split_at_char c xs
      else case split_at_char c xs of
        [] \<Rightarrow> [[x]]
      | w # ws \<Rightarrow> (x # w) # ws)"

definition is_ascii_lowercase :: "char \<Rightarrow> bool" where
  "is_ascii_lowercase c \<longleftrightarrow> 97 \<le> (of_char c :: nat) \<and> (of_char c :: nat) \<le> 122"

definition is_ascii_digit :: "char \<Rightarrow> bool" where
  "is_ascii_digit c \<longleftrightarrow> 48 \<le> (of_char c :: nat) \<and> (of_char c :: nat) \<le> 57"

definition is_ascii_graphic :: "char \<Rightarrow> bool" where
  "is_ascii_graphic c \<longleftrightarrow> 33 \<le> (of_char c :: nat) \<and> (of_char c :: nat) \<le> 126"

lemmas ascii_defs = is_ascii_lowercase_def is_ascii_digit_def is_ascii_graphic_def

fun valid_component :: "string \<Rightarrow> bool" where
  "valid_component [] = False"
| "valid_component (first # rest) \<longleftrightarrow> is_ascii_lowercase first \<and>
     list_all (\<lambda>b. is_ascii_lowercase b \<or> is_ascii_digit b \<or> b = CHR ''_'') rest"

definition valid_step_id :: "string \<Rightarrow> bool" where
  "valid_step_id v \<longleftrightarrow> list_all valid_component (split_at_char CHR ''.'' v)"

datatype public_effect_step_id = StepId string

definition step_id_new :: "string \<Rightarrow> public_effect_plan_error + public_effect_step_id" where
  [plan_defs]: "step_id_new v =
     (if v = [] \<or> length v > 96 \<or> \<not> valid_step_id v then Err InvalidStepId else Ok (StepId v))"

datatype expected_public_effect_id = ExpectedId string

definition expected_id_new :: "string \<Rightarrow> public_effect_plan_error + expected_public_effect_id" where
  [plan_defs]: "expected_id_new v =
     (if v = [] \<or> length v > 512 \<or> \<not> list_all is_ascii_graphic v
      then Err InvalidExpectedPublicId else Ok (ExpectedId v))"

datatype exact_public_effect_bytes = ExactBytes bytes

definition exact_bytes_new :: "bytes \<Rightarrow> public_effect_plan_error + exact_public_effect_bytes" where
  [plan_defs]: "exact_bytes_new v =
     (if v = [] \<or> length v > 4 * 1024 * 1024 then Err InvalidExactBytes else Ok (ExactBytes v))"

fun step_id_str :: "public_effect_step_id \<Rightarrow> string" where
  "step_id_str (StepId v) = v"

fun expected_id_str :: "expected_public_effect_id \<Rightarrow> string" where
  "expected_id_str (ExpectedId v) = v"

fun exact_bytes_slice :: "exact_public_effect_bytes \<Rightarrow> bytes" where
  "exact_bytes_slice (ExactBytes v) = v"

definition exact_bytes_sha256 :: "(bytes \<Rightarrow> bytes) \<Rightarrow> exact_public_effect_bytes \<Rightarrow> bytes" where
  "exact_bytes_sha256 sha256 v = sha256 (exact_bytes_slice v)"

section \<open>Plans\<close>

record public_effect_step =
  pe_step :: public_effect_step_id
  pe_expected_public_id :: expected_public_effect_id
  pe_exact_bytes :: exact_public_effect_bytes

record exact_public_effect_plan =
  plan_schema_version :: schema_version
  plan_steps :: "public_effect_step list"

text \<open>The loop of \<open>ExactPublicEffectPlanV1::new\<close>, with its set of seen identifiers and its
  running \<open>usize\<close> byte count.\<close>

fun plan_check_steps ::
    "public_effect_step_id set \<Rightarrow> nat \<Rightarrow> public_effect_step list \<Rightarrow> public_effect_plan_error + unit"
where
  "plan_check_steps seen acc [] = Ok ()"
| "plan_check_steps seen acc (s # ss) =
     (if pe_step s \<in> seen then Err DuplicateStepId
      else
        let acc' = acc + length (exact_bytes_slice (pe_exact_bytes s))
        in if acc' \<ge> 2 ^ 64 then Err PlanBytesTooLarge
           else if acc' > 8 * 1024 * 1024 then Err PlanBytesTooLarge
           else plan_check_steps (insert (pe_step s) seen) acc' ss)"

definition plan_new ::
    "public_effect_step list \<Rightarrow> public_effect_plan_error + exact_public_effect_plan" where
  [plan_defs]: "plan_new ss =
     (if ss = [] then Err EmptyPlan
      else if length ss > 32 then Err TooManySteps
      else and_then (plan_check_steps {} 0 ss)
        (\<lambda>_. Ok \<lparr>plan_schema_version = schema_v1, plan_steps = ss\<rparr>))"

definition plan_step ::
    "exact_public_effect_plan \<Rightarrow> public_effect_step_id \<Rightarrow> public_effect_step option" where
  "plan_step plan i = find (\<lambda>s. pe_step s = i) (plan_steps plan)"

section \<open>Commitment\<close>

definition as_bytes :: "string \<Rightarrow> bytes" where
  "as_bytes = map (\<lambda>c. word_of_nat (of_char c))"

definition plan_commitment_domain :: bytes where
  "plan_commitment_domain = as_bytes ''lez-swap-sdk-core/public-effect-plan/v1''"

definition len_prefixed :: "bytes \<Rightarrow> bytes" where
  "len_prefixed v = be_bytes 8 (min (length v) (2 ^ 64 - 1)) @ v"

definition step_input :: "public_effect_step \<Rightarrow> bytes" where
  "step_input s = len_prefixed (as_bytes (step_id_str (pe_step s))) @
     len_prefixed (as_bytes (expected_id_str (pe_expected_public_id s))) @
     len_prefixed (exact_bytes_slice (pe_exact_bytes s))"

text \<open>What the digest has absorbed when \<open>commitment\<close> finalizes it.\<close>

definition commitment_input :: "exact_public_effect_plan \<Rightarrow> bytes" where
  "commitment_input plan = plan_commitment_domain @
     be_bytes 2 (unat (schema_version_get (plan_schema_version plan))) @
     be_bytes 4 (min (length (plan_steps plan)) (2 ^ 32 - 1)) @
     concat (map step_input (plan_steps plan))"

definition plan_commitment :: "(bytes \<Rightarrow> bytes) \<Rightarrow> exact_public_effect_plan \<Rightarrow> bytes" where
  "plan_commitment sha256 plan = sha256 (commitment_input plan)"

section \<open>Wire decoding\<close>

text \<open>
  The fields of a plan record after the \<open>serde\<close> data format has been parsed: each step's
  identifier, expected public identity and bytes. Decoding revalidates all of them.
\<close>

type_synonym raw_step = "string \<times> string \<times> bytes"

definition step_deserialize :: "raw_step \<Rightarrow> public_effect_plan_error + public_effect_step" where
  [plan_defs]: "step_deserialize = (\<lambda>(i, ex, bs).
     and_then (step_id_new i) (\<lambda>i'.
     and_then (expected_id_new ex) (\<lambda>ex'.
     and_then (exact_bytes_new bs) (\<lambda>bs'.
       Ok \<lparr>pe_step = i', pe_expected_public_id = ex', pe_exact_bytes = bs'\<rparr>))))"

fun steps_deserialize ::
    "raw_step list \<Rightarrow> public_effect_plan_error + public_effect_step list" where
  "steps_deserialize [] = Ok []"
| "steps_deserialize (r # rs) =
     and_then (step_deserialize r) (\<lambda>s. and_then (steps_deserialize rs) (\<lambda>ss. Ok (s # ss)))"

definition plan_deserialize ::
    "schema_version \<Rightarrow> raw_step list \<Rightarrow> public_effect_plan_error + exact_public_effect_plan" where
  [plan_defs]: "plan_deserialize v rs =
     and_then (steps_deserialize rs) (\<lambda>ss.
       if v \<noteq> schema_v1 then Err UnsupportedSchemaVersion else plan_new ss)"

text \<open>The derived \<open>Serialize\<close>: every newtype is transparent.\<close>

definition step_serialize :: "public_effect_step \<Rightarrow> raw_step" where
  "step_serialize s = (step_id_str (pe_step s), expected_id_str (pe_expected_public_id s),
     exact_bytes_slice (pe_exact_bytes s))"

definition plan_serialize :: "exact_public_effect_plan \<Rightarrow> schema_version \<times> raw_step list" where
  "plan_serialize plan = (plan_schema_version plan, map step_serialize (plan_steps plan))"

section \<open>Validity\<close>

text \<open>The private fields of the newtypes can only hold values their constructors accept.\<close>

definition step_valid :: "public_effect_step \<Rightarrow> bool" where
  "step_valid s \<longleftrightarrow>
     step_id_new (step_id_str (pe_step s)) = Ok (pe_step s) \<and>
     expected_id_new (expected_id_str (pe_expected_public_id s)) = Ok (pe_expected_public_id s) \<and>
     exact_bytes_new (exact_bytes_slice (pe_exact_bytes s)) = Ok (pe_exact_bytes s)"

definition plan_bytes :: "public_effect_step list \<Rightarrow> nat" where
  "plan_bytes ss = sum_list (map (length \<circ> exact_bytes_slice \<circ> pe_exact_bytes) ss)"

definition plan_valid :: "exact_public_effect_plan \<Rightarrow> bool" where
  "plan_valid plan \<longleftrightarrow> plan_schema_version plan = schema_v1 \<and> plan_steps plan \<noteq> [] \<and>
     length (plan_steps plan) \<le> 32 \<and> distinct (map pe_step (plan_steps plan)) \<and>
     plan_bytes (plan_steps plan) \<le> 8 * 1024 * 1024 \<and> list_all step_valid (plan_steps plan)"

section \<open>Lemmas\<close>

lemma plan_check_steps_Ok:
  "plan_check_steps seen acc ss = Ok () \<longleftrightarrow>
     distinct (map pe_step ss) \<and> seen \<inter> set (map pe_step ss) = {} \<and>
     (ss = [] \<or> acc + plan_bytes ss \<le> 8 * 1024 * 1024)"
proof (induction ss arbitrary: seen acc)
  case Nil
  then show ?case by simp
next
  case (Cons s ss)
  have nil: "ss = [] \<Longrightarrow> plan_bytes ss = 0" by (simp add: plan_bytes_def)
  have bytes: "plan_bytes (s # ss) = length (exact_bytes_slice (pe_exact_bytes s)) + plan_bytes ss"
    by (simp add: plan_bytes_def)
  show ?case
    unfolding plan_check_steps.simps Let_def bytes
    using nil by (auto simp: Cons.IH)
qed

lemma plan_new_Ok:
  "plan_new ss = Ok plan \<longleftrightarrow> ss \<noteq> [] \<and> length ss \<le> 32 \<and> distinct (map pe_step ss) \<and>
     plan_bytes ss \<le> 8 * 1024 * 1024 \<and>
     plan = \<lparr>plan_schema_version = schema_v1, plan_steps = ss\<rparr>"
  by (auto simp: plan_new_def and_then_Inr plan_check_steps_Ok)

lemma of_char_byte_inject:
  assumes "(word_of_nat (of_char c) :: u8) = word_of_nat (of_char d)"
  shows "c = d"
proof -
  have "unat (word_of_nat (of_char c) :: u8) = unat (word_of_nat (of_char d) :: u8)"
    using assms by simp
  then have "(of_char c :: nat) = of_char d"
    by (simp add: unat_of_nat)
  then show ?thesis by simp
qed

lemma as_bytes_inject: "as_bytes v = as_bytes w \<longleftrightarrow> v = w"
  unfolding as_bytes_def
  by (rule inj_eq, rule list.inj_map, rule injI, erule of_char_byte_inject)

lemma length_as_bytes [simp]: "length (as_bytes v) = length v"
  by (simp add: as_bytes_def)

lemma len_prefixed_inject:
  assumes "len_prefixed v @ r = len_prefixed w @ r'" "length v < 2 ^ 64" "length w < 2 ^ 64"
  shows "v = w \<and> r = r'"
proof -
  from assms have "be_bytes 8 (length v) = be_bytes 8 (length w)" and "v @ r = w @ r'"
    by (simp_all add: len_prefixed_def min_def)
  moreover from this(1) have "length v = length w"
    using assms(2,3) by (intro be_bytes_inject [of 8]) simp_all
  ultimately show ?thesis by simp
qed

lemma step_valid_lengths:
  "step_valid s \<Longrightarrow> length (step_id_str (pe_step s)) < 2 ^ 64 \<and>
     length (expected_id_str (pe_expected_public_id s)) < 2 ^ 64 \<and>
     length (exact_bytes_slice (pe_exact_bytes s)) < 2 ^ 64"
  by (auto simp: step_valid_def plan_defs split: if_splits)

lemma step_input_inject:
  assumes "step_input s @ r = step_input t @ r'" "step_valid s" "step_valid t"
  shows "s = t \<and> r = r'"
proof -
  note ls = step_valid_lengths [OF assms(2)] step_valid_lengths [OF assms(3)]
  from assms(1) have 1: "step_id_str (pe_step s) = step_id_str (pe_step t) \<and>
      expected_id_str (pe_expected_public_id s) = expected_id_str (pe_expected_public_id t) \<and>
      exact_bytes_slice (pe_exact_bytes s) = exact_bytes_slice (pe_exact_bytes t) \<and> r = r'"
    using ls by (auto simp: step_input_def as_bytes_inject dest!: len_prefixed_inject)
  then have "pe_step s = pe_step t" "pe_expected_public_id s = pe_expected_public_id t"
    "pe_exact_bytes s = pe_exact_bytes t"
    by (metis step_id_str.elims, metis expected_id_str.elims, metis exact_bytes_slice.elims)
  with 1 show ?thesis by (simp add: public_effect_step.equality)
qed

lemma steps_input_inject:
  "concat (map step_input ss) = concat (map step_input ts) \<Longrightarrow> length ss = length ts \<Longrightarrow>
   list_all step_valid ss \<Longrightarrow> list_all step_valid ts \<Longrightarrow> ss = ts"
proof (induction ss arbitrary: ts)
  case Nil
  then show ?case by simp
next
  case (Cons s ss)
  then obtain t ts' where ts: "ts = t # ts'" by (cases ts) auto
  with Cons.prems have "s = t \<and> concat (map step_input ss) = concat (map step_input ts')"
    by (intro step_input_inject) simp_all
  with Cons ts show ?case by simp
qed

lemma commitment_input_inject:
  assumes "commitment_input p = commitment_input q" "plan_valid p" "plan_valid q"
  shows "p = q"
proof -
  from assms have len: "be_bytes 4 (length (plan_steps p)) = be_bytes 4 (length (plan_steps q))"
    and steps: "concat (map step_input (plan_steps p)) = concat (map step_input (plan_steps q))"
    by (auto simp: commitment_input_def plan_valid_def min_def)
  from len assms(2,3) have "length (plan_steps p) = length (plan_steps q)"
    by (intro be_bytes_inject [of 4]) (simp_all add: plan_valid_def)
  with steps assms(2,3) have "plan_steps p = plan_steps q"
    by (intro steps_input_inject) (simp_all add: plan_valid_def)
  with assms(2,3) show ?thesis
    by (simp add: plan_valid_def exact_public_effect_plan.equality)
qed

lemma steps_deserialize_valid:
  "steps_deserialize rs = Ok ss \<Longrightarrow> list_all step_valid ss \<and> map step_serialize ss = rs"
  by (induction rs arbitrary: ss)
    (auto simp: and_then_Inr plan_defs step_valid_def step_serialize_def split: if_splits)

lemma steps_deserialize_serialize:
  "list_all step_valid ss \<Longrightarrow> steps_deserialize (map step_serialize ss) = Ok ss"
  by (induction ss) (simp_all add: step_deserialize_def step_serialize_def step_valid_def)

lemma split_at_char_ne [simp]: "split_at_char c xs \<noteq> []"
  by (cases xs) (auto split: list.split)

lemma concat_split_at_char: "concat (split_at_char c xs) = filter (\<lambda>x. x \<noteq> c) xs"
  by (induction xs) (auto split: list.split)

lemma valid_component_chars:
  "valid_component w \<Longrightarrow> x \<in> set w \<Longrightarrow> is_ascii_lowercase x \<or> is_ascii_digit x \<or> x = CHR ''_''"
  by (cases w) (auto simp: list_all_iff)

lemma valid_step_id_chars:
  assumes "valid_step_id v" "x \<in> set v"
  shows "is_ascii_lowercase x \<or> is_ascii_digit x \<or> x \<in> {CHR ''_'', CHR ''.''}"
proof (cases "x = CHR ''.''")
  case False
  with assms(2) have "x \<in> set (concat (split_at_char CHR ''.'' v))"
    by (simp add: concat_split_at_char)
  with assms(1) show ?thesis
    by (auto simp: valid_step_id_def list_all_iff dest: valid_component_chars)
qed simp

section \<open>Properties\<close>

text \<open>
  C37: Decoding a wire record yields a plan exactly when the plan is valid and serializes to
  that record: decoding revalidates every field and loses nothing.
\<close>

theorem plan_decoding_exact:
  "plan_deserialize v rs = Ok plan \<longleftrightarrow> plan_valid plan \<and> plan_serialize plan = (v, rs)"
proof
  assume "plan_deserialize v rs = Ok plan"
  then obtain ss where ss: "steps_deserialize rs = Ok ss" and v: "v = schema_v1"
    and plan: "plan_new ss = Ok plan"
    by (auto simp: plan_deserialize_def and_then_Inr split: if_splits)
  from steps_deserialize_valid [OF ss] plan v show
    "plan_valid plan \<and> plan_serialize plan = (v, rs)"
    by (auto simp: plan_new_Ok plan_valid_def plan_serialize_def)
next
  assume "plan_valid plan \<and> plan_serialize plan = (v, rs)"
  then have valid: "plan_valid plan" and v: "v = plan_schema_version plan"
    and rs: "rs = map step_serialize (plan_steps plan)"
    by (auto simp: plan_serialize_def)
  from valid have "steps_deserialize rs = Ok (plan_steps plan)"
    by (simp add: rs plan_valid_def steps_deserialize_serialize)
  with valid v show "plan_deserialize v rs = Ok plan"
    by (simp add: plan_deserialize_def plan_valid_def plan_new_Ok)
qed

text \<open>
  C36: Two valid plans with the same commitment are equal, or their two digest inputs are an
  explicit SHA-256 collision: the commitment input encodes schema, order, identifiers and
  bytes injectively.
\<close>

theorem commitment_binds_plan:
  assumes "plan_valid p" and "plan_valid q" and "plan_commitment sha256 p = plan_commitment sha256 q"
  shows "p = q \<or> (\<exists>x y. x \<noteq> y \<and> sha256 x = sha256 y \<and>
    x = commitment_input p \<and> y = commitment_input q)"
  using assms commitment_input_inject [of p q] by (auto simp: plan_commitment_def)

definition demo_plan :: "string \<Rightarrow> exact_public_effect_plan" where
  "demo_plan i = \<lparr>plan_schema_version = schema_v1, plan_steps =
     [\<lparr>pe_step = StepId i, pe_expected_public_id = ExpectedId ''tx:init'',
       pe_exact_bytes = ExactBytes [1]\<rparr>]\<rparr>"

theorem commitment_binds_plan_witness:
  "\<exists>x y. x \<noteq> y \<and> x = commitment_input (demo_plan ''lez.init'') \<and>
     y = commitment_input (demo_plan ''lez.fund'')"
proof -
  have "plan_valid (demo_plan ''lez.init'')" "plan_valid (demo_plan ''lez.fund'')"
    by (simp_all add: demo_plan_def plan_valid_def plan_bytes_def step_valid_def plan_defs
        valid_step_id_def ascii_defs)
  from commitment_binds_plan [OF this, of "\<lambda>_. []"] show ?thesis
    by (auto simp: plan_commitment_def demo_plan_def)
qed

text \<open>
  Looking up a step of an accepted plan by its identifier returns the unique step with
  that identifier.
\<close>

theorem plan_step_lookup:
  assumes "plan_new ss = Ok plan"
  shows "plan_step plan i = Some s \<longleftrightarrow> s \<in> set ss \<and> pe_step s = i"
proof -
  from assms have steps: "plan_steps plan = ss" and dist: "distinct (map pe_step ss)"
    by (auto simp: plan_new_Ok)
  show ?thesis
    unfolding plan_step_def steps using dist
    by (induction ss) auto
qed

theorem plan_step_lookup_witness:
  "plan_step (demo_plan ''lez.init'') (StepId ''lez.init'') =
     Some (hd (plan_steps (demo_plan ''lez.init'')))"
proof -
  have "plan_new (plan_steps (demo_plan ''lez.init'')) = Ok (demo_plan ''lez.init'')"
    by (simp add: plan_new_Ok demo_plan_def plan_bytes_def)
  from plan_step_lookup [OF this] show ?thesis
    by (simp add: demo_plan_def)
qed

end
