(* ===== verification/Store_Table.thy ===== *)
theory Store_Table
  imports Swap_Coordinator
begin

text \<open>
  What the journals of \<open>crates/swap-store/src\<close> share: the error type of \<open>lib.rs\<close>, the
  column encodings of roles and integers, and the SQL the journals use. A table is the
  list of its rows with the raw column values; \<open>INSERT\<close> and \<open>UPDATE\<close> act on it under the
  table's constraints, and a transaction that ends in an error leaves it as it was.
  Whether SQLite could begin and commit a transaction is an input of each call.
\<close>

section \<open>Errors and column encodings\<close>

datatype store_error =
    DatabaseFileUnavailable
  | UnsafeDatabaseFile
  | Sqlite
  | BridgeProtocolValue
  | BridgeOperationContextConflict
  | MissingBridgeOperationContext
  | BridgeRequestIdReused
  | InvalidBridgeOperationContext
  | InvalidPublicEffect
  | PublicEffectConflict
  | MissingPublicEffect
  | CorruptPublicEffectState
  | XmrWorkflowDatabaseAlreadyExists
  | InvalidXmrWorkflowIdentity
  | InvalidXmrWorkflowReconciliation
  | XmrWorkflowConflict
  | MissingXmrWorkflowIdentity
  | MissingXmrWorkflowStep
  | ForeignXmrWorkflowSchema
  | FutureXmrWorkflowSchema
  | CorruptXmrWorkflowState
  | InvalidBtcMakerLockIntent
  | BtcMakerLockConflict
  | MissingBtcMakerLockIntent
  | CorruptBtcMakerLockIntent
  | BridgePollSequenceOverflow

fun participant_name :: "participant \<Rightarrow> string" where
  "participant_name Maker = ''maker''"
| "participant_name Taker = ''taker''"

fun swap_id_str :: "swap_id \<Rightarrow> string" where
  "swap_id_str (SwapId v) = v"

lemma participant_name_inject [simp]: "participant_name a = participant_name b \<longleftrightarrow> a = b"
  by (cases a; cases b) simp_all

lemma swap_id_str_inject [simp]: "swap_id_str a = swap_id_str b \<longleftrightarrow> a = b"
  by (cases a; cases b) simp

definition i64_max :: u64 where
  "i64_max = 2 ^ 63 - 1"

text \<open>\<open>i64::try_from\<close> on \<open>u64\<close>, and \<open>u32::try_from\<close> and \<open>u64::try_from\<close> on \<open>i64\<close>, each with
  the error its caller maps a failure to.\<close>

definition to_i64 :: "'e \<Rightarrow> u64 \<Rightarrow> 'e + int" where
  "to_i64 err v = (if v > i64_max then Err err else Ok (uint v))"

definition to_u32 :: "'e \<Rightarrow> int \<Rightarrow> 'e + u32" where
  "to_u32 err v = (if 0 \<le> v \<and> v < 2 ^ 32 then Ok (word_of_int v) else Err err)"

definition to_u64 :: "'e \<Rightarrow> int \<Rightarrow> 'e + u64" where
  "to_u64 err v = (if 0 \<le> v \<and> v < 2 ^ 64 then Ok (word_of_int v) else Err err)"

lemma to_u32_uint [simp]: "to_u32 err (uint a) = Ok a"
  using uint_bounded [of a] by (simp add: to_u32_def)

lemma to_u64_uint [simp]: "to_u64 err (uint a) = Ok a"
  using uint_bounded [of a] by (simp add: to_u64_def)

lemma to_i64_Ok: "to_i64 err v = Ok i \<longleftrightarrow> v \<le> i64_max \<and> i = uint v"
  by (auto simp: to_i64_def)

lemma to_u64_of_i64: "to_i64 err v = Ok i \<Longrightarrow> to_u64 err' i = Ok v"
  by (simp add: to_i64_Ok)

section \<open>Transactions and statements\<close>

record tx_io =
  begin_ok :: bool
  commit_ok :: bool

definition end_transaction ::
    "'e \<Rightarrow> tx_io \<Rightarrow> 'e + ('a \<times> 't) \<Rightarrow> 't \<Rightarrow> ('e + 'a) \<times> 't" where
  "end_transaction sqlite io r t =
     (case r of
        Inl e \<Rightarrow> (Err e, t)
      | Inr (v, t') \<Rightarrow> if commit_ok io then (Ok v, t') else (Err sqlite, t))"

definition transact ::
    "'e \<Rightarrow> tx_io \<Rightarrow> ('t \<Rightarrow> 'e + ('a \<times> 't)) \<Rightarrow> 't \<Rightarrow> ('e + 'a) \<times> 't" where
  "transact sqlite io body t =
     (if begin_ok io then end_transaction sqlite io (body t) t else (Err sqlite, t))"

definition table_insert ::
    "'e \<Rightarrow> ('r \<Rightarrow> bool) \<Rightarrow> ('r \<Rightarrow> 'r \<Rightarrow> bool) \<Rightarrow> 'r \<Rightarrow> 'r list \<Rightarrow> 'e + 'r list" where
  "table_insert sqlite checks clash r t =
     (if checks r \<and> \<not> list_ex (clash r) t then Ok (t @ [r]) else Err sqlite)"

text \<open>An update of columns no unique constraint mentions; it returns the number of rows
  it changed.\<close>

definition table_update ::
    "'e \<Rightarrow> ('r \<Rightarrow> bool) \<Rightarrow> ('r \<Rightarrow> bool) \<Rightarrow> ('r \<Rightarrow> 'r) \<Rightarrow> 'r list \<Rightarrow> 'e + (nat \<times> 'r list)" where
  "table_update sqlite checks P f t =
     (if list_all checks (map f (filter P t))
      then Ok (length (filter P t), map (\<lambda>r. if P r then f r else r) t)
      else Err sqlite)"

lemma transact_cases:
  obtains "snd (transact sqlite io body t) = t" "\<not> is_ok (fst (transact sqlite io body t))"
  | v t' where "body t = Ok (v, t')" "transact sqlite io body t = (Ok v, t')"
  by (cases "begin_ok io"; cases "body t"; cases "commit_ok io")
    (auto simp: transact_def end_transaction_def)

lemma transact_Ok:
  "transact sqlite io body t = (Ok v, t') \<longleftrightarrow> begin_ok io \<and> commit_ok io \<and> body t = Ok (v, t')"
  by (auto simp: transact_def end_transaction_def split: sum.splits)

lemma transact_fst_Ok:
  "fst (transact sqlite io body t) = Ok v \<longleftrightarrow>
     begin_ok io \<and> commit_ok io \<and> (\<exists>t'. body t = Ok (v, t') \<and> snd (transact sqlite io body t) = t')"
  by (auto simp: transact_def end_transaction_def split: sum.splits)

lemma transact_Err:
  "fst (transact sqlite io body t) = Err x \<Longrightarrow> x = sqlite \<or> body t = Err x"
  by (auto simp: transact_def end_transaction_def split: sum.splits if_splits)

lemma transact_fails: "\<not> is_ok (fst (transact sqlite io body t)) \<Longrightarrow> snd (transact sqlite io body t) = t"
  by (auto simp: transact_def end_transaction_def split: sum.splits if_splits)

lemma transact_inv:
  assumes "Q t" and "\<And>v t'. body t = Ok (v, t') \<Longrightarrow> Q t'"
  shows "Q (snd (transact sqlite io body t))"
  by (cases rule: transact_cases [of sqlite io body t]) (use assms in auto)

section \<open>Tables with a unique key\<close>

text \<open>
  The rows a journal finds by a unique key, and the order that says a table only grew:
  every row is still there under its key, changed at most as \<open>le\<close> allows.
\<close>

definition row_at :: "('r \<Rightarrow> 'k) \<Rightarrow> 'r list \<Rightarrow> 'k \<Rightarrow> 'r option" where
  "row_at key t k = find (\<lambda>r. key r = k) t"

definition table_le :: "('r \<Rightarrow> 'k) \<Rightarrow> ('r \<Rightarrow> 'r \<Rightarrow> bool) \<Rightarrow> 'r list \<Rightarrow> 'r list \<Rightarrow> bool" where
  "table_le key le t t' \<longleftrightarrow>
     (\<forall>k r. row_at key t k = Some r \<longrightarrow> (\<exists>r'. row_at key t' k = Some r' \<and> le r r'))"

definition replace_row :: "'r \<Rightarrow> 'r \<Rightarrow> 'r list \<Rightarrow> 'r list" where
  "replace_row r r' t = map (\<lambda>x. if x = r then r' else x) t"

lemma row_at_Some: "row_at key t k = Some r \<Longrightarrow> r \<in> set t \<and> key r = k"
  by (auto simp: row_at_def find_Some_iff)

lemma row_at_None: "row_at key t k = None \<longleftrightarrow> k \<notin> key ` set t"
  by (auto simp: row_at_def find_None_iff)

lemma row_at_append: "row_at key (t @ [r]) k =
   (case row_at key t k of Some x \<Rightarrow> Some x | None \<Rightarrow> if key r = k then Some r else None)"
  unfolding row_at_def by (induction t) auto

lemma row_at_unique:
  "distinct (map key t) \<Longrightarrow> r \<in> set t \<Longrightarrow> row_at key t (key r) = Some r"
  unfolding row_at_def by (induction t) auto

lemma row_at_replace:
  assumes "distinct (map key t)" "r \<in> set t" "key r' = key r"
  shows "row_at key (replace_row r r' t) k = (if k = key r then Some r' else row_at key t k)"
  using assms
proof (induction t)
  case (Cons x t)
  have same: "map (\<lambda>x. if x = r then r' else x) t = t" if "r \<notin> set t"
    using that by (induction t) auto
  show ?case
  proof (cases "x = r")
    case True
    with Cons.prems have "r \<notin> set t" by auto
    with True Cons.prems same show ?thesis by (simp add: row_at_def replace_row_def)
  next
    case False
    with Cons show ?thesis by (auto simp: row_at_def replace_row_def)
  qed
qed simp

lemma map_key_replace: "key r' = key r \<Longrightarrow> map key (replace_row r r' t) = map key t"
  by (auto simp: replace_row_def)

lemma set_replace_row: "set (replace_row r r' t) \<subseteq> insert r' (set t)"
  by (auto simp: replace_row_def)

lemma list_all_replace: "list_all Q t \<Longrightarrow> Q r' \<Longrightarrow> list_all Q (replace_row r r' t)"
  by (auto simp: replace_row_def list_all_iff)

lemma filter_unique:
  assumes "distinct (map key t)" "r \<in> set t" "P r" "\<And>x. x \<in> set t \<Longrightarrow> P x \<Longrightarrow> key x = key r"
  shows "filter P t = [r]"
proof -
  obtain xs ys where t: "t = xs @ r # ys"
    using split_list [OF assms(2)] by blast
  with assms(1) have "key r \<notin> key ` (set xs \<union> set ys)" by auto
  then have "\<not> P x" if "x \<in> set xs \<union> set ys" for x
    using that assms(4) [of x] t by (metis Un_iff image_eqI in_set_conv_decomp set_append set_ConsD set_subset_Cons subsetD)
  then have "filter P xs = []" "filter P ys = []" by (auto simp: filter_empty_conv)
  with t assms(3) show ?thesis by simp
qed

text \<open>A compare-and-swap on the row of a key changes exactly that row.\<close>

lemma table_update_row:
  assumes "distinct (map key t)" "row_at key t k = Some r" "P r"
    "\<And>x. P x \<Longrightarrow> key x = k" "checks (f r)"
  shows "table_update sqlite checks P f t = Ok (1, replace_row r (f r) t)"
proof -
  from assms(2) have r: "r \<in> set t" "key r = k" by (auto dest: row_at_Some)
  have filt: "filter P t = [r]"
    by (rule filter_unique [of key]) (use assms r in auto)
  then have "set (filter P t) = {r}" by simp
  then have "P x \<longleftrightarrow> x = r" if "x \<in> set t" for x
    using that by auto
  then have "map (\<lambda>x. if P x then f x else x) t = replace_row r (f r) t"
    by (auto simp: replace_row_def)
  with filt assms(5) show ?thesis by (simp add: table_update_def)
qed

lemma table_update_one:
  assumes "distinct (map key t)" "\<And>x. P x \<Longrightarrow> key x = k"
    and upd: "table_update sqlite checks P f t = Ok (n, t')" "n = 1"
  obtains r where "row_at key t k = Some r" "P r" "checks (f r)" "t' = replace_row r (f r) t"
proof -
  from upd have "length (filter P t) = 1" by (auto simp: table_update_def split: if_splits)
  then obtain r where filt: "filter P t = [r]" by (auto simp: length_Suc_conv)
  then have "r \<in> set (filter P t)" by simp
  then have r: "r \<in> set t" "P r" by auto
  with row_at_unique [OF assms(1)] assms(2) have at: "row_at key t k = Some r" by metis
  from upd filt have ok: "checks (f r)" by (auto simp: table_update_def split: if_splits)
  have "table_update sqlite checks P f t = Ok (1, replace_row r (f r) t)"
    by (rule table_update_row [where key = key and k = k]) (use assms(1,2) at r ok in auto)
  with upd have "t' = replace_row r (f r) t" by simp
  with at r ok that show thesis by blast
qed

lemma table_update_refused:
  assumes "distinct (map key t)" "row_at key t k = Some r" "P r"
    "\<And>x. P x \<Longrightarrow> key x = k" "\<not> checks (f r)"
  shows "table_update sqlite checks P f t = Err sqlite"
proof -
  from assms(2) have r: "r \<in> set t" "key r = k" by (auto dest: row_at_Some)
  have "filter P t = [r]"
    by (rule filter_unique [of key]) (use assms r in auto)
  with assms(5) show ?thesis by (simp add: table_update_def)
qed

lemma table_le_refl: "(\<And>r. le r r) \<Longrightarrow> table_le key le t t"
  by (simp add: table_le_def)

lemma table_le_trans:
  assumes "table_le key le a b" "table_le key le b c" "\<And>x y z. le x y \<Longrightarrow> le y z \<Longrightarrow> le x z"
  shows "table_le key le a c"
  unfolding table_le_def
proof (intro allI impI)
  fix k r
  assume "row_at key a k = Some r"
  then obtain s where s: "row_at key b k = Some s" "le r s"
    using assms(1) by (auto simp: table_le_def)
  then obtain u where "row_at key c k = Some u" "le s u"
    using assms(2) by (auto simp: table_le_def)
  with s assms(3) show "\<exists>r'. row_at key c k = Some r' \<and> le r r'" by auto
qed

lemma table_le_append: "(\<And>r. le r r) \<Longrightarrow> table_le key le t (t @ [r])"
  by (simp add: table_le_def row_at_append)

lemma table_le_replace:
  assumes "distinct (map key t)" "r \<in> set t" "key r' = key r" "le r r'" "\<And>r. le r r"
  shows "table_le key le t (replace_row r r' t)"
  unfolding table_le_def row_at_replace [OF assms(1-3)]
  using assms(4,5) row_at_unique [OF assms(1,2)] by simp

lemma table_leD: "table_le key le t t' \<Longrightarrow> row_at key t k = Some r \<Longrightarrow>
   \<exists>r'. row_at key t' k = Some r' \<and> le r r'"
  by (auto simp: table_le_def)

end
