(* ===== verification/Effect_Journal.thy ===== *)
theory Effect_Journal
  imports Store_Table Effect_Plan
begin

text \<open>
  The durable one-attempt journal of \<open>crates/swap-store/src/public_effect_journal.rs\<close>. The
  SQL table is a list of rows, with the statements and transactions of \<open>Store_Table\<close>;
  SHA-256 is the parameter \<open>sha256\<close>.
\<close>

named_theorems journal_defs \<open>definitions of the journal operations\<close>

section \<open>Keys, effects, states\<close>

datatype public_effect_chain = Eff_Bitcoin | Eff_Lez

fun effect_chain_str :: "public_effect_chain \<Rightarrow> string" where
  "effect_chain_str Eff_Bitcoin = ''bitcoin''"
| "effect_chain_str Eff_Lez = ''lez''"

datatype public_effect_operation = Op_Funding | Op_Claim | Op_Refund

fun effect_operation_str :: "public_effect_operation \<Rightarrow> string" where
  "effect_operation_str Op_Funding = ''funding''"
| "effect_operation_str Op_Claim = ''claim''"
| "effect_operation_str Op_Refund = ''refund''"

record public_effect_key =
  key_swap_id :: swap_id
  key_local_role :: participant
  key_chain :: public_effect_chain
  key_operation :: public_effect_operation
  key_predecessor_revision :: u64

record prepared_public_effect =
  eff_key :: public_effect_key
  agreement_commitment :: bytes
  expected_effect_id :: string
  exact_public_bytes :: bytes
  public_bytes_sha256 :: bytes

definition prepared_public_effect_new ::
    "(bytes \<Rightarrow> bytes) \<Rightarrow> public_effect_key \<Rightarrow> bytes \<Rightarrow> string \<Rightarrow> bytes
     \<Rightarrow> store_error + prepared_public_effect" where
  [journal_defs]: "prepared_public_effect_new sha256 key agreement effect_id exact =
     (if list_all (\<lambda>b. b = 0) agreement \<or> effect_id = [] \<or> length effect_id > 512 \<or>
         \<not> list_all is_ascii_graphic effect_id \<or> exact = [] \<or>
         length exact > 4 * 1024 * 1024 \<or> key_predecessor_revision key > i64_max
      then Err InvalidPublicEffect
      else Ok \<lparr>eff_key = key, agreement_commitment = agreement,
               expected_effect_id = effect_id, exact_public_bytes = exact,
               public_bytes_sha256 = sha256 exact\<rparr>)"

datatype public_effect_state =
  Eff_Prepared | Eff_Started | Eff_Accepted | Eff_Rejected | Eff_Unknown

fun effect_state_str :: "public_effect_state \<Rightarrow> string" where
  "effect_state_str Eff_Prepared = ''prepared''"
| "effect_state_str Eff_Started = ''started''"
| "effect_state_str Eff_Accepted = ''accepted''"
| "effect_state_str Eff_Rejected = ''rejected''"
| "effect_state_str Eff_Unknown = ''unknown''"

definition effect_state_parse :: "string \<Rightarrow> store_error + public_effect_state" where
  "effect_state_parse v =
     (if v = ''prepared'' then Ok Eff_Prepared
      else if v = ''started'' then Ok Eff_Started
      else if v = ''accepted'' then Ok Eff_Accepted
      else if v = ''rejected'' then Ok Eff_Rejected
      else if v = ''unknown'' then Ok Eff_Unknown
      else Err CorruptPublicEffectState)"

record public_effect_snapshot =
  snap_effect :: prepared_public_effect
  snap_state :: public_effect_state
  snap_attempt_count :: u32
  snap_revision :: u64

datatype public_effect_observation =
    PresentExact bytes
  | ExactIdempotentLezClaimSubmissionSafe string bytes
  | EligibleToAttempt
  | Absent
  | Uncertain
  | ConflictingPresence

datatype public_effect_decision =
    SubmitOnce public_effect_snapshot
  | ObserveOnly public_effect_snapshot

datatype public_effect_submission_result =
    Sub_Accepted string
  | Sub_Rejected
  | Sub_Unknown

fun submission_state :: "public_effect_submission_result \<Rightarrow> public_effect_state" where
  "submission_state (Sub_Accepted _) = Eff_Accepted"
| "submission_state Sub_Rejected = Eff_Rejected"
| "submission_state Sub_Unknown = Eff_Unknown"

record public_effect_commit =
  commit_snapshot :: public_effect_snapshot
  commit_was_replay :: bool

section \<open>The table\<close>

record effect_row =
  er_swap_id :: string
  er_local_role :: string
  er_chain :: string
  er_operation :: string
  er_predecessor_revision :: int
  er_agreement_commitment :: bytes
  er_expected_effect_id :: string
  er_exact_public_bytes :: bytes
  er_public_bytes_sha256 :: bytes
  er_state :: string
  er_attempt_count :: int
  er_revision :: int

type_synonym effect_table = "effect_row list"

text \<open>The \<open>CHECK\<close> constraints of \<open>CREATE TABLE public_effect_journal\<close>.\<close>

definition row_checks :: "effect_row \<Rightarrow> bool" where
  "row_checks r \<longleftrightarrow>
     er_local_role r \<in> {''maker'', ''taker''} \<and>
     er_chain r \<in> {''bitcoin'', ''lez''} \<and>
     er_operation r \<in> {''funding'', ''claim'', ''refund''} \<and>
     0 \<le> er_predecessor_revision r \<and>
     length (er_agreement_commitment r) = 32 \<and>
     1 \<le> length (er_expected_effect_id r) \<and> length (er_expected_effect_id r) \<le> 512 \<and>
     1 \<le> length (er_exact_public_bytes r) \<and> length (er_exact_public_bytes r) \<le> 4194304 \<and>
     length (er_public_bytes_sha256 r) = 32 \<and>
     er_state r \<in> {''prepared'', ''started'', ''accepted'', ''rejected'', ''unknown''} \<and>
     er_attempt_count r \<in> {0, 1} \<and>
     0 \<le> er_revision r \<and> er_revision r \<le> 3 \<and>
     (er_state r = ''prepared'' \<and> er_attempt_count r = 0 \<and> er_revision r = 0 \<or>
      er_state r = ''started'' \<and> er_attempt_count r = 1 \<and> er_revision r = 1 \<or>
      er_state r \<in> {''rejected'', ''unknown''} \<and> er_attempt_count r = 1 \<and> er_revision r = 2 \<or>
      er_state r = ''accepted'' \<and>
        (er_attempt_count r = 0 \<and> er_revision r = 1 \<or>
         er_attempt_count r = 1 \<and> er_revision r \<in> {2, 3}))"

definition row_key :: "effect_row \<Rightarrow> string \<times> string \<times> string \<times> string \<times> int" where
  "row_key r = (er_swap_id r, er_local_role r, er_chain r, er_operation r,
     er_predecessor_revision r)"

text \<open>SQL statements on the table: insertion under the constraints, and an update that
  returns the number of rows it changed.\<close>

definition sql_insert :: "effect_row \<Rightarrow> effect_table \<Rightarrow> store_error + effect_table" where
  "sql_insert r t =
     (if row_checks r \<and> row_key r \<notin> row_key ` set t \<and>
         (er_chain r, er_expected_effect_id r) \<notin>
           (\<lambda>r. (er_chain r, er_expected_effect_id r)) ` set t
      then Ok (t @ [r]) else Err Sqlite)"

abbreviation sql_update ::
    "(effect_row \<Rightarrow> bool) \<Rightarrow> (effect_row \<Rightarrow> effect_row) \<Rightarrow> effect_table
     \<Rightarrow> store_error + (nat \<times> effect_table)" where
  "sql_update \<equiv> table_update Sqlite row_checks"

abbreviation in_transaction ::
    "tx_io \<Rightarrow> (effect_table \<Rightarrow> store_error + ('a \<times> effect_table)) \<Rightarrow> effect_table
     \<Rightarrow> (store_error + 'a) \<times> effect_table" where
  "in_transaction \<equiv> transact Sqlite"

section \<open>Decoding\<close>

definition revision_to_sql :: "u64 \<Rightarrow> store_error + int" where
  [journal_defs]: "revision_to_sql v =
     (if v > i64_max then Err InvalidPublicEffect else Ok (uint v))"

definition fixed_32 :: "bytes \<Rightarrow> store_error + bytes" where
  [journal_defs]: "fixed_32 bs = (if length bs = 32 then Ok bs else Err CorruptPublicEffectState)"

definition validate_transition_shape ::
    "public_effect_state \<Rightarrow> u32 \<Rightarrow> u64 \<Rightarrow> store_error + unit" where
  [journal_defs]: "validate_transition_shape st attempts revision =
     (if (case st of
            Eff_Prepared \<Rightarrow> attempts = 0 \<and> revision = 0
          | Eff_Started \<Rightarrow> attempts = 1 \<and> revision = 1
          | Eff_Rejected \<Rightarrow> attempts = 1 \<and> revision = 2
          | Eff_Unknown \<Rightarrow> attempts = 1 \<and> revision = 2
          | Eff_Accepted \<Rightarrow> attempts = 0 \<and> revision = 1 \<or> attempts = 1 \<and> revision \<in> {2, 3})
      then Ok () else Err CorruptPublicEffectState)"

definition decode_snapshot ::
    "(bytes \<Rightarrow> bytes) \<Rightarrow> public_effect_key \<Rightarrow> effect_row \<Rightarrow> store_error + public_effect_snapshot"
where
  "decode_snapshot sha256 key r =
     and_then (fixed_32 (er_agreement_commitment r)) (\<lambda>agreement.
     and_then (fixed_32 (er_public_bytes_sha256 r)) (\<lambda>persisted_digest.
     case prepared_public_effect_new sha256 key agreement (er_expected_effect_id r)
            (er_exact_public_bytes r) of
       Inl _ \<Rightarrow> Err CorruptPublicEffectState
     | Inr effect \<Rightarrow>
         if public_bytes_sha256 effect \<noteq> persisted_digest then Err CorruptPublicEffectState
         else
           and_then (effect_state_parse (er_state r)) (\<lambda>st.
           and_then (to_u32 CorruptPublicEffectState (er_attempt_count r)) (\<lambda>attempts.
           and_then (to_u64 CorruptPublicEffectState (er_revision r)) (\<lambda>revision.
           and_then (validate_transition_shape st attempts revision) (\<lambda>_.
             Ok \<lparr>snap_effect = effect, snap_state = st, snap_attempt_count = attempts,
                  snap_revision = revision\<rparr>))))))"

definition row_matches :: "public_effect_key \<Rightarrow> int \<Rightarrow> effect_row \<Rightarrow> bool" where
  "row_matches key p r \<longleftrightarrow>
     er_swap_id r = swap_id_str (key_swap_id key) \<and>
     er_local_role r = participant_name (key_local_role key) \<and>
     er_chain r = effect_chain_str (key_chain key) \<and>
     er_operation r = effect_operation_str (key_operation key) \<and>
     er_predecessor_revision r = p"

definition load_snapshot ::
    "(bytes \<Rightarrow> bytes) \<Rightarrow> effect_table \<Rightarrow> public_effect_key
     \<Rightarrow> store_error + public_effect_snapshot option" where
  "load_snapshot sha256 t key =
     and_then (revision_to_sql (key_predecessor_revision key)) (\<lambda>p.
       case find (row_matches key p) t of
         None \<Rightarrow> Ok None
       | Some r \<Rightarrow> and_then (decode_snapshot sha256 key r) (\<lambda>s. Ok (Some s)))"

section \<open>Operations\<close>

definition validate_prepared ::
    "(bytes \<Rightarrow> bytes) \<Rightarrow> prepared_public_effect \<Rightarrow> store_error + unit" where
  "validate_prepared sha256 effect =
     and_then (prepared_public_effect_new sha256 (eff_key effect) (agreement_commitment effect)
                 (expected_effect_id effect) (exact_public_bytes effect))
       (\<lambda>reconstructed. if reconstructed = effect then Ok () else Err InvalidPublicEffect)"

definition prepared_row :: "prepared_public_effect \<Rightarrow> int \<Rightarrow> effect_row" where
  "prepared_row effect p =
     \<lparr>er_swap_id = swap_id_str (key_swap_id (eff_key effect)),
      er_local_role = participant_name (key_local_role (eff_key effect)),
      er_chain = effect_chain_str (key_chain (eff_key effect)),
      er_operation = effect_operation_str (key_operation (eff_key effect)),
      er_predecessor_revision = p,
      er_agreement_commitment = agreement_commitment effect,
      er_expected_effect_id = expected_effect_id effect,
      er_exact_public_bytes = exact_public_bytes effect,
      er_public_bytes_sha256 = public_bytes_sha256 effect,
      er_state = ''prepared'', er_attempt_count = 0, er_revision = 0\<rparr>"

definition reused_effect_id :: "prepared_public_effect \<Rightarrow> effect_table \<Rightarrow> bool" where
  "reused_effect_id effect t \<longleftrightarrow>
     list_ex (\<lambda>r. er_chain r = effect_chain_str (key_chain (eff_key effect)) \<and>
       er_expected_effect_id r = expected_effect_id effect) t"

definition record_prepared_body ::
    "(bytes \<Rightarrow> bytes) \<Rightarrow> prepared_public_effect \<Rightarrow> effect_table
     \<Rightarrow> store_error + (public_effect_commit \<times> effect_table)" where
  "record_prepared_body sha256 effect t =
     and_then (load_snapshot sha256 t (eff_key effect)) (\<lambda>existing.
       case existing of
         Some snapshot \<Rightarrow>
           if snap_effect snapshot \<noteq> effect then Err PublicEffectConflict
           else Ok (\<lparr>commit_snapshot = snapshot, commit_was_replay = True\<rparr>, t)
       | None \<Rightarrow>
           if reused_effect_id effect t then Err PublicEffectConflict
           else
             and_then (revision_to_sql (key_predecessor_revision (eff_key effect))) (\<lambda>p.
             and_then (sql_insert (prepared_row effect p) t) (\<lambda>t'.
             and_then (load_snapshot sha256 t' (eff_key effect)) (\<lambda>loaded.
               case loaded of
                 None \<Rightarrow> Err CorruptPublicEffectState
               | Some inserted \<Rightarrow>
                   if snap_effect inserted \<noteq> effect \<or> snap_state inserted \<noteq> Eff_Prepared \<or>
                      snap_attempt_count inserted \<noteq> 0 \<or> snap_revision inserted \<noteq> 0
                   then Err CorruptPublicEffectState
                   else Ok (\<lparr>commit_snapshot = inserted, commit_was_replay = False\<rparr>, t')))))"

definition record_prepared ::
    "(bytes \<Rightarrow> bytes) \<Rightarrow> tx_io \<Rightarrow> prepared_public_effect \<Rightarrow> effect_table
     \<Rightarrow> (store_error + public_effect_commit) \<times> effect_table" where
  "record_prepared sha256 io effect t =
     (case validate_prepared sha256 effect of
        Inl e \<Rightarrow> (Err e, t)
      | Inr _ \<Rightarrow> in_transaction io (record_prepared_body sha256 effect) t)"

text \<open>
  The three compare-and-swap updates, each returning the snapshot it leaves in the caller.
  \<open>row_cas\<close> is their common \<open>WHERE\<close> clause.
\<close>

definition row_cas ::
    "public_effect_key \<Rightarrow> int \<Rightarrow> string \<Rightarrow> int \<Rightarrow> int \<Rightarrow> effect_row \<Rightarrow> bool" where
  "row_cas key p st attempts revision r \<longleftrightarrow> row_matches key p r \<and> er_state r = st \<and>
     er_attempt_count r = attempts \<and> er_revision r = revision"

definition begin_once ::
    "public_effect_snapshot \<Rightarrow> effect_table
     \<Rightarrow> store_error + (public_effect_snapshot \<times> effect_table)" where
  "begin_once snapshot t =
     (let key = eff_key (snap_effect snapshot)
      in and_then (revision_to_sql (key_predecessor_revision key)) (\<lambda>p.
         and_then (sql_update (row_cas key p ''prepared'' 0 0)
             (\<lambda>r. r\<lparr>er_state := ''started'', er_attempt_count := 1, er_revision := 1\<rparr>) t)
           (\<lambda>(updated, t').
             if updated \<noteq> 1 then Err PublicEffectConflict
             else Ok (snapshot\<lparr>snap_state := Eff_Started, snap_attempt_count := 1,
                        snap_revision := 1\<rparr>, t'))))"

definition burn_authority_without_send ::
    "public_effect_snapshot \<Rightarrow> effect_table
     \<Rightarrow> store_error + (public_effect_snapshot \<times> effect_table)" where
  "burn_authority_without_send snapshot t =
     (let key = eff_key (snap_effect snapshot)
      in and_then (revision_to_sql (key_predecessor_revision key)) (\<lambda>p.
         and_then (sql_update (row_cas key p ''prepared'' 0 0)
             (\<lambda>r. r\<lparr>er_state := ''unknown'', er_attempt_count := 1, er_revision := 2\<rparr>) t)
           (\<lambda>(updated, t').
             if updated \<noteq> 1 then Err PublicEffectConflict
             else Ok (snapshot\<lparr>snap_state := Eff_Unknown, snap_attempt_count := 1,
                        snap_revision := 2\<rparr>, t'))))"

definition advance_to_accepted ::
    "public_effect_snapshot \<Rightarrow> effect_table
     \<Rightarrow> store_error + (public_effect_snapshot \<times> effect_table)" where
  "advance_to_accepted snapshot t =
     (let key = eff_key (snap_effect snapshot)
      in case checked_add (snap_revision snapshot) 1 of
        None \<Rightarrow> Err CorruptPublicEffectState
      | Some next_revision \<Rightarrow>
          and_then (revision_to_sql (key_predecessor_revision key)) (\<lambda>p.
          and_then (revision_to_sql next_revision) (\<lambda>next.
          and_then (revision_to_sql (snap_revision snapshot)) (\<lambda>revision.
          and_then (sql_update (row_cas key p (effect_state_str (snap_state snapshot))
                                  (uint (snap_attempt_count snapshot)) revision)
              (\<lambda>r. r\<lparr>er_state := ''accepted'', er_revision := next\<rparr>) t)
            (\<lambda>(updated, t').
              if updated \<noteq> 1 then Err PublicEffectConflict
              else Ok (snapshot\<lparr>snap_state := Eff_Accepted,
                         snap_revision := next_revision\<rparr>, t'))))))"

text \<open>The \<open>begin_once\<close> arm shared by three observations: the flag says a send is authorized.\<close>

definition begin_if_prepared ::
    "public_effect_snapshot \<Rightarrow> effect_table
     \<Rightarrow> store_error + (public_effect_snapshot \<times> effect_table \<times> bool)" where
  "begin_if_prepared snapshot t =
     (if snap_state snapshot = Eff_Prepared
      then and_then (begin_once snapshot t) (\<lambda>(s, t'). Ok (s, t', True))
      else Ok (snapshot, t, False))"

definition reconcile_match ::
    "public_effect_key \<Rightarrow> public_effect_observation \<Rightarrow> public_effect_snapshot \<Rightarrow> effect_table
     \<Rightarrow> store_error + (public_effect_snapshot \<times> effect_table \<times> bool)" where
  "reconcile_match key obs snapshot t =
     (case obs of
        PresentExact bs \<Rightarrow>
          if bs \<noteq> exact_public_bytes (snap_effect snapshot) then Err PublicEffectConflict
          else if snap_state snapshot \<in> {Eff_Prepared, Eff_Started, Eff_Unknown}
          then and_then (advance_to_accepted snapshot t) (\<lambda>(s, t'). Ok (s, t', False))
          else if snap_state snapshot = Eff_Accepted then Ok (snapshot, t, False)
          else Err PublicEffectConflict
      | ExactIdempotentLezClaimSubmissionSafe effect_id bs \<Rightarrow>
          if key_chain key \<noteq> Eff_Lez \<or> key_operation key \<noteq> Op_Claim
          then Err InvalidPublicEffect
          else if effect_id \<noteq> expected_effect_id (snap_effect snapshot) \<or>
                  bs \<noteq> exact_public_bytes (snap_effect snapshot)
          then Err PublicEffectConflict
          else begin_if_prepared snapshot t
      | EligibleToAttempt \<Rightarrow>
          if key_operation key \<noteq> Op_Refund then Err InvalidPublicEffect
          else begin_if_prepared snapshot t
      | Absent \<Rightarrow>
          if key_operation key = Op_Refund then Err InvalidPublicEffect
          else begin_if_prepared snapshot t
      | Uncertain \<Rightarrow> Ok (snapshot, t, False)
      | ConflictingPresence \<Rightarrow>
          if snap_state snapshot = Eff_Prepared
          then and_then (burn_authority_without_send snapshot t) (\<lambda>(s, t'). Ok (s, t', False))
          else if snap_state snapshot \<in> {Eff_Started, Eff_Unknown} then Ok (snapshot, t, False)
          else Err PublicEffectConflict)"

text \<open>The postcondition check that ends \<open>reconcile\<close> and \<open>record_submission_result\<close>.\<close>

definition check_postcondition ::
    "(bytes \<Rightarrow> bytes) \<Rightarrow> public_effect_key \<Rightarrow> public_effect_snapshot \<Rightarrow> effect_table
     \<Rightarrow> store_error + unit" where
  "check_postcondition sha256 key snapshot t =
     and_then (load_snapshot sha256 t key) (\<lambda>post.
       case post of
         None \<Rightarrow> Err CorruptPublicEffectState
       | Some p \<Rightarrow> if p \<noteq> snapshot then Err CorruptPublicEffectState else Ok ())"

definition load_existing ::
    "(bytes \<Rightarrow> bytes) \<Rightarrow> effect_table \<Rightarrow> public_effect_key \<Rightarrow> store_error + public_effect_snapshot"
where
  "load_existing sha256 t key =
     and_then (load_snapshot sha256 t key) (\<lambda>s.
       case s of None \<Rightarrow> Err MissingPublicEffect | Some s \<Rightarrow> Ok s)"

definition reconcile_body ::
    "(bytes \<Rightarrow> bytes) \<Rightarrow> public_effect_key \<Rightarrow> public_effect_observation \<Rightarrow> effect_table
     \<Rightarrow> store_error + (public_effect_decision \<times> effect_table)" where
  "reconcile_body sha256 key obs t =
     and_then (load_existing sha256 t key) (\<lambda>snapshot.
     and_then (reconcile_match key obs snapshot t) (\<lambda>(snapshot', t', submit_once).
     and_then (check_postcondition sha256 key snapshot' t') (\<lambda>_.
       Ok (if submit_once then SubmitOnce snapshot' else ObserveOnly snapshot', t'))))"

definition reconcile ::
    "(bytes \<Rightarrow> bytes) \<Rightarrow> tx_io \<Rightarrow> public_effect_key \<Rightarrow> public_effect_observation \<Rightarrow> effect_table
     \<Rightarrow> (store_error + public_effect_decision) \<times> effect_table" where
  "reconcile sha256 io key obs t = in_transaction io (reconcile_body sha256 key obs) t"

definition submission_write ::
    "public_effect_key \<Rightarrow> public_effect_state \<Rightarrow> public_effect_snapshot \<Rightarrow> effect_table
     \<Rightarrow> store_error + (public_effect_snapshot \<times> effect_table \<times> bool)" where
  "submission_write key target snapshot t =
     (if snap_state snapshot = Eff_Started
      then and_then (revision_to_sql (key_predecessor_revision key)) (\<lambda>p.
           and_then (sql_update (row_cas key p ''started'' 1 1)
               (\<lambda>r. r\<lparr>er_state := effect_state_str target, er_revision := 2\<rparr>) t)
             (\<lambda>(updated, t').
               if updated \<noteq> 1 then Err PublicEffectConflict
               else Ok (snapshot\<lparr>snap_state := target, snap_revision := 2\<rparr>, t', False)))
      else if snap_state snapshot = target \<and> snap_attempt_count snapshot = 1 \<and>
              snap_revision snapshot = 2
      then Ok (snapshot, t, True)
      else Err PublicEffectConflict)"

definition record_submission_result_body ::
    "(bytes \<Rightarrow> bytes) \<Rightarrow> public_effect_key \<Rightarrow> public_effect_submission_result \<Rightarrow> effect_table
     \<Rightarrow> store_error + (public_effect_commit \<times> effect_table)" where
  "record_submission_result_body sha256 key result t =
     and_then (load_existing sha256 t key) (\<lambda>snapshot.
       if (case result of Sub_Accepted i \<Rightarrow> i \<noteq> expected_effect_id (snap_effect snapshot)
           | _ \<Rightarrow> False)
       then Err PublicEffectConflict
       else
         and_then (submission_write key (submission_state result) snapshot t)
           (\<lambda>(snapshot', t', was_replay).
         and_then (check_postcondition sha256 key snapshot' t') (\<lambda>_.
           Ok (\<lparr>commit_snapshot = snapshot', commit_was_replay = was_replay\<rparr>, t'))))"

definition record_submission_result ::
    "(bytes \<Rightarrow> bytes) \<Rightarrow> tx_io \<Rightarrow> public_effect_key \<Rightarrow> public_effect_submission_result
     \<Rightarrow> effect_table \<Rightarrow> (store_error + public_effect_commit) \<times> effect_table" where
  "record_submission_result sha256 io key result t =
     in_transaction io (record_submission_result_body sha256 key result) t"

end
