(* ===== verification/Journal_Refinement.thy ===== *)
theory Journal_Refinement
  imports Effect_Journal
begin

text \<open>
  The SQL journal refines a list of well-formed snapshots. \<open>journal_rep t ss\<close> relates the
  raw table to the snapshots its rows encode; every compare-and-swap update is a
  replacement of one snapshot, so each method acts on its entry as the small state
  machine \<open>snap_trans\<close>, and no call can fail on the postcondition checks. The last section
  instantiates the one-time authority contract of the prelude for the two unique column
  tuples of the table.
\<close>

section \<open>Well-formed snapshots and their rows\<close>

definition snap_key :: "public_effect_snapshot \<Rightarrow> public_effect_key" where
  "snap_key s = eff_key (snap_effect s)"

definition snap_public_id :: "public_effect_snapshot \<Rightarrow> public_effect_chain \<times> string" where
  "snap_public_id s = (key_chain (snap_key s), expected_effect_id (snap_effect s))"

definition effect_wf :: "(bytes \<Rightarrow> bytes) \<Rightarrow> prepared_public_effect \<Rightarrow> bool" where
  "effect_wf sha256 e \<longleftrightarrow> validate_prepared sha256 e = Ok () \<and>
     length (agreement_commitment e) = 32 \<and> length (public_bytes_sha256 e) = 32"

definition snapshot_wf :: "(bytes \<Rightarrow> bytes) \<Rightarrow> public_effect_snapshot \<Rightarrow> bool" where
  "snapshot_wf sha256 s \<longleftrightarrow> effect_wf sha256 (snap_effect s) \<and>
     validate_transition_shape (snap_state s) (snap_attempt_count s) (snap_revision s) = Ok ()"

definition encode_row :: "public_effect_snapshot \<Rightarrow> effect_row" where
  "encode_row s = (prepared_row (snap_effect s) (uint (key_predecessor_revision (snap_key s))))
     \<lparr>er_state := effect_state_str (snap_state s), er_attempt_count := uint (snap_attempt_count s),
      er_revision := uint (snap_revision s)\<rparr>"

lemma effect_wf_new:
  "effect_wf sha256 e \<Longrightarrow> prepared_public_effect_new sha256 (eff_key e) (agreement_commitment e)
     (expected_effect_id e) (exact_public_bytes e) = Ok e"
  by (auto simp: effect_wf_def validate_prepared_def and_then_Inr split: if_splits)

lemma effect_wf_revision:
  "effect_wf sha256 e \<Longrightarrow>
     revision_to_sql (key_predecessor_revision (eff_key e)) =
       Ok (uint (key_predecessor_revision (eff_key e)))"
  by (drule effect_wf_new) (auto simp: journal_defs split: if_splits)

lemma state_parse_str [simp]: "effect_state_parse (effect_state_str st) = Ok st"
  by (cases st) (simp_all add: effect_state_parse_def)

lemma decode_encode:
  "snapshot_wf sha256 s \<Longrightarrow> decode_snapshot sha256 (snap_key s) (encode_row s) = Ok s"
  by (simp add: decode_snapshot_def encode_row_def prepared_row_def snapshot_wf_def effect_wf_def
      fixed_32_def snap_key_def effect_wf_new)

lemma chain_str_inject [simp]: "effect_chain_str a = effect_chain_str b \<longleftrightarrow> a = b"
  by (cases a; cases b) simp_all

lemma operation_str_inject [simp]: "effect_operation_str a = effect_operation_str b \<longleftrightarrow> a = b"
  by (cases a; cases b) simp_all

lemma effect_key_eqI:
  fixes a b :: public_effect_key
  assumes "key_swap_id a = key_swap_id b" "key_local_role a = key_local_role b"
    "key_chain a = key_chain b" "key_operation a = key_operation b"
    "uint (key_predecessor_revision a) = uint (key_predecessor_revision b)"
  shows "a = b"
  using assms by (intro public_effect_key.equality) (simp_all add: word_uint_eq_iff)

lemma row_matches_encode [simp]:
  "row_matches key (uint (key_predecessor_revision key)) (encode_row s) \<longleftrightarrow> snap_key s = key"
  by (auto simp: row_matches_def encode_row_def prepared_row_def snap_key_def
      intro: effect_key_eqI)

lemma row_key_encode [simp]: "row_key (encode_row s) = row_key (encode_row s') \<longleftrightarrow>
   snap_key s = snap_key s'"
  by (auto simp: row_key_def encode_row_def prepared_row_def snap_key_def
      intro: effect_key_eqI)

lemma shape_cases:
  "validate_transition_shape st a r = Ok () \<longleftrightarrow>
     st = Eff_Prepared \<and> a = 0 \<and> r = 0 \<or> st = Eff_Started \<and> a = 1 \<and> r = 1 \<or>
     st \<in> {Eff_Rejected, Eff_Unknown} \<and> a = 1 \<and> r = 2 \<or>
     st = Eff_Accepted \<and> (a = 0 \<and> r = 1 \<or> a = 1 \<and> r \<in> {2, 3})"
  by (cases st) (auto simp: validate_transition_shape_def)

lemma shape_checks:
  assumes "validate_transition_shape st a r = Ok ()"
    and "s = effect_state_str st" "attempts = uint a" "rv = uint r"
  shows "s \<in> {''prepared'', ''started'', ''accepted'', ''rejected'', ''unknown''} \<and>
    attempts \<in> {0, 1} \<and> 0 \<le> rv \<and> rv \<le> 3 \<and>
    (s = ''prepared'' \<and> attempts = 0 \<and> rv = 0 \<or> s = ''started'' \<and> attempts = 1 \<and> rv = 1 \<or>
     s \<in> {''rejected'', ''unknown''} \<and> attempts = 1 \<and> rv = 2 \<or>
     s = ''accepted'' \<and> (attempts = 0 \<and> rv = 1 \<or> attempts = 1 \<and> rv \<in> {2, 3}))"
  using assms(1) unfolding shape_cases assms(2-4)
  by (elim disjE conjE insertE emptyE) simp_all

lemma effect_wf_bounds:
  "effect_wf sha256 e \<Longrightarrow> 1 \<le> length (expected_effect_id e) \<and> length (expected_effect_id e) \<le> 512 \<and>
     1 \<le> length (exact_public_bytes e) \<and> length (exact_public_bytes e) \<le> 4194304 \<and>
     length (agreement_commitment e) = 32 \<and> length (public_bytes_sha256 e) = 32"
  using effect_wf_new [of sha256 e]
  by (simp add: effect_wf_def prepared_public_effect_new_def Suc_le_eq split: if_splits)

lemma names_range:
  "participant_name p \<in> {''maker'', ''taker''}"
  "effect_chain_str c \<in> {''bitcoin'', ''lez''}"
  "effect_operation_str d \<in> {''funding'', ''claim'', ''refund''}"
  by (cases p, simp, simp) (cases c, simp, simp, cases d, simp, simp, simp)

lemma row_checks_encode:
  assumes "snapshot_wf sha256 s" shows "row_checks (encode_row s)"
proof -
  have wf: "effect_wf sha256 (snap_effect s)"
    and shape: "validate_transition_shape (snap_state s) (snap_attempt_count s) (snap_revision s) = Ok ()"
    using assms by (simp_all add: snapshot_wf_def)
  show ?thesis
    unfolding row_checks_def
    apply (intro conjI)
    subgoal by (simp only: encode_row_def prepared_row_def effect_row.simps names_range)
    subgoal by (simp only: encode_row_def prepared_row_def effect_row.simps names_range)
    subgoal by (simp only: encode_row_def prepared_row_def effect_row.simps names_range)
    using effect_wf_bounds [OF wf] shape_checks [OF shape refl refl refl]
    by (simp_all only: encode_row_def prepared_row_def effect_row.simps uint_ge_0)
qed

section \<open>Tables that represent a list of snapshots\<close>

definition journal_rep ::
    "(bytes \<Rightarrow> bytes) \<Rightarrow> effect_table \<Rightarrow> public_effect_snapshot list \<Rightarrow> bool" where
  "journal_rep sha256 t ss \<longleftrightarrow> t = map encode_row ss \<and> distinct (map snap_key ss) \<and>
     distinct (map snap_public_id ss) \<and> list_all (snapshot_wf sha256) ss"

definition find_snap :: "public_effect_snapshot list \<Rightarrow> public_effect_key \<Rightarrow> public_effect_snapshot option" where
  "find_snap ss key = find (\<lambda>s. snap_key s = key) ss"

definition replace_snap :: "public_effect_snapshot \<Rightarrow> public_effect_snapshot list \<Rightarrow> public_effect_snapshot list" where
  "replace_snap s' ss = map (\<lambda>s. if snap_key s = snap_key s' then s' else s) ss"

lemma find_snap_Some: "find_snap ss key = Some s \<Longrightarrow> s \<in> set ss \<and> snap_key s = key"
  by (auto simp: find_snap_def find_Some_iff)

lemma find_snap_unique:
  "distinct (map snap_key ss) \<Longrightarrow> find_snap ss key = Some s \<Longrightarrow> x \<in> set ss \<Longrightarrow>
     snap_key x = key \<Longrightarrow> x = s"
  by (metis distinct_map find_snap_Some inj_onD)

lemma find_replace_same:
  "find_snap ss (snap_key s') \<noteq> None \<Longrightarrow> find_snap (replace_snap s' ss) (snap_key s') = Some s'"
  unfolding find_snap_def replace_snap_def by (induction ss) auto

lemma find_replace_other:
  "key \<noteq> snap_key s' \<Longrightarrow> find_snap (replace_snap s' ss) key = find_snap ss key"
  unfolding find_snap_def replace_snap_def by (induction ss) auto

lemma load_rep:
  assumes "journal_rep sha256 t ss" "key_predecessor_revision key \<le> i64_max"
  shows "load_snapshot sha256 t key = Ok (find_snap ss key)"
proof -
  have t: "t = map encode_row ss" and wf: "list_all (snapshot_wf sha256) ss"
    using assms(1) by (simp_all add: journal_rep_def)
  have "find (row_matches key (uint (key_predecessor_revision key))) (map encode_row ss) =
      map_option encode_row (find_snap ss key)"
    unfolding find_snap_def by (induction ss) simp_all
  moreover have "decode_snapshot sha256 key (encode_row s) = Ok s" if "find_snap ss key = Some s" for s
    using find_snap_Some [OF that] wf decode_encode [of sha256 s] by (auto simp: list_all_iff)
  ultimately show ?thesis
    using assms(2) by (simp add: load_snapshot_def revision_to_sql_def t not_less [symmetric]
        split: option.split)
qed

lemma load_rep_Err:
  "\<not> key_predecessor_revision key \<le> i64_max \<Longrightarrow> load_snapshot sha256 t key = Err InvalidPublicEffect"
  by (simp add: load_snapshot_def revision_to_sql_def not_le)

lemma cas_rep:
  assumes rep: "journal_rep sha256 t ss" and s: "find_snap ss key = Some s"
    and key: "snap_key s' = key" and pid: "snap_public_id s' = snap_public_id s"
    and wf: "snapshot_wf sha256 s'" and f: "f (encode_row s) = encode_row s'"
    and st: "st = effect_state_str (snap_state s)" "a = uint (snap_attempt_count s)" "r = uint (snap_revision s)"
  shows "sql_update (row_cas key (uint (key_predecessor_revision key)) st a r) f t =
      Ok (1, map encode_row (replace_snap s' ss)) \<and>
    journal_rep sha256 (map encode_row (replace_snap s' ss)) (replace_snap s' ss)"
proof -
  let ?P = "row_cas key (uint (key_predecessor_revision key)) st a r"
  note rep' = rep [unfolded journal_rep_def]
  have P: "?P (encode_row x) \<longleftrightarrow> x = s" if "x \<in> set ss" for x
  proof -
    have "snap_key x = key \<longleftrightarrow> x = s"
      using find_snap_unique [of ss key s x] that rep' s find_snap_Some [OF s] by blast
    then show ?thesis
      using find_snap_Some [OF s]
      by (auto simp: row_cas_def st) (auto simp: encode_row_def)
  qed
  have dist: "distinct ss" using rep' by (simp add: distinct_map)
  have filt: "filter ?P t = [encode_row s]"
  proof -
    have "filter ?P t = map encode_row (filter (\<lambda>x. x = s) ss)"
      using rep' P by (simp add: filter_map comp_def cong: filter_cong)
    also have "filter (\<lambda>x. x = s) ss = [s]"
      using dist find_snap_Some [OF s] by (induction ss) (auto simp: filter_empty_conv)
    finally show ?thesis by simp
  qed
  have keyx: "snap_key x = key \<longleftrightarrow> x = s" if "x \<in> set ss" for x
    using find_snap_unique [of ss key s x] that rep' s find_snap_Some [OF s] by blast
  have upd: "map (\<lambda>x. if ?P x then f x else x) t = map encode_row (replace_snap s' ss)"
    using rep' P keyx f by (auto simp: replace_snap_def key)
  have 1: "sql_update ?P f t = Ok (1, map encode_row (replace_snap s' ss))"
    using row_checks_encode [OF wf] f unfolding table_update_def filt upd by simp
  have keys: "map snap_key (replace_snap s' ss) = map snap_key ss"
    by (simp add: replace_snap_def key)
  have ids: "map snap_public_id (replace_snap s' ss) = map snap_public_id ss"
    using keyx pid by (auto simp: replace_snap_def key)
  have wfs: "list_all (snapshot_wf sha256) (replace_snap s' ss)"
    using rep' wf by (auto simp: replace_snap_def list_all_iff)
  from 1 keys ids wfs rep' show ?thesis
    by (simp add: journal_rep_def)
qed


lemma rep_wf: "journal_rep sha256 t ss \<Longrightarrow> find_snap ss key = Some s \<Longrightarrow> snapshot_wf sha256 s"
  by (auto simp: journal_rep_def list_all_iff dest: find_snap_Some)

lemma rep_bound:
  assumes "journal_rep sha256 t ss" "find_snap ss key = Some s"
  shows "revision_to_sql (key_predecessor_revision key) = Ok (uint (key_predecessor_revision key))"
    and "key_predecessor_revision key \<le> i64_max"
proof -
  from rep_wf [OF assms] find_snap_Some [OF assms(2)]
  show "revision_to_sql (key_predecessor_revision key) = Ok (uint (key_predecessor_revision key))"
    using effect_wf_revision [of sha256 "snap_effect s"] by (auto simp: snapshot_wf_def snap_key_def)
  then show "key_predecessor_revision key \<le> i64_max"
    by (auto simp: revision_to_sql_def split: if_splits)
qed

lemma replace_same:
  assumes "journal_rep sha256 t ss" "find_snap ss key = Some s"
  shows "replace_snap s ss = ss" "map encode_row (replace_snap s ss) = t"
proof -
  have "snap_key x = snap_key s \<Longrightarrow> x \<in> set ss \<Longrightarrow> x = s" for x
    using find_snap_unique [of ss key s x] assms find_snap_Some [OF assms(2)]
    by (auto simp: journal_rep_def)
  then show "replace_snap s ss = ss"
    unfolding replace_snap_def by (intro map_idI) auto
  with assms show "map encode_row (replace_snap s ss) = t"
    by (simp add: journal_rep_def)
qed

section \<open>The journal entry as an abstract state machine\<close>

definition start_snap :: "public_effect_snapshot \<Rightarrow> public_effect_snapshot" where
  "start_snap s = s\<lparr>snap_state := Eff_Started, snap_attempt_count := 1, snap_revision := 1\<rparr>"

definition burn_snap :: "public_effect_snapshot \<Rightarrow> public_effect_snapshot" where
  "burn_snap s = s\<lparr>snap_state := Eff_Unknown, snap_attempt_count := 1, snap_revision := 2\<rparr>"

definition accept_snap :: "public_effect_snapshot \<Rightarrow> public_effect_snapshot" where
  "accept_snap s = s\<lparr>snap_state := Eff_Accepted, snap_revision := snap_revision s + 1\<rparr>"

definition result_snap :: "public_effect_state \<Rightarrow> public_effect_snapshot \<Rightarrow> public_effect_snapshot" where
  "result_snap target s = s\<lparr>snap_state := target, snap_revision := 2\<rparr>"

lemmas snap_update_defs = start_snap_def burn_snap_def accept_snap_def result_snap_def

lemma snap_update_key [simp]:
  "snap_key (start_snap s) = snap_key s" "snap_key (burn_snap s) = snap_key s"
  "snap_key (accept_snap s) = snap_key s" "snap_key (result_snap x s) = snap_key s"
  by (simp_all add: snap_update_defs snap_key_def)

lemma snap_update_public_id [simp]:
  "snap_public_id (start_snap s) = snap_public_id s" "snap_public_id (burn_snap s) = snap_public_id s"
  "snap_public_id (accept_snap s) = snap_public_id s" "snap_public_id (result_snap x s) = snap_public_id s"
  by (simp_all add: snap_public_id_def) (simp_all add: snap_update_defs)

lemma encode_updates:
  "encode_row (start_snap s) =
     (encode_row s)\<lparr>er_state := ''started'', er_attempt_count := 1, er_revision := 1\<rparr>"
  "encode_row (burn_snap s) =
     (encode_row s)\<lparr>er_state := ''unknown'', er_attempt_count := 1, er_revision := 2\<rparr>"
  "encode_row (accept_snap s) =
     (encode_row s)\<lparr>er_state := ''accepted'', er_revision := uint (snap_revision s + 1)\<rparr>"
  "encode_row (result_snap x s) =
     (encode_row s)\<lparr>er_state := effect_state_str x, er_revision := 2\<rparr>"
  by (simp_all add: encode_row_def snap_update_defs snap_key_def)

lemma snapshot_wf_updates:
  assumes "snapshot_wf sha256 s"
  shows "snapshot_wf sha256 (start_snap s)" "snapshot_wf sha256 (burn_snap s)"
    and "snap_state s \<in> {Eff_Prepared, Eff_Started, Eff_Unknown} \<Longrightarrow> snapshot_wf sha256 (accept_snap s)"
    and "snap_state s = Eff_Started \<Longrightarrow> x \<in> {Eff_Accepted, Eff_Rejected, Eff_Unknown} \<Longrightarrow>
      snapshot_wf sha256 (result_snap x s)"
  using assms by (auto simp: snapshot_wf_def shape_cases snap_update_defs)

lemma wf_prepared:
  "snapshot_wf sha256 s \<Longrightarrow> snap_state s = Eff_Prepared \<Longrightarrow> snap_attempt_count s = 0 \<and> snap_revision s = 0"
  by (auto simp: snapshot_wf_def shape_cases)

lemma wf_started:
  "snapshot_wf sha256 s \<Longrightarrow> snap_state s = Eff_Started \<Longrightarrow> snap_attempt_count s = 1 \<and> snap_revision s = 1"
  by (auto simp: snapshot_wf_def shape_cases)

lemma wf_revision:
  "snapshot_wf sha256 s \<Longrightarrow> snap_revision s \<in> {0, 1, 2, 3}"
  by (auto simp: snapshot_wf_def shape_cases)

lemma begin_once_rep:
  assumes rep: "journal_rep sha256 t ss" and s: "find_snap ss key = Some s"
    and st: "snap_state s = Eff_Prepared"
  shows "begin_once s t = Ok (start_snap s, map encode_row (replace_snap (start_snap s) ss))"
proof -
  have key: "eff_key (snap_effect s) = key" using find_snap_Some [OF s] by (simp add: snap_key_def)
  note wf = rep_wf [OF rep s]
  have "sql_update (row_cas key (uint (key_predecessor_revision key)) ''prepared'' 0 0)
      (\<lambda>r. r\<lparr>er_state := ''started'', er_attempt_count := 1, er_revision := 1\<rparr>) t =
      Ok (1, map encode_row (replace_snap (start_snap s) ss))"
    using find_snap_Some [OF s] wf_prepared [OF wf st] st wf
    by (intro cas_rep [OF rep s, THEN conjunct1])
      (simp_all add: snapshot_wf_updates encode_updates)
  then show ?thesis
    by (simp add: begin_once_def key rep_bound(1) [OF rep s] start_snap_def)
qed

lemma burn_rep:
  assumes rep: "journal_rep sha256 t ss" and s: "find_snap ss key = Some s"
    and st: "snap_state s = Eff_Prepared"
  shows "burn_authority_without_send s t =
    Ok (burn_snap s, map encode_row (replace_snap (burn_snap s) ss))"
proof -
  have key: "eff_key (snap_effect s) = key" using find_snap_Some [OF s] by (simp add: snap_key_def)
  note wf = rep_wf [OF rep s]
  have "sql_update (row_cas key (uint (key_predecessor_revision key)) ''prepared'' 0 0)
      (\<lambda>r. r\<lparr>er_state := ''unknown'', er_attempt_count := 1, er_revision := 2\<rparr>) t =
      Ok (1, map encode_row (replace_snap (burn_snap s) ss))"
    using find_snap_Some [OF s] wf_prepared [OF wf st] st wf
    by (intro cas_rep [OF rep s, THEN conjunct1])
      (simp_all add: snapshot_wf_updates encode_updates)
  then show ?thesis
    by (simp add: burn_authority_without_send_def key rep_bound(1) [OF rep s] burn_snap_def)
qed

lemma small_revision:
  assumes "r \<in> {0, 1, 2 :: u64}"
  shows "checked_add r 1 = Some (r + 1)" "revision_to_sql r = Ok (uint r)"
    "revision_to_sql (r + 1) = Ok (uint r + 1)" "uint (r + 1) = uint r + 1"
  using assms by (auto simp: checked_add_def revision_to_sql_def i64_max_def word_less_nat_alt)

lemma accept_rep:
  assumes rep: "journal_rep sha256 t ss" and s: "find_snap ss key = Some s"
    and st: "snap_state s \<in> {Eff_Prepared, Eff_Started, Eff_Unknown}"
  shows "advance_to_accepted s t =
    Ok (accept_snap s, map encode_row (replace_snap (accept_snap s) ss))"
proof -
  have key: "eff_key (snap_effect s) = key" using find_snap_Some [OF s] by (simp add: snap_key_def)
  note wf = rep_wf [OF rep s]
  have small: "snap_revision s \<in> {0, 1, 2}"
    using wf st by (auto simp: snapshot_wf_def shape_cases)
  have "sql_update (row_cas key (uint (key_predecessor_revision key))
        (effect_state_str (snap_state s)) (uint (snap_attempt_count s)) (uint (snap_revision s)))
      (\<lambda>r. r\<lparr>er_state := ''accepted'', er_revision := uint (snap_revision s) + 1\<rparr>) t =
      Ok (1, map encode_row (replace_snap (accept_snap s) ss))"
    using find_snap_Some [OF s] snapshot_wf_updates(3) [OF wf st] small_revision(4) [OF small]
    by (intro cas_rep [OF rep s, THEN conjunct1])
      (simp_all add: encode_updates)
  then show ?thesis
    by (simp add: advance_to_accepted_def key rep_bound(1) [OF rep s] accept_snap_def
        small_revision [OF small])
qed

lemma submission_rep:
  assumes rep: "journal_rep sha256 t ss" and s: "find_snap ss key = Some s"
    and st: "snap_state s = Eff_Started" and x: "x \<in> {Eff_Accepted, Eff_Rejected, Eff_Unknown}"
  shows "submission_write key x s t =
    Ok (result_snap x s, map encode_row (replace_snap (result_snap x s) ss), False)"
proof -
  note wf = rep_wf [OF rep s]
  have "sql_update (row_cas key (uint (key_predecessor_revision key)) ''started'' 1 1)
      (\<lambda>r. r\<lparr>er_state := effect_state_str x, er_revision := 2\<rparr>) t =
      Ok (1, map encode_row (replace_snap (result_snap x s) ss))"
    using find_snap_Some [OF s] wf_started [OF wf st] st snapshot_wf_updates(4) [OF wf st x]
    by (intro cas_rep [OF rep s, THEN conjunct1])
      (simp_all add: encode_updates)
  then show ?thesis
    by (simp add: submission_write_def st rep_bound(1) [OF rep s] result_snap_def)
qed

definition observe_snap ::
    "public_effect_observation \<Rightarrow> public_effect_snapshot
     \<Rightarrow> store_error + (public_effect_snapshot \<times> bool)" where
  "observe_snap obs s =
     (let fresh = (snap_state s = Eff_Prepared);
          start = (if fresh then Ok (start_snap s, True) else Ok (s, False));
          purpose = key_operation (snap_key s)
      in case obs of
        PresentExact bs \<Rightarrow>
          if bs \<noteq> exact_public_bytes (snap_effect s) \<or> snap_state s = Eff_Rejected
          then Err PublicEffectConflict
          else Ok (if snap_state s = Eff_Accepted then s else accept_snap s, False)
      | ExactIdempotentLezClaimSubmissionSafe i bs \<Rightarrow>
          if key_chain (snap_key s) \<noteq> Eff_Lez \<or> purpose \<noteq> Op_Claim then Err InvalidPublicEffect
          else if (i, bs) \<noteq> (expected_effect_id (snap_effect s), exact_public_bytes (snap_effect s))
          then Err PublicEffectConflict
          else start
      | EligibleToAttempt \<Rightarrow> if purpose = Op_Refund then start else Err InvalidPublicEffect
      | Absent \<Rightarrow> if purpose = Op_Refund then Err InvalidPublicEffect else start
      | Uncertain \<Rightarrow> Ok (s, False)
      | ConflictingPresence \<Rightarrow>
          if snap_state s \<in> {Eff_Accepted, Eff_Rejected} then Err PublicEffectConflict
          else Ok (if fresh then burn_snap s else s, False))"

definition submit_snap ::
    "public_effect_submission_result \<Rightarrow> public_effect_snapshot
     \<Rightarrow> store_error + (public_effect_snapshot \<times> bool)" where
  "submit_snap res s =
     (if (\<exists>i. res = Sub_Accepted i \<and> i \<noteq> expected_effect_id (snap_effect s))
      then Err PublicEffectConflict
      else if snap_state s = Eff_Started then Ok (result_snap (submission_state res) s, False)
      else if snap_state s = submission_state res \<and> snap_attempt_count s = 1 \<and> snap_revision s = 2
      then Ok (s, True)
      else Err PublicEffectConflict)"

inductive snap_trans :: "public_effect_snapshot \<Rightarrow> public_effect_snapshot \<Rightarrow> bool" where
  start: "snap_state s = Eff_Prepared \<Longrightarrow> snap_trans s (start_snap s)"
| burn: "snap_state s = Eff_Prepared \<Longrightarrow> snap_trans s (burn_snap s)"
| accept: "snap_state s \<in> {Eff_Prepared, Eff_Started, Eff_Unknown} \<Longrightarrow> snap_trans s (accept_snap s)"
| result: "snap_state s = Eff_Started \<Longrightarrow> x \<in> {Eff_Accepted, Eff_Rejected, Eff_Unknown} \<Longrightarrow>
    snap_trans s (result_snap x s)"

lemma snap_trans_wf: "snap_trans s s' \<Longrightarrow> snapshot_wf sha256 s \<Longrightarrow> snapshot_wf sha256 s'"
  by (induction rule: snap_trans.induct) (auto intro: snapshot_wf_updates)

lemma snap_trans_same:
  "snap_trans s s' \<Longrightarrow> snap_effect s' = snap_effect s \<and> snap_key s' = snap_key s \<and>
     snap_public_id s' = snap_public_id s \<and> snap_state s' \<noteq> Eff_Prepared"
  by (induction rule: snap_trans.induct) (auto simp: snap_update_defs snap_key_def snap_public_id_def)

lemma observe_snap_trans:
  "observe_snap obs s = Ok (s', b) \<Longrightarrow> s' = s \<and> \<not> b \<or> snap_trans s s'"
  by (cases "snap_state s"; cases obs)
    (auto simp: observe_snap_def Let_def split: if_splits intro: snap_trans.intros)

lemma observe_snap_submit:
  "observe_snap obs s = Ok (s', True) \<Longrightarrow> snap_state s = Eff_Prepared \<and> s' = start_snap s \<and>
     (obs = Absent \<and> key_operation (snap_key s) \<noteq> Op_Refund \<or>
      obs = EligibleToAttempt \<and> key_operation (snap_key s) = Op_Refund \<or>
      obs = ExactIdempotentLezClaimSubmissionSafe (expected_effect_id (snap_effect s))
        (exact_public_bytes (snap_effect s)) \<and>
      key_chain (snap_key s) = Eff_Lez \<and> key_operation (snap_key s) = Op_Claim)"
  by (cases obs) (auto simp: observe_snap_def Let_def split: if_splits)

lemma submit_snap_trans:
  "submit_snap res s = Ok (s', b) \<Longrightarrow> s' = s \<or> snap_trans s s'"
  by (cases res) (auto simp: submit_snap_def split: if_splits intro: snap_trans.intros)

lemma replace_rep:
  assumes rep: "journal_rep sha256 t ss" and s: "find_snap ss key = Some s"
    and tr: "s' = s \<or> snap_trans s s'"
  shows "journal_rep sha256 (map encode_row (replace_snap s' ss)) (replace_snap s' ss)"
    and "load_snapshot sha256 (map encode_row (replace_snap s' ss)) key = Ok (Some s')"
proof -
  have same: "snap_key s' = key" "snap_public_id s' = snap_public_id s"
    using tr find_snap_Some [OF s] snap_trans_same by auto
  have wf: "snapshot_wf sha256 s'"
    using tr rep_wf [OF rep s] snap_trans_wf by blast
  show rep': "journal_rep sha256 (map encode_row (replace_snap s' ss)) (replace_snap s' ss)"
    using cas_rep [OF rep s same wf, of "\<lambda>_. encode_row s'"] by simp
  show "load_snapshot sha256 (map encode_row (replace_snap s' ss)) key = Ok (Some s')"
    unfolding load_rep [OF rep' rep_bound(2) [OF rep s]]
    using find_replace_same [of ss s'] same s by simp
qed

lemma reconcile_match_rep:
  assumes rep: "journal_rep sha256 t ss" and s: "find_snap ss key = Some s"
  shows "reconcile_match key obs s t =
    (case observe_snap obs s of Inl e \<Rightarrow> Err e
     | Inr (s', b) \<Rightarrow> Ok (s', map encode_row (replace_snap s' ss), b))"
proof -
  have key: "snap_key s = key" using find_snap_Some [OF s] by simp
  note same = replace_same(2) [OF rep s]
  show ?thesis
    using begin_once_rep [OF rep s] burn_rep [OF rep s] accept_rep [OF rep s] same
    by (cases "snap_state s"; cases obs)
      (auto simp: reconcile_match_def observe_snap_def begin_if_prepared_def Let_def key)
qed

lemma load_existing_rep:
  "journal_rep sha256 t ss \<Longrightarrow> load_existing sha256 t key =
     (if key_predecessor_revision key \<le> i64_max
      then case find_snap ss key of None \<Rightarrow> Err MissingPublicEffect | Some s \<Rightarrow> Ok s
      else Err InvalidPublicEffect)"
  by (simp add: load_existing_def load_rep load_rep_Err split: option.split)

lemma reconcile_body_rep:
  assumes rep: "journal_rep sha256 t ss"
  shows "reconcile_body sha256 key obs t =
    and_then (load_existing sha256 t key) (\<lambda>s.
    and_then (observe_snap obs s) (\<lambda>(s', b).
      Ok (if b then SubmitOnce s' else ObserveOnly s', map encode_row (replace_snap s' ss))))"
proof (cases "load_existing sha256 t key")
  case (Inl e)
  then show ?thesis by (simp add: reconcile_body_def)
next
  case (Inr s)
  then have s: "find_snap ss key = Some s"
    by (auto simp: load_existing_rep [OF rep] split: if_splits option.splits)
  show ?thesis
  proof (cases "observe_snap obs s")
    case (Inl e)
    with Inr show ?thesis
      by (simp add: reconcile_body_def reconcile_match_rep [OF rep s])
  next
    case (Inr r)
    obtain s' b where r: "observe_snap obs s = Ok (s', b)" using Inr by (cases r) auto
    have "s' = s \<or> snap_trans s s'" using observe_snap_trans [OF r] by auto
    from replace_rep(2) [OF rep s this] r show ?thesis
      using \<open>load_existing sha256 t key = Inr s\<close>
      by (simp add: reconcile_body_def reconcile_match_rep [OF rep s] check_postcondition_def)
  qed
qed

lemma submission_body_rep:
  assumes rep: "journal_rep sha256 t ss"
  shows "record_submission_result_body sha256 key res t =
    and_then (load_existing sha256 t key) (\<lambda>s.
    and_then (submit_snap res s) (\<lambda>(s', b).
      Ok (\<lparr>commit_snapshot = s', commit_was_replay = b\<rparr>, map encode_row (replace_snap s' ss))))"
proof (cases "load_existing sha256 t key")
  case (Inl e)
  then show ?thesis by (simp add: record_submission_result_body_def)
next
  case (Inr s)
  then have s: "find_snap ss key = Some s"
    by (auto simp: load_existing_rep [OF rep] split: if_splits option.splits)
  have wr: "submission_write key (submission_state res) s t =
      (if snap_state s = Eff_Started
       then Ok (result_snap (submission_state res) s,
         map encode_row (replace_snap (result_snap (submission_state res) s) ss), False)
       else if snap_state s = submission_state res \<and> snap_attempt_count s = 1 \<and> snap_revision s = 2
       then Ok (s, map encode_row (replace_snap s ss), True) else Err PublicEffectConflict)"
    using submission_rep [OF rep s, of "submission_state res"] replace_same(2) [OF rep s]
    by (cases res) (auto simp: submission_write_def)
  show ?thesis
  proof (cases "submit_snap res s")
    case (Inl e)
    with wr \<open>load_existing sha256 t key = Inr s\<close> show ?thesis
      by (cases res) (auto simp: record_submission_result_body_def submit_snap_def split: if_splits)
  next
    case (Inr r)
    obtain s' b where r: "submit_snap res s = Ok (s', b)" using Inr by (cases r) auto
    have "s' = s \<or> snap_trans s s'" using submit_snap_trans [OF r] by auto
    from replace_rep(2) [OF rep s this] r wr \<open>load_existing sha256 t key = Inr s\<close> show ?thesis
      by (cases res) (auto simp: record_submission_result_body_def submit_snap_def
          check_postcondition_def split: if_splits)
  qed
qed

definition fresh_snap :: "prepared_public_effect \<Rightarrow> public_effect_snapshot" where
  "fresh_snap e = \<lparr>snap_effect = e, snap_state = Eff_Prepared, snap_attempt_count = 0,
     snap_revision = 0\<rparr>"

lemma encode_fresh: "encode_row (fresh_snap e) =
   prepared_row e (uint (key_predecessor_revision (eff_key e)))"
  by (simp add: encode_row_def fresh_snap_def prepared_row_def snap_key_def)

lemma fresh_wf: "effect_wf sha256 e \<Longrightarrow> snapshot_wf sha256 (fresh_snap e)"
  by (simp add: snapshot_wf_def fresh_snap_def shape_cases)

lemma reused_rep:
  "journal_rep sha256 t ss \<Longrightarrow> reused_effect_id e t \<longleftrightarrow> snap_public_id (fresh_snap e) \<in> snap_public_id ` set ss"
  by (simp add: journal_rep_def reused_effect_id_def list_ex_iff snap_public_id_def fresh_snap_def
      encode_row_def prepared_row_def snap_key_def image_iff) metis

lemma append_rep:
  assumes rep: "journal_rep sha256 t ss" and wf: "effect_wf sha256 e"
    and key: "find_snap ss (eff_key e) = None" and fresh: "\<not> reused_effect_id e t"
  shows "journal_rep sha256 (t @ [encode_row (fresh_snap e)]) (ss @ [fresh_snap e])"
    and "find_snap (ss @ [fresh_snap e]) (eff_key e) = Some (fresh_snap e)"
    and "sql_insert (encode_row (fresh_snap e)) t = Ok (t @ [encode_row (fresh_snap e)])"
proof -
  have 1: "eff_key e \<notin> snap_key ` set ss"
    using key by (auto simp: find_snap_def find_None_iff)
  have k: "snap_key (fresh_snap e) = eff_key e" by (simp add: snap_key_def fresh_snap_def)
  have 2: "snap_public_id (fresh_snap e) \<notin> snap_public_id ` set ss"
    using fresh reused_rep [OF rep] by simp
  show "journal_rep sha256 (t @ [encode_row (fresh_snap e)]) (ss @ [fresh_snap e])"
    using rep 1 2 k fresh_wf [OF wf] by (simp add: journal_rep_def)
  show "find_snap (ss @ [fresh_snap e]) (eff_key e) = Some (fresh_snap e)"
    using key k unfolding find_snap_def by (induction ss) (auto split: if_splits)
  have "row_key (encode_row (fresh_snap e)) \<notin> row_key ` set t"
    using rep 1 k by (auto simp: journal_rep_def)
  moreover have "(er_chain (encode_row (fresh_snap e)), er_expected_effect_id (encode_row (fresh_snap e)))
      \<notin> (\<lambda>r. (er_chain r, er_expected_effect_id r)) ` set t"
    using fresh
    by (auto simp: reused_effect_id_def list_ex_iff encode_fresh prepared_row_def)
  ultimately show "sql_insert (encode_row (fresh_snap e)) t = Ok (t @ [encode_row (fresh_snap e)])"
    using row_checks_encode [OF fresh_wf [OF wf]] by (simp add: sql_insert_def)
qed

lemma record_body_rep:
  assumes rep: "journal_rep sha256 t ss" and wf: "effect_wf sha256 e"
  shows "record_prepared_body sha256 e t =
    (case find_snap ss (eff_key e) of
       Some s \<Rightarrow> if snap_effect s = e then Ok (\<lparr>commit_snapshot = s, commit_was_replay = True\<rparr>, t)
                 else Err PublicEffectConflict
     | None \<Rightarrow> if reused_effect_id e t then Err PublicEffectConflict
               else Ok (\<lparr>commit_snapshot = fresh_snap e, commit_was_replay = False\<rparr>,
                        t @ [encode_row (fresh_snap e)]))"
proof -
  have bound: "key_predecessor_revision (eff_key e) \<le> i64_max"
    using effect_wf_revision [OF wf] by (auto simp: revision_to_sql_def split: if_splits)
  show ?thesis
  proof (cases "find_snap ss (eff_key e)")
    case (Some s)
    then show ?thesis
      by (simp add: record_prepared_body_def load_rep [OF rep bound])
  next
    case None
    show ?thesis
    proof (cases "reused_effect_id e t")
      case True
      with None show ?thesis by (simp add: record_prepared_body_def load_rep [OF rep bound])
    next
      case False
      note app = append_rep [OF rep wf None False]
      have "load_snapshot sha256 (t @ [encode_row (fresh_snap e)]) (eff_key e) = Ok (Some (fresh_snap e))"
        using load_rep [OF app(1) bound] app(2) by simp
      with None False app(3) show ?thesis
        by (simp add: record_prepared_body_def load_rep [OF rep bound] effect_wf_revision [OF wf]
            encode_fresh [symmetric]) (simp add: fresh_snap_def)
    qed
  qed
qed

section \<open>Runs of the journal\<close>

datatype journal_call =
    CallRecordPrepared prepared_public_effect
  | CallReconcile public_effect_key public_effect_observation
  | CallRecordResult public_effect_key public_effect_submission_result

fun journal_step :: "(bytes \<Rightarrow> bytes) \<Rightarrow> effect_table \<Rightarrow> tx_io \<times> journal_call \<Rightarrow> effect_table" where
  "journal_step sha256 t (io, CallRecordPrepared e) = snd (record_prepared sha256 io e t)"
| "journal_step sha256 t (io, CallReconcile key obs) = snd (reconcile sha256 io key obs t)"
| "journal_step sha256 t (io, CallRecordResult key res) =
     snd (record_submission_result sha256 io key res t)"

definition journal_inv :: "(bytes \<Rightarrow> bytes) \<Rightarrow> effect_table \<Rightarrow> bool" where
  "journal_inv sha256 t \<longleftrightarrow> (\<exists>ss. journal_rep sha256 t ss)"

inductive journal_trans ::
    "public_effect_snapshot list \<Rightarrow> public_effect_snapshot list \<Rightarrow> bool" where
  keep: "journal_trans ss ss"
| advance: "find_snap ss (snap_key s) = Some s \<Longrightarrow> snap_trans s s' \<Longrightarrow> journal_trans ss (replace_snap s' ss)"
| append: "find_snap ss (eff_key e) = None \<Longrightarrow> journal_trans ss (ss @ [fresh_snap e])"

text \<open>The submission a call authorizes.\<close>

fun submission_of ::
    "(bytes \<Rightarrow> bytes) \<Rightarrow> effect_table \<Rightarrow> tx_io \<times> journal_call \<Rightarrow> public_effect_snapshot option" where
  "submission_of sha256 t (io, CallReconcile key obs) =
     (case fst (reconcile sha256 io key obs t) of Inr (SubmitOnce s) \<Rightarrow> Some s | _ \<Rightarrow> None)"
| "submission_of sha256 t (io, _) = None"

lemma load_existing_Ok:
  assumes "journal_rep sha256 t ss" "load_existing sha256 t key = Ok s"
  shows "find_snap ss key = Some s" "find_snap ss (snap_key s) = Some s" "snap_key s = key"
proof -
  show 1: "find_snap ss key = Some s"
    using assms by (auto simp: load_existing_rep split: if_splits option.splits)
  from find_snap_Some [OF 1] 1 show "find_snap ss (snap_key s) = Some s" "snap_key s = key"
    by auto
qed

definition advances :: "(bytes \<Rightarrow> bytes) \<Rightarrow> public_effect_snapshot list \<Rightarrow> effect_table \<Rightarrow> bool" where
  "advances sha256 ss t' \<longleftrightarrow> (\<exists>ss'. journal_rep sha256 t' ss' \<and> journal_trans ss ss')"

lemma advances_keep: "journal_rep sha256 t ss \<Longrightarrow> advances sha256 ss t"
  unfolding advances_def using journal_trans.keep by blast

lemma advances_replace:
  assumes rep: "journal_rep sha256 t ss" and s: "find_snap ss key = Some s"
    and tr: "s' = s \<or> snap_trans s s'"
  shows "advances sha256 ss (map encode_row (replace_snap s' ss))"
proof -
  have "journal_trans ss (replace_snap s' ss)"
    using tr
  proof
    assume "s' = s"
    then show ?thesis using replace_same(1) [OF rep s] journal_trans.keep by simp
  next
    assume "snap_trans s s'"
    then show ?thesis using find_snap_Some [OF s] s by (intro journal_trans.advance) simp_all
  qed
  with replace_rep(1) [OF rep s tr] show ?thesis unfolding advances_def by blast
qed

lemmas advances_moves = advances_replace [OF _ _ disjI1 [OF refl]] advances_replace [OF _ _ disjI2]

lemma untyped_insert:
  assumes "validate_prepared sha256 e = Ok ()" and "\<not> effect_wf sha256 e"
  shows "sql_insert (prepared_row e p) t = Err Sqlite"
proof -
  from assms have "length (agreement_commitment e) \<noteq> 32 \<or> length (public_bytes_sha256 e) \<noteq> 32"
    by (simp add: effect_wf_def)
  then show ?thesis
    by (auto simp: sql_insert_def row_checks_def prepared_row_def)
qed

lemma record_body_advances:
  assumes rep: "journal_rep sha256 t ss" and valid: "validate_prepared sha256 e = Ok ()"
    and body: "record_prepared_body sha256 e t = Ok (v, t')"
  shows "advances sha256 ss t'"
proof (cases "effect_wf sha256 e")
  case True
  from body have "t' = t \<or> (find_snap ss (eff_key e) = None \<and> \<not> reused_effect_id e t \<and>
      t' = t @ [encode_row (fresh_snap e)])"
    unfolding record_body_rep [OF rep True] by (auto split: option.splits if_splits)
  with append_rep(1) [OF rep True] journal_trans.append [of ss e] advances_keep [OF rep] show ?thesis
    by (auto simp: advances_def)
next
  case False
  with valid have "sql_insert (prepared_row e p) t = Err Sqlite" for p
    by (rule untyped_insert)
  with body have "t' = t"
    by (auto simp: record_prepared_body_def and_then_Inr split: option.splits if_splits)
  with advances_keep [OF rep] show ?thesis by simp
qed

lemma in_transaction_advances:
  assumes rep: "journal_rep sha256 t ss" and "\<And>v t'. body t = Ok (v, t') \<Longrightarrow> advances sha256 ss t'"
  shows "advances sha256 ss (snd (in_transaction io body t))"
  by (rule transact_inv) (use assms advances_keep in auto)

lemma reconcile_advances:
  assumes rep: "journal_rep sha256 t ss"
  shows "advances sha256 ss (snd (reconcile sha256 io key obs t))"
  unfolding reconcile_def
  by (rule in_transaction_advances [OF rep])
    (auto simp: reconcile_body_rep [OF rep] and_then_Inr dest!: load_existing_Ok(1) [OF rep]
      observe_snap_trans intro: advances_moves [OF rep])

lemma submission_result_advances:
  assumes rep: "journal_rep sha256 t ss"
  shows "advances sha256 ss (snd (record_submission_result sha256 io key res t))"
  unfolding record_submission_result_def
  by (rule in_transaction_advances [OF rep])
    (auto simp: submission_body_rep [OF rep] and_then_Inr dest!: load_existing_Ok(1) [OF rep]
      submit_snap_trans intro: advances_moves [OF rep])

lemma record_prepared_advances:
  assumes rep: "journal_rep sha256 t ss"
  shows "advances sha256 ss (snd (record_prepared sha256 io e t))"
  using in_transaction_advances [OF rep, of "record_prepared_body sha256 e" io]
    record_body_advances [OF rep, of e] advances_keep [OF rep]
  by (auto simp: record_prepared_def split: sum.split)

lemma journal_step_rep:
  assumes "journal_rep sha256 t ss"
  obtains ss' where "journal_rep sha256 (journal_step sha256 t c) ss'" "journal_trans ss ss'"
proof -
  obtain io call where c: "c = (io, call)" by (cases c) auto
  have "advances sha256 ss (journal_step sha256 t c)"
    unfolding c using assms by (cases call)
      (simp_all add: reconcile_advances submission_result_advances record_prepared_advances)
  with that show ?thesis unfolding advances_def by blast
qed

lemma submission_rep_start:
  assumes rep: "journal_rep sha256 t ss" and sub: "submission_of sha256 t c = Some s'"
  obtains s io obs where "c = (io, CallReconcile (snap_key s) obs)" "find_snap ss (snap_key s) = Some s"
    "snap_state s = Eff_Prepared" "observe_snap obs s = Ok (s', True)" "s' = start_snap s"
    "journal_step sha256 t c = map encode_row (replace_snap s' ss)"
proof -
  from sub obtain io key obs where c: "c = (io, CallReconcile key obs)"
    and r: "fst (reconcile sha256 io key obs t) = Ok (SubmitOnce s')"
    by (cases "(sha256, t, c)" rule: submission_of.cases)
      (auto split: sum.splits public_effect_decision.splits)
  show ?thesis
  proof (cases rule: transact_cases [of Sqlite io "reconcile_body sha256 key obs" t])
    case 1
    with r show ?thesis by (simp add: reconcile_def)
  next
    case (2 v t')
    with r have v: "v = SubmitOnce s'" by (simp add: reconcile_def)
    with 2(1) obtain s where s: "load_existing sha256 t key = Ok s" "observe_snap obs s = Ok (s', True)"
      "t' = map encode_row (replace_snap s' ss)"
      by (auto simp: reconcile_body_rep [OF rep] and_then_Inr split: if_splits)
    show ?thesis
      using s 2 c load_existing_Ok [OF rep s(1)] observe_snap_submit [OF s(2)]
      by (intro that [of io s obs]) (auto simp: reconcile_def)
  qed
qed


section \<open>One submission per effect\<close>

text \<open>
  A slot is a tuple of columns that the updates never change and the constraints keep
  unique: the primary key, and the chain with the expected identifier. Each of them is
  submitted at most once.
\<close>

definition row_public_id :: "effect_row \<Rightarrow> string \<times> string" where
  "row_public_id r = (er_chain r, er_expected_effect_id r)"

definition slot_submits ::
    "(effect_row \<Rightarrow> 'k) \<Rightarrow> (bytes \<Rightarrow> bytes) \<Rightarrow> 'k \<Rightarrow> effect_table \<Rightarrow> tx_io \<times> journal_call \<Rightarrow> bool" where
  "slot_submits slot sha256 x t c \<longleftrightarrow>
     (case submission_of sha256 t c of None \<Rightarrow> False | Some s \<Rightarrow> slot (encode_row s) = x)"

definition slot_armed :: "(effect_row \<Rightarrow> 'k) \<Rightarrow> 'k \<Rightarrow> effect_table \<Rightarrow> bool" where
  "slot_armed slot x t \<longleftrightarrow> list_all (\<lambda>r. slot r = x \<longrightarrow> er_state r = ''prepared'') t"

lemma encode_state [simp]: "er_state (encode_row s) = effect_state_str (snap_state s)"
  by (simp add: encode_row_def)

lemma state_str_prepared [simp]: "effect_state_str st = ''prepared'' \<longleftrightarrow> st = Eff_Prepared"
  by (cases st) simp_all

locale row_slot =
  fixes slot :: "effect_row \<Rightarrow> 'k"
  assumes slot_effect: "snap_effect s = snap_effect s' \<Longrightarrow> slot (encode_row s) = slot (encode_row s')"
    and slot_distinct: "journal_rep sha256 t ss \<Longrightarrow> distinct (map slot t)"
begin

lemma armed_iff:
  "journal_rep sha256 t ss \<Longrightarrow> slot_armed slot x t \<longleftrightarrow>
     (\<forall>s \<in> set ss. slot (encode_row s) = x \<longrightarrow> snap_state s = Eff_Prepared)"
  by (auto simp: slot_armed_def journal_rep_def list_all_iff)

lemma slot_unique:
  assumes "journal_rep sha256 t ss" "s \<in> set ss" "s' \<in> set ss"
    "slot (encode_row s) = slot (encode_row s')"
  shows "s = s'"
proof -
  from assms(1) slot_distinct [OF assms(1)] have "distinct (map (slot \<circ> encode_row) ss)"
    by (simp add: journal_rep_def)
  with assms(2-4) show ?thesis by (auto simp: distinct_map inj_on_def)
qed

lemma trans_disarmed:
  assumes "journal_trans ss ss'" "journal_rep sha256 t ss"
    and "s \<in> set ss" "slot (encode_row s) = x" "snap_state s \<noteq> Eff_Prepared"
  shows "\<exists>s' \<in> set ss'. slot (encode_row s') = x \<and> snap_state s' \<noteq> Eff_Prepared"
  using assms(1)
proof (cases rule: journal_trans.cases)
  case (advance s0 s1)
  note tr = snap_trans_same [OF advance(3)]
  show ?thesis
  proof (cases "snap_key s = snap_key s1")
    case True
    with tr assms(2,3) advance(2) have "s = s0"
      by (intro find_snap_unique [of ss "snap_key s0"]) (auto simp: journal_rep_def)
    moreover from True advance assms(3) have "s1 \<in> set ss'" by (auto simp: replace_snap_def)
    ultimately show ?thesis
      using tr assms(4) slot_effect [of s1 s0] by (intro bexI [of _ s1]) auto
  next
    case False
    with advance assms show ?thesis by (auto simp: replace_snap_def intro!: bexI [of _ s])
  qed
qed (use assms in auto)

end

sublocale row_slot \<subseteq> once: once_only "journal_step sha256" "journal_inv sha256"
    "slot_submits slot sha256 x" "slot_armed slot x" for sha256 x
proof
  fix t c
  assume "journal_inv sha256 t"
  then obtain ss where rep: "journal_rep sha256 t ss" by (auto simp: journal_inv_def)
  obtain ss' where rep': "journal_rep sha256 (journal_step sha256 t c) ss'" and tr: "journal_trans ss ss'"
    using journal_step_rep [OF rep] .
  show "journal_inv sha256 (journal_step sha256 t c)"
    using rep' by (auto simp: journal_inv_def)
  show "\<not> slot_armed slot x (journal_step sha256 t c)" if "\<not> slot_armed slot x t"
    using that trans_disarmed [OF tr rep] unfolding armed_iff [OF rep] armed_iff [OF rep'] by blast
  assume "slot_submits slot sha256 x t c"
  then obtain s' where sub: "submission_of sha256 t c = Some s'" and x: "slot (encode_row s') = x"
    by (auto simp: slot_submits_def split: option.splits)
  from submission_rep_start [OF rep sub] obtain s where
    s: "find_snap ss (snap_key s) = Some s" "snap_state s = Eff_Prepared" and s': "s' = start_snap s"
    and step: "journal_step sha256 t c = map encode_row (replace_snap s' ss)"
    by blast
  have xs: "slot (encode_row s) = x"
    using x slot_effect [of s s'] by (simp add: s' start_snap_def)
  show "slot_armed slot x t"
    unfolding armed_iff [OF rep] using slot_unique [OF rep] s find_snap_Some [OF s(1)] xs by blast
  have "journal_rep sha256 (journal_step sha256 t c) (replace_snap s' ss)"
    unfolding step using s s' by (intro replace_rep(1) [OF rep s(1)]) (auto intro: snap_trans.intros)
  moreover have "s' \<in> set (replace_snap s' ss)"
    using find_snap_Some [OF s(1)] s' by (auto simp: replace_snap_def)
  ultimately show "\<not> slot_armed slot x (journal_step sha256 t c)"
    using x by (subst armed_iff) (auto simp: s' start_snap_def)
qed

interpretation key_slot: row_slot row_key
proof
  show "row_key (encode_row s) = row_key (encode_row s')" if "snap_effect s = snap_effect s'" for s s'
    using that by (simp add: snap_key_def)
  show "distinct (map row_key t)" if "journal_rep sha256 t ss" for sha256 t ss
    using that by (auto simp: journal_rep_def distinct_map inj_on_def)
qed

interpretation public_id_slot: row_slot row_public_id
proof
  show "row_public_id (encode_row s) = row_public_id (encode_row s')"
    if "snap_effect s = snap_effect s'" for s s'
    using that by (simp add: row_public_id_def encode_row_def prepared_row_def)
  show "distinct (map row_public_id t)" if "journal_rep sha256 t ss" for sha256 t ss
    using that by (auto simp: journal_rep_def distinct_map inj_on_def row_public_id_def encode_row_def
        prepared_row_def snap_public_id_def snap_key_def)
qed

end
