(* ===== verification/Journal_Properties.thy ===== *)
theory Journal_Properties
  imports Journal_Refinement
begin

text \<open>
  What the public-effect journal guarantees over every sequence of calls from an empty
  table, whatever SQLite answers to the transactions: one submission per effect, the
  gate of each submission, burned authority, immutability of recorded effects, and that
  no call ever reports a corrupt row.
\<close>

section \<open>Facts about reachable journals\<close>

abbreviation journal_run ::
    "(bytes \<Rightarrow> bytes) \<Rightarrow> (tx_io \<times> journal_call) list \<Rightarrow> effect_table" where
  "journal_run sha256 \<equiv> run (journal_step sha256) []"

lemma journal_inv_run: "journal_inv sha256 (journal_run sha256 cs)"
  by (rule key_slot.once.run_inv) (auto simp: journal_inv_def journal_rep_def)

lemma journal_run_rep: obtains ss where "journal_rep sha256 (journal_run sha256 cs) ss"
  using journal_inv_run [of sha256 cs] by (auto simp: journal_inv_def)

lemma load_snapshot_Some:
  assumes "journal_rep sha256 t ss"
  shows "load_snapshot sha256 t key = Ok (Some s) \<longleftrightarrow> find_snap ss key = Some s"
  using assms load_rep [OF assms, of key] load_rep_Err [of key sha256 t] rep_bound(2) [OF assms, of key s]
  by (cases "key_predecessor_revision key \<le> i64_max") auto

lemma trans_keeps_effect:
  assumes "journal_trans ss ss'" "find_snap ss key = Some s"
  shows "\<exists>s'. find_snap ss' key = Some s' \<and> snap_effect s' = snap_effect s"
  using assms(1)
proof (cases rule: journal_trans.cases)
  case (advance s0 s1)
  note tr = snap_trans_same [OF advance(3)]
  show ?thesis
  proof (cases "key = snap_key s1")
    case True
    with advance tr assms(2) find_replace_same [of ss s1] show ?thesis by auto
  next
    case False
    with advance assms(2) find_replace_other [of key s1 ss] show ?thesis by simp
  qed
next
  case (append e)
  have "find_snap (ss @ [fresh_snap e]) key = Some s"
    using assms(2) unfolding find_snap_def by (induction ss) (auto split: if_splits)
  with append show ?thesis by simp
qed (use assms in simp)

definition holds_effect ::
    "(bytes \<Rightarrow> bytes) \<Rightarrow> public_effect_key \<Rightarrow> prepared_public_effect \<Rightarrow> effect_table \<Rightarrow> bool" where
  "holds_effect sha256 key e t \<longleftrightarrow> journal_inv sha256 t \<and>
     (\<exists>s. load_snapshot sha256 t key = Ok (Some s) \<and> snap_effect s = e)"

interpretation journal_effect: step_system "journal_step sha256" "holds_effect sha256 key e"
  for sha256 key e
proof
  fix t c
  assume "holds_effect sha256 key e t"
  then obtain ss s where rep: "journal_rep sha256 t ss" and s: "find_snap ss key = Some s" "snap_effect s = e"
    by (auto simp: holds_effect_def journal_inv_def load_snapshot_Some)
  obtain ss' where rep': "journal_rep sha256 (journal_step sha256 t c) ss'" and "journal_trans ss ss'"
    using journal_step_rep [OF rep] .
  with trans_keeps_effect [OF _ s(1)] s(2) show "holds_effect sha256 key e (journal_step sha256 t c)"
    by (auto simp: holds_effect_def journal_inv_def load_snapshot_Some [OF rep'])
qed

lemma observe_snap_errors: "observe_snap obs s = Err x \<Longrightarrow> x \<in> {InvalidPublicEffect, PublicEffectConflict}"
  by (cases obs) (auto simp: observe_snap_def Let_def split: if_splits)

lemma submit_snap_errors: "submit_snap res s = Err x \<Longrightarrow> x = PublicEffectConflict"
  by (auto simp: submit_snap_def split: if_splits)

lemma load_existing_errors:
  "journal_rep sha256 t ss \<Longrightarrow> load_existing sha256 t key = Err x \<Longrightarrow>
     x \<in> {InvalidPublicEffect, MissingPublicEffect}"
  by (auto simp: load_existing_rep split: if_splits option.splits)

text \<open>The error a call returns, if any.\<close>

fun journal_error :: "(bytes \<Rightarrow> bytes) \<Rightarrow> effect_table \<Rightarrow> tx_io \<times> journal_call \<Rightarrow> store_error option" where
  "journal_error sha256 t (io, CallRecordPrepared e) =
     (case fst (record_prepared sha256 io e t) of Inl x \<Rightarrow> Some x | Inr _ \<Rightarrow> None)"
| "journal_error sha256 t (io, CallReconcile key obs) =
     (case fst (reconcile sha256 io key obs t) of Inl x \<Rightarrow> Some x | Inr _ \<Rightarrow> None)"
| "journal_error sha256 t (io, CallRecordResult key res) =
     (case fst (record_submission_result sha256 io key res t) of Inl x \<Rightarrow> Some x | Inr _ \<Rightarrow> None)"

lemma reconcile_errors:
  assumes rep: "journal_rep sha256 t ss" and "fst (reconcile sha256 io key obs t) = Err x"
  shows "x \<noteq> CorruptPublicEffectState"
  using transact_Err [OF assms(2) [unfolded reconcile_def]]
  by (auto simp: reconcile_body_rep [OF rep] and_then_Inl dest: load_existing_errors [OF rep]
      observe_snap_errors)

lemma submission_errors:
  assumes rep: "journal_rep sha256 t ss" and "fst (record_submission_result sha256 io key res t) = Err x"
  shows "x \<noteq> CorruptPublicEffectState"
  using transact_Err [OF assms(2) [unfolded record_submission_result_def]]
  by (auto simp: submission_body_rep [OF rep] and_then_Inl dest: load_existing_errors [OF rep]
      submit_snap_errors)

lemma record_errors:
  assumes rep: "journal_rep sha256 t ss" and err: "fst (record_prepared sha256 io e t) = Err x"
  shows "x \<noteq> CorruptPublicEffectState"
proof (cases "validate_prepared sha256 e")
  case (Inl y)
  with err show ?thesis
    by (auto simp: record_prepared_def validate_prepared_def and_then_Inl prepared_public_effect_new_def
        split: if_splits)
next
  case (Inr u)
  with err have "x = Sqlite \<or> record_prepared_body sha256 e t = Err x"
    by (intro transact_Err) (simp add: record_prepared_def)
  moreover have "x \<noteq> CorruptPublicEffectState" if body: "record_prepared_body sha256 e t = Err x"
  proof (cases "effect_wf sha256 e")
    case True
    with body show ?thesis
      by (auto simp: record_body_rep [OF rep] split: option.splits if_splits)
  next
    case False
    with Inr have "sql_insert (prepared_row e p) t = Err Sqlite" for p
      by (auto intro: untyped_insert)
    with body show ?thesis
      using load_rep [OF rep] load_rep_Err
      by (cases "key_predecessor_revision (eff_key e) \<le> i64_max")
        (auto simp: record_prepared_body_def revision_to_sql_def split: option.splits if_splits)
  qed
  ultimately show ?thesis by auto
qed

section \<open>A concrete effect\<close>

definition demo_sha256 :: "bytes \<Rightarrow> bytes" where
  "demo_sha256 bs = replicate 32 (word_of_nat (length bs))"

definition demo_key :: "public_effect_operation \<Rightarrow> public_effect_key" where
  "demo_key purpose = \<lparr>key_swap_id = SwapId ''swap-1'', key_local_role = Maker, key_chain = Eff_Lez,
     key_operation = purpose, key_predecessor_revision = 3\<rparr>"

definition demo_effect :: "public_effect_operation \<Rightarrow> prepared_public_effect" where
  "demo_effect purpose = \<lparr>eff_key = demo_key purpose, agreement_commitment = replicate 32 1,
     expected_effect_id = ''tx:1'', exact_public_bytes = [1, 2, 3],
     public_bytes_sha256 = demo_sha256 [1, 2, 3]\<rparr>"

abbreviation io_ok :: tx_io where
  "io_ok \<equiv> \<lparr>begin_ok = True, commit_ok = True\<rparr>"

lemma demo_effect_wf: "effect_wf demo_sha256 (demo_effect purpose)"
  by (simp add: effect_wf_def validate_prepared_def prepared_public_effect_new_def demo_effect_def
      demo_key_def demo_sha256_def ascii_defs i64_max_def word_less_nat_alt list_all_iff)

lemma record_fresh:
  assumes rep: "journal_rep sha256 t ss" and wf: "effect_wf sha256 e"
    and key: "find_snap ss (eff_key e) = None" and fresh: "\<not> reused_effect_id e t"
  shows "record_prepared sha256 io_ok e t =
      (Ok \<lparr>commit_snapshot = fresh_snap e, commit_was_replay = False\<rparr>, t @ [encode_row (fresh_snap e)])"
    and "load_snapshot sha256 (t @ [encode_row (fresh_snap e)]) (eff_key e) = Ok (Some (fresh_snap e))"
  using record_body_rep [OF rep wf] key fresh wf append_rep(1,2) [OF rep wf key fresh]
  by (simp_all add: record_prepared_def transact_def end_transaction_def effect_wf_def load_snapshot_Some
      del: append_assoc)

lemma empty_rep: "journal_rep sha256 [] []"
  by (simp add: journal_rep_def)

lemma demo_recorded:
  "journal_run demo_sha256 [(io_ok, CallRecordPrepared (demo_effect purpose))] =
     [encode_row (fresh_snap (demo_effect purpose))]"
  "load_snapshot demo_sha256 [encode_row (fresh_snap (demo_effect purpose))] (demo_key purpose) =
     Ok (Some (fresh_snap (demo_effect purpose)))"
  using record_fresh [OF empty_rep demo_effect_wf, of purpose]
  by (simp_all add: find_snap_def reused_effect_id_def demo_effect_def)

lemma demo_reconcile:
  "reconcile demo_sha256 io_ok (demo_key purpose) obs [encode_row (fresh_snap (demo_effect purpose))] =
     (case observe_snap obs (fresh_snap (demo_effect purpose)) of
        Inl x \<Rightarrow> (Err x, [encode_row (fresh_snap (demo_effect purpose))])
      | Inr (s', b) \<Rightarrow> (Ok (if b then SubmitOnce s' else ObserveOnly s'),
          map encode_row (replace_snap s' [fresh_snap (demo_effect purpose)])))"
proof -
  have rep: "journal_rep demo_sha256 [encode_row (fresh_snap (demo_effect purpose))]
      [fresh_snap (demo_effect purpose)]"
    by (simp add: journal_rep_def fresh_wf demo_effect_wf)
  show ?thesis
    by (simp add: reconcile_def transact_def end_transaction_def reconcile_body_rep [OF rep] load_existing_def
        demo_recorded(2) split: sum.split)
qed

lemma demo_key_simps [simp]:
  "snap_key (fresh_snap (demo_effect purpose)) = demo_key purpose"
  "key_operation (demo_key purpose) = purpose"
  "snap_state (fresh_snap e) = Eff_Prepared" "snap_effect (fresh_snap e) = e"
  by (simp_all add: snap_key_def fresh_snap_def demo_effect_def demo_key_def)

section \<open>Properties\<close>

text \<open>
  C3: Over every sequence of journal calls from an empty table, with any transaction
  beginning or committing or failing, SubmitOnce is returned at most once for each effect
  key and at most once for each chain and expected effect identifier.
\<close>

theorem effect_submitted_at_most_once:
  "grant_count (journal_step sha256) (slot_submits row_key sha256 k) [] cs \<le> 1 \<and>
   grant_count (journal_step sha256) (slot_submits row_public_id sha256 i) [] cs \<le> 1"
  using key_slot.once.grants_at_most_once [OF journal_inv_run [of sha256 "[]"]]
    public_id_slot.once.grants_at_most_once [OF journal_inv_run [of sha256 "[]"]]
  by simp

text \<open>
  When reconcile authorizes a submission, the stored row was Prepared with the same
  effect, the committed row is Started with one attempt, and the observation was the one the
  effect needs: refund eligibility for refunds, absence for other effects, or exact
  idempotent admission of the stored identifier and bytes for a LEZ claim.
\<close>

theorem submission_gate:
  assumes "submission_of sha256 (journal_run sha256 cs) (io, CallReconcile key obs) = Some s'"
  shows "\<exists>s. load_snapshot sha256 (journal_run sha256 cs) key = Ok (Some s) \<and>
      snap_state s = Eff_Prepared \<and> snap_effect s' = snap_effect s \<and>
      load_snapshot sha256 (journal_run sha256 (cs @ [(io, CallReconcile key obs)])) key = Ok (Some s') \<and>
      snap_state s' = Eff_Started \<and> snap_attempt_count s' = 1 \<and>
      (if key_operation key = Op_Refund then obs = EligibleToAttempt
       else obs = Absent \<or>
         key_chain key = Eff_Lez \<and> key_operation key = Op_Claim \<and>
         obs = ExactIdempotentLezClaimSubmissionSafe (expected_effect_id (snap_effect s))
           (exact_public_bytes (snap_effect s)))"
proof -
  obtain ss where rep: "journal_rep sha256 (journal_run sha256 cs) ss" by (rule journal_run_rep)
  from submission_rep_start [OF rep assms] obtain s where
    key: "key = snap_key s" and s: "find_snap ss (snap_key s) = Some s" "snap_state s = Eff_Prepared"
    and obs: "observe_snap obs s = Ok (s', True)" and s': "s' = start_snap s"
    and step: "journal_step sha256 (journal_run sha256 cs) (io, CallReconcile key obs) =
      map encode_row (replace_snap s' ss)"
    by auto
  have "snap_trans s s'" using s s' by (simp add: snap_trans.start)
  then have "load_snapshot sha256 (map encode_row (replace_snap s' ss)) (snap_key s) = Ok (Some s')"
    by (intro replace_rep(2) [OF rep s(1)]) simp
  with observe_snap_submit [OF obs] s step show ?thesis
    by (intro exI [of _ s]) (auto simp: key load_snapshot_Some [OF rep] start_snap_def)
qed

theorem submission_gate_witness:
  "load_snapshot demo_sha256 (journal_run demo_sha256
     [(io_ok, CallRecordPrepared (demo_effect Op_Refund)),
      (io_ok, CallReconcile (demo_key Op_Refund) EligibleToAttempt)]) (demo_key Op_Refund) =
   Ok (Some (start_snap (fresh_snap (demo_effect Op_Refund))))"
proof -
  have "submission_of demo_sha256 (journal_run demo_sha256
      [(io_ok, CallRecordPrepared (demo_effect Op_Refund))])
      (io_ok, CallReconcile (demo_key Op_Refund) EligibleToAttempt) =
      Some (start_snap (fresh_snap (demo_effect Op_Refund)))"
    by (simp only: demo_recorded submission_of.simps demo_reconcile)
      (simp add: observe_snap_def)
  from submission_gate [OF this] show ?thesis
    by (simp only: append.simps) blast
qed

text \<open>
  After conflicting presence is reconciled the decision is observe-only, a Prepared row
  becomes Unknown with its attempt spent, and no later sequence of calls ever authorizes a
  submission for that key.
\<close>

theorem conflicting_presence_burns_authority:
  assumes "load_snapshot sha256 (journal_run sha256 cs) key = Ok (Some s)"
    and "reconcile sha256 io key ConflictingPresence (journal_run sha256 cs) = (Ok d, t')"
  shows "d = ObserveOnly (if snap_state s = Eff_Prepared then burn_snap s else s) \<and>
    grant_count (journal_step sha256) (slot_submits row_key sha256 (row_key (encode_row s))) t' cs' = 0"
proof -
  obtain ss where rep: "journal_rep sha256 (journal_run sha256 cs) ss" by (rule journal_run_rep)
  have s: "find_snap ss key = Some s" using assms(1) by (simp add: load_snapshot_Some [OF rep])
  have key: "key = snap_key s" using find_snap_Some [OF s] by simp
  let ?s = "if snap_state s = Eff_Prepared then burn_snap s else s"
  have load: "load_existing sha256 (journal_run sha256 cs) key = Ok s"
    using assms(1) by (simp add: load_existing_def)
  from assms(2) have body: "reconcile_body sha256 key ConflictingPresence (journal_run sha256 cs) = Ok (d, t')"
    by (auto simp: reconcile_def transact_def end_transaction_def split: sum.splits if_splits)
  then have d: "d = ObserveOnly ?s" and t': "t' = map encode_row (replace_snap ?s ss)"
    and st: "snap_state s \<notin> {Eff_Accepted, Eff_Rejected}"
    by (auto simp: reconcile_body_rep [OF rep] load observe_snap_def Let_def split: if_splits)
  have tr: "?s = s \<or> snap_trans s ?s" by (auto intro: snap_trans.burn)
  have rep': "journal_rep sha256 t' (replace_snap ?s ss)"
    unfolding t' by (rule replace_rep(1) [OF rep s tr])
  have "?s \<in> set (replace_snap ?s ss)"
    using find_snap_Some [OF s] by (auto simp: replace_snap_def)
  moreover have "row_key (encode_row ?s) = row_key (encode_row s)" "snap_state ?s \<noteq> Eff_Prepared"
    by simp (simp add: burn_snap_def)
  ultimately have "\<not> slot_armed row_key (row_key (encode_row s)) t'"
    unfolding key_slot.armed_iff [OF rep'] by blast
  moreover have "journal_inv sha256 t'" using rep' by (auto simp: journal_inv_def)
  ultimately show ?thesis
    using d key_slot.once.disarmed_never_grants by blast
qed

theorem conflicting_presence_burns_authority_witness:
  "grant_count (journal_step demo_sha256)
     (slot_submits row_key demo_sha256 (row_key (encode_row (fresh_snap (demo_effect Op_Funding)))))
     [encode_row (burn_snap (fresh_snap (demo_effect Op_Funding)))]
     [(io_ok, CallReconcile (demo_key Op_Funding) Absent)] = 0"
proof -
  let ?s = "fresh_snap (demo_effect Op_Funding)"
  have 1: "load_snapshot demo_sha256 (journal_run demo_sha256
      [(io_ok, CallRecordPrepared (demo_effect Op_Funding))]) (demo_key Op_Funding) = Ok (Some ?s)"
    by (simp only: demo_recorded)
  have 2: "reconcile demo_sha256 io_ok (demo_key Op_Funding) ConflictingPresence
      (journal_run demo_sha256 [(io_ok, CallRecordPrepared (demo_effect Op_Funding))]) =
      (Ok (ObserveOnly (burn_snap ?s)), [encode_row (burn_snap ?s)])"
    by (simp only: demo_recorded demo_reconcile) (simp add: observe_snap_def replace_snap_def)
  from conflicting_presence_burns_authority [OF 1 2] show ?thesis by blast
qed

text \<open>
  C16: On a reachable journal, reconcile with a working database returns exactly what the
  abstract entry state machine returns for the stored snapshot, and the row it leaves
  decodes to the snapshot that machine computes; the compare-and-swap updates and the
  postcondition reload never interfere.
\<close>

theorem reconcile_refines_entry:
  assumes "load_snapshot sha256 (journal_run sha256 cs) key = Ok (Some s)"
  shows "fst (reconcile sha256 io_ok key obs (journal_run sha256 cs)) =
      and_then (observe_snap obs s) (\<lambda>(s', b). Ok (if b then SubmitOnce s' else ObserveOnly s')) \<and>
    load_snapshot sha256 (snd (reconcile sha256 io_ok key obs (journal_run sha256 cs))) key =
      Ok (Some (case observe_snap obs s of Inl _ \<Rightarrow> s | Inr (s', _) \<Rightarrow> s'))"
proof -
  obtain ss where rep: "journal_rep sha256 (journal_run sha256 cs) ss" by (rule journal_run_rep)
  have s: "find_snap ss key = Some s" using assms(1) by (simp add: load_snapshot_Some [OF rep])
  have load: "load_existing sha256 (journal_run sha256 cs) key = Ok s"
    using assms(1) by (simp add: load_existing_def)
  show ?thesis
  proof (cases "observe_snap obs s")
    case (Inl x)
    then show ?thesis
      using assms by (simp add: reconcile_def transact_def end_transaction_def reconcile_body_rep [OF rep] load)
  next
    case (Inr r)
    then obtain s' b where r: "observe_snap obs s = Ok (s', b)" by (cases r) auto
    have "s' = s \<or> snap_trans s s'" using observe_snap_trans [OF r] by auto
    from replace_rep(2) [OF rep s this] r show ?thesis
      by (simp add: reconcile_def transact_def end_transaction_def reconcile_body_rep [OF rep] load)
  qed
qed

theorem reconcile_refines_entry_witness:
  "fst (reconcile demo_sha256 io_ok (demo_key Op_Claim) Absent (journal_run demo_sha256
      [(io_ok, CallRecordPrepared (demo_effect Op_Claim))])) =
   Ok (SubmitOnce (start_snap (fresh_snap (demo_effect Op_Claim))))"
proof -
  have "load_snapshot demo_sha256 (journal_run demo_sha256
      [(io_ok, CallRecordPrepared (demo_effect Op_Claim))]) (demo_key Op_Claim) =
      Ok (Some (fresh_snap (demo_effect Op_Claim)))"
    by (simp only: demo_recorded)
  from reconcile_refines_entry [OF this, THEN conjunct1, of Absent] show ?thesis
    by (simp add: observe_snap_def)
qed

text \<open>
  No call on a reachable journal ever returns the corrupt-state error: every row the
  journal writes decodes and validates again.
\<close>

theorem journal_never_corrupt:
  "journal_error sha256 (journal_run sha256 cs) c \<noteq> Some CorruptPublicEffectState"
proof -
  obtain ss where rep: "journal_rep sha256 (journal_run sha256 cs) ss" by (rule journal_run_rep)
  obtain io call where "c = (io, call)" by (cases c) auto
  then show ?thesis
    using reconcile_errors [OF rep] submission_errors [OF rep] record_errors [OF rep]
    by (cases call) (auto split: sum.splits)
qed

text \<open>
  A recorded effect is never changed or deleted by later journal calls: its agreement
  commitment, identifier, exact bytes and digest are the same after every run.
\<close>

theorem recorded_effect_immutable:
  assumes "load_snapshot sha256 (journal_run sha256 cs) key = Ok (Some s)"
  shows "\<exists>s'. load_snapshot sha256 (journal_run sha256 (cs @ cs')) key = Ok (Some s') \<and>
    snap_effect s' = snap_effect s"
  using journal_effect.run_inv [of sha256 key "snap_effect s" "journal_run sha256 cs" cs'] assms
  by (auto simp: holds_effect_def journal_inv_run)

theorem recorded_effect_immutable_witness:
  "\<exists>s'. load_snapshot demo_sha256 (journal_run demo_sha256
       ([(io_ok, CallRecordPrepared (demo_effect Op_Claim))] @
        [(io_ok, CallReconcile (demo_key Op_Claim) Absent)])) (demo_key Op_Claim) = Ok (Some s') \<and>
     snap_effect s' = demo_effect Op_Claim"
proof -
  have "load_snapshot demo_sha256 (journal_run demo_sha256
      [(io_ok, CallRecordPrepared (demo_effect Op_Claim))]) (demo_key Op_Claim) =
      Ok (Some (fresh_snap (demo_effect Op_Claim)))"
    by (simp only: demo_recorded)
  from recorded_effect_immutable [OF this] show ?thesis
    unfolding demo_key_simps by blast
qed

text \<open>
  A successful record_prepared leaves a row that loads back as the returned snapshot of
  the same effect, and a fresh one is Prepared with no attempt and revision zero.
\<close>

theorem record_then_load:
  assumes "record_prepared sha256 io e (journal_run sha256 cs) = (Ok c, t')"
  shows "load_snapshot sha256 t' (eff_key e) = Ok (Some (commit_snapshot c)) \<and>
    snap_effect (commit_snapshot c) = e \<and>
    (\<not> commit_was_replay c \<longrightarrow> commit_snapshot c = fresh_snap e)"
proof -
  let ?t = "journal_run sha256 cs"
  from assms have body: "record_prepared_body sha256 e ?t = Ok (c, t')"
    by (simp add: record_prepared_def transact_def end_transaction_def split: sum.splits if_splits prod.splits)
  then obtain existing where load: "load_snapshot sha256 ?t (eff_key e) = Ok existing"
    by (auto simp: record_prepared_body_def and_then_Inr)
  show ?thesis
  proof (cases existing)
    case (Some s)
    with body load show ?thesis
      by (simp add: record_prepared_body_def split: if_splits) auto
  next
    case None
    with body load obtain inserted where
      "load_snapshot sha256 t' (eff_key e) = Ok (Some inserted)"
      "c = \<lparr>commit_snapshot = inserted, commit_was_replay = False\<rparr>" "inserted = fresh_snap e"
      by (auto simp: record_prepared_body_def and_then_Inr fresh_snap_def
          split: if_splits option.splits)
    then show ?thesis by simp
  qed
qed

theorem record_then_load_witness:
  "load_snapshot demo_sha256 [encode_row (fresh_snap (demo_effect Op_Claim))] (demo_key Op_Claim) =
     Ok (Some (fresh_snap (demo_effect Op_Claim)))"
proof -
  have "record_prepared demo_sha256 io_ok (demo_effect Op_Claim) (journal_run demo_sha256 []) =
      (Ok \<lparr>commit_snapshot = fresh_snap (demo_effect Op_Claim), commit_was_replay = False\<rparr>,
       [encode_row (fresh_snap (demo_effect Op_Claim))])"
    using record_fresh(1) [OF empty_rep demo_effect_wf, of Op_Claim]
    by (simp add: find_snap_def reused_effect_id_def)
  from record_then_load [OF this] show ?thesis
    by (simp add: demo_effect_def)
qed

end
