(* ===== verification/Adaptor_Journal.thy ===== *)
theory Adaptor_Journal
  imports Store_Table
begin

text \<open>
  The one-use signing-session journal of \<open>crates/swap-store/src/adaptor_session_journal.rs\<close>:
  the table of sessions with its constraints, the decoding of a row, and the operations
  of a session in the order of the protocol (reserve, peer commitment, reveal, peer nonce,
  sign, peer partial, presignature). The signing callback is an argument of
  \<open>sign_and_persist_partial\<close>, which also returns what it handed to the callback.
\<close>

named_theorems adaptor_defs \<open>definitions of the adaptor-session operations\<close>

section \<open>Sessions\<close>

datatype adaptor_session_role = Role_Maker | Role_Taker

datatype adaptor_session_phase =
    Reserved
  | CommitmentExchanged
  | NoncesExchanged
  | PartialPersisted
  | PeerPartialVerified
  | PresignatureVerified

datatype adaptor_session_journal_error =
    Adaptor_Store store_error
  | InvalidIdentity
  | MissingSession
  | SessionConflict
  | SecretNonceReuse
  | InvalidSessionPhase
  | CorruptSession
  | SigningFailed

type_synonym 'a adaptor_result = "adaptor_session_journal_error + 'a"

fun session_role_name :: "adaptor_session_role \<Rightarrow> string" where
  "session_role_name Role_Maker = ''maker''"
| "session_role_name Role_Taker = ''taker''"

definition session_role_parse :: "string \<Rightarrow> adaptor_session_role adaptor_result" where
  [adaptor_defs]: "session_role_parse v =
     (if v = ''maker'' then Ok Role_Maker
      else if v = ''taker'' then Ok Role_Taker
      else Err CorruptSession)"

definition session_phase_parse :: "string \<Rightarrow> adaptor_session_phase adaptor_result" where
  [adaptor_defs]: "session_phase_parse v =
     (if v = ''reserved'' then Ok Reserved
      else if v = ''commitment_exchanged'' then Ok CommitmentExchanged
      else if v = ''nonces_exchanged'' then Ok NoncesExchanged
      else if v = ''partial_persisted'' then Ok PartialPersisted
      else if v = ''peer_partial_verified'' then Ok PeerPartialVerified
      else if v = ''presignature_verified'' then Ok PresignatureVerified
      else Err CorruptSession)"

record adaptor_session_identity =
  ai_session_id :: bytes
  ai_local_role :: adaptor_session_role
  ai_signing_domain :: bytes
  ai_exact_message :: bytes
  ai_adaptor_point :: bytes
  ai_ordered_public_keys :: "bytes \<times> bytes"

definition identity_validate :: "adaptor_session_identity \<Rightarrow> unit adaptor_result" where
  [adaptor_defs]: "identity_validate i =
     (if fst (ai_ordered_public_keys i) = snd (ai_ordered_public_keys i)
      then Err InvalidIdentity else Ok ())"

record adaptor_session_reservation =
  rv_identity :: adaptor_session_identity
  rv_secret_nonce :: bytes
  rv_own_public_nonce :: bytes
  rv_own_commitment :: bytes

record reservation_commit =
  rc_phase :: adaptor_session_phase
  rc_own_commitment :: bytes
  rc_was_replay :: bool

record adaptor_transition_commit =
  tc_phase :: adaptor_session_phase
  tc_was_replay :: bool

record partial_signature_commit =
  pc_partial :: bytes
  pc_was_replay :: bool

record signing_material =
  sm_identity :: adaptor_session_identity
  sm_secret_nonce :: bytes
  sm_own_public_nonce :: bytes
  sm_peer_public_nonce :: bytes

section \<open>The table\<close>

record session_row =
  sr_session_id :: bytes
  sr_local_role :: string
  sr_signing_domain :: bytes
  sr_exact_message :: bytes
  sr_adaptor_point :: bytes
  sr_maker_public_key :: bytes
  sr_taker_public_key :: bytes
  sr_secret_nonce :: "bytes option"
  sr_secret_nonce_fingerprint :: bytes
  sr_own_commitment :: bytes
  sr_own_public_nonce :: bytes
  sr_peer_commitment :: "bytes option"
  sr_peer_public_nonce :: "bytes option"
  sr_own_partial :: "bytes option"
  sr_peer_partial :: "bytes option"
  sr_presignature :: "bytes option"
  sr_phase :: string

type_synonym session_table = "session_row list"

definition null_or_length :: "nat \<Rightarrow> bytes option \<Rightarrow> bool" where
  "null_or_length n c = (case c of None \<Rightarrow> True | Some b \<Rightarrow> length b = n)"

text \<open>The \<open>CHECK\<close> that ties the phase to the columns that are present.\<close>

definition session_shape :: "session_row \<Rightarrow> bool" where
  "session_shape r \<longleftrightarrow>
     (let secret = sr_secret_nonce r \<noteq> None; commitment = sr_peer_commitment r \<noteq> None;
          nonce = sr_peer_public_nonce r \<noteq> None; own = sr_own_partial r \<noteq> None;
          peer = sr_peer_partial r \<noteq> None; presignature = sr_presignature r \<noteq> None
      in sr_phase r = ''reserved'' \<and>
           secret \<and> \<not> commitment \<and> \<not> nonce \<and> \<not> own \<and> \<not> peer \<and> \<not> presignature \<or>
         sr_phase r = ''commitment_exchanged'' \<and>
           secret \<and> commitment \<and> \<not> nonce \<and> \<not> own \<and> \<not> peer \<and> \<not> presignature \<or>
         sr_phase r = ''nonces_exchanged'' \<and>
           secret \<and> commitment \<and> nonce \<and> \<not> own \<and> \<not> peer \<and> \<not> presignature \<or>
         sr_phase r = ''partial_persisted'' \<and>
           \<not> secret \<and> commitment \<and> nonce \<and> own \<and> \<not> peer \<and> \<not> presignature \<or>
         sr_phase r = ''peer_partial_verified'' \<and>
           \<not> secret \<and> commitment \<and> nonce \<and> own \<and> peer \<and> \<not> presignature \<or>
         sr_phase r = ''presignature_verified'' \<and>
           \<not> secret \<and> commitment \<and> nonce \<and> own \<and> peer \<and> presignature)"

definition session_checks :: "session_row \<Rightarrow> bool" where
  "session_checks r \<longleftrightarrow>
     length (sr_session_id r) = 32 \<and>
     sr_local_role r \<in> {''maker'', ''taker''} \<and>
     length (sr_signing_domain r) = 32 \<and>
     length (sr_exact_message r) = 32 \<and>
     length (sr_adaptor_point r) = 33 \<and>
     length (sr_maker_public_key r) = 33 \<and>
     length (sr_taker_public_key r) = 33 \<and>
     null_or_length 97 (sr_secret_nonce r) \<and>
     length (sr_secret_nonce_fingerprint r) = 32 \<and>
     length (sr_own_commitment r) = 32 \<and>
     length (sr_own_public_nonce r) = 66 \<and>
     null_or_length 32 (sr_peer_commitment r) \<and>
     null_or_length 66 (sr_peer_public_nonce r) \<and>
     null_or_length 32 (sr_own_partial r) \<and>
     null_or_length 32 (sr_peer_partial r) \<and>
     null_or_length 65 (sr_presignature r) \<and>
     sr_maker_public_key r \<noteq> sr_taker_public_key r \<and>
     session_shape r"

text \<open>\<open>PRIMARY KEY (session_id)\<close> and \<open>UNIQUE (secret_nonce_fingerprint)\<close>.\<close>

definition session_clash :: "session_row \<Rightarrow> session_row \<Rightarrow> bool" where
  "session_clash r r' \<longleftrightarrow> sr_session_id r = sr_session_id r' \<or>
     sr_secret_nonce_fingerprint r = sr_secret_nonce_fingerprint r'"

section \<open>Decoding\<close>

text \<open>\<open>b"lez-atomic-swaps/adaptor-secret-nonce-fingerprint/v1"\<close>\<close>

definition secret_nonce_fingerprint_domain :: bytes where
  "secret_nonce_fingerprint_domain =
     map (word_of_nat \<circ> of_char) ''lez-atomic-swaps/adaptor-secret-nonce-fingerprint/v1''"

definition secret_nonce_fingerprint :: "(bytes \<Rightarrow> bytes) \<Rightarrow> bytes \<Rightarrow> bytes" where
  "secret_nonce_fingerprint sha256 secret = sha256 (secret_nonce_fingerprint_domain @ secret)"

record persisted_session =
  ps_identity :: adaptor_session_identity
  ps_secret_nonce :: "bytes option"
  ps_secret_nonce_fingerprint :: bytes
  ps_own_commitment :: bytes
  ps_own_public_nonce :: bytes
  ps_peer_commitment :: "bytes option"
  ps_peer_public_nonce :: "bytes option"
  ps_own_partial :: "bytes option"
  ps_peer_partial :: "bytes option"
  ps_presignature :: "bytes option"
  ps_phase :: adaptor_session_phase

definition validate_integrity ::
    "(bytes \<Rightarrow> bytes) \<Rightarrow> persisted_session \<Rightarrow> unit adaptor_result" where
  "validate_integrity sha256 s =
     and_then (identity_validate (ps_identity s)) (\<lambda>_.
       case ps_secret_nonce s of
         Some secret \<Rightarrow>
           if ps_phase s \<in> {Reserved, CommitmentExchanged, NoncesExchanged} \<and>
              secret_nonce_fingerprint sha256 secret = ps_secret_nonce_fingerprint s
           then Ok () else Err CorruptSession
       | None \<Rightarrow>
           if ps_phase s \<in> {PartialPersisted, PeerPartialVerified, PresignatureVerified}
           then Ok () else Err CorruptSession)"

definition fixed_bytes :: "nat \<Rightarrow> bytes \<Rightarrow> bytes adaptor_result" where
  [adaptor_defs]: "fixed_bytes n b = (if length b = n then Ok b else Err CorruptSession)"

text \<open>\<open>Option::map\<close> followed by \<open>transpose\<close>.\<close>

definition fixed_optional :: "nat \<Rightarrow> bytes option \<Rightarrow> bytes option adaptor_result" where
  [adaptor_defs]: "fixed_optional n c =
     (case c of None \<Rightarrow> Ok None | Some b \<Rightarrow> and_then (fixed_bytes n b) (\<lambda>b. Ok (Some b)))"

definition decode_session ::
    "(bytes \<Rightarrow> bytes) \<Rightarrow> session_row \<Rightarrow> persisted_session adaptor_result" where
  "decode_session sha256 r =
     and_then (fixed_bytes 32 (sr_session_id r)) (\<lambda>session_id.
     and_then (session_role_parse (sr_local_role r)) (\<lambda>role.
     and_then (fixed_bytes 32 (sr_signing_domain r)) (\<lambda>domain.
     and_then (fixed_bytes 32 (sr_exact_message r)) (\<lambda>message.
     and_then (fixed_bytes 33 (sr_adaptor_point r)) (\<lambda>point.
     and_then (fixed_bytes 33 (sr_maker_public_key r)) (\<lambda>maker_key.
     and_then (fixed_bytes 33 (sr_taker_public_key r)) (\<lambda>taker_key.
     and_then (fixed_optional 97 (sr_secret_nonce r)) (\<lambda>secret.
     and_then (fixed_bytes 32 (sr_secret_nonce_fingerprint r)) (\<lambda>fingerprint.
     and_then (fixed_bytes 32 (sr_own_commitment r)) (\<lambda>own_commitment.
     and_then (fixed_bytes 66 (sr_own_public_nonce r)) (\<lambda>own_nonce.
     and_then (fixed_optional 32 (sr_peer_commitment r)) (\<lambda>peer_commitment.
     and_then (fixed_optional 66 (sr_peer_public_nonce r)) (\<lambda>peer_nonce.
     and_then (fixed_optional 32 (sr_own_partial r)) (\<lambda>own_partial.
     and_then (fixed_optional 32 (sr_peer_partial r)) (\<lambda>peer_partial.
     and_then (fixed_optional 65 (sr_presignature r)) (\<lambda>presignature.
     and_then (session_phase_parse (sr_phase r)) (\<lambda>phase.
       let session =
         \<lparr>ps_identity =
            \<lparr>ai_session_id = session_id, ai_local_role = role, ai_signing_domain = domain,
             ai_exact_message = message, ai_adaptor_point = point,
             ai_ordered_public_keys = (maker_key, taker_key)\<rparr>,
          ps_secret_nonce = secret, ps_secret_nonce_fingerprint = fingerprint,
          ps_own_commitment = own_commitment, ps_own_public_nonce = own_nonce,
          ps_peer_commitment = peer_commitment, ps_peer_public_nonce = peer_nonce,
          ps_own_partial = own_partial, ps_peer_partial = peer_partial,
          ps_presignature = presignature, ps_phase = phase\<rparr>
       in and_then (validate_integrity sha256 session) (\<lambda>_. Ok session))))))))))))))))))"

definition load_session ::
    "(bytes \<Rightarrow> bytes) \<Rightarrow> session_table \<Rightarrow> bytes \<Rightarrow> persisted_session option adaptor_result" where
  "load_session sha256 t session_id =
     (case row_at sr_session_id t session_id of
        None \<Rightarrow> Ok None
      | Some r \<Rightarrow> and_then (decode_session sha256 r) (\<lambda>s. Ok (Some s)))"

definition required_session ::
    "(bytes \<Rightarrow> bytes) \<Rightarrow> session_table \<Rightarrow> adaptor_session_identity
     \<Rightarrow> persisted_session adaptor_result" where
  "required_session sha256 t identity =
     and_then (identity_validate identity) (\<lambda>_.
     and_then (load_session sha256 t (ai_session_id identity)) (\<lambda>loaded.
       case loaded of
         None \<Rightarrow> Err MissingSession
       | Some session \<Rightarrow>
           and_then (validate_integrity sha256 session) (\<lambda>_.
             if ps_identity session \<noteq> identity then Err SessionConflict else Ok session)))"

record adaptor_session_snapshot =
  as_identity :: adaptor_session_identity
  as_phase :: adaptor_session_phase
  as_own_commitment :: bytes
  as_own_public_nonce :: "bytes option"
  as_peer_commitment :: "bytes option"
  as_peer_public_nonce :: "bytes option"
  as_own_partial :: "bytes option"
  as_peer_partial :: "bytes option"
  as_presignature :: "bytes option"

definition session_snapshot :: "persisted_session \<Rightarrow> adaptor_session_snapshot" where
  "session_snapshot s =
     \<lparr>as_identity = ps_identity s, as_phase = ps_phase s,
      as_own_commitment = ps_own_commitment s,
      as_own_public_nonce = map_option (\<lambda>_. ps_own_public_nonce s) (ps_peer_commitment s),
      as_peer_commitment = ps_peer_commitment s,
      as_peer_public_nonce = ps_peer_public_nonce s,
      as_own_partial = ps_own_partial s, as_peer_partial = ps_peer_partial s,
      as_presignature = ps_presignature s\<rparr>"

definition adaptor_load ::
    "(bytes \<Rightarrow> bytes) \<Rightarrow> session_table \<Rightarrow> bytes
     \<Rightarrow> adaptor_session_snapshot option adaptor_result" where
  "adaptor_load sha256 t session_id =
     and_then (load_session sha256 t session_id) (\<lambda>loaded.
       case loaded of
         None \<Rightarrow> Ok None
       | Some session \<Rightarrow>
           and_then (validate_integrity sha256 session) (\<lambda>_. Ok (Some (session_snapshot session))))"

section \<open>Operations\<close>

abbreviation adaptor_sqlite :: adaptor_session_journal_error where
  "adaptor_sqlite \<equiv> Adaptor_Store Sqlite"

definition ensure_single_update :: "nat \<Rightarrow> unit adaptor_result" where
  [adaptor_defs]: "ensure_single_update updated =
     (if updated = 1 then Ok () else Err SessionConflict)"

definition reserved_row ::
    "(bytes \<Rightarrow> bytes) \<Rightarrow> adaptor_session_reservation \<Rightarrow> session_row" where
  "reserved_row sha256 rv =
     (let i = rv_identity rv
      in \<lparr>sr_session_id = ai_session_id i,
          sr_local_role = session_role_name (ai_local_role i),
          sr_signing_domain = ai_signing_domain i, sr_exact_message = ai_exact_message i,
          sr_adaptor_point = ai_adaptor_point i,
          sr_maker_public_key = fst (ai_ordered_public_keys i),
          sr_taker_public_key = snd (ai_ordered_public_keys i),
          sr_secret_nonce = Some (rv_secret_nonce rv),
          sr_secret_nonce_fingerprint = secret_nonce_fingerprint sha256 (rv_secret_nonce rv),
          sr_own_commitment = rv_own_commitment rv,
          sr_own_public_nonce = rv_own_public_nonce rv,
          sr_peer_commitment = None, sr_peer_public_nonce = None, sr_own_partial = None,
          sr_peer_partial = None, sr_presignature = None, sr_phase = ''reserved''\<rparr>)"

definition reserve_body ::
    "(bytes \<Rightarrow> bytes) \<Rightarrow> adaptor_session_reservation \<Rightarrow> session_table
     \<Rightarrow> (reservation_commit \<times> session_table) adaptor_result" where
  "reserve_body sha256 rv t =
     (let fingerprint = secret_nonce_fingerprint sha256 (rv_secret_nonce rv)
      in and_then (load_session sha256 t (ai_session_id (rv_identity rv))) (\<lambda>loaded.
         case loaded of
           Some existing \<Rightarrow>
             and_then (validate_integrity sha256 existing) (\<lambda>_.
               if ps_identity existing \<noteq> rv_identity rv \<or>
                  ps_own_public_nonce existing \<noteq> rv_own_public_nonce rv \<or>
                  ps_own_commitment existing \<noteq> rv_own_commitment rv \<or>
                  ps_secret_nonce_fingerprint existing \<noteq> fingerprint
               then Err SessionConflict
               else Ok (\<lparr>rc_phase = ps_phase existing,
                         rc_own_commitment = ps_own_commitment existing,
                         rc_was_replay = True\<rparr>, t))
         | None \<Rightarrow>
             if list_ex (\<lambda>r. sr_secret_nonce_fingerprint r = fingerprint) t
             then Err SecretNonceReuse
             else
               and_then (table_insert adaptor_sqlite session_checks session_clash
                           (reserved_row sha256 rv) t) (\<lambda>t'.
                 Ok (\<lparr>rc_phase = Reserved, rc_own_commitment = rv_own_commitment rv,
                      rc_was_replay = False\<rparr>, t'))))"

definition adaptor_reserve ::
    "(bytes \<Rightarrow> bytes) \<Rightarrow> tx_io \<Rightarrow> adaptor_session_reservation \<Rightarrow> session_table
     \<Rightarrow> reservation_commit adaptor_result \<times> session_table" where
  "adaptor_reserve sha256 io rv t =
     (case identity_validate (rv_identity rv) of
        Inl e \<Rightarrow> (Err e, t)
      | Inr _ \<Rightarrow> transact adaptor_sqlite io (reserve_body sha256 rv) t)"

text \<open>The four public transitions share their replay and their write.\<close>

definition replay_or_advance ::
    "bytes option \<Rightarrow> bytes \<Rightarrow> adaptor_session_phase \<Rightarrow> bool \<Rightarrow> adaptor_session_phase
     \<Rightarrow> (session_row \<Rightarrow> bool) \<Rightarrow> (session_row \<Rightarrow> session_row) \<Rightarrow> session_table
     \<Rightarrow> (adaptor_transition_commit \<times> session_table) adaptor_result" where
  "replay_or_advance durable value phase ready target P f t =
     (case durable of
        Some d \<Rightarrow>
          if d \<noteq> value then Err SessionConflict
          else Ok (\<lparr>tc_phase = phase, tc_was_replay = True\<rparr>, t)
      | None \<Rightarrow>
          if \<not> ready then Err InvalidSessionPhase
          else
            and_then (table_update adaptor_sqlite session_checks P f t) (\<lambda>(updated, t').
            and_then (ensure_single_update updated) (\<lambda>_.
              Ok (\<lparr>tc_phase = target, tc_was_replay = False\<rparr>, t'))))"

definition peer_commitment_body ::
    "(bytes \<Rightarrow> bytes) \<Rightarrow> adaptor_session_identity \<Rightarrow> bytes \<Rightarrow> session_table
     \<Rightarrow> (adaptor_transition_commit \<times> session_table) adaptor_result" where
  "peer_commitment_body sha256 identity commitment t =
     and_then (required_session sha256 t identity) (\<lambda>existing.
       replay_or_advance (ps_peer_commitment existing) commitment (ps_phase existing)
         (ps_phase existing = Reserved) CommitmentExchanged
         (\<lambda>r. sr_session_id r = ai_session_id identity \<and> sr_phase r = ''reserved'' \<and>
            sr_peer_commitment r = None)
         (\<lambda>r. r\<lparr>sr_peer_commitment := Some commitment, sr_phase := ''commitment_exchanged''\<rparr>) t)"

definition record_peer_commitment ::
    "(bytes \<Rightarrow> bytes) \<Rightarrow> tx_io \<Rightarrow> adaptor_session_identity \<Rightarrow> bytes \<Rightarrow> session_table
     \<Rightarrow> adaptor_transition_commit adaptor_result \<times> session_table" where
  "record_peer_commitment sha256 io identity commitment =
     transact adaptor_sqlite io (peer_commitment_body sha256 identity commitment)"

definition reveal_own_public_nonce ::
    "(bytes \<Rightarrow> bytes) \<Rightarrow> session_table \<Rightarrow> adaptor_session_identity \<Rightarrow> bytes adaptor_result" where
  "reveal_own_public_nonce sha256 t identity =
     and_then (required_session sha256 t identity) (\<lambda>existing.
       if ps_peer_commitment existing = None then Err InvalidSessionPhase
       else Ok (ps_own_public_nonce existing))"

definition peer_public_nonce_body ::
    "(bytes \<Rightarrow> bytes) \<Rightarrow> adaptor_session_identity \<Rightarrow> bytes \<Rightarrow> session_table
     \<Rightarrow> (adaptor_transition_commit \<times> session_table) adaptor_result" where
  "peer_public_nonce_body sha256 identity public_nonce t =
     and_then (required_session sha256 t identity) (\<lambda>existing.
       replay_or_advance (ps_peer_public_nonce existing) public_nonce (ps_phase existing)
         (ps_phase existing = CommitmentExchanged \<and> ps_peer_commitment existing \<noteq> None)
         NoncesExchanged
         (\<lambda>r. sr_session_id r = ai_session_id identity \<and>
            sr_phase r = ''commitment_exchanged'' \<and> sr_peer_commitment r \<noteq> None \<and>
            sr_peer_public_nonce r = None)
         (\<lambda>r. r\<lparr>sr_peer_public_nonce := Some public_nonce, sr_phase := ''nonces_exchanged''\<rparr>) t)"

definition record_verified_peer_public_nonce ::
    "(bytes \<Rightarrow> bytes) \<Rightarrow> tx_io \<Rightarrow> adaptor_session_identity \<Rightarrow> bytes \<Rightarrow> session_table
     \<Rightarrow> adaptor_transition_commit adaptor_result \<times> session_table" where
  "record_verified_peer_public_nonce sha256 io identity public_nonce =
     transact adaptor_sqlite io (peer_public_nonce_body sha256 identity public_nonce)"

text \<open>
  Signing. The first component is the material handed to the callback, when it was
  called; the second is the outcome of the transaction body.
\<close>

definition sign_partial_body ::
    "(bytes \<Rightarrow> bytes) \<Rightarrow> adaptor_session_identity \<Rightarrow> (signing_material \<Rightarrow> unit + bytes)
     \<Rightarrow> session_table
     \<Rightarrow> signing_material option \<times> (partial_signature_commit \<times> session_table) adaptor_result" where
  "sign_partial_body sha256 identity signer t =
     (case required_session sha256 t identity of
        Inl e \<Rightarrow> (None, Err e)
      | Inr existing \<Rightarrow>
          (case ps_own_partial existing of
             Some partial \<Rightarrow> (None, Ok (\<lparr>pc_partial = partial, pc_was_replay = True\<rparr>, t))
           | None \<Rightarrow>
               if ps_phase existing \<noteq> NoncesExchanged then (None, Err InvalidSessionPhase)
               else
                 (case ps_secret_nonce existing of
                    None \<Rightarrow> (None, Err CorruptSession)
                  | Some secret \<Rightarrow>
                      if secret_nonce_fingerprint sha256 secret \<noteq>
                         ps_secret_nonce_fingerprint existing
                      then (None, Err CorruptSession)
                      else
                        (case ps_peer_public_nonce existing of
                           None \<Rightarrow> (None, Err CorruptSession)
                         | Some peer_nonce \<Rightarrow>
                             let material =
                               \<lparr>sm_identity = ps_identity existing, sm_secret_nonce = secret,
                                sm_own_public_nonce = ps_own_public_nonce existing,
                                sm_peer_public_nonce = peer_nonce\<rparr>
                             in (Some material,
                                 case signer material of
                                   Inl _ \<Rightarrow> Err SigningFailed
                                 | Inr partial \<Rightarrow>
                                     and_then (table_update adaptor_sqlite session_checks
                                       (\<lambda>r. sr_session_id r = ai_session_id identity \<and>
                                          sr_phase r = ''nonces_exchanged'' \<and>
                                          sr_secret_nonce r \<noteq> None \<and> sr_own_partial r = None)
                                       (\<lambda>r. r\<lparr>sr_secret_nonce := None,
                                              sr_own_partial := Some partial,
                                              sr_phase := ''partial_persisted''\<rparr>) t)
                                       (\<lambda>(updated, t').
                                     and_then (ensure_single_update updated) (\<lambda>_.
                                       Ok (\<lparr>pc_partial = partial,
                                            pc_was_replay = False\<rparr>, t'))))))))"

definition sign_and_persist_partial ::
    "(bytes \<Rightarrow> bytes) \<Rightarrow> tx_io \<Rightarrow> adaptor_session_identity
     \<Rightarrow> (signing_material \<Rightarrow> unit + bytes) \<Rightarrow> session_table
     \<Rightarrow> signing_material option \<times> partial_signature_commit adaptor_result \<times> session_table" where
  "sign_and_persist_partial sha256 io identity signer t =
     (if begin_ok io
      then (let (called, outcome) = sign_partial_body sha256 identity signer t
            in (called, end_transaction adaptor_sqlite io outcome t))
      else (None, Err adaptor_sqlite, t))"

definition peer_partial_body ::
    "(bytes \<Rightarrow> bytes) \<Rightarrow> adaptor_session_identity \<Rightarrow> bytes \<Rightarrow> session_table
     \<Rightarrow> (adaptor_transition_commit \<times> session_table) adaptor_result" where
  "peer_partial_body sha256 identity partial t =
     and_then (required_session sha256 t identity) (\<lambda>existing.
       replay_or_advance (ps_peer_partial existing) partial (ps_phase existing)
         (ps_phase existing = PartialPersisted \<and> ps_own_partial existing \<noteq> None)
         PeerPartialVerified
         (\<lambda>r. sr_session_id r = ai_session_id identity \<and> sr_phase r = ''partial_persisted'' \<and>
            sr_own_partial r \<noteq> None \<and> sr_peer_partial r = None)
         (\<lambda>r. r\<lparr>sr_peer_partial := Some partial, sr_phase := ''peer_partial_verified''\<rparr>) t)"

definition record_verified_peer_partial ::
    "(bytes \<Rightarrow> bytes) \<Rightarrow> tx_io \<Rightarrow> adaptor_session_identity \<Rightarrow> bytes \<Rightarrow> session_table
     \<Rightarrow> adaptor_transition_commit adaptor_result \<times> session_table" where
  "record_verified_peer_partial sha256 io identity partial =
     transact adaptor_sqlite io (peer_partial_body sha256 identity partial)"

definition presignature_body ::
    "(bytes \<Rightarrow> bytes) \<Rightarrow> adaptor_session_identity \<Rightarrow> bytes \<Rightarrow> session_table
     \<Rightarrow> (adaptor_transition_commit \<times> session_table) adaptor_result" where
  "presignature_body sha256 identity presignature t =
     and_then (required_session sha256 t identity) (\<lambda>existing.
       replay_or_advance (ps_presignature existing) presignature (ps_phase existing)
         (ps_phase existing = PeerPartialVerified \<and> ps_peer_partial existing \<noteq> None)
         PresignatureVerified
         (\<lambda>r. sr_session_id r = ai_session_id identity \<and>
            sr_phase r = ''peer_partial_verified'' \<and> sr_peer_partial r \<noteq> None \<and>
            sr_presignature r = None)
         (\<lambda>r. r\<lparr>sr_presignature := Some presignature, sr_phase := ''presignature_verified''\<rparr>) t)"

definition record_verified_presignature ::
    "(bytes \<Rightarrow> bytes) \<Rightarrow> tx_io \<Rightarrow> adaptor_session_identity \<Rightarrow> bytes \<Rightarrow> session_table
     \<Rightarrow> adaptor_transition_commit adaptor_result \<times> session_table" where
  "record_verified_presignature sha256 io identity presignature =
     transact adaptor_sqlite io (presignature_body sha256 identity presignature)"

end
