(* ===== verification/Adaptor_Sessions.thy ===== *)
theory Adaptor_Sessions
  imports Adaptor_Journal
begin

text \<open>
  A session as an abstract state machine (\<open>session_move\<close>), the proof that every call of
  the journal keeps the table, reserves one row or moves one row, and what follows for
  the table: its invariant, and that sessions only grow.
\<close>

section \<open>The session state machine\<close>

inductive session_move :: "session_row \<Rightarrow> session_row \<Rightarrow> bool" where
  commitment: "sr_phase r = ''reserved'' \<Longrightarrow> sr_peer_commitment r = None \<Longrightarrow>
    session_move r (r\<lparr>sr_peer_commitment := Some c, sr_phase := ''commitment_exchanged''\<rparr>)"
| nonce: "sr_phase r = ''commitment_exchanged'' \<Longrightarrow> sr_peer_public_nonce r = None \<Longrightarrow>
    session_move r (r\<lparr>sr_peer_public_nonce := Some n, sr_phase := ''nonces_exchanged''\<rparr>)"
| sign: "sr_phase r = ''nonces_exchanged'' \<Longrightarrow> sr_secret_nonce r \<noteq> None \<Longrightarrow> sr_own_partial r = None \<Longrightarrow>
    session_move r (r\<lparr>sr_secret_nonce := None, sr_own_partial := Some p,
      sr_phase := ''partial_persisted''\<rparr>)"
| peer_partial: "sr_phase r = ''partial_persisted'' \<Longrightarrow> sr_peer_partial r = None \<Longrightarrow>
    session_move r (r\<lparr>sr_peer_partial := Some p, sr_phase := ''peer_partial_verified''\<rparr>)"
| presignature: "sr_phase r = ''peer_partial_verified'' \<Longrightarrow> sr_presignature r = None \<Longrightarrow>
    session_move r (r\<lparr>sr_presignature := Some s, sr_phase := ''presignature_verified''\<rparr>)"

definition row_ok :: "(bytes \<Rightarrow> bytes) \<Rightarrow> session_row \<Rightarrow> bool" where
  "row_ok sha256 r \<longleftrightarrow> session_checks r \<and>
     (\<forall>n. sr_secret_nonce r = Some n \<longrightarrow>
        secret_nonce_fingerprint sha256 n = sr_secret_nonce_fingerprint r)"

inductive sessions_trans :: "(bytes \<Rightarrow> bytes) \<Rightarrow> session_table \<Rightarrow> session_table \<Rightarrow> bool"
  for sha256 :: "bytes \<Rightarrow> bytes" where
  keep: "sessions_trans sha256 t t"
| reserve: "row_at sr_session_id t (sr_session_id r) = None \<Longrightarrow>
    \<not> list_ex (\<lambda>x. sr_secret_nonce_fingerprint x = sr_secret_nonce_fingerprint r) t \<Longrightarrow>
    row_ok sha256 r \<Longrightarrow> sr_phase r = ''reserved'' \<Longrightarrow> sessions_trans sha256 t (t @ [r])"
| move: "row_at sr_session_id t k = Some r \<Longrightarrow> session_move r r' \<Longrightarrow> session_checks r' \<Longrightarrow>
    sessions_trans sha256 t (replace_row r r' t)"

text \<open>The order on sessions: the identity, the fingerprint and the own nonce never change,
  recorded values stay, and the secret nonce can only go away.\<close>

definition col_le :: "bytes option \<Rightarrow> bytes option \<Rightarrow> bool" where
  "col_le c c' \<longleftrightarrow> c = None \<or> c' = c"

definition row_le :: "session_row \<Rightarrow> session_row \<Rightarrow> bool" where
  "row_le r r' \<longleftrightarrow>
     sr_session_id r' = sr_session_id r \<and> sr_local_role r' = sr_local_role r \<and>
     sr_signing_domain r' = sr_signing_domain r \<and> sr_exact_message r' = sr_exact_message r \<and>
     sr_adaptor_point r' = sr_adaptor_point r \<and>
     sr_maker_public_key r' = sr_maker_public_key r \<and>
     sr_taker_public_key r' = sr_taker_public_key r \<and>
     sr_secret_nonce_fingerprint r' = sr_secret_nonce_fingerprint r \<and>
     sr_own_commitment r' = sr_own_commitment r \<and> sr_own_public_nonce r' = sr_own_public_nonce r \<and>
     col_le (sr_secret_nonce r') (sr_secret_nonce r) \<and>
     col_le (sr_peer_commitment r) (sr_peer_commitment r') \<and>
     col_le (sr_peer_public_nonce r) (sr_peer_public_nonce r') \<and>
     col_le (sr_own_partial r) (sr_own_partial r') \<and>
     col_le (sr_peer_partial r) (sr_peer_partial r') \<and>
     col_le (sr_presignature r) (sr_presignature r')"

lemma row_le_refl: "row_le r r"
  by (simp add: row_le_def col_le_def)

lemma row_le_trans: "row_le r r' \<Longrightarrow> row_le r' r'' \<Longrightarrow> row_le r r''"
  by (simp add: row_le_def col_le_def) metis

lemma session_move_le: "session_move r r' \<Longrightarrow> row_le r r'"
  by (induction rule: session_move.induct) (simp_all add: row_le_def col_le_def)

lemma session_move_ok: "session_move r r' \<Longrightarrow> row_ok sha256 r \<Longrightarrow> session_checks r' \<Longrightarrow> row_ok sha256 r'"
  by (induction rule: session_move.induct) (simp_all add: row_ok_def)

lemma session_move_id: "session_move r r' \<Longrightarrow> sr_session_id r' = sr_session_id r"
  and session_move_fingerprint:
    "session_move r r' \<Longrightarrow> sr_secret_nonce_fingerprint r' = sr_secret_nonce_fingerprint r"
  by (auto dest: session_move_le simp: row_le_def)

section \<open>The table invariant\<close>

definition sessions_inv :: "(bytes \<Rightarrow> bytes) \<Rightarrow> session_table \<Rightarrow> bool" where
  "sessions_inv sha256 t \<longleftrightarrow> distinct (map sr_session_id t) \<and>
     distinct (map sr_secret_nonce_fingerprint t) \<and> list_all (row_ok sha256) t"

lemma sessions_trans_inv: "sessions_trans sha256 t t' \<Longrightarrow> sessions_inv sha256 t \<Longrightarrow> sessions_inv sha256 t'"
proof (induction rule: sessions_trans.induct)
  case (reserve t r)
  then show ?case by (auto simp: sessions_inv_def row_at_None list_ex_iff)
next
  case (move t k r r')
  then have "row_ok sha256 r'"
    using session_move_ok row_at_Some [OF move(1)] by (auto simp: sessions_inv_def list_all_iff)
  with move show ?case
    by (simp add: sessions_inv_def list_all_replace map_key_replace session_move_id
        session_move_fingerprint)
qed simp

abbreviation sessions_le :: "session_table \<Rightarrow> session_table \<Rightarrow> bool" where
  "sessions_le \<equiv> table_le sr_session_id row_le"

lemma sessions_trans_le:
  assumes "sessions_trans sha256 t t'" "sessions_inv sha256 t"
  shows "sessions_le t t'"
  using assms
proof (cases rule: sessions_trans.cases)
  case (move k r r')
  with assms(2) row_at_Some [OF move(2)] show ?thesis
    by (simp add: table_le_replace sessions_inv_def session_move_id session_move_le row_le_refl)
qed (simp_all add: table_le_refl table_le_append row_le_refl)

section \<open>Every call is a transition\<close>

lemma reserve_body_trans:
  assumes "identity_validate (rv_identity rv) = Ok ()" "reserve_body sha256 rv t = Ok (v, t')"
  shows "sessions_trans sha256 t t'"
proof (cases "t' = t")
  case False
  with assms(2) have "row_at sr_session_id t (ai_session_id (rv_identity rv)) = None"
    "\<not> list_ex (\<lambda>r. sr_secret_nonce_fingerprint r =
        secret_nonce_fingerprint sha256 (rv_secret_nonce rv)) t"
    "session_checks (reserved_row sha256 rv)" "t' = t @ [reserved_row sha256 rv]"
    by (auto simp: reserve_body_def Let_def and_then_Inr load_session_def table_insert_def
        split: option.splits if_splits)
  then show ?thesis
    by (auto intro!: sessions_trans.reserve simp: row_ok_def reserved_row_def Let_def)
qed (simp add: sessions_trans.keep)

lemma update_trans:
  assumes inv: "sessions_inv sha256 t"
    and upd: "table_update adaptor_sqlite session_checks P f t = Ok (1, t')"
    and P: "\<And>r. P r \<Longrightarrow> sr_session_id r = k" and move: "\<And>r. P r \<Longrightarrow> session_move r (f r)"
  shows "sessions_trans sha256 t t'"
proof -
  from inv have "distinct (map sr_session_id t)" by (simp add: sessions_inv_def)
  from table_update_one [where key = sr_session_id, OF this P upd refl] obtain r where
    "row_at sr_session_id t k = Some r" "P r" "session_checks (f r)" "t' = replace_row r (f r) t"
    by blast
  with move show ?thesis by (auto intro: sessions_trans.move)
qed

lemma replay_or_advance_trans:
  assumes inv: "sessions_inv sha256 t"
    and body: "replay_or_advance durable x phase ready target P f t = Ok (v, t')"
    and P: "\<And>r. P r \<Longrightarrow> sr_session_id r = k" and move: "\<And>r. P r \<Longrightarrow> session_move r (f r)"
  shows "sessions_trans sha256 t t'"
proof (cases "t' = t")
  case False
  with body have "table_update adaptor_sqlite session_checks P f t = Ok (1, t')"
    by (auto simp: replay_or_advance_def and_then_Inr ensure_single_update_def
        split: option.splits if_splits)
  from update_trans [OF inv this P move] show ?thesis .
qed (simp add: sessions_trans.keep)

lemmas transition_bodies = peer_commitment_body_def peer_public_nonce_body_def
  peer_partial_body_def presignature_body_def

lemma transition_body_trans:
  assumes inv: "sessions_inv sha256 t"
  shows "peer_commitment_body sha256 i x t = Ok (v, t') \<Longrightarrow> sessions_trans sha256 t t'"
    and "peer_public_nonce_body sha256 i x t = Ok (v, t') \<Longrightarrow> sessions_trans sha256 t t'"
    and "peer_partial_body sha256 i x t = Ok (v, t') \<Longrightarrow> sessions_trans sha256 t t'"
    and "presignature_body sha256 i x t = Ok (v, t') \<Longrightarrow> sessions_trans sha256 t t'"
  unfolding transition_bodies and_then_Inr
  by (elim exE conjE, erule replay_or_advance_trans [OF inv, where k = "ai_session_id i"],
      (auto intro: session_move.intros)[2])+

lemma sign_body_trans:
  assumes inv: "sessions_inv sha256 t" and body: "snd (sign_partial_body sha256 i signer t) = Ok (v, t')"
  shows "sessions_trans sha256 t t'"
proof (cases "t' = t")
  case False
  with body obtain p where
    "table_update adaptor_sqlite session_checks
       (\<lambda>r. sr_session_id r = ai_session_id i \<and> sr_phase r = ''nonces_exchanged'' \<and>
          sr_secret_nonce r \<noteq> None \<and> sr_own_partial r = None)
       (\<lambda>r. r\<lparr>sr_secret_nonce := None, sr_own_partial := Some p, sr_phase := ''partial_persisted''\<rparr>) t
     = Ok (1, t')"
    by (auto simp: sign_partial_body_def and_then_Inr ensure_single_update_def Let_def
        split: sum.splits option.splits if_splits)
  then show ?thesis
    by (rule update_trans [OF inv, where k = "ai_session_id i"]) (auto intro: session_move.sign)
qed (simp add: sessions_trans.keep)

section \<open>Runs\<close>

datatype adaptor_call =
    CallReserve adaptor_session_reservation
  | CallPeerCommitment adaptor_session_identity bytes
  | CallPeerPublicNonce adaptor_session_identity bytes
  | CallSign adaptor_session_identity "signing_material \<Rightarrow> unit + bytes"
  | CallPeerPartial adaptor_session_identity bytes
  | CallPresignature adaptor_session_identity bytes

fun adaptor_step :: "(bytes \<Rightarrow> bytes) \<Rightarrow> session_table \<Rightarrow> tx_io \<times> adaptor_call \<Rightarrow> session_table" where
  "adaptor_step sha256 t (io, CallReserve rv) = snd (adaptor_reserve sha256 io rv t)"
| "adaptor_step sha256 t (io, CallPeerCommitment i c) = snd (record_peer_commitment sha256 io i c t)"
| "adaptor_step sha256 t (io, CallPeerPublicNonce i n) =
     snd (record_verified_peer_public_nonce sha256 io i n t)"
| "adaptor_step sha256 t (io, CallSign i signer) =
     snd (snd (sign_and_persist_partial sha256 io i signer t))"
| "adaptor_step sha256 t (io, CallPeerPartial i p) = snd (record_verified_peer_partial sha256 io i p t)"
| "adaptor_step sha256 t (io, CallPresignature i s) = snd (record_verified_presignature sha256 io i s t)"

lemma sign_step:
  "snd (sign_and_persist_partial sha256 io i signer t) =
     transact adaptor_sqlite io (\<lambda>t. snd (sign_partial_body sha256 i signer t)) t"
  by (simp add: sign_and_persist_partial_def transact_def split_beta Let_def)

lemma adaptor_step_trans:
  assumes "sessions_inv sha256 t"
  shows "sessions_trans sha256 t (adaptor_step sha256 t c)"
proof -
  obtain io call where c: "c = (io, call)" by (cases c) auto
  note bodies = transition_body_trans [OF assms] sign_body_trans [OF assms] reserve_body_trans
  show ?thesis
    unfolding c
    by (cases call)
      (auto simp: adaptor_reserve_def record_peer_commitment_def record_verified_peer_public_nonce_def
        record_verified_peer_partial_def record_verified_presignature_def sign_step
        intro!: transact_inv [where Q = "sessions_trans sha256 t"] sessions_trans.keep
        split: sum.split dest: bodies)
qed

interpretation sessions: step_order "adaptor_step sha256" "sessions_inv sha256" sessions_le
proof
  show "sessions_inv sha256 (adaptor_step sha256 t c)" if "sessions_inv sha256 t" for t c
    using that adaptor_step_trans sessions_trans_inv by blast
  show "sessions_le t (adaptor_step sha256 t c)" if "sessions_inv sha256 t" for t c
    using that adaptor_step_trans sessions_trans_le by blast
  show "sessions_le t t" for t
    by (rule table_le_refl) (rule row_le_refl)
  show "sessions_le t t''" if "sessions_le t t'" "sessions_le t' t''" for t t' t''
    using that row_le_trans by (rule table_le_trans)
qed

lemma sessions_inv_empty: "sessions_inv sha256 []"
  by (simp add: sessions_inv_def)

end
