(* ===== verification/Adaptor_Properties.thy ===== *)
theory Adaptor_Properties
  imports Adaptor_Sessions
begin

text \<open>
  What the adaptor-session journal guarantees for every sequence of calls on an empty
  journal, whatever the database does and whatever the signing callbacks return.
\<close>

section \<open>Decoding the rows of a reachable table\<close>

definition row_identity :: "session_row \<Rightarrow> adaptor_session_identity" where
  "row_identity r =
     \<lparr>ai_session_id = sr_session_id r,
      ai_local_role = (if sr_local_role r = ''maker'' then Role_Maker else Role_Taker),
      ai_signing_domain = sr_signing_domain r, ai_exact_message = sr_exact_message r,
      ai_adaptor_point = sr_adaptor_point r,
      ai_ordered_public_keys = (sr_maker_public_key r, sr_taker_public_key r)\<rparr>"

definition row_phase :: "session_row \<Rightarrow> adaptor_session_phase" where
  "row_phase r = (case session_phase_parse (sr_phase r) of Inl _ \<Rightarrow> Reserved | Inr p \<Rightarrow> p)"

definition persisted :: "session_row \<Rightarrow> persisted_session" where
  "persisted r =
     \<lparr>ps_identity = row_identity r, ps_secret_nonce = sr_secret_nonce r,
      ps_secret_nonce_fingerprint = sr_secret_nonce_fingerprint r,
      ps_own_commitment = sr_own_commitment r, ps_own_public_nonce = sr_own_public_nonce r,
      ps_peer_commitment = sr_peer_commitment r, ps_peer_public_nonce = sr_peer_public_nonce r,
      ps_own_partial = sr_own_partial r, ps_peer_partial = sr_peer_partial r,
      ps_presignature = sr_presignature r, ps_phase = row_phase r\<rparr>"

lemma fixed_optional_ok: "null_or_length n c \<Longrightarrow> fixed_optional n c = Ok c"
  by (cases c) (simp_all add: null_or_length_def fixed_optional_def fixed_bytes_def)

lemma phase_parse_ok: "session_shape r \<Longrightarrow> session_phase_parse (sr_phase r) = Ok (row_phase r)"
  by (auto simp: session_shape_def row_phase_def session_phase_parse_def Let_def)

lemma role_parse_ok: "sr_local_role r \<in> {''maker'', ''taker''} \<Longrightarrow>
    session_role_parse (sr_local_role r) = Ok (ai_local_role (row_identity r))"
  by (auto simp: session_role_parse_def row_identity_def)

lemma persisted_integrity:
  assumes "row_ok sha256 r"
  shows "validate_integrity sha256 (persisted r) = Ok ()"
proof -
  from assms have shape: "session_shape r" and keys: "sr_maker_public_key r \<noteq> sr_taker_public_key r"
    by (simp_all add: row_ok_def session_checks_def)
  from shape have "if sr_secret_nonce r = None
    then row_phase r \<in> {PartialPersisted, PeerPartialVerified, PresignatureVerified}
    else row_phase r \<in> {Reserved, CommitmentExchanged, NoncesExchanged}"
    by (auto simp: session_shape_def row_phase_def session_phase_parse_def Let_def)
  with keys assms show ?thesis
    by (auto simp: validate_integrity_def persisted_def identity_validate_def row_identity_def
        row_ok_def split: option.split if_splits)
qed

lemma decode_session_ok:
  assumes "row_ok sha256 r"
  shows "decode_session sha256 r = Ok (persisted r)"
  using assms persisted_integrity [OF assms]
  by (simp add: decode_session_def row_ok_def session_checks_def fixed_bytes_def fixed_optional_ok
      role_parse_ok phase_parse_ok Let_def persisted_def row_identity_def)

lemma inv_row_ok: "sessions_inv sha256 t \<Longrightarrow> row_at sr_session_id t k = Some r \<Longrightarrow> row_ok sha256 r"
  using row_at_Some by (fastforce simp: sessions_inv_def list_all_iff)

text \<open>On a reachable table \<open>required_session\<close> finds exactly the row of the identity.\<close>

lemma required_session_inv:
  assumes "sessions_inv sha256 t"
  shows "required_session sha256 t i =
    (if fst (ai_ordered_public_keys i) = snd (ai_ordered_public_keys i) then Err InvalidIdentity
     else case row_at sr_session_id t (ai_session_id i) of
       None \<Rightarrow> Err MissingSession
     | Some r \<Rightarrow> if row_identity r = i then Ok (persisted r) else Err SessionConflict)"
proof (cases "row_at sr_session_id t (ai_session_id i)")
  case None
  then show ?thesis by (simp add: required_session_def identity_validate_def load_session_def)
next
  case (Some r)
  note ok = inv_row_ok [OF assms Some]
  from Some show ?thesis
    by (simp add: required_session_def identity_validate_def load_session_def
        decode_session_ok [OF ok] persisted_integrity [OF ok]) (simp add: persisted_def)
qed

lemma required_session_Ok:
  assumes "sessions_inv sha256 t" "required_session sha256 t i = Ok s"
  obtains r where "row_at sr_session_id t (ai_session_id i) = Some r" "row_identity r = i"
    "s = persisted r" "row_ok sha256 r"
  using assms inv_row_ok [OF assms(1)]
  by (auto simp: required_session_inv split: if_splits option.splits)

lemma row_le_identity: "row_le r r' \<Longrightarrow> row_identity r' = row_identity r"
  by (simp add: row_le_def row_identity_def)

lemma row_le_values:
  assumes "row_le r r'"
  shows "sr_own_partial r = Some p \<Longrightarrow> sr_own_partial r' = Some p"
    and "sr_peer_commitment r = Some c \<Longrightarrow> sr_peer_commitment r' = Some c"
    and "sr_peer_public_nonce r = Some n \<Longrightarrow> sr_peer_public_nonce r' = Some n"
    and "sr_own_public_nonce r' = sr_own_public_nonce r"
    and "sr_secret_nonce_fingerprint r' = sr_secret_nonce_fingerprint r"
  using assms by (simp_all add: row_le_def col_le_def)

abbreviation adaptor_run :: "(bytes \<Rightarrow> bytes) \<Rightarrow> (tx_io \<times> adaptor_call) list \<Rightarrow> session_table" where
  "adaptor_run sha256 cs \<equiv> run (adaptor_step sha256) [] cs"

lemma adaptor_run_inv: "sessions_inv sha256 (adaptor_run sha256 cs)"
  by (rule sessions.run_inv [OF sessions_inv_empty])

section \<open>The material a signing callback sees\<close>

fun signer_call :: "(bytes \<Rightarrow> bytes) \<Rightarrow> session_table \<Rightarrow> tx_io \<times> adaptor_call \<Rightarrow> signing_material option" where
  "signer_call sha256 t (io, CallSign i signer) = fst (sign_and_persist_partial sha256 io i signer t)"
| "signer_call sha256 t (io, _) = None"

definition row_material :: "session_row \<Rightarrow> signing_material option" where
  "row_material r =
     (case (sr_secret_nonce r, sr_peer_public_nonce r) of
        (Some secret, Some peer) \<Rightarrow>
          Some \<lparr>sm_identity = row_identity r, sm_secret_nonce = secret,
                sm_own_public_nonce = sr_own_public_nonce r, sm_peer_public_nonce = peer\<rparr>
      | _ \<Rightarrow> None)"

lemma signer_call_row:
  assumes inv: "sessions_inv sha256 t" and call: "signer_call sha256 t c = Some m"
  obtains k r where "row_at sr_session_id t k = Some r" "row_material r = Some m" "row_ok sha256 r"
proof -
  from call obtain io i signer where c: "c = (io, CallSign i signer)"
    by (cases "(sha256, t, c)" rule: signer_call.cases) auto
  from call c have body: "fst (sign_partial_body sha256 i signer t) = Some m"
    by (auto simp: sign_and_persist_partial_def split_beta Let_def split: if_splits)
  then obtain s where s: "required_session sha256 t i = Ok s"
    by (auto simp: sign_partial_body_def split: sum.splits)
  from required_session_Ok [OF inv this] obtain r where
    r: "row_at sr_session_id t (ai_session_id i) = Some r" "s = persisted r" "row_ok sha256 r"
    by blast
  from body s r(2) have "row_material r = Some m"
    by (auto simp: sign_partial_body_def persisted_def row_material_def Let_def
        split: option.splits if_splits)
  with r that show thesis by blast
qed

lemma fingerprint_unique:
  assumes "sessions_inv sha256 t" "row_at sr_session_id t k = Some r" "row_at sr_session_id t k' = Some r'"
    "sr_secret_nonce_fingerprint r = sr_secret_nonce_fingerprint r'"
  shows "r = r'"
  using assms row_at_Some [OF assms(2)] row_at_Some [OF assms(3)]
  by (auto simp: sessions_inv_def distinct_map inj_on_def)

section \<open>A concrete session\<close>

definition demo_hash :: "bytes \<Rightarrow> bytes" where
  "demo_hash b = replicate 32 0"

definition demo_identity :: adaptor_session_identity where
  "demo_identity = \<lparr>ai_session_id = replicate 32 1, ai_local_role = Role_Maker,
     ai_signing_domain = replicate 32 2, ai_exact_message = replicate 32 3,
     ai_adaptor_point = replicate 33 4,
     ai_ordered_public_keys = (replicate 33 5, replicate 33 6)\<rparr>"

definition demo_reservation :: adaptor_session_reservation where
  "demo_reservation = \<lparr>rv_identity = demo_identity, rv_secret_nonce = replicate 97 7,
     rv_own_public_nonce = replicate 66 8, rv_own_commitment = replicate 32 9\<rparr>"

abbreviation io_ok :: tx_io where
  "io_ok \<equiv> \<lparr>begin_ok = True, commit_ok = True\<rparr>"

abbreviation demo_setup :: "(tx_io \<times> adaptor_call) list" where
  "demo_setup \<equiv> [(io_ok, CallReserve demo_reservation),
     (io_ok, CallPeerCommitment demo_identity (replicate 32 10)),
     (io_ok, CallPeerPublicNonce demo_identity (replicate 66 11))]"

abbreviation demo_sign :: "tx_io \<Rightarrow> tx_io \<times> adaptor_call" where
  "demo_sign io \<equiv> (io, CallSign demo_identity (\<lambda>_. Ok (replicate 32 12)))"

definition demo_reserved :: session_row where
  "demo_reserved = reserved_row demo_hash demo_reservation"

definition demo_committed :: session_row where
  "demo_committed = demo_reserved\<lparr>sr_peer_commitment := Some (replicate 32 10),
     sr_phase := ''commitment_exchanged''\<rparr>"

definition demo_exchanged :: session_row where
  "demo_exchanged = demo_committed\<lparr>sr_peer_public_nonce := Some (replicate 66 11),
     sr_phase := ''nonces_exchanged''\<rparr>"

definition demo_signed :: session_row where
  "demo_signed = demo_exchanged\<lparr>sr_secret_nonce := None,
     sr_own_partial := Some (replicate 32 12), sr_phase := ''partial_persisted''\<rparr>"

lemmas demo_rows = demo_reserved_def demo_committed_def demo_exchanged_def demo_signed_def
  reserved_row_def demo_reservation_def demo_identity_def demo_hash_def Let_def
  secret_nonce_fingerprint_def

lemma demo_rows_ok:
  "row_ok demo_hash demo_reserved" "row_ok demo_hash demo_committed"
  "row_ok demo_hash demo_exchanged" "row_ok demo_hash demo_signed"
  by (simp_all add: demo_rows row_ok_def session_checks_def session_shape_def null_or_length_def)

lemma demo_rows_identity:
  "row_identity demo_reserved = demo_identity" "row_identity demo_committed = demo_identity"
  "row_identity demo_exchanged = demo_identity" "row_identity demo_signed = demo_identity"
  by (simp_all add: demo_rows row_identity_def)

lemma demo_required:
  assumes "row_ok demo_hash r" "row_identity r = demo_identity"
  shows "required_session demo_hash [r] demo_identity = Ok (persisted r)"
proof -
  have "ai_session_id (row_identity r) = sr_session_id r" by (simp add: row_identity_def)
  moreover have "sessions_inv demo_hash [r]" using assms by (simp add: sessions_inv_def)
  ultimately have "sr_session_id r = ai_session_id demo_identity" "sessions_inv demo_hash [r]"
    using assms(2) by simp_all
  with assms show ?thesis
    by (simp add: required_session_inv row_at_def demo_identity_def)
qed

lemma demo_fields [simp]:
  "sr_session_id demo_reserved = ai_session_id demo_identity" "sr_phase demo_reserved = ''reserved''"
  "sr_peer_commitment demo_reserved = None" "sr_peer_public_nonce demo_reserved = None"
  "sr_own_partial demo_reserved = None" "sr_secret_nonce demo_reserved = Some (replicate 97 7)"
  "sr_own_public_nonce demo_reserved = replicate 66 8"
  "sr_secret_nonce_fingerprint demo_reserved = replicate 32 0"
  by (simp_all add: demo_rows)

lemmas demo_run_simps = row_at_def table_update_def table_insert_def transact_def
  end_transaction_def replay_or_advance_def ensure_single_update_def persisted_def
  row_phase_def session_phase_parse_def Let_def secret_nonce_fingerprint_def demo_hash_def

lemma demo_steps:
  "adaptor_step demo_hash [] (io_ok, CallReserve demo_reservation) = [demo_reserved]"
  "adaptor_step demo_hash [demo_reserved]
     (io_ok, CallPeerCommitment demo_identity (replicate 32 10)) = [demo_committed]"
  "adaptor_step demo_hash [demo_committed]
     (io_ok, CallPeerPublicNonce demo_identity (replicate 66 11)) = [demo_exchanged]"
proof -
  note checks = demo_rows_ok [unfolded row_ok_def, THEN conjunct1]
  have valid: "identity_validate (rv_identity demo_reservation) = Ok ()"
    by (simp add: demo_reservation_def demo_identity_def identity_validate_def)
  show "adaptor_step demo_hash [] (io_ok, CallReserve demo_reservation) = [demo_reserved]"
    using checks(1) valid by (simp add: adaptor_reserve_def reserve_body_def load_session_def
        row_at_def table_insert_def transact_def end_transaction_def demo_reserved_def Let_def)
  show "adaptor_step demo_hash [demo_reserved]
     (io_ok, CallPeerCommitment demo_identity (replicate 32 10)) = [demo_committed]"
    using checks(2) demo_required [OF demo_rows_ok(1) demo_rows_identity(1)]
    by (simp add: record_peer_commitment_def peer_commitment_body_def demo_run_simps
        demo_committed_def)
  show "adaptor_step demo_hash [demo_committed]
     (io_ok, CallPeerPublicNonce demo_identity (replicate 66 11)) = [demo_exchanged]"
    using checks(3) demo_required [OF demo_rows_ok(2) demo_rows_identity(2)]
    by (simp add: record_verified_peer_public_nonce_def peer_public_nonce_body_def demo_run_simps
        demo_exchanged_def demo_committed_def)
qed

lemma demo_runs:
  "adaptor_run demo_hash (take 2 demo_setup) = [demo_committed]"
  "adaptor_run demo_hash demo_setup = [demo_exchanged]"
  by (simp_all add: demo_steps del: adaptor_step.simps)

lemma demo_sign_body:
  "sign_partial_body demo_hash demo_identity signer [demo_exchanged] =
     (let m = \<lparr>sm_identity = demo_identity, sm_secret_nonce = replicate 97 7,
               sm_own_public_nonce = replicate 66 8, sm_peer_public_nonce = replicate 66 11\<rparr>
      in (Some m, case signer m of
           Inl _ \<Rightarrow> Err SigningFailed
         | Inr p \<Rightarrow> and_then (table_update adaptor_sqlite session_checks
             (\<lambda>r. sr_session_id r = ai_session_id demo_identity \<and> sr_phase r = ''nonces_exchanged'' \<and>
                sr_secret_nonce r \<noteq> None \<and> sr_own_partial r = None)
             (\<lambda>r. r\<lparr>sr_secret_nonce := None, sr_own_partial := Some p,
                    sr_phase := ''partial_persisted''\<rparr>) [demo_exchanged])
             (\<lambda>(updated, t'). and_then (ensure_single_update updated) (\<lambda>_.
                Ok (\<lparr>pc_partial = p, pc_was_replay = False\<rparr>, t')))))"
  using demo_rows_identity(3)
  by (simp add: sign_partial_body_def demo_required [OF demo_rows_ok(3) demo_rows_identity(3)])
    (simp add: persisted_def demo_exchanged_def demo_committed_def row_phase_def
      session_phase_parse_def Let_def secret_nonce_fingerprint_def demo_hash_def)

text \<open>
  C5: If two signing calls of one run hand the same secret nonce to the signer, committed or
  not, the signer gets the same material both times: the same session identity with its
  message and keys, and the same own and peer public nonces. A nonce is never used under two
  transcripts.
\<close>

theorem nonce_never_crosses_transcripts:
  assumes "signer_call sha256 (adaptor_run sha256 cs) c = Some m"
    and "signer_call sha256 (adaptor_run sha256 (cs @ ds)) d = Some m'"
    and "sm_secret_nonce m' = sm_secret_nonce m"
  shows "m' = m"
proof -
  let ?t = "adaptor_run sha256 cs" and ?t' = "adaptor_run sha256 (cs @ ds)"
  obtain k r where r: "row_at sr_session_id ?t k = Some r" "row_material r = Some m" "row_ok sha256 r"
    using signer_call_row [OF adaptor_run_inv assms(1)] .
  obtain k' r' where r': "row_at sr_session_id ?t' k' = Some r'" "row_material r' = Some m'"
    "row_ok sha256 r'"
    using signer_call_row [OF adaptor_run_inv assms(2)] .
  have "sessions_le ?t ?t'"
    using sessions.run_le [OF adaptor_run_inv] by simp
  then obtain q where q: "row_at sr_session_id ?t' k = Some q" "row_le r q"
    using r(1) by (auto dest: table_leD)
  from r r' assms(3) q(2) have "sr_secret_nonce_fingerprint q = sr_secret_nonce_fingerprint r'"
    by (auto simp: row_material_def row_ok_def row_le_values split: option.splits)
  with q r' adaptor_run_inv have "q = r'" by (blast intro: fingerprint_unique)
  with q(2) r(2) r'(2) assms(3) show ?thesis
    by (auto simp: row_material_def row_le_identity row_le_values split: option.splits)
qed

theorem nonce_never_crosses_transcripts_witness:
  "\<exists>m m'. signer_call demo_hash (adaptor_run demo_hash demo_setup)
       (demo_sign \<lparr>begin_ok = True, commit_ok = False\<rparr>) = Some m \<and>
     signer_call demo_hash (adaptor_run demo_hash
       (demo_setup @ [demo_sign \<lparr>begin_ok = True, commit_ok = False\<rparr>])) (demo_sign io_ok) = Some m' \<and>
     m' = m"
proof -
  let ?fail = "demo_sign \<lparr>begin_ok = True, commit_ok = False\<rparr>"
  have call: "\<exists>m. fst (sign_and_persist_partial demo_hash io demo_identity signer [demo_exchanged]) = Some m
      \<and> sm_secret_nonce m = replicate 97 7" if "begin_ok io" for io signer
    using that by (simp add: sign_and_persist_partial_def demo_sign_body Let_def)
  have "adaptor_run demo_hash (demo_setup @ [?fail]) = [demo_exchanged]"
    unfolding foldl_append demo_runs
    by (simp add: sign_step transact_def end_transaction_def split: sum.split)
  with call [of "\<lparr>begin_ok = True, commit_ok = False\<rparr>" "\<lambda>_. Ok (replicate 32 12)"]
    call [of io_ok "\<lambda>_. Ok (replicate 32 12)"] obtain m m' where
    m: "signer_call demo_hash (adaptor_run demo_hash demo_setup) ?fail = Some m"
      "signer_call demo_hash (adaptor_run demo_hash (demo_setup @ [?fail])) (demo_sign io_ok) = Some m'"
      "sm_secret_nonce m' = sm_secret_nonce m"
    by (auto simp: demo_runs simp del: foldl_Cons)
  from nonce_never_crosses_transcripts [OF m] m(1,2) show ?thesis by blast
qed

section \<open>Replays\<close>

lemma sign_replay:
  assumes "sessions_inv sha256 t" "row_at sr_session_id t (ai_session_id i) = Some r"
    "row_identity r = i" "sr_own_partial r = Some p" "begin_ok io" "commit_ok io"
  shows "sign_and_persist_partial sha256 io i signer t =
    (None, Ok \<lparr>pc_partial = p, pc_was_replay = True\<rparr>, t)"
proof -
  have "fst (ai_ordered_public_keys i) \<noteq> snd (ai_ordered_public_keys i)"
    using inv_row_ok [OF assms(1,2)] assms(3)
    by (auto simp: row_ok_def session_checks_def row_identity_def)
  with assms show ?thesis
    by (simp add: sign_and_persist_partial_def sign_partial_body_def required_session_inv
        end_transaction_def persisted_def)
qed

lemma sign_persisted:
  assumes inv: "sessions_inv sha256 t"
    and sign: "sign_and_persist_partial sha256 io i signer t = (called, Ok v, t')"
  obtains r where "row_at sr_session_id t' (ai_session_id i) = Some r" "row_identity r = i"
    "sr_own_partial r = Some (pc_partial v)"
proof -
  from sign have body: "snd (sign_partial_body sha256 i signer t) = Ok (v, t')"
    by (auto simp: sign_and_persist_partial_def end_transaction_def split_beta Let_def
        split: if_splits sum.splits)
  then obtain s where s: "required_session sha256 t i = Ok s"
    by (auto simp: sign_partial_body_def split: sum.splits)
  from required_session_Ok [OF inv this] obtain r where
    r: "row_at sr_session_id t (ai_session_id i) = Some r" "row_identity r = i" "s = persisted r"
    by blast
  show thesis
  proof (cases "sr_own_partial r")
    case (Some p)
    with body s r(3) have "t' = t" "pc_partial v = p"
      by (auto simp: sign_partial_body_def persisted_def)
    with r Some that show thesis by blast
  next
    case None
    let ?P = "\<lambda>r. sr_session_id r = ai_session_id i \<and> sr_phase r = ''nonces_exchanged'' \<and>
      sr_secret_nonce r \<noteq> None \<and> sr_own_partial r = None"
    let ?f = "\<lambda>r. r\<lparr>sr_secret_nonce := None, sr_own_partial := Some (pc_partial v),
      sr_phase := ''partial_persisted''\<rparr>"
    from body s r(3) None have upd: "table_update adaptor_sqlite session_checks ?P ?f t = Ok (1, t')"
      by (auto simp: sign_partial_body_def persisted_def and_then_Inr ensure_single_update_def Let_def
          split: sum.splits option.splits if_splits)
    have dist: "distinct (map sr_session_id t)" using inv by (simp add: sessions_inv_def)
    obtain q where q: "row_at sr_session_id t (ai_session_id i) = Some q" "t' = replace_row q (?f q) t"
      by (rule table_update_one [where key = sr_session_id and k = "ai_session_id i", OF dist _ upd refl])
        auto
    with r have [simp]: "q = r" by simp
    have "row_at sr_session_id t' (ai_session_id i) = Some (?f r)"
      using q row_at_Some [OF r(1)] by (simp add: row_at_replace [OF dist])
    with r that [of "?f r"] show thesis by (simp add: row_identity_def)
  qed
qed

text \<open>
  Once a signing call has returned a partial signature, every later signing call for
  that identity on a working database returns the same partial as a replay, without calling
  the signer and without changing the table, whatever calls come in between.
\<close>

theorem partial_is_final:
  assumes "sign_and_persist_partial sha256 io i signer (adaptor_run sha256 cs) = (called, Ok v, t)"
    and "begin_ok io'" "commit_ok io'"
  shows "sign_and_persist_partial sha256 io' i signer' (run (adaptor_step sha256) t ds) =
    (None, Ok \<lparr>pc_partial = pc_partial v, pc_was_replay = True\<rparr>, run (adaptor_step sha256) t ds)"
proof -
  have step: "adaptor_step sha256 (adaptor_run sha256 cs) (io, CallSign i signer) = t"
    using assms(1) by simp
  have inv: "sessions_inv sha256 t"
    using sessions.step_inv [OF adaptor_run_inv, of sha256 cs "(io, CallSign i signer)"] step by simp
  obtain r where r: "row_at sr_session_id t (ai_session_id i) = Some r" "row_identity r = i"
    "sr_own_partial r = Some (pc_partial v)"
    using sign_persisted [OF adaptor_run_inv assms(1)] .
  from table_leD [OF sessions.run_le [OF inv] r(1)] obtain r' where
    r': "row_at sr_session_id (run (adaptor_step sha256) t ds) (ai_session_id i) = Some r'" "row_le r r'"
    by blast
  with r have "row_identity r' = i" "sr_own_partial r' = Some (pc_partial v)"
    by (simp_all add: row_le_identity row_le_values)
  from sign_replay [OF sessions.run_inv [OF inv] r'(1) this assms(2,3)] show ?thesis .
qed

theorem partial_is_final_witness:
  "sign_and_persist_partial demo_hash io_ok demo_identity (\<lambda>_. Err ()) [demo_signed] =
     (None, Ok \<lparr>pc_partial = replicate 32 12, pc_was_replay = True\<rparr>, [demo_signed])"
proof -
  have "session_checks demo_signed" using demo_rows_ok(4) by (simp add: row_ok_def)
  then have sign: "snd (sign_and_persist_partial demo_hash io_ok demo_identity (\<lambda>_. Ok (replicate 32 12))
      (adaptor_run demo_hash demo_setup)) =
    (Ok \<lparr>pc_partial = replicate 32 12, pc_was_replay = False\<rparr>, [demo_signed])"
    unfolding demo_runs
    by (simp add: sign_step demo_sign_body table_update_def demo_signed_def Let_def
        ensure_single_update_def transact_def end_transaction_def)
      (simp add: demo_exchanged_def demo_committed_def)
  obtain called where "sign_and_persist_partial demo_hash io_ok demo_identity
      (\<lambda>_. Ok (replicate 32 12)) (adaptor_run demo_hash demo_setup) =
    (called, Ok \<lparr>pc_partial = replicate 32 12, pc_was_replay = False\<rparr>, [demo_signed])"
    using sign by (metis prod.collapse)
  from partial_is_final [OF this, of io_ok "\<lambda>_. Err ()" "[]"] show ?thesis by simp
qed

section \<open>Commitment before reveal\<close>

lemma commitment_pinned:
  assumes "sessions_inv sha256 t" "row_at sr_session_id t (ai_session_id i) = Some r"
    "row_identity r = i" "sr_peer_commitment r = Some c"
  shows "peer_commitment_body sha256 i x t =
    (if x = c then Ok (\<lparr>tc_phase = row_phase r, tc_was_replay = True\<rparr>, t) else Err SessionConflict)"
proof -
  have "fst (ai_ordered_public_keys i) \<noteq> snd (ai_ordered_public_keys i)"
    using inv_row_ok [OF assms(1,2)] assms(3)
    by (auto simp: row_ok_def session_checks_def row_identity_def)
  with assms show ?thesis
    by (simp add: peer_commitment_body_def required_session_inv replay_or_advance_def persisted_def)
qed

text \<open>
  Once the own public nonce has been revealed the peer commitment is pinned: after any
  further calls, recording another commitment for the session fails, recording the same one
  succeeds on a working database, and neither changes the table.
\<close>

theorem reveal_pins_peer_commitment:
  assumes "reveal_own_public_nonce sha256 (adaptor_run sha256 cs) i = Ok n"
  shows "\<exists>c. \<forall>ds x io. let t = adaptor_run sha256 (cs @ ds);
      (result, t') = record_peer_commitment sha256 io i x t
    in t' = t \<and> (x \<noteq> c \<longrightarrow> \<not> is_ok result) \<and> (x = c \<and> begin_ok io \<and> commit_ok io \<longrightarrow> is_ok result)"
proof -
  from assms obtain s where s: "required_session sha256 (adaptor_run sha256 cs) i = Ok s"
    "ps_peer_commitment s \<noteq> None"
    by (auto simp: reveal_own_public_nonce_def and_then_Inr split: if_splits)
  obtain r where r: "row_at sr_session_id (adaptor_run sha256 cs) (ai_session_id i) = Some r"
    "row_identity r = i" "s = persisted r"
    using required_session_Ok [OF adaptor_run_inv s(1)] by blast
  with s(2) obtain c where c: "sr_peer_commitment r = Some c" by (auto simp: persisted_def)
  have "let t = adaptor_run sha256 (cs @ ds);
      (result, t') = record_peer_commitment sha256 io i x t
    in t' = t \<and> (x \<noteq> c \<longrightarrow> \<not> is_ok result) \<and> (x = c \<and> begin_ok io \<and> commit_ok io \<longrightarrow> is_ok result)"
    for ds x io
  proof -
    have "sessions_le (adaptor_run sha256 cs) (adaptor_run sha256 (cs @ ds))"
      using sessions.run_le [OF adaptor_run_inv] by simp
    with r(1) obtain r' where
      r': "row_at sr_session_id (adaptor_run sha256 (cs @ ds)) (ai_session_id i) = Some r'" "row_le r r'"
      by (auto dest: table_leD)
    with r c have "row_identity r' = i" "sr_peer_commitment r' = Some c"
      by (simp_all add: row_le_identity row_le_values)
    from commitment_pinned [OF adaptor_run_inv r'(1) this] show ?thesis
      by (simp add: record_peer_commitment_def transact_def end_transaction_def)
  qed
  then show ?thesis by blast
qed

theorem reveal_pins_peer_commitment_witness:
  "reveal_own_public_nonce demo_hash [demo_committed] demo_identity = Ok (replicate 66 8) \<and>
   (\<exists>c. \<forall>x. x \<noteq> c \<longrightarrow> \<not> is_ok (fst (record_peer_commitment demo_hash io_ok demo_identity x [demo_committed])))"
proof -
  have reveal: "reveal_own_public_nonce demo_hash [demo_committed] demo_identity = Ok (replicate 66 8)"
    by (simp add: reveal_own_public_nonce_def demo_required demo_rows_ok demo_rows_identity)
      (simp add: demo_rows persisted_def)
  from reveal_pins_peer_commitment [of demo_hash "take 2 demo_setup", unfolded demo_runs, OF reveal]
  obtain c where "\<forall>ds x io. let t = adaptor_run demo_hash (take 2 demo_setup @ ds);
      (result, t') = record_peer_commitment demo_hash io demo_identity x t
    in t' = t \<and> (x \<noteq> c \<longrightarrow> \<not> is_ok result) \<and> (x = c \<and> begin_ok io \<and> commit_ok io \<longrightarrow> is_ok result)"
    by blast
  from this [THEN spec, of "[]", unfolded append_Nil2 demo_runs Let_def] reveal show ?thesis
    by (auto simp: split_beta)
qed

section \<open>Errors\<close>

fun adaptor_error ::
    "(bytes \<Rightarrow> bytes) \<Rightarrow> session_table \<Rightarrow> tx_io \<times> adaptor_call \<Rightarrow> adaptor_session_journal_error option" where
  "adaptor_error sha256 t (io, CallReserve rv) =
     (case fst (adaptor_reserve sha256 io rv t) of Inl e \<Rightarrow> Some e | Inr _ \<Rightarrow> None)"
| "adaptor_error sha256 t (io, CallPeerCommitment i c) =
     (case fst (record_peer_commitment sha256 io i c t) of Inl e \<Rightarrow> Some e | Inr _ \<Rightarrow> None)"
| "adaptor_error sha256 t (io, CallPeerPublicNonce i n) =
     (case fst (record_verified_peer_public_nonce sha256 io i n t) of Inl e \<Rightarrow> Some e | Inr _ \<Rightarrow> None)"
| "adaptor_error sha256 t (io, CallSign i signer) =
     (case fst (snd (sign_and_persist_partial sha256 io i signer t)) of
        Inl e \<Rightarrow> Some e | Inr _ \<Rightarrow> None)"
| "adaptor_error sha256 t (io, CallPeerPartial i p) =
     (case fst (record_verified_peer_partial sha256 io i p t) of Inl e \<Rightarrow> Some e | Inr _ \<Rightarrow> None)"
| "adaptor_error sha256 t (io, CallPresignature i s) =
     (case fst (record_verified_presignature sha256 io i s t) of Inl e \<Rightarrow> Some e | Inr _ \<Rightarrow> None)"

lemma required_not_corrupt:
  "sessions_inv sha256 t \<Longrightarrow> required_session sha256 t i \<noteq> Err CorruptSession"
  by (auto simp: required_session_inv split: option.splits)

lemma update_not_corrupt: "table_update adaptor_sqlite checks P f t \<noteq> Err CorruptSession"
  by (simp add: table_update_def)

lemma advance_not_corrupt:
  "replay_or_advance durable x phase ready target P f t \<noteq> Err CorruptSession"
  by (auto simp: replay_or_advance_def and_then_Inl ensure_single_update_def table_update_def
      split: option.splits)

lemma transition_bodies_not_corrupt:
  assumes "sessions_inv sha256 t"
  shows "peer_commitment_body sha256 i x t \<noteq> Err CorruptSession"
    "peer_public_nonce_body sha256 i x t \<noteq> Err CorruptSession"
    "peer_partial_body sha256 i x t \<noteq> Err CorruptSession"
    "presignature_body sha256 i x t \<noteq> Err CorruptSession"
  using required_not_corrupt [OF assms]
  by (auto simp: transition_bodies and_then_Inl advance_not_corrupt)

lemma reserve_body_not_corrupt:
  assumes "sessions_inv sha256 t"
  shows "reserve_body sha256 rv t \<noteq> Err CorruptSession"
proof (cases "row_at sr_session_id t (ai_session_id (rv_identity rv))")
  case None
  then show ?thesis
    by (simp add: reserve_body_def load_session_def Let_def and_then_Inl table_insert_def)
next
  case (Some r)
  note ok = inv_row_ok [OF assms Some]
  from Some show ?thesis
    by (simp add: reserve_body_def load_session_def Let_def decode_session_ok [OF ok]
        persisted_integrity [OF ok])
qed

lemma nonces_exchanged_material:
  assumes "row_ok sha256 r" "row_phase r = NoncesExchanged"
  shows "\<exists>m. row_material r = Some m"
  using assms
  by (auto simp: row_ok_def session_checks_def session_shape_def row_phase_def session_phase_parse_def
      row_material_def Let_def)

lemma sign_body_not_corrupt:
  assumes "sessions_inv sha256 t"
  shows "snd (sign_partial_body sha256 i signer t) \<noteq> Err CorruptSession"
proof (cases "required_session sha256 t i")
  case (Inl e)
  with required_not_corrupt [OF assms, of i] show ?thesis by (simp add: sign_partial_body_def)
next
  case (Inr s)
  from required_session_Ok [OF assms Inr] obtain r where r: "s = persisted r" "row_ok sha256 r" .
  show ?thesis
  proof (cases "sr_own_partial r = None \<and> row_phase r = NoncesExchanged")
    case True
    with nonces_exchanged_material [OF r(2)] obtain n p where
      "sr_secret_nonce r = Some n" "sr_peer_public_nonce r = Some p"
      by (auto simp: row_material_def split: option.splits)
    with True r Inr show ?thesis
      by (auto simp: sign_partial_body_def persisted_def row_ok_def and_then_Inl Let_def
          ensure_single_update_def update_not_corrupt split: sum.splits)
  next
    case False
    with Inr r show ?thesis by (auto simp: sign_partial_body_def persisted_def split: option.splits)
  qed
qed

text \<open>
  No call on a reachable session table returns the corrupt-session error: every row the
  journal writes satisfies the table constraints and decodes to a session of the shape of
  its phase.
\<close>

theorem adaptor_never_corrupt:
  "adaptor_error sha256 (adaptor_run sha256 cs) c \<noteq> Some CorruptSession"
proof -
  obtain io call where c: "c = (io, call)" by (cases c) auto
  note inv = adaptor_run_inv [of sha256 cs]
  note bodies = transition_bodies_not_corrupt [OF inv] reserve_body_not_corrupt [OF inv]
    sign_body_not_corrupt [OF inv]
  show ?thesis
    unfolding c
    by (cases call)
      (auto simp: adaptor_reserve_def record_peer_commitment_def record_verified_peer_public_nonce_def
        record_verified_peer_partial_def record_verified_presignature_def sign_step
        identity_validate_def split: sum.splits if_splits dest!: transact_Err simp: bodies)
qed

end
