(* ===== verification/Xmr_Workflow.thy ===== *)
theory Xmr_Workflow
  imports Store_Table Effect_Plan
begin

text \<open>
  The role-local workflow journal of
  \<open>crates/swap-store/src/xmr_effect_workflow_journal.rs\<close>: the catalog of workflow steps,
  the two tables in the supported schema versions 2 and 3, the decoding of their rows and
  every method of the journal. Each method revalidates the database file before and after
  its transaction; what those two checks return is an input of the call.
\<close>

named_theorems workflow_defs \<open>definitions of the workflow operations\<close>

section \<open>Branches, scopes and steps\<close>

datatype xmr_workflow_branch = Branch_Claim | Branch_Refund | Branch_Punish

fun branch_name :: "xmr_workflow_branch \<Rightarrow> string" where
  "branch_name Branch_Claim = ''claim''"
| "branch_name Branch_Refund = ''refund''"
| "branch_name Branch_Punish = ''punish''"

definition branch_parse :: "string \<Rightarrow> store_error + xmr_workflow_branch" where
  "branch_parse v =
     (if v = ''claim'' then Ok Branch_Claim
      else if v = ''refund'' then Ok Branch_Refund
      else if v = ''punish'' then Ok Branch_Punish
      else Err CorruptXmrWorkflowState)"

datatype xmr_workflow_step_scope = Scope_Common | Scope_Claim | Scope_Refund | Scope_Punish

fun scope_name :: "xmr_workflow_step_scope \<Rightarrow> string" where
  "scope_name Scope_Common = ''common''"
| "scope_name Scope_Claim = ''claim''"
| "scope_name Scope_Refund = ''refund''"
| "scope_name Scope_Punish = ''punish''"

definition scope_parse :: "string \<Rightarrow> store_error + xmr_workflow_step_scope" where
  "scope_parse v =
     (if v = ''common'' then Ok Scope_Common
      else if v = ''claim'' then Ok Scope_Claim
      else if v = ''refund'' then Ok Scope_Refund
      else if v = ''punish'' then Ok Scope_Punish
      else Err CorruptXmrWorkflowState)"

fun scope_branch :: "xmr_workflow_step_scope \<Rightarrow> xmr_workflow_branch option" where
  "scope_branch Scope_Common = None"
| "scope_branch Scope_Claim = Some Branch_Claim"
| "scope_branch Scope_Refund = Some Branch_Refund"
| "scope_branch Scope_Punish = Some Branch_Punish"

datatype xmr_workflow_reconciliation_source = LezFinalizedEvent | MoneroWalletTransaction

fun source_name :: "xmr_workflow_reconciliation_source \<Rightarrow> string" where
  "source_name LezFinalizedEvent = ''lez_finalized_event''"
| "source_name MoneroWalletTransaction = ''monero_wallet_transaction''"

definition source_parse :: "string \<Rightarrow> store_error + xmr_workflow_reconciliation_source" where
  "source_parse v =
     (if v = ''lez_finalized_event'' then Ok LezFinalizedEvent
      else if v = ''monero_wallet_transaction'' then Ok MoneroWalletTransaction
      else Err CorruptXmrWorkflowState)"

datatype xmr_workflow_step =
    InitializeLezTag13
  | FundLezTag13
  | FundMonero
  | AuthorizeLezTag14
  | ClaimLezTag15
  | SweepMoneroClaim
  | RefundLezTag16
  | SweepMoneroRefund
  | PunishLezTag17

fun step_name :: "xmr_workflow_step \<Rightarrow> string" where
  "step_name InitializeLezTag13 = ''initialize_lez_tag13''"
| "step_name FundLezTag13 = ''fund_lez_tag13''"
| "step_name FundMonero = ''fund_monero''"
| "step_name AuthorizeLezTag14 = ''authorize_lez_tag14''"
| "step_name ClaimLezTag15 = ''claim_lez_tag15''"
| "step_name SweepMoneroClaim = ''sweep_monero_claim''"
| "step_name RefundLezTag16 = ''refund_lez_tag16''"
| "step_name SweepMoneroRefund = ''sweep_monero_refund''"
| "step_name PunishLezTag17 = ''punish_lez_tag17''"

definition step_parse :: "string \<Rightarrow> store_error + xmr_workflow_step" where
  "step_parse v =
     (if v = ''initialize_lez_tag13'' then Ok InitializeLezTag13
      else if v = ''fund_lez_tag13'' then Ok FundLezTag13
      else if v = ''fund_monero'' then Ok FundMonero
      else if v = ''authorize_lez_tag14'' then Ok AuthorizeLezTag14
      else if v = ''claim_lez_tag15'' then Ok ClaimLezTag15
      else if v = ''sweep_monero_claim'' then Ok SweepMoneroClaim
      else if v = ''refund_lez_tag16'' then Ok RefundLezTag16
      else if v = ''sweep_monero_refund'' then Ok SweepMoneroRefund
      else if v = ''punish_lez_tag17'' then Ok PunishLezTag17
      else Err CorruptXmrWorkflowState)"

fun step_role :: "xmr_workflow_step \<Rightarrow> participant" where
  "step_role FundMonero = Maker"
| "step_role ClaimLezTag15 = Maker"
| "step_role SweepMoneroRefund = Maker"
| "step_role PunishLezTag17 = Maker"
| "step_role InitializeLezTag13 = Taker"
| "step_role FundLezTag13 = Taker"
| "step_role AuthorizeLezTag14 = Taker"
| "step_role SweepMoneroClaim = Taker"
| "step_role RefundLezTag16 = Taker"

fun step_source :: "xmr_workflow_step \<Rightarrow> xmr_workflow_reconciliation_source" where
  "step_source FundMonero = MoneroWalletTransaction"
| "step_source SweepMoneroClaim = MoneroWalletTransaction"
| "step_source SweepMoneroRefund = MoneroWalletTransaction"
| "step_source InitializeLezTag13 = LezFinalizedEvent"
| "step_source FundLezTag13 = LezFinalizedEvent"
| "step_source AuthorizeLezTag14 = LezFinalizedEvent"
| "step_source ClaimLezTag15 = LezFinalizedEvent"
| "step_source RefundLezTag16 = LezFinalizedEvent"
| "step_source PunishLezTag17 = LezFinalizedEvent"

fun step_scope :: "xmr_workflow_step \<Rightarrow> xmr_workflow_step_scope" where
  "step_scope InitializeLezTag13 = Scope_Common"
| "step_scope FundLezTag13 = Scope_Common"
| "step_scope FundMonero = Scope_Common"
| "step_scope AuthorizeLezTag14 = Scope_Claim"
| "step_scope ClaimLezTag15 = Scope_Claim"
| "step_scope SweepMoneroClaim = Scope_Claim"
| "step_scope RefundLezTag16 = Scope_Refund"
| "step_scope SweepMoneroRefund = Scope_Refund"
| "step_scope PunishLezTag17 = Scope_Punish"

fun predecessor :: "xmr_workflow_step \<Rightarrow> xmr_workflow_step option" where
  "predecessor InitializeLezTag13 = None"
| "predecessor FundMonero = None"
| "predecessor FundLezTag13 = Some InitializeLezTag13"
| "predecessor AuthorizeLezTag14 = Some FundLezTag13"
| "predecessor RefundLezTag16 = Some FundLezTag13"
| "predecessor ClaimLezTag15 = Some FundMonero"
| "predecessor SweepMoneroRefund = Some FundMonero"
| "predecessor PunishLezTag17 = Some FundMonero"
| "predecessor SweepMoneroClaim = Some AuthorizeLezTag14"

datatype xmr_workflow_decision = InvokeOnce | Workflow_ObserveOnly | Workflow_Complete

datatype step_state = Step_Prepared | Step_Started | Step_Succeeded | Step_Unknown

fun step_state_name :: "step_state \<Rightarrow> string" where
  "step_state_name Step_Prepared = ''prepared''"
| "step_state_name Step_Started = ''started''"
| "step_state_name Step_Succeeded = ''succeeded''"
| "step_state_name Step_Unknown = ''unknown''"

definition step_state_parse :: "string \<Rightarrow> store_error + step_state" where
  "step_state_parse v =
     (if v = ''prepared'' then Ok Step_Prepared
      else if v = ''started'' then Ok Step_Started
      else if v = ''succeeded'' then Ok Step_Succeeded
      else if v = ''unknown'' then Ok Step_Unknown
      else Err CorruptXmrWorkflowState)"

definition parse_role :: "string \<Rightarrow> store_error + participant" where
  "parse_role v =
     (if v = ''maker'' then Ok Maker
      else if v = ''taker'' then Ok Taker
      else Err CorruptXmrWorkflowState)"

section \<open>Identities, evidence and snapshots\<close>

record xmr_workflow_identity =
  wi_swap_id :: swap_id
  wi_local_role :: participant
  wi_run_id :: string
  wi_agreement_commitment :: bytes
  wi_activation_commitment :: bytes
  wi_authority_sha256 :: bytes

definition all_zero :: "bytes \<Rightarrow> bool" where
  "all_zero b \<longleftrightarrow> list_all (\<lambda>x. x = 0) b"

text \<open>\<open>is_ascii_hexdigit\<close> without \<open>is_ascii_uppercase\<close>.\<close>

definition is_lower_hexdigit :: "char \<Rightarrow> bool" where
  "is_lower_hexdigit c \<longleftrightarrow> is_ascii_digit c \<or> 97 \<le> (of_char c :: nat) \<and> (of_char c :: nat) \<le> 102"

definition validate_identity :: "xmr_workflow_identity \<Rightarrow> store_error + unit" where
  "validate_identity i =
     (let swap = swap_id_str (wi_swap_id i)
      in if length swap \<noteq> 64 \<or> \<not> list_all is_lower_hexdigit swap \<or>
            wi_run_id i = [] \<or> length (wi_run_id i) > 128 \<or>
            \<not> list_all is_ascii_graphic (wi_run_id i) \<or>
            all_zero (wi_agreement_commitment i) \<or> all_zero (wi_activation_commitment i) \<or>
            all_zero (wi_authority_sha256 i)
         then Err InvalidXmrWorkflowIdentity else Ok ())"

definition workflow_identity_new ::
    "swap_id \<Rightarrow> participant \<Rightarrow> string \<Rightarrow> bytes \<Rightarrow> bytes \<Rightarrow> bytes
     \<Rightarrow> store_error + xmr_workflow_identity" where
  "workflow_identity_new swap role run_id agreement activation authority =
     (let i = \<lparr>wi_swap_id = swap, wi_local_role = role, wi_run_id = run_id,
               wi_agreement_commitment = agreement, wi_activation_commitment = activation,
               wi_authority_sha256 = authority\<rparr>
      in and_then (validate_identity i) (\<lambda>_. Ok i))"

record xmr_workflow_reconciliation =
  re_effect_evidence_sha256 :: bytes
  re_tool_plan_identity_sha256 :: bytes
  re_source :: xmr_workflow_reconciliation_source

definition reconciliation_new ::
    "bytes \<Rightarrow> bytes \<Rightarrow> xmr_workflow_reconciliation_source
     \<Rightarrow> store_error + xmr_workflow_reconciliation" where
  "reconciliation_new effect tool src =
     (if all_zero effect \<or> all_zero tool then Err InvalidXmrWorkflowReconciliation
      else Ok \<lparr>re_effect_evidence_sha256 = effect, re_tool_plan_identity_sha256 = tool,
               re_source = src\<rparr>)"

record step_snapshot =
  ss_step :: xmr_workflow_step
  ss_role :: participant
  ss_scope :: xmr_workflow_step_scope
  ss_state :: step_state
  ss_attempts :: u32
  ss_revision :: u64
  ss_reconciliation :: "xmr_workflow_reconciliation option"

section \<open>The tables\<close>

record identity_row =
  ir_singleton_id :: int
  ir_swap_id :: string
  ir_local_role :: string
  ir_run_id :: string
  ir_agreement_commitment :: bytes
  ir_activation_commitment :: bytes
  ir_authority_sha256 :: bytes
  ir_selected_branch :: "string option"
  ir_revision :: int

record step_row =
  wr_step :: string
  wr_singleton_id :: int
  wr_local_role :: string
  wr_scope :: string
  wr_state :: string
  wr_attempt_count :: int
  wr_revision :: int
  wr_effect_evidence_sha256 :: "bytes option"
  wr_tool_plan_identity_sha256 :: "bytes option"
  wr_reconciliation_source :: "string option"

record xmr_journal =
  xj_version :: nat
  xj_identity :: "identity_row list"
  xj_steps :: "step_row list"

text \<open>\<open>create_schema_v3\<close> adds the punish branch to the constraints of version 2.\<close>

definition branch_names :: "nat \<Rightarrow> string set" where
  "branch_names version = {''claim'', ''refund''} \<union> (if version \<ge> 3 then {''punish''} else {})"

definition step_names :: "nat \<Rightarrow> string set" where
  "step_names version =
     {''initialize_lez_tag13'', ''fund_lez_tag13'', ''fund_monero'', ''authorize_lez_tag14'',
      ''claim_lez_tag15'', ''sweep_monero_claim'', ''refund_lez_tag16'', ''sweep_monero_refund''} \<union>
     (if version \<ge> 3 then {''punish_lez_tag17''} else {})"

definition identity_checks :: "nat \<Rightarrow> identity_row \<Rightarrow> bool" where
  "identity_checks version r \<longleftrightarrow>
     ir_singleton_id r = 1 \<and> length (ir_swap_id r) = 64 \<and>
     ir_local_role r \<in> {''maker'', ''taker''} \<and>
     1 \<le> length (ir_run_id r) \<and> length (ir_run_id r) \<le> 128 \<and>
     length (ir_agreement_commitment r) = 32 \<and> length (ir_activation_commitment r) = 32 \<and>
     length (ir_authority_sha256 r) = 32 \<and>
     (case ir_selected_branch r of
        None \<Rightarrow> ir_revision r = 0
      | Some b \<Rightarrow> b \<in> branch_names version \<and> ir_revision r = 1)"

text \<open>A \<open>CHECK\<close> that evaluates to \<open>NULL\<close> holds, so the length of an absent digest is not
  constrained.\<close>

definition step_checks :: "nat \<Rightarrow> step_row \<Rightarrow> bool" where
  "step_checks version r \<longleftrightarrow>
     wr_step r \<in> step_names version \<and> wr_singleton_id r = 1 \<and>
     wr_local_role r \<in> {''maker'', ''taker''} \<and>
     wr_scope r \<in> {''common''} \<union> branch_names version \<and>
     wr_state r \<in> {''prepared'', ''started'', ''succeeded'', ''unknown''} \<and>
     wr_attempt_count r \<in> {0, 1} \<and>
     (wr_state r = ''prepared'' \<and> wr_attempt_count r = 0 \<and> wr_revision r = 0 \<or>
      wr_state r = ''started'' \<and> wr_attempt_count r = 1 \<and> wr_revision r = 1 \<or>
      wr_state r = ''unknown'' \<and> wr_attempt_count r = 1 \<and> wr_revision r = 2 \<or>
      wr_state r = ''succeeded'' \<and> wr_attempt_count r = 1 \<and> wr_revision r \<in> {2, 3}) \<and>
     (case wr_reconciliation_source r of
        None \<Rightarrow> True
      | Some s \<Rightarrow> s \<in> {''lez_finalized_event'', ''monero_wallet_transaction''}) \<and>
     (wr_state r \<noteq> ''succeeded'' \<and> wr_effect_evidence_sha256 r = None \<and>
        wr_tool_plan_identity_sha256 r = None \<and> wr_reconciliation_source r = None \<or>
      wr_state r = ''succeeded'' \<and>
        (case wr_effect_evidence_sha256 r of None \<Rightarrow> True | Some d \<Rightarrow> length d = 32) \<and>
        (case wr_tool_plan_identity_sha256 r of None \<Rightarrow> True | Some d \<Rightarrow> length d = 32) \<and>
        wr_reconciliation_source r \<noteq> None)"

text \<open>The statements on the two tables; a step row refers to the identity row.\<close>

definition insert_identity :: "identity_row \<Rightarrow> xmr_journal \<Rightarrow> store_error + xmr_journal" where
  "insert_identity r j =
     and_then (table_insert Sqlite (identity_checks (xj_version j))
                 (\<lambda>r r'. ir_singleton_id r = ir_singleton_id r') r (xj_identity j))
       (\<lambda>t. Ok (j\<lparr>xj_identity := t\<rparr>))"

definition insert_step :: "step_row \<Rightarrow> xmr_journal \<Rightarrow> store_error + xmr_journal" where
  "insert_step r j =
     (if \<not> list_ex (\<lambda>i. ir_singleton_id i = wr_singleton_id r) (xj_identity j) then Err Sqlite
      else and_then (table_insert Sqlite (step_checks (xj_version j))
                       (\<lambda>r r'. wr_step r = wr_step r') r (xj_steps j))
             (\<lambda>t. Ok (j\<lparr>xj_steps := t\<rparr>)))"

definition update_identity ::
    "(identity_row \<Rightarrow> bool) \<Rightarrow> (identity_row \<Rightarrow> identity_row) \<Rightarrow> xmr_journal
     \<Rightarrow> store_error + (nat \<times> xmr_journal)" where
  "update_identity P f j =
     and_then (table_update Sqlite (identity_checks (xj_version j)) P f (xj_identity j))
       (\<lambda>(n, t). Ok (n, j\<lparr>xj_identity := t\<rparr>))"

definition update_steps ::
    "(step_row \<Rightarrow> bool) \<Rightarrow> (step_row \<Rightarrow> step_row) \<Rightarrow> xmr_journal
     \<Rightarrow> store_error + (nat \<times> xmr_journal)" where
  "update_steps P f j =
     and_then (table_update Sqlite (step_checks (xj_version j)) P f (xj_steps j))
       (\<lambda>(n, t). Ok (n, j\<lparr>xj_steps := t\<rparr>))"

section \<open>Decoding\<close>

definition digest32 :: "bytes \<Rightarrow> store_error + bytes" where
  "digest32 b = (if length b = 32 then Ok b else Err CorruptXmrWorkflowState)"

definition corrupt :: "store_error + 'a \<Rightarrow> store_error + 'a" where
  "corrupt r = (case r of Inl _ \<Rightarrow> Err CorruptXmrWorkflowState | Inr v \<Rightarrow> Ok v)"

definition validate_identity_count :: "xmr_journal \<Rightarrow> store_error + unit" where
  "validate_identity_count j =
     (if length (xj_identity j) \<le> 1 then Ok () else Err CorruptXmrWorkflowState)"

definition decode_identity ::
    "identity_row \<Rightarrow> store_error + (xmr_workflow_identity \<times> xmr_workflow_branch option \<times> u64)" where
  "decode_identity r =
     and_then (case swap_id_new (ir_swap_id r) of
                 Inl _ \<Rightarrow> Err CorruptXmrWorkflowState | Inr s \<Rightarrow> Ok s) (\<lambda>swap.
     and_then (parse_role (ir_local_role r)) (\<lambda>role.
     and_then (digest32 (ir_agreement_commitment r)) (\<lambda>agreement.
     and_then (digest32 (ir_activation_commitment r)) (\<lambda>activation.
     and_then (digest32 (ir_authority_sha256 r)) (\<lambda>authority.
     and_then (corrupt (workflow_identity_new swap role (ir_run_id r) agreement activation authority))
       (\<lambda>identity.
     and_then (case ir_selected_branch r of
                 None \<Rightarrow> Ok None
               | Some b \<Rightarrow> and_then (branch_parse b) (\<lambda>b. Ok (Some b))) (\<lambda>branch.
     and_then (to_u64 CorruptXmrWorkflowState (ir_revision r)) (\<lambda>revision.
       if (case branch of None \<Rightarrow> revision = 0 | Some _ \<Rightarrow> revision = 1)
       then Ok (identity, branch, revision) else Err CorruptXmrWorkflowState))))))))"

definition load_identity ::
    "xmr_journal \<Rightarrow> store_error + (xmr_workflow_identity \<times> xmr_workflow_branch option \<times> u64) option" where
  "load_identity j =
     and_then (validate_identity_count j) (\<lambda>_.
       case row_at ir_singleton_id (xj_identity j) 1 of
         None \<Rightarrow> Ok None
       | Some r \<Rightarrow> and_then (decode_identity r) (\<lambda>v. Ok (Some v)))"

definition decode_reconciliation ::
    "step_row \<Rightarrow> store_error + xmr_workflow_reconciliation option" where
  "decode_reconciliation r =
     (case (wr_effect_evidence_sha256 r, wr_tool_plan_identity_sha256 r, wr_reconciliation_source r) of
        (None, None, None) \<Rightarrow> Ok None
      | (Some effect, Some tool, Some src) \<Rightarrow>
          and_then (digest32 effect) (\<lambda>effect.
          and_then (digest32 tool) (\<lambda>tool.
          and_then (source_parse src) (\<lambda>src.
          and_then (corrupt (reconciliation_new effect tool src)) (\<lambda>v. Ok (Some v)))))
      | _ \<Rightarrow> Err CorruptXmrWorkflowState)"

definition snapshot_shape :: "step_snapshot \<Rightarrow> bool" where
  "snapshot_shape s =
     (case ss_state s of
        Step_Prepared \<Rightarrow> ss_attempts s = 0 \<and> ss_revision s = 0 \<and> ss_reconciliation s = None
      | Step_Started \<Rightarrow> ss_attempts s = 1 \<and> ss_revision s = 1 \<and> ss_reconciliation s = None
      | Step_Unknown \<Rightarrow> ss_attempts s = 1 \<and> ss_revision s = 2 \<and> ss_reconciliation s = None
      | Step_Succeeded \<Rightarrow> ss_attempts s = 1 \<and> ss_revision s \<in> {2, 3} \<and> ss_reconciliation s \<noteq> None)"

definition decode_step :: "step_row \<Rightarrow> store_error + step_snapshot" where
  "decode_step r =
     and_then (decode_reconciliation r) (\<lambda>reconciliation.
     and_then (step_parse (wr_step r)) (\<lambda>step.
     and_then (parse_role (wr_local_role r)) (\<lambda>role.
     and_then (scope_parse (wr_scope r)) (\<lambda>scope.
     and_then (step_state_parse (wr_state r)) (\<lambda>st.
     and_then (to_u32 CorruptXmrWorkflowState (wr_attempt_count r)) (\<lambda>attempts.
     and_then (to_u64 CorruptXmrWorkflowState (wr_revision r)) (\<lambda>revision.
       let s = \<lparr>ss_step = step, ss_role = role, ss_scope = scope, ss_state = st,
                ss_attempts = attempts, ss_revision = revision,
                ss_reconciliation = reconciliation\<rparr>
       in if snapshot_shape s then Ok s else Err CorruptXmrWorkflowState)))))))"

definition load_step ::
    "xmr_journal \<Rightarrow> xmr_workflow_step \<Rightarrow> store_error + step_snapshot option" where
  "load_step j expected =
     (case row_at wr_step (xj_steps j) (step_name expected) of
        None \<Rightarrow> Ok None
      | Some r \<Rightarrow> and_then (decode_step r) (\<lambda>s. Ok (Some s)))"

section \<open>Checks\<close>

definition ensure_identity ::
    "xmr_workflow_identity \<Rightarrow> xmr_workflow_identity \<Rightarrow> store_error + unit" where
  [workflow_defs]: "ensure_identity requested durable =
     and_then (validate_identity requested) (\<lambda>_.
       if requested = durable then Ok () else Err XmrWorkflowConflict)"

definition require_identity ::
    "xmr_journal \<Rightarrow> store_error + (xmr_workflow_identity \<times> xmr_workflow_branch option \<times> u64)" where
  [workflow_defs]: "require_identity j =
     and_then (load_identity j) (\<lambda>v.
       case v of None \<Rightarrow> Err MissingXmrWorkflowIdentity | Some v \<Rightarrow> Ok v)"

definition ensure_scope ::
    "xmr_journal \<Rightarrow> xmr_workflow_identity \<Rightarrow> xmr_workflow_step_scope \<Rightarrow> store_error + unit" where
  [workflow_defs]: "ensure_scope j identity expected =
     and_then (require_identity j) (\<lambda>(durable, branch, revision).
     and_then (ensure_identity identity durable) (\<lambda>_.
       if (case scope_branch expected of
             None \<Rightarrow> (case branch of None \<Rightarrow> revision = 0 | Some _ \<Rightarrow> revision = 1)
           | Some b \<Rightarrow> branch = Some b \<and> revision = 1)
       then Ok () else Err XmrWorkflowConflict))"

definition require_step ::
    "xmr_journal \<Rightarrow> xmr_workflow_step \<Rightarrow> store_error + step_snapshot" where
  [workflow_defs]: "require_step j step =
     and_then (load_step j step) (\<lambda>v.
       case v of None \<Rightarrow> Err MissingXmrWorkflowStep | Some s \<Rightarrow> Ok s)"

fun common_steps :: "participant \<Rightarrow> xmr_workflow_step list" where
  "common_steps Maker = [FundMonero]"
| "common_steps Taker = [InitializeLezTag13, FundLezTag13]"

fun ensure_steps_common ::
    "xmr_journal \<Rightarrow> participant \<Rightarrow> xmr_workflow_step list \<Rightarrow> store_error + unit" where
  "ensure_steps_common j role [] = Ok ()"
| "ensure_steps_common j role (step # steps) =
     and_then (require_step j step) (\<lambda>s.
       if ss_role s \<noteq> role \<or> ss_scope s \<noteq> Scope_Common then Err CorruptXmrWorkflowState
       else ensure_steps_common j role steps)"

definition ensure_common_prepared :: "xmr_journal \<Rightarrow> participant \<Rightarrow> store_error + unit" where
  "ensure_common_prepared j role = ensure_steps_common j role (common_steps role)"

definition ensure_predecessor :: "xmr_journal \<Rightarrow> xmr_workflow_step \<Rightarrow> store_error + unit" where
  [workflow_defs]: "ensure_predecessor j step =
     (case predecessor step of
        None \<Rightarrow> Ok ()
      | Some p \<Rightarrow>
          and_then (require_step j p) (\<lambda>s.
            if ss_state s = Step_Succeeded then Ok () else Err XmrWorkflowConflict))"

definition validate_reconciliation ::
    "xmr_workflow_step \<Rightarrow> xmr_workflow_reconciliation \<Rightarrow> store_error + unit" where
  "validate_reconciliation step r =
     (if re_source r \<noteq> step_source step \<or> all_zero (re_effect_evidence_sha256 r) \<or>
         all_zero (re_tool_plan_identity_sha256 r)
      then Err InvalidXmrWorkflowReconciliation else Ok ())"

definition ensure_step_role ::
    "xmr_workflow_identity \<Rightarrow> xmr_workflow_step \<Rightarrow> store_error + unit" where
  [workflow_defs]: "ensure_step_role identity step =
     and_then (validate_identity identity) (\<lambda>_.
       if wi_local_role identity = step_role step then Ok () else Err XmrWorkflowConflict)"

definition validate_step ::
    "xmr_workflow_identity \<Rightarrow> xmr_workflow_step \<Rightarrow> step_snapshot \<Rightarrow> store_error + unit" where
  [workflow_defs]: "validate_step identity expected s =
     (if ss_step s = expected \<and> ss_role s = wi_local_role identity \<and>
         ss_role s = step_role expected \<and> ss_scope s = step_scope expected \<and>
         (case ss_reconciliation s of None \<Rightarrow> True | Some r \<Rightarrow> re_source r = step_source expected)
      then Ok () else Err CorruptXmrWorkflowState)"

section \<open>Methods\<close>

record storage_io =
  io_transaction :: tx_io
  storage_before :: "store_error option"
  storage_after :: "store_error option"

definition with_storage ::
    "storage_io \<Rightarrow> (xmr_journal \<Rightarrow> store_error + ('a \<times> xmr_journal)) \<Rightarrow> xmr_journal
     \<Rightarrow> (store_error + 'a) \<times> xmr_journal" where
  "with_storage io body j =
     (case storage_before io of
        Some e \<Rightarrow> (Err e, j)
      | None \<Rightarrow>
          (case transact Sqlite (io_transaction io) body j of
             (Inl e, j') \<Rightarrow> (Err e, j')
           | (Inr v, j') \<Rightarrow>
               (case storage_after io of Some e \<Rightarrow> (Err e, j') | None \<Rightarrow> (Ok v, j'))))"

definition fresh_identity_row :: "xmr_workflow_identity \<Rightarrow> identity_row" where
  "fresh_identity_row i =
     \<lparr>ir_singleton_id = 1, ir_swap_id = swap_id_str (wi_swap_id i),
      ir_local_role = participant_name (wi_local_role i), ir_run_id = wi_run_id i,
      ir_agreement_commitment = wi_agreement_commitment i,
      ir_activation_commitment = wi_activation_commitment i,
      ir_authority_sha256 = wi_authority_sha256 i,
      ir_selected_branch = None, ir_revision = 0\<rparr>"

definition initialize_body ::
    "xmr_workflow_identity \<Rightarrow> xmr_journal \<Rightarrow> store_error + (unit \<times> xmr_journal)" where
  "initialize_body identity j =
     and_then (load_identity j) (\<lambda>v.
       case v of
         None \<Rightarrow> and_then (insert_identity (fresh_identity_row identity) j) (\<lambda>j'. Ok ((), j'))
       | Some (durable, _, _) \<Rightarrow>
           if durable = identity then Ok ((), j) else Err XmrWorkflowConflict)"

definition workflow_initialize ::
    "storage_io \<Rightarrow> xmr_workflow_identity \<Rightarrow> xmr_journal \<Rightarrow> (store_error + unit) \<times> xmr_journal" where
  "workflow_initialize io identity j =
     (case validate_identity identity of
        Inl e \<Rightarrow> (Err e, j)
      | Inr _ \<Rightarrow> with_storage io (initialize_body identity) j)"

definition select_branch_body ::
    "xmr_workflow_identity \<Rightarrow> xmr_workflow_branch \<Rightarrow> xmr_journal
     \<Rightarrow> store_error + (unit \<times> xmr_journal)" where
  "select_branch_body identity branch j =
     and_then (require_identity j) (\<lambda>(durable, selected, revision).
     and_then (ensure_identity identity durable) (\<lambda>_.
       case selected of
         None \<Rightarrow>
           if revision \<noteq> 0 then Err CorruptXmrWorkflowState
           else
             and_then (ensure_common_prepared j (wi_local_role identity)) (\<lambda>_.
             and_then (update_identity
                 (\<lambda>r. ir_singleton_id r = 1 \<and> ir_selected_branch r = None \<and> ir_revision r = 0)
                 (\<lambda>r. r\<lparr>ir_selected_branch := Some (branch_name branch), ir_revision := 1\<rparr>) j)
               (\<lambda>(changed, j').
                 if changed \<noteq> 1 then Err XmrWorkflowConflict else Ok ((), j')))
       | Some current \<Rightarrow>
           if revision \<noteq> 1 then Err CorruptXmrWorkflowState
           else if current = branch then Ok ((), j) else Err XmrWorkflowConflict))"

definition select_branch ::
    "storage_io \<Rightarrow> xmr_workflow_identity \<Rightarrow> xmr_workflow_branch \<Rightarrow> xmr_journal
     \<Rightarrow> (store_error + unit) \<times> xmr_journal" where
  "select_branch io identity branch = with_storage io (select_branch_body identity branch)"

definition prepared_step_row :: "xmr_workflow_identity \<Rightarrow> xmr_workflow_step \<Rightarrow> step_row" where
  "prepared_step_row identity step =
     \<lparr>wr_step = step_name step, wr_singleton_id = 1,
      wr_local_role = participant_name (wi_local_role identity),
      wr_scope = scope_name (step_scope step), wr_state = ''prepared'', wr_attempt_count = 0,
      wr_revision = 0, wr_effect_evidence_sha256 = None, wr_tool_plan_identity_sha256 = None,
      wr_reconciliation_source = None\<rparr>"

definition prepare_step_body ::
    "xmr_workflow_identity \<Rightarrow> xmr_workflow_step \<Rightarrow> xmr_journal
     \<Rightarrow> store_error + (unit \<times> xmr_journal)" where
  "prepare_step_body identity step j =
     and_then (load_step j step) (\<lambda>v.
       case v of
         Some s \<Rightarrow> and_then (validate_step identity step s) (\<lambda>_. Ok ((), j))
       | None \<Rightarrow>
           and_then (ensure_scope j identity (step_scope step)) (\<lambda>_.
           and_then (ensure_predecessor j step) (\<lambda>_.
           and_then (insert_step (prepared_step_row identity step) j) (\<lambda>j'. Ok ((), j')))))"

definition role_guarded ::
    "xmr_workflow_identity \<Rightarrow> xmr_workflow_step \<Rightarrow> (store_error + 'a) \<times> xmr_journal \<Rightarrow> xmr_journal
     \<Rightarrow> (store_error + 'a) \<times> xmr_journal" where
  "role_guarded identity step r j =
     (case ensure_step_role identity step of Inl e \<Rightarrow> (Err e, j) | Inr _ \<Rightarrow> r)"

definition prepare_step ::
    "storage_io \<Rightarrow> xmr_workflow_identity \<Rightarrow> xmr_workflow_step \<Rightarrow> xmr_journal
     \<Rightarrow> (store_error + unit) \<times> xmr_journal" where
  "prepare_step io identity step j =
     role_guarded identity step (with_storage io (prepare_step_body identity step) j) j"

text \<open>The prologue of every method on an existing step.\<close>

definition scoped_step ::
    "xmr_workflow_identity \<Rightarrow> xmr_workflow_step \<Rightarrow> xmr_journal \<Rightarrow> store_error + step_snapshot" where
  "scoped_step identity step j =
     and_then (ensure_scope j identity (step_scope step)) (\<lambda>_.
     and_then (require_step j step) (\<lambda>s.
     and_then (validate_step identity step s) (\<lambda>_. Ok s)))"

definition authorize_once_body ::
    "xmr_workflow_identity \<Rightarrow> xmr_workflow_step \<Rightarrow> xmr_journal
     \<Rightarrow> store_error + (xmr_workflow_decision \<times> xmr_journal)" where
  "authorize_once_body identity step j =
     and_then (scoped_step identity step j) (\<lambda>s.
       case ss_state s of
         Step_Prepared \<Rightarrow>
           and_then (update_steps
               (\<lambda>r. wr_step r = step_name step \<and> wr_state r = ''prepared'' \<and>
                  wr_attempt_count r = 0 \<and> wr_revision r = 0)
               (\<lambda>r. r\<lparr>wr_state := ''started'', wr_attempt_count := 1, wr_revision := 1\<rparr>) j)
             (\<lambda>(changed, j').
               if changed \<noteq> 1 then Err XmrWorkflowConflict else Ok (InvokeOnce, j'))
       | Step_Started \<Rightarrow> Ok (Workflow_ObserveOnly, j)
       | Step_Unknown \<Rightarrow> Ok (Workflow_ObserveOnly, j)
       | Step_Succeeded \<Rightarrow> Ok (Workflow_Complete, j))"

definition authorize_once ::
    "storage_io \<Rightarrow> xmr_workflow_identity \<Rightarrow> xmr_workflow_step \<Rightarrow> xmr_journal
     \<Rightarrow> (store_error + xmr_workflow_decision) \<times> xmr_journal" where
  "authorize_once io identity step j =
     role_guarded identity step (with_storage io (authorize_once_body identity step) j) j"

definition mark_unknown_body ::
    "xmr_workflow_identity \<Rightarrow> xmr_workflow_step \<Rightarrow> xmr_journal
     \<Rightarrow> store_error + (unit \<times> xmr_journal)" where
  "mark_unknown_body identity step j =
     and_then (scoped_step identity step j) (\<lambda>s.
       case ss_state s of
         Step_Started \<Rightarrow>
           and_then (update_steps
               (\<lambda>r. wr_step r = step_name step \<and> wr_state r = ''started'' \<and>
                  wr_attempt_count r = 1 \<and> wr_revision r = 1)
               (\<lambda>r. r\<lparr>wr_state := ''unknown'', wr_revision := 2\<rparr>) j)
             (\<lambda>(changed, j'). if changed \<noteq> 1 then Err XmrWorkflowConflict else Ok ((), j'))
       | Step_Unknown \<Rightarrow> Ok ((), j)
       | _ \<Rightarrow> Err XmrWorkflowConflict)"

definition mark_unknown ::
    "storage_io \<Rightarrow> xmr_workflow_identity \<Rightarrow> xmr_workflow_step \<Rightarrow> xmr_journal
     \<Rightarrow> (store_error + unit) \<times> xmr_journal" where
  "mark_unknown io identity step j =
     role_guarded identity step (with_storage io (mark_unknown_body identity step) j) j"

definition mark_succeeded ::
    "xmr_workflow_identity \<Rightarrow> xmr_workflow_step \<Rightarrow> xmr_journal \<Rightarrow> (store_error + unit) \<times> xmr_journal" where
  "mark_succeeded identity step j = role_guarded identity step (Err XmrWorkflowConflict, j) j"

definition reconcile_succeeded_body ::
    "xmr_workflow_identity \<Rightarrow> xmr_workflow_step \<Rightarrow> xmr_workflow_reconciliation \<Rightarrow> xmr_journal
     \<Rightarrow> store_error + (unit \<times> xmr_journal)" where
  "reconcile_succeeded_body identity step reconciliation j =
     and_then (scoped_step identity step j) (\<lambda>s.
       if ss_state s \<in> {Step_Started, Step_Unknown} then
         and_then (to_i64 CorruptXmrWorkflowState (ss_revision s)) (\<lambda>expected_revision.
         and_then (update_steps
             (\<lambda>r. wr_step r = step_name step \<and> wr_state r = step_state_name (ss_state s) \<and>
                wr_attempt_count r = 1 \<and> wr_revision r = expected_revision \<and>
                wr_effect_evidence_sha256 r = None \<and> wr_tool_plan_identity_sha256 r = None \<and>
                wr_reconciliation_source r = None)
             (\<lambda>r. r\<lparr>wr_state := ''succeeded'',
                    wr_revision := (if ss_state s = Step_Started then 2 else 3),
                    wr_effect_evidence_sha256 := Some (re_effect_evidence_sha256 reconciliation),
                    wr_tool_plan_identity_sha256 := Some (re_tool_plan_identity_sha256 reconciliation),
                    wr_reconciliation_source := Some (source_name (re_source reconciliation))\<rparr>) j)
           (\<lambda>(changed, j'). if changed \<noteq> 1 then Err XmrWorkflowConflict else Ok ((), j')))
       else if ss_state s = Step_Succeeded \<and> ss_reconciliation s = Some reconciliation
       then Ok ((), j)
       else Err XmrWorkflowConflict)"

definition reconcile_succeeded ::
    "storage_io \<Rightarrow> xmr_workflow_identity \<Rightarrow> xmr_workflow_step \<Rightarrow> xmr_workflow_reconciliation
     \<Rightarrow> xmr_journal \<Rightarrow> (store_error + unit) \<times> xmr_journal" where
  "reconcile_succeeded io identity step reconciliation j =
     role_guarded identity step
       (case validate_reconciliation step reconciliation of
          Inl e \<Rightarrow> (Err e, j)
        | Inr _ \<Rightarrow> with_storage io (reconcile_succeeded_body identity step reconciliation) j) j"

text \<open>The read-only methods. They check the file before and after reading.\<close>

definition read_only ::
    "storage_io \<Rightarrow> store_error + 'a \<Rightarrow> store_error + 'a" where
  "read_only io r =
     (case storage_before io of
        Some e \<Rightarrow> Err e
      | None \<Rightarrow> and_then r (\<lambda>v. case storage_after io of Some e \<Rightarrow> Err e | None \<Rightarrow> Ok v))"

definition validate_initialized ::
    "storage_io \<Rightarrow> xmr_workflow_identity \<Rightarrow> xmr_journal \<Rightarrow> store_error + unit" where
  "validate_initialized io identity j =
     and_then (validate_identity identity) (\<lambda>_.
       read_only io (and_then (require_identity j) (\<lambda>(durable, _, _).
         ensure_identity identity durable)))"

definition selected_branch ::
    "storage_io \<Rightarrow> xmr_workflow_identity \<Rightarrow> xmr_journal \<Rightarrow> store_error + xmr_workflow_branch option" where
  "selected_branch io identity j =
     and_then (validate_identity identity) (\<lambda>_.
       read_only io (and_then (require_identity j) (\<lambda>(durable, selected, _).
         and_then (ensure_identity identity durable) (\<lambda>_. Ok selected))))"

definition validate_observation_eligible ::
    "storage_io \<Rightarrow> xmr_workflow_identity \<Rightarrow> xmr_workflow_step \<Rightarrow> xmr_journal \<Rightarrow> store_error + unit" where
  "validate_observation_eligible io identity step j =
     and_then (ensure_step_role identity step) (\<lambda>_.
       read_only io (and_then (scoped_step identity step j) (\<lambda>s.
         if ss_state s \<in> {Step_Started, Step_Unknown} then Ok () else Err XmrWorkflowConflict)))"

definition requires_invocation_preflight ::
    "storage_io \<Rightarrow> xmr_workflow_identity \<Rightarrow> xmr_workflow_step \<Rightarrow> xmr_journal \<Rightarrow> store_error + bool" where
  "requires_invocation_preflight io identity step j =
     and_then (ensure_step_role identity step) (\<lambda>_.
       read_only io (and_then (scoped_step identity step j) (\<lambda>s. Ok (ss_state s = Step_Prepared))))"

definition step_revision ::
    "storage_io \<Rightarrow> xmr_workflow_identity \<Rightarrow> xmr_workflow_step \<Rightarrow> xmr_journal \<Rightarrow> store_error + u64" where
  "step_revision io identity step j =
     and_then (ensure_step_role identity step) (\<lambda>_.
       read_only io (and_then (scoped_step identity step j) (\<lambda>s. Ok (ss_revision s))))"

definition load_reconciliation ::
    "storage_io \<Rightarrow> xmr_workflow_identity \<Rightarrow> xmr_workflow_step \<Rightarrow> xmr_journal
     \<Rightarrow> store_error + xmr_workflow_reconciliation option" where
  "load_reconciliation io identity step j =
     and_then (ensure_step_role identity step) (\<lambda>_.
       read_only io (and_then (scoped_step identity step j) (\<lambda>s. Ok (ss_reconciliation s))))"

text \<open>The row validation of \<open>open_existing\<close>: \<open>ORDER BY step\<close> only fixes which error is found
  first, so any order gives the same acceptance.\<close>

fun validate_steps ::
    "xmr_workflow_identity option \<Rightarrow> xmr_journal \<Rightarrow> string list \<Rightarrow> store_error + unit" where
  "validate_steps durable j [] = Ok ()"
| "validate_steps durable j (name # names) =
     and_then (step_parse name) (\<lambda>step.
     and_then (and_then (load_step j step) (\<lambda>v.
         case v of None \<Rightarrow> Err CorruptXmrWorkflowState | Some s \<Rightarrow> Ok s)) (\<lambda>s.
     and_then (case durable of None \<Rightarrow> Err CorruptXmrWorkflowState
               | Some identity \<Rightarrow> validate_step identity step s) (\<lambda>_.
       validate_steps durable j names)))"

definition validate_all_steps :: "xmr_journal \<Rightarrow> store_error + unit" where
  "validate_all_steps j =
     and_then (load_identity j) (\<lambda>v.
       let durable = map_option fst v
       in if xj_steps j \<noteq> [] \<and> durable = None then Err CorruptXmrWorkflowState
          else validate_steps durable j (map wr_step (xj_steps j)))"

end
