(* ===== verification/Xmr_Refinement.thy ===== *)
theory Xmr_Refinement
  imports Xmr_Workflow
begin

text \<open>
  The workflow a journal stands for: the identity with the selected branch, and the status
  of each prepared step. Every call of the journal is a step of the abstract workflow
  relation \<open>workflow_trans\<close>, and the rows it leaves decode again.
\<close>

section \<open>Abstract workflows and their rows\<close>

datatype step_status =
    SPrepared
  | SStarted
  | SUnknown
  | SSucceeded bool xmr_workflow_reconciliation

type_synonym workflow =
  "(xmr_workflow_identity \<times> xmr_workflow_branch option) option \<times> (xmr_workflow_step \<times> step_status) list"

fun status_state :: "step_status \<Rightarrow> step_state" where
  "status_state SPrepared = Step_Prepared"
| "status_state SStarted = Step_Started"
| "status_state SUnknown = Step_Unknown"
| "status_state (SSucceeded _ _) = Step_Succeeded"

fun status_revision :: "step_status \<Rightarrow> u64" where
  "status_revision SPrepared = 0"
| "status_revision SStarted = 1"
| "status_revision SUnknown = 2"
| "status_revision (SSucceeded ambiguous _) = (if ambiguous then 3 else 2)"

fun status_evidence :: "step_status \<Rightarrow> xmr_workflow_reconciliation option" where
  "status_evidence (SSucceeded _ r) = Some r"
| "status_evidence _ = None"

definition status_snapshot :: "xmr_workflow_step \<Rightarrow> step_status \<Rightarrow> step_snapshot" where
  "status_snapshot s st =
     \<lparr>ss_step = s, ss_role = step_role s, ss_scope = step_scope s, ss_state = status_state st,
      ss_attempts = (if st = SPrepared then 0 else 1), ss_revision = status_revision st,
      ss_reconciliation = status_evidence st\<rparr>"

fun encode_step :: "xmr_workflow_step \<times> step_status \<Rightarrow> step_row" where
  "encode_step (s, st) =
     \<lparr>wr_step = step_name s, wr_singleton_id = 1,
      wr_local_role = participant_name (step_role s), wr_scope = scope_name (step_scope s),
      wr_state = step_state_name (status_state st),
      wr_attempt_count = (if st = SPrepared then 0 else 1),
      wr_revision = uint (status_revision st),
      wr_effect_evidence_sha256 = map_option re_effect_evidence_sha256 (status_evidence st),
      wr_tool_plan_identity_sha256 = map_option re_tool_plan_identity_sha256 (status_evidence st),
      wr_reconciliation_source = map_option (source_name \<circ> re_source) (status_evidence st)\<rparr>"

fun encode_identity :: "xmr_workflow_identity \<times> xmr_workflow_branch option \<Rightarrow> identity_row" where
  "encode_identity (i, b) =
     (fresh_identity_row i)\<lparr>ir_selected_branch := map_option branch_name b,
        ir_revision := (if b = None then 0 else 1)\<rparr>"

fun encode_workflow :: "nat \<Rightarrow> workflow \<Rightarrow> xmr_journal" where
  "encode_workflow v (ib, ss) =
     \<lparr>xj_version = v, xj_identity = (case ib of None \<Rightarrow> [] | Some x \<Rightarrow> [encode_identity x]),
      xj_steps = map encode_step ss\<rparr>"

definition evidence_wf :: "xmr_workflow_step \<Rightarrow> xmr_workflow_reconciliation \<Rightarrow> bool" where
  "evidence_wf s r \<longleftrightarrow> validate_reconciliation s r = Ok () \<and>
     length (re_effect_evidence_sha256 r) = 32 \<and> length (re_tool_plan_identity_sha256 r) = 32"

definition identity_wf :: "xmr_workflow_identity \<Rightarrow> bool" where
  "identity_wf i \<longleftrightarrow> validate_identity i = Ok () \<and> length (wi_agreement_commitment i) = 32 \<and>
     length (wi_activation_commitment i) = 32 \<and> length (wi_authority_sha256 i) = 32"

definition step_allowed ::
    "(xmr_workflow_step \<times> step_status) list \<Rightarrow> xmr_workflow_identity \<Rightarrow> xmr_workflow_branch option
     \<Rightarrow> xmr_workflow_step \<Rightarrow> bool" where
  "step_allowed ss i b s \<longleftrightarrow> step_role s = wi_local_role i \<and>
     (scope_branch (step_scope s) = None \<or> b = scope_branch (step_scope s)) \<and>
     (\<forall>p. predecessor s = Some p \<longrightarrow> (\<exists>w r. map_of ss p = Some (SSucceeded w r)))"

fun workflow_wf :: "nat \<Rightarrow> workflow \<Rightarrow> bool" where
  "workflow_wf v (None, ss) \<longleftrightarrow> ss = []"
| "workflow_wf v (Some (i, b), ss) \<longleftrightarrow> identity_wf i \<and> distinct (map fst ss) \<and>
     (\<forall>x. b = Some x \<longrightarrow> branch_name x \<in> branch_names v) \<and>
     (\<forall>(s, st) \<in> set ss. step_name s \<in> step_names v \<and> step_allowed ss i b s \<and>
        (\<forall>r. status_evidence st = Some r \<longrightarrow> evidence_wf s r))"

section \<open>Names and rows decode\<close>

lemma names_parse [simp]:
  "branch_parse (branch_name b) = Ok b"
  "scope_parse (scope_name c) = Ok c"
  "source_parse (source_name x) = Ok x"
  "step_parse (step_name s) = Ok s"
  "step_state_parse (step_state_name st) = Ok st"
  "parse_role (participant_name p) = Ok p"
proof -
  show "branch_parse (branch_name b) = Ok b" by (cases b) (simp_all add: branch_parse_def)
  show "scope_parse (scope_name c) = Ok c" by (cases c) (simp_all add: scope_parse_def)
  show "source_parse (source_name x) = Ok x" by (cases x) (simp_all add: source_parse_def)
  show "step_parse (step_name s) = Ok s" by (cases s) (simp_all add: step_parse_def)
  show "step_state_parse (step_state_name st) = Ok st" by (cases st) (simp_all add: step_state_parse_def)
  show "parse_role (participant_name p) = Ok p" by (cases p) (simp_all add: parse_role_def)
qed

lemma step_name_inject [simp]: "step_name a = step_name b \<longleftrightarrow> a = b"
  using names_parse(4) by (metis sum.inject(2))

lemma wr_step_encode [simp]: "wr_step (encode_step x) = step_name (fst x)"
  by (cases x) simp

lemma decode_encode_step:
  assumes "\<forall>r. status_evidence st = Some r \<longrightarrow> evidence_wf s r"
  shows "decode_step (encode_step (s, st)) = Ok (status_snapshot s st)"
proof -
  have "decode_reconciliation (encode_step (s, st)) = Ok (status_evidence st)"
    using assms by (cases st) (auto simp: decode_reconciliation_def evidence_wf_def digest32_def
        validate_reconciliation_def reconciliation_new_def corrupt_def split: if_splits)
  moreover have "to_u32 e (if st = SPrepared then 0 else 1) = Ok (if st = SPrepared then 0 else 1)" for e :: store_error
    by (simp add: to_u32_def)
  ultimately show ?thesis
    by (cases st) (simp_all add: decode_step_def status_snapshot_def snapshot_shape_def
        step_state_parse_def to_u32_def to_u64_def Let_def)
qed

lemma decode_encode_identity:
  assumes "identity_wf i"
  shows "decode_identity (encode_identity (i, b)) = Ok (i, b, if b = None then 0 else 1)"
proof -
  from assms have "length (swap_id_str (wi_swap_id i)) = 64"
    by (auto simp: identity_wf_def validate_identity_def Let_def split: if_splits)
  then have "swap_id_new (swap_id_str (wi_swap_id i)) = Ok (wi_swap_id i)"
    by (cases "wi_swap_id i") (auto simp: swap_id_new_def)
  moreover have "to_u64 e (if b = None then 0 else 1) = Ok (if b = None then 0 else 1)" for e :: store_error
    by (simp add: to_u64_def)
  moreover have "workflow_identity_new (wi_swap_id i) (wi_local_role i) (wi_run_id i)
      (wi_agreement_commitment i) (wi_activation_commitment i) (wi_authority_sha256 i) = Ok i"
    using assms by (cases i) (simp add: workflow_identity_new_def identity_wf_def Let_def)
  ultimately show ?thesis
    using assms by (cases b) (simp_all add: decode_identity_def fresh_identity_row_def identity_wf_def
        digest32_def corrupt_def)
qed

lemma workflow_wf_identity: "workflow_wf v (Some (i, b), ss) \<Longrightarrow> identity_wf i"
  by simp

lemma load_identity_rep:
  assumes "workflow_wf v (ib, ss)"
  shows "load_identity (encode_workflow v (ib, ss)) =
    Ok (map_option (\<lambda>(i, b). (i, b, if b = None then 0 else 1)) ib)"
proof (cases ib)
  case None
  then show ?thesis by (simp add: load_identity_def validate_identity_count_def row_at_def)
next
  case (Some x)
  then obtain i b where ib: "ib = Some (i, b)" by (cases x) auto
  with assms have "identity_wf i" by simp
  from decode_encode_identity [OF this, of b] show ?thesis
    by (simp add: ib load_identity_def validate_identity_count_def row_at_def)
      (simp add: fresh_identity_row_def)
qed

lemma row_at_encode:
  "row_at wr_step (map encode_step ss) (step_name s) = map_option (\<lambda>st. encode_step (s, st)) (map_of ss s)"
proof (induction ss)
  case (Cons x ss)
  then show ?case
    by (cases x) (simp add: row_at_def del: encode_step.simps)
qed (simp add: row_at_def)

lemma wf_status:
  assumes "workflow_wf v (ib, ss)" "map_of ss s = Some st"
  shows "\<forall>r. status_evidence st = Some r \<longrightarrow> evidence_wf s r" "step_name s \<in> step_names v"
    "\<exists>i b. ib = Some (i, b) \<and> step_allowed ss i b s"
proof -
  from assms obtain i b where ib: "ib = Some (i, b)" by (cases ib) auto
  from map_of_SomeD [OF assms(2)] assms(1) show
    "\<forall>r. status_evidence st = Some r \<longrightarrow> evidence_wf s r" "step_name s \<in> step_names v"
    "\<exists>i b. ib = Some (i, b) \<and> step_allowed ss i b s"
    by (auto simp: ib)
qed

lemma load_step_rep:
  assumes "workflow_wf v (ib, ss)"
  shows "load_step (encode_workflow v (ib, ss)) s = Ok (map_option (status_snapshot s) (map_of ss s))"
proof (cases "map_of ss s")
  case None
  then show ?thesis by (simp add: load_step_def row_at_encode)
next
  case (Some st)
  from decode_encode_step [OF wf_status(1) [OF assms Some]] Some show ?thesis
    by (simp add: load_step_def row_at_encode del: encode_step.simps)
qed

section \<open>The workflow relation\<close>

definition set_status ::
    "xmr_workflow_step \<Rightarrow> step_status \<Rightarrow> (xmr_workflow_step \<times> step_status) list
     \<Rightarrow> (xmr_workflow_step \<times> step_status) list" where
  "set_status s st ss = map (\<lambda>(k, x). (k, if k = s then st else x)) ss"

inductive workflow_trans :: "nat \<Rightarrow> workflow \<Rightarrow> workflow \<Rightarrow> bool" for v where
  keep: "workflow_trans v a a"
| initialize: "identity_wf i \<Longrightarrow> workflow_trans v (None, []) (Some (i, None), [])"
| select: "list_all (\<lambda>s. map_of ss s \<noteq> None) (common_steps (wi_local_role i)) \<Longrightarrow>
    branch_name b \<in> branch_names v \<Longrightarrow>
    workflow_trans v (Some (i, None), ss) (Some (i, Some b), ss)"
| prepare: "map_of ss s = None \<Longrightarrow> step_allowed ss i b s \<Longrightarrow> step_name s \<in> step_names v \<Longrightarrow>
    workflow_trans v (Some (i, b), ss) (Some (i, b), ss @ [(s, SPrepared)])"
| authorize: "map_of ss s = Some SPrepared \<Longrightarrow>
    workflow_trans v (Some (i, b), ss) (Some (i, b), set_status s SStarted ss)"
| ambiguous: "map_of ss s = Some SStarted \<Longrightarrow>
    workflow_trans v (Some (i, b), ss) (Some (i, b), set_status s SUnknown ss)"
| succeed: "map_of ss s = Some st \<Longrightarrow> st \<in> {SStarted, SUnknown} \<Longrightarrow> evidence_wf s r \<Longrightarrow>
    workflow_trans v (Some (i, b), ss) (Some (i, b), set_status s (SSucceeded (st = SUnknown) r) ss)"

lemma map_of_set_status:
  "map_of (set_status s st ss) k = (if k = s then map_option (\<lambda>_. st) (map_of ss s) else map_of ss k)"
  unfolding set_status_def by (induction ss) auto

lemma map_fst_set_status [simp]: "map fst (set_status s st ss) = map fst ss"
  by (induction ss) (auto simp: set_status_def)

lemma set_status_members:
  "x \<in> set (set_status s st ss) \<Longrightarrow> fst x \<in> fst ` set ss \<and> (x \<in> set ss \<or> x = (s, st))"
  by (auto simp: set_status_def image_iff split: if_splits) force+

text \<open>A step other than a succeeded one can change its status without touching what the
  other steps rely on.\<close>

lemma step_allowed_set_status:
  assumes "step_allowed ss i b k" "map_of ss s = Some st0" "status_state st0 \<noteq> Step_Succeeded"
  shows "step_allowed (set_status s st ss) i b k"
  using assms by (auto simp: step_allowed_def map_of_set_status)

lemma workflow_wf_set_status:
  assumes wf: "workflow_wf v (Some (i, b), ss)" and s: "map_of ss s = Some st0"
    and "status_state st0 \<noteq> Step_Succeeded" "\<forall>r. status_evidence st = Some r \<longrightarrow> evidence_wf s r"
  shows "workflow_wf v (Some (i, b), set_status s st ss)"
proof -
  have "step_name k \<in> step_names v \<and> step_allowed (set_status s st ss) i b k \<and>
      (\<forall>r. status_evidence x = Some r \<longrightarrow> evidence_wf k r)" if "(k, x) \<in> set (set_status s st ss)" for k x
  proof -
    from set_status_members [OF that] obtain y where "(k, y) \<in> set ss" and
      x: "(k, x) \<in> set ss \<or> k = s \<and> x = st" by auto
    with wf have "step_name k \<in> step_names v" "step_allowed ss i b k" by auto
    moreover have "\<forall>r. status_evidence x = Some r \<longrightarrow> evidence_wf k r"
      using x wf assms(4) by auto
    ultimately show ?thesis using step_allowed_set_status [OF _ s assms(3)] by blast
  qed
  with wf show ?thesis by auto
qed

lemma workflow_trans_wf: "workflow_trans v a a' \<Longrightarrow> workflow_wf v a \<Longrightarrow> workflow_wf v a'"
proof (induction rule: workflow_trans.induct)
  case (select ss i b)
  then show ?case by (auto simp: step_allowed_def)
next
  case (prepare ss s i b)
  have "step_allowed (ss @ [(s, SPrepared)]) i b k" if "step_allowed ss i b k" for k
    using that by (fastforce simp: step_allowed_def)
  with prepare show ?case
    by (auto simp: map_of_eq_None_iff)
qed (auto intro!: workflow_wf_set_status simp del: workflow_wf.simps(2) simp: workflow_wf.simps(2) [of _ _ _ "[]"])

section \<open>Statements on the rows\<close>

lemma step_checks_encode:
  assumes "step_name s \<in> step_names v" "\<forall>r. status_evidence st = Some r \<longrightarrow> evidence_wf s r"
  shows "step_checks v (encode_step (s, st))"
proof -
  have "scope_name (step_scope s) \<in> {''common''} \<union> branch_names v"
    using assms(1) by (cases s) (auto simp: step_names_def branch_names_def split: if_splits)
  moreover have "source_name x \<in> {''lez_finalized_event'', ''monero_wallet_transaction''}" for x
    by (cases x) simp_all
  moreover have "participant_name p \<in> {''maker'', ''taker''}" for p
    by (cases p) simp_all
  ultimately show ?thesis
    using assms by (cases st) (auto simp: step_checks_def evidence_wf_def)
qed

lemma step_checks_evidence:
  assumes "step_checks v (encode_step (s, SSucceeded w r))" "validate_reconciliation s r = Ok ()"
  shows "evidence_wf s r"
  using assms by (simp add: step_checks_def evidence_wf_def)

lemma encode_eq_iff:
  assumes "distinct (map fst ss)" "map_of ss s = Some st" "x \<in> set ss"
  shows "encode_step x = encode_step (s, st) \<longleftrightarrow> fst x = s"
proof
  assume "encode_step x = encode_step (s, st)"
  then have "wr_step (encode_step x) = wr_step (encode_step (s, st))" by (rule arg_cong)
  then show "fst x = s" by (simp del: encode_step.simps)
next
  assume "fst x = s"
  with map_of_is_SomeI [OF assms(1), of "fst x" "snd x"] assms(2,3) have "x = (s, st)"
    by (cases x) simp
  then show "encode_step x = encode_step (s, st)" by simp
qed

lemma replace_encode:
  assumes "distinct (map fst ss)" "map_of ss s = Some st"
  shows "replace_row (encode_step (s, st)) (encode_step (s, st')) (map encode_step ss) =
    map encode_step (set_status s st' ss)"
  using encode_eq_iff [OF assms]
  by (auto simp: replace_row_def set_status_def simp del: encode_step.simps)

lemma update_steps_rep:
  assumes "workflow_wf v (ib, ss)" "map_of ss s = Some st" "P (encode_step (s, st))"
    "\<And>r. P r \<Longrightarrow> wr_step r = step_name s" "f (encode_step (s, st)) = encode_step (s, st')"
  shows "update_steps P f (encode_workflow v (ib, ss)) =
    (if step_checks v (encode_step (s, st')) then Ok (1, encode_workflow v (ib, set_status s st' ss))
     else Err Sqlite)"
proof -
  from wf_status(3) [OF assms(1,2)] assms(1) have dist: "distinct (map fst ss)" by auto
  then have "distinct (map wr_step (map encode_step ss))"
    by (auto simp: distinct_map inj_on_def comp_def simp del: encode_step.simps)
  moreover have "row_at wr_step (map encode_step ss) (step_name s) = Some (encode_step (s, st))"
    using assms(2) by (simp add: row_at_encode del: encode_step.simps)
  ultimately have "table_update Sqlite (step_checks v) P f (map encode_step ss) =
    (if step_checks v (encode_step (s, st'))
     then Ok (1, map encode_step (set_status s st' ss)) else Err Sqlite)"
    using table_update_row [of wr_step "map encode_step ss" "step_name s" "encode_step (s, st)" P
        "step_checks v" f Sqlite]
      table_update_refused [of wr_step "map encode_step ss" "step_name s" "encode_step (s, st)" P
        "step_checks v" f Sqlite]
      replace_encode [OF dist assms(2)] assms(3-5)
    by (auto simp del: encode_step.simps)
  then show ?thesis
    by (simp add: update_steps_def del: encode_step.simps)
qed

section \<open>Every method is a step of the workflow\<close>

declare encode_workflow.simps [simp del] encode_step.simps [simp del]

lemma require_identity_rep:
  assumes "workflow_wf v (ib, ss)"
  shows "require_identity (encode_workflow v (ib, ss)) =
    (case ib of None \<Rightarrow> Err MissingXmrWorkflowIdentity
     | Some (i, b) \<Rightarrow> Ok (i, b, if b = None then 0 else 1))"
  by (simp add: require_identity_def load_identity_rep [OF assms] split: option.split)

lemma require_step_rep:
  assumes "workflow_wf v (ib, ss)"
  shows "require_step (encode_workflow v (ib, ss)) s =
    (case map_of ss s of None \<Rightarrow> Err MissingXmrWorkflowStep | Some st \<Rightarrow> Ok (status_snapshot s st))"
  by (simp add: require_step_def load_step_rep [OF assms] split: option.split)

lemma ensure_scope_Ok:
  assumes "workflow_wf v (ib, ss)"
    and "ensure_scope (encode_workflow v (ib, ss)) i c = Ok ()"
  shows "\<exists>b. ib = Some (i, b) \<and> (scope_branch c = None \<or> b = scope_branch c)"
  using assms(2) by (cases "scope_branch c")
    (auto simp: ensure_scope_def require_identity_rep [OF assms(1)] and_then_Inr ensure_identity_def
      split: option.splits if_splits)

lemma scoped_step_Ok:
  assumes "workflow_wf v (ib, ss)" and "scoped_step i s (encode_workflow v (ib, ss)) = Ok x"
  obtains b st where "ib = Some (i, b)" "map_of ss s = Some st" "x = status_snapshot s st"
    "scope_branch (step_scope s) = None \<or> b = scope_branch (step_scope s)"
  using assms(2) ensure_scope_Ok [OF assms(1), of i "step_scope s"]
  by (auto simp: scoped_step_def require_step_rep [OF assms(1)] and_then_Inr split: option.splits)

lemma ensure_predecessor_Ok:
  assumes "workflow_wf v (ib, ss)" and "ensure_predecessor (encode_workflow v (ib, ss)) s = Ok ()"
    and "predecessor s = Some p"
  shows "\<exists>w r. map_of ss p = Some (SSucceeded w r)"
proof -
  from assms(2,3) obtain st where "map_of ss p = Some st" "status_state st = Step_Succeeded"
    by (auto simp: ensure_predecessor_def require_step_rep [OF assms(1)] and_then_Inr status_snapshot_def
        split: option.splits if_splits)
  then show ?thesis by (cases st) auto
qed

lemma ensure_common_Ok:
  assumes "workflow_wf v (ib, ss)"
  shows "ensure_steps_common (encode_workflow v (ib, ss)) role steps = Ok () \<Longrightarrow>
    list_all (\<lambda>s. map_of ss s \<noteq> None) steps"
  by (induction steps)
    (auto simp: require_step_rep [OF assms] and_then_Inr split: option.splits if_splits)

definition moves_to :: "nat \<Rightarrow> workflow \<Rightarrow> xmr_journal \<Rightarrow> bool" where
  "moves_to v a j \<longleftrightarrow> (\<exists>a'. j = encode_workflow v a' \<and> workflow_trans v a a')"

lemma moves_keep: "moves_to v a (encode_workflow v a)"
  unfolding moves_to_def using workflow_trans.keep by blast

lemma moves_step: "workflow_trans v a a' \<Longrightarrow> moves_to v a (encode_workflow v a')"
  unfolding moves_to_def by blast

lemma initialize_moves:
  assumes wf: "workflow_wf v (ib, ss)" and valid: "validate_identity i = Ok ()"
    and body: "initialize_body i (encode_workflow v (ib, ss)) = Ok (x, j)"
  shows "moves_to v (ib, ss) j"
proof (cases ib)
  case None
  with wf have ss: "ss = []" by simp
  from body have "insert_identity (fresh_identity_row i) (encode_workflow v (None, [])) = Ok j"
    by (auto simp: initialize_body_def load_identity_rep [OF wf, unfolded None ss] and_then_Inr None ss)
  then have "identity_checks v (fresh_identity_row i)"
    and j: "j = encode_workflow v (Some (i, None), [])"
    by (auto simp: insert_identity_def table_insert_def and_then_Inr encode_workflow.simps
        fresh_identity_row_def split: if_splits)
  then have "identity_wf i"
    using valid by (simp add: identity_checks_def identity_wf_def fresh_identity_row_def)
  then show ?thesis
    unfolding j None ss by (intro moves_step workflow_trans.initialize)
next
  case (Some y)
  with body have "j = encode_workflow v (ib, ss)"
    by (auto simp: initialize_body_def load_identity_rep [OF wf, unfolded Some]
        split: prod.splits if_splits)
  then show ?thesis by (simp add: moves_keep)
qed

lemma select_branch_moves:
  assumes wf: "workflow_wf v (ib, ss)"
    and body: "select_branch_body i b (encode_workflow v (ib, ss)) = Ok (x, j)"
  shows "moves_to v (ib, ss) j"
proof (cases "j = encode_workflow v (ib, ss)")
  case True
  then show ?thesis by (simp only: moves_keep)
next
  case False
  from body obtain sel where ib: "ib = Some (i, sel)"
    by (auto simp: select_branch_body_def require_identity_rep [OF wf] and_then_Inr ensure_identity_def
        split: option.splits if_splits)
  from False body have sel: "sel = None"
    by (auto simp: select_branch_body_def require_identity_rep [OF wf, unfolded ib] and_then_Inr ib split: if_splits)
  from body have common: "ensure_common_prepared (encode_workflow v (ib, ss)) (wi_local_role i) = Ok ()"
    and upd: "update_identity
      (\<lambda>r. ir_singleton_id r = 1 \<and> ir_selected_branch r = None \<and> ir_revision r = 0)
      (\<lambda>r. r\<lparr>ir_selected_branch := Some (branch_name b), ir_revision := 1\<rparr>)
      (encode_workflow v (ib, ss)) = Ok (1, j)"
    by (auto simp: select_branch_body_def require_identity_rep [OF wf, unfolded ib sel] and_then_Inr ib sel split: if_splits)
  have "j = encode_workflow v (Some (i, Some b), ss)" "branch_name b \<in> branch_names v"
    using upd by (auto simp: update_identity_def table_update_def ib sel fresh_identity_row_def
        identity_checks_def encode_workflow.simps split: if_splits)
  then show ?thesis
    using ensure_common_Ok [OF wf common [unfolded ensure_common_prepared_def]]
    by (simp only: ib sel) (intro moves_step workflow_trans.select)
qed

lemma prepare_moves:
  assumes wf: "workflow_wf v (ib, ss)" and role: "ensure_step_role i s = Ok ()"
    and body: "prepare_step_body i s (encode_workflow v (ib, ss)) = Ok (x, j)"
  shows "moves_to v (ib, ss) j"
proof (cases "map_of ss s")
  case None
  from role have r: "wi_local_role i = step_role s"
    by (auto simp: ensure_step_role_def and_then_Inr split: if_splits)
  from body None have scope: "ensure_scope (encode_workflow v (ib, ss)) i (step_scope s) = Ok ()"
    and pred: "ensure_predecessor (encode_workflow v (ib, ss)) s = Ok ()"
    and ins: "insert_step (prepared_step_row i s) (encode_workflow v (ib, ss)) = Ok j"
    by (auto simp: prepare_step_body_def load_step_rep [OF wf] and_then_Inr)
  from ensure_scope_Ok [OF wf scope] obtain b where
    b: "ib = Some (i, b)" "scope_branch (step_scope s) = None \<or> b = scope_branch (step_scope s)" by blast
  have row: "prepared_step_row i s = encode_step (s, SPrepared)"
    using r by (simp add: prepared_step_row_def encode_step.simps)
  from ins have j: "j = encode_workflow v (Some (i, b), ss @ [(s, SPrepared)])"
    and name: "step_name s \<in> step_names v"
    by (auto simp: insert_step_def table_insert_def row and_then_Inr step_checks_def b(1)
        encode_workflow.simps split: if_splits)
  have "step_allowed ss i b s"
    using r b(2) ensure_predecessor_Ok [OF wf pred] by (auto simp: step_allowed_def)
  with None name show ?thesis
    unfolding j b(1) by (intro moves_step workflow_trans.prepare)
next
  case (Some st)
  with body have "j = encode_workflow v (ib, ss)"
    by (auto simp: prepare_step_body_def load_step_rep [OF wf] and_then_Inr)
  then show ?thesis by (simp only: moves_keep)
qed

lemma status_of_state:
  "status_state st = Step_Prepared \<longleftrightarrow> st = SPrepared"
  "status_state st = Step_Started \<longleftrightarrow> st = SStarted"
  "status_state st = Step_Unknown \<longleftrightarrow> st = SUnknown"
  by (cases st; simp)+

lemma update_authorized:
  assumes "workflow_wf v (ib, ss)" "map_of ss s = Some SPrepared"
  shows "update_steps (\<lambda>r. wr_step r = step_name s \<and> wr_state r = ''prepared'' \<and>
      wr_attempt_count r = 0 \<and> wr_revision r = 0)
    (\<lambda>r. r\<lparr>wr_state := ''started'', wr_attempt_count := 1, wr_revision := 1\<rparr>)
    (encode_workflow v (ib, ss)) =
  (if step_checks v (encode_step (s, SStarted))
   then Ok (1, encode_workflow v (ib, set_status s SStarted ss)) else Err Sqlite)"
  by (rule update_steps_rep [OF assms]) (simp_all add: encode_step.simps)

lemma update_reconciled:
  assumes "workflow_wf v (ib, ss)" "map_of ss s = Some st" "st \<in> {SStarted, SUnknown}"
  shows "update_steps (\<lambda>row. wr_step row = step_name s \<and> wr_state row = step_state_name (status_state st) \<and>
      wr_attempt_count row = 1 \<and> wr_revision row = uint (status_revision st) \<and>
      wr_effect_evidence_sha256 row = None \<and> wr_tool_plan_identity_sha256 row = None \<and>
      wr_reconciliation_source row = None)
    (\<lambda>row. row\<lparr>wr_state := ''succeeded'', wr_revision := (if status_state st = Step_Started then 2 else 3),
      wr_effect_evidence_sha256 := Some (re_effect_evidence_sha256 r),
      wr_tool_plan_identity_sha256 := Some (re_tool_plan_identity_sha256 r),
      wr_reconciliation_source := Some (source_name (re_source r))\<rparr>)
    (encode_workflow v (ib, ss)) =
  (if step_checks v (encode_step (s, SSucceeded (st = SUnknown) r))
   then Ok (1, encode_workflow v (ib, set_status s (SSucceeded (st = SUnknown) r) ss)) else Err Sqlite)"
  by (rule update_steps_rep [OF assms(1,2)]) (use assms(3) in \<open>auto simp: encode_step.simps\<close>)

lemma to_i64_revision: "to_i64 e (status_revision st) = Ok (uint (status_revision st))"
  by (cases st) (auto simp: to_i64_def i64_max_def word_less_nat_alt)

lemma authorize_moves:
  assumes wf: "workflow_wf v (ib, ss)"
    and body: "authorize_once_body i s (encode_workflow v (ib, ss)) = Ok (d, j)"
  shows "if d = InvokeOnce
    then map_of ss s = Some SPrepared \<and> j = encode_workflow v (ib, set_status s SStarted ss) \<and>
      (\<exists>b. ib = Some (i, b) \<and> (scope_branch (step_scope s) = None \<or> b = scope_branch (step_scope s)))
    else j = encode_workflow v (ib, ss) \<and> map_of ss s \<noteq> Some SPrepared"
proof -
  from body obtain y where y: "scoped_step i s (encode_workflow v (ib, ss)) = Ok y"
    by (auto simp: authorize_once_body_def and_then_Inr)
  from scoped_step_Ok [OF wf y] obtain b st where
    st: "ib = Some (i, b)" "map_of ss s = Some st" "y = status_snapshot s st"
    "scope_branch (step_scope s) = None \<or> b = scope_branch (step_scope s)" .
  show ?thesis
  proof (cases "st = SPrepared")
    case True
    with update_authorized [OF wf] body y st show ?thesis
      by (auto simp: authorize_once_body_def status_snapshot_def split: if_splits)
  next
    case False
    with body y st show ?thesis
      by (cases st) (auto simp: authorize_once_body_def status_snapshot_def)
  qed
qed

lemma mark_unknown_moves:
  assumes wf: "workflow_wf v (ib, ss)"
    and body: "mark_unknown_body i s (encode_workflow v (ib, ss)) = Ok (x, j)"
  shows "moves_to v (ib, ss) j"
proof -
  from body obtain y where y: "scoped_step i s (encode_workflow v (ib, ss)) = Ok y"
    by (auto simp: mark_unknown_body_def and_then_Inr)
  from scoped_step_Ok [OF wf y] obtain b st where
    st: "ib = Some (i, b)" "map_of ss s = Some st" "y = status_snapshot s st" .
  show ?thesis
  proof (cases "st = SStarted")
    case True
    have "update_steps (\<lambda>r. wr_step r = step_name s \<and> wr_state r = ''started'' \<and>
          wr_attempt_count r = 1 \<and> wr_revision r = 1)
        (\<lambda>r. r\<lparr>wr_state := ''unknown'', wr_revision := 2\<rparr>)
        (encode_workflow v (ib, ss)) =
      (if step_checks v (encode_step (s, SUnknown))
       then Ok (1, encode_workflow v (ib, set_status s SUnknown ss)) else Err Sqlite)"
      by (rule update_steps_rep [OF wf st(2)]) (simp_all add: encode_step.simps True)
    with True body y st have "j = encode_workflow v (ib, set_status s SUnknown ss)"
      by (auto simp: mark_unknown_body_def status_snapshot_def split: if_splits)
    with st True show ?thesis
      by (simp add: moves_step workflow_trans.ambiguous)
  next
    case False
    with body y st have "j = encode_workflow v (ib, ss)"
      by (cases st) (auto simp: mark_unknown_body_def status_snapshot_def)
    then show ?thesis by (simp only: moves_keep)
  qed
qed

lemma reconcile_moves:
  assumes wf: "workflow_wf v (ib, ss)" and valid: "validate_reconciliation s r = Ok ()"
    and body: "reconcile_succeeded_body i s r (encode_workflow v (ib, ss)) = Ok (x, j)"
  shows "moves_to v (ib, ss) j"
proof -
  from body obtain y where y: "scoped_step i s (encode_workflow v (ib, ss)) = Ok y"
    by (auto simp: reconcile_succeeded_body_def and_then_Inr)
  from scoped_step_Ok [OF wf y] obtain b st where
    st: "ib = Some (i, b)" "map_of ss s = Some st" "y = status_snapshot s st" .
  show ?thesis
  proof (cases "st \<in> {SStarted, SUnknown}")
    case True
    let ?st' = "SSucceeded (st = SUnknown) r"
    from update_reconciled [OF wf st(2) True, of r] to_i64_revision [of CorruptXmrWorkflowState st] True
    have "step_checks v (encode_step (s, ?st'))"
      and j: "j = encode_workflow v (ib, set_status s ?st' ss)"
      using body y st by (auto simp: reconcile_succeeded_body_def status_snapshot_def split: if_splits)
    then have "evidence_wf s r" using step_checks_evidence valid by blast
    with st True show ?thesis
      unfolding j st(1) by (intro moves_step workflow_trans.succeed)
  next
    case False
    with body y st have "j = encode_workflow v (ib, ss)"
      by (cases st) (auto simp: reconcile_succeeded_body_def status_snapshot_def split: if_splits)
    then show ?thesis by (simp only: moves_keep)
  qed
qed

section \<open>Runs\<close>

datatype workflow_call =
    CallInitialize xmr_workflow_identity
  | CallSelectBranch xmr_workflow_identity xmr_workflow_branch
  | CallPrepareStep xmr_workflow_identity xmr_workflow_step
  | CallAuthorizeOnce xmr_workflow_identity xmr_workflow_step
  | CallMarkUnknown xmr_workflow_identity xmr_workflow_step
  | CallMarkSucceeded xmr_workflow_identity xmr_workflow_step
  | CallReconcileSucceeded xmr_workflow_identity xmr_workflow_step xmr_workflow_reconciliation

fun workflow_step :: "xmr_journal \<Rightarrow> storage_io \<times> workflow_call \<Rightarrow> xmr_journal" where
  "workflow_step j (io, CallInitialize i) = snd (workflow_initialize io i j)"
| "workflow_step j (io, CallSelectBranch i b) = snd (select_branch io i b j)"
| "workflow_step j (io, CallPrepareStep i s) = snd (prepare_step io i s j)"
| "workflow_step j (io, CallAuthorizeOnce i s) = snd (authorize_once io i s j)"
| "workflow_step j (io, CallMarkUnknown i s) = snd (mark_unknown io i s j)"
| "workflow_step j (io, CallMarkSucceeded i s) = snd (mark_succeeded i s j)"
| "workflow_step j (io, CallReconcileSucceeded i s r) = snd (reconcile_succeeded io i s r j)"

lemma with_storage_inv:
  assumes "Q j" and "\<And>x j'. body j = Ok (x, j') \<Longrightarrow> Q j'"
  shows "Q (snd (with_storage io body j))"
proof (cases rule: transact_cases [of Sqlite "io_transaction io" body j])
  case 1
  then obtain r where "transact Sqlite (io_transaction io) body j = (r, j)"
    by (metis prod.collapse)
  with assms(1) show ?thesis by (simp add: with_storage_def split: option.split sum.split)
next
  case (2 x j')
  with assms show ?thesis by (auto simp: with_storage_def split: option.split)
qed

lemma with_storage_Ok:
  assumes "fst (with_storage io body j) = Ok x"
  shows "body j = Ok (x, snd (with_storage io body j))"
proof (cases rule: transact_cases [of Sqlite "io_transaction io" body j])
  case 1
  then obtain e where "transact Sqlite (io_transaction io) body j = (Err e, j)"
    by (metis is_ok_simps(2) prod.collapse sumE)
  with assms show ?thesis by (simp add: with_storage_def split: option.splits)
next
  case (2 y j')
  with assms show ?thesis by (auto simp: with_storage_def split: option.splits)
qed

lemma role_guarded_inv:
  "Q j \<Longrightarrow> (ensure_step_role i s = Ok () \<Longrightarrow> Q (snd r)) \<Longrightarrow> Q (snd (role_guarded i s r j))"
  by (cases "ensure_step_role i s") (auto simp: role_guarded_def)

lemma workflow_step_moves:
  assumes wf: "workflow_wf v a"
  shows "moves_to v a (workflow_step (encode_workflow v a) c)"
proof -
  obtain ib ss where a: "a = (ib, ss)" by (cases a)
  obtain io call where c: "c = (io, call)" by (cases c)
  note wf = wf [unfolded a]
  have authorize: "moves_to v (ib, ss) j"
    if "authorize_once_body i s (encode_workflow v (ib, ss)) = Ok (d, j)" for i s d j
    using authorize_moves [OF wf that]
    by (auto simp: moves_keep moves_step workflow_trans.authorize split: if_splits)
  note storage = with_storage_inv [where Q = "moves_to v (ib, ss)" and j = "encode_workflow v (ib, ss)", OF moves_keep]
  note guarded = role_guarded_inv [where Q = "moves_to v (ib, ss)" and j = "encode_workflow v (ib, ss)", OF moves_keep]
  show ?thesis
  proof (cases call)
    case (CallInitialize i)
    show ?thesis
    proof (cases "validate_identity i")
      case (Inr x)
      then have "validate_identity i = Ok ()" by simp
      then have "moves_to v (ib, ss) (snd (with_storage io (initialize_body i) (encode_workflow v (ib, ss))))"
        by (intro storage) (rule initialize_moves [OF wf])
      then show ?thesis
        by (simp add: a c CallInitialize workflow_initialize_def Inr)
    qed (simp add: a c CallInitialize workflow_initialize_def moves_keep)
  next
    case (CallSelectBranch i b)
    have "moves_to v (ib, ss) (snd (with_storage io (select_branch_body i b) (encode_workflow v (ib, ss))))"
      by (rule storage) (erule select_branch_moves [OF wf])
    then show ?thesis
      by (simp add: a c CallSelectBranch select_branch_def)
  next
    case (CallPrepareStep i s)
    have "moves_to v (ib, ss) (snd (with_storage io (prepare_step_body i s) (encode_workflow v (ib, ss))))" if "ensure_step_role i s = Ok ()"
      by (rule storage) (erule prepare_moves [OF wf that])
    from guarded [OF this] show ?thesis
      by (simp add: a c CallPrepareStep prepare_step_def)
  next
    case (CallAuthorizeOnce i s)
    have "moves_to v (ib, ss) (snd (with_storage io (authorize_once_body i s) (encode_workflow v (ib, ss))))"
      by (rule storage) (erule authorize)
    from guarded [OF this] show ?thesis
      by (simp add: a c CallAuthorizeOnce authorize_once_def)
  next
    case (CallMarkUnknown i s)
    have "moves_to v (ib, ss) (snd (with_storage io (mark_unknown_body i s) (encode_workflow v (ib, ss))))"
      by (rule storage) (erule mark_unknown_moves [OF wf])
    from guarded [OF this] show ?thesis
      by (simp add: a c CallMarkUnknown mark_unknown_def)
  next
    case (CallMarkSucceeded i s)
    show ?thesis
      by (simp add: a c CallMarkSucceeded mark_succeeded_def role_guarded_def moves_keep split: sum.split)
  next
    case (CallReconcileSucceeded i s r)
    show ?thesis
    proof (cases "validate_reconciliation s r")
      case (Inr x)
      then have "validate_reconciliation s r = Ok ()" by simp
      then have "moves_to v (ib, ss) (snd (with_storage io (reconcile_succeeded_body i s r) (encode_workflow v (ib, ss))))"
        by (intro storage) (rule reconcile_moves [OF wf])
      from guarded [OF this] show ?thesis
        by (simp add: a c CallReconcileSucceeded reconcile_succeeded_def Inr)
    qed (simp add: a c CallReconcileSucceeded reconcile_succeeded_def role_guarded_def moves_keep
        split: sum.split)
  qed
qed

definition workflow_inv :: "nat \<Rightarrow> xmr_journal \<Rightarrow> bool" where
  "workflow_inv v j \<longleftrightarrow> (\<exists>a. j = encode_workflow v a \<and> workflow_wf v a)"

lemma workflow_step_trans:
  assumes "workflow_wf v a"
  obtains a' where "workflow_step (encode_workflow v a) c = encode_workflow v a'"
    "workflow_trans v a a'" "workflow_wf v a'"
  using workflow_step_moves [OF assms, of c] workflow_trans_wf [OF _ assms] unfolding moves_to_def by blast

section \<open>Enabled steps are taken\<close>

text \<open>A call whose database and file checks succeed.\<close>

definition steady :: storage_io where
  "steady = \<lparr>io_transaction = \<lparr>begin_ok = True, commit_ok = True\<rparr>, storage_before = None, storage_after = None\<rparr>"

lemma with_storage_steady: "body j = Ok (x, j') \<Longrightarrow> with_storage steady body j = (Ok x, j')"
  by (simp add: with_storage_def steady_def transact_def end_transaction_def)

lemma initialize_ready:
  assumes "identity_wf i"
  shows "workflow_initialize steady i (encode_workflow v (None, [])) = (Ok (), encode_workflow v (Some (i, None), []))"
proof -
  have "load_identity (encode_workflow v (None, [])) = Ok None" by (subst load_identity_rep) simp_all
  moreover have "identity_checks v (fresh_identity_row i)"
    using assms by (cases "wi_local_role i")
      (auto simp: identity_checks_def fresh_identity_row_def identity_wf_def validate_identity_def Let_def
        Suc_le_eq split: if_splits)
  ultimately have "initialize_body i (encode_workflow v (None, [])) = Ok ((), encode_workflow v (Some (i, None), []))"
    by (simp add: initialize_body_def insert_identity_def table_insert_def encode_workflow.simps
        fresh_identity_row_def)
  moreover have "validate_identity i = Ok ()" using assms by (simp add: identity_wf_def)
  ultimately show ?thesis by (simp add: workflow_initialize_def with_storage_steady)
qed

lemma role_ready: "identity_wf i \<Longrightarrow> step_allowed ss i b s \<Longrightarrow> ensure_step_role i s = Ok ()"
  by (simp add: ensure_step_role_def identity_wf_def step_allowed_def)

lemma scope_ready:
  assumes wf: "workflow_wf v (Some (i, b), ss)" and allowed: "step_allowed ss i b s"
  shows "ensure_scope (encode_workflow v (Some (i, b), ss)) i (step_scope s) = Ok ()"
  unfolding ensure_scope_def require_identity_rep [OF wf] using allowed workflow_wf_identity [OF wf]
  by (cases "scope_branch (step_scope s)")
    (auto simp: ensure_identity_def identity_wf_def step_allowed_def split: option.split)

lemma scoped_step_ready:
  assumes wf: "workflow_wf v (Some (i, b), ss)" and s: "map_of ss s = Some st"
  shows "scoped_step i s (encode_workflow v (Some (i, b), ss)) = Ok (status_snapshot s st)"
    and "ensure_step_role i s = Ok ()"
proof -
  from wf_status(3) [OF wf s] have allowed: "step_allowed ss i b s" by simp
  then show "ensure_step_role i s = Ok ()" by (rule role_ready [OF workflow_wf_identity [OF wf]])
  from wf_status(1) [OF wf s] have "validate_step i s (status_snapshot s st) = Ok ()"
    using allowed by (auto simp: validate_step_def status_snapshot_def step_allowed_def evidence_wf_def
        validate_reconciliation_def split: option.split if_splits)
  then show "scoped_step i s (encode_workflow v (Some (i, b), ss)) = Ok (status_snapshot s st)"
    by (simp add: scoped_step_def scope_ready [OF wf allowed] require_step_rep [OF wf] s)
qed

lemma select_ready:
  assumes wf: "workflow_wf v (Some (i, None), ss)" and b: "branch_name b \<in> branch_names v"
    and common: "list_all (\<lambda>s. map_of ss s \<noteq> None) (common_steps (wi_local_role i))"
  shows "select_branch steady i b (encode_workflow v (Some (i, None), ss)) =
    (Ok (), encode_workflow v (Some (i, Some b), ss))"
proof -
  have "ensure_common_prepared (encode_workflow v (Some (i, None), ss)) (wi_local_role i) = Ok ()"
    using common by (cases "wi_local_role i")
      (auto simp: ensure_common_prepared_def require_step_rep [OF wf] status_snapshot_def)
  moreover have "identity_checks v (encode_identity (i, Some b))"
    using workflow_wf_identity [OF wf] b by (cases "wi_local_role i")
      (auto simp: identity_checks_def fresh_identity_row_def identity_wf_def validate_identity_def Let_def
        Suc_le_eq split: if_splits)
  then have "update_identity
      (\<lambda>r. ir_singleton_id r = 1 \<and> ir_selected_branch r = None \<and> ir_revision r = 0)
      (\<lambda>r. r\<lparr>ir_selected_branch := Some (branch_name b), ir_revision := 1\<rparr>)
      (encode_workflow v (Some (i, None), ss)) = Ok (1, encode_workflow v (Some (i, Some b), ss))"
    by (simp add: update_identity_def table_update_def encode_workflow.simps fresh_identity_row_def)
  moreover have "validate_identity i = Ok ()" using workflow_wf_identity [OF wf] by (simp add: identity_wf_def)
  ultimately have "select_branch_body i b (encode_workflow v (Some (i, None), ss)) =
      Ok ((), encode_workflow v (Some (i, Some b), ss))"
    by (simp add: select_branch_body_def require_identity_rep [OF wf] ensure_identity_def)
  then show ?thesis by (simp add: select_branch_def with_storage_steady)
qed

lemma prepare_ready:
  assumes wf: "workflow_wf v (Some (i, b), ss)" and "map_of ss s = None"
    and allowed: "step_allowed ss i b s" and name: "step_name s \<in> step_names v"
  shows "prepare_step steady i s (encode_workflow v (Some (i, b), ss)) =
    (Ok (), encode_workflow v (Some (i, b), ss @ [(s, SPrepared)]))"
proof -
  have "ensure_predecessor (encode_workflow v (Some (i, b), ss)) s = Ok ()"
    using allowed by (auto simp: ensure_predecessor_def require_step_rep [OF wf] status_snapshot_def
        step_allowed_def split: option.split)
  moreover have row: "prepared_step_row i s = encode_step (s, SPrepared)"
    using allowed by (simp add: prepared_step_row_def encode_step.simps step_allowed_def)
  moreover have "insert_step (encode_step (s, SPrepared)) (encode_workflow v (Some (i, b), ss)) =
      Ok (encode_workflow v (Some (i, b), ss @ [(s, SPrepared)]))"
    using step_checks_encode [OF name, of SPrepared] assms(2)
    by (auto simp: insert_step_def table_insert_def encode_workflow.simps fresh_identity_row_def
        list_ex_iff map_of_eq_None_iff) (auto simp: encode_step.simps)
  ultimately have "prepare_step_body i s (encode_workflow v (Some (i, b), ss)) =
      Ok ((), encode_workflow v (Some (i, b), ss @ [(s, SPrepared)]))"
    by (simp add: prepare_step_body_def load_step_rep [OF wf] assms(2) scope_ready [OF wf allowed])
  then show ?thesis
    by (simp add: prepare_step_def role_guarded_def with_storage_steady
        role_ready [OF workflow_wf_identity [OF wf] allowed])
qed

lemma authorize_ready:
  assumes wf: "workflow_wf v (Some (i, b), ss)" and s: "map_of ss s = Some SPrepared"
  shows "authorize_once steady i s (encode_workflow v (Some (i, b), ss)) =
    (Ok InvokeOnce, encode_workflow v (Some (i, b), set_status s SStarted ss))"
proof -
  have "step_checks v (encode_step (s, SStarted))"
    by (rule step_checks_encode [OF wf_status(2) [OF wf s]]) simp
  then have "authorize_once_body i s (encode_workflow v (Some (i, b), ss)) =
      Ok (InvokeOnce, encode_workflow v (Some (i, b), set_status s SStarted ss))"
    by (simp add: authorize_once_body_def scoped_step_ready [OF wf s] update_authorized [OF wf s]
        status_snapshot_def)
  then show ?thesis
    by (simp add: authorize_once_def role_guarded_def with_storage_steady scoped_step_ready [OF wf s])
qed

lemma reconcile_ready:
  assumes wf: "workflow_wf v (Some (i, b), ss)" and s: "map_of ss s = Some st"
    and st: "st \<in> {SStarted, SUnknown}" and r: "evidence_wf s r"
  shows "reconcile_succeeded steady i s r (encode_workflow v (Some (i, b), ss)) =
    (Ok (), encode_workflow v (Some (i, b), set_status s (SSucceeded (st = SUnknown) r) ss))"
proof -
  have "step_checks v (encode_step (s, SSucceeded (st = SUnknown) r))"
    by (rule step_checks_encode [OF wf_status(2) [OF wf s]]) (simp add: r)
  moreover have "ss_state (status_snapshot s st) = status_state st"
    "ss_revision (status_snapshot s st) = status_revision st" by (simp_all add: status_snapshot_def)
  moreover have "status_state st \<in> {Step_Started, Step_Unknown}" using st by auto
  ultimately have "reconcile_succeeded_body i s r (encode_workflow v (Some (i, b), ss)) =
      Ok ((), encode_workflow v (Some (i, b), set_status s (SSucceeded (st = SUnknown) r) ss))"
    by (simp add: reconcile_succeeded_body_def scoped_step_ready [OF wf s] to_i64_revision
        update_reconciled [OF wf s st])
  then show ?thesis
    using r by (simp add: reconcile_succeeded_def role_guarded_def with_storage_steady
        scoped_step_ready [OF wf s] evidence_wf_def)
qed

end
