(* ===== verification/Xmr_Properties.thy ===== *)
theory Xmr_Properties
  imports Xmr_Refinement
begin

text \<open>
  What the workflow journal guarantees for every sequence of calls on a new journal, in
  either schema version and whatever the database and the file checks do: one invocation
  per step, one branch per journal, predecessors first, permanent evidence.
\<close>

section \<open>Reachable journals\<close>

definition new_journal :: "nat \<Rightarrow> xmr_journal" where
  "new_journal v = \<lparr>xj_version = v, xj_identity = [], xj_steps = []\<rparr>"

abbreviation workflow_run :: "nat \<Rightarrow> (storage_io \<times> workflow_call) list \<Rightarrow> xmr_journal" where
  "workflow_run v cs \<equiv> run workflow_step (new_journal v) cs"

interpretation workflow: step_system workflow_step "workflow_inv v"
proof
  show "workflow_inv v (workflow_step j c)" if "workflow_inv v j" for j c
    using that workflow_step_trans unfolding workflow_inv_def by metis
qed

lemma new_journal_rep: "new_journal v = encode_workflow v (None, [])"
  by (simp add: new_journal_def encode_workflow.simps)

lemma new_journal_inv: "workflow_inv v (new_journal v)"
  unfolding workflow_inv_def new_journal_rep by (intro exI [of _ "(None, [])"]) simp

lemma workflow_run_rep:
  obtains ib ss where "workflow_run v cs = encode_workflow v (ib, ss)" "workflow_wf v (ib, ss)"
  using workflow.run_inv [OF new_journal_inv, of v cs] unfolding workflow_inv_def by (metis prod.collapse)

section \<open>Invocations\<close>

fun invokes :: "xmr_workflow_step \<Rightarrow> xmr_journal \<Rightarrow> storage_io \<times> workflow_call \<Rightarrow> bool" where
  "invokes s j (io, CallAuthorizeOnce i s') \<longleftrightarrow> s' = s \<and> fst (authorize_once io i s j) = Ok InvokeOnce"
| "invokes s j (io, _) \<longleftrightarrow> False"

definition step_armed :: "xmr_workflow_step \<Rightarrow> xmr_journal \<Rightarrow> bool" where
  "step_armed s j \<longleftrightarrow>
     (case row_at wr_step (xj_steps j) (step_name s) of None \<Rightarrow> True | Some r \<Rightarrow> wr_state r = ''prepared'')"

lemma state_name_prepared: "step_state_name (status_state st) = ''prepared'' \<longleftrightarrow> st = SPrepared"
  by (cases st) simp_all

lemma step_armed_rep:
  "step_armed s (encode_workflow v (ib, ss)) \<longleftrightarrow> map_of ss s \<in> {None, Some SPrepared}"
  by (auto simp: step_armed_def encode_workflow.simps row_at_encode encode_step.simps
      state_name_prepared split: option.splits)

lemma invokes_rep:
  assumes wf: "workflow_wf v (ib, ss)" and "invokes s (encode_workflow v (ib, ss)) c"
  shows "map_of ss s = Some SPrepared"
    and "workflow_step (encode_workflow v (ib, ss)) c = encode_workflow v (ib, set_status s SStarted ss)"
    and "\<exists>i b. ib = Some (i, b) \<and> (scope_branch (step_scope s) = None \<or> b = scope_branch (step_scope s))"
proof -
  from assms(2) obtain io i where c: "c = (io, CallAuthorizeOnce i s)"
    and ok: "fst (authorize_once io i s (encode_workflow v (ib, ss))) = Ok InvokeOnce"
    by (cases "(s, encode_workflow v (ib, ss), c)" rule: invokes.cases) auto
  from ok have guard: "fst (with_storage io (authorize_once_body i s) (encode_workflow v (ib, ss))) = Ok InvokeOnce"
    and eq: "authorize_once io i s (encode_workflow v (ib, ss)) =
      with_storage io (authorize_once_body i s) (encode_workflow v (ib, ss))"
    by (auto simp: authorize_once_def role_guarded_def split: sum.splits)
  note m = authorize_moves [OF wf with_storage_Ok [OF guard]]
  from m show "map_of ss s = Some SPrepared"
    and "\<exists>i b. ib = Some (i, b) \<and> (scope_branch (step_scope s) = None \<or> b = scope_branch (step_scope s))"
    by auto
  from m show "workflow_step (encode_workflow v (ib, ss)) c = encode_workflow v (ib, set_status s SStarted ss)"
    by (simp add: c eq)
qed

lemma trans_stays_disarmed:
  assumes "workflow_trans v (ib, ss) (ib', ss')" "map_of ss s \<notin> {None, Some SPrepared}"
  shows "map_of ss' s \<notin> {None, Some SPrepared}"
  using assms by (cases rule: workflow_trans.cases) (auto simp: map_of_set_status split: if_splits)

interpretation workflow_once: once_only workflow_step "workflow_inv v" "invokes s" "step_armed s"
proof
  fix j c
  assume "workflow_inv v j"
  then obtain ib ss where j: "j = encode_workflow v (ib, ss)" and wf: "workflow_wf v (ib, ss)"
    unfolding workflow_inv_def by (metis prod.collapse)
  show "step_armed s j" if "invokes s j c"
    using invokes_rep(1) [OF wf] that by (simp add: j step_armed_rep)
  show "\<not> step_armed s (workflow_step j c)" if "invokes s j c"
    using invokes_rep(1,2) [OF wf] that by (simp add: j step_armed_rep map_of_set_status)
  show "\<not> step_armed s (workflow_step j c)" if "\<not> step_armed s j"
  proof -
    obtain ib' ss' where "workflow_step j c = encode_workflow v (ib', ss')"
      "workflow_trans v (ib, ss) (ib', ss')"
      using workflow_step_trans [OF wf, of c] unfolding j by (metis prod.collapse)
    with trans_stays_disarmed that show ?thesis by (simp add: j step_armed_rep)
  qed
qed

text \<open>
  C6: Over every sequence of calls on a new workflow journal of either schema version,
  whatever the database and the file checks do, InvokeOnce is returned at most once for each
  workflow step.
\<close>

theorem workflow_invokes_at_most_once:
  "grant_count workflow_step (invokes s) (new_journal v) cs \<le> 1"
  by (rule workflow_once.grants_at_most_once [OF new_journal_inv])

section \<open>A taker's run down the claim branch\<close>

definition demo_workflow :: "string \<Rightarrow> xmr_workflow_identity" where
  "demo_workflow run_id =
     \<lparr>wi_swap_id = SwapId (replicate 64 (CHR ''a'')), wi_local_role = Taker, wi_run_id = run_id,
      wi_agreement_commitment = replicate 32 1, wi_activation_commitment = replicate 32 2,
      wi_authority_sha256 = replicate 32 3\<rparr>"

definition demo_evidence :: "xmr_workflow_step \<Rightarrow> xmr_workflow_reconciliation" where
  "demo_evidence s =
     \<lparr>re_effect_evidence_sha256 = replicate 32 4, re_tool_plan_identity_sha256 = replicate 32 5,
      re_source = step_source s\<rparr>"

definition demo_finish :: "xmr_workflow_step \<Rightarrow> (storage_io \<times> workflow_call) list" where
  "demo_finish s =
     (let i = demo_workflow ''run''
      in [(steady, CallPrepareStep i s), (steady, CallAuthorizeOnce i s),
          (steady, CallReconcileSucceeded i s (demo_evidence s))])"

definition demo_funded :: "(storage_io \<times> workflow_call) list" where
  "demo_funded =
     (steady, CallInitialize (demo_workflow ''run'')) # demo_finish InitializeLezTag13 @
     demo_finish FundLezTag13 @
     [(steady, CallSelectBranch (demo_workflow ''run'') Branch_Claim),
      (steady, CallPrepareStep (demo_workflow ''run'') AuthorizeLezTag14)]"

definition demo_authorize :: "xmr_workflow_step \<Rightarrow> storage_io \<times> workflow_call" where
  "demo_authorize s = (steady, CallAuthorizeOnce (demo_workflow ''run'') s)"

definition demo_claiming :: "(storage_io \<times> workflow_call) list" where
  "demo_claiming =
     [demo_authorize AuthorizeLezTag14,
      (steady, CallReconcileSucceeded (demo_workflow ''run'') AuthorizeLezTag14 (demo_evidence AuthorizeLezTag14)),
      (steady, CallPrepareStep (demo_workflow ''run'') SweepMoneroClaim)]"

abbreviation demo_done :: "xmr_workflow_step \<Rightarrow> xmr_workflow_step \<times> step_status" where
  "demo_done s \<equiv> (s, SSucceeded False (demo_evidence s))"

lemma demo_identity_wf: "identity_wf (demo_workflow ''run'')"
  by code_simp

lemma demo_evidence_wf: "evidence_wf s (demo_evidence s)"
  by (simp add: evidence_wf_def validate_reconciliation_def demo_evidence_def all_zero_def list_all_iff)

lemma set_status_last: "map_of ss s = None \<Longrightarrow> set_status s st (ss @ [(s, st0)]) = ss @ [(s, st)]"
  by (force simp: set_status_def map_of_eq_None_iff intro!: map_idI)

lemma demo_finish_run:
  assumes wf: "workflow_wf v (Some (demo_workflow ''run'', b), ss)" and s: "map_of ss s = None"
    and allowed: "step_allowed ss (demo_workflow ''run'') b s" "step_name s \<in> step_names v"
  shows "run workflow_step (encode_workflow v (Some (demo_workflow ''run'', b), ss)) (demo_finish s) =
    encode_workflow v (Some (demo_workflow ''run'', b), ss @ [demo_done s])"
    and "workflow_wf v (Some (demo_workflow ''run'', b), ss @ [demo_done s])"
proof -
  let ?i = "demo_workflow ''run''"
  note last = set_status_last [OF s]
  have wf1: "workflow_wf v (Some (?i, b), ss @ [(s, SPrepared)])"
    using workflow_trans_wf [OF workflow_trans.prepare wf] s allowed by blast
  have wf2: "workflow_wf v (Some (?i, b), ss @ [(s, SStarted)])"
    using workflow_wf_set_status [OF wf1, of s SPrepared SStarted] s by (simp add: last map_add_Some_iff del: workflow_wf.simps)
  show "workflow_wf v (Some (?i, b), ss @ [demo_done s])"
    using workflow_wf_set_status [OF wf2, of s SStarted "snd (demo_done s)"] s demo_evidence_wf
    by (simp add: last map_add_Some_iff del: workflow_wf.simps)
  show "run workflow_step (encode_workflow v (Some (?i, b), ss)) (demo_finish s) =
    encode_workflow v (Some (?i, b), ss @ [demo_done s])"
    using prepare_ready [OF wf s allowed] authorize_ready [OF wf1, of s]
      reconcile_ready [OF wf2, of s SStarted "demo_evidence s"] s demo_evidence_wf [of s]
    by (simp add: demo_finish_def Let_def last map_add_Some_iff del: workflow_wf.simps)
qed

lemma demo_funded_run:
  shows "workflow_run 3 demo_funded = encode_workflow 3 (Some (demo_workflow ''run'', Some Branch_Claim),
      [demo_done InitializeLezTag13, demo_done FundLezTag13, (AuthorizeLezTag14, SPrepared)])"
    and "workflow_wf 3 (Some (demo_workflow ''run'', Some Branch_Claim),
      [demo_done InitializeLezTag13, demo_done FundLezTag13, (AuthorizeLezTag14, SPrepared)])"
proof -
  let ?i = "demo_workflow ''run''" and ?e = "encode_workflow 3" and ?f = FundLezTag13
  let ?ss = "[demo_done InitializeLezTag13, demo_done FundLezTag13]"
  have role: "wi_local_role ?i = Taker" by (simp add: demo_workflow_def)
  have "workflow_wf 3 (Some (?i, None), [])" by (simp add: demo_identity_wf)
  note f1 = demo_finish_run [OF this, of InitializeLezTag13]
  have r1: "run workflow_step (?e (Some (?i, None), [])) (demo_finish InitializeLezTag13) =
      ?e (Some (?i, None), [demo_done InitializeLezTag13])"
    and w1: "workflow_wf 3 (Some (?i, None), [demo_done InitializeLezTag13])"
    using f1 by (simp_all add: step_allowed_def role step_names_def del: workflow_wf.simps)
  note f2 = demo_finish_run [OF w1, of FundLezTag13]
  have r2: "run workflow_step (?e (Some (?i, None), [demo_done InitializeLezTag13])) (demo_finish FundLezTag13) =
      ?e (Some (?i, None), ?ss)"
    and w2: "workflow_wf 3 (Some (?i, None), ?ss)"
    using f2 by (simp_all add: step_allowed_def role step_names_def ex_bool_eq del: workflow_wf.simps)
  have sel: "branch_name Branch_Claim \<in> branch_names 3"
    "list_all (\<lambda>s. map_of ?ss s \<noteq> None) (common_steps (wi_local_role ?i))"
    by (simp_all add: branch_names_def role)
  have w3: "workflow_wf 3 (Some (?i, Some Branch_Claim), ?ss)"
    by (rule workflow_trans_wf [OF workflow_trans.select w2]) (use sel in auto)
  have allowed: "map_of ?ss AuthorizeLezTag14 = None" "step_allowed ?ss ?i (Some Branch_Claim) AuthorizeLezTag14"
    "step_name AuthorizeLezTag14 \<in> step_names 3"
    by (simp_all add: step_allowed_def role step_names_def ex_bool_eq)
  show "workflow_wf 3 (Some (?i, Some Branch_Claim), [demo_done InitializeLezTag13, demo_done ?f, (AuthorizeLezTag14, SPrepared)])"
    using workflow_trans_wf [OF workflow_trans.prepare [OF allowed] w3] by (simp only: append.simps)
  show "workflow_run 3 demo_funded = ?e (Some (?i, Some Branch_Claim),
      [demo_done InitializeLezTag13, demo_done ?f, (AuthorizeLezTag14, SPrepared)])"
    using prepare_ready [OF w3 allowed] select_ready [OF w2 sel] initialize_ready [OF demo_identity_wf, of 3]
    by (simp add: demo_funded_def new_journal_rep r1 r2 del: workflow_wf.simps)
qed

lemma demo_claiming_run:
  shows "workflow_run 3 (demo_funded @ demo_claiming) = encode_workflow 3 (Some (demo_workflow ''run'', Some Branch_Claim),
      [demo_done InitializeLezTag13, demo_done FundLezTag13, demo_done AuthorizeLezTag14, (SweepMoneroClaim, SPrepared)])"
    and "workflow_wf 3 (Some (demo_workflow ''run'', Some Branch_Claim),
      [demo_done InitializeLezTag13, demo_done FundLezTag13, demo_done AuthorizeLezTag14, (SweepMoneroClaim, SPrepared)])"
proof -
  let ?i = "demo_workflow ''run''" and ?b = "Some Branch_Claim" and ?a = AuthorizeLezTag14
  let ?p = "[demo_done InitializeLezTag13, demo_done FundLezTag13]"
  have role: "wi_local_role ?i = Taker" by (simp add: demo_workflow_def)
  note last = set_status_last [of ?p ?a, simplified]
  note wf1 = demo_funded_run(2)
  have wf2: "workflow_wf 3 (Some (?i, ?b), ?p @ [(?a, SStarted)])"
    using workflow_wf_set_status [OF wf1, of ?a SPrepared SStarted] by (simp add: last del: workflow_wf.simps)
  have wf3: "workflow_wf 3 (Some (?i, ?b), ?p @ [demo_done ?a])"
    using workflow_wf_set_status [OF wf2, of ?a SStarted "snd (demo_done ?a)"] demo_evidence_wf
    by (simp add: last del: workflow_wf.simps)
  have allowed: "map_of (?p @ [demo_done ?a]) SweepMoneroClaim = None"
    "step_allowed (?p @ [demo_done ?a]) ?i ?b SweepMoneroClaim" "step_name SweepMoneroClaim \<in> step_names 3"
    by (simp_all add: step_allowed_def role step_names_def ex_bool_eq)
  show "workflow_wf 3 (Some (?i, ?b), [demo_done InitializeLezTag13, demo_done FundLezTag13, demo_done ?a, (SweepMoneroClaim, SPrepared)])"
    using workflow_trans_wf [OF workflow_trans.prepare [OF allowed] wf3] by (simp only: append.simps)
  show "workflow_run 3 (demo_funded @ demo_claiming) = encode_workflow 3 (Some (?i, ?b),
      [demo_done InitializeLezTag13, demo_done FundLezTag13, demo_done ?a, (SweepMoneroClaim, SPrepared)])"
    using prepare_ready [OF wf3 allowed] authorize_ready [OF wf1, of ?a]
      reconcile_ready [OF wf2, of ?a SStarted "demo_evidence ?a"] demo_evidence_wf [of ?a]
    by (simp add: demo_claiming_def demo_authorize_def demo_funded_run(1) last del: workflow_wf.simps)
qed

lemma demo_invokes:
  "invokes AuthorizeLezTag14 (workflow_run 3 demo_funded) (demo_authorize AuthorizeLezTag14)"
  "invokes SweepMoneroClaim (workflow_run 3 (demo_funded @ demo_claiming)) (demo_authorize SweepMoneroClaim)"
  using authorize_ready [OF demo_funded_run(2), of AuthorizeLezTag14]
    authorize_ready [OF demo_claiming_run(2), of SweepMoneroClaim]
  by (simp_all add: demo_authorize_def demo_funded_run(1) demo_claiming_run(1) del: workflow_wf.simps foldl_append)

lemma demo_step:
  "load_step (workflow_run 3 demo_funded) FundLezTag13 = Ok (Some (status_snapshot FundLezTag13 (snd (demo_done FundLezTag13))))"
  "load_step (workflow_run 3 demo_funded) AuthorizeLezTag14 = Ok (Some (status_snapshot AuthorizeLezTag14 SPrepared))"
  by (simp_all add: demo_funded_run(1) load_step_rep [OF demo_funded_run(2)])

section \<open>Branches and predecessors\<close>

definition holds_branch :: "nat \<Rightarrow> xmr_workflow_branch \<Rightarrow> xmr_journal \<Rightarrow> bool" where
  "holds_branch v b j \<longleftrightarrow>
     (\<exists>i ss. j = encode_workflow v (Some (i, Some b), ss) \<and> workflow_wf v (Some (i, Some b), ss))"

lemma trans_keeps_branch:
  assumes "workflow_trans v (Some (i, Some b), ss) a"
  obtains ss' where "a = (Some (i, Some b), ss')"
  using assms by (cases rule: workflow_trans.cases) auto

interpretation workflow_branch: step_system workflow_step "holds_branch v b"
proof
  fix j c
  assume "holds_branch v b j"
  then obtain i ss where j: "j = encode_workflow v (Some (i, Some b), ss)"
    and wf: "workflow_wf v (Some (i, Some b), ss)"
    unfolding holds_branch_def by blast
  obtain a where a: "workflow_step j c = encode_workflow v a"
    "workflow_trans v (Some (i, Some b), ss) a" "workflow_wf v a"
    using workflow_step_trans [OF wf, of c] unfolding j .
  from trans_keeps_branch [OF a(2)] obtain ss' where "a = (Some (i, Some b), ss')" .
  with a show "holds_branch v b (workflow_step j c)"
    unfolding holds_branch_def by blast
qed

lemma invokes_holds_branch:
  assumes "workflow_inv v j" "invokes s j c" "scope_branch (step_scope s) = Some b"
  shows "holds_branch v b j"
proof -
  from assms(1) obtain ib ss where j: "j = encode_workflow v (ib, ss)" and wf: "workflow_wf v (ib, ss)"
    unfolding workflow_inv_def by (metis prod.collapse)
  from invokes_rep(3) [OF wf assms(2) [unfolded j]] assms(3) obtain i where "ib = Some (i, Some b)" by auto
  with j wf show ?thesis unfolding holds_branch_def by blast
qed

lemma holds_branch_row: "holds_branch v b j \<Longrightarrow> map ir_selected_branch (xj_identity j) = [Some (branch_name b)]"
  unfolding holds_branch_def by (elim exE conjE) (simp add: encode_workflow.simps)

lemma holds_branch_unique:
  assumes "holds_branch v b j" "holds_branch v b' j"
  shows "b = b'"
proof -
  have "branch_name b = branch_name b'"
    using holds_branch_row [OF assms(1)] holds_branch_row [OF assms(2)] by simp
  then show ?thesis by (cases b; cases b') simp_all
qed

text \<open>
  C7: Two invocations of branch steps in one run of the workflow journal are of the same
  branch: a journal that invoked a claim step never invokes a refund or punish step, and
  conversely.
\<close>

theorem workflow_branches_exclusive:
  assumes "invokes s (workflow_run v cs) c" and "invokes s' (workflow_run v (cs @ ds)) d"
    and "scope_branch (step_scope s) = Some b" and "scope_branch (step_scope s') = Some b'"
  shows "b' = b"
proof -
  note inv = workflow.run_inv [OF new_journal_inv, of v]
  have "holds_branch v b (workflow_run v (cs @ ds))"
    using workflow_branch.run_inv [OF invokes_holds_branch [OF inv assms(1,3)]] by simp
  moreover have "holds_branch v b' (workflow_run v (cs @ ds))"
    by (rule invokes_holds_branch [OF inv assms(2,4)])
  ultimately show ?thesis using holds_branch_unique by blast
qed

theorem workflow_branches_exclusive_witness:
  "invokes AuthorizeLezTag14 (workflow_run 3 demo_funded) (demo_authorize AuthorizeLezTag14) \<and>
   invokes SweepMoneroClaim (workflow_run 3 (demo_funded @ demo_claiming)) (demo_authorize SweepMoneroClaim) \<and>
   the (scope_branch (step_scope SweepMoneroClaim)) = the (scope_branch (step_scope AuthorizeLezTag14))"
proof (intro conjI)
  show "the (scope_branch (step_scope SweepMoneroClaim)) = the (scope_branch (step_scope AuthorizeLezTag14))"
    by (rule workflow_branches_exclusive [OF demo_invokes]) simp_all
qed (rule demo_invokes)+

text \<open>
  When a workflow step is invoked, its predecessor has succeeded in the journal with
  reconciliation evidence that is valid for that predecessor.
\<close>

theorem workflow_predecessor_done:
  assumes "invokes s (workflow_run v cs) c" and "predecessor s = Some p"
  shows "\<exists>x r. load_step (workflow_run v cs) p = Ok (Some x) \<and> ss_state x = Step_Succeeded \<and>
    ss_reconciliation x = Some r \<and> validate_reconciliation p r = Ok ()"
proof -
  obtain ib ss where j: "workflow_run v cs = encode_workflow v (ib, ss)" and wf: "workflow_wf v (ib, ss)"
    using workflow_run_rep .
  from invokes_rep(1) [OF wf] assms(1) have "map_of ss s = Some SPrepared" by (simp add: j)
  from wf_status(3) [OF wf this] assms(2) obtain w r where p: "map_of ss p = Some (SSucceeded w r)"
    by (auto simp: step_allowed_def)
  from wf_status(1) [OF wf p] have "evidence_wf p r" by simp
  with p show ?thesis
    by (simp add: j load_step_rep [OF wf] status_snapshot_def evidence_wf_def)
qed

theorem workflow_predecessor_done_witness:
  "predecessor AuthorizeLezTag14 = Some FundLezTag13 \<and>
   invokes AuthorizeLezTag14 (workflow_run 3 demo_funded) (demo_authorize AuthorizeLezTag14) \<and>
   (\<exists>x r. load_step (workflow_run 3 demo_funded) FundLezTag13 = Ok (Some x) \<and> ss_state x = Step_Succeeded \<and>
      ss_reconciliation x = Some r \<and> validate_reconciliation FundLezTag13 r = Ok ())"
proof (intro conjI)
  show "\<exists>x r. load_step (workflow_run 3 demo_funded) FundLezTag13 = Ok (Some x) \<and> ss_state x = Step_Succeeded \<and>
      ss_reconciliation x = Some r \<and> validate_reconciliation FundLezTag13 r = Ok ()"
    by (rule workflow_predecessor_done [OF demo_invokes(1)]) simp
qed (simp, rule demo_invokes)

text \<open>
  A step that is prepared in a reachable journal can be invoked: with the durable
  identity and a working database, authorize_once returns InvokeOnce.
\<close>

theorem workflow_prepared_invocable:
  assumes "load_identity (workflow_run v cs) = Ok (Some (i, b, n))"
    and "load_step (workflow_run v cs) s = Ok (Some x)" and "ss_state x = Step_Prepared"
  shows "fst (authorize_once steady i s (workflow_run v cs)) = Ok InvokeOnce"
proof -
  obtain ib ss where j: "workflow_run v cs = encode_workflow v (ib, ss)" and wf: "workflow_wf v (ib, ss)"
    using workflow_run_rep .
  from assms(1) have ib: "ib = Some (i, b)" by (auto simp: j load_identity_rep [OF wf])
  from assms(2,3) have "map_of ss s = Some SPrepared"
    by (auto simp: j load_step_rep [OF wf] status_snapshot_def status_of_state)
  from authorize_ready [OF wf [unfolded ib] this] show ?thesis by (simp add: j ib)
qed

theorem workflow_prepared_invocable_witness:
  "fst (authorize_once steady (demo_workflow ''run'') AuthorizeLezTag14 (workflow_run 3 demo_funded)) = Ok InvokeOnce"
proof (rule workflow_prepared_invocable)
  show "load_identity (workflow_run 3 demo_funded) = Ok (Some (demo_workflow ''run'', Some Branch_Claim, 1))"
    by (simp add: demo_funded_run(1) load_identity_rep [OF demo_funded_run(2)])
qed (rule demo_step, simp add: status_snapshot_def)

section \<open>Permanent evidence\<close>

definition holds_evidence ::
    "nat \<Rightarrow> xmr_workflow_step \<Rightarrow> bool \<Rightarrow> xmr_workflow_reconciliation \<Rightarrow> xmr_journal \<Rightarrow> bool" where
  "holds_evidence v s w r j \<longleftrightarrow> (\<exists>ib ss. j = encode_workflow v (ib, ss) \<and> workflow_wf v (ib, ss) \<and>
     map_of ss s = Some (SSucceeded w r))"

lemma trans_keeps_evidence:
  assumes "workflow_trans v (ib, ss) (ib', ss')" "map_of ss s = Some (SSucceeded w r)"
  shows "map_of ss' s = Some (SSucceeded w r)"
  using assms by (cases rule: workflow_trans.cases) (auto simp: map_of_set_status split: if_splits)

interpretation workflow_evidence: step_system workflow_step "holds_evidence v s w r"
proof
  fix j c
  assume "holds_evidence v s w r j"
  then obtain ib ss where j: "j = encode_workflow v (ib, ss)" and wf: "workflow_wf v (ib, ss)"
    and s: "map_of ss s = Some (SSucceeded w r)"
    unfolding holds_evidence_def by blast
  obtain ib' ss' where "workflow_step j c = encode_workflow v (ib', ss')"
    "workflow_trans v (ib, ss) (ib', ss')" "workflow_wf v (ib', ss')"
    using workflow_step_trans [OF wf, of c] unfolding j by (metis prod.collapse)
  with trans_keeps_evidence s show "holds_evidence v s w r (workflow_step j c)"
    unfolding holds_evidence_def by blast
qed

text \<open>
  The evidence of a succeeded step is permanent: after every further sequence of calls
  the step loads as the same snapshot.
\<close>

theorem workflow_evidence_permanent:
  assumes "load_step (workflow_run v cs) s = Ok (Some x)" and "ss_state x = Step_Succeeded"
  shows "load_step (workflow_run v (cs @ ds)) s = Ok (Some x)"
proof -
  obtain ib ss where j: "workflow_run v cs = encode_workflow v (ib, ss)" and wf: "workflow_wf v (ib, ss)"
    using workflow_run_rep .
  from assms obtain st where "map_of ss s = Some st" and x: "x = status_snapshot s st"
    "status_state st = Step_Succeeded"
    by (auto simp: j load_step_rep [OF wf] status_snapshot_def)
  then obtain w r where st: "map_of ss s = Some (SSucceeded w r)" "st = SSucceeded w r" by (cases st) auto
  then have "holds_evidence v s w r (workflow_run v cs)"
    unfolding holds_evidence_def using j wf by blast
  from workflow_evidence.run_inv [OF this, of ds] obtain ib' ss' where
    "workflow_run v (cs @ ds) = encode_workflow v (ib', ss')" "workflow_wf v (ib', ss')"
    "map_of ss' s = Some (SSucceeded w r)"
    unfolding holds_evidence_def by auto
  then show ?thesis by (simp add: load_step_rep x st)
qed

theorem workflow_evidence_permanent_witness:
  "load_step (workflow_run 3 (demo_funded @ demo_claiming)) FundLezTag13 =
     load_step (workflow_run 3 demo_funded) FundLezTag13"
  unfolding demo_step(1) by (rule workflow_evidence_permanent [OF demo_step(1)]) (simp add: status_snapshot_def)

section \<open>Reopening\<close>

lemma validate_steps_rep:
  assumes wf: "workflow_wf v (Some (i, b), ss)"
  shows "set ts \<subseteq> set ss \<Longrightarrow>
    validate_steps (Some i) (encode_workflow v (Some (i, b), ss)) (map (step_name \<circ> fst) ts) = Ok ()"
proof (induction ts)
  case (Cons t ts)
  obtain s st where t: "t = (s, st)" by (cases t)
  with Cons.prems wf have s: "map_of ss s = Some st" by auto
  from wf_status(3) [OF wf s] have "step_role s = wi_local_role i" by (simp add: step_allowed_def)
  moreover from wf_status(1) [OF wf s] have "\<forall>r. status_evidence st = Some r \<longrightarrow> re_source r = step_source s"
    by (auto simp: evidence_wf_def validate_reconciliation_def split: if_splits)
  ultimately have "validate_step i s (status_snapshot s st) = Ok ()"
    by (auto simp: validate_step_def status_snapshot_def split: option.split)
  with Cons s show ?case by (simp add: t load_step_rep [OF wf])
qed simp

text \<open>
  Every reachable journal passes the validation of open_existing: each stored row
  decodes and agrees with the durable identity.
\<close>

theorem workflow_reopens: "validate_all_steps (workflow_run v cs) = Ok ()"
proof -
  obtain ib ss where j: "workflow_run v cs = encode_workflow v (ib, ss)" and wf: "workflow_wf v (ib, ss)"
    using workflow_run_rep .
  have names: "map wr_step (xj_steps (encode_workflow v (ib, ss))) = map (step_name \<circ> fst) ss"
    by (simp add: encode_workflow.simps)
  show ?thesis
  proof (cases ib)
    case None
    with wf have "ss = []" by simp
    then show ?thesis
      by (simp add: j validate_all_steps_def load_identity_def validate_identity_count_def row_at_def None
          encode_workflow.simps)
  next
    case (Some y)
    then obtain i b where ib: "ib = Some (i, b)" by (cases y) auto
    from validate_steps_rep [OF wf [unfolded ib], of ss] show ?thesis
      by (simp add: j validate_all_steps_def load_identity_rep [OF wf] names) (simp add: ib)
  qed
qed

section \<open>Replays of the preparation\<close>

text \<open>
  C40: Preparing a step that is already stored succeeds for every well-formed identity of
  the role of the step, also one that differs from the durable identity of the journal: only
  the role is compared on a replay.
\<close>

theorem prepare_replay_ignores_identity:
  assumes "load_step (workflow_run v cs) s = Ok (Some x)"
    and "validate_identity i = Ok ()" and "wi_local_role i = step_role s"
  shows "prepare_step steady i s (workflow_run v cs) = (Ok (), workflow_run v cs)"
proof -
  obtain ib ss where j: "workflow_run v cs = encode_workflow v (ib, ss)" and wf: "workflow_wf v (ib, ss)"
    using workflow_run_rep .
  from assms(1) obtain st where s: "map_of ss s = Some st" and x: "x = status_snapshot s st"
    by (auto simp: j load_step_rep [OF wf])
  from wf_status(1) [OF wf s] have "validate_step i s x = Ok ()"
    using assms(3) by (auto simp: x validate_step_def status_snapshot_def evidence_wf_def
        validate_reconciliation_def split: option.split if_splits)
  then have "prepare_step_body i s (workflow_run v cs) = Ok ((), workflow_run v cs)"
    using assms(1) by (simp add: prepare_step_body_def)
  then show ?thesis
    using assms(2,3) by (simp add: prepare_step_def role_guarded_def ensure_step_role_def with_storage_steady)
qed

theorem prepare_replay_ignores_identity_witness:
  "validate_initialized steady (demo_workflow ''run'') (workflow_run 3 demo_funded) = Ok () \<and>
   demo_workflow ''other'' \<noteq> demo_workflow ''run'' \<and>
   prepare_step steady (demo_workflow ''other'') FundLezTag13 (workflow_run 3 demo_funded) =
     (Ok (), workflow_run 3 demo_funded)"
proof (intro conjI)
  have "validate_identity (demo_workflow ''other'') = Ok ()" by code_simp
  then show "prepare_step steady (demo_workflow ''other'') FundLezTag13 (workflow_run 3 demo_funded) =
      (Ok (), workflow_run 3 demo_funded)"
    by (rule prepare_replay_ignores_identity [OF demo_step(1)]) (simp add: demo_workflow_def)
  show "validate_initialized steady (demo_workflow ''run'') (workflow_run 3 demo_funded) = Ok ()"
    using demo_identity_wf by (simp add: validate_initialized_def read_only_def steady_def demo_funded_run(1)
        require_identity_rep [OF demo_funded_run(2)] ensure_identity_def identity_wf_def)
qed (simp add: demo_workflow_def)

end
