(* ===== verification/Escrow_Model.thy ===== *)
theory Escrow_Model
  imports Effect_Plan
begin

text \<open>
  Data and validation helpers of the LEZ escrow program
  (\<open>compat/lez-v0.2-provisional/escrow/src/lib.rs\<close>). The packages the program is built on
  are fields of the environment \<open>escrow_env\<close>: SHA-256, the Borsh codec of the metadata
  account, PDA and associated-token-account derivation, token account decoding and the
  framework's check of the declared account attributes. Account data has the abstract
  type \<open>'d\<close>, so nothing depends on how the codec lays out its bytes.
\<close>

named_theorems escrow_defs \<open>definitions of the escrow helpers\<close>

section \<open>Accounts and metadata\<close>

type_synonym account_id = bytes
type_synonym program_id = "u32 list"

text \<open>The account fields the program reads; \<open>acc_rest\<close> stands for the ones it does not.\<close>

record 'd account =
  acc_program_owner :: program_id
  acc_balance :: u128
  acc_data :: 'd
  acc_rest :: bytes

record 'd account_with_metadata =
  account_id :: account_id
  account :: "'d account"
  is_authorized :: bool

datatype escrow_status = Empty | Funded | Claimed | EscrowRefunded | XmrClaimAuthorized

record xmr_dual_adaptor =
  claim_aggregate_x_only_public_key :: bytes
  claim_aggregate_account_id :: account_id
  refund_aggregate_x_only_public_key :: bytes
  refund_aggregate_account_id :: account_id
  maker_dleq_transcript_commitment :: bytes
  taker_dleq_transcript_commitment :: bytes
  claim_partial_context_binding :: bytes
  claim_partial_commitment :: bytes
  punish_at :: u64

datatype claim_authority =
    Sha256Preimage bytes
  | AggregateWitness bytes account_id
  | XmrDualAdaptor xmr_dual_adaptor

record escrow_metadata =
  em_version :: u8
  em_swap_id :: bytes
  em_terms_hash :: bytes
  em_claim_authority :: claim_authority
  em_depositor :: account_id
  em_depositor_asset :: account_id
  em_claimant :: account_id
  em_claimant_asset :: account_id
  em_custody :: account_id
  em_asset_program :: program_id
  em_custody_program :: program_id
  em_asset_definition :: bytes
  em_amount :: u128
  em_refund_at :: u64
  em_status :: escrow_status

datatype escrow_error =
    InvalidTerms
  | NotFunded
  | AccountBinding
  | WrongPreimage
  | UnsupportedVersion
  | WrongClaimAuthority
  | SerializationError
  | DeserializationError
  | AttributeRejected

text \<open>The numeric codes of the program's own errors.\<close>

fun error_code :: "escrow_error \<Rightarrow> u32 option" where
  "error_code InvalidTerms = Some 1"
| "error_code NotFunded = Some 2"
| "error_code AccountBinding = Some 3"
| "error_code WrongPreimage = Some 4"
| "error_code UnsupportedVersion = Some 5"
| "error_code WrongClaimAuthority = Some 6"
| "error_code _ = None"

definition escrow_metadata_version :: u8 where
  [escrow_defs]: "escrow_metadata_version = 2"

definition xmr_escrow_metadata_version :: u8 where
  [escrow_defs]: "xmr_escrow_metadata_version = 3"

definition default_program_id :: program_id where
  "default_program_id = replicate 8 0"

section \<open>Chained calls and outputs\<close>

datatype chained_instruction =
    AuthenticatedTransfer_Initialize
  | AuthenticatedTransfer_Transfer u128
  | Ata_Create program_id
  | Ata_Transfer program_id u128

record 'd chained_call =
  call_program :: program_id
  call_accounts :: "'d account_with_metadata list"
  call_instruction :: chained_instruction
  call_pda_seeds :: "bytes list"

text \<open>A timestamp validity window: an inclusive start and an exclusive end, each optional.\<close>

record validity_window =
  win_from :: "u64 option"
  win_to :: "u64 option"

definition in_window :: "u64 \<Rightarrow> validity_window \<Rightarrow> bool" where
  "in_window now w \<longleftrightarrow>
     (case win_from w of None \<Rightarrow> True | Some a \<Rightarrow> a \<le> now) \<and>
     (case win_to w of None \<Rightarrow> True | Some b \<Rightarrow> now < b)"

abbreviation until :: "u64 \<Rightarrow> validity_window" where
  "until t \<equiv> \<lparr>win_from = None, win_to = Some t\<rparr>"

abbreviation from_time :: "u64 \<Rightarrow> validity_window" where
  "from_time t \<equiv> \<lparr>win_from = Some t, win_to = None\<rparr>"

record 'd spel_output =
  out_accounts :: "'d account_with_metadata list"
  out_calls :: "'d chained_call list"
  out_window :: validity_window

section \<open>The environment\<close>

datatype token_holding =
    FungibleHolding account_id u128
  | OtherHolding account_id

fun holding_definition_id :: "token_holding \<Rightarrow> account_id" where
  "holding_definition_id (FungibleHolding d _) = d"
| "holding_definition_id (OtherHolding d) = d"

text \<open>The attributes an instruction declares on an account.\<close>

datatype account_attribute =
    Attr_Init
  | Attr_Mut
  | Attr_Signer
  | Attr_OwnerSelf
  | Attr_PdaSwap
  | Attr_PdaCustody

record 'd escrow_env =
  env_sha256 :: "bytes \<Rightarrow> bytes"
  env_borsh_encode :: "escrow_metadata \<Rightarrow> 'd option"
  env_borsh_decode :: "'d \<Rightarrow> escrow_metadata option"
  env_default_account :: "'d account"
  env_seed_from_str :: "string \<Rightarrow> bytes"
  env_pda_from_seeds :: "bytes list \<Rightarrow> bytes"
  env_ata_id :: "program_id \<Rightarrow> account_id \<Rightarrow> account_id \<Rightarrow> account_id"
  env_token_holding :: "'d \<Rightarrow> token_holding option"
  env_fungible_definition :: "'d \<Rightarrow> bool"
  env_attribute_ok ::
    "program_id \<Rightarrow> bytes \<Rightarrow> account_attribute \<Rightarrow> 'd account_with_metadata \<Rightarrow> bool"
  env_window_ok :: "u64 \<Rightarrow> u64 \<Rightarrow> bool"

section \<open>Authorities\<close>

definition public_account_id_prefix :: bytes where
  "public_account_id_prefix = as_bytes ''/LEE/v0.3/AccountId/Public/'' @ replicate 5 0"

definition witnessed_account_id :: "'d escrow_env \<Rightarrow> bytes \<Rightarrow> account_id" where
  "witnessed_account_id env k = env_sha256 env (public_account_id_prefix @ k)"

fun valid_claim_authority :: "'d escrow_env \<Rightarrow> claim_authority \<Rightarrow> account_id \<Rightarrow> bool" where
  "valid_claim_authority env (Sha256Preimage digest) claimant = (digest \<noteq> zero32)"
| "valid_claim_authority env (AggregateWitness k i) claimant =
     (k \<noteq> zero32 \<and> witnessed_account_id env k = i \<and> i \<noteq> claimant)"
| "valid_claim_authority env (XmrDualAdaptor x) claimant =
     (claim_aggregate_x_only_public_key x \<noteq> zero32 \<and>
      refund_aggregate_x_only_public_key x \<noteq> zero32 \<and>
      claim_aggregate_x_only_public_key x \<noteq> refund_aggregate_x_only_public_key x \<and>
      witnessed_account_id env (claim_aggregate_x_only_public_key x) =
        claim_aggregate_account_id x \<and>
      witnessed_account_id env (refund_aggregate_x_only_public_key x) =
        refund_aggregate_account_id x \<and>
      claim_aggregate_account_id x \<noteq> refund_aggregate_account_id x \<and>
      claim_aggregate_account_id x \<noteq> claimant \<and>
      refund_aggregate_account_id x \<noteq> claimant \<and>
      maker_dleq_transcript_commitment x \<noteq> zero32 \<and>
      taker_dleq_transcript_commitment x \<noteq> zero32 \<and>
      maker_dleq_transcript_commitment x \<noteq> taker_dleq_transcript_commitment x \<and>
      claim_partial_context_binding x \<noteq> zero32 \<and>
      claim_partial_commitment x \<noteq> zero32 \<and>
      punish_at x \<noteq> 0)"

definition xmr_claim_partial_domain :: bytes where
  "xmr_claim_partial_domain =
     as_bytes ''logos.gateway.lez-xmr.claim-partial-commitment.v1'' @ [0]"

definition xmr_claim_partial_commitment :: "'d escrow_env \<Rightarrow> bytes \<Rightarrow> bytes \<Rightarrow> bytes" where
  "xmr_claim_partial_commitment env context_binding claim_partial =
     env_sha256 env (xmr_claim_partial_domain @ context_binding @ claim_partial)"

fun require_preimage_authority ::
    "'d escrow_env \<Rightarrow> escrow_metadata \<Rightarrow> bytes \<Rightarrow> escrow_error + unit" where
  "require_preimage_authority env state preimage =
     (case em_claim_authority state of
        Sha256Preimage digest \<Rightarrow>
          if env_sha256 env preimage \<noteq> digest then Err WrongPreimage else Ok ()
      | _ \<Rightarrow> Err WrongClaimAuthority)"

fun require_aggregate_witness_authority ::
    "'d escrow_env \<Rightarrow> escrow_metadata \<Rightarrow> account_id \<Rightarrow> escrow_error + unit" where
  "require_aggregate_witness_authority env state aggregate_authority =
     (case em_claim_authority state of
        AggregateWitness k i \<Rightarrow>
          if witnessed_account_id env k \<noteq> i \<or> i \<noteq> aggregate_authority \<or> i = em_claimant state
          then Err AccountBinding else Ok ()
      | _ \<Rightarrow> Err WrongClaimAuthority)"

datatype xmr_witness_purpose = Purpose_Claim | Purpose_Refund

fun require_xmr_witness_authority ::
    "'d escrow_env \<Rightarrow> escrow_metadata \<Rightarrow> xmr_witness_purpose \<Rightarrow> account_id \<Rightarrow> escrow_error + u64" where
  "require_xmr_witness_authority env state purpose aggregate_authority =
     (case em_claim_authority state of
        XmrDualAdaptor x \<Rightarrow>
          let (k, i) = (case purpose of
                 Purpose_Claim \<Rightarrow>
                   (claim_aggregate_x_only_public_key x, claim_aggregate_account_id x)
               | Purpose_Refund \<Rightarrow>
                   (refund_aggregate_x_only_public_key x, refund_aggregate_account_id x))
          in if witnessed_account_id env k \<noteq> i \<or> i \<noteq> aggregate_authority \<or>
                i = em_depositor state \<or> i = em_claimant state
             then Err AccountBinding else Ok (punish_at x)
      | _ \<Rightarrow> Err WrongClaimAuthority)"

section \<open>Metadata accounts, seeds and tokens\<close>

definition write_metadata ::
    "'d escrow_env \<Rightarrow> 'd account_with_metadata \<Rightarrow> escrow_metadata
     \<Rightarrow> escrow_error + 'd account_with_metadata" where
  [escrow_defs]: "write_metadata env acc m =
     (case env_borsh_encode env m of
        None \<Rightarrow> Err SerializationError
      | Some d \<Rightarrow> Ok (acc\<lparr>account := (account acc)\<lparr>acc_data := d\<rparr>\<rparr>))"

definition read_metadata ::
    "'d escrow_env \<Rightarrow> 'd account_with_metadata \<Rightarrow> escrow_error + escrow_metadata" where
  [escrow_defs]: "read_metadata env acc =
     (case env_borsh_decode env (acc_data (account acc)) of
        None \<Rightarrow> Err DeserializationError
      | Some m \<Rightarrow> Ok m)"

definition custody_pda_seed :: "'d escrow_env \<Rightarrow> bytes \<Rightarrow> bytes" where
  "custody_pda_seed env swap_id =
     env_pda_from_seeds env [env_seed_from_str env ''custody'', swap_id]"

definition metadata_pda_seed :: "'d escrow_env \<Rightarrow> bytes \<Rightarrow> bytes" where
  "metadata_pda_seed env swap_id = env_pda_from_seeds env [swap_id]"

definition associated_token_account ::
    "'d escrow_env \<Rightarrow> program_id \<Rightarrow> account_id \<Rightarrow> account_id \<Rightarrow> account_id" where
  "associated_token_account env ata_program owner definition_id =
     env_ata_id env ata_program owner definition_id"

definition token_holding_of ::
    "'d escrow_env \<Rightarrow> 'd account_with_metadata \<Rightarrow> escrow_error + token_holding" where
  [escrow_defs]: "token_holding_of env acc =
     (case env_token_holding env (acc_data (account acc)) of
        None \<Rightarrow> Err AccountBinding
      | Some h \<Rightarrow> Ok h)"

definition token_definition_of ::
    "'d escrow_env \<Rightarrow> 'd account_with_metadata \<Rightarrow> escrow_error + account_id" where
  [escrow_defs]: "token_definition_of env acc =
     and_then (token_holding_of env acc) (\<lambda>h. Ok (holding_definition_id h))"

definition fungible_balance ::
    "'d escrow_env \<Rightarrow> 'd account_with_metadata \<Rightarrow> escrow_error + u128" where
  [escrow_defs]: "fungible_balance env acc =
     and_then (token_holding_of env acc) (\<lambda>h.
       case h of FungibleHolding _ b \<Rightarrow> Ok b | OtherHolding _ \<Rightarrow> Err AccountBinding)"

definition require_fungible_definition ::
    "'d escrow_env \<Rightarrow> 'd account_with_metadata \<Rightarrow> program_id \<Rightarrow> escrow_error + unit" where
  [escrow_defs]: "require_fungible_definition env acc token_program =
     (if acc_program_owner (account acc) \<noteq> token_program \<or>
         \<not> env_fungible_definition env (acc_data (account acc))
      then Err AccountBinding else Ok ())"

definition require_supported :: "escrow_metadata \<Rightarrow> escrow_error + unit" where
  [escrow_defs]: "require_supported state =
     (if (case em_claim_authority state of
            XmrDualAdaptor _ \<Rightarrow> em_version state = xmr_escrow_metadata_version
          | _ \<Rightarrow> em_version state = escrow_metadata_version)
      then Ok () else Err UnsupportedVersion)"

definition require_funded :: "escrow_metadata \<Rightarrow> escrow_error + unit" where
  [escrow_defs]: "require_funded state =
     and_then (require_supported state) (\<lambda>_.
       if em_status state \<noteq> Funded then Err NotFunded else Ok ())"

section \<open>Chained calls\<close>

definition native_initialize_call ::
    "'d escrow_env \<Rightarrow> program_id \<Rightarrow> 'd account_with_metadata \<Rightarrow> bytes \<Rightarrow> 'd chained_call" where
  "native_initialize_call env transfer_program custody swap_id =
     \<lparr>call_program = transfer_program,
      call_accounts = [custody\<lparr>is_authorized := True\<rparr>],
      call_instruction = AuthenticatedTransfer_Initialize,
      call_pda_seeds = [custody_pda_seed env swap_id]\<rparr>"

definition native_transfer_call ::
    "'d escrow_env \<Rightarrow> program_id \<Rightarrow> 'd account_with_metadata \<Rightarrow> 'd account_with_metadata
     \<Rightarrow> u128 \<Rightarrow> bool \<Rightarrow> bytes \<Rightarrow> 'd chained_call" where
  "native_transfer_call env transfer_program sender recipient amount authorize_custody swap_id =
     \<lparr>call_program = transfer_program,
      call_accounts = [if authorize_custody then sender\<lparr>is_authorized := True\<rparr> else sender,
                       recipient],
      call_instruction = AuthenticatedTransfer_Transfer amount,
      call_pda_seeds = (if authorize_custody then [custody_pda_seed env swap_id] else [])\<rparr>"

definition ata_transfer_call ::
    "'d escrow_env \<Rightarrow> program_id \<Rightarrow> 'd account_with_metadata \<Rightarrow> 'd account_with_metadata
     \<Rightarrow> 'd account_with_metadata \<Rightarrow> u128 \<Rightarrow> bool \<Rightarrow> bytes \<Rightarrow> 'd chained_call" where
  "ata_transfer_call env ata_program owner sender recipient amount authorize_metadata swap_id =
     \<lparr>call_program = ata_program,
      call_accounts = [if authorize_metadata then owner\<lparr>is_authorized := True\<rparr> else owner,
                       sender, recipient],
      call_instruction = Ata_Transfer ata_program amount,
      call_pda_seeds = (if authorize_metadata then [metadata_pda_seed env swap_id] else [])\<rparr>"

section \<open>Initial states\<close>

definition native_initial_state ::
    "'d escrow_env \<Rightarrow> program_id \<Rightarrow> 'd account_with_metadata \<Rightarrow> 'd account_with_metadata
     \<Rightarrow> 'd account_with_metadata \<Rightarrow> bytes \<Rightarrow> bytes \<Rightarrow> claim_authority \<Rightarrow> u128 \<Rightarrow> u64 \<Rightarrow> program_id
     \<Rightarrow> escrow_error + escrow_metadata" where
  "native_initial_state env self custody depositor claimant swap_id terms_hash authority amount
       refund_at transfer_program =
     (if amount = 0 \<or> refund_at = 0 \<or> terms_hash = zero32 \<or>
         \<not> valid_claim_authority env authority (account_id claimant) \<or>
         transfer_program = default_program_id \<or> transfer_program = self
      then Err InvalidTerms
      else if account custody \<noteq> env_default_account env \<or>
              acc_program_owner (account depositor) \<noteq> transfer_program \<or>
              acc_program_owner (account claimant) \<noteq> transfer_program
      then Err AccountBinding
      else Ok \<lparr>em_version = escrow_metadata_version, em_swap_id = swap_id,
               em_terms_hash = terms_hash, em_claim_authority = authority,
               em_depositor = account_id depositor, em_depositor_asset = account_id depositor,
               em_claimant = account_id claimant, em_claimant_asset = account_id claimant,
               em_custody = account_id custody, em_asset_program = transfer_program,
               em_custody_program = transfer_program, em_asset_definition = zero32,
               em_amount = amount, em_refund_at = refund_at, em_status = Empty\<rparr>)"

definition native_xmr_initial_state ::
    "'d escrow_env \<Rightarrow> program_id \<Rightarrow> 'd account_with_metadata \<Rightarrow> 'd account_with_metadata
     \<Rightarrow> 'd account_with_metadata \<Rightarrow> bytes \<Rightarrow> bytes \<Rightarrow> xmr_dual_adaptor \<Rightarrow> u128 \<Rightarrow> u64 \<Rightarrow> program_id
     \<Rightarrow> escrow_error + escrow_metadata" where
  "native_xmr_initial_state env self custody depositor claimant swap_id terms_hash x amount
       refund_at transfer_program =
     (if punish_at x \<le> refund_at \<or> account_id depositor = account_id claimant \<or>
         account_id depositor = claim_aggregate_account_id x \<or>
         account_id depositor = refund_aggregate_account_id x
      then Err InvalidTerms
      else and_then (native_initial_state env self custody depositor claimant swap_id terms_hash
                       (XmrDualAdaptor x) amount refund_at transfer_program)
        (\<lambda>state. Ok (state\<lparr>em_version := xmr_escrow_metadata_version\<rparr>)))"

definition token_initial_state ::
    "'d escrow_env \<Rightarrow> program_id \<Rightarrow> 'd account_with_metadata \<Rightarrow> 'd account_with_metadata
     \<Rightarrow> 'd account_with_metadata \<Rightarrow> 'd account_with_metadata \<Rightarrow> bytes \<Rightarrow> bytes \<Rightarrow> claim_authority
     \<Rightarrow> u128 \<Rightarrow> u64 \<Rightarrow> program_id \<Rightarrow> escrow_error + escrow_metadata" where
  "token_initial_state env self metadata depositor_owner claimant_owner token_definition swap_id
       terms_hash authority amount refund_at ata_program =
     (let token_program = acc_program_owner (account token_definition);
          def_id = account_id token_definition
      in if amount = 0 \<or> refund_at = 0 \<or> terms_hash = zero32 \<or>
            \<not> valid_claim_authority env authority (account_id claimant_owner) \<or>
            token_program = default_program_id \<or> token_program = self \<or>
            ata_program = default_program_id \<or> ata_program = self \<or> ata_program = token_program
         then Err InvalidTerms
         else and_then (require_fungible_definition env token_definition token_program) (\<lambda>_.
           Ok \<lparr>em_version = escrow_metadata_version, em_swap_id = swap_id,
               em_terms_hash = terms_hash, em_claim_authority = authority,
               em_depositor = account_id depositor_owner,
               em_depositor_asset =
                 associated_token_account env ata_program (account_id depositor_owner) def_id,
               em_claimant = account_id claimant_owner,
               em_claimant_asset =
                 associated_token_account env ata_program (account_id claimant_owner) def_id,
               em_custody = associated_token_account env ata_program (account_id metadata) def_id,
               em_asset_program = token_program, em_custody_program = ata_program,
               em_asset_definition = def_id, em_amount = amount, em_refund_at = refund_at,
               em_status = Empty\<rparr>))"

section \<open>Validated states\<close>

datatype claim_proof =
    Proof_Preimage bytes
  | Proof_Witness account_id

fun check_claim_proof ::
    "'d escrow_env \<Rightarrow> escrow_metadata \<Rightarrow> claim_proof \<Rightarrow> escrow_error + unit" where
  "check_claim_proof env state (Proof_Preimage preimage) =
     require_preimage_authority env state preimage"
| "check_claim_proof env state (Proof_Witness aggregate_authority) =
     require_aggregate_witness_authority env state aggregate_authority"

text \<open>The binding conditions the native claim, refund and witness checks share.\<close>

definition native_binding ::
    "escrow_metadata \<Rightarrow> bytes \<Rightarrow> account_id \<Rightarrow> 'd account_with_metadata \<Rightarrow> 'd account_with_metadata
     \<Rightarrow> bool" where
  [escrow_defs]: "native_binding state swap_id expected recipient custody \<longleftrightarrow>
     em_swap_id state = swap_id \<and> em_asset_definition state = zero32 \<and>
     em_asset_program state = em_custody_program state \<and>
     expected = account_id recipient \<and> em_custody state = account_id custody \<and>
     acc_program_owner (account recipient) = em_asset_program state \<and>
     acc_program_owner (account custody) = em_asset_program state \<and>
     acc_balance (account custody) = em_amount state"

definition validated_native_claim_state ::
    "'d escrow_env \<Rightarrow> 'd account_with_metadata \<Rightarrow> 'd account_with_metadata
     \<Rightarrow> 'd account_with_metadata \<Rightarrow> bytes \<Rightarrow> claim_proof \<Rightarrow> escrow_error + escrow_metadata" where
  "validated_native_claim_state env metadata custody claimant swap_id proof =
     and_then (read_metadata env metadata) (\<lambda>state.
     and_then (require_funded state) (\<lambda>_.
       if \<not> native_binding state swap_id (em_claimant state) claimant custody
       then Err AccountBinding
       else and_then (check_claim_proof env state proof) (\<lambda>_.
         Ok (state\<lparr>em_status := Claimed\<rparr>))))"

definition validated_xmr_native_witness_state ::
    "'d escrow_env \<Rightarrow> 'd account_with_metadata \<Rightarrow> 'd account_with_metadata
     \<Rightarrow> 'd account_with_metadata \<Rightarrow> 'd account_with_metadata \<Rightarrow> bytes \<Rightarrow> xmr_witness_purpose
     \<Rightarrow> escrow_error + (escrow_metadata \<times> u64)" where
  "validated_xmr_native_witness_state env metadata custody recipient aggregate_authority swap_id
       purpose =
     and_then (read_metadata env metadata) (\<lambda>state.
       let allowed = (case purpose of
             Purpose_Claim \<Rightarrow> em_status state = XmrClaimAuthorized
           | Purpose_Refund \<Rightarrow> em_status state \<in> {Funded, XmrClaimAuthorized});
           expected = (case purpose of
             Purpose_Claim \<Rightarrow> em_claimant state | Purpose_Refund \<Rightarrow> em_depositor state)
       in if \<not> allowed then Err NotFunded
          else if em_version state \<noteq> xmr_escrow_metadata_version \<or>
                  \<not> native_binding state swap_id expected recipient custody
          then Err AccountBinding
          else and_then (require_xmr_witness_authority env state purpose
                           (account_id aggregate_authority)) (\<lambda>at.
            Ok (state\<lparr>em_status := (case purpose of
                  Purpose_Claim \<Rightarrow> Claimed | Purpose_Refund \<Rightarrow> EscrowRefunded)\<rparr>, at)))"

definition validated_xmr_claim_authorization_state ::
    "'d escrow_env \<Rightarrow> 'd account_with_metadata \<Rightarrow> 'd account_with_metadata \<Rightarrow> bytes \<Rightarrow> bytes
     \<Rightarrow> escrow_error + escrow_metadata" where
  "validated_xmr_claim_authorization_state env metadata depositor swap_id claim_partial =
     and_then (read_metadata env metadata) (\<lambda>state.
     and_then (require_funded state) (\<lambda>_.
       case em_claim_authority state of
         XmrDualAdaptor x \<Rightarrow>
           if em_swap_id state \<noteq> swap_id \<or> em_version state \<noteq> xmr_escrow_metadata_version \<or>
              em_depositor state \<noteq> account_id depositor \<or>
              acc_program_owner (account depositor) \<noteq> em_asset_program state \<or>
              claim_partial = zero32 \<or>
              xmr_claim_partial_commitment env (claim_partial_context_binding x) claim_partial
                \<noteq> claim_partial_commitment x
           then Err AccountBinding
           else Ok (state\<lparr>em_status := XmrClaimAuthorized\<rparr>)
       | _ \<Rightarrow> Err WrongClaimAuthority))"

definition validated_xmr_native_punish_state ::
    "'d escrow_env \<Rightarrow> 'd account_with_metadata \<Rightarrow> 'd account_with_metadata
     \<Rightarrow> 'd account_with_metadata \<Rightarrow> bytes \<Rightarrow> escrow_error + (escrow_metadata \<times> u64)" where
  "validated_xmr_native_punish_state env metadata custody claimant swap_id =
     and_then (read_metadata env metadata) (\<lambda>state.
       if em_status state \<notin> {Funded, XmrClaimAuthorized} then Err NotFunded
       else if em_version state \<noteq> xmr_escrow_metadata_version \<or>
               \<not> native_binding state swap_id (em_claimant state) claimant custody
       then Err AccountBinding
       else case em_claim_authority state of
         XmrDualAdaptor x \<Rightarrow> Ok (state\<lparr>em_status := Claimed\<rparr>, punish_at x)
       | _ \<Rightarrow> Err WrongClaimAuthority)"

text \<open>
  The binding conditions the token claim and refund share. Decoding an account's token
  data fails with the same error as a mismatch.
\<close>

definition token_binding ::
    "'d escrow_env \<Rightarrow> escrow_metadata \<Rightarrow> bytes \<Rightarrow> account_id \<Rightarrow> 'd account_with_metadata
     \<Rightarrow> 'd account_with_metadata \<Rightarrow> escrow_error + unit" where
  [escrow_defs]: "token_binding env state swap_id expected asset custody =
     (if em_swap_id state \<noteq> swap_id \<or> expected \<noteq> account_id asset \<or>
         em_custody state \<noteq> account_id custody \<or>
         acc_program_owner (account asset) \<noteq> em_asset_program state \<or>
         acc_program_owner (account custody) \<noteq> em_asset_program state
      then Err AccountBinding
      else
        and_then (token_definition_of env asset) (\<lambda>da.
          if da \<noteq> em_asset_definition state then Err AccountBinding
          else and_then (token_definition_of env custody) (\<lambda>dc.
            if dc \<noteq> em_asset_definition state then Err AccountBinding else Ok ())))"

definition validated_token_claim_state ::
    "'d escrow_env \<Rightarrow> 'd account_with_metadata \<Rightarrow> 'd account_with_metadata
     \<Rightarrow> 'd account_with_metadata \<Rightarrow> 'd account_with_metadata \<Rightarrow> bytes \<Rightarrow> claim_proof
     \<Rightarrow> escrow_error + escrow_metadata" where
  "validated_token_claim_state env metadata custody claimant_owner claimant_asset swap_id proof =
     and_then (read_metadata env metadata) (\<lambda>state.
     and_then (require_funded state) (\<lambda>_.
       if em_claimant state \<noteq> account_id claimant_owner then Err AccountBinding
       else
         and_then (token_binding env state swap_id (em_claimant_asset state) claimant_asset custody)
           (\<lambda>_.
         and_then (fungible_balance env custody) (\<lambda>b.
           if b \<noteq> em_amount state then Err AccountBinding
           else and_then (check_claim_proof env state proof) (\<lambda>_.
             Ok (state\<lparr>em_status := Claimed\<rparr>))))))"

end
