(* ===== verification/Escrow_Program.thy ===== *)
theory Escrow_Program
  imports Escrow_Model
begin

text \<open>
  The eighteen instructions of the LEZ escrow program, in the order of their
  discriminants (\<open>compat/lez-v0.2-provisional/escrow/src/lib.rs\<close>). Each takes the metadata
  account first and returns the accounts, chained calls and validity window it asks the
  execution zone to commit together. \<open>execute\<close> dispatches, \<open>escrow_step\<close> runs one
  instruction at a timestamp against the escrow's metadata account: a rejected instruction
  or one outside its window changes nothing.
\<close>

named_theorems instruction_defs \<open>definitions of the instructions\<close>

section \<open>Attributes and outputs\<close>

definition require_attributes ::
    "'d escrow_env \<Rightarrow> program_id \<Rightarrow> bytes \<Rightarrow> (account_attribute list \<times> 'd account_with_metadata) list
     \<Rightarrow> escrow_error + unit" where
  "require_attributes env self swap_id as =
     (if list_all (\<lambda>(attrs, acc). list_all (\<lambda>a. env_attribute_ok env self swap_id a acc) attrs) as
      then Ok () else Err AttributeRejected)"

abbreviation meta_init :: "account_attribute list" where
  "meta_init \<equiv> [Attr_Init, Attr_PdaSwap]"

abbreviation meta_mut :: "account_attribute list" where
  "meta_mut \<equiv> [Attr_Mut, Attr_OwnerSelf, Attr_PdaSwap]"

abbreviation custody_mut :: "account_attribute list" where
  "custody_mut \<equiv> [Attr_Mut, Attr_PdaCustody]"

definition commit ::
    "'d escrow_env \<Rightarrow> 'd account_with_metadata \<Rightarrow> escrow_metadata \<Rightarrow> 'd account_with_metadata list
     \<Rightarrow> ('d account_with_metadata \<Rightarrow> 'd chained_call list) \<Rightarrow> validity_window
     \<Rightarrow> escrow_error + 'd spel_output" where
  "commit env metadata state others calls window =
     and_then (write_metadata env metadata state) (\<lambda>metadata'.
       Ok \<lparr>out_accounts = metadata' # others, out_calls = calls metadata',
           out_window = window\<rparr>)"

section \<open>Native escrows\<close>

definition initialize_native ::
    "'d escrow_env \<Rightarrow> program_id \<Rightarrow> 'd account_with_metadata \<Rightarrow> 'd account_with_metadata
     \<Rightarrow> 'd account_with_metadata \<Rightarrow> 'd account_with_metadata \<Rightarrow> bytes \<Rightarrow> bytes \<Rightarrow> bytes \<Rightarrow> u128 \<Rightarrow> u64
     \<Rightarrow> program_id \<Rightarrow> escrow_error + 'd spel_output" where
  [instruction_defs]: "initialize_native env self metadata custody depositor claimant swap_id
       terms_hash secret_digest amount refund_at transfer_program =
     and_then (require_attributes env self swap_id
       [(meta_init, metadata), (custody_mut, custody), ([Attr_Signer], depositor)]) (\<lambda>_.
     and_then (native_initial_state env self custody depositor claimant swap_id terms_hash
       (Sha256Preimage secret_digest) amount refund_at transfer_program) (\<lambda>state.
     commit env metadata state [custody, depositor, claimant]
       (\<lambda>_. [native_initialize_call env transfer_program custody swap_id]) (until refund_at)))"

definition initialize_native_witnessed ::
    "'d escrow_env \<Rightarrow> program_id \<Rightarrow> 'd account_with_metadata \<Rightarrow> 'd account_with_metadata
     \<Rightarrow> 'd account_with_metadata \<Rightarrow> 'd account_with_metadata \<Rightarrow> 'd account_with_metadata \<Rightarrow> bytes
     \<Rightarrow> bytes \<Rightarrow> bytes \<Rightarrow> u128 \<Rightarrow> u64 \<Rightarrow> program_id \<Rightarrow> escrow_error + 'd spel_output" where
  [instruction_defs]: "initialize_native_witnessed env self metadata custody depositor claimant
       aggregate_authority swap_id terms_hash aggregate_key amount refund_at transfer_program =
     and_then (require_attributes env self swap_id
       [(meta_init, metadata), (custody_mut, custody), ([Attr_Signer], depositor)]) (\<lambda>_.
     and_then (native_initial_state env self custody depositor claimant swap_id terms_hash
       (AggregateWitness aggregate_key (account_id aggregate_authority)) amount refund_at
       transfer_program) (\<lambda>state.
     commit env metadata state [custody, depositor, claimant, aggregate_authority]
       (\<lambda>_. [native_initialize_call env transfer_program custody swap_id]) (until refund_at)))"

definition fund_native ::
    "'d escrow_env \<Rightarrow> program_id \<Rightarrow> 'd account_with_metadata \<Rightarrow> 'd account_with_metadata
     \<Rightarrow> 'd account_with_metadata \<Rightarrow> bytes \<Rightarrow> escrow_error + 'd spel_output" where
  [instruction_defs]: "fund_native env self metadata custody depositor swap_id =
     and_then (require_attributes env self swap_id
       [(meta_mut, metadata), (custody_mut, custody), ([Attr_Mut, Attr_Signer], depositor)]) (\<lambda>_.
     and_then (read_metadata env metadata) (\<lambda>state.
     and_then (require_supported state) (\<lambda>_.
       if em_status state \<noteq> Empty then Err NotFunded
       else if em_swap_id state \<noteq> swap_id \<or> em_asset_definition state \<noteq> zero32 \<or>
               em_asset_program state \<noteq> em_custody_program state \<or>
               em_depositor state \<noteq> account_id depositor \<or>
               em_custody state \<noteq> account_id custody \<or>
               acc_program_owner (account depositor) \<noteq> em_asset_program state \<or>
               acc_program_owner (account custody) \<noteq> em_asset_program state \<or>
               acc_balance (account custody) \<noteq> 0 \<or>
               acc_balance (account depositor) < em_amount state
       then Err AccountBinding
       else commit env metadata (state\<lparr>em_status := Funded\<rparr>) [custody, depositor]
         (\<lambda>_. [native_transfer_call env (em_asset_program state) depositor custody
                 (em_amount state) False swap_id])
         (until (em_refund_at state)))))"

definition claim_native ::
    "'d escrow_env \<Rightarrow> program_id \<Rightarrow> 'd account_with_metadata \<Rightarrow> 'd account_with_metadata
     \<Rightarrow> 'd account_with_metadata \<Rightarrow> bytes \<Rightarrow> bytes \<Rightarrow> escrow_error + 'd spel_output" where
  [instruction_defs]: "claim_native env self metadata custody claimant swap_id preimage =
     and_then (require_attributes env self swap_id
       [(meta_mut, metadata), (custody_mut, custody), ([Attr_Mut, Attr_Signer], claimant)]) (\<lambda>_.
     and_then (validated_native_claim_state env metadata custody claimant swap_id
       (Proof_Preimage preimage)) (\<lambda>state.
     commit env metadata state [custody, claimant]
       (\<lambda>_. [native_transfer_call env (em_asset_program state) custody claimant
               (em_amount state) True swap_id])
       (until (em_refund_at state))))"

definition claim_native_witnessed ::
    "'d escrow_env \<Rightarrow> program_id \<Rightarrow> 'd account_with_metadata \<Rightarrow> 'd account_with_metadata
     \<Rightarrow> 'd account_with_metadata \<Rightarrow> 'd account_with_metadata \<Rightarrow> bytes
     \<Rightarrow> escrow_error + 'd spel_output" where
  [instruction_defs]: "claim_native_witnessed env self metadata custody claimant
       aggregate_authority swap_id =
     and_then (require_attributes env self swap_id
       [(meta_mut, metadata), (custody_mut, custody), ([Attr_Mut], claimant),
        ([Attr_Signer], aggregate_authority)]) (\<lambda>_.
     and_then (validated_native_claim_state env metadata custody claimant swap_id
       (Proof_Witness (account_id aggregate_authority))) (\<lambda>state.
     commit env metadata state [custody, claimant, aggregate_authority]
       (\<lambda>_. [native_transfer_call env (em_asset_program state) custody claimant
               (em_amount state) True swap_id])
       (until (em_refund_at state))))"

definition refund_native ::
    "'d escrow_env \<Rightarrow> program_id \<Rightarrow> 'd account_with_metadata \<Rightarrow> 'd account_with_metadata
     \<Rightarrow> 'd account_with_metadata \<Rightarrow> bytes \<Rightarrow> escrow_error + 'd spel_output" where
  [instruction_defs]: "refund_native env self metadata custody depositor swap_id =
     and_then (require_attributes env self swap_id
       [(meta_mut, metadata), (custody_mut, custody), ([Attr_Mut], depositor)]) (\<lambda>_.
     and_then (read_metadata env metadata) (\<lambda>state.
     and_then (require_funded state) (\<lambda>_.
       case em_claim_authority state of
         XmrDualAdaptor _ \<Rightarrow> Err WrongClaimAuthority
       | _ \<Rightarrow>
           if \<not> native_binding state swap_id (em_depositor state) depositor custody
           then Err AccountBinding
           else commit env metadata (state\<lparr>em_status := EscrowRefunded\<rparr>) [custody, depositor]
             (\<lambda>_. [native_transfer_call env (em_asset_program state) custody depositor
                     (em_amount state) True swap_id])
             (from_time (em_refund_at state)))))"

section \<open>Token escrows\<close>

definition initialize_token ::
    "'d escrow_env \<Rightarrow> program_id \<Rightarrow> 'd account_with_metadata \<Rightarrow> 'd account_with_metadata
     \<Rightarrow> 'd account_with_metadata \<Rightarrow> 'd account_with_metadata \<Rightarrow> bytes \<Rightarrow> bytes \<Rightarrow> bytes \<Rightarrow> u128 \<Rightarrow> u64
     \<Rightarrow> program_id \<Rightarrow> escrow_error + 'd spel_output" where
  [instruction_defs]: "initialize_token env self metadata depositor_owner claimant_owner
       token_definition swap_id terms_hash secret_digest amount refund_at ata_program =
     and_then (require_attributes env self swap_id
       [(meta_init, metadata), ([Attr_Signer], depositor_owner)]) (\<lambda>_.
     and_then (token_initial_state env self metadata depositor_owner claimant_owner
       token_definition swap_id terms_hash (Sha256Preimage secret_digest) amount refund_at
       ata_program) (\<lambda>state.
     commit env metadata state [depositor_owner, claimant_owner, token_definition]
       (\<lambda>_. []) (until refund_at)))"

definition create_token_custody ::
    "'d escrow_env \<Rightarrow> program_id \<Rightarrow> 'd account_with_metadata \<Rightarrow> 'd account_with_metadata
     \<Rightarrow> 'd account_with_metadata \<Rightarrow> bytes \<Rightarrow> escrow_error + 'd spel_output" where
  [instruction_defs]: "create_token_custody env self metadata token_definition custody swap_id =
     and_then (require_attributes env self swap_id
       [([Attr_OwnerSelf, Attr_PdaSwap], metadata), ([Attr_Mut], custody)]) (\<lambda>_.
     and_then (read_metadata env metadata) (\<lambda>state.
     and_then (require_supported state) (\<lambda>_.
       if em_status state \<noteq> Empty then Err NotFunded
       else if em_swap_id state \<noteq> swap_id \<or>
               em_asset_definition state \<noteq> account_id token_definition \<or>
               em_custody state \<noteq> account_id custody \<or>
               em_custody state \<noteq> associated_token_account env (em_custody_program state)
                 (account_id metadata) (account_id token_definition) \<or>
               account custody \<noteq> env_default_account env
       then Err AccountBinding
       else and_then (require_fungible_definition env token_definition (em_asset_program state))
         (\<lambda>_. Ok \<lparr>out_accounts = [metadata, token_definition, custody],
           out_calls = [\<lparr>call_program = em_custody_program state,
             call_accounts = [metadata, token_definition, custody],
             call_instruction = Ata_Create (em_custody_program state),
             call_pda_seeds = []\<rparr>],
           out_window = until (em_refund_at state)\<rparr>))))"

definition fund_token ::
    "'d escrow_env \<Rightarrow> program_id \<Rightarrow> 'd account_with_metadata \<Rightarrow> 'd account_with_metadata
     \<Rightarrow> 'd account_with_metadata \<Rightarrow> 'd account_with_metadata \<Rightarrow> bytes
     \<Rightarrow> escrow_error + 'd spel_output" where
  [instruction_defs]: "fund_token env self metadata depositor_owner depositor_asset custody
       swap_id =
     and_then (require_attributes env self swap_id
       [(meta_mut, metadata), ([Attr_Signer], depositor_owner), ([Attr_Mut], depositor_asset),
        ([Attr_Mut], custody)]) (\<lambda>_.
     and_then (read_metadata env metadata) (\<lambda>state.
     and_then (require_supported state) (\<lambda>_.
       if em_status state \<noteq> Empty then Err NotFunded
       else if em_depositor state \<noteq> account_id depositor_owner then Err AccountBinding
       else
         and_then (token_binding env state swap_id (em_depositor_asset state) depositor_asset
           custody) (\<lambda>_.
         and_then (fungible_balance env depositor_asset) (\<lambda>bd.
         if bd < em_amount state then Err AccountBinding
         else and_then (fungible_balance env custody) (\<lambda>bc.
           if bc \<noteq> 0 then Err AccountBinding
           else commit env metadata (state\<lparr>em_status := Funded\<rparr>)
             [depositor_owner, depositor_asset, custody]
             (\<lambda>_. [ata_transfer_call env (em_custody_program state) depositor_owner
                     depositor_asset custody (em_amount state) False swap_id])
             (until (em_refund_at state))))))))"

definition claim_token ::
    "'d escrow_env \<Rightarrow> program_id \<Rightarrow> 'd account_with_metadata \<Rightarrow> 'd account_with_metadata
     \<Rightarrow> 'd account_with_metadata \<Rightarrow> 'd account_with_metadata \<Rightarrow> bytes \<Rightarrow> bytes
     \<Rightarrow> escrow_error + 'd spel_output" where
  [instruction_defs]: "claim_token env self metadata custody claimant_owner claimant_asset swap_id
       preimage =
     and_then (require_attributes env self swap_id
       [(meta_mut, metadata), ([Attr_Mut], custody), ([Attr_Signer], claimant_owner),
        ([Attr_Mut], claimant_asset)]) (\<lambda>_.
     and_then (validated_token_claim_state env metadata custody claimant_owner claimant_asset
       swap_id (Proof_Preimage preimage)) (\<lambda>state.
     commit env metadata state [custody, claimant_owner, claimant_asset]
       (\<lambda>metadata'. [ata_transfer_call env (em_custody_program state) metadata' custody
               claimant_asset (em_amount state) True swap_id])
       (until (em_refund_at state))))"

definition refund_token ::
    "'d escrow_env \<Rightarrow> program_id \<Rightarrow> 'd account_with_metadata \<Rightarrow> 'd account_with_metadata
     \<Rightarrow> 'd account_with_metadata \<Rightarrow> bytes \<Rightarrow> escrow_error + 'd spel_output" where
  [instruction_defs]: "refund_token env self metadata custody depositor_asset swap_id =
     and_then (require_attributes env self swap_id
       [(meta_mut, metadata), ([Attr_Mut], custody), ([Attr_Mut], depositor_asset)]) (\<lambda>_.
     and_then (read_metadata env metadata) (\<lambda>state.
     and_then (require_funded state) (\<lambda>_.
     and_then (token_binding env state swap_id (em_depositor_asset state) depositor_asset custody)
       (\<lambda>_.
     and_then (fungible_balance env custody) (\<lambda>b.
       if b \<noteq> em_amount state then Err AccountBinding
       else commit env metadata (state\<lparr>em_status := EscrowRefunded\<rparr>) [custody, depositor_asset]
         (\<lambda>metadata'. [ata_transfer_call env (em_custody_program state) metadata' custody
                 depositor_asset (em_amount state) True swap_id])
         (from_time (em_refund_at state)))))))"

definition initialize_token_witnessed ::
    "'d escrow_env \<Rightarrow> program_id \<Rightarrow> 'd account_with_metadata \<Rightarrow> 'd account_with_metadata
     \<Rightarrow> 'd account_with_metadata \<Rightarrow> 'd account_with_metadata \<Rightarrow> 'd account_with_metadata \<Rightarrow> bytes
     \<Rightarrow> bytes \<Rightarrow> bytes \<Rightarrow> u128 \<Rightarrow> u64 \<Rightarrow> program_id \<Rightarrow> escrow_error + 'd spel_output" where
  [instruction_defs]: "initialize_token_witnessed env self metadata depositor_owner
       claimant_owner token_definition aggregate_authority swap_id terms_hash aggregate_key amount
       refund_at ata_program =
     and_then (require_attributes env self swap_id
       [(meta_init, metadata), ([Attr_Signer], depositor_owner)]) (\<lambda>_.
     and_then (token_initial_state env self metadata depositor_owner claimant_owner
       token_definition swap_id terms_hash
       (AggregateWitness aggregate_key (account_id aggregate_authority)) amount refund_at
       ata_program) (\<lambda>state.
     commit env metadata state
       [depositor_owner, claimant_owner, token_definition, aggregate_authority]
       (\<lambda>_. []) (until refund_at)))"

definition claim_token_witnessed ::
    "'d escrow_env \<Rightarrow> program_id \<Rightarrow> 'd account_with_metadata \<Rightarrow> 'd account_with_metadata
     \<Rightarrow> 'd account_with_metadata \<Rightarrow> 'd account_with_metadata \<Rightarrow> 'd account_with_metadata \<Rightarrow> bytes
     \<Rightarrow> escrow_error + 'd spel_output" where
  [instruction_defs]: "claim_token_witnessed env self metadata custody claimant_owner
       claimant_asset aggregate_authority swap_id =
     and_then (require_attributes env self swap_id
       [(meta_mut, metadata), ([Attr_Mut], custody), ([Attr_Mut], claimant_asset),
        ([Attr_Signer], aggregate_authority)]) (\<lambda>_.
     and_then (validated_token_claim_state env metadata custody claimant_owner claimant_asset
       swap_id (Proof_Witness (account_id aggregate_authority))) (\<lambda>state.
     commit env metadata state [custody, claimant_owner, claimant_asset, aggregate_authority]
       (\<lambda>metadata'. [ata_transfer_call env (em_custody_program state) metadata' custody
               claimant_asset (em_amount state) True swap_id])
       (until (em_refund_at state))))"

section \<open>Dual-adaptor escrows\<close>

definition initialize_native_xmr ::
    "'d escrow_env \<Rightarrow> program_id \<Rightarrow> 'd account_with_metadata \<Rightarrow> 'd account_with_metadata
     \<Rightarrow> 'd account_with_metadata \<Rightarrow> 'd account_with_metadata \<Rightarrow> 'd account_with_metadata
     \<Rightarrow> 'd account_with_metadata \<Rightarrow> bytes \<Rightarrow> bytes \<Rightarrow> bytes \<Rightarrow> bytes \<Rightarrow> bytes \<Rightarrow> bytes \<Rightarrow> bytes \<Rightarrow> bytes
     \<Rightarrow> u128 \<Rightarrow> u64 \<Rightarrow> u64 \<Rightarrow> program_id \<Rightarrow> escrow_error + 'd spel_output" where
  [instruction_defs]: "initialize_native_xmr env self metadata custody depositor claimant
       claim_authority refund_authority swap_id terms_hash claim_key refund_key maker_dleq
       taker_dleq context_binding partial_commitment amount refund_at punish transfer_program =
     and_then (require_attributes env self swap_id
       [(meta_init, metadata), (custody_mut, custody), ([Attr_Signer], depositor)]) (\<lambda>_.
     and_then (native_xmr_initial_state env self custody depositor claimant swap_id terms_hash
       \<lparr>claim_aggregate_x_only_public_key = claim_key,
        claim_aggregate_account_id = account_id claim_authority,
        refund_aggregate_x_only_public_key = refund_key,
        refund_aggregate_account_id = account_id refund_authority,
        maker_dleq_transcript_commitment = maker_dleq,
        taker_dleq_transcript_commitment = taker_dleq,
        claim_partial_context_binding = context_binding,
        claim_partial_commitment = partial_commitment,
        punish_at = punish\<rparr> amount refund_at transfer_program) (\<lambda>state.
     commit env metadata state [custody, depositor, claimant, claim_authority, refund_authority]
       (\<lambda>_. [native_initialize_call env transfer_program custody swap_id]) (until refund_at)))"

definition authorize_native_xmr_claim ::
    "'d escrow_env \<Rightarrow> program_id \<Rightarrow> 'd account_with_metadata \<Rightarrow> 'd account_with_metadata \<Rightarrow> bytes
     \<Rightarrow> bytes \<Rightarrow> escrow_error + 'd spel_output" where
  [instruction_defs]: "authorize_native_xmr_claim env self metadata depositor swap_id
       claim_partial =
     and_then (require_attributes env self swap_id
       [(meta_mut, metadata), ([Attr_Signer], depositor)]) (\<lambda>_.
     and_then (validated_xmr_claim_authorization_state env metadata depositor swap_id
       claim_partial) (\<lambda>state.
     commit env metadata state [depositor] (\<lambda>_. []) (until (em_refund_at state))))"

definition claim_native_xmr ::
    "'d escrow_env \<Rightarrow> program_id \<Rightarrow> 'd account_with_metadata \<Rightarrow> 'd account_with_metadata
     \<Rightarrow> 'd account_with_metadata \<Rightarrow> 'd account_with_metadata \<Rightarrow> bytes
     \<Rightarrow> escrow_error + 'd spel_output" where
  [instruction_defs]: "claim_native_xmr env self metadata custody claimant claim_authority
       swap_id =
     and_then (require_attributes env self swap_id
       [(meta_mut, metadata), (custody_mut, custody), ([Attr_Mut], claimant),
        ([Attr_Signer], claim_authority)]) (\<lambda>_.
     and_then (validated_xmr_native_witness_state env metadata custody claimant claim_authority
       swap_id Purpose_Claim) (\<lambda>(state, _).
     commit env metadata state [custody, claimant, claim_authority]
       (\<lambda>_. [native_transfer_call env (em_asset_program state) custody claimant
               (em_amount state) True swap_id])
       (until (em_refund_at state))))"

definition refund_native_xmr ::
    "'d escrow_env \<Rightarrow> program_id \<Rightarrow> 'd account_with_metadata \<Rightarrow> 'd account_with_metadata
     \<Rightarrow> 'd account_with_metadata \<Rightarrow> 'd account_with_metadata \<Rightarrow> bytes
     \<Rightarrow> escrow_error + 'd spel_output" where
  [instruction_defs]: "refund_native_xmr env self metadata custody depositor refund_authority
       swap_id =
     and_then (require_attributes env self swap_id
       [(meta_mut, metadata), (custody_mut, custody), ([Attr_Mut], depositor),
        ([Attr_Signer], refund_authority)]) (\<lambda>_.
     and_then (validated_xmr_native_witness_state env metadata custody depositor refund_authority
       swap_id Purpose_Refund) (\<lambda>(state, punish).
     and_then (commit env metadata state [custody, depositor, refund_authority]
       (\<lambda>_. [native_transfer_call env (em_asset_program state) custody depositor
               (em_amount state) True swap_id])
       \<lparr>win_from = Some (em_refund_at state), win_to = Some punish\<rparr>) (\<lambda>out.
       if env_window_ok env (em_refund_at state) punish then Ok out else Err InvalidTerms)))"

definition punish_native_xmr ::
    "'d escrow_env \<Rightarrow> program_id \<Rightarrow> 'd account_with_metadata \<Rightarrow> 'd account_with_metadata
     \<Rightarrow> 'd account_with_metadata \<Rightarrow> bytes \<Rightarrow> escrow_error + 'd spel_output" where
  [instruction_defs]: "punish_native_xmr env self metadata custody claimant swap_id =
     and_then (require_attributes env self swap_id
       [(meta_mut, metadata), (custody_mut, custody), ([Attr_Mut, Attr_Signer], claimant)]) (\<lambda>_.
     and_then (validated_xmr_native_punish_state env metadata custody claimant swap_id)
       (\<lambda>(state, punish).
     commit env metadata state [custody, claimant]
       (\<lambda>_. [native_transfer_call env (em_asset_program state) custody claimant
               (em_amount state) True swap_id])
       (from_time punish)))"

section \<open>Dispatch and execution\<close>

text \<open>The instructions without the metadata account, which the zone supplies.\<close>

datatype 'd escrow_instruction =
    InitializeNative "'d account_with_metadata" "'d account_with_metadata"
      "'d account_with_metadata" bytes bytes bytes u128 u64 program_id
  | InitializeNativeWitnessed "'d account_with_metadata" "'d account_with_metadata"
      "'d account_with_metadata" "'d account_with_metadata" bytes bytes bytes u128 u64 program_id
  | FundNative "'d account_with_metadata" "'d account_with_metadata" bytes
  | ClaimNative "'d account_with_metadata" "'d account_with_metadata" bytes bytes
  | ClaimNativeWitnessed "'d account_with_metadata" "'d account_with_metadata"
      "'d account_with_metadata" bytes
  | RefundNative "'d account_with_metadata" "'d account_with_metadata" bytes
  | InitializeToken "'d account_with_metadata" "'d account_with_metadata"
      "'d account_with_metadata" bytes bytes bytes u128 u64 program_id
  | CreateTokenCustody "'d account_with_metadata" "'d account_with_metadata" bytes
  | FundToken "'d account_with_metadata" "'d account_with_metadata" "'d account_with_metadata"
      bytes
  | ClaimToken "'d account_with_metadata" "'d account_with_metadata" "'d account_with_metadata"
      bytes bytes
  | RefundToken "'d account_with_metadata" "'d account_with_metadata" bytes
  | InitializeTokenWitnessed "'d account_with_metadata" "'d account_with_metadata"
      "'d account_with_metadata" "'d account_with_metadata" bytes bytes bytes u128 u64 program_id
  | ClaimTokenWitnessed "'d account_with_metadata" "'d account_with_metadata"
      "'d account_with_metadata" "'d account_with_metadata" bytes
  | InitializeNativeXmr "'d account_with_metadata" "'d account_with_metadata"
      "'d account_with_metadata" "'d account_with_metadata" "'d account_with_metadata"
      bytes bytes bytes bytes bytes bytes bytes bytes u128 u64 u64 program_id
  | AuthorizeNativeXmrClaim "'d account_with_metadata" bytes bytes
  | ClaimNativeXmr "'d account_with_metadata" "'d account_with_metadata"
      "'d account_with_metadata" bytes
  | RefundNativeXmr "'d account_with_metadata" "'d account_with_metadata"
      "'d account_with_metadata" bytes
  | PunishNativeXmr "'d account_with_metadata" "'d account_with_metadata" bytes

fun execute ::
    "'d escrow_env \<Rightarrow> program_id \<Rightarrow> 'd account_with_metadata \<Rightarrow> 'd escrow_instruction
     \<Rightarrow> escrow_error + 'd spel_output" where
  "execute env self m (InitializeNative cu d c i th sd am ra p) =
     initialize_native env self m cu d c i th sd am ra p"
| "execute env self m (InitializeNativeWitnessed cu d c a i th k am ra p) =
     initialize_native_witnessed env self m cu d c a i th k am ra p"
| "execute env self m (FundNative cu d i) = fund_native env self m cu d i"
| "execute env self m (ClaimNative cu c i pre) = claim_native env self m cu c i pre"
| "execute env self m (ClaimNativeWitnessed cu c a i) =
     claim_native_witnessed env self m cu c a i"
| "execute env self m (RefundNative cu d i) = refund_native env self m cu d i"
| "execute env self m (InitializeToken d c t i th sd am ra p) =
     initialize_token env self m d c t i th sd am ra p"
| "execute env self m (CreateTokenCustody t cu i) = create_token_custody env self m t cu i"
| "execute env self m (FundToken d da cu i) = fund_token env self m d da cu i"
| "execute env self m (ClaimToken cu c ca i pre) = claim_token env self m cu c ca i pre"
| "execute env self m (RefundToken cu da i) = refund_token env self m cu da i"
| "execute env self m (InitializeTokenWitnessed d c t a i th k am ra p) =
     initialize_token_witnessed env self m d c t a i th k am ra p"
| "execute env self m (ClaimTokenWitnessed cu c ca a i) =
     claim_token_witnessed env self m cu c ca a i"
| "execute env self m (InitializeNativeXmr cu d c ca ra i th ck rk md td cb pc am rat pat p) =
     initialize_native_xmr env self m cu d c ca ra i th ck rk md td cb pc am rat pat p"
| "execute env self m (AuthorizeNativeXmrClaim d i cp) =
     authorize_native_xmr_claim env self m d i cp"
| "execute env self m (ClaimNativeXmr cu c a i) = claim_native_xmr env self m cu c a i"
| "execute env self m (RefundNativeXmr cu d a i) = refund_native_xmr env self m cu d a i"
| "execute env self m (PunishNativeXmr cu c i) = punish_native_xmr env self m cu c i"

text \<open>The output an instruction commits when the zone runs it at time \<open>now\<close>.\<close>

definition committed ::
    "'d escrow_env \<Rightarrow> program_id \<Rightarrow> 'd account_with_metadata \<Rightarrow> u64 \<times> 'd escrow_instruction
     \<Rightarrow> 'd spel_output option" where
  "committed env self m = (\<lambda>(now, i).
     case execute env self m i of
       Inl _ \<Rightarrow> None
     | Inr out \<Rightarrow> if in_window now (out_window out) then Some out else None)"

definition escrow_step ::
    "'d escrow_env \<Rightarrow> program_id \<Rightarrow> 'd account_with_metadata \<Rightarrow> u64 \<times> 'd escrow_instruction
     \<Rightarrow> 'd account_with_metadata" where
  "escrow_step env self m c =
     (case committed env self m c of None \<Rightarrow> m | Some out \<Rightarrow> hd (out_accounts out))"

end
