(* ===== verification/Escrow_Lifecycle.thy ===== *)
theory Escrow_Lifecycle
  imports Escrow_Program
begin

text \<open>
  The escrow's lifecycle as an abstract transition relation on its metadata, one rule per
  kind of instruction with its time window, its signer and its payout, and the proof that
  each of the instructions is a step of it. The one-time authority contract of the prelude
  is instantiated with payouts as grants: a settled escrow never pays again.
\<close>

section \<open>What the program relies on\<close>

definition env_ok :: "'d escrow_env \<Rightarrow> bool" where
  "env_ok env \<longleftrightarrow>
     (\<forall>m d. env_borsh_encode env m = Some d \<longrightarrow> env_borsh_decode env d = Some m) \<and>
     env_borsh_decode env (acc_data (env_default_account env)) = None \<and>
     (\<forall>self i a. env_attribute_ok env self i Attr_Init a \<longrightarrow> account a = env_default_account env) \<and>
     (\<forall>self i a. env_attribute_ok env self i Attr_Signer a \<longrightarrow> is_authorized a)"

text \<open>
  What the framework and the codec document and only availability relies on: the metadata
  always serializes, and the checks of an account other than for being uninitialised or
  having signed look at its address and its owner alone.
\<close>

definition framework_ok :: "'d escrow_env \<Rightarrow> bool" where
  "framework_ok env \<longleftrightarrow>
     (\<forall>m. env_borsh_encode env m \<noteq> None) \<and>
     (\<forall>self i attr x y. attr \<notin> {Attr_Init, Attr_Signer} \<longrightarrow> account_id x = account_id y \<longrightarrow>
        acc_program_owner (account x) = acc_program_owner (account y) \<longrightarrow>
        env_attribute_ok env self i attr x \<longrightarrow> env_attribute_ok env self i attr y)"

definition meta_state :: "'d escrow_env \<Rightarrow> 'd account_with_metadata \<Rightarrow> escrow_metadata option" where
  "meta_state env m = env_borsh_decode env (acc_data (account m))"

section \<open>Payouts\<close>

fun transfer_amount :: "chained_instruction \<Rightarrow> u128 option" where
  "transfer_amount (AuthenticatedTransfer_Transfer a) = Some a"
| "transfer_amount (Ata_Transfer _ a) = Some a"
| "transfer_amount _ = None"

text \<open>The transfers an output makes under the authority of the program's own PDAs: the
  sending account, the receiving account and the amount.\<close>

definition payouts :: "'d spel_output \<Rightarrow> (account_id \<times> account_id \<times> u128) list" where
  "payouts out = concat (map (\<lambda>c.
     case transfer_amount (call_instruction c) of
       None \<Rightarrow> []
     | Some a \<Rightarrow>
         if call_pda_seeds c = [] then []
         else [(account_id (last (butlast (call_accounts c))), account_id (last (call_accounts c)), a)])
     (out_calls out))"

section \<open>Who signs what\<close>

text \<open>The accounts an instruction declares as signers, and the claim proof or partial
  signature it carries.\<close>

fun instruction_signers :: "'d escrow_instruction \<Rightarrow> 'd account_with_metadata list" where
  "instruction_signers (InitializeNative _ d _ _ _ _ _ _ _) = [d]"
| "instruction_signers (InitializeNativeWitnessed _ d _ _ _ _ _ _ _ _) = [d]"
| "instruction_signers (FundNative _ d _) = [d]"
| "instruction_signers (ClaimNative _ c _ _) = [c]"
| "instruction_signers (ClaimNativeWitnessed _ _ a _) = [a]"
| "instruction_signers (InitializeToken d _ _ _ _ _ _ _ _) = [d]"
| "instruction_signers (FundToken d _ _ _) = [d]"
| "instruction_signers (ClaimToken _ c _ _ _) = [c]"
| "instruction_signers (InitializeTokenWitnessed d _ _ _ _ _ _ _ _ _) = [d]"
| "instruction_signers (ClaimTokenWitnessed _ _ _ a _) = [a]"
| "instruction_signers (InitializeNativeXmr _ d _ _ _ _ _ _ _ _ _ _ _ _ _ _ _) = [d]"
| "instruction_signers (AuthorizeNativeXmrClaim d _ _) = [d]"
| "instruction_signers (ClaimNativeXmr _ _ a _) = [a]"
| "instruction_signers (RefundNativeXmr _ _ a _) = [a]"
| "instruction_signers (PunishNativeXmr _ c _) = [c]"
| "instruction_signers _ = []"

definition signed_by :: "'d escrow_instruction \<Rightarrow> account_id \<Rightarrow> bool" where
  "signed_by i a \<longleftrightarrow> list_ex (\<lambda>acc. account_id acc = a \<and> is_authorized acc) (instruction_signers i)"

fun instruction_proof :: "'d escrow_instruction \<Rightarrow> claim_proof option" where
  "instruction_proof (ClaimNative _ _ _ pre) = Some (Proof_Preimage pre)"
| "instruction_proof (ClaimNativeWitnessed _ _ a _) = Some (Proof_Witness (account_id a))"
| "instruction_proof (ClaimToken _ _ _ _ pre) = Some (Proof_Preimage pre)"
| "instruction_proof (ClaimTokenWitnessed _ _ _ a _) = Some (Proof_Witness (account_id a))"
| "instruction_proof _ = None"

fun proof_signer :: "escrow_metadata \<Rightarrow> claim_proof \<Rightarrow> account_id" where
  "proof_signer s (Proof_Preimage _) = em_claimant s"
| "proof_signer s (Proof_Witness a) = a"

fun instruction_partial :: "'d escrow_instruction \<Rightarrow> bytes option" where
  "instruction_partial (AuthorizeNativeXmrClaim _ _ p) = Some p"
| "instruction_partial _ = None"

section \<open>The lifecycle\<close>

definition is_xmr :: "escrow_metadata \<Rightarrow> bool" where
  "is_xmr s \<longleftrightarrow> (case em_claim_authority s of XmrDualAdaptor _ \<Rightarrow> True | _ \<Rightarrow> False)"

definition escrow_wf :: "'d escrow_env \<Rightarrow> escrow_metadata \<Rightarrow> bool" where
  "escrow_wf env s \<longleftrightarrow>
     em_amount s \<noteq> 0 \<and> em_refund_at s \<noteq> 0 \<and> em_terms_hash s \<noteq> zero32 \<and>
     valid_claim_authority env (em_claim_authority s) (em_claimant s) \<and>
     (em_asset_program s = em_custody_program s \<longrightarrow>
        em_claimant_asset s = em_claimant s \<and> em_depositor_asset s = em_depositor s) \<and>
     (case em_claim_authority s of
        XmrDualAdaptor x \<Rightarrow> em_version s = 3 \<and> em_refund_at s < punish_at x \<and>
          em_depositor s \<noteq> em_claimant s \<and> em_asset_program s = em_custody_program s
      | _ \<Rightarrow> em_version s = 2) \<and>
     (em_status s = XmrClaimAuthorized \<longrightarrow> is_xmr s)"

inductive escrow_trans ::
    "'d escrow_env \<Rightarrow> u64 \<Rightarrow> 'd escrow_instruction \<Rightarrow> escrow_metadata option \<Rightarrow> escrow_metadata
     \<Rightarrow> (account_id \<times> account_id \<times> u128) list \<Rightarrow> bool"
  for env :: "'d escrow_env" and now :: u64 and ins :: "'d escrow_instruction" where
  initialize: "escrow_wf env s \<Longrightarrow> em_status s = Empty \<Longrightarrow> now < em_refund_at s \<Longrightarrow>
    signed_by ins (em_depositor s) \<Longrightarrow>
    escrow_trans env now ins None s []"
| custody: "em_status s = Empty \<Longrightarrow> now < em_refund_at s \<Longrightarrow>
    escrow_trans env now ins (Some s) s []"
| fund: "em_status s = Empty \<Longrightarrow> now < em_refund_at s \<Longrightarrow> signed_by ins (em_depositor s) \<Longrightarrow>
    escrow_trans env now ins (Some s) (s\<lparr>em_status := Funded\<rparr>) []"
| claim: "em_status s = Funded \<Longrightarrow> now < em_refund_at s \<Longrightarrow>
    instruction_proof ins = Some proof \<Longrightarrow> check_claim_proof env s proof = Ok () \<Longrightarrow>
    signed_by ins (proof_signer s proof) \<Longrightarrow>
    escrow_trans env now ins (Some s) (s\<lparr>em_status := Claimed\<rparr>)
      [(em_custody s, em_claimant_asset s, em_amount s)]"
| refund: "em_status s = Funded \<Longrightarrow> em_refund_at s \<le> now \<Longrightarrow>
    escrow_trans env now ins (Some s) (s\<lparr>em_status := EscrowRefunded\<rparr>)
      [(em_custody s, em_depositor_asset s, em_amount s)]"
| authorize: "em_status s = Funded \<Longrightarrow> now < em_refund_at s \<Longrightarrow>
    em_claim_authority s = XmrDualAdaptor x \<Longrightarrow> signed_by ins (em_depositor s) \<Longrightarrow>
    instruction_partial ins = Some partial \<Longrightarrow>
    xmr_claim_partial_commitment env (claim_partial_context_binding x) partial =
      claim_partial_commitment x \<Longrightarrow>
    escrow_trans env now ins (Some s) (s\<lparr>em_status := XmrClaimAuthorized\<rparr>) []"
| xmr_claim: "em_status s = XmrClaimAuthorized \<Longrightarrow> now < em_refund_at s \<Longrightarrow>
    em_claim_authority s = XmrDualAdaptor x \<Longrightarrow> signed_by ins (claim_aggregate_account_id x) \<Longrightarrow>
    escrow_trans env now ins (Some s) (s\<lparr>em_status := Claimed\<rparr>)
      [(em_custody s, em_claimant_asset s, em_amount s)]"
| xmr_refund: "em_status s \<in> {Funded, XmrClaimAuthorized} \<Longrightarrow> em_refund_at s \<le> now \<Longrightarrow>
    em_claim_authority s = XmrDualAdaptor x \<Longrightarrow> now < punish_at x \<Longrightarrow>
    signed_by ins (refund_aggregate_account_id x) \<Longrightarrow>
    escrow_trans env now ins (Some s) (s\<lparr>em_status := EscrowRefunded\<rparr>)
      [(em_custody s, em_depositor_asset s, em_amount s)]"
| punish: "em_status s \<in> {Funded, XmrClaimAuthorized} \<Longrightarrow>
    em_claim_authority s = XmrDualAdaptor x \<Longrightarrow> punish_at x \<le> now \<Longrightarrow>
    signed_by ins (em_claimant s) \<Longrightarrow>
    escrow_trans env now ins (Some s) (s\<lparr>em_status := Claimed\<rparr>)
      [(em_custody s, em_claimant_asset s, em_amount s)]"

section \<open>Every instruction is a step of the lifecycle\<close>

definition implements_trans ::
    "'d escrow_env \<Rightarrow> 'd escrow_instruction \<Rightarrow> 'd account_with_metadata
     \<Rightarrow> escrow_error + 'd spel_output \<Rightarrow> bool" where
  "implements_trans env ins m r \<longleftrightarrow>
     (\<forall>out now. r = Ok out \<longrightarrow> in_window now (out_window out) \<longrightarrow>
       (\<exists>s'. meta_state env (hd (out_accounts out)) = Some s' \<and>
             account_id (hd (out_accounts out)) = account_id m \<and>
             acc_program_owner (account (hd (out_accounts out))) = acc_program_owner (account m) \<and>
             escrow_trans env now ins (meta_state env m) s' (payouts out)))"

lemma implements_Err [simp]: "implements_trans env ins m (Inl e)"
  by (simp add: implements_trans_def)

lemma implements_bind:
  "(\<And>a. r = Ok a \<Longrightarrow> implements_trans env ins m (k a)) \<Longrightarrow> implements_trans env ins m (and_then r k)"
  by (cases r) simp_all

lemma implements_commit:
  assumes "env_ok env"
    and "\<And>now out d. in_window now w \<Longrightarrow>
      escrow_trans env now ins (meta_state env m) s
        (payouts \<lparr>out_accounts = others', out_calls = calls (m\<lparr>account := (account m)\<lparr>acc_data := d\<rparr>\<rparr>),
           out_window = w\<rparr>)"
  shows "implements_trans env ins m (commit env m s others calls w)"
  using assms
  by (auto simp: implements_trans_def commit_def write_metadata_def and_then_Inr env_ok_def
      meta_state_def payouts_def split: option.splits)

lemma read_metadata_Ok: "read_metadata env m = Ok s \<longleftrightarrow> meta_state env m = Some s"
  by (simp add: read_metadata_def meta_state_def split: option.split)

lemma payouts_simps [simp]:
  "payouts \<lparr>out_accounts = a, out_calls = [], out_window = w\<rparr> = []"
  "payouts \<lparr>out_accounts = a, out_calls = [native_initialize_call env p c i], out_window = w\<rparr> = []"
  "payouts \<lparr>out_accounts = a, out_calls = [native_transfer_call env p x y am b i], out_window = w\<rparr> =
     (if b then [(account_id x, account_id y, am)] else [])"
  "payouts \<lparr>out_accounts = a, out_calls = [ata_transfer_call env p ow x y am b i], out_window = w\<rparr> =
     (if b then [(account_id x, account_id y, am)] else [])"
  by (simp_all add: payouts_def native_initialize_call_def native_transfer_call_def
      ata_transfer_call_def)

lemma in_window_simps [simp]:
  "in_window now (until t) \<longleftrightarrow> now < t" "in_window now (from_time t) \<longleftrightarrow> t \<le> now"
  "in_window now \<lparr>win_from = Some a, win_to = Some b\<rparr> \<longleftrightarrow> a \<le> now \<and> now < b"
  by (simp_all add: in_window_def)

lemma init_fresh:
  assumes "env_ok env" "require_attributes env self i ((meta_init, m) # as) = Ok ()"
  shows "meta_state env m = None"
  using assms by (auto simp: env_ok_def require_attributes_def meta_state_def split: if_splits)

lemma attributes_signers:
  "env_ok env \<Longrightarrow> require_attributes env self i as = Ok () \<Longrightarrow>
     list_all (\<lambda>(attrs, acc). Attr_Signer \<in> set attrs \<longrightarrow> is_authorized acc) as"
  by (fastforce simp: env_ok_def require_attributes_def list_all_iff split: if_splits)

lemma native_initial_wf:
  assumes "native_initial_state env self custody depositor claimant i th a am ra p = Ok s"
    and "case a of XmrDualAdaptor _ \<Rightarrow> False | _ \<Rightarrow> True"
  shows "escrow_wf env s \<and> em_status s = Empty \<and> em_refund_at s = ra \<and> em_depositor s = account_id depositor"
  using assms
  by (auto simp: native_initial_state_def escrow_wf_def escrow_defs split: if_splits claim_authority.splits)

lemma native_xmr_initial_wf:
  assumes "native_xmr_initial_state env self custody depositor claimant i th x am ra p = Ok s"
  shows "escrow_wf env s \<and> em_status s = Empty \<and> em_refund_at s = ra \<and> em_depositor s = account_id depositor"
  using assms
  by (auto simp: native_xmr_initial_state_def native_initial_state_def escrow_wf_def escrow_defs
      and_then_Inr split: if_splits)

lemma token_initial_wf:
  assumes "token_initial_state env self m d c t i th a am ra p = Ok s"
    and "case a of XmrDualAdaptor _ \<Rightarrow> False | _ \<Rightarrow> True"
  shows "escrow_wf env s \<and> em_status s = Empty \<and> em_refund_at s = ra \<and> em_depositor s = account_id d"
  using assms
  by (auto simp: token_initial_state_def escrow_wf_def escrow_defs and_then_Inr Let_def
      split: if_splits claim_authority.splits)

lemmas implements_intros = implements_bind implements_commit

lemma implements_init:
  assumes "env_ok env" "require_attributes env self i ((meta_init, m) # as) = Ok u"
    and "escrow_wf env s \<and> em_status s = Empty \<and> em_refund_at s = ra \<and> em_depositor s = account_id d"
    and "is_authorized d \<Longrightarrow> signed_by ins (account_id d)" and "([Attr_Signer], d) \<in> set as"
    and "\<And>a d. payouts \<lparr>out_accounts = a, out_calls = calls d, out_window = until ra\<rparr> = []"
  shows "implements_trans env ins m (commit env m s others calls (until ra))"
proof -
  have attrs: "require_attributes env self i ((meta_init, m) # as) = Ok ()"
    using assms(2) by simp
  have "is_authorized d"
    using attributes_signers [OF assms(1) attrs] assms(5) by (auto simp: list_all_iff)
  then show ?thesis
    using assms init_fresh [OF assms(1) attrs]
    by (intro implements_commit) (auto intro: escrow_trans.initialize)
qed

lemmas initial_wf =
  native_initial_wf [of _ _ _ _ _ _ _ "Sha256Preimage h" for h, simplified]
  native_initial_wf [of _ _ _ _ _ _ _ "AggregateWitness k i" for k i, simplified]
  token_initial_wf [of _ _ _ _ _ _ _ _ "Sha256Preimage h" for h, simplified]
  token_initial_wf [of _ _ _ _ _ _ _ _ "AggregateWitness k i" for k i, simplified]
  native_xmr_initial_wf

lemma implements_initialize_native:
  "env_ok env \<Longrightarrow> implements_trans env (InitializeNative cu d c i th sd am ra p) m (initialize_native env self m cu d c i th sd am ra p)"
  unfolding initialize_native_def
  by (intro implements_bind) (erule implements_init, assumption, erule initial_wf, simp_all add: signed_by_def)

lemma implements_initialize_native_witnessed:
  "env_ok env \<Longrightarrow> implements_trans env (InitializeNativeWitnessed cu d c a i th k am ra p) m (initialize_native_witnessed env self m cu d c a i th k am ra p)"
  unfolding initialize_native_witnessed_def
  by (intro implements_bind) (erule implements_init, assumption, erule initial_wf, simp_all add: signed_by_def)

lemma implements_initialize_token:
  "env_ok env \<Longrightarrow> implements_trans env (InitializeToken d c t i th sd am ra p) m (initialize_token env self m d c t i th sd am ra p)"
  unfolding initialize_token_def
  by (intro implements_bind) (erule implements_init, assumption, erule initial_wf, simp_all add: signed_by_def)

lemma implements_initialize_token_witnessed:
  "env_ok env \<Longrightarrow> implements_trans env (InitializeTokenWitnessed d c t a i th k am ra p) m (initialize_token_witnessed env self m d c t a i th k am ra p)"
  unfolding initialize_token_witnessed_def
  by (intro implements_bind) (erule implements_init, assumption, erule initial_wf, simp_all add: signed_by_def)

lemma implements_initialize_native_xmr:
  "env_ok env \<Longrightarrow> implements_trans env (InitializeNativeXmr cu d c ca ra i th ck rk md td cb pc am rat pat p) m (initialize_native_xmr env self m cu d c ca ra i th ck rk md td cb pc am rat pat p)"
  unfolding initialize_native_xmr_def
  by (intro implements_bind) (erule implements_init, assumption, erule initial_wf, simp_all add: signed_by_def)

lemma implements_fund_native:
  assumes ok: "env_ok env"
  shows "implements_trans env (FundNative cu d i) m (fund_native env self m cu d i)"
  using ok unfolding fund_native_def
  by (intro implements_bind)
    (auto simp: read_metadata_Ok signed_by_def dest!: attributes_signers [OF ok]
      intro!: implements_commit escrow_trans.fund)

lemma implements_fund_token:
  assumes ok: "env_ok env"
  shows "implements_trans env (FundToken d da cu i) m (fund_token env self m d da cu i)"
  using ok unfolding fund_token_def
  by (intro implements_bind)
    (auto simp: read_metadata_Ok signed_by_def dest!: attributes_signers [OF ok]
      intro!: implements_bind implements_commit escrow_trans.fund)

lemma implements_create_token_custody:
  "implements_trans env (CreateTokenCustody t cu i) m (create_token_custody env self m t cu i)"
  unfolding create_token_custody_def
  by (intro implements_bind)
    (auto simp: read_metadata_Ok implements_trans_def and_then_Inr payouts_def
      intro: escrow_trans.custody split: if_splits)

lemma require_funded_Ok: "require_funded s = Ok () \<longleftrightarrow> require_supported s = Ok () \<and> em_status s = Funded"
  by (auto simp: require_funded_def and_then_Inr)

lemma validated_native_claim:
  assumes "validated_native_claim_state env m cu c i proof = Ok s'"
  shows "\<exists>s. meta_state env m = Some s \<and> em_status s = Funded \<and> check_claim_proof env s proof = Ok () \<and>
    s' = s\<lparr>em_status := Claimed\<rparr> \<and> em_custody s = account_id cu \<and> em_claimant s = account_id c \<and>
    em_asset_program s = em_custody_program s"
  using assms
  by (auto simp: validated_native_claim_state_def and_then_Inr read_metadata_Ok require_funded_Ok
      native_binding_def split: if_splits)

lemma token_binding_Ok:
  "token_binding env s i x a cu = Ok () \<Longrightarrow> x = account_id a \<and> em_custody s = account_id cu"
  by (simp add: token_binding_def split: if_splits)

lemma validated_token_claim:
  assumes "validated_token_claim_state env m cu c ca i proof = Ok s'"
  shows "\<exists>s. meta_state env m = Some s \<and> em_status s = Funded \<and> check_claim_proof env s proof = Ok () \<and>
    s' = s\<lparr>em_status := Claimed\<rparr> \<and> em_custody s = account_id cu \<and> em_claimant_asset s = account_id ca \<and>
    em_claimant s = account_id c"
  using assms
  by (auto simp: validated_token_claim_state_def and_then_Inr read_metadata_Ok require_funded_Ok
      dest!: token_binding_Ok split: if_splits)

definition meta_wf :: "'d escrow_env \<Rightarrow> 'd account_with_metadata \<Rightarrow> bool" where
  "meta_wf env m \<longleftrightarrow> (case meta_state env m of None \<Rightarrow> True | Some s \<Rightarrow> escrow_wf env s)"

lemma meta_wf_native:
  "meta_wf env m \<Longrightarrow> meta_state env m = Some s \<Longrightarrow> em_asset_program s = em_custody_program s \<Longrightarrow>
     em_claimant_asset s = em_claimant s \<and> em_depositor_asset s = em_depositor s"
  by (simp add: meta_wf_def escrow_wf_def)

lemma native_claim_trans:
  assumes wf: "meta_wf env m" and s': "validated_native_claim_state env m cu c i proof = Ok s'"
    and now: "now < em_refund_at s'" and ins: "instruction_proof ins = Some proof"
    and signed: "signed_by ins (case proof of Proof_Preimage _ \<Rightarrow> account_id c | Proof_Witness a \<Rightarrow> a)"
  shows "escrow_trans env now ins (meta_state env m) s' [(account_id cu, account_id c, em_amount s')]"
proof -
  from validated_native_claim [OF s'] obtain s where
    s: "meta_state env m = Some s" "em_status s = Funded" "check_claim_proof env s proof = Ok ()"
      "s' = s\<lparr>em_status := Claimed\<rparr>" "em_custody s = account_id cu" "em_claimant s = account_id c"
      "em_asset_program s = em_custody_program s"
    by blast
  have signer: "signed_by ins (proof_signer s proof)"
    using signed s(6) by (cases "proof") simp_all
  have "em_claimant_asset s = account_id c"
    using meta_wf_native [OF wf s(1,7)] s(6) by simp
  with escrow_trans.claim [OF s(2) _ ins s(3) signer, of now] now s show ?thesis
    by (simp del: check_claim_proof.simps)
qed

lemma token_claim_trans:
  assumes s': "validated_token_claim_state env m cu c ca i proof = Ok s'"
    and now: "now < em_refund_at s'" and ins: "instruction_proof ins = Some proof"
    and signed: "signed_by ins (case proof of Proof_Preimage _ \<Rightarrow> account_id c | Proof_Witness a \<Rightarrow> a)"
  shows "escrow_trans env now ins (meta_state env m) s' [(account_id cu, account_id ca, em_amount s')]"
proof -
  from validated_token_claim [OF s'] obtain s where
    s: "meta_state env m = Some s" "em_status s = Funded" "check_claim_proof env s proof = Ok ()"
      "s' = s\<lparr>em_status := Claimed\<rparr>" "em_custody s = account_id cu"
      "em_claimant_asset s = account_id ca" "em_claimant s = account_id c"
    by blast
  have signer: "signed_by ins (proof_signer s proof)"
    using signed s(7) by (cases "proof") simp_all
  with escrow_trans.claim [OF s(2) _ ins s(3) signer, of now] now s show ?thesis
    by (simp del: check_claim_proof.simps)
qed

lemma implements_claim_native:
  assumes ok: "env_ok env" and wf: "meta_wf env m"
  shows "implements_trans env (ClaimNative cu c i pre) m (claim_native env self m cu c i pre)"
  using ok wf unfolding claim_native_def
  by (intro implements_intros) (auto simp: signed_by_def dest!: attributes_signers [OF ok] intro!: native_claim_trans)

lemma implements_claim_native_witnessed:
  assumes ok: "env_ok env" and wf: "meta_wf env m"
  shows "implements_trans env (ClaimNativeWitnessed cu c a i) m (claim_native_witnessed env self m cu c a i)"
  using ok wf unfolding claim_native_witnessed_def
  by (intro implements_intros) (auto simp: signed_by_def dest!: attributes_signers [OF ok] intro!: native_claim_trans)

lemma implements_claim_token:
  assumes ok: "env_ok env"
  shows "implements_trans env (ClaimToken cu c ca i pre) m (claim_token env self m cu c ca i pre)"
  using ok unfolding claim_token_def
  by (intro implements_intros) (auto simp: signed_by_def dest!: attributes_signers [OF ok] intro!: token_claim_trans)

lemma implements_claim_token_witnessed:
  assumes ok: "env_ok env"
  shows "implements_trans env (ClaimTokenWitnessed cu c ca a i) m (claim_token_witnessed env self m cu c ca a i)"
  using ok unfolding claim_token_witnessed_def
  by (intro implements_intros) (auto simp: signed_by_def dest!: attributes_signers [OF ok] intro!: token_claim_trans)

lemma native_refund_trans:
  assumes "meta_wf env m" "meta_state env m = Some s" "em_status s = Funded" "em_refund_at s \<le> now"
    "native_binding s i (em_depositor s) d cu"
  shows "escrow_trans env now ins (Some s) (s\<lparr>em_status := EscrowRefunded\<rparr>)
    [(account_id cu, account_id d, em_amount s)]"
  using escrow_trans.refund [OF assms(3,4), of env ins] assms meta_wf_native [OF assms(1,2)]
  by (simp add: native_binding_def)

lemma implements_refund_native:
  "env_ok env \<Longrightarrow> meta_wf env m \<Longrightarrow>
     implements_trans env (RefundNative cu d i) m (refund_native env self m cu d i)"
  unfolding refund_native_def
  by (intro implements_bind)
    (auto simp: read_metadata_Ok require_funded_Ok intro!: implements_commit native_refund_trans
      split: claim_authority.split)

lemma token_refund_trans:
  assumes "em_status s = Funded" "em_refund_at s \<le> now"
    "token_binding env s i (em_depositor_asset s) da cu = Ok ()"
  shows "escrow_trans env now ins (Some s) (s\<lparr>em_status := EscrowRefunded\<rparr>)
    [(account_id cu, account_id da, em_amount s)]"
  using escrow_trans.refund [OF assms(1,2), of env ins] token_binding_Ok [OF assms(3)] by simp

lemma implements_refund_token:
  "env_ok env \<Longrightarrow> implements_trans env (RefundToken cu da i) m (refund_token env self m cu da i)"
  unfolding refund_token_def
  by (intro implements_bind)
    (auto simp: read_metadata_Ok require_funded_Ok intro!: implements_commit token_refund_trans)

lemma authorize_trans:
  assumes s': "validated_xmr_claim_authorization_state env m d i cp = Ok s'"
    and now: "now < em_refund_at s'" and signed: "is_authorized d"
  shows "escrow_trans env now (AuthorizeNativeXmrClaim d i cp) (meta_state env m) s' []"
proof -
  from s' obtain s where s: "meta_state env m = Some s" "em_status s = Funded"
    by (auto simp: validated_xmr_claim_authorization_state_def and_then_Inr read_metadata_Ok
        require_funded_Ok)
  with s' obtain x where "em_claim_authority s = XmrDualAdaptor x"
    "s' = s\<lparr>em_status := XmrClaimAuthorized\<rparr>" "em_depositor s = account_id d"
    "xmr_claim_partial_commitment env (claim_partial_context_binding x) cp = claim_partial_commitment x"
    by (cases "em_claim_authority s")
      (auto simp: validated_xmr_claim_authorization_state_def and_then_Inr read_metadata_Ok
        split: if_splits)
  with s now signed show ?thesis by (simp add: escrow_trans.authorize signed_by_def)
qed

lemma implements_authorize_native_xmr_claim:
  assumes ok: "env_ok env"
  shows "implements_trans env (AuthorizeNativeXmrClaim d i cp) m
     (authorize_native_xmr_claim env self m d i cp)"
  using ok unfolding authorize_native_xmr_claim_def
  by (intro implements_intros) (auto dest!: attributes_signers [OF ok] intro!: authorize_trans)

lemma validated_xmr_witness:
  assumes wf: "meta_wf env m"
    and s': "validated_xmr_native_witness_state env m cu r a i purpose = Ok (s', at)"
  obtains s x where "meta_state env m = Some s" "em_claim_authority s = XmrDualAdaptor x"
    "at = punish_at x" "account_id cu = em_custody s"
    "if purpose = Purpose_Claim
     then em_status s = XmrClaimAuthorized \<and> s' = s\<lparr>em_status := Claimed\<rparr> \<and>
       account_id r = em_claimant_asset s \<and> account_id a = claim_aggregate_account_id x
     else em_status s \<in> {Funded, XmrClaimAuthorized} \<and> s' = s\<lparr>em_status := EscrowRefunded\<rparr> \<and>
       account_id r = em_depositor_asset s \<and> account_id a = refund_aggregate_account_id x"
proof -
  from s' obtain s x where 1: "meta_state env m = Some s" "em_claim_authority s = XmrDualAdaptor x"
    "at = punish_at x"
    and bind: "native_binding s i (if purpose = Purpose_Claim then em_claimant s else em_depositor s) r cu"
    and st: "if purpose = Purpose_Claim
      then em_status s = XmrClaimAuthorized \<and> s' = s\<lparr>em_status := Claimed\<rparr> \<and>
        account_id a = claim_aggregate_account_id x
      else em_status s \<in> {Funded, XmrClaimAuthorized} \<and> s' = s\<lparr>em_status := EscrowRefunded\<rparr> \<and>
        account_id a = refund_aggregate_account_id x"
    by (cases purpose)
      (auto simp: validated_xmr_native_witness_state_def and_then_Inr read_metadata_Ok Let_def
        split: if_splits claim_authority.splits)
  from bind meta_wf_native [OF wf 1(1)] st that [OF 1] show ?thesis
    by (auto simp: native_binding_def split: if_splits)
qed

lemma xmr_claim_trans:
  assumes "meta_wf env m" "validated_xmr_native_witness_state env m cu c a i Purpose_Claim = Ok (s', at)"
    and "now < em_refund_at s'" "is_authorized a"
  shows "escrow_trans env now (ClaimNativeXmr cu c a i) (meta_state env m) s'
    [(account_id cu, account_id c, em_amount s')]"
  by (rule validated_xmr_witness [OF assms(1,2)])
    (use assms in \<open>auto simp: signed_by_def intro: escrow_trans.xmr_claim\<close>)

lemma implements_claim_native_xmr:
  assumes ok: "env_ok env" and wf: "meta_wf env m"
  shows "implements_trans env (ClaimNativeXmr cu c a i) m (claim_native_xmr env self m cu c a i)"
  using ok wf unfolding claim_native_xmr_def
  by (intro implements_bind) (auto dest!: attributes_signers [OF ok] intro!: implements_commit xmr_claim_trans)

lemma xmr_refund_trans:
  assumes "meta_wf env m" "validated_xmr_native_witness_state env m cu d a i Purpose_Refund = Ok (s', at)"
    and "em_refund_at s' \<le> now" "now < at" "is_authorized a"
  shows "escrow_trans env now (RefundNativeXmr cu d a i) (meta_state env m) s'
    [(account_id cu, account_id d, em_amount s')]"
  by (rule validated_xmr_witness [OF assms(1,2)])
    (use assms in \<open>auto simp: signed_by_def intro: escrow_trans.xmr_refund\<close>)

lemma implements_refund_native_xmr:
  "env_ok env \<Longrightarrow> meta_wf env m \<Longrightarrow>
     implements_trans env (RefundNativeXmr cu d a i) m (refund_native_xmr env self m cu d a i)"
proof -
  assume ok: "env_ok env" "meta_wf env m"
  have "implements_trans env (RefundNativeXmr cu d a i) m (commit env m s' [cu, d, a]
      (\<lambda>_. [native_transfer_call env (em_asset_program s') cu d (em_amount s') True i])
      \<lparr>win_from = Some (em_refund_at s'), win_to = Some at\<rparr>)"
    if "validated_xmr_native_witness_state env m cu d a i Purpose_Refund = Ok (s', at)"
      "is_authorized a" for s' at
    using ok that by (intro implements_commit) (simp_all add: xmr_refund_trans)
  then show ?thesis
    unfolding refund_native_xmr_def
    by (intro implements_bind)
      (auto simp: implements_trans_def and_then_Inr dest!: attributes_signers [OF ok(1)] split: if_splits)
qed

lemma punish_trans:
  assumes wf: "meta_wf env m" and s': "validated_xmr_native_punish_state env m cu c i = Ok (s', at)"
    and now: "at \<le> now" and signed: "is_authorized c"
  shows "escrow_trans env now (PunishNativeXmr cu c i) (meta_state env m) s'
    [(account_id cu, account_id c, em_amount s')]"
proof -
  from s' obtain s x where 1: "meta_state env m = Some s" "em_claim_authority s = XmrDualAdaptor x"
    "at = punish_at x" "em_status s \<in> {Funded, XmrClaimAuthorized}" "s' = s\<lparr>em_status := Claimed\<rparr>"
    "native_binding s i (em_claimant s) c cu"
    by (auto simp: validated_xmr_native_punish_state_def and_then_Inr read_metadata_Ok
        split: if_splits claim_authority.splits)
  with meta_wf_native [OF wf 1(1)] escrow_trans.punish [OF 1(4,2), of now "PunishNativeXmr cu c i" env]
    now signed show ?thesis
    by (simp add: native_binding_def signed_by_def)
qed

lemma implements_punish_native_xmr:
  assumes ok: "env_ok env" and wf: "meta_wf env m"
  shows "implements_trans env (PunishNativeXmr cu c i) m (punish_native_xmr env self m cu c i)"
  using ok wf unfolding punish_native_xmr_def
  by (intro implements_bind) (auto dest!: attributes_signers [OF ok] intro!: implements_commit punish_trans)

lemmas implements_all =
  implements_initialize_native implements_initialize_native_witnessed implements_initialize_token
  implements_initialize_token_witnessed implements_initialize_native_xmr implements_fund_native
  implements_fund_token implements_create_token_custody implements_claim_native
  implements_claim_native_witnessed implements_claim_token implements_claim_token_witnessed
  implements_refund_native implements_refund_token implements_authorize_native_xmr_claim
  implements_claim_native_xmr implements_refund_native_xmr implements_punish_native_xmr

lemma execute_implements:
  "env_ok env \<Longrightarrow> meta_wf env m \<Longrightarrow> implements_trans env ins m (execute env self m ins)"
  by (cases ins) (simp_all only: execute.simps implements_all)

section \<open>Runs\<close>

definition escrow_inv :: "'d escrow_env \<Rightarrow> 'd account_with_metadata \<Rightarrow> bool" where
  "escrow_inv env m \<longleftrightarrow> env_ok env \<and> meta_wf env m"

lemma committed_trans:
  assumes "escrow_inv env m" "committed env self m (now, ins) = Some out"
  obtains s' where "meta_state env (escrow_step env self m (now, ins)) = Some s'"
    "account_id (escrow_step env self m (now, ins)) = account_id m"
    "escrow_trans env now ins (meta_state env m) s' (payouts out)"
proof -
  have "implements_trans env ins m (execute env self m ins)"
    using assms(1) by (intro execute_implements) (simp_all add: escrow_inv_def)
  moreover from assms(2) have "execute env self m ins = Ok out" "in_window now (out_window out)"
    by (auto simp: committed_def split: sum.splits if_splits)
  ultimately show ?thesis
    using that assms(2) by (auto simp: implements_trans_def escrow_step_def)
qed

text \<open>The address and the owner of the metadata account.\<close>

definition meta_home :: "'d account_with_metadata \<Rightarrow> account_id \<times> program_id" where
  "meta_home m = (account_id m, acc_program_owner (account m))"

lemma committed_home:
  assumes "escrow_inv env m" "committed env self m c = Some out"
  shows "meta_home (escrow_step env self m c) = meta_home m"
proof -
  obtain now ins where c: "c = (now, ins)" by (cases c) auto
  have "implements_trans env ins m (execute env self m ins)"
    using assms(1) by (intro execute_implements) (simp_all add: escrow_inv_def)
  moreover from assms(2) have "execute env self m ins = Ok out" "in_window now (out_window out)"
    by (auto simp: c committed_def split: sum.splits if_splits)
  ultimately show ?thesis
    using assms(2) by (auto simp: implements_trans_def escrow_step_def meta_home_def)
qed

lemma escrow_trans_wf:
  "escrow_trans env now ins st s' ps \<Longrightarrow> (\<And>s. st = Some s \<Longrightarrow> escrow_wf env s) \<Longrightarrow> escrow_wf env s'"
  by (induction rule: escrow_trans.induct) (auto simp: escrow_wf_def is_xmr_def split: claim_authority.splits)

definition escrow_terms :: "escrow_metadata \<Rightarrow> escrow_metadata" where
  "escrow_terms s = s\<lparr>em_status := Empty\<rparr>"

lemma escrow_trans_terms:
  "escrow_trans env now ins (Some s) s' ps \<Longrightarrow> escrow_terms s' = escrow_terms s"
  by (erule escrow_trans.cases) (simp_all add: escrow_terms_def)

lemma escrow_step_None: "committed env self m c = None \<Longrightarrow> escrow_step env self m c = m"
  by (simp add: escrow_step_def)

lemma escrow_step_inv: "escrow_inv env m \<Longrightarrow> escrow_inv env (escrow_step env self m c)"
proof (cases "committed env self m c")
  case None
  then show "escrow_inv env m \<Longrightarrow> ?thesis" by (simp add: escrow_step_None)
next
  case (Some out)
  assume inv: "escrow_inv env m"
  obtain now ins where c: "c = (now, ins)" by (cases c) auto
  from committed_trans [OF inv Some [unfolded c]] obtain s' where
    s': "meta_state env (escrow_step env self m c) = Some s'"
    and tr: "escrow_trans env now ins (meta_state env m) s' (payouts out)"
    unfolding c by blast
  have "escrow_wf env s'"
    using inv by (intro escrow_trans_wf [OF tr]) (simp add: escrow_inv_def meta_wf_def)
  with s' inv show ?thesis by (simp add: escrow_inv_def meta_wf_def)
qed

interpretation escrow_home: step_frame "escrow_step env self" "escrow_inv env" meta_home
  for env :: "'d escrow_env" and self
proof
  fix m :: "'d account_with_metadata" and c :: "u64 \<times> 'd escrow_instruction"
  assume inv: "escrow_inv env m"
  then show "escrow_inv env (escrow_step env self m c)" by (rule escrow_step_inv)
  from inv show "meta_home (escrow_step env self m c) = meta_home m"
    by (cases "committed env self m c") (simp_all add: escrow_step_None committed_home)
qed

definition holds_terms :: "'d escrow_env \<Rightarrow> escrow_metadata \<Rightarrow> 'd account_with_metadata \<Rightarrow> bool" where
  "holds_terms env terms m \<longleftrightarrow> escrow_inv env m \<and> (\<exists>s. meta_state env m = Some s \<and> escrow_terms s = terms)"

interpretation escrow_frame: step_system "escrow_step env self" "holds_terms env terms"
  for env :: "'d escrow_env" and self terms
proof
  fix m :: "'d account_with_metadata" and c :: "u64 \<times> 'd escrow_instruction"
  assume h: "holds_terms env terms m"
  then have inv: "escrow_inv env m" by (simp add: holds_terms_def)
  show "holds_terms env terms (escrow_step env self m c)"
  proof (cases "committed env self m c")
    case None
    with h show ?thesis by (simp add: escrow_step_None)
  next
    case (Some out)
    obtain now ins where c: "c = (now, ins)" by (cases c) auto
    from committed_trans [OF inv Some [unfolded c]] obtain s' where
      "meta_state env (escrow_step env self m c) = Some s'"
      "escrow_trans env now ins (meta_state env m) s' (payouts out)"
      unfolding c by blast
    with h escrow_step_inv [OF inv] show ?thesis
      by (auto simp: holds_terms_def dest: escrow_trans_terms)
  qed
qed

definition pays_out ::
    "'d escrow_env \<Rightarrow> program_id \<Rightarrow> 'd account_with_metadata \<Rightarrow> u64 \<times> 'd escrow_instruction \<Rightarrow> bool" where
  "pays_out env self m c \<longleftrightarrow> (case committed env self m c of None \<Rightarrow> False | Some out \<Rightarrow> payouts out \<noteq> [])"

definition settled :: "'d escrow_env \<Rightarrow> 'd account_with_metadata \<Rightarrow> bool" where
  "settled env m \<longleftrightarrow> (case meta_state env m of None \<Rightarrow> False
     | Some s \<Rightarrow> em_status s \<in> {Claimed, EscrowRefunded})"

lemma escrow_trans_settles:
  "escrow_trans env now ins st s' ps \<Longrightarrow> ps \<noteq> [] \<Longrightarrow>
     em_status s' \<in> {Claimed, EscrowRefunded} \<and> (\<exists>s. st = Some s \<and> em_status s \<notin> {Claimed, EscrowRefunded})"
  by (erule escrow_trans.cases) auto

lemma escrow_trans_unsettled:
  "escrow_trans env now ins (Some s) s' ps \<Longrightarrow> em_status s \<notin> {Claimed, EscrowRefunded}"
  by (erule escrow_trans.cases) auto

interpretation escrow_once: once_only "escrow_step env self" "escrow_inv env" "pays_out env self"
    "\<lambda>m. \<not> settled env m" for env :: "'d escrow_env" and self
proof
  fix m :: "'d account_with_metadata" and c :: "u64 \<times> 'd escrow_instruction"
  assume inv: "escrow_inv env m"
  obtain now ins where c: "c = (now, ins)" by (cases c) auto
  show "\<not> \<not> settled env (escrow_step env self m c)" if "\<not> \<not> settled env m"
  proof (cases "committed env self m c")
    case None
    with that show ?thesis by (simp add: escrow_step_None)
  next
    case (Some out)
    from committed_trans [OF inv Some [unfolded c]] that show ?thesis
      by (auto simp: settled_def split: option.splits dest: escrow_trans_unsettled)
  qed
  assume "pays_out env self m c"
  then obtain out where Some: "committed env self m c = Some out" and ps: "payouts out \<noteq> []"
    by (auto simp: pays_out_def split: option.splits)
  from committed_trans [OF inv Some [unfolded c]] obtain s' where
    s': "meta_state env (escrow_step env self m c) = Some s'"
    and tr: "escrow_trans env now ins (meta_state env m) s' (payouts out)"
    unfolding c by blast
  from escrow_trans_settles [OF tr ps] s' show
    "\<not> settled env m" "\<not> \<not> settled env (escrow_step env self m c)"
    by (auto simp: settled_def)
qed

lemma escrow_inv_fresh: "env_ok env \<Longrightarrow> meta_state env m = None \<Longrightarrow> escrow_inv env m"
  by (simp add: escrow_inv_def meta_wf_def)

section \<open>History of a payout\<close>

lemma escrow_trans_authorized:
  "escrow_trans env now ins st s' ps \<Longrightarrow> em_status s' = XmrClaimAuthorized \<Longrightarrow>
     \<exists>s x p. st = Some s \<and> em_status s = Funded \<and>
       em_claim_authority s = XmrDualAdaptor x \<and> signed_by ins (em_depositor s) \<and>
       instruction_partial ins = Some p \<and> now < em_refund_at s \<and>
       xmr_claim_partial_commitment env (claim_partial_context_binding x) p = claim_partial_commitment x"
  by (erule escrow_trans.cases) auto

lemma authorization_history:
  assumes ok: "env_ok env" and fresh: "meta_state env m0 = None"
    and s: "meta_state env (run (escrow_step env self) m0 cs) = Some s" "em_status s = XmrClaimAuthorized"
    and y: "em_claim_authority s = XmrDualAdaptor y"
  obtains pre now ins post p out s1 where "cs = pre @ (now, ins) # post"
    "committed env self (run (escrow_step env self) m0 pre) (now, ins) = Some out"
    "meta_state env (run (escrow_step env self) m0 (pre @ [(now, ins)])) = Some s1"
    "em_status s1 = XmrClaimAuthorized" "signed_by ins (em_depositor s)"
    "instruction_partial ins = Some p" "now < em_refund_at s"
    "xmr_claim_partial_commitment env (claim_partial_context_binding y) p = claim_partial_commitment y"
proof -
  let ?step = "escrow_step env self"
  let ?Q = "\<lambda>m. \<exists>s. meta_state env m = Some s \<and> em_status s = XmrClaimAuthorized"
  from run_first [of ?Q m0 ?step cs] fresh s obtain pre c post where
    cs: "cs = pre @ c # post" and before: "\<not> ?Q (run ?step m0 pre)"
    and after: "?Q (?step (run ?step m0 pre) c)"
    by auto
  obtain now ins where c: "c = (now, ins)" by (cases c) auto
  let ?m = "run ?step m0 pre"
  have inv: "escrow_inv env ?m"
    by (rule escrow_home.run_inv) (rule escrow_inv_fresh [OF ok fresh])
  from before after have "committed env self ?m c \<noteq> None"
    using escrow_step_None [of env self ?m c] by metis
  then obtain out where out: "committed env self ?m (now, ins) = Some out" by (auto simp: c)
  from committed_trans [OF inv out] obtain s' where s': "meta_state env (?step ?m c) = Some s'"
    and tr: "escrow_trans env now ins (meta_state env ?m) s' (payouts out)"
    unfolding c by blast
  from after s' have s'': "em_status s' = XmrClaimAuthorized" by simp
  from escrow_trans_authorized [OF tr this] obtain s0 x p where
    s0: "meta_state env ?m = Some s0" "em_claim_authority s0 = XmrDualAdaptor x"
      "em_status s0 = Funded"
      "signed_by ins (em_depositor s0)" "instruction_partial ins = Some p" "now < em_refund_at s0"
      "xmr_claim_partial_commitment env (claim_partial_context_binding x) p = claim_partial_commitment x"
    by blast
  have "holds_terms env (escrow_terms s0) ?m" using inv s0 by (simp add: holds_terms_def)
  then have "holds_terms env (escrow_terms s0) (run ?step ?m (c # post))"
    by (rule escrow_frame.run_inv)
  with s(1) have "escrow_terms s = escrow_terms s0"
    by (auto simp: cs holds_terms_def)
  then have "em_claim_authority s = em_claim_authority s0" "em_depositor s = em_depositor s0"
    "em_refund_at s = em_refund_at s0"
    by (auto simp: escrow_terms_def dest: arg_cong [of _ _ em_claim_authority]
        arg_cong [of _ _ em_depositor] arg_cong [of _ _ em_refund_at])
  with s0 y show ?thesis
    using that [OF cs [unfolded c] out] s' s'' by (simp add: c)
qed

lemma escrow_trans_payout:
  "escrow_trans env now ins st s' ps \<Longrightarrow> ps \<noteq> [] \<Longrightarrow>
     \<exists>s. st = Some s \<and>
       (ps = [(em_custody s, em_claimant_asset s, em_amount s)] \<and> em_status s' = Claimed \<and>
          (now < em_refund_at s \<or>
           (\<exists>x. em_claim_authority s = XmrDualAdaptor x \<and> punish_at x \<le> now)) \<or>
        ps = [(em_custody s, em_depositor_asset s, em_amount s)] \<and> em_status s' = EscrowRefunded \<and>
          em_refund_at s \<le> now)"
  by (erule escrow_trans.cases) auto

fun claim_authorized ::
    "'d escrow_env \<Rightarrow> u64 \<Rightarrow> 'd escrow_instruction \<Rightarrow> escrow_metadata \<Rightarrow> claim_authority \<Rightarrow> bool" where
  "claim_authorized env now ins s (Sha256Preimage h) \<longleftrightarrow>
     (\<exists>pre. instruction_proof ins = Some (Proof_Preimage pre) \<and> env_sha256 env pre = h) \<and>
     signed_by ins (em_claimant s) \<and> now < em_refund_at s"
| "claim_authorized env now ins s (AggregateWitness k a) \<longleftrightarrow>
     witnessed_account_id env k = a \<and> signed_by ins a \<and> a \<noteq> em_claimant s \<and> now < em_refund_at s"
| "claim_authorized env now ins s (XmrDualAdaptor x) \<longleftrightarrow>
     (if now < em_refund_at s
      then em_status s = XmrClaimAuthorized \<and> signed_by ins (claim_aggregate_account_id x)
      else punish_at x \<le> now \<and> signed_by ins (em_claimant s))"

lemma escrow_trans_claimed:
  assumes "escrow_trans env now ins (Some s) s' ps" "em_status s' = Claimed" "escrow_wf env s"
  shows "claim_authorized env now ins s (em_claim_authority s)"
  using assms(1)
proof (cases rule: escrow_trans.cases)
  case (claim pf)
  then show ?thesis
    by (cases pf; cases "em_claim_authority s") (auto split: if_splits)
next
  case (punish x)
  then have "\<not> now < em_refund_at s"
    using assms(3) by (auto simp: escrow_wf_def)
  with punish show ?thesis by simp
qed (use assms(2) in auto)

section \<open>Refunds of native escrows\<close>

lemma fund_native_committed:
  assumes "committed env self m (now, FundNative cu d i) = Some out"
  obtains s where "meta_state env m = Some s" "em_swap_id s = i" "em_asset_definition s = zero32"
    "em_asset_program s = em_custody_program s" "em_depositor s = account_id d" "em_custody s = account_id cu"
    "acc_program_owner (account d) = em_asset_program s" "acc_program_owner (account cu) = em_asset_program s"
    "require_attributes env self i
       [(meta_mut, m), (custody_mut, cu), ([Attr_Mut, Attr_Signer], d)] = Ok ()"
  using assms
  by (auto simp: committed_def fund_native_def and_then_Inr read_metadata_Ok split: sum.splits if_splits)

lemma supported_wf: "escrow_wf env s \<Longrightarrow> require_supported s = Ok ()"
  by (auto simp: escrow_wf_def require_supported_def xmr_escrow_metadata_version_def
      escrow_metadata_version_def split: claim_authority.splits)

text \<open>The same accounts pass the attributes of a refund, signed or not.\<close>

lemma refund_attributes:
  assumes "framework_ok env"
    and "require_attributes env self i [(meta_mut, m), (custody_mut, cu), ([Attr_Mut, Attr_Signer], d)] = Ok ()"
    and "meta_home m' = meta_home m" "meta_home cu' = meta_home cu" "meta_home d' = meta_home d"
  shows "require_attributes env self i [(meta_mut, m'), (custody_mut, cu'), ([Attr_Mut], d')] = Ok ()"
proof -
  have keep: "env_attribute_ok env self i attr y"
    if "env_attribute_ok env self i attr x" "attr \<notin> {Attr_Init, Attr_Signer}" "meta_home y = meta_home x"
    for attr x y
    using assms(1) that unfolding framework_ok_def meta_home_def by (metis prod.inject)
  show ?thesis
    using assms(2-5) by (auto simp: require_attributes_def split: if_splits intro: keep)
qed

lemma escrow_terms_fields:
  assumes "escrow_terms s = escrow_terms s'"
  shows "em_swap_id s = em_swap_id s'" "em_asset_definition s = em_asset_definition s'"
    "em_asset_program s = em_asset_program s'" "em_custody_program s = em_custody_program s'"
    "em_depositor s = em_depositor s'" "em_custody s = em_custody s'"
  using arg_cong [OF assms, of em_swap_id] arg_cong [OF assms, of em_asset_definition]
    arg_cong [OF assms, of em_asset_program] arg_cong [OF assms, of em_custody_program]
    arg_cong [OF assms, of em_depositor] arg_cong [OF assms, of em_custody]
  by (simp_all add: escrow_terms_def)

lemma refund_native_commits:
  assumes "framework_ok env" "meta_state env m = Some s" "em_status s = Funded" "escrow_wf env s" "\<not> is_xmr s"
    and "native_binding s i (em_depositor s) d cu"
    and "require_attributes env self i [(meta_mut, m), (custody_mut, cu), ([Attr_Mut], d)] = Ok ()"
    and "em_refund_at s \<le> now"
  obtains out where "committed env self m (now, RefundNative cu d i) = Some out"
    "payouts out = [(account_id cu, account_id d, em_amount s)]"
proof -
  obtain b where "env_borsh_encode env (s\<lparr>em_status := EscrowRefunded\<rparr>) = Some b"
    using assms(1) unfolding framework_ok_def by (meson not_None_eq)
  moreover have "read_metadata env m = Ok s" "require_funded s = Ok ()"
    using assms by (simp_all add: read_metadata_Ok require_funded_Ok supported_wf)
  ultimately have "\<exists>out. committed env self m (now, RefundNative cu d i) = Some out \<and>
      payouts out = [(account_id cu, account_id d, em_amount s)]"
    using assms(5-8)
    by (cases "em_claim_authority s")
      (simp_all add: committed_def refund_native_def commit_def write_metadata_def is_xmr_def)
  with that show ?thesis by blast
qed

end
