(* ===== verification/Escrow_Properties.thy ===== *)
theory Escrow_Properties
  imports Escrow_Lifecycle
begin

text \<open>
  What the escrow program guarantees over every sequence of instructions and timestamps
  from an uninitialised metadata account, with a hash-locked and a dual-adaptor escrow as
  the witness inputs.
\<close>

section \<open>A concrete escrow\<close>

text \<open>
  An environment in which account data is the metadata itself: the codec is the identity
  and an uninitialised account holds nothing.
\<close>

definition demo_env :: "escrow_metadata option escrow_env" where
  "demo_env = \<lparr>env_sha256 = (\<lambda>bs. 1 # bs), env_borsh_encode = (\<lambda>m. Some (Some m)),
     env_borsh_decode = (\<lambda>d. d),
     env_default_account = \<lparr>acc_program_owner = default_program_id, acc_balance = 0,
       acc_data = None, acc_rest = []\<rparr>,
     env_seed_from_str = as_bytes, env_pda_from_seeds = concat,
     env_ata_id = (\<lambda>p owner d. owner @ d), env_token_holding = (\<lambda>_. None),
     env_fungible_definition = (\<lambda>_. True),
     env_attribute_ok = (\<lambda>self i a acc. case a of
         Attr_Init \<Rightarrow> account acc = \<lparr>acc_program_owner = default_program_id, acc_balance = 0,
           acc_data = None, acc_rest = []\<rparr>
       | Attr_Signer \<Rightarrow> is_authorized acc
       | _ \<Rightarrow> True),
     env_window_ok = (\<lambda>a b. a < b)\<rparr>"

lemma demo_env_fields:
  "env_sha256 demo_env bs = 1 # bs" "env_borsh_encode demo_env s = Some (Some s)"
  "env_borsh_decode demo_env d = d"
  "env_default_account demo_env = \<lparr>acc_program_owner = default_program_id, acc_balance = 0,
     acc_data = None, acc_rest = []\<rparr>"
  "env_attribute_ok demo_env self i a acc = (case a of
       Attr_Init \<Rightarrow> account acc = \<lparr>acc_program_owner = default_program_id, acc_balance = 0,
         acc_data = None, acc_rest = []\<rparr>
     | Attr_Signer \<Rightarrow> is_authorized acc
     | _ \<Rightarrow> True)"
  by (simp_all add: demo_env_def)

lemma demo_env_ok: "env_ok demo_env"
  by (simp add: env_ok_def demo_env_fields)

definition demo_account ::
    "bytes \<Rightarrow> program_id \<Rightarrow> u128 \<Rightarrow> bool \<Rightarrow> escrow_metadata option account_with_metadata" where
  "demo_account i owner bal auth = \<lparr>account_id = i, account = \<lparr>acc_program_owner = owner,
     acc_balance = bal, acc_data = None, acc_rest = []\<rparr>, is_authorized = auth\<rparr>"

definition demo_init :: "u64 \<times> escrow_metadata option escrow_instruction" where
  "demo_init = (10, InitializeNative (demo_account [2] default_program_id 0 False)
     (demo_account [3] [9] 100 True) (demo_account [4] [9] 0 False) [7] [8] [1, 5] 50 1000 [9])"

definition demo_fund :: "u64 \<times> escrow_metadata option escrow_instruction" where
  "demo_fund = (20, FundNative (demo_account [2] [9] 0 False) (demo_account [3] [9] 100 True) [7])"

definition demo_claim :: "u64 \<times> escrow_metadata option escrow_instruction" where
  "demo_claim = (30, ClaimNative (demo_account [2] [9] 50 False) (demo_account [4] [9] 0 True) [7] [5])"

definition demo_refund :: "u64 \<times> escrow_metadata option escrow_instruction" where
  "demo_refund = (1000, RefundNative (demo_account [2] [9] 50 False) (demo_account [3] [9] 0 False) [7])"

abbreviation demo_fresh :: "escrow_metadata option account_with_metadata" where
  "demo_fresh \<equiv> demo_account [1] default_program_id 0 False"

definition demo_metadata :: "escrow_status \<Rightarrow> escrow_metadata" where
  "demo_metadata st = \<lparr>em_version = 2, em_swap_id = [7], em_terms_hash = [8],
     em_claim_authority = Sha256Preimage [1, 5], em_depositor = [3], em_depositor_asset = [3],
     em_claimant = [4], em_claimant_asset = [4], em_custody = [2], em_asset_program = [9],
     em_custody_program = [9], em_asset_definition = zero32, em_amount = 50, em_refund_at = 1000,
     em_status = st\<rparr>"

lemma short_not_zero:
  "length xs \<noteq> 32 \<Longrightarrow> (xs = zero32) = False" "length ys \<noteq> 8 \<Longrightarrow> (ys = default_program_id) = False"
  by (auto simp: zero32_def default_program_id_def)

lemmas demo_escrow_simps = escrow_step_def committed_def demo_init_def demo_fund_def demo_claim_def
  demo_refund_def instruction_defs escrow_defs require_attributes_def demo_env_fields demo_account_def
  commit_def native_initial_state_def validated_native_claim_state_def demo_metadata_def
  meta_state_def short_not_zero

lemma demo_run:
  "meta_state demo_env demo_fresh = None"
  "meta_state demo_env (run (escrow_step demo_env [6]) demo_fresh [demo_init, demo_fund]) =
     Some (demo_metadata Funded)"
  "meta_state demo_env (run (escrow_step demo_env [6]) demo_fresh [demo_init, demo_fund, demo_claim]) =
     Some (demo_metadata Claimed)"
  by (simp_all add: demo_escrow_simps word_less_nat_alt)

abbreviation escrow_run ::
    "'d escrow_env \<Rightarrow> program_id \<Rightarrow> 'd account_with_metadata
     \<Rightarrow> (u64 \<times> 'd escrow_instruction) list \<Rightarrow> 'd account_with_metadata" where
  "escrow_run env self \<equiv> run (escrow_step env self)"

definition demo_xmr :: "(u64 \<times> escrow_metadata option escrow_instruction) list" where
  "demo_xmr =
     [(10, InitializeNativeXmr (demo_account [2] default_program_id 0 False)
        (demo_account [3] [9] 100 True) (demo_account [4] [9] 0 False)
        (demo_account (witnessed_account_id demo_env [21]) [9] 0 False)
        (demo_account (witnessed_account_id demo_env [22]) [9] 0 False)
        [7] [8] [21] [22] [31] [32] [41] (xmr_claim_partial_commitment demo_env [41] [51])
        50 1000 2000 [9]),
      demo_fund,
      (25, AuthorizeNativeXmrClaim (demo_account [3] [9] 50 True) [7] [51])]"

definition demo_xmr_claim :: "u64 \<times> escrow_metadata option escrow_instruction" where
  "demo_xmr_claim = (30, ClaimNativeXmr (demo_account [2] [9] 50 False) (demo_account [4] [9] 0 False)
     (demo_account (witnessed_account_id demo_env [21]) [9] 0 True) [7])"

definition demo_xmr_metadata :: escrow_metadata where
  "demo_xmr_metadata = (demo_metadata XmrClaimAuthorized)\<lparr>em_version := 3,
     em_claim_authority := XmrDualAdaptor
       \<lparr>claim_aggregate_x_only_public_key = [21],
        claim_aggregate_account_id = witnessed_account_id demo_env [21],
        refund_aggregate_x_only_public_key = [22],
        refund_aggregate_account_id = witnessed_account_id demo_env [22],
        maker_dleq_transcript_commitment = [31], taker_dleq_transcript_commitment = [32],
        claim_partial_context_binding = [41],
        claim_partial_commitment = xmr_claim_partial_commitment demo_env [41] [51],
        punish_at = 2000\<rparr>\<rparr>"

lemma demo_hashes:
  "witnessed_account_id demo_env k = 1 # public_account_id_prefix @ k"
  "xmr_claim_partial_commitment demo_env c p = 1 # xmr_claim_partial_domain @ c @ p"
  "(1 # xs = zero32) = False"
  by (simp_all add: witnessed_account_id_def xmr_claim_partial_commitment_def demo_env_fields zero32_def
      numeral_eq_Suc)

lemma demo_xmr_run:
  "meta_state demo_env (escrow_run demo_env [6] demo_fresh demo_xmr) = Some demo_xmr_metadata"
  "\<exists>out. committed demo_env [6] (escrow_run demo_env [6] demo_fresh demo_xmr) demo_xmr_claim = Some out \<and>
     payouts out = [([2], [4], 50)]"
  by (simp_all add: demo_xmr_def demo_xmr_claim_def demo_xmr_metadata_def demo_hashes
      demo_escrow_simps native_xmr_initial_state_def validated_xmr_claim_authorization_state_def
      validated_xmr_native_witness_state_def word_less_nat_alt word_le_nat_alt Let_def)

section \<open>Properties\<close>

lemma escrow_run_inv:
  "env_ok env \<Longrightarrow> meta_state env m0 = None \<Longrightarrow> escrow_inv env (escrow_run env self m0 cs)"
  by (intro escrow_home.run_inv escrow_inv_fresh)

lemma escrow_terms_eq: "escrow_terms s' = escrow_terms s \<Longrightarrow> s'\<lparr>em_status := em_status s\<rparr> = s"
  by (cases s; cases s') (simp add: escrow_terms_def)

text \<open>
  C2: Over every sequence of instructions and timestamps on an escrow account that starts
  uninitialised, at most one committed output transfers anything out under the authority of
  the program, whatever accounts and arguments the callers supply.
\<close>

theorem escrow_pays_at_most_once:
  assumes "env_ok env" and "meta_state env m0 = None"
  shows "grant_count (escrow_step env self) (pays_out env self) m0 cs \<le> 1"
  using assms by (intro escrow_once.grants_at_most_once escrow_inv_fresh)

theorem escrow_pays_at_most_once_witness:
  "grant_count (escrow_step demo_env [6]) (pays_out demo_env [6]) demo_fresh
     [demo_init, demo_fund, demo_claim, demo_refund] \<le> 1"
  by (rule escrow_pays_at_most_once [OF demo_env_ok demo_run(1)])

text \<open>
  C15: Every output an instruction commits in a reachable escrow is a step of the abstract
  lifecycle: its time window, its signer, its claim proof and its payout are those of one of
  the nine rules, and the metadata it writes is well formed.
\<close>

theorem escrow_refines_lifecycle:
  assumes "env_ok env" and "meta_state env m0 = None"
    and "committed env self (escrow_run env self m0 cs) (now, ins) = Some out"
  shows "\<exists>s'. meta_state env (escrow_run env self m0 (cs @ [(now, ins)])) = Some s' \<and>
    escrow_wf env s' \<and>
    escrow_trans env now ins (meta_state env (escrow_run env self m0 cs)) s' (payouts out)"
proof -
  note inv = escrow_run_inv [OF assms(1,2)]
  from committed_trans [OF inv assms(3)] obtain s' where
    s': "meta_state env (escrow_run env self m0 (cs @ [(now, ins)])) = Some s'"
    and tr: "escrow_trans env now ins (meta_state env (escrow_run env self m0 cs)) s' (payouts out)"
    by auto
  from inv [of self "cs @ [(now, ins)]"] s' have "escrow_wf env s'"
    unfolding escrow_inv_def meta_wf_def by simp
  with s' tr show ?thesis by blast
qed

theorem escrow_refines_lifecycle_witness:
  "\<exists>s' (out :: escrow_metadata option spel_output). escrow_trans demo_env 20 (snd demo_fund)
     (meta_state demo_env (escrow_run demo_env [6] demo_fresh [demo_init])) s' (payouts out)"
proof -
  have "committed demo_env [6] (escrow_run demo_env [6] demo_fresh [demo_init]) (20, snd demo_fund) \<noteq> None"
    by (simp add: demo_escrow_simps word_less_nat_alt)
  then obtain out where "committed demo_env [6] (escrow_run demo_env [6] demo_fresh [demo_init])
      (20, snd demo_fund) = Some out"
    by blast
  from escrow_refines_lifecycle [OF demo_env_ok demo_run(1) this] show ?thesis by blast
qed

text \<open>
  C22: Every payout of a reachable escrow is a single transfer of exactly the agreed amount
  from the bound custody account, either to the bound claimant account before the refund
  time (or, for a dual-adaptor escrow, from the punish time), or to the bound depositor
  account from the refund time on.
\<close>

theorem escrow_payout_exact:
  assumes "env_ok env" and "meta_state env m0 = None"
    and "committed env self (escrow_run env self m0 cs) (now, ins) = Some out" and "payouts out \<noteq> []"
  shows "\<exists>s. meta_state env (escrow_run env self m0 cs) = Some s \<and>
    (payouts out = [(em_custody s, em_claimant_asset s, em_amount s)] \<and>
       (now < em_refund_at s \<or> (\<exists>x. em_claim_authority s = XmrDualAdaptor x \<and> punish_at x \<le> now)) \<or>
     payouts out = [(em_custody s, em_depositor_asset s, em_amount s)] \<and> em_refund_at s \<le> now)"
proof -
  from committed_trans [OF escrow_run_inv [OF assms(1,2)] assms(3)] obtain s' where
    "escrow_trans env now ins (meta_state env (escrow_run env self m0 cs)) s' (payouts out)" .
  from escrow_trans_payout [OF this assms(4)] show ?thesis by auto
qed

theorem escrow_payout_exact_witness:
  "\<exists>out. committed demo_env [6] (escrow_run demo_env [6] demo_fresh [demo_init, demo_fund])
       (1000, snd demo_refund) = Some out \<and> payouts out = [([2], [3], 50)]"
proof -
  let ?m = "escrow_run demo_env [6] demo_fresh [demo_init, demo_fund]"
  have "\<exists>out. committed demo_env [6] ?m (1000, snd demo_refund) = Some out \<and> payouts out \<noteq> []"
    by (simp add: demo_escrow_simps word_less_nat_alt payouts_def native_transfer_call_def)
  then obtain out where out: "committed demo_env [6] ?m (1000, snd demo_refund) = Some out"
    "payouts out \<noteq> []"
    by blast
  from escrow_payout_exact [OF demo_env_ok demo_run(1) out] out show ?thesis
    unfolding demo_run(2) by (auto simp: demo_metadata_def)
qed

text \<open>
  C23: An instruction that makes a reachable escrow Claimed carries the authority the escrow
  was created with: a preimage of the stored digest and the claimant signature, the
  aggregate account signature, or for a dual-adaptor escrow the claim aggregate signature
  after authorization and before the refund time, or the claimant signature from the punish
  time on.
\<close>

theorem escrow_claim_authorized:
  assumes "env_ok env" and "meta_state env m0 = None"
    and "committed env self (escrow_run env self m0 cs) (now, ins) = Some out"
    and "meta_state env (escrow_run env self m0 (cs @ [(now, ins)])) = Some s'"
    and "em_status s' = Claimed"
  shows "\<exists>s. meta_state env (escrow_run env self m0 cs) = Some s \<and>
    claim_authorized env now ins s (em_claim_authority s)"
proof -
  note inv = escrow_run_inv [OF assms(1,2), of self cs]
  from committed_trans [OF inv assms(3)] assms(4) have
    tr: "escrow_trans env now ins (meta_state env (escrow_run env self m0 cs)) s' (payouts out)"
    by auto
  then obtain s where s: "meta_state env (escrow_run env self m0 cs) = Some s"
    using assms(5) by (cases rule: escrow_trans.cases) auto
  with inv have "escrow_wf env s" by (simp add: escrow_inv_def meta_wf_def)
  from escrow_trans_claimed [OF tr [unfolded s] assms(5) this] s show ?thesis by simp
qed

theorem escrow_claim_authorized_witness:
  "\<exists>pre. instruction_proof (snd demo_claim) = Some (Proof_Preimage pre) \<and> env_sha256 demo_env pre = [1, 5]"
proof -
  have "committed demo_env [6] (escrow_run demo_env [6] demo_fresh [demo_init, demo_fund])
      (30, snd demo_claim) \<noteq> None"
    by (simp add: demo_escrow_simps word_less_nat_alt)
  then obtain out where out: "committed demo_env [6]
      (escrow_run demo_env [6] demo_fresh [demo_init, demo_fund]) (30, snd demo_claim) = Some out"
    by blast
  have after: "meta_state demo_env (escrow_run demo_env [6] demo_fresh
      ([demo_init, demo_fund] @ [(30, snd demo_claim)])) = Some (demo_metadata Claimed)"
    using demo_run(3) by (simp add: demo_claim_def)
  from escrow_claim_authorized [OF demo_env_ok demo_run(1) out after] show ?thesis
    unfolding demo_run(2) by (auto simp: demo_metadata_def)
qed

text \<open>
  Once an escrow is initialised, no instruction changes any field of its metadata but
  the status; in particular it cannot be initialised again.
\<close>

theorem escrow_terms_immutable:
  assumes "env_ok env" and "meta_state env m0 = None"
    and "meta_state env (escrow_run env self m0 cs) = Some s"
  shows "\<exists>s'. meta_state env (escrow_run env self m0 (cs @ cs')) = Some s' \<and>
    s'\<lparr>em_status := em_status s\<rparr> = s"
proof -
  let ?m = "escrow_run env self m0 cs"
  have "holds_terms env (escrow_terms s) ?m"
    using escrow_run_inv [OF assms(1,2)] assms(3) by (simp add: holds_terms_def)
  then have "holds_terms env (escrow_terms s) (escrow_run env self ?m cs')"
    by (rule escrow_frame.run_inv)
  then obtain s' where s': "meta_state env (escrow_run env self m0 (cs @ cs')) = Some s'"
    "escrow_terms s' = escrow_terms s"
    by (auto simp: holds_terms_def)
  then show ?thesis using escrow_terms_eq by blast
qed

theorem escrow_terms_immutable_witness:
  "\<exists>s'. meta_state demo_env (escrow_run demo_env [6] demo_fresh
      ([demo_init, demo_fund] @ [demo_init, demo_claim, demo_refund])) = Some s' \<and>
    s'\<lparr>em_status := Funded\<rparr> = demo_metadata Funded"
  using escrow_terms_immutable [OF demo_env_ok demo_run(1) demo_run(2),
    of "[demo_init, demo_claim, demo_refund]"]
  by (simp add: demo_metadata_def)

lemma claim_native_xmr_window:
  assumes "meta_wf env m" "claim_native_xmr env self m cu c a i = Ok out"
  obtains s x where "meta_state env m = Some s" "em_claim_authority s = XmrDualAdaptor x"
    "out_window out = until (em_refund_at s)"
proof -
  from assms(2) obtain s' at where v: "validated_xmr_native_witness_state env m cu c a i Purpose_Claim = Ok (s', at)"
    and w: "out_window out = until (em_refund_at s')"
    by (auto simp: claim_native_xmr_def and_then_Inr commit_def)
  show ?thesis
    by (rule validated_xmr_witness [OF assms(1) v]) (use w in \<open>auto intro: that\<close>)
qed

lemma refund_native_xmr_window:
  assumes "meta_wf env m" "refund_native_xmr env self m cu d a i = Ok out"
  obtains s x where "meta_state env m = Some s" "em_claim_authority s = XmrDualAdaptor x"
    "out_window out = \<lparr>win_from = Some (em_refund_at s), win_to = Some (punish_at x)\<rparr>"
proof -
  from assms(2) obtain s' at where v: "validated_xmr_native_witness_state env m cu d a i Purpose_Refund = Ok (s', at)"
    and w: "out_window out = \<lparr>win_from = Some (em_refund_at s'), win_to = Some at\<rparr>"
    by (auto simp: refund_native_xmr_def and_then_Inr commit_def split: if_splits)
  show ?thesis
    by (rule validated_xmr_witness [OF assms(1) v]) (use w in \<open>auto intro: that\<close>)
qed

lemma punish_native_xmr_window:
  assumes "punish_native_xmr env self m cu c i = Ok out"
  obtains s x where "meta_state env m = Some s" "em_claim_authority s = XmrDualAdaptor x"
    "out_window out = from_time (punish_at x)"
  using assms
  by (auto simp: punish_native_xmr_def validated_xmr_native_punish_state_def and_then_Inr commit_def
      read_metadata_Ok split: if_splits claim_authority.splits)

text \<open>
  At any timestamp at most one of the claim, refund and punish instructions of a dual-
  adaptor escrow can be committed.
\<close>

theorem xmr_branches_exclusive:
  assumes "env_ok env" and "meta_state env m0 = None" and "m = escrow_run env self m0 cs"
  shows "length (filter (\<lambda>ins. committed env self m (now, ins) \<noteq> None)
    [ClaimNativeXmr cu c a i, RefundNativeXmr cu' d a' i', PunishNativeXmr cu'' c' i'']) \<le> 1"
proof -
  have wf: "meta_wf env m" using escrow_run_inv [OF assms(1,2)] assms(3) by (simp add: escrow_inv_def)
  have order: "em_refund_at s < punish_at x"
    if "meta_state env m = Some s" "em_claim_authority s = XmrDualAdaptor x" for s x
    using wf that by (simp add: meta_wf_def escrow_wf_def)
  have 1: "\<exists>s x. meta_state env m = Some s \<and> em_claim_authority s = XmrDualAdaptor x \<and> now < em_refund_at s"
    if "committed env self m (now, ClaimNativeXmr cu c a i) \<noteq> None"
    using that claim_native_xmr_window [OF wf]
    by (force simp: committed_def split: sum.splits if_splits)
  have 2: "\<exists>s x. meta_state env m = Some s \<and> em_claim_authority s = XmrDualAdaptor x \<and>
      em_refund_at s \<le> now \<and> now < punish_at x"
    if "committed env self m (now, RefundNativeXmr cu' d a' i') \<noteq> None"
    using that refund_native_xmr_window [OF wf]
    by (force simp: committed_def split: sum.splits if_splits)
  have 3: "\<exists>s x. meta_state env m = Some s \<and> em_claim_authority s = XmrDualAdaptor x \<and> punish_at x \<le> now"
    if "committed env self m (now, PunishNativeXmr cu'' c' i'') \<noteq> None"
    using that punish_native_xmr_window [of env self m]
    by (force simp: committed_def split: sum.splits if_splits)
  let ?A = "committed env self m (now, ClaimNativeXmr cu c a i) \<noteq> None"
  let ?B = "committed env self m (now, RefundNativeXmr cu' d a' i') \<noteq> None"
  let ?C = "committed env self m (now, PunishNativeXmr cu'' c' i'') \<noteq> None"
  have "\<not> (?A \<and> ?B)" using 1 2 by fastforce
  moreover have "\<not> (?A \<and> ?C)" using 1 3 order by fastforce
  moreover have "\<not> (?B \<and> ?C)" using 2 3 by fastforce
  ultimately show ?thesis by auto
qed

theorem xmr_branches_exclusive_witness:
  "length (filter (\<lambda>ins. committed demo_env [6]
      (escrow_run demo_env [6] demo_fresh demo_xmr) (30, ins) \<noteq> None)
    [snd demo_xmr_claim, RefundNativeXmr demo_fresh demo_fresh demo_fresh [7],
     PunishNativeXmr demo_fresh demo_fresh [7]]) \<le> 1"
  unfolding demo_xmr_claim_def snd_conv
  by (rule xmr_branches_exclusive [OF demo_env_ok demo_run(1) refl])

text \<open>
  C33: A dual-adaptor escrow pays the claimant before the refund time only if an earlier
  instruction of the run, signed by the depositor before the refund time, committed, made
  the escrow XmrClaimAuthorized and published the partial signature the escrow commits to.
\<close>

theorem xmr_claim_needs_depositor_release:
  assumes "env_ok env" and "meta_state env m0 = None"
    and "committed env self (escrow_run env self m0 cs) (now, ins) = Some out"
    and "payouts out = [(em_custody s, em_claimant_asset s, em_amount s)]"
    and "meta_state env (escrow_run env self m0 cs) = Some s"
    and "em_claim_authority s = XmrDualAdaptor x" and "now < em_refund_at s"
  shows "\<exists>pre now' ins' post p out' s'. cs = pre @ (now', ins') # post \<and>
    committed env self (escrow_run env self m0 pre) (now', ins') = Some out' \<and>
    meta_state env (escrow_run env self m0 (pre @ [(now', ins')])) = Some s' \<and>
    em_status s' = XmrClaimAuthorized \<and> now' < em_refund_at s \<and>
    signed_by ins' (em_depositor s) \<and> instruction_partial ins' = Some p \<and>
    xmr_claim_partial_commitment env (claim_partial_context_binding x) p = claim_partial_commitment x"
proof -
  note inv = escrow_run_inv [OF assms(1,2)]
  from committed_trans [OF inv assms(3)] assms(5) obtain s' where
    tr: "escrow_trans env now ins (Some s) s' (payouts out)" by metis
  have "em_status s = XmrClaimAuthorized"
    using tr
  proof (cases rule: escrow_trans.cases)
    case (claim pf)
    with assms(6) show ?thesis by (cases pf) auto
  next
    case (punish y)
    have "escrow_wf env s" using inv [of self cs] assms(5) by (simp add: escrow_inv_def meta_wf_def)
    with punish assms(6,7) show ?thesis by (auto simp: escrow_wf_def)
  qed (use assms(4,7) in auto)
  from authorization_history [OF assms(1,2,5) this assms(6)] obtain pre now' ins' post p out' s' where
    split: "cs = pre @ (now', ins') # post"
    and parts: "committed env self (escrow_run env self m0 pre) (now', ins') = Some out'"
      "meta_state env (escrow_run env self m0 (pre @ [(now', ins')])) = Some s'"
      "em_status s' = XmrClaimAuthorized" "now' < em_refund_at s" "signed_by ins' (em_depositor s)"
      "instruction_partial ins' = Some p"
      "xmr_claim_partial_commitment env (claim_partial_context_binding x) p = claim_partial_commitment x"
    by metis
  show ?thesis by (intro exI conjI, rule split) (rule parts)+
qed

theorem xmr_claim_needs_depositor_release_witness:
  "\<exists>pre now' ins' post p out'. demo_xmr = pre @ (now', ins') # post \<and>
    committed demo_env [6] (escrow_run demo_env [6] demo_fresh pre) (now', ins') = Some out' \<and> now' < 1000 \<and>
    signed_by ins' [3] \<and> instruction_partial ins' = Some p"
proof -
  from demo_xmr_run(2) obtain out where
    out: "committed demo_env [6] (escrow_run demo_env [6] demo_fresh demo_xmr) (30, snd demo_xmr_claim) = Some out"
      "payouts out = [([2], [4], 50)]"
    by (auto simp: demo_xmr_claim_def)
  have terms: "em_custody demo_xmr_metadata = [2]" "em_claimant_asset demo_xmr_metadata = [4]"
    "em_amount demo_xmr_metadata = 50" "em_depositor demo_xmr_metadata = [3]"
    "em_refund_at demo_xmr_metadata = 1000"
    and "\<exists>x. em_claim_authority demo_xmr_metadata = XmrDualAdaptor x"
    by (simp_all add: demo_xmr_metadata_def demo_metadata_def)
  then obtain x where x: "em_claim_authority demo_xmr_metadata = XmrDualAdaptor x" by blast
  have ps: "payouts out = [(em_custody demo_xmr_metadata, em_claimant_asset demo_xmr_metadata,
      em_amount demo_xmr_metadata)]"
    using out(2) terms by simp
  have now: "30 < em_refund_at demo_xmr_metadata" unfolding terms by simp
  from xmr_claim_needs_depositor_release [OF demo_env_ok demo_run(1) out(1) ps demo_xmr_run(1) x now]
  show ?thesis unfolding terms by blast
qed

text \<open>
  C34: The amount in a native escrow can come back: if a committed funding of a fresh escrow
  leaves it, after any further instructions, still funded and without dual-adaptor
  authority, then from the refund time on the refund instruction commits with the custody
  and depositor accounts of that funding, as long as custody holds the amount. Nobody needs
  to sign; it pays the depositor the exact amount and leaves the escrow refunded.
\<close>

theorem native_refund_available:
  assumes "env_ok env" and "framework_ok env" and "meta_state env m0 = None"
    and "committed env self (escrow_run env self m0 before) (t0, FundNative cu0 d0 i) = Some out0"
    and "m = escrow_run env self m0 (before @ (t0, FundNative cu0 d0 i) # after)"
    and "meta_state env m = Some s" and "em_status s = Funded" and "\<not> is_xmr s" and "em_refund_at s \<le> now"
    and "account_id cu = account_id cu0" and "acc_program_owner (account cu) = acc_program_owner (account cu0)"
    and "acc_balance (account cu) = em_amount s"
    and "account_id d = account_id d0" and "acc_program_owner (account d) = acc_program_owner (account d0)"
  shows "\<exists>out s'. committed env self m (now, RefundNative cu d i) = Some out \<and>
    payouts out = [(account_id cu0, account_id d0, em_amount s)] \<and>
    meta_state env (escrow_step env self m (now, RefundNative cu d i)) = Some s' \<and>
    em_status s' = EscrowRefunded"
proof -
  let ?m = "escrow_run env self m0 before" and ?c = "(t0, FundNative cu0 d0 i)"
  have inv: "escrow_inv env (escrow_run env self m0 cs)" for cs
    by (rule escrow_run_inv [OF assms(1,3)])
  have m: "m = escrow_run env self (escrow_step env self ?m ?c) after" by (simp add: assms(5))
  from fund_native_committed [OF assms(4)] obtain s0 where
    s0: "meta_state env ?m = Some s0" "em_swap_id s0 = i" "em_asset_definition s0 = zero32"
      "em_asset_program s0 = em_custody_program s0" "em_depositor s0 = account_id d0"
      "em_custody s0 = account_id cu0" "acc_program_owner (account d0) = em_asset_program s0"
      "acc_program_owner (account cu0) = em_asset_program s0"
    and attrs: "require_attributes env self i
      [(meta_mut, ?m), (custody_mut, cu0), ([Attr_Mut, Attr_Signer], d0)] = Ok ()"
    by blast
  have "holds_terms env (escrow_terms s0) ?m" using inv s0 by (simp add: holds_terms_def)
  then have "holds_terms env (escrow_terms s0) (escrow_run env self ?m (?c # after))"
    by (rule escrow_frame.run_inv)
  then have terms: "escrow_terms s = escrow_terms s0"
    using assms(6) by (auto simp: m holds_terms_def)
  have home: "meta_home m = meta_home ?m"
    using escrow_home.run_obs [OF inv [of before], of self "?c # after"] by (simp add: m)
  have "native_binding s i (em_depositor s) d cu"
    using s0 escrow_terms_fields [OF terms] assms(10-14) by (simp add: native_binding_def)
  moreover have "require_attributes env self i [(meta_mut, m), (custody_mut, cu), ([Attr_Mut], d)] = Ok ()"
    by (rule refund_attributes [OF assms(2) attrs home]) (use assms(10-14) in \<open>simp_all add: meta_home_def\<close>)
  moreover have wf: "escrow_wf env s"
    using inv [of "before @ ?c # after"] assms(6) by (simp add: m escrow_inv_def meta_wf_def)
  ultimately obtain out where out: "committed env self m (now, RefundNative cu d i) = Some out"
    "payouts out = [(account_id cu, account_id d, em_amount s)]"
    using refund_native_commits [OF assms(2,6,7) wf assms(8)] assms(9) by metis
  have "escrow_inv env m" using inv by (simp only: assms(5))
  from committed_trans [OF this out(1)] obtain s' where
    s': "meta_state env (escrow_step env self m (now, RefundNative cu d i)) = Some s'"
      "escrow_trans env now (RefundNative cu d i) (meta_state env m) s' (payouts out)"
    by blast
  have "em_status s' = EscrowRefunded"
    using s'(2) out(2) by (cases rule: escrow_trans.cases) (auto simp: signed_by_def)
  with out s'(1) assms(10,13) show ?thesis by auto
qed

lemma demo_framework_ok: "framework_ok demo_env"
  by (auto simp: framework_ok_def demo_env_fields split: account_attribute.split)

theorem native_refund_available_witness:
  "\<exists>out. committed demo_env [6] (escrow_run demo_env [6] demo_fresh [demo_init, demo_fund])
       (1000, RefundNative (demo_account [2] [9] 50 False) (demo_account [3] [9] 0 False) [7]) = Some out \<and>
     payouts out = [([2], [3], 50)]"
proof -
  let ?fund = "FundNative (demo_account [2] [9] 0 False) (demo_account [3] [9] 100 True) [7]"
  let ?s = "demo_metadata Funded"
  have fund: "\<exists>out. committed demo_env [6] (escrow_run demo_env [6] demo_fresh [demo_init]) (20, ?fund) = Some out"
    by (simp add: demo_escrow_simps word_less_nat_alt)
  then obtain out0 where
    out0: "committed demo_env [6] (escrow_run demo_env [6] demo_fresh [demo_init]) (20, ?fund) = Some out0"
    by blast
  have m: "escrow_run demo_env [6] demo_fresh [demo_init, demo_fund] =
      escrow_run demo_env [6] demo_fresh ([demo_init] @ (20, ?fund) # [])"
    by (simp add: demo_fund_def)
  have terms: "em_status ?s = Funded" "\<not> is_xmr ?s" "em_refund_at ?s \<le> 1000"
    by (simp_all add: demo_metadata_def is_xmr_def)
  from native_refund_available [OF demo_env_ok demo_framework_ok demo_run(1) out0 m demo_run(2) terms,
      of "demo_account [2] [9] 50 False" "demo_account [3] [9] 0 False"]
  show ?thesis by (auto simp: demo_account_def demo_metadata_def)
qed

end
