(* ===== verification/Bridge_Protocol.thy ===== *)
theory Bridge_Protocol
  imports Store_Table Effect_Plan
begin

text \<open>
  The bounded values of the bridge wire protocol
  (\<open>crates/lez-bridge-protocol/src/primitives.rs\<close>): decimal and text codecs, identifiers,
  discovery windows, and the terms of the hashlock and witnessed escrows. The \<open>hex\<close> and
  \<open>base64\<close> packages are the two codec parameters of \<open>wire_codecs\<close>; the roles of the
  protocol are those of the core, which has the same two.
\<close>

section \<open>Decimal numbers\<close>

text \<open>\<open>to_string\<close> and \<open>parse\<close> of the unsigned integers. A leading plus sign is accepted, and
  a value that reaches \<open>bound\<close> is an overflow.\<close>

definition digit_char :: "nat \<Rightarrow> char" where
  "digit_char d = char_of (48 + d)"

definition digit_value :: "char \<Rightarrow> nat" where
  "digit_value c = of_char c - 48"

fun to_decimal :: "nat \<Rightarrow> string" where
  "to_decimal n = (if n < 10 then [digit_char n] else to_decimal (n div 10) @ [digit_char (n mod 10)])"

fun parse_digits :: "nat \<Rightarrow> nat \<Rightarrow> string \<Rightarrow> nat option" where
  "parse_digits bound acc [] = Some acc"
| "parse_digits bound acc (c # cs) =
     (if is_ascii_digit c \<and> acc * 10 + digit_value c < bound
      then parse_digits bound (acc * 10 + digit_value c) cs else None)"

definition parse_decimal :: "nat \<Rightarrow> string \<Rightarrow> nat option" where
  "parse_decimal bound s =
     (case s of
        [] \<Rightarrow> None
      | c # cs \<Rightarrow> if c = CHR ''+'' \<and> cs \<noteq> [] then parse_digits bound 0 cs else parse_digits bound 0 s)"

declare to_decimal.simps [simp del]

lemma of_char_digit: "d < 10 \<Longrightarrow> (of_char (digit_char d) :: nat) = 48 + d"
  by (simp add: digit_char_def)

lemma digit_char_simps [simp]:
  "d < 10 \<Longrightarrow> is_ascii_digit (digit_char d)" "d < 10 \<Longrightarrow> digit_value (digit_char d) = d"
  by (simp_all add: is_ascii_digit_def digit_value_def of_char_digit)

lemma digit_char_neq:
  assumes "d < 10"
  shows "digit_char d \<noteq> CHR ''+''" "digit_char d = CHR ''0'' \<longleftrightarrow> d = 0"
proof -
  have "(of_char (digit_char d) :: nat) \<noteq> of_char CHR ''+''" using assms by (simp add: of_char_digit)
  then show "digit_char d \<noteq> CHR ''+''" by metis
  have "(of_char (digit_char d) :: nat) = of_char CHR ''0'' \<longleftrightarrow> d = 0" using assms by (simp add: of_char_digit)
  then show "digit_char d = CHR ''0'' \<longleftrightarrow> d = 0" by (simp only: of_char_eq_iff)
qed

lemma digit_char_value: "is_ascii_digit c \<Longrightarrow> digit_char (digit_value c) = c \<and> digit_value c < 10"
  by (auto simp: is_ascii_digit_def digit_char_def digit_value_def)

lemma parse_digits_append:
  "parse_digits bound acc (xs @ ys) =
     (case parse_digits bound acc xs of None \<Rightarrow> None | Some v \<Rightarrow> parse_digits bound v ys)"
  by (induction xs arbitrary: acc) auto

lemma to_decimal_digits: "list_all is_ascii_digit (to_decimal n)"
  by (induction n rule: to_decimal.induct) (subst to_decimal.simps, auto)

lemma to_decimal_nonempty [simp]: "to_decimal n \<noteq> []"
  by (subst to_decimal.simps) simp

lemma parse_digits_to_decimal: "n < bound \<Longrightarrow> parse_digits bound 0 (to_decimal n) = Some n"
proof (induction n rule: to_decimal.induct)
  case (1 n)
  show ?case
  proof (cases "n < 10")
    case True
    with 1(2) show ?thesis by (subst to_decimal.simps) simp
  next
    case False
    with 1 have "parse_digits bound 0 (to_decimal (n div 10)) = Some (n div 10)" by simp
    moreover have "n div 10 * 10 + n mod 10 = n" by simp
    ultimately show ?thesis
      using False 1(2) by (subst to_decimal.simps) (simp add: parse_digits_append)
  qed
qed

text \<open>The printed form has no leading zero and no sign.\<close>

lemma to_decimal_hd:
  shows "hd (to_decimal n) = CHR ''0'' \<longleftrightarrow> n = 0" and "hd (to_decimal n) \<noteq> CHR ''+''"
proof (induction n rule: to_decimal.induct)
  case (1 n)
  {
    case 1
    with "1.IH" show ?case
      by (cases "n < 10") (subst to_decimal.simps, force simp: hd_append digit_char_neq)+
  next
    case 2
    with "1.IH" show ?case
      by (cases "n < 10") (subst to_decimal.simps, force simp: hd_append digit_char_neq)+
  }
qed

lemma parse_to_decimal [simp]: "n < bound \<Longrightarrow> parse_decimal bound (to_decimal n) = Some n"
  using to_decimal_hd(2) [of n] parse_digits_to_decimal [of n bound]
  by (cases "to_decimal n") (auto simp: parse_decimal_def)

lemma length_to_decimal: "length (to_decimal n) = 1 \<longleftrightarrow> n < 10"
  by (subst to_decimal.simps) simp

lemma to_decimal_parse_digits:
  assumes "parse_digits bound acc cs = Some n" "0 < acc"
  shows "to_decimal n = to_decimal acc @ cs"
  using assms
proof (induction cs arbitrary: acc)
  case (Cons c cs)
  then have c: "is_ascii_digit c" and IH: "to_decimal n = to_decimal (acc * 10 + digit_value c) @ cs"
    by (auto split: if_splits)
  from digit_char_value [OF c] Cons.prems(2)
  have "to_decimal (acc * 10 + digit_value c) = to_decimal acc @ [c]"
    by (subst to_decimal.simps) simp
  with IH show ?case by simp
qed simp

lemma parse_canonical:
  assumes "s \<noteq> []" "length s > 1 \<longrightarrow> hd s \<noteq> CHR ''0''" "list_all is_ascii_digit s"
    and "parse_decimal bound s = Some n"
  shows "s = to_decimal n \<and> n < bound"
proof -
  obtain c cs where s: "s = c # cs" using assms(1) by (cases s) auto
  with assms(3) have c: "is_ascii_digit c" and cs: "list_all is_ascii_digit cs" by auto
  have "\<not> is_ascii_digit CHR ''+''" by code_simp
  with c s assms(4) have p: "parse_digits bound (digit_value c) cs = Some n" "digit_value c < bound"
    by (auto simp: parse_decimal_def split: if_splits)
  have bound: "parse_digits bound acc xs = Some n \<Longrightarrow> acc < bound \<Longrightarrow> n < bound" for acc xs
    by (induction xs arbitrary: acc) (auto split: if_splits)
  have "s = to_decimal n"
  proof (cases "digit_value c = 0")
    case True
    with digit_char_value [OF c] have "c = CHR ''0''" using digit_char_neq(2) [of 0] by auto
    with assms(2) s have "cs = []" by (cases cs) auto
    with p s True digit_char_value [OF c] show ?thesis by (subst to_decimal.simps) auto
  next
    case False
    with to_decimal_parse_digits [OF p(1)] digit_char_value [OF c] show ?thesis
      by (simp add: s to_decimal.simps [of "digit_value c"])
  qed
  with bound [OF p] show ?thesis by blast
qed

section \<open>Values\<close>

datatype protocol_value_error =
    InvalidWireIdentifier string
  | InvalidHex32
  | InvalidTransactionLength
  | InvalidTransactionEncoding
  | InvalidMessageLength
  | InvalidMessageEncoding
  | InvalidBip340Signature
  | TooManyAccountIds
  | ErrorMessageTooLong
  | SameEscrowRoles
  | ZeroEscrowAmount
  | InvalidNativeAmount
  | SameEscrowAccounts
  | ZeroSecretDigest
  | ZeroRefundAt
  | ZeroAuthenticatedTransferProgram
  | SameWitnessedClaimAccounts
  | ZeroAggregatePublicKey
  | ZeroWitnessedTokenTermsHash
  | ZeroWitnessedTokenIdentity string
  | AliasedWitnessedTokenIdentities string string
  | UnsupportedWitnessedLezAssetTermsVersion u16
  | InvalidWitnessedAssetPrepareEffects
  | WitnessedAssetFactsMismatch string
  | InvalidDiscoveryWindow
  | InvalidXmrRoleMapping
  | ZeroXmrValue string
  | AliasedXmrValues string string
  | InvalidXmrWindows
  | UnsupportedXmrNativeTermsVersion u16
  | XmrFactsMismatch string

type_synonym 'a value_result = "protocol_value_error + 'a"

record wire_codecs =
  hex_encode :: "bytes \<Rightarrow> string"
  hex_decode :: "string \<Rightarrow> bytes option"
  base64_encode :: "bytes \<Rightarrow> string"
  base64_decode :: "string \<Rightarrow> bytes option"

definition max_transaction_bytes :: nat where "max_transaction_bytes = 2000000"
definition max_account_ids :: nat where "max_account_ids = 16"
definition max_error_message_bytes :: nat where "max_error_message_bytes = 256"
definition max_discovery_blocks :: u32 where "max_discovery_blocks = 4096"
definition witnessed_lez_asset_terms_version :: u16 where "witnessed_lez_asset_terms_version = 2"

definition is_ascii_alphanumeric :: "char \<Rightarrow> bool" where
  "is_ascii_alphanumeric c \<longleftrightarrow> is_ascii_digit c \<or> is_ascii_lowercase c \<or>
     65 \<le> (of_char c :: nat) \<and> (of_char c :: nat) \<le> 90"

definition safe_identifier :: "string \<Rightarrow> bool" where
  "safe_identifier value \<longleftrightarrow> 8 \<le> length value \<and> length value \<le> 64 \<and>
     list_all (\<lambda>b. is_ascii_alphanumeric b \<or> b = CHR ''.'' \<or> b = CHR ''_'' \<or> b = CHR ''-'') value"

datatype run_id = RunId string
datatype request_id = RequestId string

definition run_id_new :: "string \<Rightarrow> run_id value_result" where
  "run_id_new value =
     (if safe_identifier value then Ok (RunId value) else Err (InvalidWireIdentifier ''run id''))"

definition request_id_new :: "string \<Rightarrow> request_id value_result" where
  "request_id_new value =
     (if safe_identifier value then Ok (RequestId value)
      else Err (InvalidWireIdentifier ''request id''))"

fun run_id_str :: "run_id \<Rightarrow> string" where
  "run_id_str (RunId s) = s"

fun request_id_str :: "request_id \<Rightarrow> string" where
  "request_id_str (RequestId s) = s"

lemma request_id_str_inject [simp]: "request_id_str a = request_id_str b \<longleftrightarrow> a = b"
  by (cases a; cases b) simp

record message_context =
  mc_run_id :: run_id
  mc_request_id :: request_id
  mc_sidecar_role :: participant

text \<open>\<open>Hex32\<close> is an array of 32 bytes.\<close>

type_synonym hex32 = bytes

definition is_wire_hexdigit :: "char \<Rightarrow> bool" where
  "is_wire_hexdigit c \<longleftrightarrow> is_ascii_digit c \<or> 97 \<le> (of_char c :: nat) \<and> (of_char c :: nat) \<le> 102"

definition decode_hex32 :: "wire_codecs \<Rightarrow> string \<Rightarrow> hex32 value_result" where
  "decode_hex32 w value =
     (if length value \<noteq> 64 \<or> \<not> list_all is_wire_hexdigit value then Err InvalidHex32
      else case hex_decode w value of
        Some b \<Rightarrow> if length b = 32 then Ok b else Err InvalidHex32
      | None \<Rightarrow> Err InvalidHex32)"

datatype transaction_id = TransactionId hex32

fun submission_request_id :: "wire_codecs \<Rightarrow> transaction_id \<Rightarrow> request_id" where
  "submission_request_id w (TransactionId h) = RequestId (hex_encode w h)"

definition exact_transaction_bytes_new :: "bytes \<Rightarrow> bytes value_result" where
  "exact_transaction_bytes_new b =
     (if b = [] \<or> length b > max_transaction_bytes then Err InvalidTransactionLength else Ok b)"

definition max_encoded_len :: nat where
  "max_encoded_len = (max_transaction_bytes + 2) div 3 * 4"

definition exact_transaction_bytes_deserialize :: "wire_codecs \<Rightarrow> string \<Rightarrow> bytes value_result" where
  "exact_transaction_bytes_deserialize w encoded =
     (if length encoded > max_encoded_len then Err InvalidTransactionLength
      else case base64_decode w encoded of
        None \<Rightarrow> Err InvalidTransactionEncoding
      | Some b \<Rightarrow>
          if base64_encode w b \<noteq> encoded then Err InvalidTransactionEncoding
          else exact_transaction_bytes_new b)"

definition exact_message_bytes_new :: "bytes \<Rightarrow> bytes value_result" where
  "exact_message_bytes_new b =
     (if b = [] \<or> length b > max_transaction_bytes then Err InvalidMessageLength else Ok b)"

definition exact_message_bytes_deserialize :: "wire_codecs \<Rightarrow> string \<Rightarrow> bytes value_result" where
  "exact_message_bytes_deserialize w encoded =
     (if length encoded > max_encoded_len then Err InvalidMessageLength
      else case base64_decode w encoded of
        None \<Rightarrow> Err InvalidMessageEncoding
      | Some b \<Rightarrow>
          if base64_encode w b \<noteq> encoded then Err InvalidMessageEncoding
          else exact_message_bytes_new b)"

definition aggregate_signature_deserialize :: "wire_codecs \<Rightarrow> string \<Rightarrow> bytes value_result" where
  "aggregate_signature_deserialize w encoded =
     (if length encoded \<noteq> 128 \<or> \<not> list_all is_wire_hexdigit encoded then Err InvalidBip340Signature
      else case hex_decode w encoded of
        Some b \<Rightarrow> if length b = 64 then Ok b else Err InvalidBip340Signature
      | None \<Rightarrow> Err InvalidBip340Signature)"

definition account_ids_new :: "hex32 list \<Rightarrow> hex32 list value_result" where
  "account_ids_new ids = (if length ids > max_account_ids then Err TooManyAccountIds else Ok ids)"

definition error_message_new :: "string \<Rightarrow> string value_result" where
  "error_message_new value =
     (if length value \<le> max_error_message_bytes then Ok value else Err ErrorMessageTooLong)"

datatype native_amount = NativeAmount (as_u128: u128)

fun native_amount_serialize :: "native_amount \<Rightarrow> string" where
  "native_amount_serialize (NativeAmount v) = to_decimal (unat v)"

definition native_amount_deserialize :: "string \<Rightarrow> native_amount value_result" where
  "native_amount_deserialize encoded =
     (if encoded = [] \<or> length encoded > 1 \<and> hd encoded = CHR ''0'' \<or>
         \<not> list_all is_ascii_digit encoded
      then Err InvalidNativeAmount
      else case parse_decimal (2 ^ 128) encoded of
        Some v \<Rightarrow> Ok (NativeAmount (word_of_nat v))
      | None \<Rightarrow> Err InvalidNativeAmount)"

record discovery_window =
  dw_start_height :: u64
  dw_max_blocks :: u32

definition saturating_pred :: "u32 \<Rightarrow> u32" where
  "saturating_pred v = (if v = 0 then 0 else v - 1)"

definition discovery_window_new :: "u64 \<Rightarrow> u32 \<Rightarrow> discovery_window value_result" where
  "discovery_window_new start_height max_blocks =
     (if max_blocks = 0 \<or> max_blocks > max_discovery_blocks \<or>
         checked_add start_height (ucast (saturating_pred max_blocks)) = None
      then Err InvalidDiscoveryWindow
      else Ok \<lparr>dw_start_height = start_height, dw_max_blocks = max_blocks\<rparr>)"

record chain_clock =
  cc_block_hash :: hex32
  cc_height :: u64
  cc_timestamp_ms :: u64

record bridge_position =
  bp_block_hash :: hex32
  bp_height :: u64
  bp_transaction_index :: u32

lemma unat_ucast_u64: "unat (ucast (x :: u32) :: u64) = unat x"
proof -
  have "unat x < 2 ^ 32" using unsigned_less [of x, where 'a = nat] by simp
  then show ?thesis by (simp add: unsigned_ucast_eq take_bit_nat_eq_self_iff)
qed

lemma unat_saturating_pred: "unat (saturating_pred m) = unat m - 1"
  by (cases "m = 0") (auto simp: saturating_pred_def unat_minus_one)

lemma discovery_window_new_Ok:
  "discovery_window_new s m = Ok w \<longleftrightarrow>
     w = \<lparr>dw_start_height = s, dw_max_blocks = m\<rparr> \<and> 0 < unat m \<and> unat m \<le> 4096 \<and>
     unat s + (unat m - 1) < 2 ^ 64"
proof -
  have "m > max_discovery_blocks \<longleftrightarrow> unat m > 4096"
    by (simp add: max_discovery_blocks_def word_less_nat_alt)
  moreover have "m = 0 \<longleftrightarrow> \<not> 0 < unat m" by (simp add: unat_eq_zero)
  ultimately show ?thesis
    by (auto simp: discovery_window_new_def checked_add_def unat_ucast_u64 unat_saturating_pred)
qed

section \<open>Terms\<close>

record native_escrow_terms_input =
  nt_swap_id :: hex32
  nt_terms_hash :: hex32
  nt_secret_digest :: hex32
  nt_depositor :: participant
  nt_depositor_account_id :: hex32
  nt_claimant :: participant
  nt_claimant_account_id :: hex32
  nt_amount :: u128
  nt_refund_at_ms :: u64
  nt_authenticated_transfer_program_id :: hex32

text \<open>The validated terms hold the same fields, so a terms value is an accepted input.\<close>

definition native_escrow_terms_new ::
    "native_escrow_terms_input \<Rightarrow> native_escrow_terms_input value_result" where
  "native_escrow_terms_new i =
     (if nt_depositor i = nt_claimant i then Err SameEscrowRoles
      else if nt_depositor_account_id i = nt_claimant_account_id i then Err SameEscrowAccounts
      else if nt_amount i = 0 then Err ZeroEscrowAmount
      else if nt_secret_digest i = zero32 then Err ZeroSecretDigest
      else if nt_refund_at_ms i = 0 then Err ZeroRefundAt
      else if nt_authenticated_transfer_program_id i = zero32
      then Err ZeroAuthenticatedTransferProgram
      else Ok i)"

record witnessed_native_terms_input =
  wn_swap_id :: hex32
  wn_terms_hash :: hex32
  wn_depositor :: participant
  wn_depositor_account_id :: hex32
  wn_claimant :: participant
  wn_claimant_account_id :: hex32
  wn_aggregate_authority_account_id :: hex32
  wn_aggregate_x_only_public_key :: hex32
  wn_amount :: u128
  wn_refund_at_ms :: u64
  wn_authenticated_transfer_program_id :: hex32

definition witnessed_native_terms_new ::
    "witnessed_native_terms_input \<Rightarrow> witnessed_native_terms_input value_result" where
  "witnessed_native_terms_new i =
     (if wn_depositor i = wn_claimant i then Err SameEscrowRoles
      else if wn_depositor_account_id i = wn_claimant_account_id i then Err SameEscrowAccounts
      else if wn_claimant_account_id i = wn_aggregate_authority_account_id i \<or>
              wn_depositor_account_id i = wn_aggregate_authority_account_id i
      then Err SameWitnessedClaimAccounts
      else if wn_aggregate_x_only_public_key i = zero32 then Err ZeroAggregatePublicKey
      else if wn_amount i = 0 then Err ZeroEscrowAmount
      else if wn_refund_at_ms i = 0 then Err ZeroRefundAt
      else if wn_authenticated_transfer_program_id i = zero32
      then Err ZeroAuthenticatedTransferProgram
      else Ok i)"

record witnessed_token_terms_input =
  wt_swap_id :: hex32
  wt_terms_hash :: hex32
  wt_depositor :: participant
  wt_depositor_owner_account_id :: hex32
  wt_depositor_ata_account_id :: hex32
  wt_claimant :: participant
  wt_claimant_owner_account_id :: hex32
  wt_claimant_ata_account_id :: hex32
  wt_custody_ata_account_id :: hex32
  wt_token_program_id :: hex32
  wt_ata_program_id :: hex32
  wt_token_definition_account_id :: hex32
  wt_aggregate_authority_account_id :: hex32
  wt_aggregate_x_only_public_key :: hex32
  wt_amount :: u128
  wt_refund_at_ms :: u64

definition token_identities :: "witnessed_token_terms_input \<Rightarrow> (string \<times> hex32) list" where
  "token_identities i =
     [(''token program id'', wt_token_program_id i), (''ATA program id'', wt_ata_program_id i),
      (''token definition account id'', wt_token_definition_account_id i),
      (''depositor owner account id'', wt_depositor_owner_account_id i),
      (''depositor ATA account id'', wt_depositor_ata_account_id i),
      (''claimant owner account id'', wt_claimant_owner_account_id i),
      (''claimant ATA account id'', wt_claimant_ata_account_id i),
      (''custody ATA account id'', wt_custody_ata_account_id i),
      (''aggregate authority account id'', wt_aggregate_authority_account_id i)]"

fun check_alias :: "string \<Rightarrow> hex32 \<Rightarrow> (string \<times> hex32) list \<Rightarrow> unit value_result" where
  "check_alias name identity [] = Ok ()"
| "check_alias name identity ((other_name, other_identity) # rest) =
     (if identity = other_identity then Err (AliasedWitnessedTokenIdentities name other_name)
      else check_alias name identity rest)"

fun check_identities :: "(string \<times> hex32) list \<Rightarrow> unit value_result" where
  "check_identities [] = Ok ()"
| "check_identities ((name, identity) # rest) =
     (if identity = zero32 then Err (ZeroWitnessedTokenIdentity name)
      else and_then (check_alias name identity rest) (\<lambda>_. check_identities rest))"

definition witnessed_token_terms_new ::
    "witnessed_token_terms_input \<Rightarrow> witnessed_token_terms_input value_result" where
  "witnessed_token_terms_new i =
     (if wt_depositor i = wt_claimant i then Err SameEscrowRoles
      else if wt_terms_hash i = zero32 then Err ZeroWitnessedTokenTermsHash
      else if wt_aggregate_x_only_public_key i = zero32 then Err ZeroAggregatePublicKey
      else if wt_amount i = 0 then Err ZeroEscrowAmount
      else if wt_refund_at_ms i = 0 then Err ZeroRefundAt
      else and_then (check_identities (token_identities i)) (\<lambda>_. Ok i))"

datatype witnessed_lez_asset =
    Asset_Native witnessed_native_terms_input
  | Asset_CustomToken witnessed_token_terms_input

record witnessed_lez_asset_terms =
  at_asset_terms_version :: u16
  at_asset :: witnessed_lez_asset

definition asset_terms_native :: "witnessed_native_terms_input \<Rightarrow> witnessed_lez_asset_terms" where
  "asset_terms_native terms =
     \<lparr>at_asset_terms_version = witnessed_lez_asset_terms_version, at_asset = Asset_Native terms\<rparr>"

definition asset_terms_custom_token :: "witnessed_token_terms_input \<Rightarrow> witnessed_lez_asset_terms" where
  "asset_terms_custom_token terms =
     \<lparr>at_asset_terms_version = witnessed_lez_asset_terms_version,
      at_asset = Asset_CustomToken terms\<rparr>"

definition asset_terms_try_from ::
    "witnessed_lez_asset_terms \<Rightarrow> witnessed_lez_asset_terms value_result" where
  "asset_terms_try_from v =
     (if at_asset_terms_version v \<noteq> witnessed_lez_asset_terms_version
      then Err (UnsupportedWitnessedLezAssetTermsVersion (at_asset_terms_version v)) else Ok v)"

end
