(* ===== verification/Bridge_Xmr.thy ===== *)
theory Bridge_Xmr
  imports Bridge_Protocol
begin

text \<open>
  The version-3 Monero escrow messages of the bridge protocol
  (\<open>crates/lez-bridge-protocol/src/xmr_v3.rs\<close>): the agreement terms, the facts a sidecar
  reports about a finalized effect, and the validation a classification result has to pass
  on both sides of the wire. A terms value is an accepted input; its wire form adds the
  version.
\<close>

named_theorems fact_defs \<open>definitions of the checks on finalized facts\<close>

section \<open>Messages\<close>

datatype runtime_compatibility = NssaV0_1_2 | LeeV0_2_0

record runtime_descriptor =
  rd_sidecar_role :: participant
  rd_compatibility :: runtime_compatibility
  rd_chain_id :: hex32
  rd_channel_id :: hex32
  rd_genesis_block_hash :: hex32
  rd_escrow_program_id :: hex32
  rd_signer_account_id :: hex32

record prepared_transaction =
  pt_transaction_id :: transaction_id
  pt_exact_bytes :: bytes

record observed_transaction_facts =
  ot_transaction_id :: transaction_id
  ot_exact_bytes :: bytes
  ot_position :: bridge_position
  ot_signer_account_ids :: "hex32 list"
  ot_is_public :: bool

record native_custody_facts =
  nc_account_id :: hex32
  nc_owner_program_id :: hex32
  nc_balance :: native_amount

definition native_custody_facts_new :: "hex32 \<Rightarrow> hex32 \<Rightarrow> u128 \<Rightarrow> native_custody_facts" where
  "native_custody_facts_new account_id owner balance =
     \<lparr>nc_account_id = account_id, nc_owner_program_id = owner, nc_balance = NativeAmount balance\<rparr>"

record finalized_block_identity =
  fb_block_id :: u64
  fb_block_hash :: hex32
  fb_timestamp_ms :: u64

section \<open>Terms\<close>

definition xmr_native_escrow_terms_version :: u16 where
  "xmr_native_escrow_terms_version = 3"

record xmr_terms =
  xt_swap_id :: hex32
  xt_activation_commitment :: hex32
  xt_escrow_program_id :: hex32
  xt_authenticated_transfer_program_id :: hex32
  xt_metadata_account_id :: hex32
  xt_custody_account_id :: hex32
  xt_depositor :: participant
  xt_depositor_account_id :: hex32
  xt_claimant :: participant
  xt_claimant_account_id :: hex32
  xt_claim_aggregate_x_only_public_key :: hex32
  xt_claim_authority_account_id :: hex32
  xt_refund_aggregate_x_only_public_key :: hex32
  xt_refund_authority_account_id :: hex32
  xt_maker_dleq_transcript_commitment :: hex32
  xt_taker_dleq_transcript_commitment :: hex32
  xt_claim_partial_context_binding :: hex32
  xt_claim_partial_commitment :: hex32
  xt_amount :: u128
  xt_refund_at_ms :: u64
  xt_punish_at_ms :: u64
  xt_claim_message_hash :: hex32
  xt_refund_message_hash :: hex32
  xt_punish_message_hash :: hex32

fun validate_nonzero :: "(string \<times> hex32) list \<Rightarrow> unit value_result" where
  "validate_nonzero [] = Ok ()"
| "validate_nonzero ((name, value) # rest) =
     (if value = zero32 then Err (ZeroXmrValue name) else validate_nonzero rest)"

definition ensure_fact :: "bool \<Rightarrow> string \<Rightarrow> unit value_result" where
  "ensure_fact condition field = (if condition then Ok () else Err (XmrFactsMismatch field))"

definition ensure_distinct :: "string \<times> hex32 \<Rightarrow> string \<times> hex32 \<Rightarrow> unit value_result" where
  "ensure_distinct left right =
     (if snd left = snd right then Err (AliasedXmrValues (fst left) (fst right)) else Ok ())"

fun ensure_distinct_from :: "string \<times> hex32 \<Rightarrow> (string \<times> hex32) list \<Rightarrow> unit value_result" where
  "ensure_distinct_from left [] = Ok ()"
| "ensure_distinct_from left (right # rest) =
     and_then (ensure_distinct left right) (\<lambda>_. ensure_distinct_from left rest)"

fun ensure_all_distinct :: "(string \<times> hex32) list \<Rightarrow> unit value_result" where
  "ensure_all_distinct [] = Ok ()"
| "ensure_all_distinct (left # rest) =
     and_then (ensure_distinct_from left rest) (\<lambda>_. ensure_all_distinct rest)"

definition validate_distinct_nonzero :: "(string \<times> hex32) list \<Rightarrow> unit value_result" where
  "validate_distinct_nonzero values =
     and_then (validate_nonzero values) (\<lambda>_. ensure_all_distinct values)"

definition terms_identities :: "xmr_terms \<Rightarrow> (string \<times> hex32) list" where
  "terms_identities t =
     [(''escrow program id'', xt_escrow_program_id t),
      (''authenticated-transfer program id'', xt_authenticated_transfer_program_id t),
      (''metadata account id'', xt_metadata_account_id t),
      (''custody account id'', xt_custody_account_id t),
      (''depositor account id'', xt_depositor_account_id t),
      (''claimant account id'', xt_claimant_account_id t),
      (''claim authority account id'', xt_claim_authority_account_id t),
      (''refund authority account id'', xt_refund_authority_account_id t)]"

definition terms_message_hashes :: "xmr_terms \<Rightarrow> (string \<times> hex32) list" where
  "terms_message_hashes t =
     [(''claim message hash'', xt_claim_message_hash t),
      (''refund message hash'', xt_refund_message_hash t),
      (''punish message hash'', xt_punish_message_hash t)]"

definition terms_values :: "xmr_terms \<Rightarrow> (string \<times> hex32) list" where
  "terms_values t =
     [(''swap id'', xt_swap_id t),
      (''activation commitment'', xt_activation_commitment t),
      (''claim aggregate x-only public key'', xt_claim_aggregate_x_only_public_key t),
      (''refund aggregate x-only public key'', xt_refund_aggregate_x_only_public_key t),
      (''maker DLEQ transcript commitment'', xt_maker_dleq_transcript_commitment t),
      (''taker DLEQ transcript commitment'', xt_taker_dleq_transcript_commitment t),
      (''claim partial context binding'', xt_claim_partial_context_binding t),
      (''claim partial commitment'', xt_claim_partial_commitment t)] @ terms_message_hashes t"

definition validate_terms_input :: "xmr_terms \<Rightarrow> unit value_result" where
  "validate_terms_input t =
     (if xt_depositor t \<noteq> Taker \<or> xt_claimant t \<noteq> Maker then Err InvalidXmrRoleMapping
      else if xt_amount t = 0 then Err ZeroEscrowAmount
      else if xt_refund_at_ms t = 0 \<or> xt_punish_at_ms t \<le> xt_refund_at_ms t
      then Err InvalidXmrWindows
      else
        and_then (validate_distinct_nonzero (terms_identities t)) (\<lambda>_.
        and_then (validate_nonzero (terms_values t)) (\<lambda>_.
        and_then (ensure_distinct
            (''claim aggregate x-only public key'', xt_claim_aggregate_x_only_public_key t)
            (''refund aggregate x-only public key'', xt_refund_aggregate_x_only_public_key t)) (\<lambda>_.
        and_then (ensure_distinct
            (''maker DLEQ transcript commitment'', xt_maker_dleq_transcript_commitment t)
            (''taker DLEQ transcript commitment'', xt_taker_dleq_transcript_commitment t)) (\<lambda>_.
          validate_distinct_nonzero (terms_message_hashes t))))))"

definition xmr_terms_new :: "xmr_terms \<Rightarrow> xmr_terms value_result" where
  "xmr_terms_new t = and_then (validate_terms_input t) (\<lambda>_. Ok t)"

definition xmr_terms_try_from :: "u16 \<Rightarrow> xmr_terms \<Rightarrow> xmr_terms value_result" where
  "xmr_terms_try_from version t =
     (if version \<noteq> xmr_native_escrow_terms_version
      then Err (UnsupportedXmrNativeTermsVersion version) else xmr_terms_new t)"

definition validate_runtime_binding ::
    "xmr_terms \<Rightarrow> message_context \<Rightarrow> runtime_descriptor \<Rightarrow> unit value_result" where
  "validate_runtime_binding t context runtime =
     and_then (ensure_fact (rd_compatibility runtime = LeeV0_2_0) ''runtime compatibility'') (\<lambda>_.
     and_then (ensure_fact (mc_sidecar_role context = rd_sidecar_role runtime)
                 ''runtime sidecar role'') (\<lambda>_.
     and_then (ensure_fact (rd_escrow_program_id runtime = xt_escrow_program_id t)
                 ''runtime escrow program'') (\<lambda>_.
       ensure_fact
         (rd_signer_account_id runtime =
            (case rd_sidecar_role runtime of
               Maker \<Rightarrow> xt_claimant_account_id t | Taker \<Rightarrow> xt_depositor_account_id t))
         ''runtime signer account'')))"

definition xmr_claim_partial_new :: "bytes \<Rightarrow> bytes value_result" where
  "xmr_claim_partial_new b = (if b = zero32 then Err (ZeroXmrValue ''claim partial'') else Ok b)"

record prepared_witnessed_claim =
  pw_preparation_request_id :: request_id
  pw_message_hash :: hex32
  pw_exact_message_bytes :: bytes

text \<open>The four constructors bound to a message hash of the terms.\<close>

definition prepare_xmr_claim_result_new ::
    "xmr_terms \<Rightarrow> prepared_witnessed_claim \<Rightarrow> prepared_witnessed_claim value_result" where
  "prepare_xmr_claim_result_new t claim =
     and_then (ensure_fact (pw_message_hash claim = xt_claim_message_hash t)
       ''prepared claim message hash'') (\<lambda>_. Ok claim)"

definition prepare_xmr_refund_result_new ::
    "xmr_terms \<Rightarrow> prepared_witnessed_claim \<Rightarrow> prepared_witnessed_claim value_result" where
  "prepare_xmr_refund_result_new t refund =
     and_then (ensure_fact (pw_message_hash refund = xt_refund_message_hash t)
       ''prepared refund message hash'') (\<lambda>_. Ok refund)"

definition complete_xmr_claim_request_new ::
    "xmr_terms \<Rightarrow> prepared_witnessed_claim \<Rightarrow> prepared_witnessed_claim value_result" where
  "complete_xmr_claim_request_new t claim =
     and_then (ensure_fact (pw_message_hash claim = xt_claim_message_hash t)
       ''completed claim message hash'') (\<lambda>_. Ok claim)"

definition complete_xmr_refund_request_new ::
    "xmr_terms \<Rightarrow> prepared_witnessed_claim \<Rightarrow> prepared_witnessed_claim value_result" where
  "complete_xmr_refund_request_new t refund =
     and_then (ensure_fact (pw_message_hash refund = xt_refund_message_hash t)
       ''completed refund message hash'') (\<lambda>_. Ok refund)"

section \<open>Effects and their facts\<close>

datatype xmr_native_effect =
    Effect_Initialize
  | Effect_Fund
  | Effect_AuthorizeClaim
  | Effect_Claim
  | Effect_Refund
  | Effect_Punish

datatype xmr_native_escrow_state =
    Xs_Empty
  | Xs_Funded
  | Xs_ClaimAuthorized
  | Xs_Claimed
  | Xs_Refunded

record xmr_instruction_facts =
  xi_effect :: xmr_native_effect
  xi_program_id :: hex32
  xi_ordered_account_ids :: "hex32 list"
  xi_swap_id :: hex32
  xi_message_hash :: hex32
  xi_published_claim_partial :: "hex32 option"

definition xmr_instruction_facts_new ::
    "xmr_native_effect \<Rightarrow> hex32 \<Rightarrow> hex32 list \<Rightarrow> hex32 \<Rightarrow> hex32 \<Rightarrow> hex32 option
     \<Rightarrow> xmr_instruction_facts value_result" where
  "xmr_instruction_facts_new effect program_id accounts swap_id message_hash partial =
     and_then (validate_nonzero
       [(''instruction program id'', program_id), (''instruction swap id'', swap_id),
        (''instruction message hash'', message_hash)]) (\<lambda>_.
     and_then (ensure_fact (accounts \<noteq> []) ''empty instruction accounts'') (\<lambda>_.
     and_then
       (case (effect = Effect_AuthorizeClaim, partial) of
          (True, Some p) \<Rightarrow> validate_nonzero [(''published claim partial'', p)]
        | (True, None) \<Rightarrow> Err (XmrFactsMismatch ''missing published claim partial'')
        | (False, Some _) \<Rightarrow> Err (XmrFactsMismatch ''unexpected published claim partial'')
        | (False, None) \<Rightarrow> Ok ()) (\<lambda>_.
       Ok \<lparr>xi_effect = effect, xi_program_id = program_id, xi_ordered_account_ids = accounts,
           xi_swap_id = swap_id, xi_message_hash = message_hash,
           xi_published_claim_partial = partial\<rparr>)))"

record xmr_metadata_facts =
  xm_account_id :: hex32
  xm_owner_program_id :: hex32
  xm_version :: u16
  xm_swap_id :: hex32
  xm_activation_commitment :: hex32
  xm_claim_aggregate_x_only_public_key :: hex32
  xm_claim_authority_account_id :: hex32
  xm_refund_aggregate_x_only_public_key :: hex32
  xm_refund_authority_account_id :: hex32
  xm_maker_dleq_transcript_commitment :: hex32
  xm_taker_dleq_transcript_commitment :: hex32
  xm_claim_partial_context_binding :: hex32
  xm_claim_partial_commitment :: hex32
  xm_depositor_account_id :: hex32
  xm_depositor_asset_account_id :: hex32
  xm_claimant_account_id :: hex32
  xm_claimant_asset_account_id :: hex32
  xm_custody_account_id :: hex32
  xm_asset_program_id :: hex32
  xm_custody_program_id :: hex32
  xm_asset_definition :: hex32
  xm_amount :: native_amount
  xm_refund_at_ms :: u64
  xm_punish_at_ms :: u64
  xm_state :: xmr_native_escrow_state

definition metadata_from_terms :: "xmr_terms \<Rightarrow> xmr_native_escrow_state \<Rightarrow> xmr_metadata_facts" where
  "metadata_from_terms t state =
     \<lparr>xm_account_id = xt_metadata_account_id t, xm_owner_program_id = xt_escrow_program_id t,
      xm_version = xmr_native_escrow_terms_version, xm_swap_id = xt_swap_id t,
      xm_activation_commitment = xt_activation_commitment t,
      xm_claim_aggregate_x_only_public_key = xt_claim_aggregate_x_only_public_key t,
      xm_claim_authority_account_id = xt_claim_authority_account_id t,
      xm_refund_aggregate_x_only_public_key = xt_refund_aggregate_x_only_public_key t,
      xm_refund_authority_account_id = xt_refund_authority_account_id t,
      xm_maker_dleq_transcript_commitment = xt_maker_dleq_transcript_commitment t,
      xm_taker_dleq_transcript_commitment = xt_taker_dleq_transcript_commitment t,
      xm_claim_partial_context_binding = xt_claim_partial_context_binding t,
      xm_claim_partial_commitment = xt_claim_partial_commitment t,
      xm_depositor_account_id = xt_depositor_account_id t,
      xm_depositor_asset_account_id = xt_depositor_account_id t,
      xm_claimant_account_id = xt_claimant_account_id t,
      xm_claimant_asset_account_id = xt_claimant_account_id t,
      xm_custody_account_id = xt_custody_account_id t,
      xm_asset_program_id = xt_authenticated_transfer_program_id t,
      xm_custody_program_id = xt_authenticated_transfer_program_id t,
      xm_asset_definition = zero32, xm_amount = NativeAmount (xt_amount t),
      xm_refund_at_ms = xt_refund_at_ms t, xm_punish_at_ms = xt_punish_at_ms t,
      xm_state = state\<rparr>"

record xmr_effect_facts =
  xf_transaction :: observed_transaction_facts
  xf_instruction :: xmr_instruction_facts
  xf_aggregate_signature :: "bytes option"
  xf_containing_block :: finalized_block_identity
  xf_metadata :: xmr_metadata_facts
  xf_custody :: native_custody_facts

datatype xmr_transaction_target =
    Target_Exact prepared_transaction
  | Target_DiscoverByTerms

datatype xmr_unavailable_reason =
    Reason_MovingTip
  | Reason_FinalityUnavailable
  | Reason_HistoryUnavailable
  | Reason_ConflictingMatches

datatype xmr_scan_outcome =
    Scan_Found chain_clock discovery_window xmr_effect_facts
  | Scan_Absent chain_clock discovery_window
  | Scan_Uncertain chain_clock discovery_window
  | Scan_Unavailable xmr_unavailable_reason

section \<open>Validation of a classification\<close>

text \<open>The last height of a window. The sum is a plain addition in the code.\<close>

definition window_end :: "discovery_window \<Rightarrow> u64" where
  "window_end w = dw_start_height w + ucast (saturating_pred (dw_max_blocks w))"

definition validate_scan_coverage :: "chain_clock \<Rightarrow> discovery_window \<Rightarrow> unit value_result" where
  [fact_defs]: "validate_scan_coverage clock w =
     ensure_fact (cc_height clock \<ge> window_end w) ''finalized window coverage''"

definition validate_finalized_placement ::
    "xmr_transaction_target \<Rightarrow> chain_clock \<Rightarrow> discovery_window \<Rightarrow> xmr_effect_facts
     \<Rightarrow> unit value_result" where
  [fact_defs]: "validate_finalized_placement target clock w facts =
     and_then (validate_scan_coverage clock w) (\<lambda>_.
     let tx = xf_transaction facts; pos = ot_position tx; block = xf_containing_block facts in
     and_then (ensure_fact (ot_is_public tx) ''public transaction'') (\<lambda>_.
     and_then (ensure_fact (dw_start_height w \<le> bp_height pos \<and> bp_height pos \<le> window_end w)
                 ''transaction scan window'') (\<lambda>_.
     and_then (ensure_fact (bp_block_hash pos = fb_block_hash block) ''containing block hash'') (\<lambda>_.
     and_then (ensure_fact (bp_height pos = fb_block_id block) ''containing block id'') (\<lambda>_.
     and_then (ensure_fact
         (bp_height pos \<le> cc_height clock \<and> fb_timestamp_ms block \<le> cc_timestamp_ms clock)
         ''finalized transaction placement'') (\<lambda>_.
       case target of
         Target_Exact expected \<Rightarrow>
           and_then (ensure_fact (ot_transaction_id tx = pt_transaction_id expected)
                       ''exact transaction id'') (\<lambda>_.
             ensure_fact (ot_exact_bytes tx = pt_exact_bytes expected) ''exact transaction bytes'')
       | Target_DiscoverByTerms \<Rightarrow> Ok ()))))))"

fun effect_accounts :: "xmr_terms \<Rightarrow> xmr_native_effect \<Rightarrow> hex32 list" where
  "effect_accounts t Effect_Initialize =
     [xt_metadata_account_id t, xt_custody_account_id t, xt_depositor_account_id t,
      xt_claimant_account_id t, xt_claim_authority_account_id t, xt_refund_authority_account_id t]"
| "effect_accounts t Effect_Fund =
     [xt_metadata_account_id t, xt_custody_account_id t, xt_depositor_account_id t]"
| "effect_accounts t Effect_AuthorizeClaim =
     [xt_metadata_account_id t, xt_depositor_account_id t]"
| "effect_accounts t Effect_Claim =
     [xt_metadata_account_id t, xt_custody_account_id t, xt_claimant_account_id t,
      xt_claim_authority_account_id t]"
| "effect_accounts t Effect_Refund =
     [xt_metadata_account_id t, xt_custody_account_id t, xt_depositor_account_id t,
      xt_refund_authority_account_id t]"
| "effect_accounts t Effect_Punish =
     [xt_metadata_account_id t, xt_custody_account_id t, xt_claimant_account_id t]"

fun effect_signer :: "xmr_terms \<Rightarrow> xmr_native_effect \<Rightarrow> hex32" where
  "effect_signer t Effect_Initialize = xt_depositor_account_id t"
| "effect_signer t Effect_Fund = xt_depositor_account_id t"
| "effect_signer t Effect_AuthorizeClaim = xt_depositor_account_id t"
| "effect_signer t Effect_Claim = xt_claim_authority_account_id t"
| "effect_signer t Effect_Refund = xt_refund_authority_account_id t"
| "effect_signer t Effect_Punish = xt_claimant_account_id t"

definition validate_effect_accounts ::
    "xmr_terms \<Rightarrow> xmr_native_effect \<Rightarrow> xmr_effect_facts \<Rightarrow> unit value_result" where
  [fact_defs]: "validate_effect_accounts t effect facts =
     and_then (ensure_fact (xi_ordered_account_ids (xf_instruction facts) = effect_accounts t effect)
                 ''instruction account order'') (\<lambda>_.
       ensure_fact (ot_signer_account_ids (xf_transaction facts) = [effect_signer t effect])
         ''transaction signer'')"

fun expected_message_hash :: "xmr_terms \<Rightarrow> xmr_native_effect \<Rightarrow> hex32 option" where
  "expected_message_hash t Effect_Claim = Some (xt_claim_message_hash t)"
| "expected_message_hash t Effect_Refund = Some (xt_refund_message_hash t)"
| "expected_message_hash t Effect_Punish = Some (xt_punish_message_hash t)"
| "expected_message_hash t _ = None"

fun effect_state :: "xmr_terms \<Rightarrow> xmr_native_effect \<Rightarrow> xmr_native_escrow_state \<times> u128" where
  "effect_state t Effect_Initialize = (Xs_Empty, 0)"
| "effect_state t Effect_Fund = (Xs_Funded, xt_amount t)"
| "effect_state t Effect_AuthorizeClaim = (Xs_ClaimAuthorized, xt_amount t)"
| "effect_state t Effect_Claim = (Xs_Claimed, 0)"
| "effect_state t Effect_Punish = (Xs_Claimed, 0)"
| "effect_state t Effect_Refund = (Xs_Refunded, 0)"

definition validate_finalized_facts ::
    "xmr_terms \<Rightarrow> xmr_native_effect \<Rightarrow> xmr_transaction_target \<Rightarrow> chain_clock \<Rightarrow> discovery_window
     \<Rightarrow> xmr_effect_facts \<Rightarrow> unit value_result" where
  [fact_defs]: "validate_finalized_facts t effect target clock w facts =
     (let ins = xf_instruction facts; time = fb_timestamp_ms (xf_containing_block facts) in
     and_then (validate_finalized_placement target clock w facts) (\<lambda>_.
     and_then (if effect = Effect_Refund
               then ensure_fact (xt_refund_at_ms t \<le> time \<and> time < xt_punish_at_ms t)
                      ''refund timestamp''
               else Ok ()) (\<lambda>_.
     and_then (if effect = Effect_Punish
               then ensure_fact (time \<ge> xt_punish_at_ms t) ''punish timestamp''
               else Ok ()) (\<lambda>_.
     and_then (ensure_fact (xi_effect ins = effect) ''instruction effect'') (\<lambda>_.
     and_then (validate_nonzero
       [(''instruction program id'', xi_program_id ins), (''instruction swap id'', xi_swap_id ins),
        (''instruction message hash'', xi_message_hash ins)]) (\<lambda>_.
     and_then (ensure_fact (xi_program_id ins = xt_escrow_program_id t) ''instruction program'') (\<lambda>_.
     and_then (ensure_fact (xi_swap_id ins = xt_swap_id t) ''instruction swap id'') (\<lambda>_.
     and_then (validate_effect_accounts t effect facts) (\<lambda>_.
     and_then
       (if effect = Effect_AuthorizeClaim
        then case xi_published_claim_partial ins of
               None \<Rightarrow> Err (XmrFactsMismatch ''missing published claim partial'')
             | Some p \<Rightarrow> validate_nonzero [(''published claim partial'', p)]
        else ensure_fact (xi_published_claim_partial ins = None)
               ''unexpected published claim partial'') (\<lambda>_.
     and_then
       (case expected_message_hash t effect of
          None \<Rightarrow> Ok ()
        | Some h \<Rightarrow> ensure_fact (xi_message_hash ins = h) ''agreement message hash'') (\<lambda>_.
     and_then
       (if effect \<in> {Effect_Claim, Effect_Refund}
        then ensure_fact (xf_aggregate_signature facts \<noteq> None) ''missing aggregate signature''
        else ensure_fact (xf_aggregate_signature facts = None) ''unexpected aggregate signature'') (\<lambda>_.
     and_then (ensure_fact (xf_metadata facts = metadata_from_terms t (fst (effect_state t effect)))
                 ''version-3 metadata'') (\<lambda>_.
       ensure_fact
         (xf_custody facts = native_custody_facts_new (xt_custody_account_id t)
            (xt_authenticated_transfer_program_id t) (snd (effect_state t effect)))
         ''native custody'')))))))))))))"

record xmr_classification =
  xc_context :: message_context
  xc_terms :: xmr_terms
  xc_effect :: xmr_native_effect
  xc_target :: xmr_transaction_target
  xc_outcome :: xmr_scan_outcome

definition xmr_classification_new ::
    "message_context \<Rightarrow> xmr_terms \<Rightarrow> xmr_native_effect \<Rightarrow> xmr_transaction_target
     \<Rightarrow> xmr_scan_outcome \<Rightarrow> xmr_classification value_result" where
  "xmr_classification_new context t effect target outcome =
     and_then
       (case outcome of
          Scan_Found clock w facts \<Rightarrow> validate_finalized_facts t effect target clock w facts
        | Scan_Absent clock w \<Rightarrow> validate_scan_coverage clock w
        | Scan_Uncertain clock w \<Rightarrow> validate_scan_coverage clock w
        | Scan_Unavailable _ \<Rightarrow> Ok ()) (\<lambda>_.
       Ok \<lparr>xc_context = context, xc_terms = t, xc_effect = effect, xc_target = target,
           xc_outcome = outcome\<rparr>)"

section \<open>Accepted terms and windows\<close>

lemma ensure_fact_Ok [simp]: "ensure_fact c f = Ok u \<longleftrightarrow> c"
  by (simp add: ensure_fact_def)

lemma validate_nonzero_Ok: "validate_nonzero vs = Ok u \<longleftrightarrow> zero32 \<notin> snd ` set vs"
  by (induction vs rule: validate_nonzero.induct) auto

lemma ensure_distinct_Ok [simp]: "ensure_distinct a b = Ok u \<longleftrightarrow> snd a \<noteq> snd b"
  by (simp add: ensure_distinct_def)

lemma ensure_distinct_from_Ok: "ensure_distinct_from a vs = Ok u \<longleftrightarrow> snd a \<notin> snd ` set vs"
  by (induction vs) (auto simp: and_then_Inr)

lemma ensure_all_distinct_Ok: "ensure_all_distinct vs = Ok u \<longleftrightarrow> distinct (map snd vs)"
  by (induction vs) (auto simp: and_then_Inr ensure_distinct_from_Ok)

lemma validate_distinct_nonzero_Ok:
  "validate_distinct_nonzero vs = Ok u \<longleftrightarrow> zero32 \<notin> snd ` set vs \<and> distinct (map snd vs)"
  by (simp add: validate_distinct_nonzero_def and_then_Inr validate_nonzero_Ok ensure_all_distinct_Ok)

text \<open>The end of an accepted window does not wrap around.\<close>

lemma unat_window_end:
  assumes "discovery_window_new s m = Ok w"
  shows "unat (window_end w) = unat (dw_start_height w) + (unat (dw_max_blocks w) - 1)"
  using assms by (auto simp: discovery_window_new_Ok window_end_def unat_word_ariths unat_ucast_u64
      unat_saturating_pred)

end
