(* ===== verification/Bridge_Properties.thy ===== *)
theory Bridge_Properties
  imports Bridge_Xmr
begin

text \<open>
  Exactness of the bridge protocol's value codecs: amounts, and the checks that make the
  identities of an agreement pairwise different.
\<close>

text \<open>
  An amount on the wire is read exactly when it is the canonical decimal of a 128-bit
  value, and is then that value: no other spelling, sign, leading zero or overflowing number
  is accepted, and every amount written is read back.
\<close>

theorem native_amount_decoding_exact:
  "native_amount_deserialize s = Ok a \<longleftrightarrow> s = native_amount_serialize a"
proof
  assume ok: "native_amount_deserialize s = Ok a"
  then obtain v where v: "parse_decimal (2 ^ 128) s = Some v" and a: "a = NativeAmount (word_of_nat v)"
    and shape: "s \<noteq> []" "length s > 1 \<longrightarrow> hd s \<noteq> CHR ''0''" "list_all is_ascii_digit s"
    by (auto simp: native_amount_deserialize_def split: if_splits option.splits)
  from parse_canonical [OF shape v] have "s = to_decimal v" "v < 2 ^ 128" by auto
  then show "s = native_amount_serialize a" by (simp add: a unat_of_nat)
next
  assume s: "s = native_amount_serialize a"
  obtain w where a: "a = NativeAmount w" by (cases a)
  have "unat w < 2 ^ 128" using unsigned_less [of w, where 'a = nat] by simp
  moreover have "length (to_decimal (unat w)) > 1 \<longrightarrow> hd (to_decimal (unat w)) \<noteq> CHR ''0''"
    using to_decimal_hd(1) [of "unat w"] length_to_decimal [of "unat w"] by auto
  ultimately show "native_amount_deserialize s = Ok a"
    using to_decimal_digits [of "unat w"] by (simp add: native_amount_deserialize_def s a)
qed

end
