(* ===== verification/Sidecar_Xmr.thy ===== *)
theory Sidecar_Xmr
  imports Bridge_Xmr Escrow_Model
begin

text \<open>
  The sidecar's classifier of finalized Monero-escrow effects
  (\<open>compat/lez-v0_2-sidecar/src/finalized_xmr_observation.rs\<close>, with the planner checks and
  identifier conversions it uses from \<open>native_prepare.rs\<close>). The indexer is asked many
  times during one classification and may answer differently each time: it is a function
  from the number of requests made so far to what it would answer then. The official
  transaction format, keys, hashes and instruction encoding are fields of \<open>sidecar_env\<close>.
\<close>

named_theorems observer_defs \<open>definitions of the classifier\<close>

section \<open>Program identifiers\<close>

fun le_nat :: "bytes \<Rightarrow> nat" where
  "le_nat [] = 0"
| "le_nat (b # bs) = unat b + 256 * le_nat bs"

fun le_bytes :: "nat \<Rightarrow> nat \<Rightarrow> bytes" where
  "le_bytes 0 v = []"
| "le_bytes (Suc n) v = word_of_nat (v mod 256) # le_bytes n (v div 256)"

fun chunks4 :: "bytes \<Rightarrow> bytes list" where
  "chunks4 (a # b # c # d # rest) = [a, b, c, d] # chunks4 rest"
| "chunks4 _ = []"

definition program_id_to_hex :: "program_id \<Rightarrow> hex32" where
  "program_id_to_hex program_id = concat (map (\<lambda>w. le_bytes 4 (unat w)) program_id)"

definition program_id_from_hex :: "hex32 \<Rightarrow> program_id" where
  "program_id_from_hex h = map (\<lambda>chunk. word_of_nat (le_nat chunk)) (chunks4 h)"

section \<open>Official transactions and blocks\<close>

text \<open>The instructions of the escrow program the classifier distinguishes.\<close>

datatype zec_escrow_instruction =
    Ins_InitializeNativeXmr bytes bytes bytes bytes bytes bytes bytes bytes u128 u64 u64 program_id
  | Ins_FundNative bytes
  | Ins_AuthorizeNativeXmrClaim bytes bytes
  | Ins_ClaimNativeXmr bytes
  | Ins_RefundNativeXmr bytes
  | Ins_PunishNativeXmr bytes
  | Ins_Other nat

record official_message =
  om_program_id :: program_id
  om_account_ids :: "account_id list"
  om_nonces :: "u128 list"
  om_instruction_data :: "u32 list"

record public_transaction =
  px_message :: official_message
  px_witnesses :: "(bytes \<times> bytes) list"

record indexed_public =
  iq_hash :: bytes
  iq_message :: official_message
  iq_witnesses :: "(bytes \<times> bytes) list"
  iq_proof :: "bytes option"

datatype indexed_transaction =
    Indexed_Public indexed_public
  | Indexed_Private bytes

fun indexed_hash :: "indexed_transaction \<Rightarrow> bytes" where
  "indexed_hash (Indexed_Public p) = iq_hash p"
| "indexed_hash (Indexed_Private h) = h"

record block_header =
  bh_block_id :: u64
  bh_prev_block_hash :: bytes
  bh_hash :: bytes
  bh_timestamp :: u64

record block =
  bk_header :: block_header
  bk_transactions :: "indexed_transaction list"
  bk_finalized :: bool
  bk_rest :: bytes

datatype bridge_runtime_error =
    Runtime_Planner
  | Runtime_Unavailable
  | Runtime_MovingTip
  | Runtime_InvalidObservation
  | Runtime_AmbiguousDiscovery
  | Runtime_ConflictingDiscovery
  | Runtime_UnknownSubmissionOutcome

datatype 'd historical_account =
    Hist_Absent
  | Hist_Present "'d account"

record 'd indexer_view =
  iv_last_finalized_block_id :: "bridge_runtime_error + u64 option"
  iv_block_by_id :: "u64 \<Rightarrow> bridge_runtime_error + block option"
  iv_block_by_hash :: "bytes \<Rightarrow> bridge_runtime_error + block option"
  iv_account_at_block :: "account_id \<Rightarrow> u64 \<Rightarrow> bridge_runtime_error + 'd historical_account"

type_synonym 'd indexer = "nat \<Rightarrow> 'd indexer_view"

record 'd sidecar_env =
  sd_escrow :: "'d escrow_env"
  sd_key_valid :: "bytes \<Rightarrow> bool"
  sd_key_account :: "bytes \<Rightarrow> account_id"
  sd_tx_hash :: "public_transaction \<Rightarrow> bytes"
  sd_tx_bytes :: "public_transaction \<Rightarrow> bytes"
  sd_message_hash :: "official_message \<Rightarrow> bytes"
  sd_stateless_ok :: "public_transaction \<Rightarrow> bool"
  sd_decode_instruction :: "u32 list \<Rightarrow> zec_escrow_instruction option"
  sd_encode_instruction :: "zec_escrow_instruction \<Rightarrow> u32 list option"
  sd_metadata_pda :: "program_id \<Rightarrow> bytes \<Rightarrow> account_id"
  sd_custody_pda :: "program_id \<Rightarrow> bytes \<Rightarrow> account_id"

section \<open>The planner's checks\<close>

text \<open>The planner's errors up to the deployment checks, and the two others its checks return.\<close>

datatype native_prepare_error =
    DurableReservation
  | WrongRole
  | WrongRuntime
  | WrongSigner
  | WrongDepositorRole
  | WrongEscrowProgram
  | WrongAuthenticatedTransferProgram
  | InvalidTransactionBytes
  | WrongAggregateAuthority

record stored_reservation =
  rs_context :: message_context
  rs_runtime :: runtime_descriptor
  rs_terms :: xmr_terms
  rs_target :: prepared_transaction

text \<open>
  \<open>pl_stored\<close> is the reservation of an effect as the planner reads it back: the durable files
  are loaded and their transactions rebuilt, which may fail or find nothing.
\<close>

record planner =
  pl_role :: participant
  pl_expected_runtime :: runtime_descriptor
  pl_signer_account_id :: account_id
  pl_escrow_program_id :: program_id
  pl_authenticated_transfer_program_id :: program_id
  pl_stored :: "xmr_native_effect \<Rightarrow> native_prepare_error + stored_reservation option"

definition validate_xmr_terms_v3_binding ::
    "'d sidecar_env \<Rightarrow> planner \<Rightarrow> message_context \<Rightarrow> runtime_descriptor \<Rightarrow> xmr_terms
     \<Rightarrow> native_prepare_error + unit" where
  "validate_xmr_terms_v3_binding env pl context runtime t =
     (if mc_sidecar_role context \<noteq> pl_role pl \<or> rd_sidecar_role runtime \<noteq> pl_role pl
      then Err WrongRole
      else if runtime \<noteq> pl_expected_runtime pl \<or> rd_compatibility runtime \<noteq> LeeV0_2_0 \<or>
              \<not> is_ok (validate_runtime_binding t context runtime)
      then Err WrongRuntime
      else if rd_signer_account_id runtime \<noteq> pl_signer_account_id pl \<or>
              (case pl_role pl of Maker \<Rightarrow> xt_claimant_account_id t
                 | Taker \<Rightarrow> xt_depositor_account_id t) \<noteq> pl_signer_account_id pl
      then Err WrongSigner
      else if rd_escrow_program_id runtime \<noteq> program_id_to_hex (pl_escrow_program_id pl) \<or>
              xt_escrow_program_id t \<noteq> program_id_to_hex (pl_escrow_program_id pl)
      then Err WrongEscrowProgram
      else if xt_authenticated_transfer_program_id t \<noteq>
              program_id_to_hex (pl_authenticated_transfer_program_id pl)
      then Err WrongAuthenticatedTransferProgram
      else if xt_metadata_account_id t \<noteq> sd_metadata_pda env (pl_escrow_program_id pl) (xt_swap_id t) \<or>
              xt_custody_account_id t \<noteq> sd_custody_pda env (pl_escrow_program_id pl) (xt_swap_id t)
      then Err InvalidTransactionBytes
      else if \<not> sd_key_valid env (xt_claim_aggregate_x_only_public_key t) \<or>
              \<not> sd_key_valid env (xt_refund_aggregate_x_only_public_key t)
      then Err WrongAggregateAuthority
      else if sd_key_account env (xt_claim_aggregate_x_only_public_key t) \<noteq>
                xt_claim_authority_account_id t \<or>
              sd_key_account env (xt_refund_aggregate_x_only_public_key t) \<noteq>
                xt_refund_authority_account_id t
      then Err WrongAggregateAuthority
      else Ok ())"

fun xmr_effect_owner :: "xmr_native_effect \<Rightarrow> participant" where
  "xmr_effect_owner Effect_Initialize = Taker"
| "xmr_effect_owner Effect_Fund = Taker"
| "xmr_effect_owner Effect_AuthorizeClaim = Taker"
| "xmr_effect_owner Effect_Refund = Taker"
| "xmr_effect_owner Effect_Claim = Maker"
| "xmr_effect_owner Effect_Punish = Maker"

definition validate_owned_xmr_effect_v3 ::
    "'d sidecar_env \<Rightarrow> planner \<Rightarrow> message_context \<Rightarrow> runtime_descriptor \<Rightarrow> xmr_terms
     \<Rightarrow> xmr_native_effect \<Rightarrow> prepared_transaction \<Rightarrow> native_prepare_error + unit" where
  "validate_owned_xmr_effect_v3 env pl context runtime t effect target =
     and_then (validate_xmr_terms_v3_binding env pl context runtime t) (\<lambda>_.
       let role = xmr_effect_owner effect
       in if pl_role pl \<noteq> role \<or> mc_sidecar_role context \<noteq> role \<or> rd_sidecar_role runtime \<noteq> role
          then Err WrongRole
          else and_then (pl_stored pl effect) (\<lambda>stored.
            case stored of
              None \<Rightarrow> Err InvalidTransactionBytes
            | Some r \<Rightarrow>
                if mc_run_id (rs_context r) \<noteq> mc_run_id context \<or>
                   mc_sidecar_role (rs_context r) \<noteq> mc_sidecar_role context \<or>
                   rs_runtime r \<noteq> runtime \<or> rs_terms r \<noteq> t \<or> rs_target r \<noteq> target
                then Err InvalidTransactionBytes else Ok ()))"

fun may_discover :: "participant \<Rightarrow> xmr_native_effect \<Rightarrow> bool" where
  "may_discover Maker Effect_AuthorizeClaim = True"
| "may_discover Maker Effect_Refund = True"
| "may_discover Taker Effect_Claim = True"
| "may_discover Taker Effect_Punish = True"
| "may_discover _ _ = False"

definition validate_xmr_effect_discovery_v3 ::
    "'d sidecar_env \<Rightarrow> planner \<Rightarrow> message_context \<Rightarrow> runtime_descriptor \<Rightarrow> xmr_terms
     \<Rightarrow> xmr_native_effect \<Rightarrow> native_prepare_error + unit" where
  "validate_xmr_effect_discovery_v3 env pl context runtime t effect =
     and_then (validate_xmr_terms_v3_binding env pl context runtime t) (\<lambda>_.
       if may_discover (pl_role pl) effect then Ok () else Err WrongRole)"

definition xmr_claim_partial_matches_terms :: "'d sidecar_env \<Rightarrow> xmr_terms \<Rightarrow> bytes \<Rightarrow> bool" where
  "xmr_claim_partial_matches_terms env t claim_partial \<longleftrightarrow>
     env_sha256 (sd_escrow env)
       (as_bytes ''logos.gateway.lez-xmr.claim-partial-commitment.v1'' @ [0] @
        xt_claim_partial_context_binding t @ claim_partial) = xt_claim_partial_commitment t"

section \<open>Requests to the indexer\<close>

datatype classified_failure =
    Failure_Outcome xmr_unavailable_reason
  | Failure_Runtime bridge_runtime_error

text \<open>An asynchronous computation takes the number of requests made before it.\<close>

type_synonym 'a asking = "nat \<Rightarrow> (classified_failure + 'a) \<times> nat"

definition pure :: "classified_failure + 'a \<Rightarrow> 'a asking" where
  "pure r n = (r, n)"

definition ask_then :: "'a asking \<Rightarrow> ('a \<Rightarrow> 'b asking) \<Rightarrow> 'b asking" where
  "ask_then m k n = (case m n of (Inl e, n') \<Rightarrow> (Inl e, n') | (Inr a, n') \<Rightarrow> k a n')"

abbreviation invalid_observation :: "classified_failure + 'a" where
  "invalid_observation \<equiv> Err (Failure_Runtime Runtime_InvalidObservation)"

abbreviation unavailable :: "xmr_unavailable_reason \<Rightarrow> classified_failure + 'a" where
  "unavailable reason \<equiv> Err (Failure_Outcome reason)"

fun finality_failure :: "bridge_runtime_error \<Rightarrow> classified_failure" where
  "finality_failure Runtime_MovingTip = Failure_Outcome Reason_MovingTip"
| "finality_failure Runtime_Unavailable = Failure_Outcome Reason_FinalityUnavailable"
| "finality_failure e = Failure_Runtime e"

fun history_failure :: "bridge_runtime_error \<Rightarrow> classified_failure" where
  "history_failure Runtime_MovingTip = Failure_Outcome Reason_MovingTip"
| "history_failure Runtime_Unavailable = Failure_Outcome Reason_HistoryUnavailable"
| "history_failure e = Failure_Runtime e"

definition request ::
    "(bridge_runtime_error \<Rightarrow> classified_failure) \<Rightarrow> 'd indexer
     \<Rightarrow> ('d indexer_view \<Rightarrow> bridge_runtime_error + 'a) \<Rightarrow> 'a asking" where
  "request failure ix q n =
     (case q (ix n) of Inl e \<Rightarrow> (Err (failure e), Suc n) | Inr a \<Rightarrow> (Ok a, Suc n))"

definition some_or :: "classified_failure + 'a \<Rightarrow> 'a option \<Rightarrow> classified_failure + 'a" where
  "some_or e v = (case v of None \<Rightarrow> e | Some a \<Rightarrow> Ok a)"

definition last_finalized :: "'d indexer \<Rightarrow> u64 asking" where
  [observer_defs]: "last_finalized ix =
     ask_then (request finality_failure ix iv_last_finalized_block_id) (\<lambda>v.
       pure (some_or (unavailable Reason_FinalityUnavailable) v))"

definition read_finalized_block :: "'d indexer \<Rightarrow> u64 \<Rightarrow> block asking" where
  [observer_defs]: "read_finalized_block ix block_id =
     ask_then (request history_failure ix (\<lambda>v. iv_block_by_id v block_id)) (\<lambda>v.
     ask_then (pure (some_or (unavailable Reason_HistoryUnavailable) v)) (\<lambda>by_id.
       if bh_block_id (bk_header by_id) \<noteq> block_id \<or> \<not> bk_finalized by_id
       then pure invalid_observation
       else
         ask_then (request history_failure ix (\<lambda>v. iv_block_by_hash v (bh_hash (bk_header by_id)))) (\<lambda>v.
         ask_then (pure (some_or (unavailable Reason_HistoryUnavailable) v)) (\<lambda>by_hash.
           pure (if by_hash \<noteq> by_id then invalid_observation else Ok by_id)))))"

record stable_xmr_window =
  sw_blocks :: "block list"
  sw_requested_end :: u64
  sw_finalized_clock :: chain_clock

definition stable_block :: "stable_xmr_window \<Rightarrow> u64 \<Rightarrow> classified_failure + block" where
  "stable_block s block_id =
     some_or invalid_observation (find (\<lambda>b. bh_block_id (bk_header b) = block_id) (sw_blocks s))"

definition confirm_block :: "'d indexer \<Rightarrow> stable_xmr_window \<Rightarrow> u64 \<Rightarrow> unit asking" where
  [observer_defs]: "confirm_block ix s block_id =
     ask_then (pure (stable_block s block_id)) (\<lambda>expected.
     ask_then (read_finalized_block ix block_id) (\<lambda>reread.
       pure (if reread \<noteq> expected then unavailable Reason_MovingTip else Ok ())))"

definition confirm_requested_end :: "'d indexer \<Rightarrow> stable_xmr_window \<Rightarrow> unit asking" where
  [observer_defs]: "confirm_requested_end ix s = confirm_block ix s (sw_requested_end s)"

definition confirm_finalized_coverage :: "'d indexer \<Rightarrow> stable_xmr_window \<Rightarrow> unit asking" where
  [observer_defs]: "confirm_finalized_coverage ix s =
     ask_then (last_finalized ix) (\<lambda>tip.
       if tip < sw_requested_end s then pure (unavailable Reason_FinalityUnavailable)
       else confirm_requested_end ix s)"

section \<open>Reading the window\<close>

definition height_range :: "u64 \<Rightarrow> u64 \<Rightarrow> u64 list" where
  "height_range a b = map word_of_nat [unat a ..< Suc (unat b)]"

fun read_blocks :: "'d indexer \<Rightarrow> bytes option \<Rightarrow> u64 list \<Rightarrow> block list asking" where
  "read_blocks ix previous [] = pure (Ok [])"
| "read_blocks ix previous (block_id # ids) =
     ask_then (read_finalized_block ix block_id) (\<lambda>b.
       if previous \<noteq> None \<and> previous \<noteq> Some (bh_prev_block_hash (bk_header b))
       then pure invalid_observation
       else
         ask_then (read_blocks ix (Some (bh_hash (bk_header b))) ids) (\<lambda>bs. pure (Ok (b # bs))))"

definition block_clock :: "block \<Rightarrow> chain_clock" where
  "block_clock b =
     \<lparr>cc_block_hash = bh_hash (bk_header b), cc_height = bh_block_id (bk_header b),
      cc_timestamp_ms = bh_timestamp (bk_header b)\<rparr>"

definition read_window :: "'d indexer \<Rightarrow> discovery_window \<Rightarrow> stable_xmr_window asking" where
  [observer_defs]: "read_window ix w =
     ask_then (last_finalized ix) (\<lambda>tip.
     ask_then (pure (some_or invalid_observation
         (checked_add (dw_start_height w) (ucast (saturating_pred (dw_max_blocks w)))))) (\<lambda>requested_end.
       if requested_end > tip then pure (unavailable Reason_FinalityUnavailable)
       else
         ask_then (read_blocks ix None (height_range (dw_start_height w) requested_end)) (\<lambda>blocks.
           if blocks = [] then pure invalid_observation
           else
             ask_then (read_finalized_block ix requested_end) (\<lambda>confirmed_end.
               pure (if confirmed_end \<noteq> last blocks then unavailable Reason_MovingTip
                     else Ok \<lparr>sw_blocks = blocks, sw_requested_end = requested_end,
                              sw_finalized_clock = block_clock (last blocks)\<rparr>)))))"

section \<open>Candidates\<close>

definition decode_indexed_public ::
    "'d sidecar_env \<Rightarrow> indexed_public \<Rightarrow> classified_failure + public_transaction" where
  "decode_indexed_public env p =
     (if list_all (\<lambda>(_, key). sd_key_valid env key) (iq_witnesses p)
      then Ok \<lparr>px_message = iq_message p, px_witnesses = iq_witnesses p\<rparr>
      else invalid_observation)"

definition prepared_from_transaction ::
    "'d sidecar_env \<Rightarrow> public_transaction \<Rightarrow> prepared_transaction value_result" where
  "prepared_from_transaction env tx =
     and_then (exact_transaction_bytes_new (sd_tx_bytes env tx)) (\<lambda>exact.
       Ok \<lparr>pt_transaction_id = TransactionId (sd_tx_hash env tx), pt_exact_bytes = exact\<rparr>)"

record effect_candidate =
  ec_transaction :: observed_transaction_facts
  ec_instruction :: xmr_instruction_facts
  ec_aggregate_signature :: "bytes option"
  ec_block :: block_header
  ec_effect_window_valid :: bool

definition decode_ins ::
    "'d sidecar_env \<Rightarrow> u32 list \<Rightarrow> classified_failure + zec_escrow_instruction" where
  "decode_ins env data = some_or invalid_observation (sd_decode_instruction env data)"

definition matches_discovery_terms ::
    "'d sidecar_env \<Rightarrow> xmr_terms \<Rightarrow> xmr_native_effect \<Rightarrow> indexed_public
     \<Rightarrow> classified_failure + bool" where
  "matches_discovery_terms env t effect p =
     (if om_program_id (iq_message p) \<noteq> program_id_from_hex (xt_escrow_program_id t) then Ok False
      else
        and_then (decode_ins env (om_instruction_data (iq_message p))) (\<lambda>ins.
          Ok (case (effect, ins) of
                (Effect_AuthorizeClaim, Ins_AuthorizeNativeXmrClaim swap_id _) \<Rightarrow> swap_id = xt_swap_id t
              | (Effect_Claim, Ins_ClaimNativeXmr swap_id) \<Rightarrow> swap_id = xt_swap_id t
              | (Effect_Refund, Ins_RefundNativeXmr swap_id) \<Rightarrow> swap_id = xt_swap_id t
              | (Effect_Punish, Ins_PunishNativeXmr swap_id) \<Rightarrow> swap_id = xt_swap_id t
              | _ \<Rightarrow> False)))"

definition effect_window_valid :: "xmr_terms \<Rightarrow> xmr_native_effect \<Rightarrow> u64 \<Rightarrow> bool" where
  "effect_window_valid t effect time \<longleftrightarrow>
     \<not> (effect = Effect_Refund \<and> \<not> (xt_refund_at_ms t \<le> time \<and> time < xt_punish_at_ms t) \<or>
        effect = Effect_Punish \<and> time < xt_punish_at_ms t)"

definition published_partial ::
    "'d sidecar_env \<Rightarrow> xmr_terms \<Rightarrow> xmr_native_effect \<Rightarrow> zec_escrow_instruction
     \<Rightarrow> classified_failure + bytes option" where
  "published_partial env t effect ins =
     (if effect = Effect_AuthorizeClaim then
        (case ins of
           Ins_AuthorizeNativeXmrClaim swap_id claim_partial \<Rightarrow>
             if swap_id \<noteq> xt_swap_id t \<or> \<not> xmr_claim_partial_matches_terms env t claim_partial
             then invalid_observation else Ok (Some claim_partial)
         | _ \<Rightarrow> invalid_observation)
      else Ok None)"

fun canonical_instruction ::
    "xmr_terms \<Rightarrow> bytes option \<Rightarrow> xmr_native_effect \<Rightarrow> classified_failure + zec_escrow_instruction" where
  "canonical_instruction t _ Effect_Initialize =
     Ok (Ins_InitializeNativeXmr (xt_swap_id t) (xt_activation_commitment t)
       (xt_claim_aggregate_x_only_public_key t) (xt_refund_aggregate_x_only_public_key t)
       (xt_maker_dleq_transcript_commitment t) (xt_taker_dleq_transcript_commitment t)
       (xt_claim_partial_context_binding t) (xt_claim_partial_commitment t) (xt_amount t)
       (xt_refund_at_ms t) (xt_punish_at_ms t)
       (program_id_from_hex (xt_authenticated_transfer_program_id t)))"
| "canonical_instruction t _ Effect_Fund = Ok (Ins_FundNative (xt_swap_id t))"
| "canonical_instruction t partial Effect_AuthorizeClaim =
     and_then (some_or invalid_observation partial) (\<lambda>p.
       Ok (Ins_AuthorizeNativeXmrClaim (xt_swap_id t) p))"
| "canonical_instruction t _ Effect_Claim = Ok (Ins_ClaimNativeXmr (xt_swap_id t))"
| "canonical_instruction t _ Effect_Refund = Ok (Ins_RefundNativeXmr (xt_swap_id t))"
| "canonical_instruction t _ Effect_Punish = Ok (Ins_PunishNativeXmr (xt_swap_id t))"

fun witness_key :: "xmr_terms \<Rightarrow> xmr_native_effect \<Rightarrow> (hex32 \<times> hex32) option" where
  "witness_key t Effect_Claim =
     Some (xt_claim_aggregate_x_only_public_key t, xt_claim_message_hash t)"
| "witness_key t Effect_Refund =
     Some (xt_refund_aggregate_x_only_public_key t, xt_refund_message_hash t)"
| "witness_key t _ = None"

definition effect_witness ::
    "'d sidecar_env \<Rightarrow> xmr_terms \<Rightarrow> xmr_native_effect \<Rightarrow> public_transaction
     \<Rightarrow> classified_failure + bytes option" where
  "effect_witness env t effect tx =
     (case witness_key t effect of
        None \<Rightarrow> Ok None
      | Some (key, hash) \<Rightarrow>
          (case px_witnesses tx of
             [(signature, public_key)] \<Rightarrow>
               if public_key \<noteq> key \<or> sd_message_hash env (px_message tx) \<noteq> hash
               then invalid_observation else Ok (Some signature)
           | _ \<Rightarrow> invalid_observation))"

text \<open>A protocol error becomes an invalid observation.\<close>

definition as_observation :: "'a value_result \<Rightarrow> classified_failure + 'a" where
  "as_observation r = (case r of Inl _ \<Rightarrow> invalid_observation | Inr v \<Rightarrow> Ok v)"

definition check :: "bool \<Rightarrow> classified_failure + unit" where
  "check c = (if c then Ok () else invalid_observation)"

definition effect_candidate_of ::
    "'d sidecar_env \<Rightarrow> xmr_terms \<Rightarrow> xmr_native_effect \<Rightarrow> prepared_transaction option
     \<Rightarrow> indexed_public \<Rightarrow> block_header \<Rightarrow> nat \<Rightarrow> classified_failure + effect_candidate" where
  "effect_candidate_of env t effect expected p header index =
     and_then (check (iq_proof p = None)) (\<lambda>_.
     and_then (decode_indexed_public env p) (\<lambda>tx.
     and_then (check (sd_tx_hash env tx = iq_hash p)) (\<lambda>_.
     and_then (check (sd_stateless_ok env tx)) (\<lambda>_.
     and_then (as_observation (prepared_from_transaction env tx)) (\<lambda>prepared.
     and_then (check (expected = None \<or> expected = Some prepared)) (\<lambda>_.
     and_then (check (om_program_id (px_message tx) = program_id_from_hex (xt_escrow_program_id t) \<and>
                      length (om_nonces (px_message tx)) = 1)) (\<lambda>_.
     and_then (decode_ins env (om_instruction_data (px_message tx))) (\<lambda>observed.
     and_then (published_partial env t effect observed) (\<lambda>partial.
     and_then (canonical_instruction t partial effect) (\<lambda>canonical.
     and_then (some_or invalid_observation (sd_encode_instruction env canonical)) (\<lambda>data.
     and_then (check (om_instruction_data (px_message tx) = data)) (\<lambda>_.
     and_then (as_observation (account_ids_new (om_account_ids (px_message tx)))) (\<lambda>accounts.
     and_then (as_observation (account_ids_new (effect_accounts t effect))) (\<lambda>expected_accounts.
     and_then (check (accounts = expected_accounts)) (\<lambda>_.
     and_then (as_observation (account_ids_new
         (map (\<lambda>(_, key). sd_key_account env key) (px_witnesses tx)))) (\<lambda>signers.
     and_then (as_observation (account_ids_new [effect_signer t effect])) (\<lambda>expected_signers.
     and_then (check (signers = expected_signers)) (\<lambda>_.
     and_then (effect_witness env t effect tx) (\<lambda>signature.
     and_then (as_observation (xmr_instruction_facts_new effect (xt_escrow_program_id t) accounts
         (xt_swap_id t) (sd_message_hash env (px_message tx)) partial)) (\<lambda>instruction.
     and_then (check (index < 2 ^ 32)) (\<lambda>_.
       Ok \<lparr>ec_transaction =
              \<lparr>ot_transaction_id = pt_transaction_id prepared,
               ot_exact_bytes = pt_exact_bytes prepared,
               ot_position =
                 \<lparr>bp_block_hash = bh_hash header, bp_height = bh_block_id header,
                  bp_transaction_index = word_of_nat index\<rparr>,
               ot_signer_account_ids = signers, ot_is_public = True\<rparr>,
           ec_instruction = instruction, ec_aggregate_signature = signature,
           ec_block = header,
           ec_effect_window_valid = effect_window_valid t effect (bh_timestamp header)\<rparr>)))))))))))))))))))))"

section \<open>Scanning\<close>

record classify_request =
  cr_context :: message_context
  cr_runtime :: runtime_descriptor
  cr_terms :: xmr_terms
  cr_effect :: xmr_native_effect
  cr_target :: xmr_transaction_target
  cr_window :: discovery_window

fun transaction_id_bytes :: "transaction_id \<Rightarrow> bytes" where
  "transaction_id_bytes (TransactionId h) = h"

text \<open>The transactions the loop does not skip, with the exact target when there is one.\<close>

definition select_transaction ::
    "'d sidecar_env \<Rightarrow> classify_request \<Rightarrow> indexed_transaction
     \<Rightarrow> classified_failure + (indexed_public \<times> prepared_transaction option) option" where
  "select_transaction env rq indexed =
     (case cr_target rq of
        Target_Exact transaction \<Rightarrow>
          if indexed_hash indexed \<noteq> transaction_id_bytes (pt_transaction_id transaction) then Ok None
          else (case indexed of
                  Indexed_Public p \<Rightarrow> Ok (Some (p, Some transaction))
                | Indexed_Private _ \<Rightarrow> invalid_observation)
      | Target_DiscoverByTerms \<Rightarrow>
          (case indexed of
             Indexed_Private _ \<Rightarrow> Ok None
           | Indexed_Public p \<Rightarrow>
               and_then (matches_discovery_terms env (cr_terms rq) (cr_effect rq) p) (\<lambda>matches.
                 Ok (if matches then Some (p, None) else None))))"

fun scan_transactions ::
    "'d sidecar_env \<Rightarrow> classify_request \<Rightarrow> block_header \<Rightarrow> nat \<Rightarrow> indexed_transaction list
     \<Rightarrow> effect_candidate option \<Rightarrow> classified_failure + effect_candidate option" where
  "scan_transactions env rq header index [] found = Ok found"
| "scan_transactions env rq header index (indexed # rest) found =
     and_then (select_transaction env rq indexed) (\<lambda>selected.
       case selected of
         None \<Rightarrow> scan_transactions env rq header (Suc index) rest found
       | Some (p, expected) \<Rightarrow>
           and_then (effect_candidate_of env (cr_terms rq) (cr_effect rq) expected p header index)
             (\<lambda>candidate.
               if found \<noteq> None then unavailable Reason_ConflictingMatches
               else scan_transactions env rq header (Suc index) rest (Some candidate)))"

fun scan_blocks ::
    "'d sidecar_env \<Rightarrow> classify_request \<Rightarrow> block list \<Rightarrow> effect_candidate option
     \<Rightarrow> classified_failure + effect_candidate option" where
  "scan_blocks env rq [] found = Ok found"
| "scan_blocks env rq (b # bs) found =
     and_then (scan_transactions env rq (bk_header b) 0 (bk_transactions b) found)
       (\<lambda>found'. scan_blocks env rq bs found')"

definition scan_effect ::
    "'d sidecar_env \<Rightarrow> 'd indexer \<Rightarrow> classify_request
     \<Rightarrow> (effect_candidate option \<times> stable_xmr_window) asking" where
  [observer_defs]: "scan_effect env ix rq =
     ask_then (read_window ix (cr_window rq)) (\<lambda>win.
     ask_then (pure (scan_blocks env rq (sw_blocks win) None)) (\<lambda>found.
       case found of
         Some candidate \<Rightarrow>
           ask_then (confirm_block ix win (bh_block_id (ec_block candidate))) (\<lambda>_.
             pure (Ok (Some candidate, win)))
       | None \<Rightarrow> pure (Ok (None, win))))"

section \<open>Account state\<close>

fun escrow_state_of :: "escrow_status \<Rightarrow> xmr_native_escrow_state" where
  "escrow_state_of Empty = Xs_Empty"
| "escrow_state_of Funded = Xs_Funded"
| "escrow_state_of XmrClaimAuthorized = Xs_ClaimAuthorized"
| "escrow_state_of Claimed = Xs_Claimed"
| "escrow_state_of EscrowRefunded = Xs_Refunded"

definition metadata_matches :: "xmr_terms \<Rightarrow> escrow_metadata \<Rightarrow> bool" where
  "metadata_matches t m \<longleftrightarrow>
     em_version m = 3 \<and> em_swap_id m = xt_swap_id t \<and>
     em_terms_hash m = xt_activation_commitment t \<and>
     em_claim_authority m = XmrDualAdaptor
       \<lparr>claim_aggregate_x_only_public_key = xt_claim_aggregate_x_only_public_key t,
        claim_aggregate_account_id = xt_claim_authority_account_id t,
        refund_aggregate_x_only_public_key = xt_refund_aggregate_x_only_public_key t,
        refund_aggregate_account_id = xt_refund_authority_account_id t,
        maker_dleq_transcript_commitment = xt_maker_dleq_transcript_commitment t,
        taker_dleq_transcript_commitment = xt_taker_dleq_transcript_commitment t,
        claim_partial_context_binding = xt_claim_partial_context_binding t,
        claim_partial_commitment = xt_claim_partial_commitment t,
        punish_at = xt_punish_at_ms t\<rparr> \<and>
     em_depositor m = xt_depositor_account_id t \<and> em_depositor_asset m = em_depositor m \<and>
     em_claimant m = xt_claimant_account_id t \<and> em_claimant_asset m = em_claimant m \<and>
     em_custody m = xt_custody_account_id t \<and>
     em_asset_program m = program_id_from_hex (xt_authenticated_transfer_program_id t) \<and>
     em_custody_program m = em_asset_program m \<and> em_asset_definition m = zero32 \<and>
     em_amount m = xt_amount t \<and> em_refund_at m = xt_refund_at_ms t"

definition validate_metadata ::
    "'d sidecar_env \<Rightarrow> xmr_terms \<Rightarrow> 'd account \<Rightarrow> classified_failure + xmr_native_escrow_state" where
  "validate_metadata env t a =
     (case env_borsh_decode (sd_escrow env) (acc_data a) of
        None \<Rightarrow> invalid_observation
      | Some m \<Rightarrow>
          if acc_program_owner a \<noteq> program_id_from_hex (xt_escrow_program_id t) \<or>
             \<not> metadata_matches t m
          then invalid_observation else Ok (escrow_state_of (em_status m)))"

definition validate_custody ::
    "xmr_terms \<Rightarrow> 'd account \<Rightarrow> u128 \<Rightarrow> classified_failure + unit" where
  "validate_custody t a balance =
     check (acc_program_owner a = program_id_from_hex (xt_authenticated_transfer_program_id t) \<and>
            acc_balance a = balance)"

text \<open>Both accounts are requested at once; the metadata error is reported first.\<close>

definition read_accounts ::
    "'d indexer \<Rightarrow> xmr_terms \<Rightarrow> u64 \<Rightarrow> ('d historical_account \<times> 'd historical_account) asking" where
  "read_accounts ix t block_id n =
     (case iv_account_at_block (ix n) (xt_metadata_account_id t) block_id of
        Inl e \<Rightarrow> (Err (history_failure e), n + 2)
      | Inr m \<Rightarrow>
          (case iv_account_at_block (ix (Suc n)) (xt_custody_account_id t) block_id of
             Inl e \<Rightarrow> (Err (history_failure e), n + 2)
           | Inr c \<Rightarrow> (Ok (m, c), n + 2)))"

definition read_effect_state ::
    "'d sidecar_env \<Rightarrow> 'd indexer \<Rightarrow> xmr_terms \<Rightarrow> xmr_native_effect \<Rightarrow> u64
     \<Rightarrow> (xmr_metadata_facts \<times> native_custody_facts) asking" where
  [observer_defs]: "read_effect_state env ix t effect block_id =
     ask_then (read_accounts ix t block_id) (\<lambda>(m, c).
       pure (case (m, c) of
         (Hist_Present m, Hist_Present c) \<Rightarrow>
           and_then (validate_metadata env t m) (\<lambda>state.
           and_then (check (state = fst (effect_state t effect))) (\<lambda>_.
           and_then (validate_custody t c (snd (effect_state t effect))) (\<lambda>_.
             Ok (metadata_from_terms t state,
                 native_custody_facts_new (xt_custody_account_id t)
                   (xt_authenticated_transfer_program_id t) (snd (effect_state t effect))))))
       | _ \<Rightarrow> invalid_observation))"

fun state_balance :: "xmr_terms \<Rightarrow> xmr_native_escrow_state \<Rightarrow> u128" where
  "state_balance t Xs_Empty = 0"
| "state_balance t Xs_Claimed = 0"
| "state_balance t Xs_Refunded = 0"
| "state_balance t Xs_Funded = xt_amount t"
| "state_balance t Xs_ClaimAuthorized = xt_amount t"

definition validate_missing_state ::
    "'d sidecar_env \<Rightarrow> 'd indexer \<Rightarrow> xmr_terms \<Rightarrow> u64 \<Rightarrow> xmr_native_escrow_state option asking" where
  [observer_defs]: "validate_missing_state env ix t block_id =
     ask_then (read_accounts ix t block_id) (\<lambda>(m, c).
       pure (case (m, c) of
         (Hist_Absent, Hist_Absent) \<Rightarrow> Ok None
       | (Hist_Present m, Hist_Present c) \<Rightarrow>
           and_then (validate_metadata env t m) (\<lambda>state.
           and_then (validate_custody t c (state_balance t state)) (\<lambda>_. Ok (Some state)))
       | _ \<Rightarrow> invalid_observation))"

fun terminal_state_excluding :: "xmr_native_effect \<Rightarrow> xmr_native_escrow_state option" where
  "terminal_state_excluding Effect_Refund = Some Xs_Claimed"
| "terminal_state_excluding Effect_Punish = Some Xs_Refunded"
| "terminal_state_excluding _ = None"

definition terminal_state_at_candidate_and_end ::
    "'d sidecar_env \<Rightarrow> 'd indexer \<Rightarrow> xmr_terms \<Rightarrow> u64 \<Rightarrow> u64 \<Rightarrow> xmr_native_escrow_state
     \<Rightarrow> bool asking" where
  [observer_defs]: "terminal_state_at_candidate_and_end env ix t candidate_block_id requested_end expected =
     ask_then (validate_missing_state env ix t candidate_block_id) (\<lambda>candidate.
       if candidate \<noteq> Some expected then pure (Ok False)
       else
         ask_then (if candidate_block_id = requested_end then pure (Ok candidate)
                   else validate_missing_state env ix t requested_end) (\<lambda>at_end.
           pure (Ok (at_end = Some expected))))"

section \<open>Classification\<close>

definition containing_block :: "block_header \<Rightarrow> finalized_block_identity" where
  "containing_block h =
     \<lparr>fb_block_id = bh_block_id h, fb_block_hash = bh_hash h, fb_timestamp_ms = bh_timestamp h\<rparr>"

definition excluded_by_terminal ::
    "'d sidecar_env \<Rightarrow> 'd indexer \<Rightarrow> classify_request \<Rightarrow> effect_candidate \<Rightarrow> stable_xmr_window
     \<Rightarrow> bool asking" where
  [observer_defs]: "excluded_by_terminal env ix rq candidate win =
     (case terminal_state_excluding (cr_effect rq) of
        Some s \<Rightarrow>
          terminal_state_at_candidate_and_end env ix (cr_terms rq) (bh_block_id (ec_block candidate))
            (sw_requested_end win) s
      | None \<Rightarrow> pure (Ok False))"

definition confirm_both ::
    "'d indexer \<Rightarrow> stable_xmr_window \<Rightarrow> u64 \<Rightarrow> unit asking" where
  [observer_defs]: "confirm_both ix win block_id =
     ask_then (confirm_block ix win block_id) (\<lambda>_. confirm_finalized_coverage ix win)"

definition found_outcome ::
    "'d sidecar_env \<Rightarrow> 'd indexer \<Rightarrow> classify_request \<Rightarrow> effect_candidate \<Rightarrow> stable_xmr_window
     \<Rightarrow> xmr_scan_outcome asking" where
  [observer_defs]: "found_outcome env ix rq candidate win =
     (let block_id = bh_block_id (ec_block candidate) in
      ask_then (excluded_by_terminal env ix rq candidate win) (\<lambda>excluded.
        if excluded then
          ask_then (confirm_both ix win block_id) (\<lambda>_.
            pure (Ok (Scan_Absent (sw_finalized_clock win) (cr_window rq))))
        else if \<not> ec_effect_window_valid candidate then pure invalid_observation
        else
          ask_then (read_effect_state env ix (cr_terms rq) (cr_effect rq) block_id) (\<lambda>(metadata, custody).
          ask_then (confirm_both ix win block_id) (\<lambda>_.
            pure (Ok (Scan_Found (sw_finalized_clock win) (cr_window rq)
              \<lparr>xf_transaction = ec_transaction candidate,
               xf_instruction = ec_instruction candidate,
               xf_aggregate_signature = ec_aggregate_signature candidate,
               xf_containing_block = containing_block (ec_block candidate),
               xf_metadata = metadata, xf_custody = custody\<rparr>))))))"

definition missing_outcome ::
    "'d sidecar_env \<Rightarrow> 'd indexer \<Rightarrow> classify_request \<Rightarrow> stable_xmr_window \<Rightarrow> xmr_scan_outcome asking" where
  [observer_defs]: "missing_outcome env ix rq win =
     ask_then (validate_missing_state env ix (cr_terms rq) (sw_requested_end win)) (\<lambda>state.
     ask_then (confirm_finalized_coverage ix win) (\<lambda>_.
       let excluding = terminal_state_excluding (cr_effect rq) in
       pure (Ok (if excluding \<noteq> None \<and> excluding = state
                 then Scan_Absent (sw_finalized_clock win) (cr_window rq)
                 else Scan_Uncertain (sw_finalized_clock win) (cr_window rq)))))"

definition classify_outcome ::
    "'d sidecar_env \<Rightarrow> 'd indexer \<Rightarrow> classify_request \<Rightarrow> xmr_scan_outcome asking" where
  [observer_defs]: "classify_outcome env ix rq =
     ask_then (scan_effect env ix rq) (\<lambda>(found, win).
       case found of
         Some candidate \<Rightarrow> found_outcome env ix rq candidate win
       | None \<Rightarrow> missing_outcome env ix rq win)"

definition classification_result ::
    "classify_request \<Rightarrow> xmr_scan_outcome \<Rightarrow> bridge_runtime_error + xmr_classification" where
  "classification_result rq outcome =
     (case xmr_classification_new (cr_context rq) (cr_terms rq) (cr_effect rq) (cr_target rq) outcome of
        Inl _ \<Rightarrow> Err Runtime_InvalidObservation
      | Inr c \<Rightarrow> Ok c)"

definition planner_check ::
    "'d sidecar_env \<Rightarrow> planner \<Rightarrow> classify_request \<Rightarrow> native_prepare_error + unit" where
  "planner_check env pl rq =
     and_then (validate_xmr_terms_v3_binding env pl (cr_context rq) (cr_runtime rq) (cr_terms rq)) (\<lambda>_.
       case cr_target rq of
         Target_Exact transaction \<Rightarrow>
           validate_owned_xmr_effect_v3 env pl (cr_context rq) (cr_runtime rq) (cr_terms rq)
             (cr_effect rq) transaction
       | Target_DiscoverByTerms \<Rightarrow>
           validate_xmr_effect_discovery_v3 env pl (cr_context rq) (cr_runtime rq) (cr_terms rq)
             (cr_effect rq))"

text \<open>Every failure of a step ends the classification the same way: an outcome becomes an
  unavailable result and a runtime error is returned.\<close>

definition classify ::
    "'d sidecar_env \<Rightarrow> planner \<Rightarrow> 'd indexer \<Rightarrow> classify_request
     \<Rightarrow> bridge_runtime_error + xmr_classification" where
  "classify env pl ix rq =
     (case planner_check env pl rq of
        Inl _ \<Rightarrow> Err Runtime_Planner
      | Inr _ \<Rightarrow>
          (case fst (classify_outcome env ix rq 0) of
             Inl (Failure_Outcome reason) \<Rightarrow> classification_result rq (Scan_Unavailable reason)
           | Inl (Failure_Runtime e) \<Rightarrow> Err e
           | Inr outcome \<Rightarrow> classification_result rq outcome))"

end
