(* ===== verification/Sidecar_Soundness.thy ===== *)
theory Sidecar_Soundness
  imports Sidecar_Xmr
begin

text \<open>
  What a successful step of the finalized-effect classifier has seen: which answers of the
  indexer it rests on, that the window it read is a hash-linked chain of finalized blocks, and
  that its nested scan loop returns the only matching transaction of that window. The number
  of requests one classification makes is bounded here as well.
\<close>

section \<open>Steps that succeed\<close>

lemma pure_Ok: "pure r n = (Ok a, n') \<longleftrightarrow> r = Ok a \<and> n' = n"
  by (auto simp: pure_def)

lemma ask_then_Ok:
  "ask_then m k n = (Ok b, n') \<longleftrightarrow> (\<exists>a n1. m n = (Ok a, n1) \<and> k a n1 = (Ok b, n'))"
  by (auto simp: ask_then_def split: prod.splits sum.splits)

lemma request_Ok: "request f ix q n = (Ok a, n') \<longleftrightarrow> q (ix n) = Ok a \<and> n' = Suc n"
  by (auto simp: request_def split: sum.splits)

lemma some_or_Ok: "some_or (Err e) v = Ok a \<longleftrightarrow> v = Some a"
  by (auto simp: some_or_def split: option.splits)

lemma check_Ok: "check c = Ok u \<longleftrightarrow> c"
  by (simp add: check_def)

lemma as_observation_Ok: "as_observation r = Ok v \<longleftrightarrow> r = Ok v"
  by (auto simp: as_observation_def split: sum.splits)

lemmas asking_Ok = pure_Ok ask_then_Ok request_Ok some_or_Ok check_Ok as_observation_Ok

text \<open>The block the indexer returns for a height, again for its hash, and reports finalized.\<close>

definition saw_block :: "'d indexer \<Rightarrow> nat \<Rightarrow> u64 \<Rightarrow> block \<Rightarrow> bool" where
  "saw_block ix n block_id b \<longleftrightarrow>
     iv_block_by_id (ix n) block_id = Ok (Some b) \<and>
     iv_block_by_hash (ix (Suc n)) (bh_hash (bk_header b)) = Ok (Some b) \<and>
     bh_block_id (bk_header b) = block_id \<and> bk_finalized b"

lemma read_finalized_block_Ok:
  "read_finalized_block ix block_id n = (Ok b, n') \<longleftrightarrow> saw_block ix n block_id b \<and> n' = n + 2"
  by (auto simp: read_finalized_block_def asking_Ok saw_block_def)

section \<open>The window\<close>

fun hash_linked :: "block list \<Rightarrow> bool" where
  "hash_linked (b # c # bs) \<longleftrightarrow>
     bh_prev_block_hash (bk_header c) = bh_hash (bk_header b) \<and> hash_linked (c # bs)"
| "hash_linked _ \<longleftrightarrow> True"

abbreviation height :: "block \<Rightarrow> u64" where
  "height b \<equiv> bh_block_id (bk_header b)"

lemma read_blocks_Ok:
  "read_blocks ix previous ids n = (Ok bs, n') \<Longrightarrow>
     map height bs = ids \<and> hash_linked bs \<and> (\<forall>b\<in>set bs. \<exists>i. saw_block ix i (height b) b) \<and>
     n' = n + 2 * length ids \<and>
     (bs \<noteq> [] \<longrightarrow> previous \<noteq> None \<longrightarrow> previous = Some (bh_prev_block_hash (bk_header (hd bs))))"
proof (induction ids arbitrary: previous n bs n')
  case Nil
  then show ?case by (auto simp: pure_Ok)
next
  case (Cons block_id ids)
  then obtain b bs' where bs: "bs = b # bs'" and b: "saw_block ix n block_id b"
    and prev: "previous \<noteq> None \<longrightarrow> previous = Some (bh_prev_block_hash (bk_header b))"
    and rest: "read_blocks ix (Some (bh_hash (bk_header b))) ids (n + 2) = (Ok bs', n')"
    by (auto simp: asking_Ok read_finalized_block_Ok split: if_splits)
  from Cons.IH [OF rest] b prev show ?case
    by (cases bs') (auto simp: bs saw_block_def)
qed

definition window_seen :: "'d indexer \<Rightarrow> discovery_window \<Rightarrow> stable_xmr_window \<Rightarrow> bool" where
  "window_seen ix w win \<longleftrightarrow>
     sw_blocks win \<noteq> [] \<and> sw_requested_end win = window_end w \<and>
     map height (sw_blocks win) = height_range (dw_start_height w) (window_end w) \<and>
     hash_linked (sw_blocks win) \<and>
     (\<forall>b\<in>set (sw_blocks win). \<exists>i. saw_block ix i (height b) b) \<and>
     sw_finalized_clock win = block_clock (last (sw_blocks win))"

lemma length_height_range: "length (height_range a b) = Suc (unat b) - unat a"
  by (auto simp: height_range_def)

lemma read_window_Ok:
  assumes "read_window ix w n = (Ok win, n')"
  shows "window_seen ix w win \<and> (\<exists>tip. iv_last_finalized_block_id (ix n) = Ok (Some tip) \<and> window_end w \<le> tip)"
proof -
  from assms obtain tip bs n1 where
    tip: "iv_last_finalized_block_id (ix n) = Ok (Some tip)" and le: "window_end w \<le> tip"
    and bs: "read_blocks ix None (height_range (dw_start_height w) (window_end w)) (Suc n) = (Ok bs, n1)"
    and ne: "bs \<noteq> []" and win: "win = \<lparr>sw_blocks = bs, sw_requested_end = window_end w,
      sw_finalized_clock = block_clock (last bs)\<rparr>"
    by (auto simp: read_window_def last_finalized_def asking_Ok checked_add_Some window_end_def
        split: if_splits)
  from read_blocks_Ok [OF bs] tip le ne show ?thesis
    by (auto simp: win window_seen_def)
qed

text \<open>The heights of the window are those from its start to its end, each once.\<close>

lemma set_height_range: "b \<in> set (height_range s e) \<longleftrightarrow> s \<le> b \<and> b \<le> e"
proof -
  have "b \<in> set (height_range s e) \<longleftrightarrow> (\<exists>n. unat s \<le> n \<and> n \<le> unat e \<and> b = word_of_nat n)"
    by (auto simp: height_range_def)
  also have "\<dots> \<longleftrightarrow> unat s \<le> unat b \<and> unat b \<le> unat e"
  proof
    assume "\<exists>n. unat s \<le> n \<and> n \<le> unat e \<and> b = word_of_nat n"
    then obtain n where n: "unat s \<le> n" "n \<le> unat e" "b = word_of_nat n" by blast
    moreover have "n < 2 ^ 64" using n(2) unsigned_less [of e, where 'a = nat] by simp
    ultimately show "unat s \<le> unat b \<and> unat b \<le> unat e" by (simp add: unat_of_nat)
  next
    assume "unat s \<le> unat b \<and> unat b \<le> unat e"
    then show "\<exists>n. unat s \<le> n \<and> n \<le> unat e \<and> b = word_of_nat n"
      by (intro exI [of _ "unat b"]) simp
  qed
  finally show ?thesis by (simp add: word_le_nat_alt)
qed

section \<open>The scan\<close>

text \<open>All transactions of the window with the header and the index they have.\<close>

definition window_transactions :: "block list \<Rightarrow> (block_header \<times> nat \<times> indexed_transaction) list" where
  "window_transactions bs =
     concat (map (\<lambda>b. map (Pair (bk_header b)) (enumerate 0 (bk_transactions b))) bs)"

fun scan_flat ::
    "'d sidecar_env \<Rightarrow> classify_request \<Rightarrow> (block_header \<times> nat \<times> indexed_transaction) list
     \<Rightarrow> effect_candidate option \<Rightarrow> classified_failure + effect_candidate option" where
  "scan_flat env rq [] found = Ok found"
| "scan_flat env rq ((header, index, indexed) # rest) found =
     and_then (select_transaction env rq indexed) (\<lambda>selected.
       case selected of
         None \<Rightarrow> scan_flat env rq rest found
       | Some (p, expected) \<Rightarrow>
           and_then (effect_candidate_of env (cr_terms rq) (cr_effect rq) expected p header index)
             (\<lambda>candidate.
               if found \<noteq> None then unavailable Reason_ConflictingMatches
               else scan_flat env rq rest (Some candidate)))"

lemma scan_transactions_flat:
  "scan_flat env rq (map (Pair header) (enumerate index txs) @ rest) found =
     and_then (scan_transactions env rq header index txs found) (scan_flat env rq rest)"
proof (induction txs arbitrary: index found)
  case (Cons tx txs)
  show ?case
  proof (cases "select_transaction env rq tx")
    case (Inr sel)
    show ?thesis
    proof (cases sel)
      case (Some pe)
      then show ?thesis
        by (cases "effect_candidate_of env (cr_terms rq) (cr_effect rq) (snd pe) (fst pe) header index")
          (simp_all add: Inr Cons split_beta)
    qed (simp add: Inr Cons)
  qed simp
qed simp

lemma scan_blocks_flat: "scan_blocks env rq bs found = scan_flat env rq (window_transactions bs) found"
proof (induction bs arbitrary: found)
  case (Cons b bs)
  have "scan_blocks env rq bs = scan_flat env rq (window_transactions bs)" using Cons by blast
  then show ?case
    by (simp add: window_transactions_def scan_transactions_flat)
qed (simp add: window_transactions_def)

definition relevant ::
    "'d sidecar_env \<Rightarrow> classify_request \<Rightarrow> block_header \<times> nat \<times> indexed_transaction \<Rightarrow> bool" where
  "relevant env rq x \<longleftrightarrow> select_transaction env rq (snd (snd x)) \<noteq> Ok None"

text \<open>What the loop returns in terms of the relevant transactions alone.\<close>

definition sole_candidate ::
    "'d sidecar_env \<Rightarrow> classify_request \<Rightarrow> (block_header \<times> nat \<times> indexed_transaction) list
     \<Rightarrow> effect_candidate option \<Rightarrow> effect_candidate option \<Rightarrow> bool" where
  "sole_candidate env rq matches found r \<longleftrightarrow>
     matches = [] \<and> r = found \<or>
     (\<exists>header index tx p expected c. matches = [(header, index, tx)] \<and> found = None \<and> r = Some c \<and>
        select_transaction env rq tx = Ok (Some (p, expected)) \<and>
        effect_candidate_of env (cr_terms rq) (cr_effect rq) expected p header index = Ok c)"

lemma scan_flat_Ok:
  "scan_flat env rq xs found = Ok r \<longleftrightarrow> sole_candidate env rq (filter (relevant env rq) xs) found r"
proof (induction xs arbitrary: found)
  case Nil
  then show ?case by (auto simp: sole_candidate_def)
next
  case (Cons x xs)
  obtain header index tx where x: "x = (header, index, tx)" by (cases x) auto
  show ?case
  proof (cases "select_transaction env rq tx")
    case (Inl e)
    then show ?thesis by (auto simp: x relevant_def sole_candidate_def)
  next
    case (Inr sel)
    show ?thesis
    proof (cases sel)
      case None
      with Inr Cons show ?thesis by (simp add: x relevant_def)
    next
      case (Some pe)
      obtain p expected where "pe = (p, expected)" by (cases pe) auto
      with Some Inr have sel: "select_transaction env rq tx = Ok (Some (p, expected))" by simp
      then show ?thesis
        by (cases "effect_candidate_of env (cr_terms rq) (cr_effect rq) expected p header index")
          (auto simp: x relevant_def Cons sole_candidate_def)
    qed
  qed
qed

lemma scan_blocks_Ok:
  "scan_blocks env rq bs None = Ok r \<longleftrightarrow>
     sole_candidate env rq (filter (relevant env rq) (window_transactions bs)) None r"
  by (simp add: scan_blocks_flat scan_flat_Ok)

lemma window_transactions_block:
  "(header, index, tx) \<in> set (window_transactions bs) \<longleftrightarrow>
     (\<exists>b\<in>set bs. bk_header b = header \<and> index < length (bk_transactions b) \<and> bk_transactions b ! index = tx)"
  by (fastforce simp: window_transactions_def in_set_enumerate_eq)

section \<open>Requests\<close>

text \<open>A step that makes at most \<open>k\<close> requests.\<close>

definition asks_at_most :: "'a asking \<Rightarrow> nat \<Rightarrow> bool" where
  "asks_at_most m k \<longleftrightarrow> (\<forall>n. snd (m n) \<le> n + k)"

lemma asks_pure: "asks_at_most (pure r) 0"
  by (simp add: asks_at_most_def pure_def)

lemma asks_request: "asks_at_most (request f ix q) 1"
  by (simp add: asks_at_most_def request_def split: sum.splits)

lemma asks_ask_then:
  assumes "asks_at_most m j" and "\<And>a. asks_at_most (f a) l"
  shows "asks_at_most (ask_then m f) (j + l)"
  unfolding asks_at_most_def
proof
  fix n
  obtain r n1 where m: "m n = (r, n1)" by (cases "m n") auto
  with assms(1) have n1: "n1 \<le> n + j" unfolding asks_at_most_def by (metis snd_conv)
  show "snd (ask_then m f n) \<le> n + (j + l)"
  proof (cases r)
    case (Inl e)
    with m n1 show ?thesis by (simp add: ask_then_def)
  next
    case (Inr a)
    have "snd (f a n1) \<le> n1 + l" using assms(2) by (simp add: asks_at_most_def)
    with m n1 Inr show ?thesis by (simp add: ask_then_def)
  qed
qed

lemma asks_mono: "asks_at_most m j \<Longrightarrow> j \<le> k \<Longrightarrow> asks_at_most m k"
  by (meson asks_at_most_def add_left_mono order_trans)

lemma asks_if:
  "asks_at_most m j \<Longrightarrow> asks_at_most m' l \<Longrightarrow> asks_at_most (if c then m else m') (max j l)"
  by (auto intro: asks_mono)

lemma asks_option:
  "asks_at_most m j \<Longrightarrow> (\<And>a. asks_at_most (f a) l) \<Longrightarrow>
     asks_at_most (case x of None \<Rightarrow> m | Some a \<Rightarrow> f a) (max j l)"
  by (cases x) (simp_all, (erule asks_mono, simp), rule asks_mono [of _ l], simp_all)

lemma asks_pair: "(\<And>a b. asks_at_most (f a b) k) \<Longrightarrow> asks_at_most (case x of (a, b) \<Rightarrow> f a b) k"
  by (cases x) simp

lemmas asks_rules = asks_pure asks_request asks_ask_then asks_if asks_option asks_pair

lemma asks_last_finalized: "asks_at_most (last_finalized ix) 1"
  unfolding last_finalized_def by (rule asks_mono, (rule asks_rules)+) simp

lemma asks_read_finalized_block: "asks_at_most (read_finalized_block ix block_id) 2"
  unfolding read_finalized_block_def by (rule asks_mono, (rule asks_rules)+) simp

lemma asks_confirm_block: "asks_at_most (confirm_block ix win block_id) 2"
  unfolding confirm_block_def
  by (rule asks_mono, (rule asks_read_finalized_block asks_rules)+) simp

lemma asks_confirm_both: "asks_at_most (confirm_both ix win block_id) 5"
  unfolding confirm_both_def confirm_finalized_coverage_def confirm_requested_end_def
  by (rule asks_mono, (rule asks_last_finalized asks_confirm_block asks_rules)+) simp

lemma asks_confirm_finalized_coverage: "asks_at_most (confirm_finalized_coverage ix win) 3"
  unfolding confirm_finalized_coverage_def confirm_requested_end_def
  by (rule asks_mono, (rule asks_last_finalized asks_confirm_block asks_rules)+) simp

lemma asks_read_blocks: "asks_at_most (read_blocks ix previous ids) (2 * length ids)"
proof (induction ids arbitrary: previous)
  case Nil
  then show ?case by (simp add: asks_pure)
next
  case (Cons block_id ids)
  show ?case
    unfolding read_blocks.simps
    by (rule asks_mono, (rule asks_read_finalized_block asks_rules Cons)+) simp
qed

lemma asks_read_window:
  assumes "discovery_window_new s m = Ok w"
  shows "asks_at_most (read_window ix w) (2 * unat (dw_max_blocks w) + 3)"
proof -
  have len: "length (height_range (dw_start_height w) (window_end w)) = unat (dw_max_blocks w)"
    using unat_window_end [OF assms] assms [unfolded discovery_window_new_Ok] by (simp add: length_height_range)
  have blocks: "asks_at_most (read_blocks ix None (height_range (dw_start_height w) (window_end w)))
      (2 * unat (dw_max_blocks w))"
    using asks_read_blocks [of ix None "height_range (dw_start_height w) (window_end w)"] by (simp add: len)
  have add: "ask_then (pure (some_or e (checked_add (dw_start_height w)
      (ucast (saturating_pred (dw_max_blocks w)))))) k = k (window_end w)" for e k
    using assms by (auto simp: checked_add_def window_end_def discovery_window_new_Ok unat_ucast_u64
        unat_saturating_pred some_or_def ask_then_def pure_def fun_eq_iff)
  show ?thesis
    unfolding read_window_def add
    by (rule asks_mono, (rule asks_last_finalized asks_read_finalized_block blocks asks_rules)+) simp
qed

lemma asks_read_accounts: "asks_at_most (read_accounts ix t block_id) 2"
  by (auto simp: asks_at_most_def read_accounts_def split: sum.splits)

lemma asks_validate_missing_state: "asks_at_most (validate_missing_state env ix t block_id) 2"
  unfolding validate_missing_state_def
  by (rule asks_mono, (rule asks_read_accounts asks_rules)+) simp

lemma asks_read_effect_state: "asks_at_most (read_effect_state env ix t effect block_id) 2"
  unfolding read_effect_state_def
  by (rule asks_mono, (rule asks_read_accounts asks_rules)+) simp

lemma asks_terminal_state:
  "asks_at_most (terminal_state_at_candidate_and_end env ix t candidate_block_id requested_end expected) 4"
  unfolding terminal_state_at_candidate_and_end_def
  by (rule asks_mono, (rule asks_validate_missing_state asks_rules)+) simp

lemma asks_found_outcome: "asks_at_most (found_outcome env ix rq candidate win) 11"
  unfolding found_outcome_def excluded_by_terminal_def Let_def
  by (rule asks_mono, (rule asks_confirm_both asks_terminal_state asks_read_effect_state asks_rules)+) simp

lemma asks_missing_outcome: "asks_at_most (missing_outcome env ix rq win) 5"
  unfolding missing_outcome_def Let_def
  by (rule asks_mono, (rule asks_validate_missing_state asks_confirm_finalized_coverage asks_rules)+) simp

lemma asks_scan_effect:
  assumes "discovery_window_new s m = Ok (cr_window rq)"
  shows "asks_at_most (scan_effect env ix rq) (2 * unat (dw_max_blocks (cr_window rq)) + 5)"
  unfolding scan_effect_def
  by (rule asks_mono, (rule asks_read_window [OF assms] asks_confirm_block asks_rules)+) simp

lemma asks_classify_outcome:
  assumes "discovery_window_new s m = Ok (cr_window rq)"
  shows "asks_at_most (classify_outcome env ix rq) (2 * unat (dw_max_blocks (cr_window rq)) + 16)"
  unfolding classify_outcome_def
  by (rule asks_mono, (rule asks_scan_effect [OF assms] asks_found_outcome asks_missing_outcome asks_rules)+)
    simp

section \<open>Candidates\<close>

text \<open>
  The only form an observed transaction can have: a public call of the agreed escrow program
  with the canonical encoding of the effect's instruction, the effect's accounts in order and
  the effect's signer alone; a claim or refund carries the agreed message and the aggregate key.
\<close>

definition canonical_effect ::
    "'d sidecar_env \<Rightarrow> xmr_terms \<Rightarrow> xmr_native_effect \<Rightarrow> indexed_public \<Rightarrow> bool" where
  "canonical_effect env t effect p \<longleftrightarrow>
     iq_proof p = None \<and>
     om_program_id (iq_message p) = program_id_from_hex (xt_escrow_program_id t) \<and>
     om_account_ids (iq_message p) = effect_accounts t effect \<and>
     map (\<lambda>(_, key). sd_key_account env key) (iq_witnesses p) = [effect_signer t effect] \<and>
     (\<exists>partial ins. canonical_instruction t partial effect = Ok ins \<and>
        sd_encode_instruction env ins = Some (om_instruction_data (iq_message p)) \<and>
        (\<forall>cp. partial = Some cp \<longrightarrow> xmr_claim_partial_matches_terms env t cp)) \<and>
     (\<forall>key hash. witness_key t effect = Some (key, hash) \<longrightarrow>
        map snd (iq_witnesses p) = [key] \<and> sd_message_hash env (iq_message p) = hash)"

abbreviation transaction_of :: "indexed_public \<Rightarrow> public_transaction" where
  "transaction_of p \<equiv> \<lparr>px_message = iq_message p, px_witnesses = iq_witnesses p\<rparr>"

lemma account_ids_new_Ok: "account_ids_new ids = Ok v \<longleftrightarrow> v = ids \<and> length ids \<le> max_account_ids"
  by (auto simp: account_ids_new_def)

lemma decode_indexed_public_Ok: "decode_indexed_public env p = Ok tx \<Longrightarrow> tx = transaction_of p"
  by (simp add: decode_indexed_public_def split: if_splits)

lemma effect_witness_Ok:
  assumes "effect_witness env t effect tx = Ok signature" and "witness_key t effect = Some (key, hash)"
  shows "map snd (px_witnesses tx) = [key] \<and> sd_message_hash env (px_message tx) = hash"
  using assms by (auto simp: effect_witness_def split: list.splits if_splits)

lemma published_partial_Ok:
  "published_partial env t effect ins = Ok partial \<Longrightarrow> partial = Some cp \<Longrightarrow>
     xmr_claim_partial_matches_terms env t cp"
  by (auto simp: published_partial_def split: if_splits zec_escrow_instruction.splits)

lemma effect_candidate_Ok:
  assumes "effect_candidate_of env t effect expected p header index = Ok c"
  shows "canonical_effect env t effect p \<and> ec_block c = header \<and>
     ec_effect_window_valid c = effect_window_valid t effect (bh_timestamp header) \<and>
     ot_transaction_id (ec_transaction c) = TransactionId (iq_hash p) \<and>
     ot_exact_bytes (ec_transaction c) = sd_tx_bytes env (transaction_of p) \<and>
     ot_position (ec_transaction c) =
       \<lparr>bp_block_hash = bh_hash header, bp_height = bh_block_id header,
        bp_transaction_index = word_of_nat index\<rparr> \<and> index < 2 ^ 32"
proof -
  from assms obtain tx partial ins observed signature prepared facts where
    tx: "decode_indexed_public env p = Ok tx" and np: "iq_proof p = None"
    and hash: "sd_tx_hash env tx = iq_hash p"
    and prog: "om_program_id (px_message tx) = program_id_from_hex (xt_escrow_program_id t)"
    and part: "published_partial env t effect observed = Ok partial"
    and ins: "canonical_instruction t partial effect = Ok ins"
      "sd_encode_instruction env ins = Some (om_instruction_data (px_message tx))"
    and acc: "om_account_ids (px_message tx) = effect_accounts t effect"
    and sig: "map (\<lambda>(_, key). sd_key_account env key) (px_witnesses tx) = [effect_signer t effect]"
    and wit: "effect_witness env t effect tx = Ok signature"
    and idx: "index < 2 ^ 32"
    and prep: "prepared_from_transaction env tx = Ok prepared"
    and c: "c = \<lparr>ec_transaction = \<lparr>ot_transaction_id = pt_transaction_id prepared,
         ot_exact_bytes = pt_exact_bytes prepared,
         ot_position = \<lparr>bp_block_hash = bh_hash header, bp_height = bh_block_id header,
           bp_transaction_index = word_of_nat index\<rparr>,
         ot_signer_account_ids = [effect_signer t effect], ot_is_public = True\<rparr>,
       ec_instruction = facts, ec_aggregate_signature = signature, ec_block = header,
       ec_effect_window_valid = effect_window_valid t effect (bh_timestamp header)\<rparr>"
    unfolding effect_candidate_of_def decode_ins_def
    by (auto simp: and_then_Inr asking_Ok account_ids_new_Ok simp del: effect_accounts.simps effect_signer.simps)
  have "canonical_effect env t effect p"
    using decode_indexed_public_Ok [OF tx] np prog acc sig ins published_partial_Ok [OF part]
      effect_witness_Ok [OF wit]
    unfolding canonical_effect_def by auto
  moreover have "pt_transaction_id prepared = TransactionId (iq_hash p)"
    "pt_exact_bytes prepared = sd_tx_bytes env (transaction_of p)"
    using prep decode_indexed_public_Ok [OF tx] hash
    by (auto simp: prepared_from_transaction_def and_then_Inr exact_transaction_bytes_new_def split: if_splits)
  ultimately show ?thesis using idx by (simp add: c)
qed

section \<open>Account state\<close>

definition escrow_seen ::
    "'d sidecar_env \<Rightarrow> 'd indexer \<Rightarrow> xmr_terms \<Rightarrow> u64 \<Rightarrow> xmr_native_escrow_state \<Rightarrow> u128 \<Rightarrow> bool" where
  "escrow_seen env ix t block_id state balance \<longleftrightarrow>
     (\<exists>n a c m. iv_account_at_block (ix n) (xt_metadata_account_id t) block_id = Ok (Hist_Present a) \<and>
        iv_account_at_block (ix (Suc n)) (xt_custody_account_id t) block_id = Ok (Hist_Present c) \<and>
        acc_program_owner a = program_id_from_hex (xt_escrow_program_id t) \<and>
        env_borsh_decode (sd_escrow env) (acc_data a) = Some m \<and> metadata_matches t m \<and>
        escrow_state_of (em_status m) = state \<and>
        acc_program_owner c = program_id_from_hex (xt_authenticated_transfer_program_id t) \<and>
        acc_balance c = balance)"

lemma read_accounts_Ok:
  "read_accounts ix t block_id n = (Ok mc, n') \<longleftrightarrow>
     iv_account_at_block (ix n) (xt_metadata_account_id t) block_id = Ok (fst mc) \<and>
     iv_account_at_block (ix (Suc n)) (xt_custody_account_id t) block_id = Ok (snd mc) \<and> n' = n + 2"
  by (cases mc) (auto simp: read_accounts_def split: sum.splits)

lemma validate_metadata_Ok:
  "validate_metadata env t a = Ok s \<longleftrightarrow>
     acc_program_owner a = program_id_from_hex (xt_escrow_program_id t) \<and>
     (\<exists>m. env_borsh_decode (sd_escrow env) (acc_data a) = Some m \<and> metadata_matches t m \<and>
        escrow_state_of (em_status m) = s)"
  by (auto simp: validate_metadata_def split: option.splits)

lemma accounts_then_Ok:
  assumes "ask_then (read_accounts ix t block_id) (\<lambda>(m, c). pure (g m c)) n = (Ok r, n')"
  obtains m c where "iv_account_at_block (ix n) (xt_metadata_account_id t) block_id = Ok m"
    "iv_account_at_block (ix (Suc n)) (xt_custody_account_id t) block_id = Ok c" "g m c = Ok r"
  using assms by (auto simp: ask_then_Ok pure_Ok read_accounts_Ok)

lemma read_effect_state_Ok:
  assumes "read_effect_state env ix t effect block_id n = (Ok mc, n')"
  shows "escrow_seen env ix t block_id (fst (effect_state t effect)) (snd (effect_state t effect)) \<and>
     mc = (metadata_from_terms t (fst (effect_state t effect)),
           native_custody_facts_new (xt_custody_account_id t) (xt_authenticated_transfer_program_id t)
             (snd (effect_state t effect)))"
  using assms unfolding read_effect_state_def
proof (rule accounts_then_Ok)
  fix m c
  assume "iv_account_at_block (ix n) (xt_metadata_account_id t) block_id = Ok m"
    "iv_account_at_block (ix (Suc n)) (xt_custody_account_id t) block_id = Ok c"
    "(case (m, c) of
         (Hist_Present m, Hist_Present c) \<Rightarrow>
           and_then (validate_metadata env t m) (\<lambda>state.
           and_then (check (state = fst (effect_state t effect))) (\<lambda>_.
           and_then (validate_custody t c (snd (effect_state t effect))) (\<lambda>_.
             Ok (metadata_from_terms t state,
                 native_custody_facts_new (xt_custody_account_id t)
                   (xt_authenticated_transfer_program_id t) (snd (effect_state t effect))))))
       | _ \<Rightarrow> invalid_observation) = Ok mc"
  then show ?thesis
    by (cases m; cases c)
      (auto simp: and_then_Inr check_Ok validate_metadata_Ok validate_custody_def escrow_seen_def)
qed

lemma validate_missing_state_Some:
  assumes "validate_missing_state env ix t block_id n = (Ok (Some s), n')"
  shows "escrow_seen env ix t block_id s (state_balance t s)"
  using assms unfolding validate_missing_state_def
proof (rule accounts_then_Ok)
  fix m c
  assume "iv_account_at_block (ix n) (xt_metadata_account_id t) block_id = Ok m"
    "iv_account_at_block (ix (Suc n)) (xt_custody_account_id t) block_id = Ok c"
    "(case (m, c) of
         (Hist_Absent, Hist_Absent) \<Rightarrow> Ok None
       | (Hist_Present m, Hist_Present c) \<Rightarrow>
           and_then (validate_metadata env t m) (\<lambda>state.
           and_then (validate_custody t c (state_balance t state)) (\<lambda>_. Ok (Some state)))
       | _ \<Rightarrow> invalid_observation) = Ok (Some s)"
  then show ?thesis
    by (cases m; cases c)
      (auto simp: and_then_Inr check_Ok validate_metadata_Ok validate_custody_def escrow_seen_def)
qed

section \<open>Outcomes\<close>

text \<open>A found effect: the only relevant transaction of the window, its block, and the escrow
  state the indexer reports at that block.\<close>

definition found_effect ::
    "'d sidecar_env \<Rightarrow> 'd indexer \<Rightarrow> classify_request \<Rightarrow> stable_xmr_window \<Rightarrow> xmr_effect_facts \<Rightarrow> bool" where
  "found_effect env ix rq win facts \<longleftrightarrow>
     (\<exists>b index p. b \<in> set (sw_blocks win) \<and>
        filter (relevant env rq) (window_transactions (sw_blocks win)) =
          [(bk_header b, index, Indexed_Public p)] \<and>
        canonical_effect env (cr_terms rq) (cr_effect rq) p \<and>
        ot_transaction_id (xf_transaction facts) = TransactionId (iq_hash p) \<and>
        ot_exact_bytes (xf_transaction facts) = sd_tx_bytes env (transaction_of p) \<and>
        xf_containing_block facts = containing_block (bk_header b) \<and>
        effect_window_valid (cr_terms rq) (cr_effect rq) (bh_timestamp (bk_header b)) \<and>
        escrow_seen env ix (cr_terms rq) (height b) (fst (effect_state (cr_terms rq) (cr_effect rq)))
          (snd (effect_state (cr_terms rq) (cr_effect rq))))"

lemma select_transaction_public:
  "select_transaction env rq tx = Ok (Some (p, expected)) \<Longrightarrow> tx = Indexed_Public p"
  by (auto simp: select_transaction_def and_then_Inr
      split: xmr_transaction_target.splits if_splits indexed_transaction.splits)

lemma sole_candidate_block:
  assumes "sole_candidate env rq (filter (relevant env rq) (window_transactions bs)) None (Some c)"
  obtains b index p where "b \<in> set bs" "ec_block c = bk_header b"
    "filter (relevant env rq) (window_transactions bs) = [(bk_header b, index, Indexed_Public p)]"
    "canonical_effect env (cr_terms rq) (cr_effect rq) p"
    "ec_effect_window_valid c = effect_window_valid (cr_terms rq) (cr_effect rq) (bh_timestamp (bk_header b))"
    "ot_transaction_id (ec_transaction c) = TransactionId (iq_hash p)"
    "ot_exact_bytes (ec_transaction c) = sd_tx_bytes env (transaction_of p)"
proof -
  from assms obtain header index tx p expected where
    sole: "filter (relevant env rq) (window_transactions bs) = [(header, index, tx)]"
    and sel: "select_transaction env rq tx = Ok (Some (p, expected))"
    and cand: "effect_candidate_of env (cr_terms rq) (cr_effect rq) expected p header index = Ok c"
    by (auto simp: sole_candidate_def)
  have "(header, index, tx) \<in> set (window_transactions bs)"
    using filter_is_subset [of "relevant env rq" "window_transactions bs"] by (simp add: sole)
  then obtain b where b: "b \<in> set bs" "bk_header b = header"
    by (auto simp: window_transactions_block)
  have "ec_block c = bk_header b"
    "filter (relevant env rq) (window_transactions bs) = [(bk_header b, index, Indexed_Public p)]"
    "canonical_effect env (cr_terms rq) (cr_effect rq) p"
    "ec_effect_window_valid c = effect_window_valid (cr_terms rq) (cr_effect rq) (bh_timestamp (bk_header b))"
    "ot_transaction_id (ec_transaction c) = TransactionId (iq_hash p)"
    "ot_exact_bytes (ec_transaction c) = sd_tx_bytes env (transaction_of p)"
    using sole select_transaction_public [OF sel] effect_candidate_Ok [OF cand] b(2) by simp_all
  with b(1) show ?thesis by (rule that)
qed

lemma scan_effect_Ok:
  assumes "scan_effect env ix rq n = (Ok (found, win), n')"
  shows "window_seen ix (cr_window rq) win \<and>
    sole_candidate env rq (filter (relevant env rq) (window_transactions (sw_blocks win))) None found"
  using assms
  by (auto simp: scan_effect_def ask_then_Ok pure_Ok scan_blocks_Ok dest!: read_window_Ok split: option.splits)

lemma terminal_state_at_end:
  assumes "terminal_state_at_candidate_and_end env ix t candidate_id requested_end s n = (Ok True, n')"
  shows "escrow_seen env ix t requested_end s (state_balance t s) \<and>
    escrow_seen env ix t candidate_id s (state_balance t s)"
proof -
  from assms obtain n1 where cand: "validate_missing_state env ix t candidate_id n = (Ok (Some s), n1)"
    and rest: "candidate_id = requested_end \<or>
      (\<exists>n2. validate_missing_state env ix t requested_end n1 = (Ok (Some s), n2))"
    by (auto simp: terminal_state_at_candidate_and_end_def ask_then_Ok pure_Ok split: if_splits)
  from rest show ?thesis
  proof
    assume "candidate_id = requested_end"
    with validate_missing_state_Some [OF cand] show ?thesis by simp
  next
    assume "\<exists>n2. validate_missing_state env ix t requested_end n1 = (Ok (Some s), n2)"
    with validate_missing_state_Some [OF cand] show ?thesis by (auto dest: validate_missing_state_Some)
  qed
qed

lemma found_outcome_Found:
  assumes "found_outcome env ix rq c win n = (Ok (Scan_Found clock w facts), n')"
  shows "ec_effect_window_valid c \<and> clock = sw_finalized_clock win \<and> w = cr_window rq \<and>
    xf_transaction facts = ec_transaction c \<and> xf_containing_block facts = containing_block (ec_block c) \<and>
    escrow_seen env ix (cr_terms rq) (bh_block_id (ec_block c)) (fst (effect_state (cr_terms rq) (cr_effect rq)))
      (snd (effect_state (cr_terms rq) (cr_effect rq)))"
  using assms
  by (auto simp: found_outcome_def Let_def ask_then_Ok pure_Ok split: if_splits prod.splits
      dest: read_effect_state_Ok)

lemma found_outcome_Absent:
  assumes "found_outcome env ix rq c win n = (Ok (Scan_Absent clock w), n')"
  obtains s where "terminal_state_excluding (cr_effect rq) = Some s"
    "clock = sw_finalized_clock win" "w = cr_window rq"
    "escrow_seen env ix (cr_terms rq) (sw_requested_end win) s (state_balance (cr_terms rq) s)"
proof -
  from assms obtain n1 where "excluded_by_terminal env ix rq c win n = (Ok True, n1)"
    and cw: "clock = sw_finalized_clock win" "w = cr_window rq"
    by (auto simp: found_outcome_def Let_def ask_then_Ok pure_Ok split: if_splits prod.splits)
  then obtain s where "terminal_state_excluding (cr_effect rq) = Some s"
    "terminal_state_at_candidate_and_end env ix (cr_terms rq) (bh_block_id (ec_block c))
       (sw_requested_end win) s n = (Ok True, n1)"
    by (auto simp: excluded_by_terminal_def pure_Ok split: option.splits)
  with cw that show ?thesis by (blast dest: terminal_state_at_end)
qed

lemma missing_outcome_Absent:
  assumes "missing_outcome env ix rq win n = (Ok (Scan_Absent clock w), n')"
  obtains s where "terminal_state_excluding (cr_effect rq) = Some s"
    "clock = sw_finalized_clock win" "w = cr_window rq"
    "escrow_seen env ix (cr_terms rq) (sw_requested_end win) s (state_balance (cr_terms rq) s)"
proof -
  from assms obtain n1 s where "terminal_state_excluding (cr_effect rq) = Some s"
    "validate_missing_state env ix (cr_terms rq) (sw_requested_end win) n = (Ok (Some s), n1)"
    "clock = sw_finalized_clock win" "w = cr_window rq"
    by (auto simp: missing_outcome_def Let_def ask_then_Ok pure_Ok split: if_splits)
  with that show ?thesis by (blast dest: validate_missing_state_Some)
qed

lemma missing_outcome_not_found:
  "missing_outcome env ix rq win n \<noteq> (Ok (Scan_Found clock w facts), n')"
  by (auto simp: missing_outcome_def Let_def ask_then_Ok pure_Ok split: if_splits)

lemma classify_outcome_Found:
  assumes "classify_outcome env ix rq n = (Ok (Scan_Found clock w facts), n')"
  shows "\<exists>win. window_seen ix (cr_window rq) win \<and> clock = sw_finalized_clock win \<and> w = cr_window rq \<and>
    found_effect env ix rq win facts"
proof -
  from assms obtain win found n1 where scan: "scan_effect env ix rq n = (Ok (found, win), n1)"
    and rest: "(case found of Some c \<Rightarrow> found_outcome env ix rq c win
      | None \<Rightarrow> missing_outcome env ix rq win) n1 = (Ok (Scan_Found clock w facts), n')"
    by (auto simp: classify_outcome_def ask_then_Ok)
  then obtain c where found: "found = Some c"
    and out: "found_outcome env ix rq c win n1 = (Ok (Scan_Found clock w facts), n')"
    by (cases found) (auto simp: missing_outcome_not_found)
  from scan_effect_Ok [OF scan] have seen: "window_seen ix (cr_window rq) win"
    and sole: "sole_candidate env rq (filter (relevant env rq) (window_transactions (sw_blocks win))) None (Some c)"
    by (simp_all add: found)
  from sole_candidate_block [OF sole] obtain b index p where "b \<in> set (sw_blocks win)"
    "ec_block c = bk_header b"
    "filter (relevant env rq) (window_transactions (sw_blocks win)) = [(bk_header b, index, Indexed_Public p)]"
    "canonical_effect env (cr_terms rq) (cr_effect rq) p"
    "ec_effect_window_valid c = effect_window_valid (cr_terms rq) (cr_effect rq) (bh_timestamp (bk_header b))"
    "ot_transaction_id (ec_transaction c) = TransactionId (iq_hash p)"
    "ot_exact_bytes (ec_transaction c) = sd_tx_bytes env (transaction_of p)" .
  with found_outcome_Found [OF out] have "found_effect env ix rq win facts"
    unfolding found_effect_def by (intro exI [of _ b] exI [of _ index] exI [of _ p]) simp
  with seen found_outcome_Found [OF out] show ?thesis by blast
qed

lemma classify_outcome_Absent:
  assumes "classify_outcome env ix rq n = (Ok (Scan_Absent clock w), n')"
  shows "\<exists>win s. window_seen ix (cr_window rq) win \<and> clock = sw_finalized_clock win \<and> w = cr_window rq \<and>
    terminal_state_excluding (cr_effect rq) = Some s \<and>
    escrow_seen env ix (cr_terms rq) (window_end w) s (state_balance (cr_terms rq) s)"
proof -
  from assms obtain win found n1 where scan: "scan_effect env ix rq n = (Ok (found, win), n1)"
    and rest: "(case found of Some c \<Rightarrow> found_outcome env ix rq c win
      | None \<Rightarrow> missing_outcome env ix rq win) n1 = (Ok (Scan_Absent clock w), n')"
    by (auto simp: classify_outcome_def ask_then_Ok)
  from rest obtain s where "terminal_state_excluding (cr_effect rq) = Some s"
    "clock = sw_finalized_clock win" "w = cr_window rq"
    "escrow_seen env ix (cr_terms rq) (sw_requested_end win) s (state_balance (cr_terms rq) s)"
    by (cases found) (auto elim: found_outcome_Absent missing_outcome_Absent)
  moreover from scan_effect_Ok [OF scan] have "window_seen ix (cr_window rq) win" by blast
  ultimately show ?thesis by (auto simp: window_seen_def)
qed

lemma classify_Ok:
  assumes "classify env pl ix rq = Ok c"
  shows "planner_check env pl rq = Ok () \<and>
    ((\<exists>n. classify_outcome env ix rq 0 = (Ok (xc_outcome c), n)) \<or> (\<exists>r. xc_outcome c = Scan_Unavailable r)) \<and>
    xmr_classification_new (cr_context rq) (cr_terms rq) (cr_effect rq) (cr_target rq) (xc_outcome c) = Ok c"
proof -
  from assms obtain outcome where "planner_check env pl rq = Ok ()"
    and out: "(\<exists>n. classify_outcome env ix rq 0 = (Ok outcome, n)) \<or> (\<exists>r. outcome = Scan_Unavailable r)"
    and res: "classification_result rq outcome = Ok c"
    by (cases "classify_outcome env ix rq 0")
      (auto simp: classify_def split: sum.splits classified_failure.splits)
  moreover have "xmr_classification_new (cr_context rq) (cr_terms rq) (cr_effect rq) (cr_target rq) outcome = Ok c"
    using res by (auto simp: classification_result_def split: sum.splits)
  moreover from this have "xc_outcome c = outcome"
    by (auto simp: xmr_classification_new_def and_then_Inr)
  ultimately show ?thesis by simp
qed

end
