(* ===== verification/Sidecar_Guest.thy ===== *)
theory Sidecar_Guest
  imports Sidecar_Soundness Escrow_Properties
begin

text \<open>
  The observer and the escrow program side by side: the metadata of accepted terms is well
  formed for the program, the program's instructions called with the canonical arguments of an
  effect leave the state the observer expects after it, and a settled escrow commits nothing.
\<close>

section \<open>What the observer relies on\<close>

text \<open>The account of a public key is the one the program derives for a witnessed key.\<close>

definition sidecar_env_ok :: "'d sidecar_env \<Rightarrow> bool" where
  "sidecar_env_ok env \<longleftrightarrow> env_ok (sd_escrow env) \<and>
     (\<forall>key. sd_key_valid env key \<longrightarrow>
        sd_key_account env key = witnessed_account_id (sd_escrow env) key)"

definition authorities_bound :: "'d sidecar_env \<Rightarrow> xmr_terms \<Rightarrow> bool" where
  "authorities_bound env t \<longleftrightarrow>
     witnessed_account_id (sd_escrow env) (xt_claim_aggregate_x_only_public_key t) =
       xt_claim_authority_account_id t \<and>
     witnessed_account_id (sd_escrow env) (xt_refund_aggregate_x_only_public_key t) =
       xt_refund_authority_account_id t"

lemma binding_authorities:
  assumes "sidecar_env_ok env" "validate_xmr_terms_v3_binding env pl context runtime t = Ok ()"
  shows "authorities_bound env t"
  using assms
  by (auto simp: sidecar_env_ok_def authorities_bound_def validate_xmr_terms_v3_binding_def split: if_splits)

lemma planner_check_binding:
  "planner_check env pl rq = Ok () \<Longrightarrow>
     validate_xmr_terms_v3_binding env pl (cr_context rq) (cr_runtime rq) (cr_terms rq) = Ok ()"
  by (auto simp: planner_check_def and_then_Inr)

section \<open>Accepted terms\<close>

lemma validate_terms_input_Ok:
  "validate_terms_input t = Ok u \<longleftrightarrow>
     xt_depositor t = Taker \<and> xt_claimant t = Maker \<and> xt_amount t \<noteq> 0 \<and> xt_refund_at_ms t \<noteq> 0 \<and>
     xt_refund_at_ms t < xt_punish_at_ms t \<and>
     zero32 \<notin> snd ` set (terms_identities t) \<and> distinct (map snd (terms_identities t)) \<and>
     zero32 \<notin> snd ` set (terms_values t) \<and>
     xt_claim_aggregate_x_only_public_key t \<noteq> xt_refund_aggregate_x_only_public_key t \<and>
     xt_maker_dleq_transcript_commitment t \<noteq> xt_taker_dleq_transcript_commitment t \<and>
     zero32 \<notin> snd ` set (terms_message_hashes t) \<and> distinct (map snd (terms_message_hashes t))"
  unfolding validate_terms_input_def
  by (simp add: and_then_Inr validate_distinct_nonzero_Ok validate_nonzero_Ok not_le del: not_less) blast

lemma xmr_terms_new_Ok: "xmr_terms_new t = Ok t' \<longleftrightarrow> t' = t \<and> validate_terms_input t = Ok ()"
  by (auto simp: xmr_terms_new_def and_then_Inr)

text \<open>The adaptor record the terms describe, as the initializer stores it.\<close>

definition adaptor_of :: "xmr_terms \<Rightarrow> xmr_dual_adaptor" where
  "adaptor_of t =
     \<lparr>claim_aggregate_x_only_public_key = xt_claim_aggregate_x_only_public_key t,
      claim_aggregate_account_id = xt_claim_authority_account_id t,
      refund_aggregate_x_only_public_key = xt_refund_aggregate_x_only_public_key t,
      refund_aggregate_account_id = xt_refund_authority_account_id t,
      maker_dleq_transcript_commitment = xt_maker_dleq_transcript_commitment t,
      taker_dleq_transcript_commitment = xt_taker_dleq_transcript_commitment t,
      claim_partial_context_binding = xt_claim_partial_context_binding t,
      claim_partial_commitment = xt_claim_partial_commitment t,
      punish_at = xt_punish_at_ms t\<rparr>"

lemma accepted_authority:
  assumes "xmr_terms_new t = Ok t'" "authorities_bound env t"
  shows "valid_claim_authority (sd_escrow env) (XmrDualAdaptor (adaptor_of t)) (xt_claimant_account_id t)"
proof -
  have v: "xt_refund_at_ms t < xt_punish_at_ms t" "distinct (map snd (terms_identities t))"
    "zero32 \<notin> snd ` set (terms_values t)"
    "xt_claim_aggregate_x_only_public_key t \<noteq> xt_refund_aggregate_x_only_public_key t"
    "xt_maker_dleq_transcript_commitment t \<noteq> xt_taker_dleq_transcript_commitment t"
    using assms(1) by (simp_all add: xmr_terms_new_Ok validate_terms_input_Ok)
  have "xt_punish_at_ms t \<noteq> 0" using v(1) by auto
  with v(2-5) assms(2) show ?thesis
    by (auto simp: adaptor_of_def authorities_bound_def terms_identities_def terms_values_def
        terms_message_hashes_def)
qed

lemma metadata_matches_authority:
  "metadata_matches t m \<Longrightarrow> em_claim_authority m = XmrDualAdaptor (adaptor_of t)"
  by (simp add: metadata_matches_def adaptor_of_def)

lemma accepted_metadata_wf:
  assumes "xmr_terms_new t = Ok t'" "authorities_bound env t" "metadata_matches t m"
  shows "escrow_wf (sd_escrow env) m"
proof -
  have "xt_amount t \<noteq> 0" "xt_refund_at_ms t \<noteq> 0" "xt_refund_at_ms t < xt_punish_at_ms t"
    "xt_activation_commitment t \<noteq> zero32" "xt_depositor_account_id t \<noteq> xt_claimant_account_id t"
    using assms(1)
    by (auto simp: xmr_terms_new_Ok validate_terms_input_Ok terms_values_def terms_identities_def)
  then show ?thesis
    using accepted_authority [OF assms(1,2)] assms(3) metadata_matches_authority [OF assms(3)]
    by (simp add: escrow_wf_def metadata_matches_def is_xmr_def)
qed

section \<open>Settled escrows\<close>

lemma settled_commits_nothing:
  assumes "escrow_inv env m" "settled env m"
  shows "committed env self m c = None"
proof (rule ccontr)
  assume "committed env self m c \<noteq> None"
  then obtain out where out: "committed env self m c = Some out" by auto
  obtain now ins where c: "c = (now, ins)" by (cases c) auto
  obtain s where s: "meta_state env m = Some s" "em_status s \<in> {Claimed, EscrowRefunded}"
    using assms(2) by (auto simp: settled_def split: option.splits)
  from committed_trans [OF assms(1) out [unfolded c]] obtain s' where
    "escrow_trans env now ins (meta_state env m) s' (payouts out)" by blast
  with s escrow_trans_unsettled [of env now ins s s' "payouts out"] show False by simp
qed

section \<open>The program called with canonical arguments\<close>

text \<open>The entry point an encoded instruction reaches, with the accounts after the metadata
  account in the order of the transaction.\<close>

fun guest_call ::
    "zec_escrow_instruction \<Rightarrow> 'd account_with_metadata list \<Rightarrow> 'd escrow_instruction option" where
  "guest_call (Ins_InitializeNativeXmr i th ck rk md td cb pc am rat pat p) [cu, d, c, ca, ra] =
     Some (InitializeNativeXmr cu d c ca ra i th ck rk md td cb pc am rat pat p)"
| "guest_call (Ins_FundNative i) [cu, d] = Some (FundNative cu d i)"
| "guest_call (Ins_AuthorizeNativeXmrClaim i cp) [d] = Some (AuthorizeNativeXmrClaim d i cp)"
| "guest_call (Ins_ClaimNativeXmr i) [cu, c, a] = Some (ClaimNativeXmr cu c a i)"
| "guest_call (Ins_RefundNativeXmr i) [cu, d, a] = Some (RefundNativeXmr cu d a i)"
| "guest_call (Ins_PunishNativeXmr i) [cu, c] = Some (PunishNativeXmr cu c i)"
| "guest_call _ _ = None"

lemma commit_Ok:
  assumes "commit env m s others calls w = Ok out" "env_ok env"
  shows "meta_state env (hd (out_accounts out)) = Some s \<and> out_window out = w"
  using assms by (auto simp: commit_def and_then_Inr write_metadata_def meta_state_def env_ok_def
      split: option.splits)

lemma metadata_matches_status: "metadata_matches t (s\<lparr>em_status := st\<rparr>) = metadata_matches t s"
  by (simp add: metadata_matches_def)

lemma initial_metadata_matches:
  assumes "native_xmr_initial_state env self cu d c (xt_swap_id t) (xt_activation_commitment t)
      (adaptor_of t) (xt_amount t) (xt_refund_at_ms t)
      (program_id_from_hex (xt_authenticated_transfer_program_id t)) = Ok s"
    and "account_id cu = xt_custody_account_id t" "account_id d = xt_depositor_account_id t"
    "account_id c = xt_claimant_account_id t"
  shows "metadata_matches t s \<and> em_status s = Empty"
  using assms
  by (auto simp: native_xmr_initial_state_def native_initial_state_def and_then_Inr metadata_matches_def
      adaptor_of_def xmr_escrow_metadata_version_def split: if_splits)

text \<open>What an effect's execution at time \<open>now\<close> leaves behind, as the observer expects it.\<close>

definition effect_leaves ::
    "'d escrow_env \<Rightarrow> xmr_terms \<Rightarrow> xmr_native_effect \<Rightarrow> u64 \<Rightarrow> escrow_error + 'd spel_output \<Rightarrow> bool" where
  "effect_leaves env t effect now r \<longleftrightarrow>
     (\<forall>out. r = Ok out \<longrightarrow> in_window now (out_window out) \<longrightarrow>
       (\<exists>s. meta_state env (hd (out_accounts out)) = Some s \<and> metadata_matches t s \<and>
            escrow_state_of (em_status s) = fst (effect_state t effect) \<and>
            effect_window_valid t effect now))"

lemma effect_leaves_Err [simp]: "effect_leaves env t effect now (Inl e)"
  by (simp add: effect_leaves_def)

lemma effect_leaves_bind:
  "(\<And>a. r = Ok a \<Longrightarrow> effect_leaves env t effect now (k a)) \<Longrightarrow> effect_leaves env t effect now (and_then r k)"
  by (cases r) simp_all

lemma effect_leaves_commit:
  assumes "env_ok env" "metadata_matches t s" "escrow_state_of (em_status s) = fst (effect_state t effect)"
    "\<And>now. in_window now w \<Longrightarrow> effect_window_valid t effect now"
  shows "effect_leaves env t effect now (commit env m s others calls w)"
  unfolding effect_leaves_def using assms commit_Ok by metis

lemma initialize_leaves:
  assumes "env_ok env" "account_id cu = xt_custody_account_id t"
    "account_id d = xt_depositor_account_id t" "account_id c = xt_claimant_account_id t"
    "account_id ca = xt_claim_authority_account_id t" "account_id ra = xt_refund_authority_account_id t"
    "canonical_instruction t partial Effect_Initialize = Ok ins"
    "guest_call ins [cu, d, c, ca, ra] = Some call"
  shows "effect_leaves env t Effect_Initialize now (execute env self m call)"
proof -
  have call: "execute env self m call = initialize_native_xmr env self m cu d c ca ra (xt_swap_id t)
       (xt_activation_commitment t) (xt_claim_aggregate_x_only_public_key t)
       (xt_refund_aggregate_x_only_public_key t) (xt_maker_dleq_transcript_commitment t)
       (xt_taker_dleq_transcript_commitment t) (xt_claim_partial_context_binding t)
       (xt_claim_partial_commitment t) (xt_amount t) (xt_refund_at_ms t) (xt_punish_at_ms t)
       (program_id_from_hex (xt_authenticated_transfer_program_id t))"
    using assms(7,8) by auto
  show ?thesis
    unfolding call initialize_native_xmr_def assms(5,6) adaptor_of_def [symmetric]
    by (intro effect_leaves_bind effect_leaves_commit assms(1))
      (auto dest: initial_metadata_matches [OF _ assms(2-4)] simp: effect_window_valid_def)
qed

lemma fund_leaves:
  assumes "env_ok env" "meta_state env m = Some s" "metadata_matches t s"
  shows "effect_leaves env t Effect_Fund now (fund_native env self m cu d i)"
  unfolding fund_native_def
  by (intro effect_leaves_bind)
    (auto simp: read_metadata_Ok assms metadata_matches_status effect_window_valid_def
      intro!: effect_leaves_commit)

lemma authorize_leaves:
  assumes "env_ok env" "meta_state env m = Some s" "metadata_matches t s"
  shows "effect_leaves env t Effect_AuthorizeClaim now (authorize_native_xmr_claim env self m d i cp)"
  unfolding authorize_native_xmr_claim_def
  by (intro effect_leaves_bind effect_leaves_commit assms(1))
    (auto simp: validated_xmr_claim_authorization_state_def and_then_Inr read_metadata_Ok assms
      metadata_matches_status effect_window_valid_def split: claim_authority.splits if_splits)

lemma witness_state_Ok:
  assumes "validated_xmr_native_witness_state env m cu r a i purpose = Ok (s', at)"
    "meta_state env m = Some s" "metadata_matches t s"
  shows "s' = s\<lparr>em_status := (case purpose of Purpose_Claim \<Rightarrow> Claimed | Purpose_Refund \<Rightarrow> EscrowRefunded)\<rparr> \<and>
    at = xt_punish_at_ms t"
  using assms metadata_matches_authority [OF assms(3)]
  by (cases purpose)
    (auto simp: validated_xmr_native_witness_state_def and_then_Inr read_metadata_Ok Let_def adaptor_of_def
      split: if_splits)

lemma matches_refund_at: "metadata_matches t s \<Longrightarrow> em_refund_at s = xt_refund_at_ms t"
  by (simp add: metadata_matches_def)

lemma claim_leaves:
  assumes "env_ok env" "meta_state env m = Some s" "metadata_matches t s"
  shows "effect_leaves env t Effect_Claim now (claim_native_xmr env self m cu c a i)"
  unfolding claim_native_xmr_def
  by (intro effect_leaves_bind, split prod.split, intro allI impI effect_leaves_commit assms(1))
    (auto dest!: witness_state_Ok [OF _ assms(2,3)] simp: assms(3) metadata_matches_status effect_window_valid_def)

lemma refund_leaves:
  assumes "env_ok env" "meta_state env m = Some s" "metadata_matches t s"
  shows "effect_leaves env t Effect_Refund now (refund_native_xmr env self m cu d a i)"
proof -
  have out: "effect_leaves env t Effect_Refund now (and_then r (\<lambda>out. if b then Ok out else Err e))"
    if "effect_leaves env t Effect_Refund now r" for r b e
    using that by (cases r; cases b) simp_all
  show ?thesis
    unfolding refund_native_xmr_def
    by (intro effect_leaves_bind, split prod.split, intro allI impI out effect_leaves_commit assms(1))
      (auto dest!: witness_state_Ok [OF _ assms(2,3)]
        simp: assms(3) metadata_matches_status matches_refund_at [OF assms(3)] in_window_def
          effect_window_valid_def)
qed

lemma punish_leaves:
  assumes "env_ok env" "meta_state env m = Some s" "metadata_matches t s"
  shows "effect_leaves env t Effect_Punish now (punish_native_xmr env self m cu c i)"
proof -
  have st: "s' = s\<lparr>em_status := Claimed\<rparr> \<and> at = xt_punish_at_ms t"
    if "validated_xmr_native_punish_state env m cu c i = Ok (s', at)" for s' at
    using that assms(2) metadata_matches_authority [OF assms(3)]
    by (auto simp: validated_xmr_native_punish_state_def and_then_Inr read_metadata_Ok adaptor_of_def
        split: if_splits)
  show ?thesis
    unfolding punish_native_xmr_def
    by (intro effect_leaves_bind, split prod.split, intro allI impI effect_leaves_commit assms(1))
      (auto dest!: st simp: assms(3) metadata_matches_status in_window_def effect_window_valid_def)
qed

text \<open>Any of the six effects, called with its canonical instruction.\<close>

lemma canonical_leaves:
  assumes "env_ok env" "canonical_instruction t partial effect = Ok ins" "guest_call ins accs = Some call"
    and "map account_id accs = tl (effect_accounts t effect)"
    and "effect \<noteq> Effect_Initialize \<Longrightarrow> \<exists>s. meta_state env m = Some s \<and> metadata_matches t s"
  shows "effect_leaves env t effect now (execute env self m call)"
proof (cases "effect = Effect_Initialize")
  case True
  then obtain cu d c ca ra where accs: "accs = [cu, d, c, ca, ra]"
    using assms(4) by (auto simp: map_eq_Cons_conv)
  with assms True show ?thesis by (auto intro!: initialize_leaves)
next
  case False
  with assms(5) obtain s where s: "meta_state env m = Some s" "metadata_matches t s" by blast
  show ?thesis
  proof (cases effect)
    case Effect_Initialize
    with False show ?thesis by simp
  next
    case Effect_Fund
    with assms(2-4) fund_leaves [OF assms(1) s] show ?thesis by (auto simp: map_eq_Cons_conv)
  next
    case Effect_AuthorizeClaim
    with assms(2-4) authorize_leaves [OF assms(1) s] show ?thesis
      by (auto simp: map_eq_Cons_conv and_then_Inr)
  next
    case Effect_Claim
    with assms(2-4) claim_leaves [OF assms(1) s] show ?thesis by (auto simp: map_eq_Cons_conv)
  next
    case Effect_Refund
    with assms(2-4) refund_leaves [OF assms(1) s] show ?thesis by (auto simp: map_eq_Cons_conv)
  next
    case Effect_Punish
    with assms(2-4) punish_leaves [OF assms(1) s] show ?thesis by (auto simp: map_eq_Cons_conv)
  qed
qed

section \<open>Program identifiers\<close>

lemma length_le_bytes [simp]: "length (le_bytes n v) = n"
  by (induction n v rule: le_bytes.induct) simp_all

lemma le_nat_le_bytes: "v < 256 ^ n \<Longrightarrow> le_nat (le_bytes n v) = v"
proof (induction n v rule: le_bytes.induct)
  case (2 n v)
  then have "v div 256 < 256 ^ n" by (simp add: less_mult_imp_div_less mult.commute)
  with 2 show ?case by (simp add: unat_of_nat)
qed simp

lemma le_bytes_le_nat: "le_bytes (length bs) (le_nat bs) = bs"
proof (induction bs)
  case (Cons b bs)
  have "unat b < 256" using unsigned_less [of b, where 'a = nat] by simp
  then have "(unat b + 256 * le_nat bs) mod 256 = unat b" "(unat b + 256 * le_nat bs) div 256 = le_nat bs"
    by simp_all
  with Cons show ?case by simp
qed simp

lemma le_nat_bound: "le_nat bs < 256 ^ length bs"
proof (induction bs)
  case (Cons b bs)
  have "unat b < 256" using unsigned_less [of b, where 'a = nat] by simp
  with Cons show ?case by simp
qed simp

lemma chunks4_append: "length xs = 4 \<Longrightarrow> chunks4 (xs @ rest) = xs # chunks4 rest"
  by (auto simp: length_Suc_conv numeral_eq_Suc)

lemma word_of_four_bytes:
  assumes "length xs = 4"
  shows "le_bytes 4 (unat (word_of_nat (le_nat xs) :: u32)) = xs"
proof -
  have "le_nat xs < 2 ^ 32" using le_nat_bound [of xs] assms by simp
  then show ?thesis using le_bytes_le_nat [of xs] assms by (simp add: unat_of_nat del: le_bytes.simps)
qed

lemma program_id_from_to: "program_id_from_hex (program_id_to_hex p) = p"
proof (induction p)
  case (Cons w p)
  have "unat w < 256 ^ 4" using unsigned_less [of w, where 'a = nat] by simp
  with Cons show ?case
    by (simp add: program_id_from_hex_def program_id_to_hex_def chunks4_append le_nat_le_bytes)
qed (simp add: program_id_from_hex_def program_id_to_hex_def)

lemma program_id_to_from:
  "length h = 4 * n \<Longrightarrow> program_id_to_hex (program_id_from_hex h) = h \<and> length (program_id_from_hex h) = n"
proof (induction n arbitrary: h)
  case (Suc n)
  have h: "h = take 4 h @ drop 4 h" by simp
  have len: "length (take 4 h) = 4" "length (drop 4 h) = 4 * n" using Suc.prems by simp_all
  have "program_id_from_hex h = word_of_nat (le_nat (take 4 h)) # program_id_from_hex (drop 4 h)"
    using chunks4_append [OF len(1), of "drop 4 h"] by (simp add: program_id_from_hex_def)
  moreover have "program_id_to_hex (word_of_nat (le_nat (take 4 h)) # q) = take 4 h @ program_id_to_hex q" for q
    by (simp add: program_id_to_hex_def word_of_four_bytes [OF len(1)])
  ultimately show ?case using Suc.IH [OF len(2)] by simp
qed (simp add: program_id_from_hex_def program_id_to_hex_def)

lemma program_id_inject:
  assumes "length h = 32" "length h' = 32"
  shows "program_id_from_hex h = program_id_from_hex h' \<longleftrightarrow> h = h'"
proof
  assume "program_id_from_hex h = program_id_from_hex h'"
  then have "program_id_to_hex (program_id_from_hex h) = program_id_to_hex (program_id_from_hex h')" by simp
  then show "h = h'" by (simp add: program_id_to_from [of _ 8] assms)
qed simp

lemma program_id_zero: "program_id_from_hex zero32 = default_program_id"
  by code_simp

end
