(* ===== verification/Sidecar_Completeness.thy ===== *)
theory Sidecar_Completeness
  imports Sidecar_Guest
begin

text \<open>
  The classifier finds what is there. A consistent indexer serves one hash-linked chain of
  finalized blocks over the window; when the escrow program executed the effect of a genuine
  transaction of that chain and the indexer reports the accounts as the program left them, the
  window is read, the transaction becomes the candidate, its facts pass the validation of the
  result, and the classification is returned as found.
\<close>

section \<open>A consistent indexer\<close>

definition serves :: "'d indexer_view \<Rightarrow> block list \<Rightarrow> bool" where
  "serves v bs \<longleftrightarrow>
     (\<forall>b\<in>set bs. iv_block_by_id v (height b) = Ok (Some b) \<and>
        iv_block_by_hash v (bh_hash (bk_header b)) = Ok (Some b) \<and> bk_finalized b)"

lemma read_served_block:
  "serves v bs \<Longrightarrow> b \<in> set bs \<Longrightarrow> read_finalized_block (\<lambda>_. v) (height b) n = (Ok b, n + 2)"
  by (simp add: read_finalized_block_Ok saw_block_def serves_def)

lemma read_served_blocks:
  assumes "serves v bs" "hash_linked bs"
    "previous = None \<or> bs = [] \<or> previous = Some (bh_prev_block_hash (bk_header (hd bs)))"
  shows "read_blocks (\<lambda>_. v) previous (map height bs) n = (Ok bs, n + 2 * length bs)"
  using assms
proof (induction bs arbitrary: previous n)
  case Nil
  then show ?case by (simp add: pure_def)
next
  case (Cons b bs)
  have s: "serves v bs" using Cons.prems(1) by (simp add: serves_def)
  have b: "read_finalized_block (\<lambda>_. v) (height b) n = (Ok b, n + 2)"
    using Cons.prems(1) by (intro read_served_block [of v "b # bs"]) simp_all
  have "hash_linked bs" using Cons.prems(2) by (cases bs) simp_all
  moreover have "bs = [] \<or> Some (bh_hash (bk_header b)) = Some (bh_prev_block_hash (bk_header (hd bs)))"
    using Cons.prems(2) by (cases bs) simp_all
  ultimately have rest: "read_blocks (\<lambda>_. v) (Some (bh_hash (bk_header b))) (map height bs) (n + 2) =
      (Ok bs, n + 2 + 2 * length bs)"
    using s by (intro Cons.IH) blast+
  from Cons.prems(3) b rest show ?case by (auto simp: ask_then_def pure_def)
qed

lemma height_range_facts:
  assumes "s \<le> e"
  shows "distinct (height_range s e)" "last (height_range s e) = e" "height_range s e \<noteq> []"
proof -
  have le: "unat s \<le> unat e" using assms by (simp add: word_le_nat_alt)
  have inj: "inj_on (word_of_nat :: nat \<Rightarrow> u64) {unat s..<Suc (unat e)}"
  proof
    fix x y
    assume "x \<in> {unat s..<Suc (unat e)}" "y \<in> {unat s..<Suc (unat e)}"
      and eq: "(word_of_nat x :: u64) = word_of_nat y"
    then have "x < 2 ^ 64" "y < 2 ^ 64" using unsigned_less [of e, where 'a = nat] by auto
    with arg_cong [OF eq, of unat] show "x = y" by (simp add: unat_of_nat)
  qed
  show "distinct (height_range s e)" using inj by (simp add: height_range_def distinct_map del: upt_Suc)
  show "last (height_range s e) = e" "height_range s e \<noteq> []" using le by (simp_all add: height_range_def)
qed

lemma sorted_last_max: "sorted (map f xs) \<Longrightarrow> x \<in> set xs \<Longrightarrow> f x \<le> f (last xs)"
  by (induction xs) (auto split: if_splits)

lemma find_distinct:
  "distinct (map f xs) \<Longrightarrow> x \<in> set xs \<Longrightarrow> find (\<lambda>y. f y = f x) xs = Some x"
  by (induction xs) (auto simp: image_iff)

text \<open>A window the indexer serves consistently, as the classifier holds it.\<close>

definition served_window :: "discovery_window \<Rightarrow> block list \<Rightarrow> stable_xmr_window" where
  "served_window w bs = \<lparr>sw_blocks = bs, sw_requested_end = window_end w,
     sw_finalized_clock = block_clock (last bs)\<rparr>"

definition consistent_view :: "'d indexer_view \<Rightarrow> discovery_window \<Rightarrow> block list \<Rightarrow> bool" where
  "consistent_view v w bs \<longleftrightarrow>
     discovery_window_new (dw_start_height w) (dw_max_blocks w) = Ok w \<and>
     serves v bs \<and> hash_linked bs \<and>
     map height bs = height_range (dw_start_height w) (window_end w) \<and>
     (\<exists>tip. iv_last_finalized_block_id v = Ok (Some tip) \<and> window_end w \<le> tip)"

lemma window_start_le_end:
  assumes "discovery_window_new s m = Ok w"
  shows "dw_start_height w \<le> window_end w"
  using unat_window_end [OF assms] by (simp add: word_le_nat_alt)

lemma consistent_blocks:
  assumes "consistent_view v w bs"
  shows "bs \<noteq> []" "distinct (map height bs)" "height (last bs) = window_end w"
proof -
  have le: "dw_start_height w \<le> window_end w" and hs: "map height bs = height_range (dw_start_height w) (window_end w)"
    using assms by (auto simp: consistent_view_def intro: window_start_le_end)
  show "distinct (map height bs)" using height_range_facts(1) [OF le] hs by simp
  show ne: "bs \<noteq> []" using height_range_facts(3) [OF le] hs by auto
  from ne have "height (last bs) = last (map height bs)" by (simp add: last_map)
  with height_range_facts(2) [OF le] hs show "height (last bs) = window_end w" by simp
qed

lemma read_consistent_window:
  assumes "consistent_view v w bs"
  shows "\<exists>n'. read_window (\<lambda>_. v) w n = (Ok (served_window w bs), n')"
proof -
  from assms obtain tip where tip: "iv_last_finalized_block_id v = Ok (Some tip)" "\<not> tip < window_end w"
    and sv: "serves v bs" "hash_linked bs"
    and hs: "height_range (dw_start_height w) (window_end w) = map height bs"
    and dw: "discovery_window_new (dw_start_height w) (dw_max_blocks w) = Ok w"
    by (auto simp: consistent_view_def)
  have add: "checked_add (dw_start_height w) (ucast (saturating_pred (dw_max_blocks w))) = Some (window_end w)"
    using dw by (auto simp: discovery_window_new_Ok checked_add_Some window_end_def unat_ucast_u64
        unat_saturating_pred)
  have lastb: "read_finalized_block (\<lambda>_. v) (window_end w) k = (Ok (last bs), k + 2)" for k
    using read_served_block [OF sv(1), of "last bs" k] consistent_blocks [OF assms] by simp
  show ?thesis
    using consistent_blocks(1) [OF assms] tip
    by (simp add: read_window_def last_finalized_def ask_then_def request_def pure_def some_or_def add hs
        read_served_blocks [OF sv] lastb served_window_def)
qed

lemma confirm_served_block:
  assumes "consistent_view v w bs" "b \<in> set bs"
  shows "confirm_block (\<lambda>_. v) (served_window w bs) (height b) n = (Ok (), n + 2)"
proof -
  have "stable_block (served_window w bs) (height b) = Ok b"
    using find_distinct [OF consistent_blocks(2) [OF assms(1)] assms(2)]
    by (simp add: stable_block_def served_window_def some_or_def)
  moreover have "read_finalized_block (\<lambda>_. v) (height b) n = (Ok b, n + 2)"
    using assms by (intro read_served_block) (simp_all add: consistent_view_def)
  ultimately show ?thesis by (simp add: confirm_block_def ask_then_def pure_def)
qed

lemma confirm_served_both:
  assumes "consistent_view v w bs" "b \<in> set bs"
  shows "\<exists>n'. confirm_both (\<lambda>_. v) (served_window w bs) (height b) n = (Ok (), n')"
proof -
  have "last bs \<in> set bs" using consistent_blocks(1) [OF assms(1)] by simp
  then have "confirm_block (\<lambda>_. v) (served_window w bs) (window_end w) k = (Ok (), k + 2)" for k
    using confirm_served_block [OF assms(1), of "last bs" k] consistent_blocks(3) [OF assms(1)] by simp
  moreover obtain tip where "iv_last_finalized_block_id v = Ok (Some tip)" "\<not> tip < window_end w"
    using assms(1) by (auto simp: consistent_view_def)
  ultimately show ?thesis
    by (simp add: confirm_both_def confirm_finalized_coverage_def confirm_requested_end_def
        last_finalized_def ask_then_def request_def pure_def some_or_def served_window_def
        confirm_served_block [OF assms, unfolded served_window_def])
qed

text \<open>The escrow accounts a consistent indexer reports after an effect.\<close>

definition effect_state_served ::
    "'d sidecar_env \<Rightarrow> 'd indexer_view \<Rightarrow> xmr_terms \<Rightarrow> xmr_native_effect \<Rightarrow> u64 \<Rightarrow> bool" where
  "effect_state_served env v t effect block_id \<longleftrightarrow>
     (\<exists>a c. iv_account_at_block v (xt_metadata_account_id t) block_id = Ok (Hist_Present a) \<and>
        iv_account_at_block v (xt_custody_account_id t) block_id = Ok (Hist_Present c) \<and>
        validate_metadata env t a = Ok (fst (effect_state t effect)) \<and>
        validate_custody t c (snd (effect_state t effect)) = Ok ())"

lemma state_balance_effect: "state_balance t (fst (effect_state t effect)) = snd (effect_state t effect)"
  by (cases effect) simp_all

lemma excluding_not_expected: "terminal_state_excluding effect \<noteq> Some (fst (effect_state t effect))"
  by (cases effect) simp_all

lemma served_effect_state:
  assumes "effect_state_served env v t effect block_id"
  shows "\<exists>mc n'. read_effect_state env (\<lambda>_. v) t effect block_id n = (Ok mc, n')"
    "\<exists>n'. validate_missing_state env (\<lambda>_. v) t block_id n = (Ok (Some (fst (effect_state t effect))), n')"
  using assms
  by (auto simp: effect_state_served_def read_effect_state_def validate_missing_state_def ask_then_def
      read_accounts_def pure_def check_def state_balance_effect)

lemma served_not_excluded:
  assumes "effect_state_served env v (cr_terms rq) (cr_effect rq) (bh_block_id (ec_block c))"
  shows "\<exists>n'. excluded_by_terminal env (\<lambda>_. v) rq c win n = (Ok False, n')"
proof (cases "terminal_state_excluding (cr_effect rq)")
  case None
  then show ?thesis by (simp add: excluded_by_terminal_def pure_def)
next
  case (Some s)
  with excluding_not_expected have "fst (effect_state (cr_terms rq) (cr_effect rq)) \<noteq> s" by metis
  with Some served_effect_state(2) [OF assms, of n] show ?thesis
    by (auto simp: excluded_by_terminal_def terminal_state_at_candidate_and_end_def ask_then_def pure_def)
qed

definition found_facts :: "classify_request \<Rightarrow> block \<Rightarrow> effect_candidate \<Rightarrow> xmr_effect_facts" where
  "found_facts rq b c =
     \<lparr>xf_transaction = ec_transaction c, xf_instruction = ec_instruction c,
      xf_aggregate_signature = ec_aggregate_signature c,
      xf_containing_block = containing_block (bk_header b),
      xf_metadata = metadata_from_terms (cr_terms rq) (fst (effect_state (cr_terms rq) (cr_effect rq))),
      xf_custody = native_custody_facts_new (xt_custody_account_id (cr_terms rq))
        (xt_authenticated_transfer_program_id (cr_terms rq))
        (snd (effect_state (cr_terms rq) (cr_effect rq)))\<rparr>"

lemma served_effect_found:
  assumes "consistent_view v (cr_window rq) bs" and "b \<in> set bs"
    and "filter (relevant env rq) (window_transactions bs) = [(bk_header b, index, tx)]"
    and "select_transaction env rq tx = Ok (Some (p, expected))"
    and "effect_candidate_of env (cr_terms rq) (cr_effect rq) expected p (bk_header b) index = Ok c"
    and "ec_effect_window_valid c"
    and "effect_state_served env v (cr_terms rq) (cr_effect rq) (height b)"
  shows "\<exists>n. classify_outcome env (\<lambda>_. v) rq 0 =
      (Ok (Scan_Found (block_clock (last bs)) (cr_window rq) (found_facts rq b c)), n)"
proof -
  let ?win = "served_window (cr_window rq) bs"
  have blk: "ec_block c = bk_header b" using effect_candidate_Ok [OF assms(5)] by simp
  have scan: "scan_blocks env rq bs None = Ok (Some c)"
    using assms(3-5) by (simp add: scan_blocks_Ok sole_candidate_def)
  obtain n1 where n1: "read_window (\<lambda>_. v) (cr_window rq) 0 = (Ok ?win, n1)"
    using read_consistent_window [OF assms(1)] by blast
  obtain n2 where n2: "excluded_by_terminal env (\<lambda>_. v) rq c ?win (n1 + 2) = (Ok False, n2)"
    using served_not_excluded [of env v rq c] assms(7) blk by metis
  obtain mc n3 where n3: "read_effect_state env (\<lambda>_. v) (cr_terms rq) (cr_effect rq) (height b) n2 = (Ok mc, n3)"
    using served_effect_state(1) [OF assms(7)] by blast
  obtain n4 where n4: "confirm_both (\<lambda>_. v) ?win (height b) n3 = (Ok (), n4)"
    using confirm_served_both [OF assms(1,2)] by blast
  have "scan_effect env (\<lambda>_. v) rq 0 = (Ok (Some c, ?win), n1 + 2)"
    using confirm_served_block [OF assms(1,2)] scan n1
    by (simp add: scan_effect_def ask_then_def pure_def blk served_window_def)
  then show ?thesis
    using n2 n3 n4 assms(6) read_effect_state_Ok [OF n3]
    by (simp add: classify_outcome_def found_outcome_def ask_then_def pure_def blk served_window_def Let_def found_facts_def)
qed

section \<open>A transaction that took effect\<close>

text \<open>The transactions that have nothing to do with a request.\<close>

definition unrelated :: "'d sidecar_env \<Rightarrow> classify_request \<Rightarrow> indexed_transaction \<Rightarrow> bool" where
  "unrelated env rq tx \<longleftrightarrow>
     (case cr_target rq of
        Target_Exact target \<Rightarrow> TransactionId (indexed_hash tx) \<noteq> pt_transaction_id target
      | Target_DiscoverByTerms \<Rightarrow>
          (case tx of
             Indexed_Private _ \<Rightarrow> True
           | Indexed_Public p \<Rightarrow>
               om_program_id (iq_message p) \<noteq> program_id_from_hex (xt_escrow_program_id (cr_terms rq)) \<or>
               (\<exists>ins. sd_decode_instruction env (om_instruction_data (iq_message p)) = Some ins \<and>
                  (\<forall>partial. canonical_instruction (cr_terms rq) partial (cr_effect rq) \<noteq> Ok ins))))"

text \<open>A well-formed public transaction, reported under its own hash.\<close>

definition genuine_transaction :: "'d sidecar_env \<Rightarrow> indexed_public \<Rightarrow> bool" where
  "genuine_transaction env p \<longleftrightarrow>
     iq_proof p = None \<and> iq_hash p = sd_tx_hash env (transaction_of p) \<and>
     sd_stateless_ok env (transaction_of p) \<and> list_all (\<lambda>(_, key). sd_key_valid env key) (iq_witnesses p) \<and>
     length (om_nonces (iq_message p)) = 1 \<and> sd_message_hash env (iq_message p) \<noteq> zero32 \<and>
     sd_tx_bytes env (transaction_of p) \<noteq> [] \<and>
     length (sd_tx_bytes env (transaction_of p)) \<le> max_transaction_bytes"

text \<open>The transaction carries the effect of the terms: the agreed message, accounts and signer.\<close>

definition carries_effect ::
    "'d sidecar_env \<Rightarrow> xmr_terms \<Rightarrow> xmr_native_effect \<Rightarrow> zec_escrow_instruction \<Rightarrow> indexed_public \<Rightarrow> bool" where
  "carries_effect env t effect ins p \<longleftrightarrow>
     (\<exists>partial. canonical_instruction t partial effect = Ok ins) \<and>
     sd_encode_instruction env ins = Some (om_instruction_data (iq_message p)) \<and>
     sd_decode_instruction env (om_instruction_data (iq_message p)) = Some ins \<and>
     om_program_id (iq_message p) = program_id_from_hex (xt_escrow_program_id t) \<and>
     om_account_ids (iq_message p) = effect_accounts t effect \<and>
     map (\<lambda>(_, key). sd_key_account env key) (iq_witnesses p) = [effect_signer t effect] \<and>
     (\<forall>hash. expected_message_hash t effect = Some hash \<longrightarrow> sd_message_hash env (iq_message p) = hash) \<and>
     (\<forall>key hash. witness_key t effect = Some (key, hash) \<longrightarrow> map snd (iq_witnesses p) = [key])"

text \<open>The escrow program ran the instruction on the metadata account \<open>m\<close> and left \<open>m'\<close>.\<close>

definition executed_on ::
    "'d escrow_env \<Rightarrow> program_id \<Rightarrow> xmr_terms \<Rightarrow> xmr_native_effect \<Rightarrow> zec_escrow_instruction \<Rightarrow> u64
     \<Rightarrow> 'd account_with_metadata \<Rightarrow> 'd account_with_metadata \<Rightarrow> bool" where
  "executed_on env self t effect ins now m m' \<longleftrightarrow>
     (effect = Effect_Initialize \<or> (\<exists>s. meta_state env m = Some s \<and> metadata_matches t s)) \<and>
     (\<exists>accs call out. guest_call ins accs = Some call \<and>
        map account_id accs = tl (effect_accounts t effect) \<and>
        committed env self m (now, call) = Some out \<and> m' = escrow_step env self m (now, call))"

text \<open>The indexer reports the metadata \<open>m'\<close> holds and the balance the effect leaves in custody.\<close>

definition accounts_served ::
    "'d indexer_view \<Rightarrow> xmr_terms \<Rightarrow> xmr_native_effect \<Rightarrow> u64 \<Rightarrow> 'd account_with_metadata \<Rightarrow> bool" where
  "accounts_served v t effect block_id m' \<longleftrightarrow>
     (\<exists>a c. iv_account_at_block v (xt_metadata_account_id t) block_id = Ok (Hist_Present a) \<and>
        acc_data a = acc_data (account m') \<and>
        acc_program_owner a = program_id_from_hex (xt_escrow_program_id t) \<and>
        iv_account_at_block v (xt_custody_account_id t) block_id = Ok (Hist_Present c) \<and>
        acc_program_owner c = program_id_from_hex (xt_authenticated_transfer_program_id t) \<and>
        acc_balance c = snd (effect_state t effect))"

lemma canonical_calls:
  assumes "may_discover role effect"
  shows "(\<exists>partial. canonical_instruction t partial effect = Ok ins) \<longleftrightarrow>
    (case (effect, ins) of
       (Effect_AuthorizeClaim, Ins_AuthorizeNativeXmrClaim swap_id _) \<Rightarrow> swap_id = xt_swap_id t
     | (Effect_Claim, Ins_ClaimNativeXmr swap_id) \<Rightarrow> swap_id = xt_swap_id t
     | (Effect_Refund, Ins_RefundNativeXmr swap_id) \<Rightarrow> swap_id = xt_swap_id t
     | (Effect_Punish, Ins_PunishNativeXmr swap_id) \<Rightarrow> swap_id = xt_swap_id t
     | _ \<Rightarrow> False)"
proof (cases "effect = Effect_AuthorizeClaim")
  case True
  then show ?thesis by (cases ins) (auto simp: and_then_Inr some_or_Ok)
next
  case False
  with assms show ?thesis by (cases role; cases effect; cases ins) auto
qed

lemma matches_discovery_False:
  assumes "may_discover role effect"
  shows "matches_discovery_terms env t effect p = Ok False \<longleftrightarrow>
    om_program_id (iq_message p) \<noteq> program_id_from_hex (xt_escrow_program_id t) \<or>
    (\<exists>ins. sd_decode_instruction env (om_instruction_data (iq_message p)) = Some ins \<and>
       (\<forall>partial. canonical_instruction t partial effect \<noteq> Ok ins))"
  unfolding matches_discovery_terms_def decode_ins_def some_or_def canonical_calls [OF assms, symmetric]
  by (cases "sd_decode_instruction env (om_instruction_data (iq_message p))")
    (simp_all del: canonical_instruction.simps)

lemma relevant_related:
  assumes "cr_target rq = Target_DiscoverByTerms \<Longrightarrow> may_discover role (cr_effect rq)"
  shows "relevant env rq x \<longleftrightarrow> \<not> unrelated env rq (snd (snd x))"
proof (cases "cr_target rq")
  case (Target_Exact target)
  then show ?thesis
    by (cases "pt_transaction_id target")
      (auto simp: relevant_def unrelated_def select_transaction_def split: indexed_transaction.split)
next
  case Target_DiscoverByTerms
  have "and_then r (\<lambda>b. Ok (if b then Some y else None)) = Ok None \<longleftrightarrow> r = Ok False"
    for r :: "classified_failure + bool" and y :: "indexed_public \<times> prepared_transaction option"
    by (cases r) auto
  with matches_discovery_False [OF assms [OF Target_DiscoverByTerms], of env] Target_DiscoverByTerms show ?thesis
    by (cases "snd (snd x)") (simp_all add: relevant_def unrelated_def select_transaction_def)
qed

lemma planner_discovers:
  "planner_check env pl rq = Ok () \<Longrightarrow> cr_target rq = Target_DiscoverByTerms \<Longrightarrow>
     may_discover (pl_role pl) (cr_effect rq)"
  by (auto simp: planner_check_def validate_xmr_effect_discovery_v3_def and_then_Inr split: if_splits)

text \<open>An authorization the program accepted publishes the committed partial signature.\<close>

lemma executed_partial:
  assumes "executed_on (sd_escrow env) self t Effect_AuthorizeClaim ins now m m'"
    and "canonical_instruction t partial Effect_AuthorizeClaim = Ok ins"
  obtains cp where "ins = Ins_AuthorizeNativeXmrClaim (xt_swap_id t) cp" "cp \<noteq> zero32"
    "xmr_claim_partial_matches_terms env t cp"
proof -
  obtain cp where ins: "ins = Ins_AuthorizeNativeXmrClaim (xt_swap_id t) cp"
    using assms(2) by (auto simp: and_then_Inr)
  obtain s d out where s: "meta_state (sd_escrow env) m = Some s" "metadata_matches t s"
    and out: "committed (sd_escrow env) self m (now, AuthorizeNativeXmrClaim d (xt_swap_id t) cp) = Some out"
    using assms(1) by (auto simp: executed_on_def ins map_eq_Cons_conv)
  have "cp \<noteq> zero32 \<and> xmr_claim_partial_commitment (sd_escrow env) (xt_claim_partial_context_binding t) cp =
      xt_claim_partial_commitment t"
    using out s(1) metadata_matches_authority [OF s(2)]
    by (auto simp: committed_def authorize_native_xmr_claim_def and_then_Inr read_metadata_Ok adaptor_of_def
        validated_xmr_claim_authorization_state_def split: sum.splits if_splits)
  with that ins show ?thesis
    by (auto simp: xmr_claim_partial_matches_terms_def xmr_claim_partial_commitment_def
        xmr_claim_partial_domain_def)
qed

text \<open>What the program left is what the observer validates.\<close>

lemma executed_state_served:
  assumes "env_ok (sd_escrow env)" and "carries_effect env t effect ins p"
    and "executed_on (sd_escrow env) self t effect ins now m m'"
    and "accounts_served v t effect block_id m'"
  shows "effect_state_served env v t effect block_id" "effect_window_valid t effect now"
proof -
  from assms(3) obtain accs call out where call: "guest_call ins accs = Some call"
      "map account_id accs = tl (effect_accounts t effect)"
    and out: "committed (sd_escrow env) self m (now, call) = Some out"
    and m': "m' = escrow_step (sd_escrow env) self m (now, call)"
    and pre: "effect = Effect_Initialize \<or> (\<exists>s. meta_state (sd_escrow env) m = Some s \<and> metadata_matches t s)"
    unfolding executed_on_def by blast
  from assms(2) obtain partial where "canonical_instruction t partial effect = Ok ins"
    unfolding carries_effect_def by blast
  from canonical_leaves [OF assms(1) this call] pre
  have "effect_leaves (sd_escrow env) t effect now (execute (sd_escrow env) self m call)" by blast
  with out obtain s where "meta_state (sd_escrow env) m' = Some s" "metadata_matches t s"
      "escrow_state_of (em_status s) = fst (effect_state t effect)"
    and win: "effect_window_valid t effect now"
    by (auto simp: effect_leaves_def m' escrow_step_def committed_def split: sum.splits if_splits)
  then show "effect_state_served env v t effect block_id"
    using assms(4)
    by (auto simp: accounts_served_def effect_state_served_def meta_state_def validate_metadata_Ok
        validate_custody_def check_def)
  show "effect_window_valid t effect now" by (rule win)
qed

section \<open>The candidate and its facts\<close>

fun carried_partial :: "zec_escrow_instruction \<Rightarrow> bytes option" where
  "carried_partial (Ins_AuthorizeNativeXmrClaim _ cp) = Some cp"
| "carried_partial _ = None"

definition carried_candidate ::
    "'d sidecar_env \<Rightarrow> xmr_terms \<Rightarrow> xmr_native_effect \<Rightarrow> zec_escrow_instruction \<Rightarrow> bytes option
     \<Rightarrow> indexed_public \<Rightarrow> block_header \<Rightarrow> nat \<Rightarrow> effect_candidate" where
  "carried_candidate env t effect ins signature p header index =
     \<lparr>ec_transaction = \<lparr>ot_transaction_id = TransactionId (iq_hash p),
        ot_exact_bytes = sd_tx_bytes env (transaction_of p),
        ot_position = \<lparr>bp_block_hash = bh_hash header, bp_height = bh_block_id header,
          bp_transaction_index = word_of_nat index\<rparr>,
        ot_signer_account_ids = [effect_signer t effect], ot_is_public = True\<rparr>,
      ec_instruction = \<lparr>xi_effect = effect, xi_program_id = xt_escrow_program_id t,
        xi_ordered_account_ids = effect_accounts t effect, xi_swap_id = xt_swap_id t,
        xi_message_hash = sd_message_hash env (iq_message p),
        xi_published_claim_partial = carried_partial ins\<rparr>,
      ec_aggregate_signature = signature, ec_block = header,
      ec_effect_window_valid = effect_window_valid t effect (bh_timestamp header)\<rparr>"

lemma carried_instruction:
  assumes "carries_effect env t effect ins p"
    and "executed_on (sd_escrow env) self t effect ins now m m'"
  shows "published_partial env t effect ins = Ok (carried_partial ins)"
    "canonical_instruction t (carried_partial ins) effect = Ok ins"
    "carried_partial ins \<noteq> Some zero32" "carried_partial ins \<noteq> None \<longleftrightarrow> effect = Effect_AuthorizeClaim"
proof -
  from assms(1) obtain partial where can: "canonical_instruction t partial effect = Ok ins"
    unfolding carries_effect_def by blast
  have "published_partial env t effect ins = Ok (carried_partial ins) \<and>
    canonical_instruction t (carried_partial ins) effect = Ok ins \<and>
    carried_partial ins \<noteq> Some zero32 \<and> (carried_partial ins \<noteq> None \<longleftrightarrow> effect = Effect_AuthorizeClaim)"
  proof (cases "effect = Effect_AuthorizeClaim")
    case True
    from executed_partial [OF assms(2) [unfolded True] can [unfolded True]] obtain cp where
      "ins = Ins_AuthorizeNativeXmrClaim (xt_swap_id t) cp" "cp \<noteq> zero32"
      "xmr_claim_partial_matches_terms env t cp" by blast
    then show ?thesis by (simp add: True published_partial_def some_or_def)
  next
    case False
    then have "carried_partial ins = None" using can by (cases effect) auto
    moreover have "canonical_instruction t None effect = canonical_instruction t partial effect"
      using False by (cases effect) simp_all
    ultimately show ?thesis using can False by (simp add: published_partial_def)
  qed
  then show "published_partial env t effect ins = Ok (carried_partial ins)"
    "canonical_instruction t (carried_partial ins) effect = Ok ins"
    "carried_partial ins \<noteq> Some zero32" "carried_partial ins \<noteq> None \<longleftrightarrow> effect = Effect_AuthorizeClaim"
    by blast+
qed

lemma carried_witness:
  assumes "carries_effect env t effect ins p"
  obtains signature where "effect_witness env t effect (transaction_of p) = Ok signature"
    "signature \<noteq> None \<longleftrightarrow> effect \<in> {Effect_Claim, Effect_Refund}"
proof -
  from assms obtain sig key where w: "iq_witnesses p = [(sig, key)]"
    by (auto simp: carries_effect_def map_eq_Cons_conv)
  show ?thesis
    using assms that by (cases effect) (auto simp: effect_witness_def carries_effect_def w)
qed

lemma carried_candidate_found:
  assumes "xmr_terms_new t = Ok t'" and "genuine_transaction env p" and "carries_effect env t effect ins p"
    and "executed_on (sd_escrow env) self t effect ins now m m'" and "index < 2 ^ 32"
    and "expected = None \<or> expected = Some \<lparr>pt_transaction_id = TransactionId (iq_hash p),
      pt_exact_bytes = sd_tx_bytes env (transaction_of p)\<rparr>"
    and "effect_witness env t effect (transaction_of p) = Ok signature"
  shows "effect_candidate_of env t effect expected p header index =
    Ok (carried_candidate env t effect ins signature p header index)"
proof -
  have t: "xt_escrow_program_id t \<noteq> zero32" "xt_swap_id t \<noteq> zero32"
    using assms(1) by (auto simp: xmr_terms_new_Ok validate_terms_input_Ok terms_identities_def terms_values_def)
  have few: "account_ids_new (effect_accounts t effect) = Ok (effect_accounts t effect)"
    "account_ids_new [effect_signer t effect] = Ok [effect_signer t effect]" "effect_accounts t effect \<noteq> []"
    by (cases effect; simp add: account_ids_new_def max_account_ids_def)+
  have facts: "xmr_instruction_facts_new effect (xt_escrow_program_id t) (effect_accounts t effect)
      (xt_swap_id t) (sd_message_hash env (iq_message p)) (carried_partial ins) =
    Ok \<lparr>xi_effect = effect, xi_program_id = xt_escrow_program_id t,
        xi_ordered_account_ids = effect_accounts t effect, xi_swap_id = xt_swap_id t,
        xi_message_hash = sd_message_hash env (iq_message p),
        xi_published_claim_partial = carried_partial ins\<rparr>"
    using carried_instruction(3,4) [OF assms(3,4)] t few(3) assms(2)
    by (cases "carried_partial ins")
      (auto simp: xmr_instruction_facts_new_def genuine_transaction_def and_then_def ensure_fact_def)
  show ?thesis
    using assms(2,3,5-7) few facts carried_instruction(1,2) [OF assms(3,4)]
    unfolding effect_candidate_of_def carried_candidate_def genuine_transaction_def carries_effect_def
    by (auto simp: check_def decode_indexed_public_def prepared_from_transaction_def as_observation_def
        exact_transaction_bytes_new_def decode_ins_def some_or_def
        simp del: effect_accounts.simps effect_signer.simps)
qed

text \<open>An exact target names the transaction by its identifier and bytes.\<close>

definition names_target :: "'d sidecar_env \<Rightarrow> classify_request \<Rightarrow> indexed_public \<Rightarrow> bool" where
  "names_target env rq p \<longleftrightarrow>
     (case cr_target rq of
        Target_Exact target \<Rightarrow> target = \<lparr>pt_transaction_id = TransactionId (iq_hash p),
          pt_exact_bytes = sd_tx_bytes env (transaction_of p)\<rparr>
      | Target_DiscoverByTerms \<Rightarrow> True)"

lemma carried_selected:
  assumes "planner_check env pl rq = Ok ()" and "names_target env rq p"
    and "carries_effect env (cr_terms rq) (cr_effect rq) ins p"
  obtains expected where "select_transaction env rq (Indexed_Public p) = Ok (Some (p, expected))"
    "expected = None \<or> expected = Some \<lparr>pt_transaction_id = TransactionId (iq_hash p),
      pt_exact_bytes = sd_tx_bytes env (transaction_of p)\<rparr>"
proof (cases "cr_target rq")
  case (Target_Exact target)
  with assms(2) that show ?thesis by (auto simp: names_target_def select_transaction_def)
next
  case Target_DiscoverByTerms
  note may = planner_discovers [OF assms(1) this]
  have "matches_discovery_terms env (cr_terms rq) (cr_effect rq) p \<noteq> Ok False"
    using assms(3) unfolding matches_discovery_False [OF may] carries_effect_def by auto
  moreover have "is_ok (matches_discovery_terms env (cr_terms rq) (cr_effect rq) p)"
    using assms(3) by (simp add: matches_discovery_terms_def carries_effect_def decode_ins_def some_or_def)
  ultimately have "matches_discovery_terms env (cr_terms rq) (cr_effect rq) p = Ok True"
    by (cases "matches_discovery_terms env (cr_terms rq) (cr_effect rq) p") auto
  with Target_DiscoverByTerms that show ?thesis by (simp add: select_transaction_def)
qed

lemma carried_placement:
  assumes "consistent_view v (cr_window rq) bs" and "b \<in> set bs" and "names_target env rq p"
    and "bh_timestamp (bk_header b) \<le> bh_timestamp (bk_header (last bs))"
  shows "validate_finalized_placement (cr_target rq) (block_clock (last bs)) (cr_window rq)
    (found_facts rq b (carried_candidate env t effect ins signature p (bk_header b) index)) = Ok ()"
proof -
  have "height b \<in> set (map height bs)" using assms(2) by simp
  then have "dw_start_height (cr_window rq) \<le> height b" "height b \<le> window_end (cr_window rq)"
    using assms(1) by (simp_all only: consistent_view_def set_height_range)
  then show ?thesis
    using assms(3,4) consistent_blocks(3) [OF assms(1)]
    by (cases "cr_target rq")
      (simp_all add: validate_finalized_placement_def validate_scan_coverage_def ensure_fact_def
        found_facts_def carried_candidate_def containing_block_def block_clock_def names_target_def Let_def)
qed

lemma carried_facts_valid:
  assumes "xmr_terms_new (cr_terms rq) = Ok t" and "genuine_transaction env p"
    and "carries_effect env (cr_terms rq) (cr_effect rq) ins p"
    and "executed_on (sd_escrow env) self (cr_terms rq) (cr_effect rq) ins now m m'"
    and "signature \<noteq> None \<longleftrightarrow> cr_effect rq \<in> {Effect_Claim, Effect_Refund}"
    and "effect_window_valid (cr_terms rq) (cr_effect rq) (bh_timestamp (bk_header b))"
    and "validate_finalized_placement (cr_target rq) clock (cr_window rq)
      (found_facts rq b (carried_candidate env (cr_terms rq) (cr_effect rq) ins signature p (bk_header b) index)) = Ok ()"
  shows "validate_finalized_facts (cr_terms rq) (cr_effect rq) (cr_target rq) clock (cr_window rq)
    (found_facts rq b (carried_candidate env (cr_terms rq) (cr_effect rq) ins signature p (bk_header b) index)) = Ok ()"
proof -
  have t: "xt_escrow_program_id (cr_terms rq) \<noteq> zero32" "xt_swap_id (cr_terms rq) \<noteq> zero32"
    using assms(1) by (auto simp: xmr_terms_new_Ok validate_terms_input_Ok terms_identities_def terms_values_def)
  have hash: "sd_message_hash env (iq_message p) \<noteq> zero32"
    "\<And>h. expected_message_hash (cr_terms rq) (cr_effect rq) = Some h \<Longrightarrow> sd_message_hash env (iq_message p) = h"
    using assms(2,3) by (simp_all add: genuine_transaction_def carries_effect_def)
  note partial = carried_instruction(3,4) [OF assms(3,4)]
  show ?thesis
    unfolding validate_finalized_facts_def Let_def assms(7) validate_effect_accounts_def
    using t hash partial assms(5,6)
    by (cases "cr_effect rq")
      (auto simp: found_facts_def carried_candidate_def containing_block_def effect_window_valid_def
        validate_nonzero_Ok ensure_fact_def and_then_Inr)
qed

text \<open>The whole classification, from the chain and the program to the returned result.\<close>

lemma executed_effect_found:
  assumes "env_ok (sd_escrow env)" and "xmr_terms_new (cr_terms rq) = Ok t"
    and "planner_check env pl rq = Ok ()" and "consistent_view v (cr_window rq) bs" and "b \<in> set bs"
    and "sorted (map (\<lambda>b. bh_timestamp (bk_header b)) bs)"
    and "filter (\<lambda>x. \<not> unrelated env rq (snd (snd x))) (window_transactions bs) =
      [(bk_header b, index, Indexed_Public p)]" and "index < 2 ^ 32"
    and "genuine_transaction env p" and "names_target env rq p"
    and "carries_effect env (cr_terms rq) (cr_effect rq) ins p"
    and "executed_on (sd_escrow env) self (cr_terms rq) (cr_effect rq) ins (bh_timestamp (bk_header b)) m m'"
    and "accounts_served v (cr_terms rq) (cr_effect rq) (height b) m'"
  obtains c signature where "classify env pl (\<lambda>_. v) rq = Ok c"
    "xc_outcome c = Scan_Found (block_clock (last bs)) (cr_window rq) (found_facts rq b
       (carried_candidate env (cr_terms rq) (cr_effect rq) ins signature p (bk_header b) index))"
proof -
  let ?t = "cr_terms rq" and ?effect = "cr_effect rq"
  obtain signature where sig: "effect_witness env ?t ?effect (transaction_of p) = Ok signature"
      "signature \<noteq> None \<longleftrightarrow> ?effect \<in> {Effect_Claim, Effect_Refund}"
    using carried_witness [OF assms(11)] by blast
  obtain expected where sel: "select_transaction env rq (Indexed_Public p) = Ok (Some (p, expected))"
    and ex: "expected = None \<or> expected = Some \<lparr>pt_transaction_id = TransactionId (iq_hash p),
      pt_exact_bytes = sd_tx_bytes env (transaction_of p)\<rparr>"
    using carried_selected [OF assms(3,10,11)] by blast
  let ?c = "carried_candidate env ?t ?effect ins signature p (bk_header b) index"
  have cand: "effect_candidate_of env ?t ?effect expected p (bk_header b) index = Ok ?c"
    by (rule carried_candidate_found [OF assms(2,9,11,12,8) ex sig(1)])
  have rel: "filter (relevant env rq) (window_transactions bs) = [(bk_header b, index, Indexed_Public p)]"
    unfolding assms(7) [symmetric]
    by (rule filter_cong [OF refl]) (rule relevant_related [OF planner_discovers [OF assms(3)]])
  note served = executed_state_served [OF assms(1,11,12,13)]
  have win: "ec_effect_window_valid ?c" using served(2) by (simp add: carried_candidate_def)
  obtain n where out: "classify_outcome env (\<lambda>_. v) rq 0 =
      (Ok (Scan_Found (block_clock (last bs)) (cr_window rq) (found_facts rq b ?c)), n)"
    using served_effect_found [OF assms(4,5) rel sel cand win served(1)] by blast
  have "bh_timestamp (bk_header b) \<le> bh_timestamp (bk_header (last bs))"
    using sorted_last_max [OF assms(6,5)] .
  note facts = carried_facts_valid [OF assms(2,9,11,12) sig(2) served(2)
      carried_placement [OF assms(4,5,10) this]]
  show ?thesis
    using that [of _ signature] out facts assms(3)
    by (simp add: classify_def classification_result_def xmr_classification_new_def)
qed

end
