(* ===== verification/Sidecar_Properties.thy ===== *)
theory Sidecar_Properties
  imports Sidecar_Completeness
begin

text \<open>
  What the finalized-effect classifier guarantees, whatever the indexer answers, and how its
  verdicts relate to the escrow program. The concrete inputs are the dual-adaptor escrow of the
  escrow theories observed through an indexer that serves one block.
\<close>

section \<open>A concrete observation\<close>

definition demo_terms :: xmr_terms where
  "demo_terms = \<lparr>xt_swap_id = [7], xt_activation_commitment = [8], xt_escrow_program_id = [5, 0, 0, 0],
     xt_authenticated_transfer_program_id = [9, 0, 0, 0], xt_metadata_account_id = [1],
     xt_custody_account_id = [2], xt_depositor = Taker, xt_depositor_account_id = [3],
     xt_claimant = Maker, xt_claimant_account_id = [4], xt_claim_aggregate_x_only_public_key = [21],
     xt_claim_authority_account_id = witnessed_account_id demo_env [21],
     xt_refund_aggregate_x_only_public_key = [22],
     xt_refund_authority_account_id = witnessed_account_id demo_env [22],
     xt_maker_dleq_transcript_commitment = [31], xt_taker_dleq_transcript_commitment = [32],
     xt_claim_partial_context_binding = [41],
     xt_claim_partial_commitment = xmr_claim_partial_commitment demo_env [41] [51],
     xt_amount = 50, xt_refund_at_ms = 1000, xt_punish_at_ms = 2000, xt_claim_message_hash = [61],
     xt_refund_message_hash = [62], xt_punish_message_hash = [63]\<rparr>"

definition demo_sidecar :: "escrow_metadata option sidecar_env" where
  "demo_sidecar = \<lparr>sd_escrow = demo_env, sd_key_valid = (\<lambda>_. True),
     sd_key_account = witnessed_account_id demo_env, sd_tx_hash = (\<lambda>_. [71]), sd_tx_bytes = (\<lambda>_. [72]),
     sd_message_hash = (\<lambda>_. [62]), sd_stateless_ok = (\<lambda>_. True),
     sd_decode_instruction = (\<lambda>d. if d = [3] then Some (Ins_RefundNativeXmr [7]) else None),
     sd_encode_instruction = (\<lambda>i. if i = Ins_RefundNativeXmr [7] then Some [3] else None),
     sd_metadata_pda = (\<lambda>_ _. [1]), sd_custody_pda = (\<lambda>_ _. [2])\<rparr>"

definition demo_runtime :: runtime_descriptor where
  "demo_runtime = \<lparr>rd_sidecar_role = Maker, rd_compatibility = LeeV0_2_0, rd_chain_id = [81],
     rd_channel_id = [82], rd_genesis_block_hash = [83], rd_escrow_program_id = [5, 0, 0, 0],
     rd_signer_account_id = [4]\<rparr>"

definition demo_planner :: planner where
  "demo_planner = \<lparr>pl_role = Maker, pl_expected_runtime = demo_runtime, pl_signer_account_id = [4],
     pl_escrow_program_id = [5], pl_authenticated_transfer_program_id = [9],
     pl_stored = (\<lambda>_. Ok None)\<rparr>"

definition demo_request :: classify_request where
  "demo_request = \<lparr>cr_context = \<lparr>mc_run_id = RunId ''run-0001'', mc_request_id = RequestId ''request-01'',
       mc_sidecar_role = Maker\<rparr>, cr_runtime = demo_runtime, cr_terms = demo_terms,
     cr_effect = Effect_Refund, cr_target = Target_DiscoverByTerms,
     cr_window = \<lparr>dw_start_height = 5, dw_max_blocks = 1\<rparr>\<rparr>"

definition demo_refund_tx :: indexed_public where
  "demo_refund_tx = \<lparr>iq_hash = [71], iq_message = \<lparr>om_program_id = [5],
       om_account_ids = effect_accounts demo_terms Effect_Refund, om_nonces = [0],
       om_instruction_data = [3]\<rparr>, iq_witnesses = [([91], [22])], iq_proof = None\<rparr>"

definition demo_block :: "indexed_transaction list \<Rightarrow> block" where
  "demo_block txs = \<lparr>bk_header = \<lparr>bh_block_id = 5, bh_prev_block_hash = [54], bh_hash = [55],
     bh_timestamp = 1500\<rparr>, bk_transactions = txs, bk_finalized = True, bk_rest = []\<rparr>"

definition demo_indexer ::
    "indexed_transaction list \<Rightarrow> escrow_status \<Rightarrow> escrow_metadata option indexer" where
  "demo_indexer txs st n = \<lparr>iv_last_finalized_block_id = Ok (Some 9),
     iv_block_by_id = (\<lambda>_. Ok (Some (demo_block txs))),
     iv_block_by_hash = (\<lambda>_. Ok (Some (demo_block txs))),
     iv_account_at_block = (\<lambda>i _. Ok (Hist_Present (if i = [1]
       then \<lparr>acc_program_owner = [5], acc_balance = 0,
              acc_data = Some (demo_xmr_metadata\<lparr>em_status := st\<rparr>), acc_rest = []\<rparr>
       else \<lparr>acc_program_owner = [9], acc_balance = 0, acc_data = None, acc_rest = []\<rparr>)))\<rparr>"

lemma demo_program_ids:
  "program_id_to_hex [5] = [5, 0, 0, 0]" "program_id_to_hex [9] = [9, 0, 0, 0]"
  "program_id_from_hex [5, 0, 0, 0] = [5]" "program_id_from_hex [9, 0, 0, 0] = [9]"
  by code_simp+

lemma demo_sidecar_ok: "sidecar_env_ok demo_sidecar"
  by (simp add: sidecar_env_ok_def demo_sidecar_def demo_env_ok)

lemma zero32_neq: "length xs \<noteq> 32 \<Longrightarrow> (zero32 = xs) = False" "(zero32 = 1 # ys) = False"
  by (auto simp: zero32_def numeral_eq_Suc)

lemma demo_terms_accepted: "xmr_terms_new demo_terms = Ok demo_terms"
  by (simp add: xmr_terms_new_Ok validate_terms_input_Ok demo_terms_def terms_identities_def terms_values_def
      terms_message_hashes_def zero32_neq demo_hashes word_less_nat_alt)

lemma demo_metadata_matches: "metadata_matches demo_terms (demo_xmr_metadata\<lparr>em_status := st\<rparr>)"
  by (simp add: metadata_matches_def demo_terms_def demo_xmr_metadata_def demo_metadata_def demo_program_ids)

lemma demo_terms_fields:
  "xt_metadata_account_id demo_terms = [1]" "xt_custody_account_id demo_terms = [2]"
  "xt_escrow_program_id demo_terms = [5, 0, 0, 0]"
  "xt_authenticated_transfer_program_id demo_terms = [9, 0, 0, 0]"
  by (simp_all add: demo_terms_def)

lemma demo_planner_check: "planner_check demo_sidecar demo_planner demo_request = Ok ()"
  by (simp add: planner_check_def validate_xmr_terms_v3_binding_def validate_xmr_effect_discovery_v3_def
      validate_runtime_binding_def demo_sidecar_def demo_planner_def demo_request_def demo_runtime_def
      demo_terms_def demo_program_ids ensure_fact_def)

lemmas demo_observation_simps = observer_defs ask_then_def pure_def request_def some_or_def checked_add_def
  height_range_def saturating_pred_def stable_block_def read_accounts_def validate_metadata_def
  validate_custody_def check_def block_clock_def

lemma demo_absent:
  "classify_outcome demo_sidecar (demo_indexer [] Claimed) demo_request 0 =
     (Ok (Scan_Absent (block_clock (demo_block [])) (cr_window demo_request)), 10)"
  by (simp add: demo_observation_simps demo_indexer_def demo_request_def demo_block_def
      demo_metadata_matches demo_sidecar_def demo_env_fields demo_terms_fields demo_program_ids Let_def word_less_nat_alt)

lemma demo_classify_absent:
  "\<exists>c. classify demo_sidecar demo_planner (demo_indexer [] Claimed) demo_request = Ok c \<and>
     xc_outcome c = Scan_Absent (block_clock (demo_block [])) (cr_window demo_request)"
  by (simp add: classify_def demo_planner_check demo_absent classification_result_def
      xmr_classification_new_def validate_scan_coverage_def window_end_def ensure_fact_def)
    (simp add: demo_request_def block_clock_def demo_block_def saturating_pred_def)

definition demo_cand :: effect_candidate where
  "demo_cand = \<lparr>ec_transaction = \<lparr>ot_transaction_id = TransactionId [71], ot_exact_bytes = [72],
       ot_position = \<lparr>bp_block_hash = [55], bp_height = 5, bp_transaction_index = 0\<rparr>,
       ot_signer_account_ids = [xt_refund_authority_account_id demo_terms], ot_is_public = True\<rparr>,
     ec_instruction = \<lparr>xi_effect = Effect_Refund, xi_program_id = [5, 0, 0, 0],
       xi_ordered_account_ids = effect_accounts demo_terms Effect_Refund, xi_swap_id = [7],
       xi_message_hash = [62], xi_published_claim_partial = None\<rparr>,
     ec_aggregate_signature = Some [91],
     ec_block = \<lparr>bh_block_id = 5, bh_prev_block_hash = [54], bh_hash = [55], bh_timestamp = 1500\<rparr>,
     ec_effect_window_valid = True\<rparr>"

lemma demo_candidate:
  "effect_candidate_of demo_sidecar demo_terms Effect_Refund None demo_refund_tx
     (bk_header (demo_block txs)) 0 = Ok demo_cand"
  by (simp add: effect_candidate_of_def decode_indexed_public_def prepared_from_transaction_def
      exact_transaction_bytes_new_def max_transaction_bytes_def decode_ins_def published_partial_def
      some_or_def as_observation_def account_ids_new_def max_account_ids_def effect_witness_def check_def
      xmr_instruction_facts_new_def validate_nonzero_Ok ensure_fact_def demo_sidecar_def demo_refund_tx_def
      demo_program_ids demo_terms_def demo_block_def effect_window_valid_def word_less_nat_alt
      word_le_nat_alt short_not_zero zero32_neq demo_cand_def)

section \<open>A refund found\<close>

abbreviation demo_found :: "escrow_metadata option indexer" where
  "demo_found \<equiv> demo_indexer [Indexed_Public demo_refund_tx] EscrowRefunded"

abbreviation demo_found_block :: block where
  "demo_found_block \<equiv> demo_block [Indexed_Public demo_refund_tx]"

lemma demo_select:
  "select_transaction demo_sidecar demo_request (Indexed_Public demo_refund_tx) = Ok (Some (demo_refund_tx, None))"
  by (simp add: select_transaction_def matches_discovery_terms_def demo_request_def demo_refund_tx_def
      demo_terms_fields demo_program_ids decode_ins_def some_or_def demo_sidecar_def)
    (simp add: demo_terms_def)

lemma demo_consistent: "consistent_view (demo_found n) (cr_window demo_request) [demo_found_block]"
  by (simp add: consistent_view_def discovery_window_new_Ok serves_def demo_indexer_def demo_request_def
      window_end_def saturating_pred_def height_range_def)
    (simp add: demo_block_def)

lemma demo_state_served: "effect_state_served demo_sidecar (demo_found n) demo_terms Effect_Refund block_id"
  by (simp add: effect_state_served_def demo_indexer_def demo_terms_fields validate_metadata_Ok
      validate_custody_def check_def demo_program_ids demo_sidecar_def demo_env_fields demo_metadata_matches)

lemma demo_steady: "demo_found = (\<lambda>_. demo_found 0)"
  by (simp add: fun_eq_iff demo_indexer_def)

lemma demo_relevant:
  "filter (relevant demo_sidecar demo_request) (window_transactions [demo_found_block]) =
     [(bk_header demo_found_block, 0, Indexed_Public demo_refund_tx)]"
proof -
  have "window_transactions [demo_found_block] = [(bk_header demo_found_block, 0, Indexed_Public demo_refund_tx)]"
    by (simp add: window_transactions_def demo_block_def)
  then show ?thesis by (simp add: relevant_def demo_select)
qed

lemma demo_request_fields:
  "cr_terms demo_request = demo_terms" "cr_effect demo_request = Effect_Refund"
  "cr_window demo_request = \<lparr>dw_start_height = 5, dw_max_blocks = 1\<rparr>"
  "cr_target demo_request = Target_DiscoverByTerms"
  by (simp_all add: demo_request_def)

lemma demo_found_outcome:
  "\<exists>n. classify_outcome demo_sidecar demo_found demo_request 0 =
     (Ok (Scan_Found (block_clock demo_found_block) (cr_window demo_request)
       (found_facts demo_request demo_found_block demo_cand)), n)"
  using served_effect_found [OF demo_consistent [of 0] _ demo_relevant demo_select]
  by (simp add: demo_request_fields demo_candidate demo_cand_def demo_state_served demo_steady [symmetric])

lemma demo_found_valid:
  "validate_finalized_facts demo_terms Effect_Refund Target_DiscoverByTerms (block_clock demo_found_block)
     (cr_window demo_request) (found_facts demo_request demo_found_block demo_cand) = Ok ()"
  by (simp add: fact_defs ensure_fact_def Let_def found_facts_def demo_request_fields demo_cand_def
      block_clock_def demo_block_def containing_block_def window_end_def saturating_pred_def
      validate_nonzero_Ok zero32_neq word_le_nat_alt word_less_nat_alt)
    (simp add: demo_terms_def short_not_zero)

lemma demo_classify_found:
  "\<exists>c facts. classify demo_sidecar demo_planner demo_found demo_request = Ok c \<and>
     xc_outcome c = Scan_Found (block_clock demo_found_block) (cr_window demo_request) facts"
  using demo_found_outcome demo_found_valid
  by (auto simp: classify_def demo_planner_check classification_result_def xmr_classification_new_def
      demo_request_fields)

section \<open>Properties\<close>

text \<open>
  C9: A reported effect is in the finalized chain: the classifier read the whole requested
  window as a hash-linked chain of blocks the indexer reports finalized, exactly one
  transaction of that window is relevant, it is the canonical transaction of the effect, its
  block lies in the time window of the effect, and the escrow accounts at that block are in
  the state the effect leaves.
\<close>

theorem found_effect_is_finalized:
  assumes "classify env pl ix rq = Ok c" and "xc_outcome c = Scan_Found clock w facts"
  shows "\<exists>win. window_seen ix (cr_window rq) win \<and> clock = sw_finalized_clock win \<and> w = cr_window rq \<and>
    found_effect env ix rq win facts"
  using classify_Ok [OF assms(1)] assms(2) classify_outcome_Found by fastforce

theorem found_effect_is_finalized_witness:
  "\<exists>c facts win. classify demo_sidecar demo_planner demo_found demo_request = Ok c \<and>
     xc_outcome c = Scan_Found (block_clock demo_found_block) (cr_window demo_request) facts \<and>
     window_seen demo_found (cr_window demo_request) win \<and>
     found_effect demo_sidecar demo_found demo_request win facts"
proof -
  obtain c facts where c: "classify demo_sidecar demo_planner demo_found demo_request = Ok c"
    "xc_outcome c = Scan_Found (block_clock demo_found_block) (cr_window demo_request) facts"
    using demo_classify_found by blast
  from found_effect_is_finalized [OF c] c show ?thesis by blast
qed

text \<open>
  C8: A reported absence is final: only a refund or a punishment is ever reported absent,
  the metadata account the indexer returned at the end of the window records the other
  settlement of the same agreed escrow, and on that account no instruction of the escrow
  program commits at any time, with any accounts and arguments.
\<close>

theorem absent_effect_never_executes:
  assumes "sidecar_env_ok env" and "xmr_terms_new (cr_terms rq) = Ok t"
    and "classify env pl ix rq = Ok c" and "xc_outcome c = Scan_Absent clock w"
  shows "cr_effect rq \<in> {Effect_Refund, Effect_Punish} \<and>
    (\<exists>n a m. iv_account_at_block (ix n) (xt_metadata_account_id (cr_terms rq)) (window_end w) =
        Ok (Hist_Present a) \<and>
      env_borsh_decode (sd_escrow env) (acc_data a) = Some m \<and> metadata_matches (cr_terms rq) m \<and>
      em_status m = (if cr_effect rq = Effect_Refund then Claimed else EscrowRefunded) \<and>
      (\<forall>acc self call. account acc = a \<longrightarrow> committed (sd_escrow env) self acc call = None))"
proof -
  from classify_Ok [OF assms(3)] assms(4) obtain n where
    out: "classify_outcome env ix rq 0 = (Ok (Scan_Absent clock w), n)"
    and plan: "planner_check env pl rq = Ok ()" by auto
  from classify_outcome_Absent [OF out] obtain s where
    s: "terminal_state_excluding (cr_effect rq) = Some s"
    and seen: "escrow_seen env ix (cr_terms rq) (window_end w) s (state_balance (cr_terms rq) s)" by blast
  from seen obtain k a m where a: "iv_account_at_block (ix k) (xt_metadata_account_id (cr_terms rq))
      (window_end w) = Ok (Hist_Present a)"
    and m: "env_borsh_decode (sd_escrow env) (acc_data a) = Some m" "metadata_matches (cr_terms rq) m"
    and st: "escrow_state_of (em_status m) = s" by (auto simp: escrow_seen_def)
  from s st have eff: "cr_effect rq \<in> {Effect_Refund, Effect_Punish}"
    and status: "em_status m = (if cr_effect rq = Effect_Refund then Claimed else EscrowRefunded)"
    by (cases "cr_effect rq"; cases "em_status m"; auto)+
  have "authorities_bound env (cr_terms rq)"
    using binding_authorities [OF assms(1) planner_check_binding [OF plan]] .
  then have wf: "escrow_wf (sd_escrow env) m" using accepted_metadata_wf [OF assms(2) _ m(2)] by blast
  have "committed (sd_escrow env) self acc call = None" if "account acc = a" for acc self call
  proof (rule settled_commits_nothing)
    have "meta_state (sd_escrow env) acc = Some m" using that m(1) by (simp add: meta_state_def)
    then show "escrow_inv (sd_escrow env) acc" "settled (sd_escrow env) acc"
      using wf assms(1) status
      by (simp_all add: escrow_inv_def meta_wf_def sidecar_env_ok_def settled_def)
  qed
  with a m eff status show ?thesis by blast
qed

theorem absent_effect_never_executes_witness:
  "\<exists>n a m. iv_account_at_block (demo_indexer [] Claimed n) [1] 5 = Ok (Hist_Present a) \<and>
     env_borsh_decode demo_env (acc_data a) = Some m \<and> em_status m = Claimed \<and>
     (\<forall>acc self call. account acc = a \<longrightarrow> committed demo_env self acc call = None)"
proof -
  obtain c where c: "classify demo_sidecar demo_planner (demo_indexer [] Claimed) demo_request = Ok c"
    "xc_outcome c = Scan_Absent (block_clock (demo_block [])) (cr_window demo_request)"
    using demo_classify_absent by blast
  have rq: "cr_terms demo_request = demo_terms" "cr_effect demo_request = Effect_Refund"
    "window_end (cr_window demo_request) = 5" "sd_escrow demo_sidecar = demo_env"
    by (simp_all add: demo_request_def window_end_def saturating_pred_def demo_sidecar_def)
  have acc: "xmr_terms_new (cr_terms demo_request) = Ok demo_terms" by (simp add: rq demo_terms_accepted)
  from absent_effect_never_executes [OF demo_sidecar_ok acc c]
  show ?thesis unfolding rq demo_terms_fields by auto
qed

text \<open>
  C18: The observer's table of effects agrees with the escrow program: when the program
  commits the canonical instruction of an effect with the effect's accounts, on an escrow of
  the terms (or on any account, for the initialization), the metadata it writes matches the
  terms, has the status the observer expects after the effect, and the time lies in the
  window the observer accepts.
\<close>

theorem observer_agrees_with_program:
  assumes "env_ok (sd_escrow env)"
    and "canonical_instruction t partial effect = Ok ins" and "guest_call ins accs = Some call"
    and "map account_id accs = tl (effect_accounts t effect)"
    and "effect = Effect_Initialize \<or>
      (\<exists>s. meta_state (sd_escrow env) m = Some s \<and> metadata_matches t s)"
    and "committed (sd_escrow env) self m (now, call) = Some out"
  shows "\<exists>s'. meta_state (sd_escrow env) (escrow_step (sd_escrow env) self m (now, call)) = Some s' \<and>
    metadata_matches t s' \<and> escrow_state_of (em_status s') = fst (effect_state t effect) \<and>
    effect_window_valid t effect now"
proof -
  have "effect_leaves (sd_escrow env) t effect now (execute (sd_escrow env) self m call)"
    using assms(5) by (intro canonical_leaves [OF assms(1-4)]) blast
  moreover from assms(6) have "execute (sd_escrow env) self m call = Ok out" "in_window now (out_window out)"
    by (auto simp: committed_def split: sum.splits if_splits)
  ultimately show ?thesis using assms(6) by (simp add: effect_leaves_def escrow_step_def)
qed

theorem observer_agrees_with_program_witness:
  "\<exists>s'. meta_state demo_env (escrow_step demo_env [6] (escrow_run demo_env [6] demo_fresh demo_xmr)
       demo_xmr_claim) = Some s' \<and> metadata_matches demo_terms s' \<and> escrow_state_of (em_status s') = Xs_Claimed"
proof -
  let ?m = "escrow_run demo_env [6] demo_fresh demo_xmr"
  let ?accs = "[demo_account [2] [9] 50 False, demo_account [4] [9] 0 False,
      demo_account (witnessed_account_id demo_env [21]) [9] 0 True]"
  obtain out where out: "committed demo_env [6] ?m demo_xmr_claim = Some out" using demo_xmr_run(2) by blast
  have sd: "sd_escrow demo_sidecar = demo_env" by (simp add: demo_sidecar_def)
  have call: "demo_xmr_claim = (30, ClaimNativeXmr (?accs ! 0) (?accs ! 1) (?accs ! 2) [7])"
    by (simp add: demo_xmr_claim_def numeral_2_eq_2)
  have md: "meta_state demo_env ?m = Some demo_xmr_metadata" "metadata_matches demo_terms demo_xmr_metadata"
    using demo_xmr_run(1) demo_metadata_matches [of XmrClaimAuthorized]
    by (simp_all add: demo_xmr_metadata_def demo_metadata_def)
  have "\<exists>s'. meta_state demo_env (escrow_step demo_env [6] ?m
      (30, ClaimNativeXmr (?accs ! 0) (?accs ! 1) (?accs ! 2) [7])) = Some s' \<and>
    metadata_matches demo_terms s' \<and> escrow_state_of (em_status s') = fst (effect_state demo_terms Effect_Claim) \<and>
    effect_window_valid demo_terms Effect_Claim 30"
    unfolding sd [symmetric]
  proof (rule observer_agrees_with_program [where partial = None and accs = ?accs])
    show "canonical_instruction demo_terms None Effect_Claim = Ok (Ins_ClaimNativeXmr [7])"
      by (simp add: demo_terms_def)
    show "map account_id ?accs = tl (effect_accounts demo_terms Effect_Claim)"
      by (simp add: demo_account_def demo_terms_def)
  qed (use out md in \<open>simp_all add: sd demo_env_ok call numeral_2_eq_2\<close>)
  then show ?thesis by (auto simp: call)
qed

text \<open>
  C28: The escrow program never rejects version-3 Monero terms the bridge accepts: with the
  binding the planner checked and the agreed accounts, the initialization of a Monero escrow
  never returns the invalid-terms error.
\<close>

theorem accepted_xmr_terms_never_invalid:
  assumes "sidecar_env_ok env" and "xmr_terms_new t = Ok t'"
    and "validate_xmr_terms_v3_binding env pl context runtime t = Ok ()"
    and "length (xt_authenticated_transfer_program_id t) = 32"
    and "canonical_instruction t partial Effect_Initialize = Ok ins" and "guest_call ins accs = Some call"
    and "map account_id accs = tl (effect_accounts t Effect_Initialize)"
  shows "execute (sd_escrow env) (pl_escrow_program_id pl) m call \<noteq> Err InvalidTerms"
proof -
  obtain cu d c ca ra where accs: "accs = [cu, d, c, ca, ra]"
    using assms(7) by (auto simp: map_eq_Cons_conv)
  let ?p = "program_id_from_hex (xt_authenticated_transfer_program_id t)"
  have v: "xt_refund_at_ms t < xt_punish_at_ms t" "xt_amount t \<noteq> 0" "xt_refund_at_ms t \<noteq> 0"
    "distinct (map snd (terms_identities t))" "zero32 \<notin> snd ` set (terms_identities t)"
    "zero32 \<notin> snd ` set (terms_values t)"
    using assms(2) by (simp_all add: xmr_terms_new_Ok validate_terms_input_Ok)
  have self: "xt_escrow_program_id t = program_id_to_hex (pl_escrow_program_id pl)"
    using assms(3) by (auto simp: validate_xmr_terms_v3_binding_def split: if_splits)
  have p: "program_id_to_hex ?p = xt_authenticated_transfer_program_id t"
    using program_id_to_from [of "xt_authenticated_transfer_program_id t" 8] assms(4) by simp
  have "?p \<noteq> pl_escrow_program_id pl"
    using p self v(4) by (auto simp: terms_identities_def)
  moreover have "?p \<noteq> default_program_id"
  proof
    assume "?p = default_program_id"
    then have "?p = program_id_from_hex zero32" by (simp add: program_id_zero)
    then have "xt_authenticated_transfer_program_id t = zero32"
      using program_id_inject [of _ zero32] assms(4) by (simp add: zero32_def)
    with v(5) show False by (auto simp: terms_identities_def)
  qed
  moreover have "valid_claim_authority (sd_escrow env) (XmrDualAdaptor (adaptor_of t)) (xt_claimant_account_id t)"
    using accepted_authority [OF assms(2) binding_authorities [OF assms(1,3)]] .
  moreover have "xt_activation_commitment t \<noteq> zero32"
    "xt_depositor_account_id t \<noteq> xt_claimant_account_id t"
    "xt_depositor_account_id t \<noteq> xt_claim_authority_account_id t"
    "xt_depositor_account_id t \<noteq> xt_refund_authority_account_id t"
    using v(4,6) by (auto simp: terms_identities_def terms_values_def)
  ultimately have init: "native_xmr_initial_state (sd_escrow env) (pl_escrow_program_id pl) cu d c (xt_swap_id t)
      (xt_activation_commitment t) (adaptor_of t) (xt_amount t) (xt_refund_at_ms t) ?p \<noteq> Err InvalidTerms"
    using assms(7) v(1-3)
    by (simp add: accs native_xmr_initial_state_def native_initial_state_def and_then_Inl adaptor_of_def not_le
        del: valid_claim_authority.simps)
  have call: "execute (sd_escrow env) (pl_escrow_program_id pl) m call =
     and_then (require_attributes (sd_escrow env) (pl_escrow_program_id pl) (xt_swap_id t)
       [(meta_init, m), (custody_mut, cu), ([Attr_Signer], d)]) (\<lambda>_.
     and_then (native_xmr_initial_state (sd_escrow env) (pl_escrow_program_id pl) cu d c (xt_swap_id t)
      (xt_activation_commitment t) (adaptor_of t) (xt_amount t) (xt_refund_at_ms t) ?p) (\<lambda>state.
     commit (sd_escrow env) m state [cu, d, c, ca, ra]
       (\<lambda>_. [native_initialize_call (sd_escrow env) ?p cu (xt_swap_id t)]) (until (xt_refund_at_ms t))))"
    using assms(5-7) by (auto simp: accs initialize_native_xmr_def adaptor_of_def)
  show ?thesis
    unfolding call using init
    by (auto simp: and_then_Inl require_attributes_def commit_def write_metadata_def split: option.splits if_splits)
qed

theorem accepted_xmr_terms_never_invalid_witness:
  "execute demo_env [5] demo_fresh (InitializeNativeXmr (demo_account [2] default_program_id 0 False)
     (demo_account [3] [9] 100 True) (demo_account [4] [9] 0 False)
     (demo_account (witnessed_account_id demo_env [21]) [9] 0 False)
     (demo_account (witnessed_account_id demo_env [22]) [9] 0 False)
     [7] [8] [21] [22] [31] [32] [41] (xmr_claim_partial_commitment demo_env [41] [51]) 50 1000 2000
     (program_id_from_hex (replicate 32 9))) \<noteq> Err InvalidTerms"
proof -
  define t where "t = demo_terms\<lparr>xt_authenticated_transfer_program_id := replicate 32 9\<rparr>"
  define pl where "pl = demo_planner\<lparr>pl_authenticated_transfer_program_id := program_id_from_hex (replicate 32 9)\<rparr>"
  let ?accs = "[demo_account [2] default_program_id 0 False, demo_account [3] [9] 100 True,
     demo_account [4] [9] 0 False, demo_account (witnessed_account_id demo_env [21]) [9] 0 False,
     demo_account (witnessed_account_id demo_env [22]) [9] 0 False]"
  have long: "replicate 32 (9 :: u8) \<noteq> zero32" "length xs \<noteq> 32 \<Longrightarrow> replicate 32 (9 :: u8) \<noteq> xs"
    "length xs \<noteq> 32 \<Longrightarrow> xs \<noteq> replicate 32 (9 :: u8)" for xs
    by (auto simp: zero32_def)
  have hash: "length (witnessed_account_id demo_env k) = 33 + length k" for k
    by (simp add: demo_hashes public_account_id_prefix_def as_bytes_def)
  have terms: "xmr_terms_new t = Ok t"
    using demo_terms_accepted long hash
    by (simp add: t_def xmr_terms_new_Ok validate_terms_input_Ok terms_identities_def terms_values_def
        terms_message_hashes_def) (simp add: demo_terms_def hash zero32_neq)
  have rt: "program_id_to_hex (program_id_from_hex (replicate 32 9)) = replicate 32 (9 :: u8)"
    using program_id_to_from [of "replicate 32 9" 8] by simp
  have bind: "validate_xmr_terms_v3_binding demo_sidecar pl (cr_context demo_request) demo_runtime t = Ok ()"
    by (simp add: t_def pl_def rt validate_xmr_terms_v3_binding_def
      validate_runtime_binding_def demo_sidecar_def demo_planner_def demo_request_def demo_runtime_def
      demo_terms_def demo_program_ids ensure_fact_def)
  have "execute (sd_escrow demo_sidecar) (pl_escrow_program_id pl) demo_fresh
      (InitializeNativeXmr (?accs ! 0) (?accs ! 1) (?accs ! 2) (?accs ! 3) (?accs ! 4)
       [7] [8] [21] [22] [31] [32] [41] (xmr_claim_partial_commitment demo_env [41] [51]) 50 1000 2000
       (program_id_from_hex (replicate 32 9))) \<noteq> Err InvalidTerms"
  proof (rule accepted_xmr_terms_never_invalid [OF demo_sidecar_ok terms bind, where accs = ?accs and partial = None])
    show "canonical_instruction t None Effect_Initialize = Ok (Ins_InitializeNativeXmr
        [7] [8] [21] [22] [31] [32] [41] (xmr_claim_partial_commitment demo_env [41] [51]) 50 1000 2000
       (program_id_from_hex (replicate 32 9)))"
      by (simp add: t_def demo_terms_def)
    show "map account_id ?accs = tl (effect_accounts t Effect_Initialize)"
      by (simp add: t_def demo_terms_def demo_account_def)
  qed (simp_all add: t_def numeral_eq_Suc)
  then show ?thesis by (simp add: demo_sidecar_def pl_def demo_planner_def numeral_eq_Suc)
qed








text \<open>
  C19: The nested scan loop is the reference search: over the transactions of all blocks in
  order, it returns nothing exactly when none is relevant, a candidate exactly when a single
  one is relevant and yields that candidate, and an error in every other case.
\<close>

theorem scan_is_sole_match:
  "scan_blocks env rq bs None = Ok r \<longleftrightarrow>
     sole_candidate env rq (filter (relevant env rq) (window_transactions bs)) None r"
  by (rule scan_blocks_Ok)

text \<open>
  One classification makes a bounded number of indexer requests, two per block of an
  accepted window and at most sixteen more, so never more than 8208, whatever the indexer
  answers.
\<close>

theorem classification_requests_bounded:
  assumes "discovery_window_new s m = Ok (cr_window rq)"
  shows "snd (classify_outcome env ix rq 0) \<le> 2 * unat (dw_max_blocks (cr_window rq)) + 16 \<and>
    snd (classify_outcome env ix rq 0) \<le> 8208"
proof -
  have "snd (classify_outcome env ix rq 0) \<le> 2 * unat (dw_max_blocks (cr_window rq)) + 16"
    using asks_classify_outcome [OF assms, of env ix] unfolding asks_at_most_def by (metis add_0)
  moreover have "unat (dw_max_blocks (cr_window rq)) \<le> 4096"
    using assms by (auto simp: discovery_window_new_Ok)
  ultimately show ?thesis by simp
qed

theorem classification_requests_bounded_witness:
  "snd (classify_outcome demo_sidecar (demo_indexer [] Claimed) demo_request 0) \<le> 18"
proof -
  have "discovery_window_new 5 1 = Ok (cr_window demo_request)"
    by (simp add: discovery_window_new_Ok demo_request_fields)
  from classification_requests_bounded [OF this, of demo_sidecar "demo_indexer [] Claimed"]
  show ?thesis by (simp add: demo_request_fields)
qed

text \<open>
  A sidecar reports on an effect of its own only for the exact transaction it holds a
  reservation for, and discovers by terms only the effects of its counterparty.
\<close>

theorem classification_target_by_owner:
  assumes "classify env pl ix rq = Ok c"
  shows "case cr_target rq of
      Target_Exact tx \<Rightarrow> pl_role pl = xmr_effect_owner (cr_effect rq) \<and>
        (\<exists>r. pl_stored pl (cr_effect rq) = Ok (Some r) \<and> rs_target r = tx \<and>
          rs_terms r = cr_terms rq \<and> rs_runtime r = cr_runtime rq)
    | Target_DiscoverByTerms \<Rightarrow> pl_role pl \<noteq> xmr_effect_owner (cr_effect rq)"
proof -
  have own: "may_discover role effect \<Longrightarrow> role \<noteq> xmr_effect_owner effect" for role effect
    by (cases role; cases effect) simp_all
  show ?thesis
    using classify_Ok [OF assms] own
    by (auto simp: planner_check_def and_then_Inr validate_owned_xmr_effect_v3_def
        validate_xmr_effect_discovery_v3_def Let_def split: xmr_transaction_target.splits if_splits option.splits)
qed

theorem classification_target_by_owner_witness:
  "pl_role demo_planner \<noteq> xmr_effect_owner (cr_effect demo_request)"
proof -
  obtain c where "classify demo_sidecar demo_planner (demo_indexer [] Claimed) demo_request = Ok c"
    using demo_classify_absent by blast
  from classification_target_by_owner [OF this] show ?thesis by (simp add: demo_request_fields)
qed

end
