(* ===== verification/Poll_Journal.thy ===== *)
theory Poll_Journal
  imports Bridge_Protocol
begin

text \<open>
  The caller's journal of bridge requests,
  \<open>crates/swap-store/src/bridge_operation_journal.rs\<close>. For every operation of a swap it
  keeps the polls made so far and the one active request, so that a request whose answer
  was lost is repeated with the same identifier and window. The table is a list of rows
  with the statements and transactions of \<open>Store_Table\<close>.
\<close>

named_theorems poll_defs \<open>definitions of the poll journal operations\<close>

section \<open>Operations, keys and requests\<close>

datatype bridge_operation_kind =
    NativeEscrowPrepare
  | NativeEscrowExactObserve
  | NativeEscrowDiscoveryObserve
  | NativeEscrowInitializeSubmit
  | NativeEscrowFundSubmit
  | RevealingClaimPrepare
  | RevealingClaimExactObserve
  | RevealingClaimDiscoveryObserve
  | RevealingClaimSubmit
  | NativeRefundPrepare
  | NativeRefundEligibilityObserve
  | NativeRefundExactObserve
  | NativeRefundDiscoveryObserve
  | NativeRefundSubmit

fun operation_name :: "bridge_operation_kind \<Rightarrow> string" where
  "operation_name NativeEscrowPrepare = ''native_escrow_prepare''"
| "operation_name NativeEscrowExactObserve = ''native_escrow_exact_observe''"
| "operation_name NativeEscrowDiscoveryObserve = ''native_escrow_discovery_observe''"
| "operation_name NativeEscrowInitializeSubmit = ''native_escrow_initialize_submit''"
| "operation_name NativeEscrowFundSubmit = ''native_escrow_fund_submit''"
| "operation_name RevealingClaimPrepare = ''revealing_claim_prepare''"
| "operation_name RevealingClaimExactObserve = ''revealing_claim_exact_observe''"
| "operation_name RevealingClaimDiscoveryObserve = ''revealing_claim_discovery_observe''"
| "operation_name RevealingClaimSubmit = ''revealing_claim_submit''"
| "operation_name NativeRefundPrepare = ''native_refund_prepare''"
| "operation_name NativeRefundEligibilityObserve = ''native_refund_eligibility_observe''"
| "operation_name NativeRefundExactObserve = ''native_refund_exact_observe''"
| "operation_name NativeRefundDiscoveryObserve = ''native_refund_discovery_observe''"
| "operation_name NativeRefundSubmit = ''native_refund_submit''"

definition is_observation :: "bridge_operation_kind \<Rightarrow> bool" where
  "is_observation k \<longleftrightarrow> k \<in> {NativeEscrowExactObserve, NativeEscrowDiscoveryObserve,
     RevealingClaimExactObserve, RevealingClaimDiscoveryObserve, NativeRefundEligibilityObserve,
     NativeRefundExactObserve, NativeRefundDiscoveryObserve}"

definition requires_window :: "bridge_operation_kind \<Rightarrow> bool" where
  "requires_window k \<longleftrightarrow> k \<in> {NativeEscrowDiscoveryObserve, RevealingClaimDiscoveryObserve,
     NativeRefundExactObserve, NativeRefundDiscoveryObserve}"

record bridge_operation_key =
  bk_run_id :: run_id
  bk_swap_id :: swap_id
  bk_local_role :: participant
  bk_operation :: bridge_operation_kind

record bridge_request_spec =
  bs_request_id :: request_id
  bs_discovery_window :: "discovery_window option"

record durable_request_context =
  dc_poll_sequence :: u64
  dc_request_id :: request_id
  dc_discovery_window :: "discovery_window option"

definition matches_spec :: "durable_request_context \<Rightarrow> bridge_request_spec \<Rightarrow> bool" where
  "matches_spec c spec \<longleftrightarrow> dc_request_id c = bs_request_id spec \<and>
     dc_discovery_window c = bs_discovery_window spec"

datatype bridge_observation_outcome = Outcome_Succeeded | Outcome_TypedError

fun outcome_name :: "bridge_observation_outcome \<Rightarrow> string" where
  "outcome_name Outcome_Succeeded = ''succeeded''"
| "outcome_name Outcome_TypedError = ''typed_error''"

record bridge_context_commit =
  bcc_context :: durable_request_context
  bcc_was_replay :: bool

section \<open>The table\<close>

record context_row =
  cr_run_id :: string
  cr_swap_id :: string
  cr_local_role :: string
  cr_operation :: string
  cr_poll_sequence :: int
  cr_request_id :: string
  cr_window_start_height :: "string option"
  cr_window_max_blocks :: "int option"
  cr_state :: string
  cr_completion_outcome :: "string option"

type_synonym context_table = "context_row list"

definition context_operations :: "string list" where
  "context_operations =
     [''native_escrow_prepare'', ''native_escrow_exact_observe'',
      ''native_escrow_discovery_observe'', ''native_escrow_initialize_submit'',
      ''native_escrow_fund_submit'', ''revealing_claim_prepare'',
      ''revealing_claim_exact_observe'', ''revealing_claim_discovery_observe'',
      ''revealing_claim_submit'', ''native_refund_prepare'',
      ''native_refund_eligibility_observe'', ''native_refund_exact_observe'',
      ''native_refund_discovery_observe'', ''native_refund_submit'']"

text \<open>The \<open>CHECK\<close> constraints of \<open>CREATE TABLE bridge_operation_contexts\<close>.\<close>

definition context_checks :: "context_row \<Rightarrow> bool" where
  "context_checks r \<longleftrightarrow>
     cr_local_role r \<in> {''maker'', ''taker''} \<and>
     cr_operation r \<in> set context_operations \<and>
     0 \<le> cr_poll_sequence r \<and>
     (case cr_window_max_blocks r of None \<Rightarrow> True | Some n \<Rightarrow> n > 0) \<and>
     cr_state r \<in> {''active'', ''completed''} \<and>
     cr_completion_outcome r \<in> {None, Some ''succeeded'', Some ''typed_error''} \<and>
     (cr_window_start_height r = None \<longleftrightarrow> cr_window_max_blocks r = None) \<and>
     (cr_state r = ''active'' \<and> cr_completion_outcome r = None \<or>
      cr_state r = ''completed'' \<and> cr_completion_outcome r \<noteq> None)"

definition context_key :: "context_row \<Rightarrow> string \<times> string \<times> string \<times> string" where
  "context_key r = (cr_run_id r, cr_swap_id r, cr_local_role r, cr_operation r)"

definition request_key :: "context_row \<Rightarrow> string \<times> string \<times> string" where
  "request_key r = (cr_run_id r, cr_local_role r, cr_request_id r)"

text \<open>The primary key and the two unique indexes.\<close>

definition context_clash :: "context_row \<Rightarrow> context_row \<Rightarrow> bool" where
  "context_clash a b \<longleftrightarrow>
     context_key a = context_key b \<and> cr_poll_sequence a = cr_poll_sequence b \<or>
     context_key a = context_key b \<and> cr_state a = ''active'' \<and> cr_state b = ''active'' \<or>
     request_key a = request_key b"

definition key_columns :: "bridge_operation_key \<Rightarrow> string \<times> string \<times> string \<times> string" where
  "key_columns k = (run_id_str (bk_run_id k), swap_id_str (bk_swap_id k),
     participant_name (bk_local_role k), operation_name (bk_operation k))"

section \<open>Columns\<close>

definition sequence_to_sql :: "u64 \<Rightarrow> store_error + int" where
  [poll_defs]: "sequence_to_sql sequence = to_i64 BridgePollSequenceOverflow sequence"

definition encode_window :: "discovery_window option \<Rightarrow> string option \<times> int option" where
  "encode_window window =
     (case window of
        None \<Rightarrow> (None, None)
      | Some w \<Rightarrow> (Some (to_decimal (unat (dw_start_height w))), Some (uint (dw_max_blocks w))))"

definition decode_context :: "context_row \<Rightarrow> store_error + durable_request_context" where
  [poll_defs]: "decode_context r =
     and_then (to_u64 BridgePollSequenceOverflow (cr_poll_sequence r)) (\<lambda>sequence.
     and_then (map_err (\<lambda>_. BridgeProtocolValue) (request_id_new (cr_request_id r))) (\<lambda>request.
     and_then
       (case (cr_window_start_height r, cr_window_max_blocks r) of
          (None, None) \<Rightarrow> Ok None
        | (Some start, Some maximum) \<Rightarrow>
            and_then (ok_or InvalidBridgeOperationContext (parse_decimal (2 ^ 64) start)) (\<lambda>start.
            and_then (to_u32 InvalidBridgeOperationContext maximum) (\<lambda>maximum.
            and_then (map_err (\<lambda>_. BridgeProtocolValue)
                (discovery_window_new (word_of_nat start) maximum)) (\<lambda>w. Ok (Some w))))
        | _ \<Rightarrow> Err InvalidBridgeOperationContext) (\<lambda>window.
     Ok \<lparr>dc_poll_sequence = sequence, dc_request_id = request, dc_discovery_window = window\<rparr>)))"

definition validate_request_shape ::
    "bridge_operation_key \<Rightarrow> bridge_request_spec \<Rightarrow> store_error + unit" where
  [poll_defs]: "validate_request_shape k request =
     (if (bs_discovery_window request \<noteq> None) = requires_window (bk_operation k) then Ok ()
      else Err InvalidBridgeOperationContext)"

section \<open>Statements\<close>

definition load_active_context ::
    "context_table \<Rightarrow> bridge_operation_key \<Rightarrow> store_error + durable_request_context option" where
  [poll_defs]: "load_active_context t k =
     (case find (\<lambda>r. context_key r = key_columns k \<and> cr_state r = ''active'') t of
        None \<Rightarrow> Ok None
      | Some r \<Rightarrow> and_then (decode_context r) (\<lambda>c. Ok (Some c)))"

definition insert_active_context ::
    "bridge_operation_key \<Rightarrow> durable_request_context \<Rightarrow> context_table \<Rightarrow> store_error + context_table"
where
  [poll_defs]: "insert_active_context k c t =
     (let (start_height, max_blocks) = encode_window (dc_discovery_window c) in
     and_then (sequence_to_sql (dc_poll_sequence c)) (\<lambda>sequence.
     table_insert Sqlite context_checks context_clash
       \<lparr>cr_run_id = run_id_str (bk_run_id k), cr_swap_id = swap_id_str (bk_swap_id k),
        cr_local_role = participant_name (bk_local_role k),
        cr_operation = operation_name (bk_operation k), cr_poll_sequence = sequence,
        cr_request_id = request_id_str (dc_request_id c), cr_window_start_height = start_height,
        cr_window_max_blocks = max_blocks, cr_state = ''active'', cr_completion_outcome = None\<rparr> t))"

text \<open>\<open>SELECT MAX(poll_sequence)\<close> is null on no rows.\<close>

fun max_column :: "int list \<Rightarrow> int option" where
  "max_column [] = None"
| "max_column (v # vs) = (case max_column vs of None \<Rightarrow> Some v | Some m \<Rightarrow> Some (max v m))"

definition next_poll_sequence ::
    "context_table \<Rightarrow> bridge_operation_key \<Rightarrow> store_error + u64" where
  [poll_defs]: "next_poll_sequence t k =
     (case max_column (map cr_poll_sequence (filter (\<lambda>r. context_key r = key_columns k) t)) of
        None \<Rightarrow> Ok 0
      | Some v \<Rightarrow>
          and_then (to_u64 BridgePollSequenceOverflow v) (\<lambda>latest.
          ok_or BridgePollSequenceOverflow (checked_add latest 1)))"

definition ensure_request_id_unused ::
    "context_table \<Rightarrow> bridge_operation_key \<Rightarrow> request_id \<Rightarrow> store_error + unit" where
  [poll_defs]: "ensure_request_id_unused t k request =
     (if list_ex (\<lambda>r. cr_run_id r = run_id_str (bk_run_id k) \<and>
           cr_local_role r = participant_name (bk_local_role k) \<and>
           cr_request_id r = request_id_str request) t
      then Err BridgeRequestIdReused else Ok ())"

definition completed_context_exists ::
    "context_table \<Rightarrow> bridge_operation_key \<Rightarrow> durable_request_context
     \<Rightarrow> bridge_observation_outcome \<Rightarrow> store_error + bool" where
  [poll_defs]: "completed_context_exists t k expected outcome =
     (let (start_height, max_blocks) = encode_window (dc_discovery_window expected) in
     and_then (sequence_to_sql (dc_poll_sequence expected)) (\<lambda>sequence.
     Ok (list_ex (\<lambda>r. context_key r = key_columns k \<and> cr_poll_sequence r = sequence \<and>
       cr_request_id r = request_id_str (dc_request_id expected) \<and>
       cr_window_start_height r = start_height \<and> cr_window_max_blocks r = max_blocks \<and>
       cr_state r = ''completed'' \<and> cr_completion_outcome r = Some (outcome_name outcome)) t)))"

text \<open>The update leaves the primary key alone and only takes rows out of the index of
  active rows.\<close>

definition complete_context ::
    "bridge_operation_key \<Rightarrow> durable_request_context \<Rightarrow> bridge_observation_outcome \<Rightarrow> context_table
     \<Rightarrow> store_error + (nat \<times> context_table)" where
  [poll_defs]: "complete_context k expected outcome t =
     and_then (sequence_to_sql (dc_poll_sequence expected)) (\<lambda>sequence.
     table_update Sqlite context_checks
       (\<lambda>r. context_key r = key_columns k \<and> cr_poll_sequence r = sequence \<and> cr_state r = ''active'')
       (\<lambda>r. r\<lparr>cr_state := ''completed'', cr_completion_outcome := Some (outcome_name outcome)\<rparr>) t)"

section \<open>Methods\<close>

definition begin_or_resume_body ::
    "bridge_operation_key \<Rightarrow> bridge_request_spec \<Rightarrow> context_table
     \<Rightarrow> store_error + (bridge_context_commit \<times> context_table)" where
  [poll_defs]: "begin_or_resume_body k requested t =
     and_then (load_active_context t k) (\<lambda>active.
     case active of
       Some c \<Rightarrow>
         if matches_spec c requested then Ok (\<lparr>bcc_context = c, bcc_was_replay = True\<rparr>, t)
         else Err BridgeOperationContextConflict
     | None \<Rightarrow>
         and_then (ensure_request_id_unused t k (bs_request_id requested)) (\<lambda>_.
         and_then (next_poll_sequence t k) (\<lambda>sequence.
         let c = \<lparr>dc_poll_sequence = sequence, dc_request_id = bs_request_id requested,
                  dc_discovery_window = bs_discovery_window requested\<rparr> in
         and_then (insert_active_context k c t) (\<lambda>t'.
         Ok (\<lparr>bcc_context = c, bcc_was_replay = False\<rparr>, t')))))"

definition begin_or_resume ::
    "tx_io \<Rightarrow> bridge_operation_key \<Rightarrow> bridge_request_spec \<Rightarrow> context_table
     \<Rightarrow> (store_error + bridge_context_commit) \<times> context_table" where
  [poll_defs]: "begin_or_resume io k requested t =
     (case validate_request_shape k requested of
        Inl e \<Rightarrow> (Err e, t)
      | Inr _ \<Rightarrow> transact Sqlite io (begin_or_resume_body k requested) t)"

text \<open>The two methods that only read run one query outside a transaction, which may fail.\<close>

definition resume_after_ambiguous ::
    "bool \<Rightarrow> bridge_operation_key \<Rightarrow> durable_request_context \<Rightarrow> context_table
     \<Rightarrow> store_error + durable_request_context" where
  [poll_defs]: "resume_after_ambiguous query k expected t =
     and_then (if query then load_active_context t k else Err Sqlite) (\<lambda>loaded.
     and_then (ok_or MissingBridgeOperationContext loaded) (\<lambda>active.
     if active = expected then Ok active else Err BridgeOperationContextConflict))"

definition current_context ::
    "bool \<Rightarrow> bridge_operation_key \<Rightarrow> context_table \<Rightarrow> store_error + durable_request_context option" where
  [poll_defs]: "current_context query k t = (if query then load_active_context t k else Err Sqlite)"

definition advance_observation_body ::
    "bridge_operation_key \<Rightarrow> durable_request_context \<Rightarrow> bridge_observation_outcome
     \<Rightarrow> bridge_request_spec \<Rightarrow> u64 \<Rightarrow> context_table
     \<Rightarrow> store_error + (bridge_context_commit \<times> context_table)" where
  [poll_defs]: "advance_observation_body k expected outcome nxt next_sequence t =
     and_then (load_active_context t k) (\<lambda>loaded.
     and_then (ok_or MissingBridgeOperationContext loaded) (\<lambda>active.
     if active \<noteq> expected then
       and_then
         (if dc_poll_sequence active = next_sequence \<and> matches_spec active nxt
          then completed_context_exists t k expected outcome else Ok False) (\<lambda>replay.
       if replay then Ok (\<lparr>bcc_context = active, bcc_was_replay = True\<rparr>, t)
       else Err BridgeOperationContextConflict)
     else
       and_then (ensure_request_id_unused t k (bs_request_id nxt)) (\<lambda>_.
       and_then (complete_context k expected outcome t) (\<lambda>(updated, t1).
       if updated \<noteq> 1 then Err BridgeOperationContextConflict
       else
         let c = \<lparr>dc_poll_sequence = next_sequence, dc_request_id = bs_request_id nxt,
                  dc_discovery_window = bs_discovery_window nxt\<rparr> in
         and_then (insert_active_context k c t1) (\<lambda>t2.
         Ok (\<lparr>bcc_context = c, bcc_was_replay = False\<rparr>, t2))))))"

definition advance_observation ::
    "tx_io \<Rightarrow> bridge_operation_key \<Rightarrow> durable_request_context \<Rightarrow> bridge_observation_outcome
     \<Rightarrow> bridge_request_spec \<Rightarrow> context_table
     \<Rightarrow> (store_error + bridge_context_commit) \<times> context_table" where
  [poll_defs]: "advance_observation io k expected outcome nxt t =
     (if \<not> is_observation (bk_operation k) then (Err InvalidBridgeOperationContext, t)
      else case validate_request_shape k nxt of
        Inl e \<Rightarrow> (Err e, t)
      | Inr _ \<Rightarrow>
          if dc_request_id expected = bs_request_id nxt then (Err InvalidBridgeOperationContext, t)
          else case checked_add (dc_poll_sequence expected) 1 of
            None \<Rightarrow> (Err BridgePollSequenceOverflow, t)
          | Some next_sequence \<Rightarrow>
              transact Sqlite io (advance_observation_body k expected outcome nxt next_sequence) t)"

section \<open>Calls\<close>

datatype poll_event =
    BeginOrResume tx_io bridge_operation_key bridge_request_spec
  | AdvanceObservation tx_io bridge_operation_key durable_request_context
      bridge_observation_outcome bridge_request_spec

text \<open>The values the Rust types of the arguments admit.\<close>

definition window_valid :: "discovery_window option \<Rightarrow> bool" where
  "window_valid window =
     (case window of
        None \<Rightarrow> True
      | Some w \<Rightarrow> discovery_window_new (dw_start_height w) (dw_max_blocks w) = Ok w)"

definition spec_valid :: "bridge_request_spec \<Rightarrow> bool" where
  "spec_valid spec \<longleftrightarrow> request_id_new (request_id_str (bs_request_id spec)) = Ok (bs_request_id spec) \<and>
     window_valid (bs_discovery_window spec)"

fun poll_typed :: "poll_event \<Rightarrow> bool" where
  "poll_typed (BeginOrResume io k requested) = spec_valid requested"
| "poll_typed (AdvanceObservation io k expected outcome nxt) = spec_valid nxt"

fun poll_call :: "poll_event \<Rightarrow> context_table \<Rightarrow> (store_error + bridge_context_commit) \<times> context_table"
where
  "poll_call (BeginOrResume io k requested) t = begin_or_resume io k requested t"
| "poll_call (AdvanceObservation io k expected outcome nxt) t =
     advance_observation io k expected outcome nxt t"

definition poll_step :: "context_table \<Rightarrow> poll_event \<Rightarrow> context_table" where
  "poll_step t e = (if poll_typed e then snd (poll_call e t) else t)"

fun event_key :: "poll_event \<Rightarrow> bridge_operation_key" where
  "event_key (BeginOrResume io k requested) = k"
| "event_key (AdvanceObservation io k expected outcome nxt) = k"

end
