(* ===== verification/Poll_Refinement.thy ===== *)
theory Poll_Refinement
  imports Poll_Journal
begin

text \<open>
  The abstract journal of bridge requests, and that the table implements it. An operation
  is a sequence of finished polls and the one active request (\<open>poll_state\<close>); every method
  is a function on it (\<open>poll_spec\<close>). The invariant \<open>poll_ok\<close> says that the rows of every
  operation are exactly those of its state, which \<open>poll_of\<close> reads back.
\<close>

section \<open>The abstract journal\<close>

datatype poll_state =
    Idle
  | Polling "(bridge_request_spec \<times> bridge_observation_outcome) list" bridge_request_spec

definition context_at :: "nat \<Rightarrow> bridge_request_spec \<Rightarrow> durable_request_context" where
  "context_at n spec = \<lparr>dc_poll_sequence = word_of_nat n, dc_request_id = bs_request_id spec,
     dc_discovery_window = bs_discovery_window spec\<rparr>"

definition poll_begin ::
    "bool \<Rightarrow> poll_state \<Rightarrow> bridge_request_spec \<Rightarrow> store_error + (bridge_context_commit \<times> poll_state)" where
  "poll_begin used p spec =
     (case p of
        Polling past s \<Rightarrow>
          if s = spec
          then Ok (\<lparr>bcc_context = context_at (length past) s, bcc_was_replay = True\<rparr>, p)
          else Err BridgeOperationContextConflict
      | Idle \<Rightarrow>
          if used then Err BridgeRequestIdReused
          else Ok (\<lparr>bcc_context = context_at 0 spec, bcc_was_replay = False\<rparr>, Polling [] spec))"

definition poll_advance ::
    "bool \<Rightarrow> poll_state \<Rightarrow> durable_request_context \<Rightarrow> bridge_observation_outcome
     \<Rightarrow> bridge_request_spec \<Rightarrow> store_error + (bridge_context_commit \<times> poll_state)" where
  "poll_advance used p expected outcome nxt =
     (case p of
        Idle \<Rightarrow> Err MissingBridgeOperationContext
      | Polling past s \<Rightarrow>
          if expected = context_at (length past) s then
            if used then Err BridgeRequestIdReused
            else if Suc (length past) > unat i64_max then Err BridgePollSequenceOverflow
            else Ok (\<lparr>bcc_context = context_at (Suc (length past)) nxt, bcc_was_replay = False\<rparr>,
                     Polling (past @ [(s, outcome)]) nxt)
          else if past \<noteq> [] \<and> s = nxt \<and> outcome = snd (last past) \<and>
                  expected = context_at (length past - 1) (fst (last past))
          then Ok (\<lparr>bcc_context = context_at (length past) s, bcc_was_replay = True\<rparr>, p)
          else Err BridgeOperationContextConflict)"

text \<open>A method on the abstract state: the checks on the arguments, then the transition.\<close>

fun poll_spec :: "bool \<Rightarrow> poll_state \<Rightarrow> poll_event \<Rightarrow> store_error + (bridge_context_commit \<times> poll_state)"
where
  "poll_spec used p (BeginOrResume io k requested) =
     and_then (validate_request_shape k requested) (\<lambda>_. poll_begin used p requested)"
| "poll_spec used p (AdvanceObservation io k expected outcome nxt) =
     (if \<not> is_observation (bk_operation k) then Err InvalidBridgeOperationContext
      else and_then (validate_request_shape k nxt) (\<lambda>_.
        if dc_request_id expected = bs_request_id nxt then Err InvalidBridgeOperationContext
        else if dc_poll_sequence expected = - 1 then Err BridgePollSequenceOverflow
        else poll_advance used p expected outcome nxt))"

section \<open>Rows of an operation\<close>

definition active_row_of :: "bridge_operation_key \<Rightarrow> durable_request_context \<Rightarrow> context_row" where
  "active_row_of k c =
     \<lparr>cr_run_id = run_id_str (bk_run_id k), cr_swap_id = swap_id_str (bk_swap_id k),
      cr_local_role = participant_name (bk_local_role k),
      cr_operation = operation_name (bk_operation k), cr_poll_sequence = uint (dc_poll_sequence c),
      cr_request_id = request_id_str (dc_request_id c),
      cr_window_start_height = fst (encode_window (dc_discovery_window c)),
      cr_window_max_blocks = snd (encode_window (dc_discovery_window c)),
      cr_state = ''active'', cr_completion_outcome = None\<rparr>"

definition completed :: "bridge_observation_outcome \<Rightarrow> context_row \<Rightarrow> context_row" where
  "completed outcome r =
     r\<lparr>cr_state := ''completed'', cr_completion_outcome := Some (outcome_name outcome)\<rparr>"

fun done_rows ::
    "bridge_operation_key \<Rightarrow> nat \<Rightarrow> (bridge_request_spec \<times> bridge_observation_outcome) list
     \<Rightarrow> context_row list" where
  "done_rows k n [] = []"
| "done_rows k n ((s, outcome) # rest) =
     completed outcome (active_row_of k (context_at n s)) # done_rows k (Suc n) rest"

fun poll_rows :: "bridge_operation_key \<Rightarrow> poll_state \<Rightarrow> context_row list" where
  "poll_rows k Idle = []"
| "poll_rows k (Polling past s) =
     done_rows k 0 past @ [active_row_of k (context_at (length past) s)]"

definition polls :: "context_table \<Rightarrow> bridge_operation_key \<Rightarrow> context_row list" where
  "polls t k = filter (\<lambda>r. context_key r = key_columns k) t"

fun state_ok :: "poll_state \<Rightarrow> bool" where
  "state_ok Idle \<longleftrightarrow> True"
| "state_ok (Polling past s) \<longleftrightarrow> list_all (\<lambda>(s, _). spec_valid s) past \<and> spec_valid s \<and>
     length past \<le> unat i64_max"

text \<open>The state of an operation, read back from the table.\<close>

definition row_spec :: "context_row \<Rightarrow> bridge_request_spec" where
  "row_spec r =
     (case decode_context r of
        Inl _ \<Rightarrow> \<lparr>bs_request_id = RequestId (cr_request_id r), bs_discovery_window = None\<rparr>
      | Inr c \<Rightarrow> \<lparr>bs_request_id = dc_request_id c, bs_discovery_window = dc_discovery_window c\<rparr>)"

definition row_outcome :: "context_row \<Rightarrow> bridge_observation_outcome" where
  "row_outcome r =
     (if cr_completion_outcome r = Some ''succeeded'' then Outcome_Succeeded else Outcome_TypedError)"

definition poll_of :: "context_table \<Rightarrow> bridge_operation_key \<Rightarrow> poll_state" where
  "poll_of t k =
     (case rev (polls t k) of
        [] \<Rightarrow> Idle
      | r # rs \<Rightarrow> Polling (rev (map (\<lambda>r. (row_spec r, row_outcome r)) rs)) (row_spec r))"

definition poll_ok :: "context_table \<Rightarrow> bool" where
  "poll_ok t \<longleftrightarrow> distinct (map request_key t) \<and>
     (\<forall>k. state_ok (poll_of t k) \<and> polls t k = poll_rows k (poll_of t k))"

definition request_used :: "context_table \<Rightarrow> bridge_operation_key \<Rightarrow> request_id \<Rightarrow> bool" where
  "request_used t k request \<longleftrightarrow>
     (\<exists>r \<in> set t. request_key r =
        (run_id_str (bk_run_id k), participant_name (bk_local_role k), request_id_str request))"

lemma request_used_keys: "request_used t k request \<longleftrightarrow>
    (run_id_str (bk_run_id k), participant_name (bk_local_role k), request_id_str request)
      \<in> set (map request_key t)"
proof -
  have "(\<exists>r \<in> S. f r = x) \<longleftrightarrow> x \<in> f ` S" for f :: "'a \<Rightarrow> 'b" and S x by auto
  then show ?thesis by (simp add: request_used_def)
qed

section \<open>Columns\<close>

lemma run_id_str_inject [simp]: "run_id_str a = run_id_str b \<longleftrightarrow> a = b"
  by (cases a; cases b) simp

lemma operation_name_inject [simp]: "operation_name a = operation_name b \<longleftrightarrow> a = b"
  by (cases a; cases b) simp_all

lemma outcome_name_inject [simp]: "outcome_name a = outcome_name b \<longleftrightarrow> a = b"
  by (cases a; cases b) simp_all

lemma key_columns_inject [simp]: "key_columns a = key_columns b \<longleftrightarrow> a = b"
  by (cases a; cases b) (simp add: key_columns_def)

lemma encode_window_inject [simp]: "encode_window a = encode_window b \<longleftrightarrow> a = b"
proof -
  have "m = n" if eq: "to_decimal m = to_decimal n" for m n
  proof -
    have "Some m = parse_decimal (Suc (max m n)) (to_decimal m)" by simp
    also have "\<dots> = Some n" unfolding eq by simp
    finally show ?thesis by simp
  qed
  then have dec: "to_decimal m = to_decimal n \<longleftrightarrow> m = n" for m n by blast
  have "v = w" if "unat (dw_start_height v) = unat (dw_start_height w)"
    "uint (dw_max_blocks v) = uint (dw_max_blocks w)" for v w :: discovery_window
    using that by (intro discovery_window.equality) (simp_all add: word_unat_eq_iff flip: word_uint_eq_iff)
  with dec show ?thesis
    by (auto simp: encode_window_def split: option.splits)
qed

lemma operation_name_listed: "operation_name op \<in> set context_operations"
  by (cases op) (simp_all add: context_operations_def)

lemma active_row_key [simp]: "context_key (active_row_of k c) = key_columns k"
  by (simp add: context_key_def active_row_of_def key_columns_def)

lemma completed_simps [simp]:
  "context_key (completed outcome r) = context_key r" "request_key (completed outcome r) = request_key r"
  "decode_context (completed outcome r) = decode_context r"
  "cr_state (completed outcome r) = ''completed''"
  "cr_poll_sequence (completed outcome r) = cr_poll_sequence r"
  "cr_request_id (completed outcome r) = cr_request_id r"
  "cr_window_start_height (completed outcome r) = cr_window_start_height r"
  "cr_window_max_blocks (completed outcome r) = cr_window_max_blocks r"
  "cr_completion_outcome (completed outcome r) = Some (outcome_name outcome)"
  by (simp_all add: completed_def context_key_def request_key_def decode_context_def)

lemma row_spec_completed [simp]: "row_spec (completed outcome r) = row_spec r"
  by (simp add: row_spec_def split: sum.split)

lemma row_outcome_completed [simp]: "row_outcome (completed outcome r) = outcome"
  by (cases outcome) (simp_all add: completed_def row_outcome_def)

lemma decode_active_row:
  assumes "spec_valid spec"
  shows "decode_context (active_row_of k (context_at n spec)) = Ok (context_at n spec)"
proof (cases "bs_discovery_window spec")
  case None
  with assms show ?thesis
    by (simp add: decode_context_def active_row_of_def context_at_def spec_valid_def encode_window_def)
next
  case (Some w)
  have "unat (dw_start_height w) < 2 ^ 64"
    using unsigned_less [of "dw_start_height w", where 'a = nat] by simp
  with Some assms show ?thesis
    by (simp add: decode_context_def active_row_of_def context_at_def spec_valid_def encode_window_def
        window_valid_def)
qed

lemma row_spec_active: "spec_valid spec \<Longrightarrow> row_spec (active_row_of k (context_at n spec)) = spec"
  by (simp add: row_spec_def decode_active_row) (simp add: context_at_def)

lemma uint_positive: "0 < unat w \<Longrightarrow> 0 < uint (w :: 'a::len word)"
  using uint_ge_0 [of w] uint_0_iff [of w] by (auto simp del: uint_ge_0 unsigned_greater_eq simp: le_less)

lemma active_row_checks: "spec_valid spec \<Longrightarrow> context_checks (active_row_of k (context_at n spec))"
  by (cases "bk_local_role k")
    (auto simp: context_checks_def active_row_of_def context_at_def operation_name_listed encode_window_def
      spec_valid_def window_valid_def discovery_window_new_Ok uint_positive split: option.splits)

section \<open>Reading the state\<close>

lemma done_rows_append:
  "done_rows k n (xs @ ys) = done_rows k n xs @ done_rows k (n + length xs) ys"
  by (induction k n xs rule: done_rows.induct) simp_all

lemma done_rows_read:
  "list_all (\<lambda>(s, _). spec_valid s) past \<Longrightarrow>
     map (\<lambda>r. (row_spec r, row_outcome r)) (done_rows k n past) = past"
  by (induction k n past rule: done_rows.induct) (simp_all add: row_spec_active)

lemma poll_of_rows:
  assumes "polls t k = poll_rows k p" "state_ok p"
  shows "poll_of t k = p"
  using assms
  by (cases p) (simp_all add: poll_of_def done_rows_read row_spec_active flip: rev_map)

lemma poll_okI:
  assumes "distinct (map request_key t)" "\<And>k. state_ok (p k)" "\<And>k. polls t k = poll_rows k (p k)"
  shows "poll_ok t" "poll_of t = p"
  using assms poll_of_rows [OF assms(3,2)] by (auto simp: poll_ok_def)

lemma polls_append: "polls (t @ [r]) k = polls t k @ (if context_key r = key_columns k then [r] else [])"
  by (simp add: polls_def)

lemma find_filter: "find (\<lambda>r. P r \<and> Q r) t = find Q (filter P t)"
  by (induction t) auto

lemma done_rows_state: "r \<in> set (done_rows k n past) \<Longrightarrow> cr_state r = ''completed''"
  by (induction k n past rule: done_rows.induct) auto

lemma find_active:
  "find (\<lambda>r. cr_state r = ''active'') (poll_rows k p) =
     (case p of Idle \<Rightarrow> None | Polling past s \<Rightarrow> Some (active_row_of k (context_at (length past) s)))"
proof -
  have skip: "(\<And>x. x \<in> set xs \<Longrightarrow> \<not> P x) \<Longrightarrow> find P (xs @ ys) = find P ys"
    for P :: "context_row \<Rightarrow> bool" and xs ys
    by (induction xs) auto
  have "find (\<lambda>r. cr_state r = ''active'') (done_rows k 0 past @ [active_row_of k c]) = Some (active_row_of k c)"
    for past c
    by (subst skip) (auto simp: active_row_of_def dest!: done_rows_state)
  then show ?thesis by (cases p) simp_all
qed

lemma load_active:
  assumes "poll_ok t"
  shows "load_active_context t k =
    Ok (case poll_of t k of Idle \<Rightarrow> None | Polling past s \<Rightarrow> Some (context_at (length past) s))"
proof -
  have "find (\<lambda>r. context_key r = key_columns k \<and> cr_state r = ''active'') t =
      find (\<lambda>r. cr_state r = ''active'') (poll_rows k (poll_of t k))"
    using assms by (simp add: find_filter poll_ok_def flip: polls_def)
  moreover have "state_ok (poll_of t k)" using assms by (simp add: poll_ok_def)
  ultimately show ?thesis
    by (cases "poll_of t k") (simp_all add: load_active_context_def find_active decode_active_row
        del: poll_rows.simps)
qed

lemma request_unused:
  "ensure_request_id_unused t k request = (if request_used t k request then Err BridgeRequestIdReused else Ok ())"
  by (simp add: ensure_request_id_unused_def request_used_def request_key_def list_ex_iff)

section \<open>Sequence numbers\<close>

lemma small_sequence:
  assumes "n \<le> unat i64_max"
  shows "unat (word_of_nat n :: u64) = n" "(word_of_nat n :: u64) \<le> i64_max"
proof -
  have "unat i64_max < 2 ^ LENGTH(64)" by (rule unsigned_less)
  with assms have "n < 2 ^ LENGTH(64)" by (rule le_less_trans)
  then show n: "unat (word_of_nat n :: u64) = n"
    by (simp only: unsigned_of_nat take_bit_nat_eq_self of_nat_id)
  then show "(word_of_nat n :: u64) \<le> i64_max"
    using assms by (simp only: word_le_nat_alt n)
qed

lemma sequence_inject:
  "m \<le> unat i64_max \<Longrightarrow> n \<le> unat i64_max \<Longrightarrow>
     uint (word_of_nat m :: u64) = uint (word_of_nat n :: u64) \<longleftrightarrow> m = n"
  using small_sequence(1) [of m] small_sequence(1) [of n] by (metis word_uint_eq_iff)

lemma checked_succ: "checked_add (w :: u64) 1 = (if w = - 1 then None else Some (w + 1))"
proof -
  have "unat w + 1 < 2 ^ LENGTH(64) \<longleftrightarrow> w \<noteq> - 1"
  proof -
    have "unat (- 1 :: u64) = 2 ^ LENGTH(64) - 1"
      by (simp add: unsigned_minus_1_eq_mask mask_eq_exp_minus_1)
    then show ?thesis
      using unsigned_less [of w, where 'a = nat] by (auto simp: word_unat_eq_iff)
  qed
  then show ?thesis by (simp add: checked_add_def)
qed

lemma context_eq_iff:
  "c = context_at n s \<longleftrightarrow> dc_poll_sequence c = word_of_nat n \<and> dc_request_id c = bs_request_id s \<and>
     dc_discovery_window c = bs_discovery_window s"
  by (cases c) (auto simp: context_at_def)

lemma matches_context: "matches_spec (context_at n s) spec \<longleftrightarrow> s = spec"
  by (cases s; cases spec) (simp add: matches_spec_def context_at_def)

lemma done_rows_sequence:
  "r \<in> set (done_rows k n past) \<Longrightarrow>
     \<exists>i. n \<le> i \<and> i < n + length past \<and> cr_poll_sequence r = uint (word_of_nat i :: u64)"
proof (induction k n past rule: done_rows.induct)
  case (2 k n s outcome rest)
  show ?case
  proof (cases "r \<in> set (done_rows k (Suc n) rest)")
    case True
    with 2(1) obtain i where "Suc n \<le> i" "i < Suc n + length rest" "cr_poll_sequence r = uint (word_of_nat i :: u64)"
      by blast
    then show ?thesis by (intro exI [of _ i]) simp
  next
    case False
    with 2(2) have "r = completed outcome (active_row_of k (context_at n s))" by simp
    then show ?thesis by (intro exI [of _ n]) (simp add: active_row_of_def context_at_def)
  qed
qed simp

section \<open>Statements on the state\<close>

lemma poll_okD:
  "poll_ok t \<Longrightarrow> state_ok (poll_of t k)" "poll_ok t \<Longrightarrow> polls t k = poll_rows k (poll_of t k)"
  "poll_ok t \<Longrightarrow> distinct (map request_key t)"
  by (simp_all add: poll_ok_def)

lemma insert_active:
  assumes "spec_valid s" "n \<le> unat i64_max" "\<not> request_used t k (bs_request_id s)"
    and rows: "\<And>r. r \<in> set (polls t k) \<Longrightarrow>
      cr_state r = ''completed'' \<and> cr_poll_sequence r \<noteq> uint (word_of_nat n :: u64)"
  shows "insert_active_context k (context_at n s) t = Ok (t @ [active_row_of k (context_at n s)])"
proof -
  have "\<not> context_clash (active_row_of k (context_at n s)) r" if "r \<in> set t" for r
  proof -
    have "request_key (active_row_of k (context_at n s)) \<noteq> request_key r"
      using assms(3) that by (auto simp: request_used_def request_key_def active_row_of_def context_at_def)
    moreover have "r \<in> set (polls t k)" if "key_columns k = context_key r"
      using that \<open>r \<in> set t\<close> by (simp add: polls_def)
    ultimately show ?thesis
      using rows [of r] by (auto simp: context_clash_def) (auto simp: active_row_of_def context_at_def)
  qed
  then have "\<not> list_ex (context_clash (active_row_of k (context_at n s))) t"
    by (simp add: list_ex_iff)
  moreover have "sequence_to_sql (dc_poll_sequence (context_at n s)) =
      Ok (uint (dc_poll_sequence (context_at n s)))"
    using small_sequence(2) [OF assms(2)] by (simp add: sequence_to_sql_def to_i64_Ok context_at_def)
  moreover have "insert_active_context k c t =
      and_then (sequence_to_sql (dc_poll_sequence c)) (\<lambda>v. table_insert Sqlite context_checks context_clash
        ((active_row_of k c)\<lparr>cr_poll_sequence := v\<rparr>) t)" for c
    by (simp add: insert_active_context_def active_row_of_def split: prod.splits)
  moreover have "(active_row_of k c)\<lparr>cr_poll_sequence := uint (dc_poll_sequence c)\<rparr> = active_row_of k c" for c
    by (simp add: active_row_of_def)
  ultimately show ?thesis
    by (simp add: table_insert_def active_row_checks [OF assms(1)])
qed

text \<open>Completing the active row of an operation.\<close>

definition is_active :: "bridge_operation_key \<Rightarrow> int \<Rightarrow> context_row \<Rightarrow> bool" where
  "is_active k v r \<longleftrightarrow> context_key r = key_columns k \<and> cr_poll_sequence r = v \<and> cr_state r = ''active''"

definition complete_rows ::
    "bridge_operation_key \<Rightarrow> int \<Rightarrow> bridge_observation_outcome \<Rightarrow> context_table \<Rightarrow> context_table" where
  "complete_rows k v outcome t = map (\<lambda>r. if is_active k v r then completed outcome r else r) t"

lemma complete_rows_keys: "map request_key (complete_rows k v outcome t) = map request_key t"
  by (simp add: complete_rows_def)

lemma polls_complete: "polls (complete_rows k v outcome t) k' = complete_rows k v outcome (polls t k')"
  by (induction t) (simp_all add: polls_def complete_rows_def)

lemma complete_rows_same: "(\<And>r. r \<in> set t \<Longrightarrow> \<not> is_active k v r) \<Longrightarrow> complete_rows k v outcome t = t"
  by (induction t) (simp_all add: complete_rows_def)

lemma done_rows_inactive: "r \<in> set (done_rows k n past) \<Longrightarrow> \<not> is_active k' v r"
  by (auto simp: is_active_def dest: done_rows_state)

lemma complete_context_row:
  assumes ok: "poll_ok t" and p: "poll_of t k = Polling past s"
  defines "v \<equiv> uint (word_of_nat (length past) :: u64)"
  shows "complete_context k (context_at (length past) s) outcome t = Ok (1, complete_rows k v outcome t)"
    and "polls (complete_rows k v outcome t) k = done_rows k 0 (past @ [(s, outcome)])"
    and "k' \<noteq> k \<Longrightarrow> polls (complete_rows k v outcome t) k' = polls t k'"
proof -
  let ?a = "active_row_of k (context_at (length past) s)"
  have rows: "polls t k = done_rows k 0 past @ [?a]" using poll_okD(2) [OF ok] p by simp
  have valid: "length past \<le> unat i64_max" "spec_valid s" using poll_okD(1) [OF ok, of k] p by auto
  have act: "is_active k v ?a" by (simp add: is_active_def v_def) (simp add: active_row_of_def context_at_def)
  have none: "filter (is_active k v) (done_rows k 0 past) = []"
    by (simp add: filter_empty_conv done_rows_inactive)
  have "filter (is_active k v) t = filter (is_active k v) (polls t k)"
    by (auto simp: polls_def is_active_def intro: filter_cong)
  also have "\<dots> = [?a]" using act none by (simp add: rows)
  finally have filt: "filter (is_active k v) t = [?a]" .
  have checks: "context_checks (completed outcome ?a)"
    using active_row_checks [OF valid(2), of k "length past"]
    by (cases outcome) (simp_all add: context_checks_def completed_def)
  have "complete_context k (context_at (length past) s) outcome t =
      table_update Sqlite context_checks (is_active k v) (completed outcome) t"
    using leD [OF small_sequence(2) [OF valid(1)]]
    by (simp add: complete_context_def sequence_to_sql_def to_i64_def context_at_def v_def
        is_active_def [abs_def] completed_def [abs_def])
  then show "complete_context k (context_at (length past) s) outcome t = Ok (1, complete_rows k v outcome t)"
    using filt checks by (simp add: table_update_def complete_rows_def)
  have "complete_rows k v outcome (done_rows k 0 past) = done_rows k 0 past"
    by (rule complete_rows_same) (rule done_rows_inactive)
  then show "polls (complete_rows k v outcome t) k = done_rows k 0 (past @ [(s, outcome)])"
    using act by (simp add: polls_complete rows done_rows_append) (simp add: complete_rows_def)
  show "k' \<noteq> k \<Longrightarrow> polls (complete_rows k v outcome t) k' = polls t k'"
    unfolding polls_complete by (rule complete_rows_same) (auto simp: polls_def is_active_def)
qed

text \<open>A completed poll is found exactly when it is the last one.\<close>

lemma completed_exists:
  assumes ok: "poll_ok t" and p: "poll_of t k = Polling past s"
    and seq: "dc_poll_sequence expected \<noteq> - 1" "word_of_nat (length past) = dc_poll_sequence expected + 1"
  shows "completed_context_exists t k expected outcome =
    Ok (past \<noteq> [] \<and> outcome = snd (last past) \<and> expected = context_at (length past - 1) (fst (last past)))"
proof -
  let ?e = "dc_poll_sequence expected"
  have len: "length past \<le> unat i64_max" using poll_okD(1) [OF ok, of k] p by simp
  have succ: "unat (?e + 1) = unat ?e + 1"
    using unat_checked_add [of ?e 1 "?e + 1"] seq(1) by (simp add: checked_succ)
  with small_sequence(1) [OF len] seq(2) have n: "length past = unat ?e + 1" by simp
  then obtain init sl ol where past: "past = init @ [(sl, ol)]" "length init = unat ?e"
    by (cases past rule: rev_cases) auto
  have e: "?e = word_of_nat (length init)" by (simp add: past)
  have init: "length init \<le> unat i64_max" using len past by simp
  have sql: "sequence_to_sql ?e = Ok (uint ?e)"
    using small_sequence(2) [OF init] by (simp add: sequence_to_sql_def to_i64_Ok e)
  define P where "P = (\<lambda>r :: context_row. cr_poll_sequence r = uint ?e \<and>
    cr_request_id r = request_id_str (dc_request_id expected) \<and>
    cr_window_start_height r = fst (encode_window (dc_discovery_window expected)) \<and>
    cr_window_max_blocks r = snd (encode_window (dc_discovery_window expected)) \<and>
    cr_state r = ''completed'' \<and> cr_completion_outcome r = Some (outcome_name outcome))"
  have rows: "polls t k = done_rows k 0 init @ [completed ol (active_row_of k (context_at (length init) sl)),
      active_row_of k (context_at (length past) s)]"
    using poll_okD(2) [OF ok, of k] p past(1) by (simp add: done_rows_append)
  have earlier: "\<not> P r" if r: "r \<in> set (done_rows k 0 init)" for r
  proof -
    obtain i where i: "i < length init" "cr_poll_sequence r = uint (word_of_nat i :: u64)"
      using done_rows_sequence [OF r] by auto
    then have "cr_poll_sequence r \<noteq> uint ?e"
      using sequence_inject [of i "length init"] init by (simp add: e)
    then show ?thesis by (simp add: P_def)
  qed
  have last: "P (completed ol (active_row_of k (context_at (length init) sl))) \<longleftrightarrow>
      outcome = ol \<and> expected = context_at (length init) sl"
  proof -
    have "fst (encode_window a) = fst (encode_window b) \<and> snd (encode_window a) = snd (encode_window b) \<longleftrightarrow> b = a"
      for a b using encode_window_inject [of a b] by (auto simp: prod_eq_iff)
    then show ?thesis
      unfolding context_eq_iff P_def by (auto simp: active_row_of_def context_at_def e)
  qed
  have "list_ex (\<lambda>r. context_key r = key_columns k \<and> P r) t \<longleftrightarrow> list_ex P (polls t k)"
    by (auto simp: list_ex_iff polls_def)
  also have "\<dots> \<longleftrightarrow> outcome = ol \<and> expected = context_at (length init) sl"
  proof -
    have "\<not> P (active_row_of k (context_at (length past) s))" by (simp add: P_def active_row_of_def)
    moreover have "\<not> list_ex P (done_rows k 0 init)" using earlier by (simp add: list_ex_iff)
    ultimately show ?thesis unfolding rows by (simp add: last)
  qed
  finally show ?thesis
    unfolding completed_context_exists_def
    by (simp add: sql past(1) case_prod_unfold P_def)
qed

section \<open>Every method implements the abstract journal\<close>

text \<open>The columns that never change, and growth of the table.\<close>

definition frozen :: "context_row \<Rightarrow> (string \<times> string \<times> string \<times> string) \<times> int \<times> string \<times> string option \<times> int option" where
  "frozen r = (context_key r, cr_poll_sequence r, cr_request_id r, cr_window_start_height r,
     cr_window_max_blocks r)"

definition contexts_grow :: "context_table \<Rightarrow> context_table \<Rightarrow> bool" where
  "contexts_grow t t' \<longleftrightarrow> frozen ` set t \<subseteq> frozen ` set t'"

definition poll_implements ::
    "context_table \<Rightarrow> bridge_operation_key \<Rightarrow> store_error + (bridge_context_commit \<times> context_table)
     \<Rightarrow> store_error + (bridge_context_commit \<times> poll_state) \<Rightarrow> bool" where
  "poll_implements t k concrete abstract =
     (case abstract of
        Inl e \<Rightarrow> concrete = Err e
      | Inr (c, p) \<Rightarrow> \<exists>t'. concrete = Ok (c, t') \<and> poll_ok t' \<and> poll_of t' = (poll_of t)(k := p) \<and> contexts_grow t t')"

lemma contexts_grow_refl [simp]: "contexts_grow t t"
  by (simp add: contexts_grow_def)

lemma contexts_grow_trans: "contexts_grow a b \<Longrightarrow> contexts_grow b c \<Longrightarrow> contexts_grow a c"
  by (auto simp: contexts_grow_def)

lemma frozen_completed [simp]: "frozen (completed outcome r) = frozen r"
  by (simp add: frozen_def)

lemma poll_implements_same: "poll_ok t \<Longrightarrow> poll_of t k = p \<Longrightarrow> poll_implements t k (Ok (c, t)) (Ok (c, p))"
  by (auto simp: poll_implements_def)

text \<open>A table whose rows of one operation are those of a new state.\<close>

lemma new_state:
  assumes "poll_ok t" "distinct (map request_key t')" "state_ok p" "polls t' k = poll_rows k p"
    and "\<And>k'. k' \<noteq> k \<Longrightarrow> polls t' k' = polls t k'"
  shows "poll_ok t'" "poll_of t' = (poll_of t)(k := p)"
  by (rule poll_okI [where p = "(poll_of t)(k := p)"];
      use assms poll_okD in \<open>auto simp: fun_upd_apply\<close>)+

lemma distinct_insert:
  assumes "distinct (map request_key t)" "\<not> request_used t k (bs_request_id s)"
  shows "distinct (map request_key (t @ [active_row_of k (context_at n s)]))"
  using assms by (auto simp: request_used_def request_key_def active_row_of_def context_at_def)

lemma begin_implements:
  assumes ok: "poll_ok t" and s: "spec_valid s"
  shows "poll_implements t k (begin_or_resume_body k s t)
    (poll_begin (request_used t k (bs_request_id s)) (poll_of t k) s)"
proof (cases "poll_of t k")
  case (Polling past s')
  then show ?thesis
    using poll_implements_same [OF ok Polling]
    by (auto simp: begin_or_resume_body_def load_active [OF ok] poll_begin_def matches_context poll_implements_def)
next
  case Idle
  then have none: "polls t k = []" using poll_okD(2) [OF ok, of k] by simp
  show ?thesis
  proof (cases "request_used t k (bs_request_id s)")
    case True
    with Idle show ?thesis
      by (simp add: begin_or_resume_body_def load_active [OF ok] poll_begin_def request_unused poll_implements_def)
  next
    case False
    let ?t = "t @ [active_row_of k (context_at 0 s)]"
    have ins: "insert_active_context k (context_at 0 s) t = Ok ?t"
      by (rule insert_active) (use s False none in simp_all)
    have seq: "next_poll_sequence t k = Ok 0"
      using none by (simp add: next_poll_sequence_def flip: polls_def)
    have ctx: "\<lparr>dc_poll_sequence = 0, dc_request_id = bs_request_id s,
        dc_discovery_window = bs_discovery_window s\<rparr> = context_at 0 s" by (simp add: context_at_def)
    have "poll_ok ?t" "poll_of ?t = (poll_of t)(k := Polling [] s)"
      using new_state [OF ok distinct_insert [OF poll_okD(3) [OF ok] False, of 0], of "Polling [] s" k] s none
      by (simp_all add: polls_append)
    moreover have "begin_or_resume_body k s t =
        Ok (\<lparr>bcc_context = context_at 0 s, bcc_was_replay = False\<rparr>, ?t)"
      using Idle False by (simp add: begin_or_resume_body_def load_active [OF ok] request_unused seq ins ctx Let_def)
    ultimately show ?thesis
      using Idle False by (auto simp: poll_implements_def poll_begin_def contexts_grow_def)
  qed
qed

lemma advance_fresh:
  fixes outcome :: bridge_observation_outcome
  assumes ok: "poll_ok t" and p: "poll_of t k = Polling past s" and nxt: "spec_valid nxt"
    and unused: "\<not> request_used t k (bs_request_id nxt)" and fits: "Suc (length past) \<le> unat i64_max"
  defines "t1 \<equiv> complete_rows k (uint (word_of_nat (length past) :: u64)) outcome t"
  defines "t2 \<equiv> t1 @ [active_row_of k (context_at (Suc (length past)) nxt)]"
  shows "insert_active_context k (context_at (Suc (length past)) nxt) t1 = Ok t2" "poll_ok t2"
    "poll_of t2 = (poll_of t)(k := Polling (past @ [(s, outcome)]) nxt)" "contexts_grow t t2"
proof -
  note upd = complete_context_row(2,3) [OF ok p, where outcome = outcome, folded t1_def]
  have same: "map request_key t1 = map request_key t" by (simp add: t1_def complete_rows_keys)
  then have keys: "distinct (map request_key t1)" by (simp only: poll_okD(3) [OF ok])
  have unused1: "\<not> request_used t1 k (bs_request_id nxt)"
    using unused unfolding request_used_keys same .
  have rows: "cr_state r = ''completed'' \<and> cr_poll_sequence r \<noteq> uint (word_of_nat (Suc (length past)) :: u64)"
    if r: "r \<in> set (polls t1 k)" for r
  proof -
    from r have r': "r \<in> set (done_rows k 0 (past @ [(s, outcome)]))" by (simp only: upd(1))
    obtain i where i: "i < Suc (length past)" "cr_poll_sequence r = uint (word_of_nat i :: u64)"
      using done_rows_sequence [OF r'] by auto
    then have "cr_poll_sequence r \<noteq> uint (word_of_nat (Suc (length past)) :: u64)"
      using sequence_inject [of i "Suc (length past)"] fits by (simp del: of_nat_Suc)
    with done_rows_state [OF r'] show ?thesis by simp
  qed
  show "insert_active_context k (context_at (Suc (length past)) nxt) t1 = Ok t2"
    unfolding t2_def by (rule insert_active [OF nxt fits unused1 rows])
  have "polls t2 k = poll_rows k (Polling (past @ [(s, outcome)]) nxt)"
    using upd(1) by (simp add: t2_def polls_append del: of_nat_Suc)
  moreover have "k' \<noteq> k \<Longrightarrow> polls t2 k' = polls t k'" for k'
    using upd(2) by (simp add: t2_def polls_append)
  moreover have "state_ok (Polling (past @ [(s, outcome)]) nxt)"
    using poll_okD(1) [OF ok, of k] p nxt fits by simp
  moreover have "distinct (map request_key t2)"
    unfolding t2_def by (rule distinct_insert [OF keys unused1])
  ultimately show "poll_ok t2" "poll_of t2 = (poll_of t)(k := Polling (past @ [(s, outcome)]) nxt)"
    using new_state [OF ok, of t2 "Polling (past @ [(s, outcome)]) nxt" k] by blast+
  have "map frozen t1 = map frozen t" by (simp add: t1_def complete_rows_def)
  then have "frozen ` set t1 = frozen ` set t" by (metis list.set_map)
  then show "contexts_grow t t2" by (auto simp: contexts_grow_def t2_def)
qed

lemma advance_replay:
  assumes ok: "poll_ok t" and p: "poll_of t k = Polling past s"
    and seq: "dc_poll_sequence expected \<noteq> - 1" and ne: "expected \<noteq> context_at (length past) s"
  shows "poll_implements t k (advance_observation_body k expected outcome nxt (dc_poll_sequence expected + 1) t)
    (poll_advance used (Polling past s) expected outcome nxt)"
proof -
  let ?n = "length past"
  have replay: "(if dc_poll_sequence (context_at ?n s) = dc_poll_sequence expected + 1 \<and> s = nxt
      then completed_context_exists t k expected outcome else Ok False) =
    Ok (past \<noteq> [] \<and> s = nxt \<and> outcome = snd (last past) \<and> expected = context_at (?n - 1) (fst (last past)))"
  proof (cases "word_of_nat ?n = dc_poll_sequence expected + 1")
    case True
    then show ?thesis using completed_exists [OF ok p seq True] by (auto simp: context_at_def)
  next
    case False
    have "expected \<noteq> context_at (?n - 1) x" if "past \<noteq> []" for x
      using False that by (cases past) (auto simp: context_at_def)
    with False show ?thesis by (auto simp: context_at_def)
  qed
  show ?thesis
    using ne poll_implements_same [OF ok p]
    by (auto simp: advance_observation_body_def load_active [OF ok] p poll_advance_def matches_context
        replay poll_implements_def)
qed

lemma advance_implements:
  assumes ok: "poll_ok t" and nxt: "spec_valid nxt" and seq: "dc_poll_sequence expected \<noteq> - 1"
  shows "poll_implements t k (advance_observation_body k expected outcome nxt (dc_poll_sequence expected + 1) t)
    (poll_advance (request_used t k (bs_request_id nxt)) (poll_of t k) expected outcome nxt)"
proof (cases "poll_of t k")
  case Idle
  then show ?thesis
    by (simp add: advance_observation_body_def load_active [OF ok] poll_advance_def poll_implements_def)
next
  case p: (Polling past s)
  let ?n = "length past" and ?used = "request_used t k (bs_request_id nxt)"
  show ?thesis
  proof (cases "expected = context_at ?n s")
    case False
    then show ?thesis unfolding p by (rule advance_replay [OF ok p seq])
  next
    case True
    let ?t1 = "complete_rows k (uint (word_of_nat ?n :: u64)) outcome t"
    have body: "advance_observation_body k expected outcome nxt (dc_poll_sequence expected + 1) t =
        (if ?used then Err BridgeRequestIdReused
         else and_then (insert_active_context k (context_at (Suc ?n) nxt) ?t1) (\<lambda>t2.
           Ok (\<lparr>bcc_context = context_at (Suc ?n) nxt, bcc_was_replay = False\<rparr>, t2)))"
      using True complete_context_row(1) [OF ok p, of outcome]
      by (simp add: advance_observation_body_def load_active [OF ok] p request_unused Let_def)
        (simp add: context_at_def add.commute)
    show ?thesis
    proof (cases "?used \<or> Suc ?n \<le> unat i64_max")
      case False
      moreover have "?n \<le> unat i64_max" using poll_okD(1) [OF ok, of k] p by simp
      ultimately have "?n = unat i64_max" "\<not> ?used" by auto
      moreover from this(1) have "insert_active_context k (context_at (Suc ?n) nxt) ?t1 =
          Err BridgePollSequenceOverflow"
        by (simp add: insert_active_context_def sequence_to_sql_def to_i64_def context_at_def i64_max_def
            split: prod.splits)
      ultimately show ?thesis
        unfolding body p using True False by (simp add: poll_advance_def poll_implements_def)
    next
      case fits: True
      then show ?thesis
        unfolding body p using True advance_fresh [OF ok p nxt, of outcome]
        by (cases ?used) (auto simp: poll_advance_def poll_implements_def not_less_eq_eq simp del: of_nat_Suc)
    qed
  qed
qed

end
