(* ===== verification/Poll_Properties.thy ===== *)
theory Poll_Properties
  imports Poll_Refinement
begin

text \<open>
  What the journal of bridge requests guarantees over every sequence of calls on an empty
  table: each method answers as the abstract journal does, a request identifier names one
  request, and an unanswered request stays active until an advance names it.
\<close>

section \<open>Calls\<close>

fun event_io :: "poll_event \<Rightarrow> tx_io" where
  "event_io (BeginOrResume io k requested) = io"
| "event_io (AdvanceObservation io k expected outcome nxt) = io"

fun event_request :: "poll_event \<Rightarrow> request_id" where
  "event_request (BeginOrResume io k requested) = bs_request_id requested"
| "event_request (AdvanceObservation io k expected outcome nxt) = bs_request_id nxt"

abbreviation spec_answer :: "context_table \<Rightarrow> poll_event \<Rightarrow> store_error + (bridge_context_commit \<times> poll_state)" where
  "spec_answer t e \<equiv> poll_spec (request_used t (event_key e) (event_request e)) (poll_of t (event_key e)) e"

text \<open>Each call is a check of its arguments and one transaction.\<close>

fun poll_body :: "poll_event \<Rightarrow> context_table \<Rightarrow> store_error + (bridge_context_commit \<times> context_table)" where
  "poll_body (BeginOrResume io k requested) t =
     and_then (validate_request_shape k requested) (\<lambda>_. begin_or_resume_body k requested t)"
| "poll_body (AdvanceObservation io k expected outcome nxt) t =
     (if \<not> is_observation (bk_operation k) then Err InvalidBridgeOperationContext
      else and_then (validate_request_shape k nxt) (\<lambda>_.
        if dc_request_id expected = bs_request_id nxt then Err InvalidBridgeOperationContext
        else if dc_poll_sequence expected = - 1 then Err BridgePollSequenceOverflow
        else advance_observation_body k expected outcome nxt (dc_poll_sequence expected + 1) t))"

lemma poll_implements_Err: "poll_implements t k (Err e) (Err e)"
  by (simp add: poll_implements_def)

lemma poll_body_implements:
  assumes "poll_ok t" "poll_typed e"
  shows "poll_implements t (event_key e) (poll_body e t) (spec_answer t e)"
proof (cases e)
  case (BeginOrResume io k requested)
  then show ?thesis
    using assms begin_implements [OF assms(1), of requested k]
    by (cases "validate_request_shape k requested") (simp_all add: poll_implements_Err)
next
  case (AdvanceObservation io k expected outcome nxt)
  then show ?thesis
    using assms advance_implements [OF assms(1), of nxt expected k outcome]
    by (cases "validate_request_shape k nxt") (simp_all add: poll_implements_Err)
qed

lemma poll_call_outcomes:
  obtains "poll_call e t = transact Sqlite (event_io e) (poll_body e) t"
  | err where "poll_call e t = (Err err, t)" "poll_body e t = Err err"
proof (cases e)
  case (BeginOrResume io k requested)
  then show thesis
    using that by (cases "validate_request_shape k requested")
      (auto simp: begin_or_resume_def transact_def)
next
  case (AdvanceObservation io k expected outcome nxt)
  consider "\<not> is_observation (bk_operation k)"
    | err where "is_observation (bk_operation k)" "validate_request_shape k nxt = Err err"
    | "is_observation (bk_operation k)" "validate_request_shape k nxt = Ok ()"
      "dc_request_id expected = bs_request_id nxt"
    | "is_observation (bk_operation k)" "validate_request_shape k nxt = Ok ()"
      "dc_request_id expected \<noteq> bs_request_id nxt" "dc_poll_sequence expected = - 1"
    | "is_observation (bk_operation k)" "validate_request_shape k nxt = Ok ()"
      "dc_request_id expected \<noteq> bs_request_id nxt" "dc_poll_sequence expected \<noteq> - 1"
    by (cases "validate_request_shape k nxt") (simp_all, blast+)
  then show thesis
  proof cases
    case 5
    show thesis
      by (rule that(1)) (use 5 in \<open>simp add: AdvanceObservation advance_observation_def checked_succ transact_def\<close>)
  qed (rule that(2), simp_all add: AdvanceObservation advance_observation_def checked_succ)+
qed

lemma poll_call_cases:
  assumes "poll_ok t" "poll_typed e"
  obtains (failed) err where "poll_call e t = (Err err, t)"
  | (committed) c p t' where "spec_answer t e = Ok (c, p)" "poll_call e t = (Ok c, t')" "poll_ok t'"
    "poll_of t' = (poll_of t)(event_key e := p)" "contexts_grow t t'"
proof (cases rule: poll_call_outcomes [of e t])
  case 1
  show thesis
  proof (cases rule: transact_cases [of Sqlite "event_io e" "poll_body e" t])
    case 1
    then obtain err where "transact Sqlite (event_io e) (poll_body e) t = (Err err, t)"
      by (cases "transact Sqlite (event_io e) (poll_body e) t"; cases "fst (transact Sqlite (event_io e) (poll_body e) t)")
        auto
    with \<open>poll_call e t = _\<close> failed show thesis by simp
  next
    case (2 c t')
    with poll_body_implements [OF assms] obtain p where
      "spec_answer t e = Ok (c, p)" "poll_ok t'" "poll_of t' = (poll_of t)(event_key e := p)" "contexts_grow t t'"
      by (auto simp: poll_implements_def split: sum.splits)
    with 2 \<open>poll_call e t = _\<close> committed show thesis by simp
  qed
next
  case (2 err)
  with failed show thesis by simp
qed

lemma poll_step_sound:
  assumes "poll_ok t"
  shows "poll_ok (poll_step t e) \<and> contexts_grow t (poll_step t e)"
proof (cases "poll_typed e")
  case True
  with assms show ?thesis
    by (cases rule: poll_call_cases) (simp_all add: poll_step_def assms)
qed (simp add: poll_step_def assms)

interpretation polling: step_order poll_step poll_ok contexts_grow
  by unfold_locales (use poll_step_sound in \<open>auto intro: contexts_grow_trans\<close>)

lemma reachable_poll_ok: "poll_ok (run poll_step [] es)"
proof (rule polling.run_inv)
  show "poll_ok []" by (rule poll_okI(1) [where p = "\<lambda>_. Idle"]) (simp_all add: polls_def)
qed

section \<open>Refinement\<close>

lemma poll_call_working:
  assumes "poll_ok t" "poll_typed e" "begin_ok (event_io e)" "commit_ok (event_io e)"
  shows "case spec_answer t e of
      Inl err \<Rightarrow> poll_call e t = (Err err, t)
    | Inr (c, p) \<Rightarrow> fst (poll_call e t) = Ok c \<and>
        poll_of (snd (poll_call e t)) = (poll_of t)(event_key e := p)"
proof -
  have "poll_call e t = (case poll_body e t of Inl err \<Rightarrow> (Err err, t) | Inr (c, t') \<Rightarrow> (Ok c, t'))"
    using assms(3,4)
    by (cases rule: poll_call_outcomes [of e t])
      (auto simp: transact_def end_transaction_def split: sum.splits)
  with poll_body_implements [OF assms(1,2)] show ?thesis
    by (auto simp: poll_implements_def split: sum.splits)
qed

text \<open>
  C17: On a reachable bridge operation journal with a working database, begin_or_resume and
  advance_observation return exactly what the abstract journal of finished polls and one
  active request returns, errors included; a success moves the operation to the abstract
  next state and leaves every other operation alone, and an error changes nothing.
\<close>

theorem poll_journal_refines:
  assumes "t = run poll_step [] es" "poll_typed e" "begin_ok (event_io e)" "commit_ok (event_io e)"
  shows "case spec_answer t e of
      Inl err \<Rightarrow> poll_call e t = (Err err, t)
    | Inr (c, p) \<Rightarrow> fst (poll_call e t) = Ok c \<and>
        poll_of (snd (poll_call e t)) = (poll_of t)(event_key e := p)"
  by (rule poll_call_working) (use assms in \<open>simp_all add: reachable_poll_ok\<close>)

section \<open>One request per identifier\<close>

lemma spec_context:
  assumes "poll_spec used p e = Ok (c, q)"
  obtains past s where "q = Polling past s" "bcc_context c = context_at (length past) s"
  using assms
  by (cases e; cases p)
    (auto simp: poll_begin_def poll_advance_def and_then_Inr split: if_splits)

lemma spec_keeps_active:
  assumes "poll_spec used (Polling past s) e = Ok (c, q)" "q \<noteq> Polling past s"
  obtains io outcome nxt where "e = AdvanceObservation io (event_key e) (context_at (length past) s) outcome nxt"
  using assms
  by (cases e) (auto simp: poll_begin_def poll_advance_def and_then_Inr split: if_splits)

lemma poll_committed_row:
  assumes "poll_ok t" "poll_typed e" "fst (poll_call e t) = Ok c"
  shows "frozen (active_row_of (event_key e) (bcc_context c)) \<in> frozen ` set (poll_step t e)"
  using assms(1,2)
proof (cases rule: poll_call_cases)
  case (committed c' p t')
  then have c: "c' = c" using assms(3) by simp
  obtain past s where p: "p = Polling past s" "bcc_context c = context_at (length past) s"
    using spec_context [OF committed(1)] c by blast
  have "polls t' (event_key e) = poll_rows (event_key e) p"
    using poll_okD(2) [OF committed(3)] committed(4) by simp
  then have "active_row_of (event_key e) (bcc_context c) \<in> set (polls t' (event_key e))" by (simp add: p)
  then have "active_row_of (event_key e) (bcc_context c) \<in> set t'" by (simp add: polls_def)
  then show ?thesis using committed(2) assms(2) by (simp add: poll_step_def)
qed (use assms(3) in simp)

lemma frozen_active:
  assumes "frozen (active_row_of k c) = frozen (active_row_of k' c')"
  shows "k = k' \<and> c = c'"
proof -
  from assms have same: "key_columns k = key_columns k'" "dc_request_id c = dc_request_id c'"
      "uint (dc_poll_sequence c) = uint (dc_poll_sequence c')"
      "encode_window (dc_discovery_window c) = encode_window (dc_discovery_window c')"
    by (simp_all add: frozen_def prod_eq_iff) (simp_all add: active_row_of_def)
  then have "dc_poll_sequence c = dc_poll_sequence c'" by (simp only: word_uint_eq_iff)
  with same show ?thesis by simp
qed

text \<open>
  C12: A bridge request identifier names one request: if two calls of a run of the bridge
  operation journal commit requests of the same run and role with the same identifier,
  however many calls and failures lie between them, they are for the same operation of the
  same swap and carry the same poll sequence and discovery window, so an identifier sent
  again after a lost answer repeats the stored request.
\<close>

theorem request_id_names_one_request:
  assumes "t = run poll_step [] es" "poll_typed e" "fst (poll_call e t) = Ok c"
    and "t' = run poll_step t (e # es')" "poll_typed e'" "fst (poll_call e' t') = Ok c'"
    and "bk_run_id (event_key e) = bk_run_id (event_key e')"
    and "bk_local_role (event_key e) = bk_local_role (event_key e')"
    and "dc_request_id (bcc_context c) = dc_request_id (bcc_context c')"
  shows "event_key e = event_key e' \<and> bcc_context c = bcc_context c'"
proof -
  let ?a = "active_row_of (event_key e) (bcc_context c)" and ?b = "active_row_of (event_key e') (bcc_context c')"
  have ok: "poll_ok t" by (simp add: assms(1) reachable_poll_ok)
  then have ok': "poll_ok t'" by (simp only: assms(4) polling.run_inv)
  have ok1: "poll_ok (poll_step t e)" using poll_step_sound [OF ok] by blast
  have "contexts_grow (poll_step t e) t'" using polling.run_le [OF ok1, of es'] by (simp add: assms(4))
  moreover have "contexts_grow t' (poll_step t' e')" using poll_step_sound [OF ok'] by blast
  ultimately have "frozen ?a \<in> frozen ` set (poll_step t' e')"
    using poll_committed_row [OF ok assms(2,3)] by (auto simp: contexts_grow_def)
  moreover have "frozen ?b \<in> frozen ` set (poll_step t' e')" by (rule poll_committed_row [OF ok' assms(5,6)])
  ultimately obtain a b where a: "a \<in> set (poll_step t' e')" "frozen a = frozen ?a"
    and b: "b \<in> set (poll_step t' e')" "frozen b = frozen ?b" by (metis imageE)
  have key: "request_key r = request_key r'" if "frozen r = frozen ?a" "frozen r' = frozen ?b" for r r'
    using that assms(7-9) by (auto simp: frozen_def request_key_def context_key_def active_row_of_def)
  have "distinct (map request_key (poll_step t' e'))" using poll_step_sound [OF ok'] poll_okD(3) by blast
  with a b key [OF a(2) b(2)] have "a = b" by (auto simp: distinct_map inj_on_def)
  with a(2) b(2) have "frozen ?a = frozen ?b" by simp
  then show ?thesis by (rule frozen_active)
qed

section \<open>Unanswered requests stay\<close>

lemma poll_current_state:
  "poll_ok t \<Longrightarrow> current_context True k t =
     Ok (case poll_of t k of Idle \<Rightarrow> None | Polling past s \<Rightarrow> Some (context_at (length past) s))"
  by (simp add: current_context_def load_active)

text \<open>
  C25: An unanswered bridge request is never dropped: through any calls and failures that
  contain no advance naming exactly the active context of an operation, that context stays
  active, and resume_after_ambiguous returns it.
\<close>

theorem active_request_kept:
  assumes "t = run poll_step [] es" "current_context True k t = Ok (Some c)"
    and "\<And>io outcome nxt. AdvanceObservation io k c outcome nxt \<notin> set es'"
  shows "resume_after_ambiguous True k c (run poll_step t es') = Ok c"
proof -
  have ok: "poll_ok t" by (simp add: assms(1) reachable_poll_ok)
  have "current_context True k (run poll_step t es') = Ok (Some c)"
  proof (rule ccontr)
    assume "current_context True k (run poll_step t es') \<noteq> Ok (Some c)"
    then obtain pre e post where es': "es' = pre @ e # post"
      and before: "current_context True k (run poll_step t pre) = Ok (Some c)"
      and after: "current_context True k (poll_step (run poll_step t pre) e) \<noteq> Ok (Some c)"
      using run_first [of "\<lambda>t. current_context True k t \<noteq> Ok (Some c)" t poll_step es'] assms(2) by auto
    let ?t = "run poll_step t pre"
    have ok': "poll_ok ?t" by (rule polling.run_inv [OF ok])
    from after before have typed: "poll_typed e" by (cases "poll_typed e") (simp_all add: poll_step_def)
    from ok' typed show False
    proof (cases rule: poll_call_cases)
      case (failed err)
      with after before typed show False by (simp add: poll_step_def)
    next
      case (committed d p t')
      have "current_context True k t' \<noteq> current_context True k ?t"
        using after before committed(2) typed by (simp add: poll_step_def)
      then have "poll_of t' k \<noteq> poll_of ?t k"
        by (auto simp only: poll_current_state [OF ok'] poll_current_state [OF committed(3)])
      with committed(4) have k: "event_key e = k" and p: "p \<noteq> poll_of ?t k"
        by (cases "event_key e = k"; simp)+
      obtain past s where now: "poll_of ?t k = Polling past s" "c = context_at (length past) s"
        using before by (auto simp: poll_current_state ok' split: poll_state.splits)
      obtain io outcome nxt where "e = AdvanceObservation io k c outcome nxt"
        using spec_keeps_active [of _ past s e d p] committed(1) k p now by metis
      with assms(3) [of io outcome nxt] es' show False by simp
    qed
  qed
  then show ?thesis by (simp add: resume_after_ambiguous_def current_context_def)
qed

section \<open>An operation of two polls\<close>

definition demo_poll_key :: bridge_operation_key where
  "demo_poll_key =
     \<lparr>bk_run_id = RunId ''run-0001'', bk_swap_id = SwapId ''swap-1'', bk_local_role = Maker,
      bk_operation = RevealingClaimExactObserve\<rparr>"

definition demo_poll :: "string \<Rightarrow> bridge_request_spec" where
  "demo_poll request = \<lparr>bs_request_id = RequestId request, bs_discovery_window = None\<rparr>"

definition demo_poll_begin :: poll_event where
  "demo_poll_begin =
     BeginOrResume \<lparr>begin_ok = True, commit_ok = True\<rparr> demo_poll_key (demo_poll ''observe-0'')"

definition demo_poll_advance :: poll_event where
  "demo_poll_advance =
     AdvanceObservation \<lparr>begin_ok = True, commit_ok = True\<rparr> demo_poll_key
       (context_at 0 (demo_poll ''observe-0'')) Outcome_Succeeded (demo_poll ''observe-1'')"

lemma demo_poll_typed: "poll_typed demo_poll_begin" "poll_typed demo_poll_advance"
  by code_simp+

lemma demo_poll_specs: "spec_valid (demo_poll ''observe-0'')" "spec_valid (demo_poll ''observe-1'')"
  by code_simp+

lemma demo_poll_first:
  "poll_call demo_poll_begin [] =
     (Ok \<lparr>bcc_context = context_at 0 (demo_poll ''observe-0''), bcc_was_replay = False\<rparr>,
      [active_row_of demo_poll_key (context_at 0 (demo_poll ''observe-0''))])"
  by (simp add: demo_poll_begin_def poll_defs transact_def end_transaction_def
      demo_poll_key_def demo_poll_def requires_window_def encode_window_def table_insert_def
      context_checks_def context_clash_def context_operations_def active_row_of_def context_at_def
      to_i64_def Let_def)

abbreviation demo_polls :: context_table where
  "demo_polls \<equiv> run poll_step [] [demo_poll_begin]"

lemma demo_polls_row: "demo_polls = [active_row_of demo_poll_key (context_at 0 (demo_poll ''observe-0''))]"
  by (simp add: poll_step_def demo_poll_typed demo_poll_first)

lemma demo_poll_of: "poll_of demo_polls demo_poll_key = Polling [] (demo_poll ''observe-0'')"
  unfolding demo_polls_row poll_of_def by (simp add: polls_def row_spec_active demo_poll_specs)

lemma demo_poll_second:
  "spec_answer demo_polls demo_poll_advance =
     Ok (\<lparr>bcc_context = context_at 1 (demo_poll ''observe-1''), bcc_was_replay = False\<rparr>,
         Polling [(demo_poll ''observe-0'', Outcome_Succeeded)] (demo_poll ''observe-1''))"
proof -
  have "\<not> request_used demo_polls demo_poll_key (RequestId ''observe-1'')"
    unfolding demo_polls_row
    by (simp add: request_used_def request_key_def active_row_of_def context_at_def demo_poll_def)
  then show ?thesis
    using demo_poll_of
    by (simp add: demo_poll_advance_def demo_poll_def demo_poll_key_def poll_advance_def is_observation_def
        validate_request_shape_def requires_window_def context_at_def i64_max_def)
qed

lemma demo_poll_again:
  "fst (poll_call demo_poll_begin demo_polls) =
     Ok \<lparr>bcc_context = context_at 0 (demo_poll ''observe-0''), bcc_was_replay = True\<rparr>"
proof -
  have "spec_answer demo_polls demo_poll_begin =
      Ok (\<lparr>bcc_context = context_at 0 (demo_poll ''observe-0''), bcc_was_replay = True\<rparr>,
          Polling [] (demo_poll ''observe-0''))"
    using demo_poll_of
    by (simp add: demo_poll_begin_def demo_poll_def demo_poll_key_def poll_begin_def
        validate_request_shape_def requires_window_def context_at_def)
  then show ?thesis
    using poll_call_working [OF reachable_poll_ok demo_poll_typed(1), of "[demo_poll_begin]"]
    by (simp add: demo_poll_begin_def)
qed

theorem poll_journal_refines_witness:
  "fst (poll_call demo_poll_advance demo_polls) =
     Ok \<lparr>bcc_context = context_at 1 (demo_poll ''observe-1''), bcc_was_replay = False\<rparr> \<and>
   poll_of (snd (poll_call demo_poll_advance demo_polls)) demo_poll_key =
     Polling [(demo_poll ''observe-0'', Outcome_Succeeded)] (demo_poll ''observe-1'')"
proof -
  have "event_key demo_poll_advance = demo_poll_key" "begin_ok (event_io demo_poll_advance)"
    "commit_ok (event_io demo_poll_advance)"
    by (simp_all add: demo_poll_advance_def)
  then show ?thesis
    using poll_journal_refines [OF refl demo_poll_typed(2), of "[demo_poll_begin]"] demo_poll_second by simp
qed

theorem request_id_names_one_request_witness:
  "\<exists>c c'. fst (poll_call demo_poll_begin []) = Ok c \<and>
     fst (poll_call demo_poll_begin demo_polls) = Ok c' \<and> bcc_context c = bcc_context c' \<and>
     \<not> bcc_was_replay c \<and> bcc_was_replay c'"
proof -
  define c c' where "c = \<lparr>bcc_context = context_at 0 (demo_poll ''observe-0''), bcc_was_replay = False\<rparr>"
    and "c' = \<lparr>bcc_context = context_at 0 (demo_poll ''observe-0''), bcc_was_replay = True\<rparr>"
  have first: "fst (poll_call demo_poll_begin []) = Ok c" by (simp add: demo_poll_first c_def)
  have again: "fst (poll_call demo_poll_begin demo_polls) = Ok c'" by (simp only: demo_poll_again c'_def)
  have "bcc_context c = bcc_context c'"
    using request_id_names_one_request [OF _ demo_poll_typed(1) first, of "[]" demo_polls "[]",
        OF _ _ demo_poll_typed(1) again]
    by (simp add: c_def c'_def)
  with first again show ?thesis by (auto simp: c_def c'_def)
qed

theorem active_request_kept_witness:
  "resume_after_ambiguous True demo_poll_key (context_at 0 (demo_poll ''observe-0''))
     (run poll_step demo_polls [demo_poll_begin]) = Ok (context_at 0 (demo_poll ''observe-0''))"
proof (rule active_request_kept [OF refl])
  show "current_context True demo_poll_key demo_polls = Ok (Some (context_at 0 (demo_poll ''observe-0'')))"
    using demo_poll_of by (simp add: poll_current_state reachable_poll_ok del: foldl_Cons)
qed (simp add: demo_poll_begin_def)

end
