(* ===== verification/Maker_Types.thy ===== *)
theory Maker_Types
  imports Bridge_Protocol
begin

text \<open>
  The data of the maker application store, \<open>crates/swap-store/src/maker_application.rs\<close> and
  \<open>crates/swap-store/src/maker_offer.rs\<close>: routes, pair policies, exact prices, offers and
  their quotes, staged ZEC negotiations, the requests whose text makes a mutation
  replayable, and the tables with the constraints their \<open>CREATE TABLE\<close> declares. The text
  \<open>serde_json\<close> writes is an abstract type \<open>'j\<close>; writers and readers are a parameter.
\<close>

named_theorems maker_defs \<open>definitions of the maker store operations\<close>

section \<open>Errors\<close>

datatype maker_configuration_error =
    UnsupportedMakerDirection
  | InvalidAmountBounds
  | InvalidOfferTtl
  | InvalidLocalPrice

datatype maker_offer_error =
    InvalidOfferIdentifier
  | InvalidTime
  | InvalidSnapshot
  | AmountOutOfBounds
  | NonIntegralPrice
  | InvalidNegotiation

text \<open>The variants of \<open>StoreError\<close> (\<open>lib.rs\<close>) the two modules return, and \<open>MakerPanic\<close> for a
  division by zero, which unwinds and rolls the open transaction back.\<close>

datatype maker_store_error =
    MakerSqlite
  | MakerPanic
  | MakerJson
  | MakerConfiguration maker_configuration_error
  | MakerOffer maker_offer_error
  | UnsupportedPayloadVersion string int
  | RevisionOverflow
  | MakerLocalRouteMismatch
  | MakerPriceSourceMismatch
  | MakerConfigurationRequestConflict
  | CorruptMakerConfiguration
  | StaleMakerConfiguration "u64 option" "u64 option"
  | MissingMakerPair
  | MissingMakerLocalPrice
  | MakerRouteDisabled
  | MakerOfferAlreadyExists
  | MissingMakerOffer
  | StaleMakerOffer u64 u64
  | MakerOfferExpired
  | MakerOfferUnavailable
  | MakerOfferReservationConflict
  | MakerOfferSwapMismatch
  | MakerOfferRequestConflict
  | CorruptMakerOffer
  | MakerPriceRevisionRollback
  | MakerPriceRevisionConflict

section \<open>Routes, policies, prices\<close>

datatype maker_price_source_kind = LocalPriceSource | LogosCApi

record maker_route =
  rt_pair :: pair
  rt_direction :: swap_direction

definition route_validate :: "maker_route \<Rightarrow> maker_configuration_error + unit" where
  [maker_defs]: "route_validate r =
     (if rt_pair r = Pair_Monero \<and> rt_direction r = TakerSellsForeign
      then Err UnsupportedMakerDirection else Ok ())"

definition maker_route_new ::
    "pair \<Rightarrow> swap_direction \<Rightarrow> maker_configuration_error + maker_route" where
  "maker_route_new p d =
     (let r = \<lparr>rt_pair = p, rt_direction = d\<rparr> in and_then (route_validate r) (\<lambda>_. Ok r))"

record maker_pair_configuration =
  pc_route :: maker_route
  pc_enabled :: bool
  pc_price_source :: maker_price_source_kind
  pc_minimum_foreign_units :: u64
  pc_maximum_foreign_units :: u64
  pc_offer_ttl_seconds :: u64

definition maximum_offer_ttl_seconds :: u64 where
  "maximum_offer_ttl_seconds = 86400"

definition pair_configuration_validate ::
    "maker_pair_configuration \<Rightarrow> maker_configuration_error + unit" where
  [maker_defs]: "pair_configuration_validate c =
     and_then (route_validate (pc_route c)) (\<lambda>_.
       if pc_minimum_foreign_units c = 0
          \<or> pc_maximum_foreign_units c < pc_minimum_foreign_units c
       then Err InvalidAmountBounds
       else if \<not> (1 \<le> pc_offer_ttl_seconds c
                  \<and> pc_offer_ttl_seconds c \<le> maximum_offer_ttl_seconds)
       then Err InvalidOfferTtl
       else Ok ())"

definition pair_configuration_new ::
    "maker_route \<Rightarrow> bool \<Rightarrow> maker_price_source_kind \<Rightarrow> u64 \<Rightarrow> u64 \<Rightarrow> u64
     \<Rightarrow> maker_configuration_error + maker_pair_configuration" where
  [maker_defs]: "pair_configuration_new r en src mn mx ttl =
     (let c = \<lparr>pc_route = r, pc_enabled = en, pc_price_source = src,
               pc_minimum_foreign_units = mn, pc_maximum_foreign_units = mx,
               pc_offer_ttl_seconds = ttl\<rparr>
      in and_then (pair_configuration_validate c) (\<lambda>_. Ok c))"

text \<open>\<open>greatest_common_divisor\<close> is a \<open>while\<close> loop over two \<open>u64\<close>; \<open>gcd_loop\<close> is the same loop
  cut off after a number of tests of its condition.\<close>

function greatest_common_divisor :: "u64 \<Rightarrow> u64 \<Rightarrow> u64" where
  "greatest_common_divisor left right =
     (if right = 0 then left else greatest_common_divisor right (left mod right))"
  by pat_completeness auto
termination
  by (relation "measure (\<lambda>(_, right). unat right)")
    (auto simp: unat_mod_distrib unat_gt_0 intro: mod_less_divisor)

fun gcd_loop :: "nat \<Rightarrow> u64 \<Rightarrow> u64 \<Rightarrow> u64 option" where
  "gcd_loop 0 left right = None"
| "gcd_loop (Suc n) left right =
     (if right = 0 then Some left else gcd_loop n right (left mod right))"

declare greatest_common_divisor.simps [simp del]

record local_price =
  lp_route :: maker_route
  lp_lez_units_per_lot :: u64
  lp_foreign_units_per_lot :: u64

definition local_price_validate :: "local_price \<Rightarrow> maker_configuration_error + unit" where
  [maker_defs]: "local_price_validate p =
     and_then (route_validate (lp_route p)) (\<lambda>_.
       if lp_lez_units_per_lot p = 0 \<or> lp_foreign_units_per_lot p = 0
          \<or> lp_lez_units_per_lot p > i64_max \<or> lp_foreign_units_per_lot p > i64_max
          \<or> greatest_common_divisor (lp_lez_units_per_lot p) (lp_foreign_units_per_lot p) \<noteq> 1
       then Err InvalidLocalPrice else Ok ())"

definition local_price_new ::
    "maker_route \<Rightarrow> u64 \<Rightarrow> u64 \<Rightarrow> maker_configuration_error + local_price" where
  [maker_defs]: "local_price_new r lez foreign_units =
     (let p = \<lparr>lp_route = r, lp_lez_units_per_lot = lez,
               lp_foreign_units_per_lot = foreign_units\<rparr>
      in and_then (local_price_validate p) (\<lambda>_. Ok p))"

record 'v versioned_maker_record =
  vr_revision :: u64
  vr_value :: 'v

record maker_configuration_commit =
  mcc_revision :: u64
  mcc_was_replay :: bool

record maker_local_route_commit =
  mlr_pair_revision :: u64
  mlr_price_revision :: u64
  mlr_was_replay :: bool

section \<open>Offers\<close>

datatype maker_offer_id = MakerOfferId string

fun offer_id_str :: "maker_offer_id \<Rightarrow> string" where
  "offer_id_str (MakerOfferId s) = s"

definition maker_offer_id_new :: "string \<Rightarrow> maker_offer_error + maker_offer_id" where
  [maker_defs]: "maker_offer_id_new value =
     (if 8 \<le> length value \<and> length value \<le> 64 \<and>
         list_all (\<lambda>b. is_ascii_alphanumeric b \<or> b = CHR ''.'' \<or> b = CHR ''_'' \<or> b = CHR ''-'') value
      then Ok (MakerOfferId value) else Err InvalidOfferIdentifier)"

datatype maker_offer_status =
  OfferActive | OfferExpired | OfferReserved | OfferConsumed | OfferWithdrawn

record maker_offer =
  of_id :: maker_offer_id
  of_pair_configuration :: maker_pair_configuration
  of_price :: local_price
  of_pair_configuration_revision :: u64
  of_price_source_revision :: u64
  of_price_observed_at :: u64
  of_price_source_identity :: "bytes option"
  of_created_at :: u64
  of_expires_at :: u64

definition offer_route :: "maker_offer \<Rightarrow> maker_route" where
  "offer_route off = pc_route (of_pair_configuration off)"

definition max_logos_quote_age_seconds :: u64 where
  "max_logos_quote_age_seconds = 3600"

text \<open>\<open>quote_foreign_amount\<close>: the product is taken in 128 bits. A zero denominator would
  panic; \<open>None\<close> is that panic.\<close>

definition quote_foreign_amount :: "maker_offer \<Rightarrow> u64 \<Rightarrow> (maker_offer_error + u128) option" where
  [maker_defs]: "quote_foreign_amount off foreign_units =
     (if foreign_units < pc_minimum_foreign_units (of_pair_configuration off)
         \<or> foreign_units > pc_maximum_foreign_units (of_pair_configuration off)
      then Some (Err AmountOutOfBounds)
      else case checked_mul (ucast foreign_units :: u128)
                            (ucast (lp_lez_units_per_lot (of_price off))) of
        None \<Rightarrow> Some (Err InvalidSnapshot)
      | Some numerator \<Rightarrow>
          let denominator = (ucast (lp_foreign_units_per_lot (of_price off)) :: u128) in
          if denominator = 0 then None
          else if numerator mod denominator \<noteq> 0 then Some (Err NonIntegralPrice)
          else Some (Ok (numerator div denominator)))"

definition valid_observation_time :: "maker_offer \<Rightarrow> bool" where
  [maker_defs]: "valid_observation_time off =
     (case pc_price_source (of_pair_configuration off) of
        LocalPriceSource \<Rightarrow>
          of_price_source_identity off = None \<and> of_price_observed_at off = of_created_at off
      | LogosCApi \<Rightarrow>
          (case of_price_source_identity off of
             None \<Rightarrow> False | Some identity \<Rightarrow> identity \<noteq> zero32) \<and>
          of_price_observed_at off > 0 \<and>
          of_price_observed_at off \<le> of_created_at off \<and>
          of_created_at off - of_price_observed_at off \<le> max_logos_quote_age_seconds)"

definition offer_validate :: "maker_offer \<Rightarrow> maker_offer_error + unit" where
  [maker_defs]: "offer_validate off =
     and_then (maker_offer_id_new (offer_id_str (of_id off))) (\<lambda>_.
     let c = of_pair_configuration off in
     and_then (map_err (\<lambda>_. InvalidSnapshot)
       (pair_configuration_new (pc_route c) (pc_enabled c) (pc_price_source c)
          (pc_minimum_foreign_units c) (pc_maximum_foreign_units c) (pc_offer_ttl_seconds c)))
     (\<lambda>validated_policy.
     if validated_policy \<noteq> c \<or> \<not> pc_enabled c \<or> lp_route (of_price off) \<noteq> offer_route off
        \<or> of_pair_configuration_revision off = 0 \<or> of_price_source_revision off = 0
        \<or> \<not> valid_observation_time off
     then Err InvalidSnapshot
     else if of_created_at off \<ge> of_expires_at off \<or> of_expires_at off > i64_max
        \<or> of_expires_at off - of_created_at off \<noteq> pc_offer_ttl_seconds c
     then Err InvalidTime
     else and_then (map_err (\<lambda>_. InvalidSnapshot)
       (local_price_new (lp_route (of_price off)) (lp_lez_units_per_lot (of_price off))
          (lp_foreign_units_per_lot (of_price off)))) (\<lambda>_. Ok ())))"

record maker_offer_record =
  mor_revision :: u64
  mor_status :: maker_offer_status
  mor_offer :: maker_offer
  mor_reservation_id :: "request_id option"
  mor_swap_id :: "string option"

record maker_offer_commit =
  moc_revision :: u64
  moc_was_replay :: bool

datatype maker_offer_publication_preflight =
    PublicationReplayed maker_offer_commit
  | PublicationPending u64 maker_price_source_kind

section \<open>Staged ZEC negotiations\<close>

datatype maker_zec_negotiation_status = ZecProposed | ZecCompleted

record maker_zec_negotiation =
  zn_reservation_id :: request_id
  zn_offer_commitment :: bytes
  zn_maker_chat_identity :: bytes
  zn_taker_chat_identity :: bytes
  zn_foreign_units :: u64
  zn_lez_units :: u128
  zn_reserved_at :: u64
  zn_agreement_commitment :: bytes
  zn_maker_proposal_wire :: bytes
  zn_status :: maker_zec_negotiation_status
  zn_final_agreement_wire :: "bytes option"
  zn_swap_id :: "string option"

definition maximum_zec_proposal_bytes :: nat where
  "maximum_zec_proposal_bytes = 16 * 1024"

definition zero33 :: bytes where
  "zero33 = replicate 33 0"

definition zec_negotiation_validate :: "maker_zec_negotiation \<Rightarrow> maker_offer_error + unit" where
  [maker_defs]: "zec_negotiation_validate n =
     (if zn_offer_commitment n = zero32 \<or> zn_agreement_commitment n = zero32
         \<or> zn_maker_chat_identity n = zero33 \<or> zn_taker_chat_identity n = zero33
         \<or> zn_maker_chat_identity n = zn_taker_chat_identity n
         \<or> zn_foreign_units n = 0 \<or> zn_lez_units n = 0
         \<or> zn_reserved_at n = 0 \<or> zn_reserved_at n > i64_max
         \<or> zn_maker_proposal_wire n = []
         \<or> length (zn_maker_proposal_wire n) > maximum_zec_proposal_bytes
         \<or> (case zn_final_agreement_wire n of
              None \<Rightarrow> False | Some wire \<Rightarrow> length wire > maximum_zec_proposal_bytes)
      then Err InvalidNegotiation
      else case zn_status n of
        ZecProposed \<Rightarrow>
          if zn_final_agreement_wire n = None \<and> zn_swap_id n = None then Ok ()
          else Err InvalidNegotiation
      | ZecCompleted \<Rightarrow>
          if (case zn_final_agreement_wire n of None \<Rightarrow> False | Some wire \<Rightarrow> wire \<noteq> [])
             \<and> zn_swap_id n \<noteq> None then Ok ()
          else Err InvalidNegotiation)"

definition zec_negotiation_proposed ::
    "request_id \<Rightarrow> bytes \<Rightarrow> bytes \<Rightarrow> bytes \<Rightarrow> u64 \<Rightarrow> u128 \<Rightarrow> u64 \<Rightarrow> bytes \<Rightarrow> bytes
     \<Rightarrow> maker_offer_error + maker_zec_negotiation" where
  "zec_negotiation_proposed reservation commitment maker_identity taker_identity
       foreign_units lez_units reserved_at agreement proposal =
     (let n = \<lparr>zn_reservation_id = reservation, zn_offer_commitment = commitment,
               zn_maker_chat_identity = maker_identity, zn_taker_chat_identity = taker_identity,
               zn_foreign_units = foreign_units, zn_lez_units = lez_units,
               zn_reserved_at = reserved_at, zn_agreement_commitment = agreement,
               zn_maker_proposal_wire = proposal, zn_status = ZecProposed,
               zn_final_agreement_wire = None, zn_swap_id = None\<rparr>
      in and_then (zec_negotiation_validate n) (\<lambda>_. Ok n))"

section \<open>Requests and their text\<close>

text \<open>The request structures whose serialized text is stored and compared on replay. The
  staged negotiation carries the digest of the proposal instead of its bytes.\<close>

datatype maker_request =
    PairMutationRequest "u64 option" maker_pair_configuration
  | PriceMutationRequest "u64 option" local_price
  | LocalRouteMutationRequest "u64 option" "u64 option" maker_pair_configuration local_price
  | PublishRequest maker_offer_id maker_route
  | GuardedPublishRequest maker_offer_id maker_route u64 u64
  | ReserveRequest maker_offer_id u64 request_id u64
  | ConsumeRequest maker_offer_id u64 request_id swap_coordinator
  | StageZecNegotiationRequest maker_offer_id u64 request_id bytes bytes bytes u64 u128 bytes bytes
  | WithdrawRequest maker_offer_id u64

text \<open>
  What the modules use of \<open>serde_json\<close>: a writer for each stored structure and the readers
  of those that are read back. \<open>rd_publish\<close> reads \<open>ReplayPublishRequest\<close>. \<open>StoredCommitV1\<close>
  and \<open>StoredOfferCommitV1\<close> have the same two fields and hence the same text.
\<close>

record 'j maker_json =
  js_pair :: "maker_pair_configuration \<Rightarrow> 'j"
  rd_pair :: "'j \<Rightarrow> maker_pair_configuration option"
  js_price :: "local_price \<Rightarrow> 'j"
  rd_price :: "'j \<Rightarrow> local_price option"
  js_offer :: "maker_offer \<Rightarrow> 'j"
  rd_offer :: "'j \<Rightarrow> maker_offer option"
  js_swap :: "swap_coordinator \<Rightarrow> 'j"
  js_request :: "maker_request \<Rightarrow> 'j"
  rd_publish :: "'j \<Rightarrow> (maker_offer_id \<times> maker_route) option"
  js_commit :: "u16 \<Rightarrow> u64 \<Rightarrow> 'j"
  rd_commit :: "'j \<Rightarrow> (u16 \<times> u64) option"
  js_route_commit :: "u16 \<Rightarrow> u64 \<Rightarrow> u64 \<Rightarrow> 'j"
  rd_route_commit :: "'j \<Rightarrow> (u16 \<times> u64 \<times> u64) option"

definition offer_id_valid :: "maker_offer_id \<Rightarrow> bool" where
  "offer_id_valid i \<longleftrightarrow> is_ok (maker_offer_id_new (offer_id_str i))"

text \<open>The documented behaviour of the serializer: what was written reads back, and distinct
  requests have distinct texts. Reading an identifier validates it.\<close>

definition json_ok :: "'j maker_json \<Rightarrow> bool" where
  "json_ok J \<longleftrightarrow>
     (\<forall>c. rd_pair J (js_pair J c) = Some c) \<and>
     (\<forall>p. rd_price J (js_price J p) = Some p) \<and>
     (\<forall>off. offer_id_valid (of_id off) \<longrightarrow> rd_offer J (js_offer J off) = Some off) \<and>
     (\<forall>q q'. js_request J q = js_request J q' \<longrightarrow> q = q') \<and>
     (\<forall>i r. offer_id_valid i \<longrightarrow> rd_publish J (js_request J (PublishRequest i r)) = Some (i, r)) \<and>
     (\<forall>v n. rd_commit J (js_commit J v n) = Some (v, n)) \<and>
     (\<forall>v n m. rd_route_commit J (js_route_commit J v n m) = Some (v, n, m))"

section \<open>Tables\<close>

fun pair_name :: "pair \<Rightarrow> string" where
  "pair_name Pair_Bitcoin = ''bitcoin''"
| "pair_name Pair_Monero = ''monero''"
| "pair_name Pair_Zcash = ''zcash''"

fun direction_name :: "swap_direction \<Rightarrow> string" where
  "direction_name TakerSellsForeign = ''taker_sells_foreign''"
| "direction_name TakerSellsLez = ''taker_sells_lez''"

definition application_payload_version :: int where "application_payload_version = 1"
definition offer_payload_version :: int where "offer_payload_version = 1"
definition swap_payload_version :: int where "swap_payload_version = 1"

text \<open>\<open>maker_pair_configurations\<close> and \<open>maker_local_prices\<close> have the same columns.\<close>

record 'j route_row =
  rr_pair :: string
  rr_direction :: string
  rr_payload_version :: int
  rr_payload_json :: 'j
  rr_revision :: int
  rr_updated_request_id :: string

definition route_columns_check :: "string \<Rightarrow> string \<Rightarrow> bool" where
  "route_columns_check p d \<longleftrightarrow>
     p \<in> {''bitcoin'', ''monero'', ''zcash''} \<and>
     d \<in> {''taker_sells_foreign'', ''taker_sells_lez''} \<and>
     (p \<noteq> ''monero'' \<or> d = ''taker_sells_lez'')"

definition route_row_check :: "'j route_row \<Rightarrow> bool" where
  "route_row_check r \<longleftrightarrow> route_columns_check (rr_pair r) (rr_direction r) \<and>
     rr_payload_version r > 0 \<and> rr_revision r > 0"

definition route_key :: "'j route_row \<Rightarrow> string \<times> string" where
  "route_key r = (rr_pair r, rr_direction r)"

record 'j mutation_row =
  mu_request_id :: string
  mu_operation :: string
  mu_request_payload_version :: int
  mu_request_json :: 'j
  mu_result_json :: 'j

definition mutation_operations :: "string list" where
  "mutation_operations =
     [''pair_configure'', ''local_price_set'', ''local_route_save'', ''offer_publish'',
      ''offer_publish_at_revisions_v1'', ''offer_reserve'', ''offer_consume'', ''offer_withdraw'',
      ''btc_negotiation_stage'', ''btc_negotiation_complete'', ''zec_negotiation_stage'',
      ''zec_negotiation_complete'', ''xmr_negotiation_stage'', ''xmr_negotiation_complete'',
      ''actor_action_request'']"

definition mutation_check :: "'j mutation_row \<Rightarrow> bool" where
  "mutation_check r \<longleftrightarrow>
     mu_operation r \<in> set mutation_operations \<and> mu_request_payload_version r = 1"

record 'j offer_row =
  or_offer_id :: string
  or_pair :: string
  or_direction :: string
  or_payload_version :: int
  or_payload_json :: 'j
  or_expires_at :: int
  or_state :: string
  or_revision :: int
  or_reservation_id :: "string option"
  or_swap_id :: "string option"
  or_updated_request_id :: string

definition offer_row_check :: "'j offer_row \<Rightarrow> bool" where
  "offer_row_check r \<longleftrightarrow>
     route_columns_check (or_pair r) (or_direction r) \<and>
     or_payload_version r = 1 \<and> or_expires_at r > 0 \<and> or_revision r > 0 \<and>
     (or_state r \<in> {''active'', ''withdrawn''}
        \<and> or_reservation_id r = None \<and> or_swap_id r = None
      \<or> or_state r = ''reserved'' \<and> or_reservation_id r \<noteq> None \<and> or_swap_id r = None
      \<or> or_state r = ''consumed'' \<and> or_reservation_id r \<noteq> None \<and> or_swap_id r \<noteq> None)"

record head_row =
  ph_pair :: string
  ph_direction :: string
  ph_source_identity :: bytes
  ph_source_revision :: int
  ph_observed_at :: int
  ph_lez_units_per_lot :: int
  ph_foreign_units_per_lot :: int

definition head_row_check :: "head_row \<Rightarrow> bool" where
  "head_row_check r \<longleftrightarrow> route_columns_check (ph_pair r) (ph_direction r) \<and>
     length (ph_source_identity r) = 32 \<and> ph_source_revision r > 0 \<and> ph_observed_at r > 0 \<and>
     ph_lez_units_per_lot r > 0 \<and> ph_foreign_units_per_lot r > 0"

definition head_key :: "head_row \<Rightarrow> string \<times> string \<times> bytes" where
  "head_key r = (ph_pair r, ph_direction r, ph_source_identity r)"

record zec_negotiation_row =
  zr_offer_id :: string
  zr_reservation_id :: string
  zr_payload_version :: int
  zr_offer_commitment :: bytes
  zr_maker_chat_identity :: bytes
  zr_taker_chat_identity :: bytes
  zr_foreign_units :: int
  zr_lez_units :: bytes
  zr_reserved_at :: int
  zr_agreement_commitment :: bytes
  zr_maker_proposal_wire :: bytes
  zr_state :: string
  zr_final_agreement_wire :: "bytes option"
  zr_swap_id :: "string option"
  zr_updated_request_id :: string

definition zec_row_check :: "zec_negotiation_row \<Rightarrow> bool" where
  "zec_row_check r \<longleftrightarrow>
     zr_payload_version r = 1 \<and>
     length (zr_offer_commitment r) = 32 \<and> length (zr_agreement_commitment r) = 32 \<and>
     length (zr_maker_chat_identity r) = 33 \<and> length (zr_taker_chat_identity r) = 33 \<and>
     zr_maker_chat_identity r \<noteq> zr_taker_chat_identity r \<and>
     zr_foreign_units r > 0 \<and> length (zr_lez_units r) = 16 \<and> zr_reserved_at r > 0 \<and>
     1 \<le> length (zr_maker_proposal_wire r) \<and> length (zr_maker_proposal_wire r) \<le> 16384 \<and>
     (case zr_final_agreement_wire r of
        None \<Rightarrow> True | Some wire \<Rightarrow> 1 \<le> length wire \<and> length wire \<le> 16384) \<and>
     (zr_state r = ''proposed'' \<and> zr_final_agreement_wire r = None \<and> zr_swap_id r = None
      \<or> zr_state r = ''completed'' \<and> zr_final_agreement_wire r \<noteq> None \<and> zr_swap_id r \<noteq> None)"

record 'j swap_row =
  sw_id :: string
  sw_schema_version :: int
  sw_state_json :: 'j
  sw_revision :: int

text \<open>The tables of the two modules. \<open>db_other_negotiations\<close> holds the \<open>offer_id\<close> column of
  \<open>maker_btc_negotiations\<close> and \<open>maker_xmr_negotiations\<close>, of which only existence is read.\<close>

record 'j maker_db =
  db_pairs :: "'j route_row list"
  db_prices :: "'j route_row list"
  db_mutations :: "'j mutation_row list"
  db_offers :: "'j offer_row list"
  db_heads :: "head_row list"
  db_zec :: "zec_negotiation_row list"
  db_other_negotiations :: "string list"
  db_swaps :: "'j swap_row list"

definition empty_db :: "'j maker_db" where
  "empty_db = \<lparr>db_pairs = [], db_prices = [], db_mutations = [], db_offers = [], db_heads = [],
     db_zec = [], db_other_negotiations = [], db_swaps = []\<rparr>"

text \<open>\<open>INSERT ... ON CONFLICT(key) DO UPDATE\<close> of all other columns: the row of the key is
  replaced, or appended when the key is new.\<close>

definition table_upsert ::
    "'e \<Rightarrow> ('r \<Rightarrow> bool) \<Rightarrow> ('r \<Rightarrow> 'k) \<Rightarrow> 'r \<Rightarrow> 'r list \<Rightarrow> 'e + 'r list" where
  "table_upsert sqlite checks key r t =
     (if \<not> checks r then Err sqlite
      else if key r \<in> set (map key t) then Ok (map (\<lambda>x. if key x = key r then r else x) t)
      else Ok (t @ [r]))"

end
