(* ===== verification/Maker_Application.thy ===== *)
theory Maker_Application
  imports Maker_Types
begin

text \<open>
  The maker configuration store, \<open>crates/swap-store/src/maker_application.rs\<close>: pair policies
  and local prices, each with a revision the caller must name to change it, and the table
  of mutations that makes every request replayable under its request identifier.
\<close>

type_synonym 'a maker_result = "maker_store_error + 'a"

section \<open>Columns\<close>

definition revision_from_sql :: "int \<Rightarrow> u64 maker_result" where
  [maker_defs]: "revision_from_sql value =
     and_then (to_u64 RevisionOverflow value) (\<lambda>revision.
       if revision = 0 then Err CorruptMakerConfiguration else Ok revision)"

definition application_revision_to_sql :: "u64 \<Rightarrow> int maker_result" where
  [maker_defs]: "application_revision_to_sql value = to_i64 RevisionOverflow value"

definition check_payload_version :: "int \<Rightarrow> string \<Rightarrow> unit maker_result" where
  [maker_defs]: "check_payload_version version kind =
     (if version \<noteq> application_payload_version
      then Err (UnsupportedPayloadVersion kind version) else Ok ())"

definition validate_route_columns :: "maker_route \<Rightarrow> string \<Rightarrow> string \<Rightarrow> unit maker_result" where
  [maker_defs]: "validate_route_columns r p d =
     (if pair_name (rt_pair r) \<noteq> p \<or> direction_name (rt_direction r) \<noteq> d
      then Err CorruptMakerConfiguration else Ok ())"

definition decode_pair_record ::
    "'j maker_json \<Rightarrow> 'j route_row
     \<Rightarrow> maker_pair_configuration versioned_maker_record maker_result" where
  [maker_defs]: "decode_pair_record J row =
     and_then (check_payload_version (rr_payload_version row) ''maker pair configuration'') (\<lambda>_.
     and_then (ok_or MakerJson (rd_pair J (rr_payload_json row))) (\<lambda>value.
     and_then (map_err MakerConfiguration (pair_configuration_validate value)) (\<lambda>_.
     and_then (validate_route_columns (pc_route value) (rr_pair row) (rr_direction row)) (\<lambda>_.
     and_then (revision_from_sql (rr_revision row)) (\<lambda>revision.
     Ok \<lparr>vr_revision = revision, vr_value = value\<rparr>)))))"

definition decode_price_record ::
    "'j maker_json \<Rightarrow> 'j route_row \<Rightarrow> local_price versioned_maker_record maker_result" where
  [maker_defs]: "decode_price_record J row =
     and_then (check_payload_version (rr_payload_version row) ''maker local price'') (\<lambda>_.
     and_then (ok_or MakerJson (rd_price J (rr_payload_json row))) (\<lambda>value.
     and_then (map_err MakerConfiguration (local_price_validate value)) (\<lambda>_.
     and_then (validate_route_columns (lp_route value) (rr_pair row) (rr_direction row)) (\<lambda>_.
     and_then (revision_from_sql (rr_revision row)) (\<lambda>revision.
     Ok \<lparr>vr_revision = revision, vr_value = value\<rparr>)))))"

section \<open>Queries\<close>

definition route_columns :: "maker_route \<Rightarrow> string \<times> string" where
  "route_columns r = (pair_name (rt_pair r), direction_name (rt_direction r))"

definition next_revision ::
    "'j route_row list \<Rightarrow> maker_route \<Rightarrow> u64 option \<Rightarrow> u64 maker_result" where
  [maker_defs]: "next_revision t r expected =
     and_then
       (case row_at route_key t (route_columns r) of
          None \<Rightarrow> Ok None
        | Some row \<Rightarrow> and_then (revision_from_sql (rr_revision row)) (\<lambda>v. Ok (Some v)))
       (\<lambda>current.
     if current \<noteq> expected then Err (StaleMakerConfiguration expected current)
     else ok_or RevisionOverflow (checked_add (case current of None \<Rightarrow> 0 | Some v \<Rightarrow> v) 1))"

definition route_exists :: "'j route_row list \<Rightarrow> maker_route \<Rightarrow> bool" where
  [maker_defs]: "route_exists t r \<longleftrightarrow> row_at route_key t (route_columns r) \<noteq> None"

definition load_pair_record ::
    "'j maker_json \<Rightarrow> 'j maker_db \<Rightarrow> maker_route
     \<Rightarrow> maker_pair_configuration versioned_maker_record option maker_result" where
  [maker_defs]: "load_pair_record J db r =
     (case row_at route_key (db_pairs db) (route_columns r) of
        None \<Rightarrow> Ok None
      | Some row \<Rightarrow> and_then (decode_pair_record J row) (\<lambda>v. Ok (Some v)))"

definition mutation_at :: "'j maker_db \<Rightarrow> request_id \<Rightarrow> 'j mutation_row option" where
  "mutation_at db rid = row_at mu_request_id (db_mutations db) (request_id_str rid)"

text \<open>\<open>ORDER BY\<close> over the key columns; the text comparison of SQLite is bytewise.\<close>

fun text_le :: "string \<Rightarrow> string \<Rightarrow> bool" where
  "text_le [] _ = True"
| "text_le (x # xs) [] = False"
| "text_le (x # xs) (y # ys) =
     ((of_char x :: nat) < of_char y \<or> x = y \<and> text_le xs ys)"

fun insert_by :: "('r \<Rightarrow> 'r \<Rightarrow> bool) \<Rightarrow> 'r \<Rightarrow> 'r list \<Rightarrow> 'r list" where
  "insert_by le x [] = [x]"
| "insert_by le x (y # ys) = (if le x y then x # y # ys else y # insert_by le x ys)"

definition order_by :: "('r \<Rightarrow> 'r \<Rightarrow> bool) \<Rightarrow> 'r list \<Rightarrow> 'r list" where
  "order_by le t = foldr (insert_by le) t []"

definition route_row_le :: "'j route_row \<Rightarrow> 'j route_row \<Rightarrow> bool" where
  "route_row_le a b \<longleftrightarrow>
     (if rr_pair a = rr_pair b then text_le (rr_direction a) (rr_direction b)
      else text_le (rr_pair a) (rr_pair b))"

text \<open>\<open>rows.map(decode).collect()\<close>: the first error, or all values.\<close>

fun decode_all :: "('r \<Rightarrow> 'a maker_result) \<Rightarrow> 'r list \<Rightarrow> 'a list maker_result" where
  "decode_all f [] = Ok []"
| "decode_all f (r # rs) = and_then (f r) (\<lambda>v. and_then (decode_all f rs) (\<lambda>vs. Ok (v # vs)))"

definition list_maker_pairs ::
    "'j maker_json \<Rightarrow> 'j maker_db
     \<Rightarrow> maker_pair_configuration versioned_maker_record list maker_result" where
  "list_maker_pairs J db = decode_all (decode_pair_record J) (order_by route_row_le (db_pairs db))"

definition list_local_prices ::
    "'j maker_json \<Rightarrow> 'j maker_db \<Rightarrow> local_price versioned_maker_record list maker_result" where
  "list_local_prices J db = decode_all (decode_price_record J) (order_by route_row_le (db_prices db))"

section \<open>Replay\<close>

definition replay_local_route_mutation ::
    "'j maker_json \<Rightarrow> 'j maker_db \<Rightarrow> request_id \<Rightarrow> 'j
     \<Rightarrow> maker_local_route_commit option maker_result" where
  [maker_defs]: "replay_local_route_mutation J db rid request_json =
     (case mutation_at db rid of
        None \<Rightarrow> Ok None
      | Some row \<Rightarrow>
          if mu_operation row \<noteq> ''local_route_save'' \<or> mu_request_json row \<noteq> request_json
          then Err MakerConfigurationRequestConflict
          else and_then (ok_or MakerJson (rd_route_commit J (mu_result_json row)))
            (\<lambda>(version, pair_revision, price_revision).
             if version \<noteq> 1 \<or> pair_revision = 0 \<or> price_revision = 0
             then Err CorruptMakerConfiguration
             else Ok (Some \<lparr>mlr_pair_revision = pair_revision,
                            mlr_price_revision = price_revision, mlr_was_replay = True\<rparr>)))"

definition replay_configuration_mutation ::
    "'j maker_json \<Rightarrow> 'j maker_db \<Rightarrow> request_id \<Rightarrow> string \<Rightarrow> 'j
     \<Rightarrow> maker_configuration_commit option maker_result" where
  [maker_defs]: "replay_configuration_mutation J db rid operation request_json =
     (case mutation_at db rid of
        None \<Rightarrow> Ok None
      | Some row \<Rightarrow>
          if mu_operation row \<noteq> operation \<or> mu_request_json row \<noteq> request_json
          then Err MakerConfigurationRequestConflict
          else and_then (ok_or MakerJson (rd_commit J (mu_result_json row)))
            (\<lambda>(version, revision).
             if version \<noteq> 1 \<or> revision = 0 then Err CorruptMakerConfiguration
             else Ok (Some \<lparr>mcc_revision = revision, mcc_was_replay = True\<rparr>)))"

definition insert_mutation :: "'j mutation_row \<Rightarrow> 'j maker_db \<Rightarrow> 'j maker_db maker_result" where
  [maker_defs]: "insert_mutation row db =
     and_then (table_insert MakerSqlite mutation_check
       (\<lambda>a b. mu_request_id a = mu_request_id b) row (db_mutations db)) (\<lambda>t.
     Ok (db\<lparr>db_mutations := t\<rparr>))"

definition persist_local_route_mutation ::
    "'j maker_json \<Rightarrow> request_id \<Rightarrow> 'j \<Rightarrow> u64 \<Rightarrow> u64 \<Rightarrow> 'j maker_db \<Rightarrow> 'j maker_db maker_result" where
  [maker_defs]: "persist_local_route_mutation J rid request_json pair_revision price_revision =
     insert_mutation \<lparr>mu_request_id = request_id_str rid, mu_operation = ''local_route_save'',
       mu_request_payload_version = application_payload_version, mu_request_json = request_json,
       mu_result_json = js_route_commit J 1 pair_revision price_revision\<rparr>"

definition persist_configuration_mutation ::
    "'j maker_json \<Rightarrow> request_id \<Rightarrow> string \<Rightarrow> 'j \<Rightarrow> u64 \<Rightarrow> 'j maker_db \<Rightarrow> 'j maker_db maker_result" where
  [maker_defs]: "persist_configuration_mutation J rid operation request_json revision =
     insert_mutation \<lparr>mu_request_id = request_id_str rid, mu_operation = operation,
       mu_request_payload_version = application_payload_version, mu_request_json = request_json,
       mu_result_json = js_commit J 1 revision\<rparr>"

section \<open>Mutations\<close>

definition route_row_of :: "maker_route \<Rightarrow> 'j \<Rightarrow> int \<Rightarrow> request_id \<Rightarrow> 'j route_row" where
  "route_row_of r json revision rid =
     \<lparr>rr_pair = pair_name (rt_pair r), rr_direction = direction_name (rt_direction r),
      rr_payload_version = application_payload_version, rr_payload_json = json,
      rr_revision = revision, rr_updated_request_id = request_id_str rid\<rparr>"

text \<open>The two upserts; the one of \<open>maker_local_prices\<close> is subject to its foreign key.\<close>

definition upsert_pair ::
    "maker_route \<Rightarrow> 'j \<Rightarrow> u64 \<Rightarrow> request_id \<Rightarrow> 'j maker_db \<Rightarrow> 'j maker_db maker_result" where
  [maker_defs]: "upsert_pair r json revision rid db =
     and_then (application_revision_to_sql revision) (\<lambda>v.
     and_then (table_upsert MakerSqlite route_row_check route_key (route_row_of r json v rid)
       (db_pairs db)) (\<lambda>t. Ok (db\<lparr>db_pairs := t\<rparr>)))"

definition upsert_price ::
    "maker_route \<Rightarrow> 'j \<Rightarrow> u64 \<Rightarrow> request_id \<Rightarrow> 'j maker_db \<Rightarrow> 'j maker_db maker_result" where
  [maker_defs]: "upsert_price r json revision rid db =
     and_then (application_revision_to_sql revision) (\<lambda>v.
     and_then (table_upsert MakerSqlite
       (\<lambda>row. route_row_check row \<and> route_key row \<in> set (map route_key (db_pairs db)))
       route_key (route_row_of r json v rid) (db_prices db)) (\<lambda>t. Ok (db\<lparr>db_prices := t\<rparr>)))"

definition save_local_maker_route_tx ::
    "'j maker_json \<Rightarrow> request_id \<Rightarrow> u64 option \<Rightarrow> u64 option \<Rightarrow> maker_pair_configuration
     \<Rightarrow> local_price \<Rightarrow> 'j maker_db \<Rightarrow> (maker_local_route_commit \<times> 'j maker_db) maker_result" where
  [maker_defs]: "save_local_maker_route_tx J rid expected_pair expected_price c p db =
     (let request_json = js_request J (LocalRouteMutationRequest expected_pair expected_price c p) in
     and_then (replay_local_route_mutation J db rid request_json) (\<lambda>replay.
     case replay of
       Some commit \<Rightarrow> Ok (commit, db)
     | None \<Rightarrow>
         and_then (next_revision (db_pairs db) (pc_route c) expected_pair) (\<lambda>pair_revision.
         and_then (next_revision (db_prices db) (pc_route c) expected_price) (\<lambda>price_revision.
         and_then (upsert_pair (pc_route c) (js_pair J c) pair_revision rid db) (\<lambda>db1.
         and_then (upsert_price (pc_route c) (js_price J p) price_revision rid db1) (\<lambda>db2.
         and_then (persist_local_route_mutation J rid request_json pair_revision price_revision db2)
           (\<lambda>db3.
         Ok (\<lparr>mlr_pair_revision = pair_revision, mlr_price_revision = price_revision,
              mlr_was_replay = False\<rparr>, db3))))))))"

definition save_local_maker_route ::
    "'j maker_json \<Rightarrow> tx_io \<Rightarrow> request_id \<Rightarrow> u64 option \<Rightarrow> u64 option \<Rightarrow> maker_pair_configuration
     \<Rightarrow> local_price \<Rightarrow> 'j maker_db \<Rightarrow> maker_local_route_commit maker_result \<times> 'j maker_db" where
  [maker_defs]: "save_local_maker_route J io rid expected_pair expected_price c p db =
     (case and_then (map_err MakerConfiguration (pair_configuration_validate c)) (\<lambda>_.
           and_then (map_err MakerConfiguration (local_price_validate p)) (\<lambda>_.
           if pc_route c \<noteq> lp_route p then Err MakerLocalRouteMismatch
           else if pc_price_source c \<noteq> LocalPriceSource then Err MakerPriceSourceMismatch
           else Ok ())) of
        Inl e \<Rightarrow> (Err e, db)
      | Inr _ \<Rightarrow>
          transact MakerSqlite io
            (save_local_maker_route_tx J rid expected_pair expected_price c p) db)"

definition configure_maker_pair_tx ::
    "'j maker_json \<Rightarrow> request_id \<Rightarrow> u64 option \<Rightarrow> maker_pair_configuration
     \<Rightarrow> 'j maker_db \<Rightarrow> (maker_configuration_commit \<times> 'j maker_db) maker_result" where
  [maker_defs]: "configure_maker_pair_tx J rid expected c db =
     (let request_json = js_request J (PairMutationRequest expected c) in
     and_then (replay_configuration_mutation J db rid ''pair_configure'' request_json) (\<lambda>replay.
     case replay of
       Some commit \<Rightarrow> Ok (commit, db)
     | None \<Rightarrow>
         and_then (next_revision (db_pairs db) (pc_route c) expected) (\<lambda>revision.
         if pc_enabled c \<and> pc_price_source c = LocalPriceSource
            \<and> \<not> route_exists (db_prices db) (pc_route c)
         then Err MissingMakerLocalPrice
         else
         and_then (upsert_pair (pc_route c) (js_pair J c) revision rid db) (\<lambda>db1.
         and_then (persist_configuration_mutation J rid ''pair_configure'' request_json revision db1)
           (\<lambda>db2. Ok (\<lparr>mcc_revision = revision, mcc_was_replay = False\<rparr>, db2))))))"

definition configure_maker_pair ::
    "'j maker_json \<Rightarrow> tx_io \<Rightarrow> request_id \<Rightarrow> u64 option \<Rightarrow> maker_pair_configuration
     \<Rightarrow> 'j maker_db \<Rightarrow> maker_configuration_commit maker_result \<times> 'j maker_db" where
  [maker_defs]: "configure_maker_pair J io rid expected c db =
     (case map_err MakerConfiguration (pair_configuration_validate c) of
        Inl e \<Rightarrow> (Err e, db)
      | Inr _ \<Rightarrow> transact MakerSqlite io (configure_maker_pair_tx J rid expected c) db)"

definition set_local_price_tx ::
    "'j maker_json \<Rightarrow> request_id \<Rightarrow> u64 option \<Rightarrow> local_price
     \<Rightarrow> 'j maker_db \<Rightarrow> (maker_configuration_commit \<times> 'j maker_db) maker_result" where
  [maker_defs]: "set_local_price_tx J rid expected p db =
     (let request_json = js_request J (PriceMutationRequest expected p) in
     and_then (replay_configuration_mutation J db rid ''local_price_set'' request_json) (\<lambda>replay.
     case replay of
       Some commit \<Rightarrow> Ok (commit, db)
     | None \<Rightarrow>
         and_then (load_pair_record J db (lp_route p)) (\<lambda>loaded.
         and_then (ok_or MissingMakerPair loaded) (\<lambda>policy.
         if pc_price_source (vr_value policy) \<noteq> LocalPriceSource then Err MakerPriceSourceMismatch
         else
         and_then (next_revision (db_prices db) (lp_route p) expected) (\<lambda>revision.
         and_then (upsert_price (lp_route p) (js_price J p) revision rid db) (\<lambda>db1.
         and_then (persist_configuration_mutation J rid ''local_price_set'' request_json revision db1)
           (\<lambda>db2. Ok (\<lparr>mcc_revision = revision, mcc_was_replay = False\<rparr>, db2))))))))"

definition set_local_price ::
    "'j maker_json \<Rightarrow> tx_io \<Rightarrow> request_id \<Rightarrow> u64 option \<Rightarrow> local_price
     \<Rightarrow> 'j maker_db \<Rightarrow> maker_configuration_commit maker_result \<times> 'j maker_db" where
  [maker_defs]: "set_local_price J io rid expected p db =
     (case map_err MakerConfiguration (local_price_validate p) of
        Inl e \<Rightarrow> (Err e, db)
      | Inr _ \<Rightarrow> transact MakerSqlite io (set_local_price_tx J rid expected p) db)"

end
