(* ===== verification/Maker_Offer.thy ===== *)
theory Maker_Offer
  imports Maker_Application
begin

text \<open>
  Maker offers, \<open>crates/swap-store/src/maker_offer.rs\<close>: publication from a local price or
  from an external quote, reservation by one negotiation (directly or by staging a ZEC
  proposal), consumption into a swap, withdrawal, and the listings. Every mutation is one
  immediate transaction that first looks for its own replay record.
\<close>

section \<open>Columns\<close>

definition offer_check_version :: "int \<Rightarrow> string \<Rightarrow> unit maker_result" where
  [maker_defs]: "offer_check_version version kind =
     (if version \<noteq> offer_payload_version
      then Err (UnsupportedPayloadVersion kind version) else Ok ())"

definition sql_to_u64 :: "int \<Rightarrow> u64 maker_result" where
  [maker_defs]: "sql_to_u64 value =
     and_then (to_u64 CorruptMakerOffer value) (\<lambda>v. if v = 0 then Err CorruptMakerOffer else Ok v)"

definition u64_to_sql :: "u64 \<Rightarrow> int maker_result" where
  [maker_defs]: "u64_to_sql value = to_i64 (MakerOffer InvalidTime) value"

text \<open>The two optional identifier columns of an offer row.\<close>

definition decode_reservation :: "string option \<Rightarrow> request_id option maker_result" where
  [maker_defs]: "decode_reservation column =
     (case column of
        None \<Rightarrow> Ok None
      | Some s \<Rightarrow>
          and_then (map_err (\<lambda>_. CorruptMakerOffer) (request_id_new s)) (\<lambda>i. Ok (Some i)))"

definition decode_swap_id :: "string option \<Rightarrow> string option maker_result" where
  [maker_defs]: "decode_swap_id column =
     (case column of
        None \<Rightarrow> Ok None
      | Some s \<Rightarrow>
          and_then (map_err (\<lambda>_. CorruptMakerOffer) (swap_id_new s)) (\<lambda>_. Ok (Some s)))"

definition decode_offer_state ::
    "string \<Rightarrow> request_id option \<Rightarrow> string option \<Rightarrow> (maker_offer_status \<times> bool) maker_result" where
  [maker_defs]: "decode_offer_state state reservation swap =
     (if state = ''active'' then Ok (OfferActive, reservation = None \<and> swap = None)
      else if state = ''reserved'' then Ok (OfferReserved, reservation \<noteq> None \<and> swap = None)
      else if state = ''consumed'' then Ok (OfferConsumed, reservation \<noteq> None \<and> swap \<noteq> None)
      else if state = ''withdrawn'' then Ok (OfferWithdrawn, reservation = None \<and> swap = None)
      else Err CorruptMakerOffer)"

definition decode_offer_tuple ::
    "'j maker_json \<Rightarrow> 'j offer_row \<Rightarrow> u64 \<Rightarrow> maker_offer_record maker_result" where
  [maker_defs]: "decode_offer_tuple J row now =
     and_then (offer_check_version (or_payload_version row) ''maker offer'') (\<lambda>_.
     and_then (ok_or MakerJson (rd_offer J (or_payload_json row))) (\<lambda>off.
     and_then (map_err MakerOffer (offer_validate off)) (\<lambda>_.
     and_then
       (if offer_id_str (of_id off) \<noteq> or_offer_id row
           \<or> pair_name (rt_pair (offer_route off)) \<noteq> or_pair row
           \<or> direction_name (rt_direction (offer_route off)) \<noteq> or_direction row
        then Err CorruptMakerOffer
        else and_then (sql_to_u64 (or_expires_at row)) (\<lambda>expires.
          if of_expires_at off \<noteq> expires then Err CorruptMakerOffer else Ok ())) (\<lambda>_.
     and_then (decode_reservation (or_reservation_id row)) (\<lambda>reservation.
     and_then (decode_swap_id (or_swap_id row)) (\<lambda>swap.
     and_then (decode_offer_state (or_state row) reservation swap) (\<lambda>(status, valid_shape).
     if \<not> valid_shape then Err CorruptMakerOffer
     else
     and_then (sql_to_u64 (or_revision row)) (\<lambda>revision.
     Ok \<lparr>mor_revision = revision,
         mor_status = (if status = OfferActive \<and> now \<ge> of_expires_at off
                       then OfferExpired else status),
         mor_offer = off, mor_reservation_id = reservation, mor_swap_id = swap\<rparr>))))))))"

section \<open>Queries\<close>

definition offer_exists :: "'j maker_db \<Rightarrow> maker_offer_id \<Rightarrow> bool" where
  [maker_defs]: "offer_exists db i \<longleftrightarrow> row_at or_offer_id (db_offers db) (offer_id_str i) \<noteq> None"

definition load_pair ::
    "'j maker_json \<Rightarrow> 'j maker_db \<Rightarrow> maker_route
     \<Rightarrow> (maker_pair_configuration \<times> u64) option maker_result" where
  [maker_defs]: "load_pair J db r =
     (case row_at route_key (db_pairs db) (route_columns r) of
        None \<Rightarrow> Ok None
      | Some row \<Rightarrow>
          and_then (offer_check_version (rr_payload_version row) ''maker pair configuration'') (\<lambda>_.
          and_then (ok_or MakerJson (rd_pair J (rr_payload_json row))) (\<lambda>value.
          and_then (map_err MakerConfiguration
            (pair_configuration_new (pc_route value) (pc_enabled value) (pc_price_source value)
               (pc_minimum_foreign_units value) (pc_maximum_foreign_units value)
               (pc_offer_ttl_seconds value))) (\<lambda>validated.
          if pc_route validated \<noteq> r \<or> validated \<noteq> value then Err CorruptMakerConfiguration
          else and_then (sql_to_u64 (rr_revision row)) (\<lambda>revision. Ok (Some (value, revision)))))))"

definition load_price ::
    "'j maker_json \<Rightarrow> 'j maker_db \<Rightarrow> maker_route \<Rightarrow> (local_price \<times> u64) option maker_result" where
  [maker_defs]: "load_price J db r =
     (case row_at route_key (db_prices db) (route_columns r) of
        None \<Rightarrow> Ok None
      | Some row \<Rightarrow>
          and_then (offer_check_version (rr_payload_version row) ''maker local price'') (\<lambda>_.
          and_then (ok_or MakerJson (rd_price J (rr_payload_json row))) (\<lambda>value.
          and_then (map_err MakerConfiguration
            (local_price_new (lp_route value) (lp_lez_units_per_lot value)
               (lp_foreign_units_per_lot value))) (\<lambda>validated.
          if lp_route validated \<noteq> r \<or> validated \<noteq> value then Err CorruptMakerConfiguration
          else and_then (sql_to_u64 (rr_revision row)) (\<lambda>revision. Ok (Some (value, revision)))))))"

definition load_offer ::
    "'j maker_json \<Rightarrow> 'j maker_db \<Rightarrow> maker_offer_id \<Rightarrow> u64
     \<Rightarrow> maker_offer_record option maker_result" where
  [maker_defs]: "load_offer J db i now =
     (case row_at or_offer_id (db_offers db) (offer_id_str i) of
        None \<Rightarrow> Ok None
      | Some row \<Rightarrow> and_then (decode_offer_tuple J row now) (\<lambda>v. Ok (Some v)))"

definition offer_row_le :: "'j offer_row \<Rightarrow> 'j offer_row \<Rightarrow> bool" where
  "offer_row_le a b \<longleftrightarrow> text_le (or_offer_id a) (or_offer_id b)"

text \<open>The \<open>WHERE\<close> clause is the predicate \<open>P\<close>.\<close>

definition list_offers ::
    "'j maker_json \<Rightarrow> 'j maker_db \<Rightarrow> ('j offer_row \<Rightarrow> bool) \<Rightarrow> u64
     \<Rightarrow> maker_offer_record list maker_result" where
  "list_offers J db P now =
     decode_all (\<lambda>row. decode_offer_tuple J row now) (order_by offer_row_le (filter P (db_offers db)))"

definition list_discoverable_maker_offers ::
    "'j maker_json \<Rightarrow> 'j maker_db \<Rightarrow> u64 \<Rightarrow> maker_offer_record list maker_result" where
  "list_discoverable_maker_offers J db now =
     (if now > i64_max then Err (MakerOffer InvalidTime)
      else list_offers J db
        (\<lambda>row. or_state row = ''active'' \<and> or_expires_at row > uint now) now)"

definition list_retryable_maker_offers ::
    "'j maker_json \<Rightarrow> 'j maker_db \<Rightarrow> u64 \<Rightarrow> maker_offer_record list maker_result" where
  "list_retryable_maker_offers J db now =
     (if now > i64_max then Err (MakerOffer InvalidTime)
      else list_offers J db
        (\<lambda>row. or_state row \<in> {''active'', ''reserved'', ''consumed''}
               \<and> or_expires_at row > uint now) now)"

definition list_maker_offer_history ::
    "'j maker_json \<Rightarrow> 'j maker_db \<Rightarrow> u64 \<Rightarrow> maker_offer_record list maker_result" where
  "list_maker_offer_history J db now =
     (if now > i64_max then Err (MakerOffer InvalidTime) else list_offers J db (\<lambda>_. True) now)"

section \<open>Replay\<close>

definition equivalent_publish_requests :: "'j maker_json \<Rightarrow> 'j \<Rightarrow> 'j \<Rightarrow> bool" where
  [maker_defs]: "equivalent_publish_requests J stored current =
     (case (rd_publish J stored, rd_publish J current) of
        (Some s, Some c) \<Rightarrow> s = c
      | _ \<Rightarrow> False)"

definition replay_offer_mutation ::
    "'j maker_json \<Rightarrow> 'j maker_db \<Rightarrow> request_id \<Rightarrow> string \<Rightarrow> 'j
     \<Rightarrow> maker_offer_commit option maker_result" where
  [maker_defs]: "replay_offer_mutation J db rid operation request_json =
     (case mutation_at db rid of
        None \<Rightarrow> Ok None
      | Some row \<Rightarrow>
          if mu_operation row \<noteq> operation then Err MakerOfferRequestConflict
          else if mu_request_json row \<noteq> request_json
            \<and> \<not> (operation = ''offer_publish''
                  \<and> equivalent_publish_requests J (mu_request_json row) request_json)
          then Err MakerOfferRequestConflict
          else and_then (ok_or MakerJson (rd_commit J (mu_result_json row)))
            (\<lambda>(version, revision).
             if version \<noteq> 1 \<or> revision = 0 then Err CorruptMakerOffer
             else Ok (Some \<lparr>moc_revision = revision, moc_was_replay = True\<rparr>)))"

definition persist_offer_mutation ::
    "'j maker_json \<Rightarrow> request_id \<Rightarrow> string \<Rightarrow> 'j \<Rightarrow> u64 \<Rightarrow> 'j maker_db \<Rightarrow> 'j maker_db maker_result" where
  [maker_defs]: "persist_offer_mutation J rid operation request_json revision =
     insert_mutation \<lparr>mu_request_id = request_id_str rid, mu_operation = operation,
       mu_request_payload_version = offer_payload_version, mu_request_json = request_json,
       mu_result_json = js_commit J 1 revision\<rparr>"

section \<open>Publication\<close>

definition prepare_maker_offer_publication ::
    "'j maker_json \<Rightarrow> tx_io \<Rightarrow> request_id \<Rightarrow> maker_offer_id \<Rightarrow> maker_route \<Rightarrow> 'j maker_db
     \<Rightarrow> maker_offer_publication_preflight maker_result \<times> 'j maker_db" where
  "prepare_maker_offer_publication J io rid i r =
     transact MakerSqlite io (\<lambda>db.
     and_then (replay_offer_mutation J db rid ''offer_publish'' (js_request J (PublishRequest i r)))
       (\<lambda>replay.
     case replay of
       Some commit \<Rightarrow> Ok (PublicationReplayed commit, db)
     | None \<Rightarrow>
         if offer_exists db i then Err MakerOfferAlreadyExists
         else
         and_then (load_pair J db r) (\<lambda>loaded.
         and_then (ok_or MissingMakerPair loaded) (\<lambda>(policy, revision).
         if \<not> pc_enabled policy then Err MakerRouteDisabled
         else Ok (PublicationPending revision (pc_price_source policy), db)))))"

text \<open>\<open>checked_add(...).filter(i64::try_from).ok_or(InvalidTime)\<close>.\<close>

definition offer_expiry :: "u64 \<Rightarrow> maker_pair_configuration \<Rightarrow> u64 maker_result" where
  [maker_defs]: "offer_expiry now policy =
     (case checked_add now (pc_offer_ttl_seconds policy) of
        None \<Rightarrow> Err (MakerOffer InvalidTime)
      | Some v \<Rightarrow> if v \<le> i64_max then Ok v else Err (MakerOffer InvalidTime))"

definition insert_offer ::
    "'j maker_json \<Rightarrow> request_id \<Rightarrow> maker_route \<Rightarrow> maker_offer
     \<Rightarrow> 'j maker_db \<Rightarrow> 'j maker_db maker_result" where
  [maker_defs]: "insert_offer J rid r off db =
     and_then (u64_to_sql (of_expires_at off)) (\<lambda>expires.
     and_then (table_insert MakerSqlite offer_row_check (\<lambda>a b. or_offer_id a = or_offer_id b)
       \<lparr>or_offer_id = offer_id_str (of_id off),
        or_pair = pair_name (rt_pair r), or_direction = direction_name (rt_direction r),
        or_payload_version = offer_payload_version, or_payload_json = js_offer J off,
        or_expires_at = expires, or_state = ''active'', or_revision = 1,
        or_reservation_id = None, or_swap_id = None,
        or_updated_request_id = request_id_str rid\<rparr> (db_offers db)) (\<lambda>t.
     Ok (db\<lparr>db_offers := t\<rparr>)))"

definition publish_local_offer_tx ::
    "'j maker_json \<Rightarrow> request_id \<Rightarrow> maker_offer_id \<Rightarrow> maker_route \<Rightarrow> (u64 \<times> u64) option \<Rightarrow> u64
     \<Rightarrow> 'j maker_db \<Rightarrow> (maker_offer_commit \<times> 'j maker_db) maker_result" where
  [maker_defs]: "publish_local_offer_tx J rid i r expected now db =
     (let (operation, request_json) =
        (case expected of
           Some (expected_pair, expected_price) \<Rightarrow>
             (''offer_publish_at_revisions_v1'',
              js_request J (GuardedPublishRequest i r expected_pair expected_price))
         | None \<Rightarrow> (''offer_publish'', js_request J (PublishRequest i r))) in
     and_then (replay_offer_mutation J db rid operation request_json) (\<lambda>replay.
     case replay of
       Some commit \<Rightarrow> Ok (commit, db)
     | None \<Rightarrow>
         if now > i64_max then Err (MakerOffer InvalidTime)
         else if offer_exists db i then Err MakerOfferAlreadyExists
         else
         and_then (load_pair J db r) (\<lambda>loaded_pair.
         and_then (ok_or MissingMakerPair loaded_pair) (\<lambda>(policy, policy_revision).
         if \<not> pc_enabled policy then Err MakerRouteDisabled
         else if pc_price_source policy \<noteq> LocalPriceSource then Err MakerPriceSourceMismatch
         else
         and_then (load_price J db r) (\<lambda>loaded_price.
         and_then (ok_or MissingMakerLocalPrice loaded_price) (\<lambda>(price, price_revision).
         and_then
           (case expected of
              None \<Rightarrow> Ok ()
            | Some (expected_pair, expected_price) \<Rightarrow>
                if expected_pair \<noteq> policy_revision
                then Err (StaleMakerConfiguration (Some expected_pair) (Some policy_revision))
                else if expected_price \<noteq> price_revision
                then Err (StaleMakerConfiguration (Some expected_price) (Some price_revision))
                else Ok ()) (\<lambda>_.
         and_then (offer_expiry now policy) (\<lambda>expires.
         let off = \<lparr>of_id = i, of_pair_configuration = policy, of_price = price,
                    of_pair_configuration_revision = policy_revision,
                    of_price_source_revision = price_revision, of_price_observed_at = now,
                    of_price_source_identity = None, of_created_at = now,
                    of_expires_at = expires\<rparr> in
         and_then (map_err MakerOffer (offer_validate off)) (\<lambda>_.
         and_then (insert_offer J rid r off db) (\<lambda>db1.
         and_then (persist_offer_mutation J rid operation request_json 1 db1) (\<lambda>db2.
         Ok (\<lparr>moc_revision = 1, moc_was_replay = False\<rparr>, db2))))))))))))"

definition publish_local_offer_inner ::
    "'j maker_json \<Rightarrow> tx_io \<Rightarrow> request_id \<Rightarrow> maker_offer_id \<Rightarrow> maker_route \<Rightarrow> (u64 \<times> u64) option
     \<Rightarrow> u64 \<Rightarrow> 'j maker_db \<Rightarrow> maker_offer_commit maker_result \<times> 'j maker_db" where
  [maker_defs]: "publish_local_offer_inner J io rid i r expected now =
     transact MakerSqlite io (publish_local_offer_tx J rid i r expected now)"

definition publish_local_offer ::
    "'j maker_json \<Rightarrow> tx_io \<Rightarrow> request_id \<Rightarrow> maker_offer_id \<Rightarrow> maker_route \<Rightarrow> u64
     \<Rightarrow> 'j maker_db \<Rightarrow> maker_offer_commit maker_result \<times> 'j maker_db" where
  "publish_local_offer J io rid i r now = publish_local_offer_inner J io rid i r None now"

definition publish_local_offer_at_revisions ::
    "'j maker_json \<Rightarrow> tx_io \<Rightarrow> request_id \<Rightarrow> maker_offer_id \<Rightarrow> maker_route \<Rightarrow> u64 \<times> u64 \<Rightarrow> u64
     \<Rightarrow> 'j maker_db \<Rightarrow> maker_offer_commit maker_result \<times> 'j maker_db" where
  "publish_local_offer_at_revisions J io rid i r expected now =
     publish_local_offer_inner J io rid i r (Some expected) now"

definition update_external_price_head ::
    "maker_route \<Rightarrow> bytes \<Rightarrow> local_price \<Rightarrow> u64 \<Rightarrow> u64 \<Rightarrow> 'j maker_db \<Rightarrow> 'j maker_db maker_result" where
  [maker_defs]: "update_external_price_head r identity price revision observed db =
     and_then
       (case row_at head_key (db_heads db)
               (pair_name (rt_pair r), direction_name (rt_direction r), identity) of
          None \<Rightarrow> Ok ()
        | Some prior \<Rightarrow>
            and_then (sql_to_u64 (ph_source_revision prior)) (\<lambda>prior_revision.
            and_then (sql_to_u64 (ph_observed_at prior)) (\<lambda>prior_observed.
            and_then (sql_to_u64 (ph_lez_units_per_lot prior)) (\<lambda>prior_lez.
            and_then (sql_to_u64 (ph_foreign_units_per_lot prior)) (\<lambda>prior_foreign.
            if prior_revision > revision
               \<or> prior_revision < revision \<and> prior_observed > observed
            then Err MakerPriceRevisionRollback
            else if prior_revision = revision
               \<and> (prior_observed \<noteq> observed \<or> prior_lez \<noteq> lp_lez_units_per_lot price
                   \<or> prior_foreign \<noteq> lp_foreign_units_per_lot price)
            then Err MakerPriceRevisionConflict
            else Ok ()))))) (\<lambda>_.
     and_then (u64_to_sql revision) (\<lambda>sql_revision.
     and_then (u64_to_sql observed) (\<lambda>sql_observed.
     and_then (u64_to_sql (lp_lez_units_per_lot price)) (\<lambda>sql_lez.
     and_then (u64_to_sql (lp_foreign_units_per_lot price)) (\<lambda>sql_foreign.
     and_then (table_upsert MakerSqlite head_row_check head_key
       \<lparr>ph_pair = pair_name (rt_pair r), ph_direction = direction_name (rt_direction r),
        ph_source_identity = identity, ph_source_revision = sql_revision,
        ph_observed_at = sql_observed, ph_lez_units_per_lot = sql_lez,
        ph_foreign_units_per_lot = sql_foreign\<rparr> (db_heads db)) (\<lambda>t.
     Ok (db\<lparr>db_heads := t\<rparr>)))))))"

definition publish_logos_offer_tx ::
    "'j maker_json \<Rightarrow> request_id \<Rightarrow> maker_offer_id \<Rightarrow> maker_route \<Rightarrow> u64 \<Rightarrow> local_price \<Rightarrow> bytes
     \<Rightarrow> u64 \<Rightarrow> u64 \<Rightarrow> u64 \<Rightarrow> u64
     \<Rightarrow> 'j maker_db \<Rightarrow> (maker_offer_commit \<times> 'j maker_db) maker_result" where
  [maker_defs]: "publish_logos_offer_tx J rid i r expected_pair price identity source_revision
       observed now max_age db =
     (let request_json = js_request J (PublishRequest i r) in
     and_then (replay_offer_mutation J db rid ''offer_publish'' request_json) (\<lambda>replay.
     case replay of
       Some commit \<Rightarrow> Ok (commit, db)
     | None \<Rightarrow>
         if lp_route price \<noteq> r \<or> source_revision = 0 \<or> source_revision > i64_max
            \<or> identity = zero32 \<or> observed = 0 \<or> observed > now \<or> now > i64_max
            \<or> \<not> (1 \<le> max_age \<and> max_age \<le> max_logos_quote_age_seconds)
            \<or> now - observed > max_age
         then Err (MakerOffer InvalidSnapshot)
         else if offer_exists db i then Err MakerOfferAlreadyExists
         else
         and_then (load_pair J db r) (\<lambda>loaded_pair.
         and_then (ok_or MissingMakerPair loaded_pair) (\<lambda>(policy, policy_revision).
         if policy_revision \<noteq> expected_pair
         then Err (StaleMakerConfiguration (Some expected_pair) (Some policy_revision))
         else if \<not> pc_enabled policy then Err MakerRouteDisabled
         else if pc_price_source policy \<noteq> LogosCApi then Err MakerPriceSourceMismatch
         else
         and_then (offer_expiry now policy) (\<lambda>expires.
         let off = \<lparr>of_id = i, of_pair_configuration = policy, of_price = price,
                    of_pair_configuration_revision = policy_revision,
                    of_price_source_revision = source_revision, of_price_observed_at = observed,
                    of_price_source_identity = Some identity, of_created_at = now,
                    of_expires_at = expires\<rparr> in
         and_then (map_err MakerOffer (offer_validate off)) (\<lambda>_.
         and_then (update_external_price_head r identity price source_revision observed db) (\<lambda>db1.
         and_then (insert_offer J rid r off db1) (\<lambda>db2.
         and_then (persist_offer_mutation J rid ''offer_publish'' request_json 1 db2) (\<lambda>db3.
         Ok (\<lparr>moc_revision = 1, moc_was_replay = False\<rparr>, db3))))))))))"

definition publish_logos_offer ::
    "'j maker_json \<Rightarrow> tx_io \<Rightarrow> request_id \<Rightarrow> maker_offer_id \<Rightarrow> maker_route \<Rightarrow> u64 \<Rightarrow> local_price
     \<Rightarrow> bytes \<Rightarrow> u64 \<Rightarrow> u64 \<Rightarrow> u64 \<Rightarrow> u64
     \<Rightarrow> 'j maker_db \<Rightarrow> maker_offer_commit maker_result \<times> 'j maker_db" where
  [maker_defs]: "publish_logos_offer J io rid i r expected_pair price identity source_revision
       observed now max_age =
     transact MakerSqlite io
       (publish_logos_offer_tx J rid i r expected_pair price identity source_revision observed now
          max_age)"

section \<open>Transitions\<close>

text \<open>The \<open>UPDATE\<close> of an offer row, guarded by the revision; the new row is subject to the
  table's checks and to its foreign key into \<open>swaps\<close>.\<close>

definition update_offer ::
    "('j offer_row \<Rightarrow> bool) \<Rightarrow> ('j offer_row \<Rightarrow> 'j offer_row) \<Rightarrow> 'j maker_db
     \<Rightarrow> (nat \<times> 'j maker_db) maker_result" where
  [maker_defs]: "update_offer P f db =
     and_then (table_update MakerSqlite
       (\<lambda>row. offer_row_check row \<and>
          (case or_swap_id row of None \<Rightarrow> True | Some s \<Rightarrow> s \<in> set (map sw_id (db_swaps db))))
       P f (db_offers db)) (\<lambda>(n, t). Ok (n, db\<lparr>db_offers := t\<rparr>))"

definition insert_swap ::
    "'j maker_json \<Rightarrow> swap_coordinator \<Rightarrow> 'j maker_db \<Rightarrow> 'j maker_db maker_result" where
  [maker_defs]: "insert_swap J swap db =
     and_then (table_insert MakerSqlite (\<lambda>_. True) (\<lambda>a b. sw_id a = sw_id b)
       \<lparr>sw_id = swap_id_str (sc_id swap), sw_schema_version = swap_payload_version,
        sw_state_json = js_swap J swap, sw_revision = 0\<rparr> (db_swaps db)) (\<lambda>t.
     Ok (db\<lparr>db_swaps := t\<rparr>))"

text \<open>\<open>transition_offer\<close>: the closure \<open>transition\<close> sees the loaded record and yields the new
  state with the two identifier columns. It is loaded at time 0, before every expiry.\<close>

definition transition_offer_tx ::
    "'j maker_json \<Rightarrow> request_id \<Rightarrow> string \<Rightarrow> 'j \<Rightarrow> maker_offer_id \<Rightarrow> u64 \<Rightarrow> swap_coordinator option
     \<Rightarrow> (maker_offer_record \<Rightarrow> (string \<times> string option \<times> string option) maker_result)
     \<Rightarrow> 'j maker_db \<Rightarrow> (maker_offer_commit \<times> 'j maker_db) maker_result" where
  [maker_defs]: "transition_offer_tx J rid operation request_json i expected swap_to_insert
       transition db =
     and_then (replay_offer_mutation J db rid operation request_json) (\<lambda>replay.
     case replay of
       Some commit \<Rightarrow> Ok (commit, db)
     | None \<Rightarrow>
         and_then (load_offer J db i 0) (\<lambda>loaded.
         and_then (ok_or MissingMakerOffer loaded) (\<lambda>record.
         if mor_revision record \<noteq> expected
         then Err (StaleMakerOffer expected (mor_revision record))
         else
         and_then (transition record) (\<lambda>(state, reservation, swap_id).
         and_then (case swap_to_insert of None \<Rightarrow> Ok db | Some swap \<Rightarrow> insert_swap J swap db) (\<lambda>db1.
         and_then (ok_or RevisionOverflow (checked_add expected 1)) (\<lambda>revision.
         and_then (u64_to_sql revision) (\<lambda>sql_revision.
         and_then (u64_to_sql expected) (\<lambda>sql_expected.
         and_then (update_offer
           (\<lambda>row. or_offer_id row = offer_id_str i \<and> or_revision row = sql_expected)
           (\<lambda>row. row\<lparr>or_state := state, or_revision := sql_revision,
              or_reservation_id := reservation, or_swap_id := swap_id,
              or_updated_request_id := request_id_str rid\<rparr>) db1) (\<lambda>(updated, db2).
         if updated \<noteq> 1 then Err (StaleMakerOffer expected (mor_revision record))
         else
         and_then (persist_offer_mutation J rid operation request_json revision db2) (\<lambda>db3.
         Ok (\<lparr>moc_revision = revision, moc_was_replay = False\<rparr>, db3)))))))))))"

definition transition_offer ::
    "'j maker_json \<Rightarrow> tx_io \<Rightarrow> request_id \<Rightarrow> string \<Rightarrow> 'j \<Rightarrow> maker_offer_id \<Rightarrow> u64
     \<Rightarrow> swap_coordinator option
     \<Rightarrow> (maker_offer_record \<Rightarrow> (string \<times> string option \<times> string option) maker_result)
     \<Rightarrow> 'j maker_db \<Rightarrow> maker_offer_commit maker_result \<times> 'j maker_db" where
  [maker_defs]: "transition_offer J io rid operation request_json i expected swap_to_insert transition =
     transact MakerSqlite io
       (transition_offer_tx J rid operation request_json i expected swap_to_insert transition)"

definition reserve_transition ::
    "request_id \<Rightarrow> u64 \<Rightarrow> maker_offer_record
     \<Rightarrow> (string \<times> string option \<times> string option) maker_result" where
  [maker_defs]: "reserve_transition reservation now record =
     (if now > i64_max \<or> now \<ge> of_expires_at (mor_offer record) then Err MakerOfferExpired
      else if mor_status record \<noteq> OfferActive then Err MakerOfferUnavailable
      else Ok (''reserved'', Some (request_id_str reservation), None))"

definition reserve_maker_offer ::
    "'j maker_json \<Rightarrow> tx_io \<Rightarrow> request_id \<Rightarrow> maker_offer_id \<Rightarrow> u64 \<Rightarrow> request_id \<Rightarrow> u64
     \<Rightarrow> 'j maker_db \<Rightarrow> maker_offer_commit maker_result \<times> 'j maker_db" where
  [maker_defs]: "reserve_maker_offer J io rid i expected reservation now =
     transition_offer J io rid ''offer_reserve''
       (js_request J (ReserveRequest i expected reservation now)) i expected None
       (reserve_transition reservation now)"

definition consume_transition ::
    "request_id \<Rightarrow> swap_coordinator \<Rightarrow> maker_offer_record
     \<Rightarrow> (string \<times> string option \<times> string option) maker_result" where
  [maker_defs]: "consume_transition reservation swap record =
     (if mor_status record \<noteq> OfferReserved \<or> mor_reservation_id record \<noteq> Some reservation
      then Err MakerOfferReservationConflict
      else if rt_pair (offer_route (mor_offer record)) \<noteq> sc_pair swap
         \<or> rt_direction (offer_route (mor_offer record)) \<noteq> sc_direction swap
         \<or> sc_phase swap \<noteq> Offered
      then Err MakerOfferSwapMismatch
      else Ok (''consumed'', Some (request_id_str reservation),
               Some (swap_id_str (sc_id swap))))"

text \<open>Whether the query outside the transaction succeeded is the first argument.\<close>

definition consume_maker_offer ::
    "'j maker_json \<Rightarrow> bool \<Rightarrow> tx_io \<Rightarrow> request_id \<Rightarrow> maker_offer_id \<Rightarrow> u64 \<Rightarrow> request_id
     \<Rightarrow> swap_coordinator \<Rightarrow> 'j maker_db \<Rightarrow> maker_offer_commit maker_result \<times> 'j maker_db" where
  [maker_defs]: "consume_maker_offer J query_ok io rid i expected reservation swap db =
     (if \<not> query_ok then (Err MakerSqlite, db)
      else if offer_id_str i \<in> set (map zr_offer_id (db_zec db))
         \<or> offer_id_str i \<in> set (db_other_negotiations db)
      then (Err MakerOfferUnavailable, db)
      else transition_offer J io rid ''offer_consume''
        (js_request J (ConsumeRequest i expected reservation swap)) i expected (Some swap)
        (consume_transition reservation swap) db)"

definition withdraw_transition ::
    "maker_offer_record \<Rightarrow> (string \<times> string option \<times> string option) maker_result" where
  [maker_defs]: "withdraw_transition record =
     (if mor_status record \<noteq> OfferActive then Err MakerOfferUnavailable
      else Ok (''withdrawn'', None, None))"

definition withdraw_maker_offer ::
    "'j maker_json \<Rightarrow> tx_io \<Rightarrow> request_id \<Rightarrow> maker_offer_id \<Rightarrow> u64
     \<Rightarrow> 'j maker_db \<Rightarrow> maker_offer_commit maker_result \<times> 'j maker_db" where
  [maker_defs]: "withdraw_maker_offer J io rid i expected =
     transition_offer J io rid ''offer_withdraw'' (js_request J (WithdrawRequest i expected)) i
       expected None withdraw_transition"

section \<open>Staging a ZEC negotiation\<close>

definition insert_zec_negotiation ::
    "request_id \<Rightarrow> maker_offer_id \<Rightarrow> maker_zec_negotiation \<Rightarrow> 'j maker_db \<Rightarrow> 'j maker_db maker_result" where
  [maker_defs]: "insert_zec_negotiation rid i n db =
     and_then (u64_to_sql (zn_foreign_units n)) (\<lambda>foreign_units.
     and_then (u64_to_sql (zn_reserved_at n)) (\<lambda>reserved_at.
     and_then (table_insert MakerSqlite
       (\<lambda>row. zec_row_check row \<and> zr_offer_id row \<in> set (map or_offer_id (db_offers db)))
       (\<lambda>a b. zr_offer_id a = zr_offer_id b \<or> zr_reservation_id a = zr_reservation_id b)
       \<lparr>zr_offer_id = offer_id_str i, zr_reservation_id = request_id_str (zn_reservation_id n),
        zr_payload_version = 1, zr_offer_commitment = zn_offer_commitment n,
        zr_maker_chat_identity = zn_maker_chat_identity n,
        zr_taker_chat_identity = zn_taker_chat_identity n,
        zr_foreign_units = foreign_units, zr_lez_units = be_bytes 16 (unat (zn_lez_units n)),
        zr_reserved_at = reserved_at, zr_agreement_commitment = zn_agreement_commitment n,
        zr_maker_proposal_wire = zn_maker_proposal_wire n, zr_state = ''proposed'',
        zr_final_agreement_wire = None, zr_swap_id = None,
        zr_updated_request_id = request_id_str rid\<rparr> (db_zec db)) (\<lambda>t.
     Ok (db\<lparr>db_zec := t\<rparr>))))"

definition stage_zec_request ::
    "(bytes \<Rightarrow> bytes) \<Rightarrow> maker_offer_id \<Rightarrow> u64 \<Rightarrow> maker_zec_negotiation \<Rightarrow> maker_request" where
  "stage_zec_request sha256 i expected n =
     StageZecNegotiationRequest i expected (zn_reservation_id n) (zn_offer_commitment n)
       (zn_maker_chat_identity n) (zn_taker_chat_identity n) (zn_foreign_units n) (zn_lez_units n)
       (zn_agreement_commitment n) (sha256 (zn_maker_proposal_wire n))"

definition stage_zec_tx ::
    "'j maker_json \<Rightarrow> (bytes \<Rightarrow> bytes) \<Rightarrow> request_id \<Rightarrow> maker_offer_id \<Rightarrow> u64 \<Rightarrow> maker_zec_negotiation
     \<Rightarrow> 'j maker_db \<Rightarrow> (maker_offer_commit \<times> 'j maker_db) maker_result" where
  [maker_defs]: "stage_zec_tx J sha256 rid i expected n db =
     (let request_json = js_request J (stage_zec_request sha256 i expected n) in
     and_then (replay_offer_mutation J db rid ''zec_negotiation_stage'' request_json) (\<lambda>replay.
     case replay of
       Some commit \<Rightarrow> Ok (commit, db)
     | None \<Rightarrow>
         and_then (load_offer J db i (zn_reserved_at n)) (\<lambda>loaded.
         and_then (ok_or MissingMakerOffer loaded) (\<lambda>record.
         if mor_revision record \<noteq> expected
         then Err (StaleMakerOffer expected (mor_revision record))
         else if rt_pair (offer_route (mor_offer record)) \<noteq> Pair_Zcash
         then Err MakerOfferSwapMismatch
         else if zn_reserved_at n \<ge> of_expires_at (mor_offer record) then Err MakerOfferExpired
         else if mor_status record \<noteq> OfferActive then Err MakerOfferUnavailable
         else
         case quote_foreign_amount (mor_offer record) (zn_foreign_units n) of
           None \<Rightarrow> Err MakerPanic
         | Some (Inl e) \<Rightarrow> Err (MakerOffer e)
         | Some (Inr lez) \<Rightarrow>
         if lez \<noteq> zn_lez_units n then Err (MakerOffer InvalidNegotiation)
         else
         and_then (insert_zec_negotiation rid i n db) (\<lambda>db1.
         and_then (ok_or RevisionOverflow (checked_add expected 1)) (\<lambda>revision.
         and_then (u64_to_sql revision) (\<lambda>sql_revision.
         and_then (u64_to_sql expected) (\<lambda>sql_expected.
         and_then (update_offer
           (\<lambda>row. or_offer_id row = offer_id_str i \<and> or_revision row = sql_expected
              \<and> or_state row = ''active'')
           (\<lambda>row. row\<lparr>or_state := ''reserved'', or_revision := sql_revision,
              or_reservation_id := Some (request_id_str (zn_reservation_id n)),
              or_updated_request_id := request_id_str rid\<rparr>) db1) (\<lambda>(updated, db2).
         if updated \<noteq> 1 then Err (StaleMakerOffer expected (mor_revision record))
         else
         and_then (persist_offer_mutation J rid ''zec_negotiation_stage'' request_json revision db2)
           (\<lambda>db3.
         Ok (\<lparr>moc_revision = revision, moc_was_replay = False\<rparr>, db3)))))))))))"

definition stage_zec_maker_negotiation ::
    "'j maker_json \<Rightarrow> (bytes \<Rightarrow> bytes) \<Rightarrow> tx_io \<Rightarrow> request_id \<Rightarrow> maker_offer_id \<Rightarrow> u64
     \<Rightarrow> maker_zec_negotiation \<Rightarrow> 'j maker_db \<Rightarrow> maker_offer_commit maker_result \<times> 'j maker_db" where
  [maker_defs]: "stage_zec_maker_negotiation J sha256 io rid i expected n db =
     (case map_err MakerOffer (zec_negotiation_validate n) of
        Inl e \<Rightarrow> (Err e, db)
      | Inr _ \<Rightarrow>
          if zn_status n \<noteq> ZecProposed then (Err (MakerOffer InvalidNegotiation), db)
          else transact MakerSqlite io (stage_zec_tx J sha256 rid i expected n) db)"

definition decode_zec_negotiation_row ::
    "zec_negotiation_row \<Rightarrow> maker_zec_negotiation maker_result" where
  [maker_defs]: "decode_zec_negotiation_row row =
     and_then (offer_check_version (zr_payload_version row) ''maker ZEC negotiation'') (\<lambda>_.
     if length (zr_offer_commitment row) \<noteq> 32 \<or> length (zr_maker_chat_identity row) \<noteq> 33
        \<or> length (zr_taker_chat_identity row) \<noteq> 33 \<or> length (zr_lez_units row) \<noteq> 16
        \<or> length (zr_agreement_commitment row) \<noteq> 32
     then Err CorruptMakerOffer
     else
     and_then
       (if zr_state row = ''proposed'' then Ok ZecProposed
        else if zr_state row = ''completed'' then Ok ZecCompleted
        else Err CorruptMakerOffer) (\<lambda>status.
     and_then (decode_swap_id (zr_swap_id row)) (\<lambda>swap.
     and_then (map_err (\<lambda>_. CorruptMakerOffer) (request_id_new (zr_reservation_id row)))
       (\<lambda>reservation.
     and_then (sql_to_u64 (zr_foreign_units row)) (\<lambda>foreign_units.
     and_then (sql_to_u64 (zr_reserved_at row)) (\<lambda>reserved_at.
     let value = \<lparr>zn_reservation_id = reservation, zn_offer_commitment = zr_offer_commitment row,
                  zn_maker_chat_identity = zr_maker_chat_identity row,
                  zn_taker_chat_identity = zr_taker_chat_identity row,
                  zn_foreign_units = foreign_units,
                  zn_lez_units = word_of_nat (of_be_bytes (zr_lez_units row)),
                  zn_reserved_at = reserved_at,
                  zn_agreement_commitment = zr_agreement_commitment row,
                  zn_maker_proposal_wire = zr_maker_proposal_wire row, zn_status = status,
                  zn_final_agreement_wire = zr_final_agreement_wire row, zn_swap_id = swap\<rparr> in
     and_then (map_err MakerOffer (zec_negotiation_validate value)) (\<lambda>_. Ok value)))))))"

definition load_zec_maker_negotiation ::
    "'j maker_db \<Rightarrow> maker_offer_id \<Rightarrow> maker_zec_negotiation option maker_result" where
  [maker_defs]: "load_zec_maker_negotiation db i =
     (case row_at zr_offer_id (db_zec db) (offer_id_str i) of
        None \<Rightarrow> Ok None
      | Some row \<Rightarrow> and_then (decode_zec_negotiation_row row) (\<lambda>v. Ok (Some v)))"

end
