(* ===== verification/Maker_Rows.thy ===== *)
theory Maker_Rows
  imports Maker_Offer
begin

text \<open>
  Facts about single values and rows of the maker store: the greatest common divisor loop
  ends and computes the greatest common divisor, a quote of a validated price is exact,
  and the two decoders read back exactly what the writers store.
\<close>

section \<open>The greatest common divisor loop\<close>

lemma greatest_common_divisor_gcd:
  "unat (greatest_common_divisor l r) = gcd (unat l) (unat r)"
proof (induction l r rule: greatest_common_divisor.induct)
  case (1 l r)
  show ?case
  proof (cases "r = 0")
    case False
    with 1 show ?thesis
      by (subst greatest_common_divisor.simps) (simp add: unat_mod_distrib gcd_red_nat [of "unat l"])
  qed (simp add: greatest_common_divisor.simps)
qed

lemma gcd_loop_Some: "gcd_loop n l r = Some g \<Longrightarrow> g = greatest_common_divisor l r"
proof (induction n l r rule: gcd_loop.induct)
  case (2 n l r)
  then show ?case
    by (subst greatest_common_divisor.simps) (auto split: if_splits)
qed simp

lemma mod_halves: "0 < m \<Longrightarrow> m < r \<Longrightarrow> 2 * (r mod m) < (r :: nat)"
proof (cases "2 * m \<le> r")
  case True
  assume "0 < m"
  then have "r mod m < m" by simp
  with True show ?thesis by linarith
next
  case False
  assume "m < r"
  with False have "r mod m = r - m" by (simp add: mod_if)
  with False \<open>m < r\<close> show ?thesis by linarith
qed

text \<open>Two turns of the loop more than halve the right-hand value.\<close>

lemma gcd_loop_ends: "unat r < 2 ^ k \<Longrightarrow> gcd_loop (Suc (2 * k)) l r \<noteq> None"
proof (induction k arbitrary: l r)
  case 0
  then show ?case by (simp add: unat_eq_0)
next
  case (Suc k)
  define m where "m = l mod r"
  show ?case
  proof (cases "r = 0 \<or> m = 0")
    case False
    then have "0 < unat m" by (simp add: unat_gt_0)
    moreover from False have "unat m < unat r"
      by (simp add: m_def unat_mod_distrib unat_gt_0)
    ultimately have "2 * unat (r mod m) < unat r"
      using mod_halves [of "unat m" "unat r"] by (simp add: unat_mod_distrib)
    with Suc.prems have "unat (r mod m) < 2 ^ k" by simp
    from Suc.IH [OF this, of m] False show ?thesis
      by (simp add: m_def)
  qed (auto simp: m_def)
qed

section \<open>Quotes\<close>

lemma unat_ucast_u128 [simp]: "unat (ucast (x :: u64) :: u128) = unat x"
  using unsigned_less [of x, where 'a = nat]
  by (simp add: unsigned_ucast_eq take_bit_nat_eq_self)

lemma checked_mul_u64_fits:
  "checked_mul (ucast (a :: u64) :: u128) (ucast (b :: u64)) = Some (ucast a * ucast b)"
proof -
  have "unat a * unat b < 2 ^ 64 * 2 ^ 64"
    using unsigned_less [of a, where 'a = nat] unsigned_less [of b, where 'a = nat]
    by (intro mult_strict_mono) simp_all
  then show ?thesis by (simp add: checked_mul_def)
qed

lemma unat_mult_u64:
  "unat (ucast (a :: u64) * ucast (b :: u64) :: u128) = unat a * unat b"
  using unat_checked_mul [OF checked_mul_u64_fits [of a b]] by simp

lemma word_mod_zero: "n mod d = (0 :: 'a::len word) \<longleftrightarrow> unat n mod unat d = 0"
  by (simp add: word_unat_eq_iff unat_mod_distrib)

lemma word_div_of_nat: "n div d = (word_of_nat (unat n div unat d) :: 'a::len word)"
  by (rule word_arith_nat_div)

text \<open>With a price that passed validation the quote neither overflows nor divides by zero:
  it is the exact quotient or one of the two refusals.\<close>

lemma quote_foreign_amount_cases:
  assumes "lp_foreign_units_per_lot (of_price off) \<noteq> 0"
  shows "quote_foreign_amount off v = Some
    (let num = unat v * unat (lp_lez_units_per_lot (of_price off));
         den = unat (lp_foreign_units_per_lot (of_price off)) in
     if v < pc_minimum_foreign_units (of_pair_configuration off)
        \<or> v > pc_maximum_foreign_units (of_pair_configuration off) then Err AmountOutOfBounds
     else if \<not> den dvd num then Err NonIntegralPrice
     else Ok (word_of_nat (num div den)))"
proof -
  define num where "num = (ucast v * ucast (lp_lez_units_per_lot (of_price off)) :: u128)"
  define den where "den = (ucast (lp_foreign_units_per_lot (of_price off)) :: u128)"
  have num: "unat num = unat v * unat (lp_lez_units_per_lot (of_price off))"
    by (simp only: num_def unat_mult_u64)
  have den: "unat den = unat (lp_foreign_units_per_lot (of_price off))"
    by (simp only: den_def unat_ucast_u128)
  with assms have "den \<noteq> 0" by (auto simp: unat_eq_0)
  then show ?thesis
    unfolding quote_foreign_amount_def checked_mul_u64_fits option.case Let_def
      num_def [symmetric] den_def [symmetric] word_div_of_nat [of num] word_mod_zero [of num] num den
    by (simp only: dvd_eq_mod_eq_0 if_False if_distrib [of Some])
qed

section \<open>Identifiers and integers\<close>

lemma pair_name_inject [simp]: "pair_name a = pair_name b \<longleftrightarrow> a = b"
  by (cases a; cases b) simp_all

lemma direction_name_inject [simp]: "direction_name a = direction_name b \<longleftrightarrow> a = b"
  by (cases a; cases b) simp_all

lemma route_columns_inject [simp]: "route_columns a = route_columns b \<longleftrightarrow> a = (b :: maker_route)"
  by (cases a; cases b) (simp add: route_columns_def)

lemma offer_id_str_inject [simp]: "offer_id_str a = offer_id_str b \<longleftrightarrow> a = b"
  by (cases a; cases b) simp

lemma RequestId_str [simp]: "RequestId (request_id_str i) = i"
  by (cases i) simp

lemma route_columns_check_Ok:
  "route_validate r = Ok () \<Longrightarrow>
   route_columns_check (pair_name (rt_pair r)) (direction_name (rt_direction r))"
  by (cases "rt_pair r"; cases "rt_direction r")
    (simp_all add: route_validate_def route_columns_check_def)

lemma u64_of_sql: "to_u64 err x = Ok v \<longleftrightarrow> x = uint (v :: u64)"
proof
  assume "to_u64 err x = Ok v"
  then have "0 \<le> x" "x < 2 ^ 64" "v = word_of_int x" by (auto simp: to_u64_def split: if_splits)
  then show "x = uint v" by (simp add: uint_word_of_int take_bit_int_eq_self)
qed simp

lemma sql_to_u64_Ok: "sql_to_u64 x = Ok v \<longleftrightarrow> x = uint v \<and> v \<noteq> 0"
  by (auto simp: sql_to_u64_def and_then_Inr u64_of_sql split: if_splits)

lemma revision_from_sql_Ok: "revision_from_sql x = Ok v \<longleftrightarrow> x = uint v \<and> v \<noteq> 0"
  by (auto simp: revision_from_sql_def and_then_Inr u64_of_sql split: if_splits)

lemma u64_to_sql_Ok: "u64_to_sql v = Ok x \<longleftrightarrow> v \<le> i64_max \<and> x = uint v"
  by (simp add: u64_to_sql_def to_i64_Ok)

lemma application_revision_to_sql_Ok: "application_revision_to_sql v = Ok x \<longleftrightarrow> v \<le> i64_max \<and> x = uint v"
  by (simp add: application_revision_to_sql_def to_i64_Ok)

lemma uint_pos [simp]: "0 < uint (v :: u64) \<longleftrightarrow> v \<noteq> 0"
  by (metis less_le uint_0_iff uint_nonnegative)

lemmas sql_Ok = sql_to_u64_Ok revision_from_sql_Ok u64_to_sql_Ok application_revision_to_sql_Ok

section \<open>Validated values\<close>

lemma pair_configuration_new_self:
  "pair_configuration_new (pc_route c) (pc_enabled c) (pc_price_source c)
     (pc_minimum_foreign_units c) (pc_maximum_foreign_units c) (pc_offer_ttl_seconds c)
   = and_then (pair_configuration_validate c) (\<lambda>_. Ok c)"
  by (cases c) (simp add: pair_configuration_new_def Let_def)

lemma local_price_new_self:
  "local_price_new (lp_route p) (lp_lez_units_per_lot p) (lp_foreign_units_per_lot p)
   = and_then (local_price_validate p) (\<lambda>_. Ok p)"
  by (cases p) (simp add: local_price_new_def Let_def)

lemma offer_id_new_valid: "maker_offer_id_new (offer_id_str i) = (if offer_id_valid i
    then Ok i else Err InvalidOfferIdentifier)"
  by (cases i) (simp add: offer_id_valid_def maker_offer_id_new_def)

lemma offer_validate_Ok:
  "offer_validate off = Ok () \<longleftrightarrow>
     offer_id_valid (of_id off) \<and>
     pair_configuration_validate (of_pair_configuration off) = Ok () \<and>
     pc_enabled (of_pair_configuration off) \<and>
     lp_route (of_price off) = offer_route off \<and>
     of_pair_configuration_revision off \<noteq> 0 \<and> of_price_source_revision off \<noteq> 0 \<and>
     valid_observation_time off \<and>
     of_created_at off < of_expires_at off \<and> of_expires_at off \<le> i64_max \<and>
     of_expires_at off - of_created_at off = pc_offer_ttl_seconds (of_pair_configuration off) \<and>
     local_price_validate (of_price off) = Ok ()"
  unfolding offer_validate_def Let_def pair_configuration_new_self local_price_new_self
    offer_id_new_valid
  by (auto simp: and_then_Inr map_err_Inr split: if_splits)

lemma local_price_validate_Ok:
  "local_price_validate p = Ok () \<longleftrightarrow>
     route_validate (lp_route p) = Ok () \<and>
     lp_lez_units_per_lot p \<noteq> 0 \<and> lp_foreign_units_per_lot p \<noteq> 0 \<and>
     lp_lez_units_per_lot p \<le> i64_max \<and> lp_foreign_units_per_lot p \<le> i64_max \<and>
     coprime (unat (lp_lez_units_per_lot p)) (unat (lp_foreign_units_per_lot p))"
proof -
  have "greatest_common_divisor a b = 1 \<longleftrightarrow> coprime (unat a) (unat b)" for a b
    by (simp add: word_unat_eq_iff greatest_common_divisor_gcd coprime_iff_gcd_eq_1)
  then show ?thesis
    by (auto simp: local_price_validate_def and_then_Inr)
qed

lemma pair_configuration_validate_Ok:
  "pair_configuration_validate c = Ok () \<longleftrightarrow>
     route_validate (pc_route c) = Ok () \<and> pc_minimum_foreign_units c \<noteq> 0 \<and>
     pc_minimum_foreign_units c \<le> pc_maximum_foreign_units c \<and>
     1 \<le> pc_offer_ttl_seconds c \<and> pc_offer_ttl_seconds c \<le> maximum_offer_ttl_seconds"
  by (auto simp: pair_configuration_validate_def and_then_Inr)

lemma offer_expiry_Ok:
  "offer_expiry now policy = Ok v \<longleftrightarrow>
     unat v = unat now + unat (pc_offer_ttl_seconds policy) \<and> v \<le> i64_max"
proof
  assume "offer_expiry now policy = Ok v"
  then show "unat v = unat now + unat (pc_offer_ttl_seconds policy) \<and> v \<le> i64_max"
    by (auto simp: offer_expiry_def unat_checked_add split: option.splits if_splits)
next
  assume a: "unat v = unat now + unat (pc_offer_ttl_seconds policy) \<and> v \<le> i64_max"
  have "unat v < 2 ^ LENGTH(64)" by (rule unsigned_less)
  with a have add: "checked_add now (pc_offer_ttl_seconds policy) =
      Some (now + pc_offer_ttl_seconds policy)"
    by (simp only: checked_add_def if_True)
  with a have "now + pc_offer_ttl_seconds policy = v"
    by (simp only: word_unat_eq_iff unat_checked_add [OF add])
  with add a show "offer_expiry now policy = Ok v"
    by (simp only: offer_expiry_def option.case if_True)
qed

section \<open>Rows\<close>

lemma decode_pair_record_Ok:
  "decode_pair_record J row = Ok v \<longleftrightarrow>
     rr_payload_version row = 1 \<and> rd_pair J (rr_payload_json row) = Some (vr_value v) \<and>
     pair_configuration_validate (vr_value v) = Ok () \<and>
     route_key row = route_columns (pc_route (vr_value v)) \<and>
     rr_revision row = uint (vr_revision v) \<and> vr_revision v \<noteq> 0"
  by (cases v)
    (auto simp: decode_pair_record_def check_payload_version_def application_payload_version_def
       validate_route_columns_def and_then_Inr map_err_Inr ok_or_Inr sql_Ok route_key_def
       route_columns_def)

lemma decode_price_record_Ok:
  "decode_price_record J row = Ok v \<longleftrightarrow>
     rr_payload_version row = 1 \<and> rd_price J (rr_payload_json row) = Some (vr_value v) \<and>
     local_price_validate (vr_value v) = Ok () \<and>
     route_key row = route_columns (lp_route (vr_value v)) \<and>
     rr_revision row = uint (vr_revision v) \<and> vr_revision v \<noteq> 0"
  by (cases v)
    (auto simp: decode_price_record_def check_payload_version_def application_payload_version_def
       validate_route_columns_def and_then_Inr map_err_Inr ok_or_Inr sql_Ok route_key_def
       route_columns_def)

definition request_valid :: "request_id \<Rightarrow> bool" where
  "request_valid i \<longleftrightarrow> safe_identifier (request_id_str i)"

definition swap_id_valid :: "string \<Rightarrow> bool" where
  "swap_id_valid s \<longleftrightarrow> s \<noteq> [] \<and> length s \<le> 128"

lemma decode_reservation_Ok:
  "decode_reservation column = Ok r \<longleftrightarrow>
     column = map_option request_id_str r \<and> (\<forall>i. r = Some i \<longrightarrow> request_valid i)"
proof (cases column)
  case (Some s)
  then show ?thesis
    by (cases r rule: option.exhaust [case_names None Some])
      (auto simp: decode_reservation_def request_id_new_def request_valid_def and_then_Inr
         map_err_Inr split: if_splits elim!: request_id_str.elims)
qed (auto simp: decode_reservation_def)

lemma decode_swap_id_Ok:
  "decode_swap_id column = Ok s \<longleftrightarrow> s = column \<and> (\<forall>i. s = Some i \<longrightarrow> swap_id_valid i)"
  by (cases column)
    (auto simp: decode_swap_id_def swap_id_new_def swap_id_valid_def and_then_Inr map_err_Inr
       split: if_splits)

text \<open>The shape of a stored offer for each state: the state column, and which of the two
  identifiers are present.\<close>

fun status_column :: "maker_offer_status \<Rightarrow> string" where
  "status_column OfferActive = ''active''"
| "status_column OfferExpired = ''expired''"
| "status_column OfferReserved = ''reserved''"
| "status_column OfferConsumed = ''consumed''"
| "status_column OfferWithdrawn = ''withdrawn''"

definition status_shape :: "maker_offer_status \<Rightarrow> request_id option \<Rightarrow> string option \<Rightarrow> bool" where
  "status_shape st res sw \<longleftrightarrow>
     (case st of
        OfferActive \<Rightarrow> res = None \<and> sw = None
      | OfferExpired \<Rightarrow> False
      | OfferReserved \<Rightarrow> res \<noteq> None \<and> sw = None
      | OfferConsumed \<Rightarrow> res \<noteq> None \<and> sw \<noteq> None
      | OfferWithdrawn \<Rightarrow> res = None \<and> sw = None)"

lemma decode_offer_state_True:
  "decode_offer_state state res sw = Ok (st, True) \<longleftrightarrow>
     state = status_column st \<and> status_shape st res sw"
  by (cases st) (auto simp: decode_offer_state_def status_shape_def)

lemma status_column_inject [simp]: "status_column a = status_column b \<longleftrightarrow> a = b"
  by (cases a; cases b) simp_all

lemma decode_offer_Ok:
  "decode_offer_tuple J row 0 = Ok v \<longleftrightarrow>
     or_payload_version row = 1 \<and> rd_offer J (or_payload_json row) = Some (mor_offer v) \<and>
     offer_validate (mor_offer v) = Ok () \<and>
     or_offer_id row = offer_id_str (of_id (mor_offer v)) \<and>
     or_pair row = pair_name (rt_pair (offer_route (mor_offer v))) \<and>
     or_direction row = direction_name (rt_direction (offer_route (mor_offer v))) \<and>
     or_expires_at row = uint (of_expires_at (mor_offer v)) \<and>
     or_reservation_id row = map_option request_id_str (mor_reservation_id v) \<and>
     (\<forall>i. mor_reservation_id v = Some i \<longrightarrow> request_valid i) \<and>
     or_swap_id row = mor_swap_id v \<and> (\<forall>i. mor_swap_id v = Some i \<longrightarrow> swap_id_valid i) \<and>
     or_state row = status_column (mor_status v) \<and>
     status_shape (mor_status v) (mor_reservation_id v) (mor_swap_id v) \<and>
     or_revision row = uint (mor_revision v) \<and> mor_revision v \<noteq> 0"
  (is "?decode = _ \<longleftrightarrow> ?rhs")
proof -
  have pos: "of_expires_at off \<noteq> 0" "\<not> of_expires_at off \<le> 0" if "offer_validate off = Ok ()" for off
    using that by (auto simp: offer_validate_Ok)
  have "?decode = Ok v \<longleftrightarrow> (\<exists>off res sw st rev.
     or_payload_version row = 1 \<and> rd_offer J (or_payload_json row) = Some off \<and>
     offer_validate off = Ok () \<and>
     or_offer_id row = offer_id_str (of_id off) \<and>
     or_pair row = pair_name (rt_pair (offer_route off)) \<and>
     or_direction row = direction_name (rt_direction (offer_route off)) \<and>
     or_expires_at row = uint (of_expires_at off) \<and>
     decode_reservation (or_reservation_id row) = Ok res \<and>
     decode_swap_id (or_swap_id row) = Ok sw \<and>
     decode_offer_state (or_state row) res sw = Ok (st, True) \<and>
     sql_to_u64 (or_revision row) = Ok rev \<and>
     v = \<lparr>mor_revision = rev, mor_status = st, mor_offer = off,
          mor_reservation_id = res, mor_swap_id = sw\<rparr>)"
    (is "_ \<longleftrightarrow> ?parts")
  proof
    show "?decode = Ok v \<Longrightarrow> ?parts"
      by (auto simp: decode_offer_tuple_def offer_check_version_def offer_payload_version_def
          and_then_Inr map_err_Inr ok_or_Inr sql_Ok pos split: if_splits prod.splits)
    show "?parts \<Longrightarrow> ?decode = Ok v"
      by (elim exE conjE) (simp add: decode_offer_tuple_def offer_check_version_def
          offer_payload_version_def sql_to_u64_def pos)
  qed
  also have "\<dots> \<longleftrightarrow> ?rhs"
    unfolding decode_reservation_Ok decode_swap_id_Ok decode_offer_state_True sql_Ok
    by (cases v) auto
  finally show ?thesis .
qed

text \<open>Reading at a later time changes only an active status, to expired.\<close>

lemma decode_offer_at:
  "decode_offer_tuple J row now =
     and_then (decode_offer_tuple J row 0) (\<lambda>v.
       Ok (v\<lparr>mor_status := if mor_status v = OfferActive \<and> now \<ge> of_expires_at (mor_offer v)
                           then OfferExpired else mor_status v\<rparr>))"
proof -
  have pos: "\<not> of_expires_at off \<le> 0" if "offer_validate off = Ok ()" for off
    using that by (auto simp: offer_validate_Ok)
  have unit: "map_err MakerOffer (offer_validate off) = Ok u \<Longrightarrow> \<not> of_expires_at off \<le> 0" for off u
    using pos by (auto simp: map_err_Inr)
  have status: "decode_offer_state s a b = Ok (st, ok) \<Longrightarrow> st \<noteq> OfferExpired" for s a b st ok
    by (auto simp: decode_offer_state_def split: if_splits)
  show ?thesis
    unfolding decode_offer_tuple_def and_then_assoc
    apply (intro and_then_cong refl)
    subgoal premises prems for _ off _ _ _ _ x
      using unit [OF prems(3)] status prems(7)
      by (cases x) (auto simp: and_then_assoc intro!: and_then_cong)
    done
qed

end
