(* ===== verification/Maker_Lifecycle.thy ===== *)
theory Maker_Lifecycle
  imports Maker_Rows
begin

text \<open>
  What a maker offer promises, apart from tables and requests: the phases of one offer and
  the four moves between them. A move out of the open phase closes it for good, so an offer
  has at most one winner. Then the abstraction of the stored rows to phases, the calls of
  the store as events, and the step function whose runs the invariants are about.
\<close>

section \<open>Phases and moves\<close>

datatype offer_phase =
    Unpublished
  | Open maker_offer
  | Held maker_offer request_id
  | Bound maker_offer request_id string
  | Closed maker_offer

inductive offer_move :: "offer_phase \<Rightarrow> offer_phase \<Rightarrow> bool" where
  publish: "offer_validate off = Ok () \<Longrightarrow> offer_move Unpublished (Open off)"
| reserve: "offer_move (Open off) (Held off res)"
| bind: "offer_move (Held off res) (Bound off res swap)"
| withdraw: "offer_move (Open off) (Closed off)"

inductive_simps offer_move_simps [simp]:
  "offer_move Unpublished b"
  "offer_move (Open off) b"
  "offer_move (Held off res) b"
  "offer_move (Bound off res swap) b"
  "offer_move (Closed off) b"

fun phase_terms :: "offer_phase \<Rightarrow> maker_offer option" where
  "phase_terms Unpublished = None"
| "phase_terms (Open off) = Some off"
| "phase_terms (Held off res) = Some off"
| "phase_terms (Bound off res swap) = Some off"
| "phase_terms (Closed off) = Some off"

fun phase_winner :: "offer_phase \<Rightarrow> request_id option" where
  "phase_winner (Held off res) = Some res"
| "phase_winner (Bound off res swap) = Some res"
| "phase_winner _ = None"

fun phase_swap :: "offer_phase \<Rightarrow> string option" where
  "phase_swap (Bound off res swap) = Some swap"
| "phase_swap _ = None"

fun phase_revision :: "offer_phase \<Rightarrow> u64" where
  "phase_revision Unpublished = 0"
| "phase_revision (Open off) = 1"
| "phase_revision (Held off res) = 2"
| "phase_revision (Bound off res swap) = 3"
| "phase_revision (Closed off) = 2"

fun phase_acceptable :: "offer_phase \<Rightarrow> bool" where
  "phase_acceptable Unpublished = True"
| "phase_acceptable (Open off) = True"
| "phase_acceptable _ = False"

text \<open>What no sequence of moves takes back.\<close>

definition phase_le :: "offer_phase \<Rightarrow> offer_phase \<Rightarrow> bool" where
  "phase_le a b \<longleftrightarrow>
     (\<forall>off. phase_terms a = Some off \<longrightarrow> phase_terms b = Some off) \<and>
     (\<forall>res. phase_winner a = Some res \<longrightarrow> phase_winner b = Some res) \<and>
     (\<forall>swap. phase_swap a = Some swap \<longrightarrow> phase_swap b = Some swap) \<and>
     (\<not> phase_acceptable a \<longrightarrow> \<not> phase_acceptable b) \<and>
     phase_revision a \<le> phase_revision b"

lemma phase_le_refl [simp]: "phase_le a a"
  by (simp add: phase_le_def)

lemma phase_le_trans: "phase_le a b \<Longrightarrow> phase_le b c \<Longrightarrow> phase_le a c"
  unfolding phase_le_def by (meson order_trans)

lemma move_le: "offer_move a b \<Longrightarrow> phase_le a b"
  by (cases a) (auto simp: phase_le_def)

section \<open>Abstraction\<close>

fun status_phase :: "maker_offer_record \<Rightarrow> offer_phase" where
  "status_phase v =
     (case (mor_status v, mor_reservation_id v, mor_swap_id v) of
        (OfferActive, _, _) \<Rightarrow> Open (mor_offer v)
      | (OfferReserved, Some res, _) \<Rightarrow> Held (mor_offer v) res
      | (OfferConsumed, Some res, Some swap) \<Rightarrow> Bound (mor_offer v) res swap
      | (OfferWithdrawn, _, _) \<Rightarrow> Closed (mor_offer v)
      | _ \<Rightarrow> Unpublished)"

definition offer_row_phase :: "'j maker_json \<Rightarrow> 'j offer_row \<Rightarrow> offer_phase" where
  "offer_row_phase J row =
     (case decode_offer_tuple J row 0 of Inl _ \<Rightarrow> Unpublished | Inr v \<Rightarrow> status_phase v)"

definition phase_of :: "'j maker_json \<Rightarrow> 'j maker_db \<Rightarrow> maker_offer_id \<Rightarrow> offer_phase" where
  "phase_of J db i =
     (case row_at or_offer_id (db_offers db) (offer_id_str i) of
        None \<Rightarrow> Unpublished | Some row \<Rightarrow> offer_row_phase J row)"

declare status_phase.simps [simp del]

lemma status_phase_shape:
  assumes "status_shape (mor_status v) (mor_reservation_id v) (mor_swap_id v)"
  shows "phase_terms (status_phase v) = Some (mor_offer v)"
    "phase_winner (status_phase v) = mor_reservation_id v"
    "phase_swap (status_phase v) = mor_swap_id v"
    "phase_acceptable (status_phase v) \<longleftrightarrow> mor_status v = OfferActive"
  using assms
  by (cases "mor_status v"; auto simp: status_phase.simps status_shape_def)+

section \<open>Calls and steps\<close>

datatype maker_event =
    ConfigurePair tx_io request_id "u64 option" maker_pair_configuration
  | SetLocalPrice tx_io request_id "u64 option" local_price
  | SaveLocalRoute tx_io request_id "u64 option" "u64 option" maker_pair_configuration local_price
  | PublishLocal tx_io request_id maker_offer_id maker_route "(u64 \<times> u64) option" u64
  | PublishLogos tx_io request_id maker_offer_id maker_route u64 local_price bytes u64 u64 u64 u64
  | ReserveOffer tx_io request_id maker_offer_id u64 request_id u64
  | StageZec tx_io request_id maker_offer_id u64 maker_zec_negotiation
  | ConsumeOffer bool tx_io request_id maker_offer_id u64 request_id swap_coordinator
  | WithdrawOffer tx_io request_id maker_offer_id u64

text \<open>The values the Rust types of the arguments admit: identifiers went through their
  constructors, and arrays have their length.\<close>

definition zec_typed :: "maker_zec_negotiation \<Rightarrow> bool" where
  "zec_typed n \<longleftrightarrow> request_valid (zn_reservation_id n) \<and>
     length (zn_offer_commitment n) = 32 \<and> length (zn_agreement_commitment n) = 32 \<and>
     length (zn_maker_chat_identity n) = 33 \<and> length (zn_taker_chat_identity n) = 33"

fun event_typed :: "maker_event \<Rightarrow> bool" where
  "event_typed (ConfigurePair io rid expected c) \<longleftrightarrow> request_valid rid"
| "event_typed (SetLocalPrice io rid expected p) \<longleftrightarrow> request_valid rid"
| "event_typed (SaveLocalRoute io rid expected_pair expected_price c p) \<longleftrightarrow> request_valid rid"
| "event_typed (PublishLocal io rid i r expected now) \<longleftrightarrow> request_valid rid \<and> offer_id_valid i"
| "event_typed (PublishLogos io rid i r expected p identity source observed now age) \<longleftrightarrow>
     request_valid rid \<and> offer_id_valid i \<and> length identity = 32"
| "event_typed (ReserveOffer io rid i expected res now) \<longleftrightarrow>
     request_valid rid \<and> offer_id_valid i \<and> request_valid res"
| "event_typed (StageZec io rid i expected n) \<longleftrightarrow>
     request_valid rid \<and> offer_id_valid i \<and> zec_typed n"
| "event_typed (ConsumeOffer query io rid i expected res swap) \<longleftrightarrow>
     request_valid rid \<and> offer_id_valid i \<and> request_valid res \<and>
     swap_id_valid (swap_id_str (sc_id swap))"
| "event_typed (WithdrawOffer io rid i expected) \<longleftrightarrow> request_valid rid \<and> offer_id_valid i"

text \<open>The answer of a call on an offer, and the store after a call.\<close>

fun offer_call ::
    "'j maker_json \<Rightarrow> (bytes \<Rightarrow> bytes) \<Rightarrow> maker_event
     \<Rightarrow> 'j maker_db \<Rightarrow> maker_offer_commit maker_result \<times> 'j maker_db" where
  "offer_call J sha256 (PublishLocal io rid i r expected now) =
     publish_local_offer_inner J io rid i r expected now"
| "offer_call J sha256 (PublishLogos io rid i r expected p identity source observed now age) =
     publish_logos_offer J io rid i r expected p identity source observed now age"
| "offer_call J sha256 (ReserveOffer io rid i expected res now) =
     reserve_maker_offer J io rid i expected res now"
| "offer_call J sha256 (StageZec io rid i expected n) =
     stage_zec_maker_negotiation J sha256 io rid i expected n"
| "offer_call J sha256 (ConsumeOffer query io rid i expected res swap) =
     consume_maker_offer J query io rid i expected res swap"
| "offer_call J sha256 (WithdrawOffer io rid i expected) =
     withdraw_maker_offer J io rid i expected"
| "offer_call J sha256 _ = (\<lambda>db. (Err MakerOfferUnavailable, db))"

fun maker_call ::
    "'j maker_json \<Rightarrow> (bytes \<Rightarrow> bytes) \<Rightarrow> maker_event \<Rightarrow> 'j maker_db \<Rightarrow> 'j maker_db" where
  "maker_call J sha256 (ConfigurePair io rid expected c) db =
     snd (configure_maker_pair J io rid expected c db)"
| "maker_call J sha256 (SetLocalPrice io rid expected p) db =
     snd (set_local_price J io rid expected p db)"
| "maker_call J sha256 (SaveLocalRoute io rid expected_pair expected_price c p) db =
     snd (save_local_maker_route J io rid expected_pair expected_price c p db)"
| "maker_call J sha256 e db = snd (offer_call J sha256 e db)"

definition maker_step ::
    "'j maker_json \<Rightarrow> (bytes \<Rightarrow> bytes) \<Rightarrow> 'j maker_db \<Rightarrow> maker_event \<Rightarrow> 'j maker_db" where
  "maker_step J sha256 db e = (if event_typed e then maker_call J sha256 e db else db)"

text \<open>The events that accept an offer, and a commit that is not a replay.\<close>

fun accepts_offer :: "maker_offer_id \<Rightarrow> maker_event \<Rightarrow> bool" where
  "accepts_offer j (ReserveOffer io rid i expected res now) \<longleftrightarrow> i = j"
| "accepts_offer j (StageZec io rid i expected n) \<longleftrightarrow> i = j"
| "accepts_offer j _ \<longleftrightarrow> False"

definition fresh_commit :: "maker_offer_commit maker_result \<Rightarrow> bool" where
  "fresh_commit r = (case r of Inl _ \<Rightarrow> False | Inr c \<Rightarrow> \<not> moc_was_replay c)"

definition offer_accepted ::
    "'j maker_json \<Rightarrow> (bytes \<Rightarrow> bytes) \<Rightarrow> maker_offer_id \<Rightarrow> 'j maker_db \<Rightarrow> maker_event \<Rightarrow> bool" where
  "offer_accepted J sha256 i db e \<longleftrightarrow>
     event_typed e \<and> accepts_offer i e \<and> fresh_commit (fst (offer_call J sha256 e db))"

end
