(* ===== verification/Maker_Invariant.thy ===== *)
theory Maker_Invariant
  imports Maker_Lifecycle
begin

text \<open>
  The invariant of the maker store and its proof: every row decodes, keys are unique, an
  offer's revision is the one of its phase, a staged negotiation belongs to the winner of
  its offer and repeats the offer's quote, and no two offers are bound to one swap. Each
  operation is first reduced to the two things it can do, replay an earlier commit or
  make one explicit change.
\<close>

section \<open>The invariant\<close>

definition mutation_row_ok :: "'j maker_json \<Rightarrow> 'j mutation_row \<Rightarrow> bool" where
  "mutation_row_ok J row =
     (if mu_operation row = ''local_route_save''
      then (case rd_route_commit J (mu_result_json row) of
              None \<Rightarrow> False | Some (v, a, b) \<Rightarrow> v = 1 \<and> a \<noteq> 0 \<and> b \<noteq> 0)
      else (case rd_commit J (mu_result_json row) of
              None \<Rightarrow> False | Some (v, n) \<Rightarrow> v = 1 \<and> n \<noteq> 0))"

definition offer_row_ok :: "'j maker_json \<Rightarrow> 'j offer_row \<Rightarrow> bool" where
  "offer_row_ok J row =
     (case decode_offer_tuple J row 0 of
        Inl _ \<Rightarrow> False | Inr v \<Rightarrow> mor_revision v = phase_revision (status_phase v))"

definition head_row_ok :: "head_row \<Rightarrow> bool" where
  "head_row_ok r \<longleftrightarrow> is_ok (sql_to_u64 (ph_source_revision r)) \<and>
     is_ok (sql_to_u64 (ph_observed_at r)) \<and> is_ok (sql_to_u64 (ph_lez_units_per_lot r)) \<and>
     is_ok (sql_to_u64 (ph_foreign_units_per_lot r))"

definition zec_row_ok ::
    "(string \<Rightarrow> offer_phase) \<Rightarrow> zec_negotiation_row \<Rightarrow> bool" where
  "zec_row_ok phase row =
     (case decode_zec_negotiation_row row of
        Inl _ \<Rightarrow> False
      | Inr n \<Rightarrow>
          phase_winner (phase (zr_offer_id row)) = Some (zn_reservation_id n) \<and>
          (case phase_terms (phase (zr_offer_id row)) of
             None \<Rightarrow> False
           | Some off \<Rightarrow> quote_foreign_amount off (zn_foreign_units n) = Some (Ok (zn_lez_units n))))"

definition routes_ok :: "('j route_row \<Rightarrow> 'v maker_result) \<Rightarrow> 'j route_row list \<Rightarrow> bool" where
  "routes_ok decode t \<longleftrightarrow> distinct (map route_key t) \<and> list_all (\<lambda>row. is_ok (decode row)) t"

definition mutations_ok :: "'j maker_json \<Rightarrow> 'j mutation_row list \<Rightarrow> bool" where
  "mutations_ok J t \<longleftrightarrow> distinct (map mu_request_id t) \<and> list_all (mutation_row_ok J) t"

definition offers_ok :: "'j maker_json \<Rightarrow> 'j offer_row list \<Rightarrow> bool" where
  "offers_ok J t \<longleftrightarrow> distinct (map or_offer_id t) \<and> list_all (offer_row_ok J) t"

definition heads_ok :: "head_row list \<Rightarrow> bool" where
  "heads_ok t \<longleftrightarrow> distinct (map head_key t) \<and> list_all head_row_ok t"

definition zec_ok :: "'j maker_json \<Rightarrow> 'j maker_db \<Rightarrow> bool" where
  "zec_ok J db \<longleftrightarrow> distinct (map zr_offer_id (db_zec db)) \<and>
     list_all (zec_row_ok (\<lambda>s. phase_of J db (MakerOfferId s))) (db_zec db)"

definition swaps_ok :: "'j maker_db \<Rightarrow> bool" where
  "swaps_ok db \<longleftrightarrow>
     (\<forall>row \<in> set (db_offers db). \<forall>s. or_swap_id row = Some s \<longrightarrow> s \<in> sw_id ` set (db_swaps db)) \<and>
     (\<forall>a \<in> set (db_offers db). \<forall>b \<in> set (db_offers db).
        or_swap_id a \<noteq> None \<longrightarrow> or_swap_id a = or_swap_id b \<longrightarrow> or_offer_id a = or_offer_id b)"

definition db_ok :: "'j maker_json \<Rightarrow> 'j maker_db \<Rightarrow> bool" where
  "db_ok J db \<longleftrightarrow>
     routes_ok (decode_pair_record J) (db_pairs db) \<and>
     routes_ok (decode_price_record J) (db_prices db) \<and>
     mutations_ok J (db_mutations db) \<and> offers_ok J (db_offers db) \<and>
     heads_ok (db_heads db) \<and> zec_ok J db \<and> swaps_ok db"

lemmas table_ok_defs = routes_ok_def mutations_ok_def offers_ok_def heads_ok_def

lemma empty_db_ok: "db_ok J empty_db"
  by (simp add: db_ok_def table_ok_defs zec_ok_def swaps_ok_def empty_db_def)

section \<open>Statements\<close>

lemma table_insert_Ok:
  "table_insert e checks clash r t = Ok t' \<longleftrightarrow> checks r \<and> \<not> list_ex (clash r) t \<and> t' = t @ [r]"
  by (auto simp: table_insert_def)

lemma insert_mutation_Ok:
  "insert_mutation row db = Ok db' \<longleftrightarrow>
     mutation_check row \<and> mu_request_id row \<notin> mu_request_id ` set (db_mutations db) \<and>
     db' = db\<lparr>db_mutations := db_mutations db @ [row]\<rparr>"
  by (auto simp: insert_mutation_def table_insert_Ok and_then_Inr list_ex_iff)

lemma row_at_overwrite:
  "row_at key (map (\<lambda>x. if key x = key r then r else x) t) k =
     (if k = key r then (if key r \<in> key ` set t then Some r else None) else row_at key t k)"
  by (induction t) (auto simp: row_at_def)

lemma table_upsert_Ok:
  assumes "table_upsert e checks key r t = Ok t'" "distinct (map key t)"
  shows "checks r" "distinct (map key t')" "set t' \<subseteq> insert r (set t)"
    "row_at key t' k = (if k = key r then Some r else row_at key t k)"
proof -
  from assms have checks: "checks r"
    and t': "t' = (if key r \<in> set (map key t)
              then map (\<lambda>x. if key x = key r then r else x) t else t @ [r])"
    by (auto simp: table_upsert_def split: if_splits)
  show "checks r" by (fact checks)
  have keys: "map key (map (\<lambda>x. if key x = key r then r else x) t) = map key t" by simp
  show "distinct (map key t')"
  proof (cases "key r \<in> set (map key t)")
    case True
    with assms(2) show ?thesis by (simp only: t' if_True keys)
  qed (use assms(2) in \<open>simp add: t'\<close>)
  show "set t' \<subseteq> insert r (set t)"
    by (auto simp: t')
  show "row_at key t' k = (if k = key r then Some r else row_at key t k)"
  proof (cases "key r \<in> set (map key t)")
    case True
    then show ?thesis by (simp add: t' row_at_overwrite)
  next
    case False
    then have "row_at key t (key r) = None" by (simp add: row_at_None)
    with False show ?thesis by (simp add: t' row_at_append split: option.split)
  qed
qed

lemma routes_ok_upsert:
  assumes "table_upsert e checks route_key r t = Ok t'" "routes_ok decode t" "is_ok (decode r)"
  shows "routes_ok decode t'"
  using table_upsert_Ok [OF assms(1)] assms(2,3)
  by (auto simp: routes_ok_def list_all_iff subset_iff)

lemma mutations_ok_insert:
  "insert_mutation row db = Ok db' \<Longrightarrow> mutations_ok J (db_mutations db) \<Longrightarrow> mutation_row_ok J row
   \<Longrightarrow> mutations_ok J (db_mutations db')"
  by (auto simp: insert_mutation_Ok mutations_ok_def)

lemma phase_of_cong: "db_offers db' = db_offers db \<Longrightarrow> phase_of J db' = phase_of J db"
  by (simp add: phase_of_def fun_eq_iff)

lemma zec_ok_cong:
  "db_offers db' = db_offers db \<Longrightarrow> db_zec db' = db_zec db \<Longrightarrow> zec_ok J db' = zec_ok J db"
  by (simp add: zec_ok_def phase_of_def)

lemma swaps_ok_cong:
  "db_offers db' = db_offers db \<Longrightarrow> db_swaps db' = db_swaps db \<Longrightarrow> swaps_ok db' = swaps_ok db"
  by (simp add: swaps_ok_def)

section \<open>Phases under changes of the offer table\<close>

lemma offer_row_okD:
  assumes "offers_ok J t" "row_at or_offer_id t k = Some row"
  obtains v where "decode_offer_tuple J row 0 = Ok v" "mor_revision v = phase_revision (status_phase v)"
    "offer_row_phase J row = status_phase v" "or_offer_id row = k"
proof -
  from assms have "offer_row_ok J row" "or_offer_id row = k"
    by (auto simp: offers_ok_def list_all_iff dest: row_at_Some)
  with that show thesis
    by (auto simp: offer_row_ok_def offer_row_phase_def split: sum.splits)
qed

lemma offer_id_of_str: "MakerOfferId (offer_id_str i) = i"
  by (cases i) simp

lemma zec_ok_le:
  assumes "zec_ok J db" "db_zec db' = db_zec db" "\<And>i. phase_le (phase_of J db i) (phase_of J db' i)"
  shows "zec_ok J db'"
proof -
  have "zec_row_ok (\<lambda>s. phase_of J db' (MakerOfferId s)) row"
    if "zec_row_ok (\<lambda>s. phase_of J db (MakerOfferId s)) row" for row
    using that assms(3) [of "MakerOfferId (zr_offer_id row)"]
    by (auto simp: zec_row_ok_def phase_le_def split: sum.splits option.splits)
  with assms(1,2) show ?thesis
    by (auto simp: zec_ok_def list_all_iff)
qed

section \<open>What each call can do\<close>

definition mutation_of ::
    "'j maker_json \<Rightarrow> request_id \<Rightarrow> string \<Rightarrow> 'j \<Rightarrow> u64 \<Rightarrow> 'j mutation_row" where
  "mutation_of J rid operation request_json revision =
     \<lparr>mu_request_id = request_id_str rid, mu_operation = operation, mu_request_payload_version = 1,
      mu_request_json = request_json, mu_result_json = js_commit J 1 revision\<rparr>"

lemma mutation_of_ok:
  "json_ok J \<Longrightarrow> revision \<noteq> 0 \<Longrightarrow> operation \<noteq> ''local_route_save'' \<Longrightarrow>
   mutation_row_ok J (mutation_of J rid operation request_json revision)"
  by (simp add: mutation_row_ok_def mutation_of_def json_ok_def)

lemma persist_offer_mutation_eq:
  "persist_offer_mutation J rid operation rj revision =
     insert_mutation (mutation_of J rid operation rj revision)"
  by (simp add: persist_offer_mutation_def mutation_of_def offer_payload_version_def)

lemma persist_configuration_mutation_eq:
  "persist_configuration_mutation J rid operation rj revision =
     insert_mutation (mutation_of J rid operation rj revision)"
  by (simp add: persist_configuration_mutation_def mutation_of_def application_payload_version_def)

lemma replay_offer_None [simp]:
  "replay_offer_mutation J db rid operation rj = Ok None \<longleftrightarrow> mutation_at db rid = None"
  by (auto simp: replay_offer_mutation_def and_then_Inr split: option.splits if_splits prod.splits)

lemma replay_offer_Some:
  "replay_offer_mutation J db rid operation rj = Ok (Some c) \<Longrightarrow>
     moc_was_replay c \<and> mutation_at db rid \<noteq> None"
  by (auto simp: replay_offer_mutation_def and_then_Inr split: option.splits if_splits prod.splits)

lemma replay_configuration_None [simp]:
  "replay_configuration_mutation J db rid operation rj = Ok None \<longleftrightarrow> mutation_at db rid = None"
  by (auto simp: replay_configuration_mutation_def and_then_Inr
      split: option.splits if_splits prod.splits)

lemma replay_local_route_None [simp]:
  "replay_local_route_mutation J db rid rj = Ok None \<longleftrightarrow> mutation_at db rid = None"
  by (auto simp: replay_local_route_mutation_def and_then_Inr
      split: option.splits if_splits prod.splits)

text \<open>The row after a transition, with the revision advanced.\<close>

definition moved_row ::
    "request_id \<Rightarrow> u64 \<Rightarrow> string \<Rightarrow> string option \<Rightarrow> string option \<Rightarrow> 'j offer_row \<Rightarrow> 'j offer_row" where
  "moved_row rid revision state res swap row =
     row\<lparr>or_state := state, or_revision := uint revision, or_reservation_id := res,
         or_swap_id := swap, or_updated_request_id := request_id_str rid\<rparr>"

text \<open>One transition: the row of the offer is replaced and the mutation recorded.\<close>

definition offer_moved ::
    "'j maker_json \<Rightarrow> request_id \<Rightarrow> string \<Rightarrow> 'j \<Rightarrow> 'j offer_row \<Rightarrow> u64 \<Rightarrow> string \<Rightarrow> string option
     \<Rightarrow> string option \<Rightarrow> 'j maker_db \<Rightarrow> 'j maker_db" where
  "offer_moved J rid operation rj row revision state res swap db =
     db\<lparr>db_offers := replace_row row (moved_row rid revision state res swap row) (db_offers db),
        db_mutations := db_mutations db @ [mutation_of J rid operation rj revision]\<rparr>"

lemma update_offer_one:
  assumes "update_offer P f db = Ok (n, db')" "n = 1" "distinct (map or_offer_id (db_offers db))"
    "\<And>row. P row \<Longrightarrow> or_offer_id row = k"
  obtains row where "row_at or_offer_id (db_offers db) k = Some row" "P row"
    "offer_row_check (f row)" "\<forall>s. or_swap_id (f row) = Some s \<longrightarrow> s \<in> sw_id ` set (db_swaps db)"
    "db' = db\<lparr>db_offers := replace_row row (f row) (db_offers db)\<rparr>"
proof -
  from assms(1,2) obtain t where t: "db' = db\<lparr>db_offers := t\<rparr>"
    and upd: "table_update MakerSqlite (\<lambda>row. offer_row_check row \<and>
          (case or_swap_id row of None \<Rightarrow> True | Some s \<Rightarrow> s \<in> set (map sw_id (db_swaps db))))
       P f (db_offers db) = Ok (1, t)"
    by (auto simp: update_offer_def and_then_Inr)
  from table_update_one [OF assms(3,4) upd refl] obtain row where
    "row_at or_offer_id (db_offers db) k = Some row" "P row"
    "offer_row_check (f row) \<and> (case or_swap_id (f row) of None \<Rightarrow> True
        | Some s \<Rightarrow> s \<in> set (map sw_id (db_swaps db)))"
    "t = replace_row row (f row) (db_offers db)"
    by blast
  with t that show thesis by (auto split: option.splits)
qed

lemma transition_cases:
  assumes "transition_offer_tx J rid operation rj i expected swap transition db = Ok (c, db')"
    and dist: "distinct (map or_offer_id (db_offers db))"
  obtains (replay) "moc_was_replay c" "db' = db" "mutation_at db rid \<noteq> None"
  | (fresh) row v state res sw db1 where
    "mutation_at db rid = None"
    "row_at or_offer_id (db_offers db) (offer_id_str i) = Some row"
    "decode_offer_tuple J row 0 = Ok v" "mor_revision v = expected"
    "transition v = Ok (state, res, sw)"
    "(case swap of None \<Rightarrow> Ok db | Some s \<Rightarrow> insert_swap J s db) = Ok db1"
    "checked_add expected 1 = Some (expected + 1)" "expected + 1 \<le> i64_max"
    "offer_row_check (moved_row rid (expected + 1) state res sw row)"
    "\<forall>s. sw = Some s \<longrightarrow> s \<in> sw_id ` set (db_swaps db1)"
    "db' = offer_moved J rid operation rj row (expected + 1) state res sw db1"
    "c = \<lparr>moc_revision = expected + 1, moc_was_replay = False\<rparr>"
proof -
  obtain r where r: "replay_offer_mutation J db rid operation rj = Ok r"
    using assms(1) by (auto simp: transition_offer_tx_def and_then_Inr)
  show thesis
  proof (cases r)
    case (Some c0)
    with r assms(1) have "c = c0 \<and> db' = db" by (simp add: transition_offer_tx_def)
    with replay_offer_Some [OF r [unfolded Some]] replay show thesis by simp
  next
    case None
    with r have none: "mutation_at db rid = None" by simp
    from assms(1) r None obtain v where load: "load_offer J db i 0 = Ok (Some v)"
      by (auto simp: transition_offer_tx_def and_then_Inr ok_or_Inr)
    then obtain row where row: "row_at or_offer_id (db_offers db) (offer_id_str i) = Some row"
      and decode: "decode_offer_tuple J row 0 = Ok v"
      by (auto simp: load_offer_def and_then_Inr split: option.splits)
    let ?upd = "\<lambda>state res sw revision db1. update_offer
       (\<lambda>row. or_offer_id row = offer_id_str i \<and> or_revision row = uint expected)
       (moved_row rid revision state res sw) db1"
    from assms(1) r None load obtain state res sw db1 revision db2 where
      p: "mor_revision v = expected" "transition v = Ok (state, res, sw)"
      "(case swap of None \<Rightarrow> Ok db | Some s \<Rightarrow> insert_swap J s db) = Ok db1"
      "checked_add expected 1 = Some revision" "revision \<le> i64_max"
      and upd: "?upd state res sw revision db1 = Ok (1, db2)"
      and ins: "insert_mutation (mutation_of J rid operation rj revision) db2 = Ok db'"
      and c: "c = \<lparr>moc_revision = revision, moc_was_replay = False\<rparr>"
      unfolding persist_offer_mutation_eq [symmetric]
      by (auto simp: transition_offer_tx_def and_then_Inr ok_or_Inr u64_to_sql_Ok moved_row_def [abs_def]
          split: if_splits prod.splits)
    from p(4) have revision: "revision = expected + 1" by (simp add: checked_add_Some)
    have same: "db_offers db1 = db_offers db" "db_mutations db1 = db_mutations db"
      using p(3) by (auto simp: insert_swap_def and_then_Inr split: option.splits)
    from update_offer_one [OF upd refl] dist same obtain row' where
      row': "row_at or_offer_id (db_offers db1) (offer_id_str i) = Some row'"
      "offer_row_check (moved_row rid revision state res sw row')"
      "\<forall>s. or_swap_id (moved_row rid revision state res sw row') = Some s \<longrightarrow>
          s \<in> sw_id ` set (db_swaps db1)"
      "db2 = db1\<lparr>db_offers := replace_row row' (moved_row rid revision state res sw row')
          (db_offers db1)\<rparr>"
      by metis
    with row same have "row' = row" by simp
    with row' ins same have "db' = offer_moved J rid operation rj row revision state res sw db1"
      by (simp add: insert_mutation_Ok offer_moved_def)
    with p c row' revision \<open>row' = row\<close> none row decode show thesis
      by (intro fresh) (auto simp: moved_row_def)
  qed
qed

section \<open>Transitions keep the invariant\<close>

lemma move_revision: "offer_move a b \<Longrightarrow> phase_revision b = phase_revision a + 1"
  by (cases a) auto

lemma checked_add_nonzero: "checked_add a 1 = Some b \<Longrightarrow> b \<noteq> (0 :: u64)"
proof
  assume "checked_add a 1 = Some b" "b = 0"
  from unat_checked_add [OF this(1)] this(2) show False by simp
qed

lemma moved_row_decode:
  assumes "decode_offer_tuple J row 0 = Ok v" "status_shape st r sw" "revision \<noteq> 0"
    "\<And>i. r = Some i \<Longrightarrow> request_valid i" "\<And>i. sw = Some i \<Longrightarrow> swap_id_valid i"
  shows "decode_offer_tuple J
      (moved_row rid revision (status_column st) (map_option request_id_str r) sw row) 0 =
    Ok (v\<lparr>mor_revision := revision, mor_status := st, mor_reservation_id := r, mor_swap_id := sw\<rparr>)"
  using assms by (simp add: decode_offer_Ok moved_row_def)

lemma offers_ok_replace:
  "offers_ok J t \<Longrightarrow> or_offer_id row' = or_offer_id row \<Longrightarrow> offer_row_ok J row' \<Longrightarrow>
   offers_ok J (replace_row row row' t)"
  by (simp add: offers_ok_def map_key_replace list_all_replace)

lemma phase_of_replace:
  assumes "distinct (map or_offer_id (db_offers db))"
    "row_at or_offer_id (db_offers db) (offer_id_str i) = Some row" "or_offer_id row' = or_offer_id row"
    "db_offers db' = replace_row row row' (db_offers db)"
  shows "phase_of J db' j = (if j = i then offer_row_phase J row' else phase_of J db j)"
  using row_at_Some [OF assms(2)] row_at_replace [OF assms(1) _ assms(3), of "offer_id_str j"] assms(4)
  by (simp add: phase_of_def)

lemma swaps_okI:
  assumes "\<And>x s. x \<in> set (db_offers db) \<Longrightarrow> or_swap_id x = Some s \<Longrightarrow> s \<in> sw_id ` set (db_swaps db)"
    "\<And>a b s. a \<in> set (db_offers db) \<Longrightarrow> b \<in> set (db_offers db) \<Longrightarrow>
       or_swap_id a = Some s \<Longrightarrow> or_swap_id b = Some s \<Longrightarrow> or_offer_id a = or_offer_id b"
  shows "swaps_ok db"
  unfolding swaps_ok_def
proof (intro conjI ballI allI impI)
  show "s \<in> sw_id ` set (db_swaps db)" if "x \<in> set (db_offers db)" "or_swap_id x = Some s" for x s
    using assms(1) that .
  show "or_offer_id a = or_offer_id b"
    if "a \<in> set (db_offers db)" "b \<in> set (db_offers db)" "or_swap_id a \<noteq> None"
      "or_swap_id a = or_swap_id b" for a b
    using assms(2) [OF that(1,2)] that(3,4) by (metis not_Some_eq)
qed

lemma swaps_okD:
  assumes "swaps_ok db"
  shows "x \<in> set (db_offers db) \<Longrightarrow> or_swap_id x = Some s \<Longrightarrow> s \<in> sw_id ` set (db_swaps db)"
    "a \<in> set (db_offers db) \<Longrightarrow> b \<in> set (db_offers db) \<Longrightarrow>
       or_swap_id a = Some s \<Longrightarrow> or_swap_id b = Some s \<Longrightarrow> or_offer_id a = or_offer_id b"
  using assms unfolding swaps_ok_def by (blast, metis option.distinct(1))

lemma swaps_ok_replace:
  assumes "swaps_ok db" "set (db_swaps db) \<subseteq> set swaps" "row \<in> set (db_offers db)"
    "or_offer_id row' = or_offer_id row"
    "\<And>s. or_swap_id row' = Some s \<Longrightarrow> s \<notin> sw_id ` set (db_swaps db) \<and> s \<in> sw_id ` set swaps"
    "db_offers db' = replace_row row row' (db_offers db)" "db_swaps db' = swaps"
  shows "swaps_ok db'"
proof (rule swaps_okI)
  have mem: "x = row' \<or> x \<in> set (db_offers db)" if "x \<in> set (db_offers db')" for x
    using that set_replace_row [of row row'] assms(6) by auto
  show "s \<in> sw_id ` set (db_swaps db')" if "x \<in> set (db_offers db')" "or_swap_id x = Some s" for x s
    using mem [OF that(1)] that(2) swaps_okD(1) [OF assms(1)] assms(2,5,7) by blast
  show "or_offer_id a = or_offer_id b"
    if "a \<in> set (db_offers db')" "b \<in> set (db_offers db')" "or_swap_id a = Some s" "or_swap_id b = Some s"
    for a b s
    using mem [OF that(1)] mem [OF that(2)] that(3,4) swaps_okD [OF assms(1)] assms(5) by metis
qed

lemma swaps_ok_append:
  assumes "swaps_ok db" "db_offers db' = db_offers db @ [row]" "db_swaps db' = db_swaps db"
    "or_swap_id row = None"
  shows "swaps_ok db'"
proof (rule swaps_okI)
  have mem: "x \<in> set (db_offers db)" if "x \<in> set (db_offers db')" "or_swap_id x = Some s" for x s
    using that assms(2,4) by (cases "x = row") simp_all
  show "s \<in> sw_id ` set (db_swaps db')" if "x \<in> set (db_offers db')" "or_swap_id x = Some s" for x s
    unfolding assms(3) using swaps_okD(1) [OF assms(1) mem [OF that] that(2)] .
  show "or_offer_id a = or_offer_id b"
    if "a \<in> set (db_offers db')" "b \<in> set (db_offers db')" "or_swap_id a = Some s" "or_swap_id b = Some s"
    for a b s
    using swaps_okD(2) [OF assms(1) mem [OF that(1,3)] mem [OF that(2,4)] that(3,4)] .
qed

text \<open>What a transition closure may do: one move of the abstract offer, binding exactly the
  swap that is inserted.\<close>

definition closure_moves ::
    "swap_coordinator option
     \<Rightarrow> (maker_offer_record \<Rightarrow> (string \<times> string option \<times> string option) maker_result) \<Rightarrow> bool" where
  "closure_moves swap transition \<longleftrightarrow> (\<forall>v state res sw.
     transition v = Ok (state, res, sw) \<longrightarrow>
     status_shape (mor_status v) (mor_reservation_id v) (mor_swap_id v) \<longrightarrow>
     (\<forall>i. mor_reservation_id v = Some i \<longrightarrow> request_valid i) \<longrightarrow>
     (\<exists>st r. state = status_column st \<and> res = map_option request_id_str r \<and>
        status_shape st r sw \<and> (\<forall>i. r = Some i \<longrightarrow> request_valid i) \<and>
        (\<forall>i. sw = Some i \<longrightarrow> swap_id_valid i) \<and>
        sw = map_option (\<lambda>s. swap_id_str (sc_id s)) swap \<and>
        (\<forall>rev. offer_move (status_phase v) (status_phase (v\<lparr>mor_revision := rev, mor_status := st,
           mor_reservation_id := r, mor_swap_id := sw\<rparr>)))))"

lemma closure_movesE:
  assumes "closure_moves swap transition" "transition v = Ok (state, res, sw)"
    "status_shape (mor_status v) (mor_reservation_id v) (mor_swap_id v)"
    "\<forall>i. mor_reservation_id v = Some i \<longrightarrow> request_valid i"
  obtains st r where "state = status_column st" "res = map_option request_id_str r"
    "status_shape st r sw" "\<And>i. r = Some i \<Longrightarrow> request_valid i" "\<And>i. sw = Some i \<Longrightarrow> swap_id_valid i"
    "sw = map_option (\<lambda>s. swap_id_str (sc_id s)) swap"
    "\<And>rev. offer_move (status_phase v) (status_phase (v\<lparr>mor_revision := rev,
        mor_status := st, mor_reservation_id := r, mor_swap_id := sw\<rparr>))"
  using assms(1) [unfolded closure_moves_def, THEN spec, THEN spec, THEN spec, THEN spec, THEN mp,
      OF assms(2), THEN mp, OF assms(3), THEN mp, OF assms(4)]
  by (elim exE) (rule that; blast)

text \<open>A transition that was not a replay: the record it was decided on, and what it set.\<close>

definition transition_done ::
    "'j maker_json \<Rightarrow> request_id \<Rightarrow> maker_offer_id \<Rightarrow> u64
     \<Rightarrow> (maker_offer_record \<Rightarrow> (string \<times> string option \<times> string option) maker_result)
     \<Rightarrow> 'j maker_db \<Rightarrow> 'j maker_db \<Rightarrow> bool" where
  "transition_done J rid i expected transition db db' \<longleftrightarrow>
     mutation_at db rid = None \<and>
     (\<exists>v state res sw. transition v = Ok (state, res, sw) \<and> mor_revision v = expected \<and>
        status_shape (mor_status v) (mor_reservation_id v) (mor_swap_id v) \<and>
        phase_of J db i = status_phase v \<and>
        map_option request_id_str (phase_winner (phase_of J db' i)) = res \<and>
        phase_swap (phase_of J db' i) = sw)"

definition offer_step ::
    "'j maker_json \<Rightarrow> maker_offer_id \<Rightarrow> 'j maker_db \<Rightarrow> maker_offer_commit \<Rightarrow> 'j maker_db \<Rightarrow> bool" where
  "offer_step J i db c db' \<longleftrightarrow>
     (if moc_was_replay c then db' = db
      else offer_move (phase_of J db i) (phase_of J db' i) \<and>
           moc_revision c = phase_revision (phase_of J db' i) \<and>
           (\<forall>j. j \<noteq> i \<longrightarrow> phase_of J db' j = phase_of J db j))"

lemma offer_step_le: "offer_step J i db c db' \<Longrightarrow> phase_le (phase_of J db j) (phase_of J db' j)"
  by (cases "j = i") (auto simp: offer_step_def move_le split: if_splits)

lemma db_okD:
  assumes "db_ok J db"
  shows "offers_ok J (db_offers db)" "mutations_ok J (db_mutations db)" "zec_ok J db" "swaps_ok db"
    "distinct (map or_offer_id (db_offers db))" "heads_ok (db_heads db)"
    "routes_ok (decode_pair_record J) (db_pairs db)" "routes_ok (decode_price_record J) (db_prices db)"
  using assms by (simp_all add: db_ok_def offers_ok_def)

lemma mutation_at_None: "mutation_at db rid = None \<longleftrightarrow>
    request_id_str rid \<notin> mu_request_id ` set (db_mutations db)"
  by (simp add: mutation_at_def row_at_None)

lemma mutations_ok_append:
  assumes "mutations_ok J t" "request_id_str rid \<notin> mu_request_id ` set t" "json_ok J"
    "revision \<noteq> 0" "operation \<noteq> ''local_route_save''"
  shows "mutations_ok J (t @ [mutation_of J rid operation rj revision])"
  using assms mutation_of_ok [of J revision operation rid rj]
  by (auto simp: mutations_ok_def mutation_of_def)

lemma transition_keeps:
  assumes ok: "db_ok J db" and json: "json_ok J"
    and tx: "transition_offer_tx J rid operation rj i expected swap transition db = Ok (c, db')"
    and operation: "operation \<noteq> ''local_route_save''"
    and closure: "closure_moves swap transition"
  shows "db_ok J db' \<and> offer_step J i db c db' \<and>
    (moc_was_replay c \<or> transition_done J rid i expected transition db db')"
  using tx db_okD(5) [OF ok]
proof (cases rule: transition_cases)
  case replay
  with ok show ?thesis by (simp add: offer_step_def)
next
  case (fresh row v state res sw db1)
  let ?row = "moved_row rid (expected + 1) state res sw row"
  from offer_row_okD [OF db_okD(1) [OF ok] fresh(2)] fresh(3)
  have v: "mor_revision v = phase_revision (status_phase v)" "offer_row_phase J row = status_phase v"
    by auto
  from fresh(3) have shape: "status_shape (mor_status v) (mor_reservation_id v) (mor_swap_id v)"
    "\<forall>i. mor_reservation_id v = Some i \<longrightarrow> request_valid i"
    by (simp_all add: decode_offer_Ok)
  from closure fresh(5) shape obtain st r where
    st: "state = status_column st" "res = map_option request_id_str r" "status_shape st r sw"
      "\<And>i. r = Some i \<Longrightarrow> request_valid i" "\<And>i. sw = Some i \<Longrightarrow> swap_id_valid i"
      "sw = map_option (\<lambda>s. swap_id_str (sc_id s)) swap"
    and move: "\<And>rev. offer_move (status_phase v) (status_phase (v\<lparr>mor_revision := rev,
        mor_status := st, mor_reservation_id := r, mor_swap_id := sw\<rparr>))"
    by (rule closure_movesE) blast
  define w where "w = v\<lparr>mor_revision := expected + 1, mor_status := st, mor_reservation_id := r,
    mor_swap_id := sw\<rparr>"
  have nz: "expected + 1 \<noteq> 0" by (rule checked_add_nonzero [OF fresh(7)])
  have w: "decode_offer_tuple J ?row 0 = Ok w"
    unfolding w_def st(1,2) by (rule moved_row_decode [OF fresh(3) st(3) nz st(4,5)])
  have rev: "mor_revision w = phase_revision (status_phase w)"
    using move_revision [OF move [of "expected + 1"]] v(1) fresh(4) by (simp add: w_def)
  have same: "db_offers db1 = db_offers db" "db_mutations db1 = db_mutations db" "db_zec db1 = db_zec db"
    "db_pairs db1 = db_pairs db" "db_prices db1 = db_prices db" "db_heads db1 = db_heads db"
    "set (db_swaps db) \<subseteq> set (db_swaps db1)"
    "\<And>s. sw = Some s \<Longrightarrow> s \<notin> sw_id ` set (db_swaps db)"
    using fresh(6) st(6)
    by (auto simp: insert_swap_def and_then_Inr table_insert_Ok list_ex_iff split: option.splits)
  have fields: "db_offers db' = replace_row row ?row (db_offers db)" "db_zec db' = db_zec db"
    "db_mutations db' = db_mutations db @ [mutation_of J rid operation rj (expected + 1)]"
    "db_pairs db' = db_pairs db" "db_prices db' = db_prices db" "db_heads db' = db_heads db"
    "db_swaps db' = db_swaps db1"
    using fresh(11) same by (simp_all add: offer_moved_def)
  have key: "or_offer_id ?row = or_offer_id row" by (simp add: moved_row_def)
  have phase: "phase_of J db' j = (if j = i then status_phase w else phase_of J db j)" for j
    using phase_of_replace [OF db_okD(5) [OF ok] fresh(2) key fields(1)] w
    by (simp add: offer_row_phase_def)
  have here: "phase_of J db i = status_phase v"
    using fresh(2) v(2) by (simp add: phase_of_def)
  have step: "offer_step J i db c db'"
    using move [of "expected + 1"] rev fresh(12) by (simp add: offer_step_def phase here w_def)
  have wshape: "status_shape (mor_status w) (mor_reservation_id w) (mor_swap_id w)"
    using st(3) by (simp add: w_def)
  have "transition_done J rid i expected transition db db'"
    unfolding transition_done_def
    using fresh(1,4,5) shape(1) here st(2) status_phase_shape(2,3) [OF wshape] phase [of i]
    by (intro conjI exI [of _ v] exI [of _ state] exI [of _ res] exI [of _ sw]) (simp_all add: w_def)
  moreover have "offers_ok J (db_offers db')"
    unfolding fields(1) using rev w key
    by (intro offers_ok_replace [OF db_okD(1) [OF ok]]) (simp_all add: offer_row_ok_def)
  moreover have "mutations_ok J (db_mutations db')"
    unfolding fields(3) using fresh(1) nz json operation
    by (intro mutations_ok_append [OF db_okD(2) [OF ok]]) (simp_all add: mutation_at_None)
  moreover have "zec_ok J db'"
    by (rule zec_ok_le [OF db_okD(3) [OF ok] fields(2) offer_step_le [OF step]])
  moreover have "swaps_ok db'"
    using fresh(10) same(7,8) row_at_Some [OF fresh(2)]
    by (intro swaps_ok_replace [OF db_okD(4) [OF ok] _ _ key _ fields(1,7)])
      (auto simp: moved_row_def)
  ultimately show ?thesis
    using step db_okD [OF ok] by (simp add: db_ok_def fields)
qed

lemma reserve_closure: "request_valid res \<Longrightarrow> closure_moves None (reserve_transition res now)"
  unfolding closure_moves_def reserve_transition_def
  by (auto simp: status_shape_def status_phase.simps split: if_splits
      intro!: exI [of _ OfferReserved] exI [of _ "Some res"])

lemma consume_closure:
  assumes "swap_id_valid (swap_id_str (sc_id swap))"
  shows "closure_moves (Some swap) (consume_transition res swap)"
  unfolding closure_moves_def
proof (intro allI impI)
  fix v state r sw
  assume "consume_transition res swap v = Ok (state, r, sw)"
    and "status_shape (mor_status v) (mor_reservation_id v) (mor_swap_id v)"
    and "\<forall>i. mor_reservation_id v = Some i \<longrightarrow> request_valid i"
  then show "\<exists>st ra. state = status_column st \<and> r = map_option request_id_str ra \<and>
        status_shape st ra sw \<and> (\<forall>i. ra = Some i \<longrightarrow> request_valid i) \<and>
        (\<forall>i. sw = Some i \<longrightarrow> swap_id_valid i) \<and>
        sw = map_option (\<lambda>s. swap_id_str (sc_id s)) (Some swap) \<and>
        (\<forall>rev. offer_move (status_phase v) (status_phase (v\<lparr>mor_revision := rev, mor_status := st,
           mor_reservation_id := ra, mor_swap_id := sw\<rparr>)))"
    using assms
    by (auto simp: consume_transition_def status_shape_def status_phase.simps split: if_splits
        intro!: exI [of _ OfferConsumed] exI [of _ "Some res"])
qed

lemma withdraw_closure: "closure_moves None withdraw_transition"
  unfolding closure_moves_def withdraw_transition_def
  by (auto simp: status_shape_def status_phase.simps split: if_splits
      intro!: exI [of _ OfferWithdrawn] exI [of _ None])

end
