(* ===== verification/Maker_Preservation.thy ===== *)
theory Maker_Preservation
  imports Maker_Invariant
begin

text \<open>
  The remaining calls of the maker store against the invariant: publication, staging of a
  ZEC negotiation and the configuration calls; then every event, and hence every run from
  an empty store, keeps it.
\<close>

section \<open>Publication keeps the invariant\<close>

definition active_row :: "'j maker_json \<Rightarrow> request_id \<Rightarrow> maker_offer \<Rightarrow> 'j offer_row" where
  "active_row J rid off =
     \<lparr>or_offer_id = offer_id_str (of_id off), or_pair = pair_name (rt_pair (offer_route off)),
      or_direction = direction_name (rt_direction (offer_route off)), or_payload_version = 1,
      or_payload_json = js_offer J off, or_expires_at = uint (of_expires_at off),
      or_state = ''active'', or_revision = 1, or_reservation_id = None, or_swap_id = None,
      or_updated_request_id = request_id_str rid\<rparr>"

definition active_record :: "maker_offer \<Rightarrow> maker_offer_record" where
  "active_record off = \<lparr>mor_revision = 1, mor_status = OfferActive, mor_offer = off,
     mor_reservation_id = None, mor_swap_id = None\<rparr>"

lemma insert_offer_Ok:
  "insert_offer J rid (offer_route off) off db = Ok db' \<Longrightarrow>
     offer_id_str (of_id off) \<notin> or_offer_id ` set (db_offers db) \<and>
     db' = db\<lparr>db_offers := db_offers db @ [active_row J rid off]\<rparr>"
  by (auto simp: insert_offer_def and_then_Inr u64_to_sql_Ok table_insert_Ok list_ex_iff active_row_def
      offer_payload_version_def)

lemma insert_offer_heads: "insert_offer J rid r off db = Ok db' \<Longrightarrow> db_heads db' = db_heads db"
  by (auto simp: insert_offer_def and_then_Inr)

lemma active_row_decode:
  assumes "json_ok J" "offer_validate off = Ok ()"
  shows "decode_offer_tuple J (active_row J rid off) 0 = Ok (active_record off)"
proof -
  from assms have "rd_offer J (js_offer J off) = Some off"
    by (simp add: json_ok_def offer_validate_Ok)
  with assms(2) show ?thesis
    by (simp add: decode_offer_Ok active_row_def active_record_def status_shape_def)
qed

lemma publish_keeps:
  assumes ok: "db_ok J db" and json: "json_ok J" and off: "offer_validate off = Ok ()"
    and heads: "heads_ok heads"
    and ins: "insert_offer J rid (offer_route off) off (db\<lparr>db_heads := heads\<rparr>) = Ok db1"
    and mut: "insert_mutation (mutation_of J rid operation rj 1) db1 = Ok db'"
    and operation: "operation \<noteq> ''local_route_save''"
  shows "db_ok J db' \<and> offer_step J (of_id off) db \<lparr>moc_revision = 1, moc_was_replay = False\<rparr> db' \<and>
    phase_of J db' (of_id off) = Open off"
proof -
  let ?row = "active_row J rid off"
  from insert_offer_Ok [OF ins]
  have new: "offer_id_str (of_id off) \<notin> or_offer_id ` set (db_offers db)"
    and db1: "db1 = db\<lparr>db_heads := heads, db_offers := db_offers db @ [?row]\<rparr>" by simp_all
  from mut db1 have fields: "db_offers db' = db_offers db @ [?row]" "db_heads db' = heads"
    "db_zec db' = db_zec db" "db_swaps db' = db_swaps db" "db_pairs db' = db_pairs db"
    "db_prices db' = db_prices db"
    "db_mutations db' = db_mutations db @ [mutation_of J rid operation rj 1]"
    "request_id_str rid \<notin> mu_request_id ` set (db_mutations db)"
    by (simp_all add: insert_mutation_Ok mutation_of_def)
  note decode = active_row_decode [OF json off]
  have open_phase: "status_phase (active_record off) = Open off"
    by (simp add: active_record_def status_phase.simps)
  then have offer_row_phase: "offer_row_phase J ?row = Open off" by (simp add: offer_row_phase_def decode)
  have key: "or_offer_id ?row = offer_id_str (of_id off)" by (simp add: active_row_def)
  have none: "row_at or_offer_id (db_offers db) (offer_id_str (of_id off)) = None"
    using new by (simp add: row_at_None)
  have at: "row_at or_offer_id (db_offers db @ [?row]) k =
      (if k = offer_id_str (of_id off) then Some ?row else row_at or_offer_id (db_offers db) k)" for k
    using none by (simp add: row_at_append key split: option.split)
  have phase: "phase_of J db' j = (if j = of_id off then Open off else phase_of J db j)" for j
    by (simp add: phase_of_def fields(1) at offer_row_phase)
  have before: "phase_of J db (of_id off) = Unpublished"
    using none by (simp add: phase_of_def)
  have step: "offer_step J (of_id off) db \<lparr>moc_revision = 1, moc_was_replay = False\<rparr> db'"
    using off by (simp add: offer_step_def phase before)
  have "offer_row_ok J ?row"
    by (simp add: offer_row_ok_def decode open_phase) (simp add: active_record_def)
  with new key have "offers_ok J (db_offers db')"
    using db_okD(1) [OF ok] by (simp add: offers_ok_def fields(1))
  moreover have "mutations_ok J (db_mutations db')"
    unfolding fields(7) by (rule mutations_ok_append [OF db_okD(2) [OF ok] fields(8) json _ operation]) simp
  moreover have "zec_ok J db'"
    by (rule zec_ok_le [OF db_okD(3) [OF ok] fields(3) offer_step_le [OF step]])
  moreover have "swaps_ok db'"
    by (rule swaps_ok_append [OF db_okD(4) [OF ok] fields(1,4)]) (simp add: active_row_def)
  ultimately show ?thesis
    using step db_okD(7,8) [OF ok] heads phase by (simp add: db_ok_def fields)
qed

lemma load_pair_Some:
  "load_pair J db r = Ok (Some (policy, revision)) \<longleftrightarrow>
     (\<exists>row. row_at route_key (db_pairs db) (route_columns r) = Some row \<and>
        decode_pair_record J row = Ok \<lparr>vr_revision = revision, vr_value = policy\<rparr> \<and> pc_route policy = r)"
  by (auto simp: load_pair_def pair_configuration_new_self and_then_Inr map_err_Inr ok_or_Inr
      decode_pair_record_Ok offer_check_version_def offer_payload_version_def sql_to_u64_Ok
      split: option.splits if_splits dest: row_at_Some)

lemma load_price_Some:
  "load_price J db r = Ok (Some (price, revision)) \<longleftrightarrow>
     (\<exists>row. row_at route_key (db_prices db) (route_columns r) = Some row \<and>
        decode_price_record J row = Ok \<lparr>vr_revision = revision, vr_value = price\<rparr> \<and> lp_route price = r)"
  by (auto simp: load_price_def local_price_new_self and_then_Inr map_err_Inr ok_or_Inr
      decode_price_record_Ok offer_check_version_def offer_payload_version_def sql_to_u64_Ok
      split: option.splits if_splits dest: row_at_Some)

text \<open>The offer a local publication stores: the current policy and price of the route, with
  their revisions, valid from now for the policy's time to live.\<close>

definition local_offer_of ::
    "maker_offer_id \<Rightarrow> maker_pair_configuration \<Rightarrow> u64 \<Rightarrow> local_price \<Rightarrow> u64 \<Rightarrow> u64 \<Rightarrow> u64 \<Rightarrow> maker_offer" where
  "local_offer_of i policy policy_revision price price_revision now expires =
     \<lparr>of_id = i, of_pair_configuration = policy, of_price = price,
      of_pair_configuration_revision = policy_revision, of_price_source_revision = price_revision,
      of_price_observed_at = now, of_price_source_identity = None, of_created_at = now,
      of_expires_at = expires\<rparr>"

definition publish_operation :: "(u64 \<times> u64) option \<Rightarrow> string" where
  "publish_operation expected =
     (case expected of None \<Rightarrow> ''offer_publish'' | Some _ \<Rightarrow> ''offer_publish_at_revisions_v1'')"

definition publish_request ::
    "maker_offer_id \<Rightarrow> maker_route \<Rightarrow> (u64 \<times> u64) option \<Rightarrow> maker_request" where
  "publish_request i r expected =
     (case expected of None \<Rightarrow> PublishRequest i r | Some (a, b) \<Rightarrow> GuardedPublishRequest i r a b)"

lemma publish_local_cases:
  assumes "publish_local_offer_tx J rid i r expected now db = Ok (c, db')"
  obtains (replay) "moc_was_replay c" "db' = db" "mutation_at db rid \<noteq> None"
  | (fresh) policy policy_revision price price_revision expires db1 where
    "mutation_at db rid = None" "now \<le> i64_max" "\<not> offer_exists db i"
    "load_pair J db r = Ok (Some (policy, policy_revision))"
    "pc_enabled policy" "pc_price_source policy = LocalPriceSource"
    "load_price J db r = Ok (Some (price, price_revision))"
    "\<forall>e. expected = Some e \<longrightarrow> e = (policy_revision, price_revision)"
    "offer_expiry now policy = Ok expires"
    "offer_validate (local_offer_of i policy policy_revision price price_revision now expires) = Ok ()"
    "insert_offer J rid r
       (local_offer_of i policy policy_revision price price_revision now expires) db = Ok db1"
    "insert_mutation (mutation_of J rid (publish_operation expected)
       (js_request J (publish_request i r expected)) 1) db1 = Ok db'"
    "c = \<lparr>moc_revision = 1, moc_was_replay = False\<rparr>"
proof -
  obtain operation rj where op: "(operation, rj) =
      (publish_operation expected, js_request J (publish_request i r expected))" by simp
  have "(case expected of
           Some (expected_pair, expected_price) \<Rightarrow>
             (''offer_publish_at_revisions_v1'',
              js_request J (GuardedPublishRequest i r expected_pair expected_price))
         | None \<Rightarrow> (''offer_publish'', js_request J (PublishRequest i r))) = (operation, rj)"
    using op by (simp add: publish_operation_def publish_request_def split: option.split prod.split)
  note body = assms [unfolded publish_local_offer_tx_def this Let_def prod.case]
  obtain replayed where r0: "replay_offer_mutation J db rid operation rj = Ok replayed"
    using body by (auto simp: and_then_Inr)
  show thesis
  proof (cases replayed)
    case (Some c0)
    with r0 body have "c = c0 \<and> db' = db" by simp
    with replay_offer_Some [OF r0 [unfolded Some]] replay show thesis by simp
  next
    case None
    with r0 have none: "mutation_at db rid = None" by simp
    have guard: "(case expected of None \<Rightarrow> Ok ()
            | Some (expected_pair, expected_price) \<Rightarrow>
                if expected_pair \<noteq> policy_revision
                then Err (StaleMakerConfiguration (Some expected_pair) (Some policy_revision))
                else if expected_price \<noteq> price_revision
                then Err (StaleMakerConfiguration (Some expected_price) (Some price_revision))
                else Ok ()) = Ok () \<Longrightarrow>
          \<forall>e. expected = Some e \<longrightarrow> e = (policy_revision, price_revision)" for policy_revision price_revision
      by (auto split: option.splits if_splits)
    from body r0 None none op show thesis
      by (auto simp: and_then_Inr ok_or_Inr map_err_Inr persist_offer_mutation_eq
          local_offer_of_def [symmetric] split: if_splits prod.splits dest!: guard intro!: fresh)
  qed
qed

lemma local_offer_of_simps [simp]:
  "of_id (local_offer_of i policy pr price qr now expires) = i"
  "offer_route (local_offer_of i policy pr price qr now expires) = pc_route policy"
  by (simp_all add: local_offer_of_def offer_route_def)

lemma publish_operation_other [simp]: "publish_operation expected \<noteq> ''local_route_save''"
  by (simp add: publish_operation_def split: option.split)

lemma publish_local_keeps:
  assumes ok: "db_ok J db" and json: "json_ok J"
    and tx: "publish_local_offer_tx J rid i r expected now db = Ok (c, db')"
  shows "db_ok J db' \<and> offer_step J i db c db'"
  using tx
proof (cases rule: publish_local_cases)
  case replay
  with ok show ?thesis by (simp add: offer_step_def)
next
  case (fresh policy policy_revision price price_revision expires db1)
  have "pc_route policy = r" using fresh(4) by (auto simp: load_pair_Some)
  with publish_keeps [OF ok json fresh(10) db_okD(6) [OF ok], of rid db1 "publish_operation expected"]
    fresh(11-13)
  show ?thesis by simp
qed

section \<open>External price heads\<close>

text \<open>A head is only replaced by a newer revision observed no earlier, or by itself.\<close>

definition head_le :: "head_row \<Rightarrow> head_row \<Rightarrow> bool" where
  "head_le a b \<longleftrightarrow> a = b \<or>
     ph_source_revision a < ph_source_revision b \<and> ph_observed_at a \<le> ph_observed_at b"

lemma head_le_refl [simp]: "head_le a a"
  by (simp add: head_le_def)

lemma head_le_trans: "head_le a b \<Longrightarrow> head_le b c \<Longrightarrow> head_le a c"
  by (auto simp: head_le_def)

definition head_of :: "maker_route \<Rightarrow> bytes \<Rightarrow> local_price \<Rightarrow> u64 \<Rightarrow> u64 \<Rightarrow> head_row" where
  "head_of r identity price revision observed =
     \<lparr>ph_pair = pair_name (rt_pair r), ph_direction = direction_name (rt_direction r),
      ph_source_identity = identity, ph_source_revision = uint revision,
      ph_observed_at = uint observed, ph_lez_units_per_lot = uint (lp_lez_units_per_lot price),
      ph_foreign_units_per_lot = uint (lp_foreign_units_per_lot price)\<rparr>"

lemma head_advance:
  assumes "head_key prior = head_key (head_of r identity price revision observed)"
    "sql_to_u64 (ph_source_revision prior) = Ok prior_revision"
    "sql_to_u64 (ph_observed_at prior) = Ok prior_observed"
    "sql_to_u64 (ph_lez_units_per_lot prior) = Ok prior_lez"
    "sql_to_u64 (ph_foreign_units_per_lot prior) = Ok prior_foreign"
    "\<not> (prior_revision > revision \<or> prior_revision < revision \<and> prior_observed > observed)"
    "\<not> (prior_revision = revision \<and> (prior_observed \<noteq> observed
        \<or> prior_lez \<noteq> lp_lez_units_per_lot price \<or> prior_foreign \<noteq> lp_foreign_units_per_lot price))"
  shows "head_le prior (head_of r identity price revision observed)"
proof (cases "prior_revision = revision")
  case True
  with assms show ?thesis
    by (cases prior) (simp add: head_le_def head_of_def head_key_def sql_to_u64_Ok)
next
  case False
  with assms(6) have "prior_revision < revision" "prior_observed \<le> observed" by auto
  with assms(2,3) show ?thesis
    by (simp add: head_le_def head_of_def sql_to_u64_Ok word_less_def word_le_def)
qed

lemma update_head_Ok:
  assumes upd: "update_external_price_head r identity price revision observed db = Ok db'"
    and ok: "heads_ok (db_heads db)"
    and nz: "revision \<noteq> 0" "observed \<noteq> 0" "lp_lez_units_per_lot price \<noteq> 0"
      "lp_foreign_units_per_lot price \<noteq> 0"
  obtains t where "db' = db\<lparr>db_heads := t\<rparr>" "heads_ok t" "table_le head_key head_le (db_heads db) t"
    "row_at head_key t (head_key (head_of r identity price revision observed)) =
       Some (head_of r identity price revision observed)"
proof -
  let ?head = "head_of r identity price revision observed"
  have key: "(pair_name (rt_pair r), direction_name (rt_direction r), identity) = head_key ?head"
    by (simp add: head_key_def head_of_def)
  from upd obtain t where t: "db' = db\<lparr>db_heads := t\<rparr>"
    and ups: "table_upsert MakerSqlite head_row_check head_key ?head (db_heads db) = Ok t"
    by (auto simp: update_external_price_head_def and_then_Inr u64_to_sql_Ok head_of_def)
  from upd have adv: "head_le prior ?head"
    if "row_at head_key (db_heads db) (head_key ?head) = Some prior" for prior
    using that row_at_Some [OF that]
    by (auto simp: update_external_price_head_def key and_then_Inr split: if_splits
        intro: head_advance)
  note facts = table_upsert_Ok [OF ups ok [unfolded heads_ok_def, THEN conjunct1]]
  have "head_row_ok ?head"
    using nz by (simp add: head_row_ok_def head_of_def sql_to_u64_def)
  with ok facts(2,3) have "heads_ok t"
    by (auto simp: heads_ok_def list_all_iff subset_iff)
  moreover have "table_le head_key head_le (db_heads db) t"
    using adv by (simp add: table_le_def facts(4))
  ultimately show thesis
    using that t facts(4) by simp
qed

definition logos_offer_of ::
    "maker_offer_id \<Rightarrow> maker_pair_configuration \<Rightarrow> u64 \<Rightarrow> local_price \<Rightarrow> bytes \<Rightarrow> u64 \<Rightarrow> u64 \<Rightarrow> u64 \<Rightarrow> u64
     \<Rightarrow> maker_offer" where
  "logos_offer_of i policy policy_revision price identity source_revision observed now expires =
     \<lparr>of_id = i, of_pair_configuration = policy, of_price = price,
      of_pair_configuration_revision = policy_revision, of_price_source_revision = source_revision,
      of_price_observed_at = observed, of_price_source_identity = Some identity,
      of_created_at = now, of_expires_at = expires\<rparr>"

lemma logos_offer_of_simps [simp]:
  "of_id (logos_offer_of i policy pr price identity sr observed now expires) = i"
  "of_price (logos_offer_of i policy pr price identity sr observed now expires) = price"
  "offer_route (logos_offer_of i policy pr price identity sr observed now expires) = pc_route policy"
  by (simp_all add: logos_offer_of_def offer_route_def)

lemma publish_logos_cases:
  assumes "publish_logos_offer_tx J rid i r expected price identity source observed now age db
    = Ok (c, db')"
  obtains (replay) "moc_was_replay c" "db' = db" "mutation_at db rid \<noteq> None"
  | (fresh) policy expires db1 db2 where
    "mutation_at db rid = None" "source \<noteq> 0" "observed \<noteq> 0"
    "load_pair J db r = Ok (Some (policy, expected))"
    "offer_validate (logos_offer_of i policy expected price identity source observed now expires) = Ok ()"
    "update_external_price_head r identity price source observed db = Ok db1"
    "insert_offer J rid r
       (logos_offer_of i policy expected price identity source observed now expires) db1 = Ok db2"
    "insert_mutation (mutation_of J rid ''offer_publish'' (js_request J (PublishRequest i r)) 1) db2
       = Ok db'"
    "c = \<lparr>moc_revision = 1, moc_was_replay = False\<rparr>"
proof -
  note body = assms [unfolded publish_logos_offer_tx_def Let_def]
  obtain replayed where r0: "replay_offer_mutation J db rid ''offer_publish''
      (js_request J (PublishRequest i r)) = Ok replayed"
    using body by (auto simp: and_then_Inr)
  show thesis
  proof (cases replayed)
    case (Some c0)
    with r0 body have "c = c0 \<and> db' = db" by simp
    with replay_offer_Some [OF r0 [unfolded Some]] replay show thesis by simp
  next
    case None
    with r0 have none: "mutation_at db rid = None" by simp
    from body r0 None none show thesis
      by (auto simp: and_then_Inr ok_or_Inr map_err_Inr persist_offer_mutation_eq
          logos_offer_of_def [symmetric] split: if_splits prod.splits intro!: fresh)
  qed
qed

lemma publish_logos_keeps:
  assumes ok: "db_ok J db" and json: "json_ok J"
    and tx: "publish_logos_offer_tx J rid i r expected price identity source observed now age db
      = Ok (c, db')"
  shows "db_ok J db' \<and> offer_step J i db c db' \<and>
    table_le head_key head_le (db_heads db) (db_heads db')"
  using tx
proof (cases rule: publish_logos_cases)
  case replay
  with ok show ?thesis by (simp add: offer_step_def table_le_refl)
next
  case (fresh policy expires db1 db2)
  have r: "pc_route policy = r" using fresh(4) by (auto simp: load_pair_Some)
  from fresh(5) have nz: "lp_lez_units_per_lot price \<noteq> 0" "lp_foreign_units_per_lot price \<noteq> 0"
    by (auto simp: offer_validate_Ok local_price_validate_Ok)
  from update_head_Ok [OF fresh(6) db_okD(6) [OF ok] fresh(2,3) nz] obtain t where
    t: "db1 = db\<lparr>db_heads := t\<rparr>" "heads_ok t" "table_le head_key head_le (db_heads db) t" by blast
  from publish_keeps [OF ok json fresh(5) t(2), of rid db2 "''offer_publish''"] fresh(7-9) t(1) r
  have keep: "db_ok J db'" "offer_step J i db c db'" by simp_all
  have "db_heads db' = t"
    using fresh(8) insert_offer_heads [OF fresh(7)] t(1) by (simp add: insert_mutation_Ok)
  with keep t(3) show ?thesis by simp
qed

section \<open>Staging keeps the invariant\<close>

definition zec_row_of ::
    "request_id \<Rightarrow> maker_offer_id \<Rightarrow> maker_zec_negotiation \<Rightarrow> zec_negotiation_row" where
  "zec_row_of rid i n =
     \<lparr>zr_offer_id = offer_id_str i, zr_reservation_id = request_id_str (zn_reservation_id n),
      zr_payload_version = 1, zr_offer_commitment = zn_offer_commitment n,
      zr_maker_chat_identity = zn_maker_chat_identity n,
      zr_taker_chat_identity = zn_taker_chat_identity n,
      zr_foreign_units = uint (zn_foreign_units n),
      zr_lez_units = be_bytes 16 (unat (zn_lez_units n)),
      zr_reserved_at = uint (zn_reserved_at n), zr_agreement_commitment = zn_agreement_commitment n,
      zr_maker_proposal_wire = zn_maker_proposal_wire n, zr_state = ''proposed'',
      zr_final_agreement_wire = None, zr_swap_id = None,
      zr_updated_request_id = request_id_str rid\<rparr>"

lemma insert_zec_Ok:
  "insert_zec_negotiation rid i n db = Ok db' \<Longrightarrow>
     offer_id_str i \<notin> zr_offer_id ` set (db_zec db) \<and>
     db' = db\<lparr>db_zec := db_zec db @ [zec_row_of rid i n]\<rparr>"
  by (auto simp: insert_zec_negotiation_def and_then_Inr u64_to_sql_Ok table_insert_Ok list_ex_iff
      zec_row_of_def)

lemma lez_units_round_trip: "word_of_nat (of_be_bytes (be_bytes 16 (unat (x :: u128)))) = x"
proof -
  have "unat x < 2 ^ LENGTH(128)" by (rule unsigned_less)
  then have "unat x mod 256 ^ 16 = unat x" by simp
  then show ?thesis by (simp only: of_be_bytes_be_bytes) simp
qed

lemma zec_row_decode:
  assumes "zec_typed n" "zec_negotiation_validate n = Ok ()" "zn_status n = ZecProposed"
  shows "decode_zec_negotiation_row (zec_row_of rid i n) = Ok n"
proof -
  from assms(2,3) have none: "zn_final_agreement_wire n = None" "zn_swap_id n = None"
    and nz: "zn_foreign_units n \<noteq> 0" "zn_reserved_at n \<noteq> 0"
    by (auto simp: zec_negotiation_validate_def split: if_splits)
  have eta: "\<lparr>zn_reservation_id = zn_reservation_id n, zn_offer_commitment = zn_offer_commitment n,
      zn_maker_chat_identity = zn_maker_chat_identity n,
      zn_taker_chat_identity = zn_taker_chat_identity n, zn_foreign_units = zn_foreign_units n,
      zn_lez_units = zn_lez_units n, zn_reserved_at = zn_reserved_at n,
      zn_agreement_commitment = zn_agreement_commitment n,
      zn_maker_proposal_wire = zn_maker_proposal_wire n, zn_status = ZecProposed,
      zn_final_agreement_wire = None, zn_swap_id = None\<rparr> = n"
    using none assms(3) by simp
  from nz have sql: "sql_to_u64 (uint (zn_foreign_units n)) = Ok (zn_foreign_units n)"
    "sql_to_u64 (uint (zn_reserved_at n)) = Ok (zn_reserved_at n)"
    by (simp_all add: sql_to_u64_Ok)
  from assms(1) show ?thesis
    unfolding decode_zec_negotiation_row_def zec_row_of_def zec_negotiation_row.simps
      lez_units_round_trip
    by (simp add: sql eta assms(2) zec_typed_def request_valid_def request_id_new_def
        offer_check_version_def offer_payload_version_def decode_swap_id_def)
qed

lemma stage_zec_cases:
  assumes "stage_zec_tx J sha256 rid i expected n db = Ok (c, db')"
    and dist: "distinct (map or_offer_id (db_offers db))"
  obtains (replay) "moc_was_replay c" "db' = db" "mutation_at db rid \<noteq> None"
  | (fresh) row v db1 where
    "mutation_at db rid = None"
    "row_at or_offer_id (db_offers db) (offer_id_str i) = Some row"
    "decode_offer_tuple J row 0 = Ok v" "mor_revision v = expected" "mor_status v = OfferActive"
    "rt_pair (offer_route (mor_offer v)) = Pair_Zcash" "zn_reserved_at n < of_expires_at (mor_offer v)"
    "quote_foreign_amount (mor_offer v) (zn_foreign_units n) = Some (Ok (zn_lez_units n))"
    "insert_zec_negotiation rid i n db = Ok db1"
    "checked_add expected 1 = Some (expected + 1)"
    "db' = offer_moved J rid ''zec_negotiation_stage'' (js_request J (stage_zec_request sha256 i expected n))
       row (expected + 1) ''reserved'' (Some (request_id_str (zn_reservation_id n))) None db1"
    "c = \<lparr>moc_revision = expected + 1, moc_was_replay = False\<rparr>"
proof -
  let ?rj = "js_request J (stage_zec_request sha256 i expected n)"
  let ?res = "Some (request_id_str (zn_reservation_id n))"
  note body = assms(1) [unfolded stage_zec_tx_def Let_def]
  obtain replayed where r0: "replay_offer_mutation J db rid ''zec_negotiation_stage'' ?rj = Ok replayed"
    using body by (auto simp: and_then_Inr)
  show thesis
  proof (cases replayed)
    case (Some c0)
    with r0 body have "c = c0 \<and> db' = db" by simp
    with replay_offer_Some [OF r0 [unfolded Some]] replay show thesis by simp
  next
    case None
    with r0 have none: "mutation_at db rid = None" by simp
    from body r0 None obtain u where load: "load_offer J db i (zn_reserved_at n) = Ok (Some u)"
      by (auto simp: and_then_Inr ok_or_Inr)
    then obtain row v where row: "row_at or_offer_id (db_offers db) (offer_id_str i) = Some row"
      and v: "decode_offer_tuple J row 0 = Ok v"
      and u: "u = v\<lparr>mor_status := if mor_status v = OfferActive
             \<and> zn_reserved_at n \<ge> of_expires_at (mor_offer v) then OfferExpired else mor_status v\<rparr>"
      by (auto simp: load_offer_def and_then_Inr decode_offer_at [of J _ "zn_reserved_at n"]
          split: option.splits)
    have upd_eq: "(\<lambda>row. row\<lparr>or_state := ''reserved'', or_revision := x, or_reservation_id := ?res,
        or_updated_request_id := request_id_str rid\<rparr>) =
      (\<lambda>row. row\<lparr>or_state := ''reserved'', or_revision := x, or_reservation_id := ?res,
        or_swap_id := or_swap_id row, or_updated_request_id := request_id_str rid\<rparr>)" for x :: int
      by simp
    let ?upd = "\<lambda>revision db1. update_offer
       (\<lambda>row. or_offer_id row = offer_id_str i \<and> or_revision row = uint expected
          \<and> or_state row = ''active'')
       (\<lambda>row. moved_row rid revision ''reserved'' ?res (or_swap_id row) row) db1"
    note tail = body [unfolded r0 None and_then_simps option.case load ok_or_simps]
    have guards: "mor_revision u = expected" "rt_pair (offer_route (mor_offer u)) = Pair_Zcash"
      "\<not> zn_reserved_at n \<ge> of_expires_at (mor_offer u)" "mor_status u = OfferActive"
      using tail by (simp_all split: if_split_asm)
    note tail = tail [unfolded upd_eq persist_offer_mutation_eq]
    obtain lez where q: "quote_foreign_amount (mor_offer u) (zn_foreign_units n) = Some (Ok lez)"
      using tail guards by (simp split: option.split_asm sum.split_asm)
    from tail guards q obtain db1 revision db2 where
      p: "mor_revision u = expected" "rt_pair (offer_route (mor_offer u)) = Pair_Zcash"
      "zn_reserved_at n < of_expires_at (mor_offer u)" "mor_status u = OfferActive"
      "quote_foreign_amount (mor_offer u) (zn_foreign_units n) = Some (Ok (zn_lez_units n))"
      and ins: "insert_zec_negotiation rid i n db = Ok db1"
      and add: "checked_add expected 1 = Some revision"
      and upd: "?upd revision db1 = Ok (1, db2)"
      and mut: "insert_mutation (mutation_of J rid ''zec_negotiation_stage'' ?rj revision) db2 = Ok db'"
      and c: "c = \<lparr>moc_revision = revision, moc_was_replay = False\<rparr>"
      by (auto simp: and_then_Inr ok_or_Inr u64_to_sql_Ok moved_row_def [abs_def] not_le
          split: if_split_asm prod.split_asm)
    from add have revision: "revision = expected + 1" by (simp add: checked_add_Some)
    from p(4) u have active: "mor_status v = OfferActive" by (auto split: if_splits)
    with v have swap: "or_swap_id row = None" by (simp add: decode_offer_Ok status_shape_def)
    have same: "db_offers db1 = db_offers db" "db_mutations db1 = db_mutations db"
      using insert_zec_Ok [OF ins] by simp_all
    from dist same have dist1: "distinct (map or_offer_id (db_offers db1))" by simp
    obtain row' where
      row': "row_at or_offer_id (db_offers db1) (offer_id_str i) = Some row'"
      "db2 = db1\<lparr>db_offers := replace_row row'
          (moved_row rid revision ''reserved'' ?res (or_swap_id row') row') (db_offers db1)\<rparr>"
      by (rule update_offer_one [OF upd refl dist1, of "offer_id_str i"])
        (blast, (rule that; assumption))
    with row same have "row' = row" by simp
    with row' mut same swap
    have "db' = offer_moved J rid ''zec_negotiation_stage'' ?rj row revision ''reserved'' ?res None db1"
      by (simp add: insert_mutation_Ok offer_moved_def)
    with p c ins add revision none row v active u show thesis
      by (intro fresh) simp_all
  qed
qed

end
