(* ===== verification/Maker_Runs.thy ===== *)
theory Maker_Runs
  imports Maker_Preservation
begin

text \<open>
  Runs of the maker store. Staging and the configuration calls keep the invariant, so every
  event does; every event moves each offer at most one step along its lifecycle, only
  appends mutation records and only advances external price heads. The locales of the
  prelude turn these step facts into facts about every run.
\<close>

section \<open>Staging and configuration\<close>

lemma stage_zec_keeps:
  assumes ok: "db_ok J db" and json: "json_ok J" and typed: "zec_typed n"
    and n: "zec_negotiation_validate n = Ok ()" "zn_status n = ZecProposed"
    and tx: "stage_zec_tx J sha256 rid i expected n db = Ok (c, db')"
  shows "db_ok J db' \<and> offer_step J i db c db' \<and> (moc_was_replay c \<or>
    (\<exists>off. phase_of J db i = Open off \<and> phase_of J db' i = Held off (zn_reservation_id n)))"
  using tx db_okD(5) [OF ok]
proof (cases rule: stage_zec_cases)
  case replay
  with ok show ?thesis by (simp add: offer_step_def)
next
  case (fresh row v db1)
  let ?res = "zn_reservation_id n"
  let ?row = "moved_row rid (expected + 1) ''reserved'' (Some (request_id_str ?res)) None row"
  define w where "w = v\<lparr>mor_revision := expected + 1, mor_status := OfferReserved,
    mor_reservation_id := Some ?res, mor_swap_id := None\<rparr>"
  have nz: "expected + 1 \<noteq> 0" by (rule checked_add_nonzero [OF fresh(10)])
  from moved_row_decode [OF fresh(3) _ nz, of OfferReserved "Some ?res" None rid] typed
  have w: "decode_offer_tuple J ?row 0 = Ok w"
    by (simp add: w_def status_shape_def zec_typed_def)
  from fresh(5) have v: "status_phase v = Open (mor_offer v)" by (simp add: status_phase.simps)
  have wp: "status_phase w = Held (mor_offer v) ?res" by (simp add: w_def status_phase.simps)
  from offer_row_okD [OF db_okD(1) [OF ok] fresh(2)] fresh(3)
  have "mor_revision v = phase_revision (status_phase v)" by auto
  with v fresh(4) have expected: "expected = 1" by simp
  have zec: "offer_id_str i \<notin> zr_offer_id ` set (db_zec db)"
    and db1: "db1 = db\<lparr>db_zec := db_zec db @ [zec_row_of rid i n]\<rparr>"
    using insert_zec_Ok [OF fresh(9)] by simp_all
  have fields: "db_offers db' = replace_row row ?row (db_offers db)"
    "db_zec db' = db_zec db @ [zec_row_of rid i n]" "db_swaps db' = db_swaps db"
    "db_mutations db' = db_mutations db @ [mutation_of J rid ''zec_negotiation_stage''
       (js_request J (stage_zec_request sha256 i expected n)) (expected + 1)]"
    "db_pairs db' = db_pairs db" "db_prices db' = db_prices db" "db_heads db' = db_heads db"
    using fresh(11) db1 by (simp_all add: offer_moved_def)
  have key: "or_offer_id ?row = or_offer_id row" by (simp add: moved_row_def)
  have phase: "phase_of J db' j = (if j = i then Held (mor_offer v) ?res else phase_of J db j)" for j
    using phase_of_replace [OF db_okD(5) [OF ok] fresh(2) key fields(1)] w wp
    by (simp add: offer_row_phase_def)
  have here: "phase_of J db i = Open (mor_offer v)"
    using fresh(2,3) v by (simp add: phase_of_def offer_row_phase_def)
  have step: "offer_step J i db c db'"
    using fresh(12) expected by (simp add: offer_step_def phase here)
  have "offers_ok J (db_offers db')"
    unfolding fields(1) using w wp key expected
    by (intro offers_ok_replace [OF db_okD(1) [OF ok]]) (simp_all add: offer_row_ok_def w_def)
  moreover have "mutations_ok J (db_mutations db')"
    unfolding fields(4) using fresh(1) nz json
    by (intro mutations_ok_append [OF db_okD(2) [OF ok]]) (simp_all add: mutation_at_None)
  moreover have "zec_ok J db'"
  proof -
    have "zec_ok J (db'\<lparr>db_zec := db_zec db\<rparr>)"
      by (rule zec_ok_le [OF db_okD(3) [OF ok]])
        (use offer_step_le [OF step] in \<open>simp_all add: phase_of_cong [of "db'\<lparr>db_zec := db_zec db\<rparr>" db']\<close>)
    then have old: "distinct (map zr_offer_id (db_zec db))"
      "list_all (zec_row_ok (\<lambda>s. phase_of J db' (MakerOfferId s))) (db_zec db)"
      by (simp_all add: zec_ok_def phase_of_cong [of "db'\<lparr>db_zec := db_zec db\<rparr>" db'])
    have "zr_offer_id (zec_row_of rid i n) = offer_id_str i" by (simp add: zec_row_of_def)
    moreover from this have "zec_row_ok (\<lambda>s. phase_of J db' (MakerOfferId s)) (zec_row_of rid i n)"
      using fresh(8) by (simp add: zec_row_ok_def zec_row_decode [OF typed n] offer_id_of_str phase)
    ultimately show ?thesis
      using old zec by (simp add: zec_ok_def fields(2))
  qed
  moreover have "swaps_ok db'"
    using row_at_Some [OF fresh(2)]
    by (intro swaps_ok_replace [OF db_okD(4) [OF ok] _ _ key _ fields(1,3)])
      (auto simp: moved_row_def)
  moreover have "\<exists>off. phase_of J db i = Open off \<and> phase_of J db' i = Held off ?res"
    by (simp add: here phase)
  ultimately show ?thesis
    using step db_okD [OF ok] by (simp add: db_ok_def fields)
qed

text \<open>A configuration call changes no table but the policies, the prices and the mutations.\<close>

definition configured :: "'j maker_json \<Rightarrow> 'j maker_db \<Rightarrow> 'j maker_db \<Rightarrow> bool" where
  "configured J db db' \<longleftrightarrow> db_ok J db' \<and>
     (\<exists>pairs prices ms. db' = db\<lparr>db_pairs := pairs, db_prices := prices,
        db_mutations := db_mutations db @ ms\<rparr>)"

lemma configuredI:
  assumes "db_ok J db" "routes_ok (decode_pair_record J) pairs"
    "routes_ok (decode_price_record J) prices" "mutations_ok J (db_mutations db @ ms)"
  shows "configured J db (db\<lparr>db_pairs := pairs, db_prices := prices,
    db_mutations := db_mutations db @ ms\<rparr>)"
  using assms unfolding configured_def db_ok_def
  by (auto simp: zec_ok_def swaps_ok_def phase_of_def)

lemma upsert_pair_Ok:
  assumes "upsert_pair r json revision rid db = Ok db'"
  obtains t where "db' = db\<lparr>db_pairs := t\<rparr>" "revision \<le> i64_max"
    "table_upsert MakerSqlite route_row_check route_key (route_row_of r json (uint revision) rid)
       (db_pairs db) = Ok t"
  using assms by (auto simp: upsert_pair_def and_then_Inr application_revision_to_sql_Ok)

lemma upsert_price_Ok:
  assumes "upsert_price r json revision rid db = Ok db'"
  obtains t where "db' = db\<lparr>db_prices := t\<rparr>" "revision \<le> i64_max"
    "table_upsert MakerSqlite
       (\<lambda>row. route_row_check row \<and> route_key row \<in> set (map route_key (db_pairs db)))
       route_key (route_row_of r json (uint revision) rid) (db_prices db) = Ok t"
  using assms by (auto simp: upsert_price_def and_then_Inr application_revision_to_sql_Ok)

lemma pair_row_decode:
  "json_ok J \<Longrightarrow> pair_configuration_validate c = Ok () \<Longrightarrow> revision \<noteq> 0 \<Longrightarrow>
   decode_pair_record J (route_row_of (pc_route c) (js_pair J c) (uint revision) rid) =
     Ok \<lparr>vr_revision = revision, vr_value = c\<rparr>"
  by (simp add: decode_pair_record_Ok route_row_of_def json_ok_def route_key_def route_columns_def
      application_payload_version_def)

lemma price_row_decode:
  "json_ok J \<Longrightarrow> local_price_validate p = Ok () \<Longrightarrow> revision \<noteq> 0 \<Longrightarrow>
   decode_price_record J (route_row_of (lp_route p) (js_price J p) (uint revision) rid) =
     Ok \<lparr>vr_revision = revision, vr_value = p\<rparr>"
  by (simp add: decode_price_record_Ok route_row_of_def json_ok_def route_key_def route_columns_def
      application_payload_version_def)

lemma next_revision_Ok:
  assumes "next_revision t r expected = Ok revision"
  shows "revision \<noteq> 0" "row_at route_key t (route_columns r) = None \<longleftrightarrow> expected = None"
    "row_at route_key t (route_columns r) = Some row \<Longrightarrow> \<exists>v. expected = Some v \<and> rr_revision row = uint v"
    "revision = (case expected of None \<Rightarrow> 0 | Some v \<Rightarrow> v) + 1"
proof -
  from assms have add: "checked_add (case expected of None \<Rightarrow> 0 | Some v \<Rightarrow> v) 1 = Some revision"
    by (auto simp: next_revision_def and_then_Inr ok_or_Inr split: if_splits)
  then show "revision \<noteq> 0" by (rule checked_add_nonzero)
  from add show "revision = (case expected of None \<Rightarrow> 0 | Some v \<Rightarrow> v) + 1"
    by (simp add: checked_add_Some)
  show "row_at route_key t (route_columns r) = None \<longleftrightarrow> expected = None"
    using assms by (auto simp: next_revision_def and_then_Inr split: if_splits option.splits)
  show "row_at route_key t (route_columns r) = Some row \<Longrightarrow>
      \<exists>v. expected = Some v \<and> rr_revision row = uint v"
    using assms by (auto simp: next_revision_def and_then_Inr revision_from_sql_Ok split: if_splits)
qed

lemma mutations_ok_persist:
  assumes "insert_mutation (mutation_of J rid operation rj revision) db = Ok db'" "json_ok J"
    "mutations_ok J (db_mutations db)" "revision \<noteq> 0" "operation \<noteq> ''local_route_save''"
  shows "mutations_ok J (db_mutations db')"
  by (rule mutations_ok_insert [OF assms(1,3) mutation_of_ok [OF assms(2,4,5)]])

lemma configure_keeps:
  assumes ok: "db_ok J db" and json: "json_ok J" and c: "pair_configuration_validate c = Ok ()"
    and tx: "configure_maker_pair_tx J rid expected c db = Ok (commit, db')"
  shows "configured J db db'"
proof (cases "mutation_at db rid")
  case (Some row)
  with tx have "db' = db"
    by (auto simp: configure_maker_pair_tx_def Let_def and_then_Inr replay_configuration_mutation_def
        split: if_splits prod.splits)
  with configuredI [OF ok db_okD(7,8) [OF ok], of "[]"] db_okD(2) [OF ok] show ?thesis by simp
next
  case None
  then have "replay_configuration_mutation J db rid ''pair_configure''
      (js_request J (PairMutationRequest expected c)) = Ok None" by simp
  with tx obtain revision db1 where nr: "next_revision (db_pairs db) (pc_route c) expected = Ok revision"
    and ups: "upsert_pair (pc_route c) (js_pair J c) revision rid db = Ok db1"
    and mut: "insert_mutation (mutation_of J rid ''pair_configure''
        (js_request J (PairMutationRequest expected c)) revision) db1 = Ok db'"
    by (auto simp: configure_maker_pair_tx_def Let_def and_then_Inr persist_configuration_mutation_eq
        split: if_splits)
  from upsert_pair_Ok [OF ups] obtain t where t: "db1 = db\<lparr>db_pairs := t\<rparr>"
    "table_upsert MakerSqlite route_row_check route_key
       (route_row_of (pc_route c) (js_pair J c) (uint revision) rid) (db_pairs db) = Ok t" by blast
  note nz = next_revision_Ok(1) [OF nr]
  have "routes_ok (decode_pair_record J) t"
    by (rule routes_ok_upsert [OF t(2) db_okD(7) [OF ok]])
      (simp add: pair_row_decode [OF json c nz])
  moreover have "mutations_ok J (db_mutations db')"
    by (rule mutations_ok_persist [OF mut json _ nz]) (use db_okD(2) [OF ok] t(1) in simp_all)
  moreover obtain ms where "db_mutations db' = db_mutations db @ ms"
    "db' = db\<lparr>db_pairs := t, db_prices := db_prices db, db_mutations := db_mutations db @ ms\<rparr>"
    using mut t(1) by (simp add: insert_mutation_Ok)
  ultimately show ?thesis
    using configuredI [OF ok _ db_okD(8) [OF ok], of t ms] by simp
qed

lemma set_price_keeps:
  assumes ok: "db_ok J db" and json: "json_ok J" and p: "local_price_validate p = Ok ()"
    and tx: "set_local_price_tx J rid expected p db = Ok (commit, db')"
  shows "configured J db db'"
proof (cases "mutation_at db rid")
  case (Some row)
  with tx have "db' = db"
    by (auto simp: set_local_price_tx_def Let_def and_then_Inr replay_configuration_mutation_def
        split: if_splits prod.splits)
  with configuredI [OF ok db_okD(7,8) [OF ok], of "[]"] db_okD(2) [OF ok] show ?thesis by simp
next
  case None
  then have "replay_configuration_mutation J db rid ''local_price_set''
      (js_request J (PriceMutationRequest expected p)) = Ok None" by simp
  with tx obtain revision db1 where nr: "next_revision (db_prices db) (lp_route p) expected = Ok revision"
    and ups: "upsert_price (lp_route p) (js_price J p) revision rid db = Ok db1"
    and mut: "insert_mutation (mutation_of J rid ''local_price_set''
        (js_request J (PriceMutationRequest expected p)) revision) db1 = Ok db'"
    by (auto simp: set_local_price_tx_def Let_def and_then_Inr persist_configuration_mutation_eq
        split: if_splits)
  from upsert_price_Ok [OF ups] obtain t where t: "db1 = db\<lparr>db_prices := t\<rparr>"
    "table_upsert MakerSqlite
       (\<lambda>row. route_row_check row \<and> route_key row \<in> set (map route_key (db_pairs db))) route_key
       (route_row_of (lp_route p) (js_price J p) (uint revision) rid) (db_prices db) = Ok t" by blast
  note nz = next_revision_Ok(1) [OF nr]
  have "routes_ok (decode_price_record J) t"
    by (rule routes_ok_upsert [OF t(2) db_okD(8) [OF ok]])
      (simp add: price_row_decode [OF json p nz])
  moreover have "mutations_ok J (db_mutations db')"
    by (rule mutations_ok_persist [OF mut json _ nz]) (use db_okD(2) [OF ok] t(1) in simp_all)
  moreover obtain ms where "db_mutations db' = db_mutations db @ ms"
    "db' = db\<lparr>db_pairs := db_pairs db, db_prices := t, db_mutations := db_mutations db @ ms\<rparr>"
    using mut t(1) by (simp add: insert_mutation_Ok)
  ultimately show ?thesis
    using configuredI [OF ok db_okD(7) [OF ok], of t ms] by simp
qed

lemma save_route_keeps:
  assumes ok: "db_ok J db" and json: "json_ok J" and c: "pair_configuration_validate c = Ok ()"
    and p: "local_price_validate p = Ok ()" and same: "pc_route c = lp_route p"
    and tx: "save_local_maker_route_tx J rid ep eq c p db = Ok (commit, db')"
  shows "configured J db db'"
proof (cases "mutation_at db rid")
  case (Some row)
  with tx have "db' = db"
    by (auto simp: save_local_maker_route_tx_def Let_def and_then_Inr replay_local_route_mutation_def
        split: if_splits prod.splits)
  with configuredI [OF ok db_okD(7,8) [OF ok], of "[]"] db_okD(2) [OF ok] show ?thesis by simp
next
  case None
  let ?rj = "js_request J (LocalRouteMutationRequest ep eq c p)"
  from None have "replay_local_route_mutation J db rid ?rj = Ok None" by simp
  with tx obtain pr qr db1 db2 where pr: "next_revision (db_pairs db) (pc_route c) ep = Ok pr"
    and qr: "next_revision (db_prices db) (pc_route c) eq = Ok qr"
    and ups1: "upsert_pair (pc_route c) (js_pair J c) pr rid db = Ok db1"
    and ups2: "upsert_price (pc_route c) (js_price J p) qr rid db1 = Ok db2"
    and mut: "persist_local_route_mutation J rid ?rj pr qr db2 = Ok db'"
    by (auto simp: save_local_maker_route_tx_def Let_def and_then_Inr)
  note nz = next_revision_Ok(1) [OF pr] next_revision_Ok(1) [OF qr]
  from upsert_pair_Ok [OF ups1] obtain t where t: "db1 = db\<lparr>db_pairs := t\<rparr>"
    "table_upsert MakerSqlite route_row_check route_key
       (route_row_of (pc_route c) (js_pair J c) (uint pr) rid) (db_pairs db) = Ok t" by blast
  from upsert_price_Ok [OF ups2] obtain u where u: "db2 = db1\<lparr>db_prices := u\<rparr>"
    "table_upsert MakerSqlite
       (\<lambda>row. route_row_check row \<and> route_key row \<in> set (map route_key (db_pairs db1))) route_key
       (route_row_of (pc_route c) (js_price J p) (uint qr) rid) (db_prices db1) = Ok u" by blast
  have "routes_ok (decode_pair_record J) t"
    by (rule routes_ok_upsert [OF t(2) db_okD(7) [OF ok]])
      (simp add: pair_row_decode [OF json c nz(1)])
  moreover have "routes_ok (decode_price_record J) (db_prices db1)"
    using db_okD(8) [OF ok] t(1) by simp
  then have "routes_ok (decode_price_record J) u"
    by (rule routes_ok_upsert [OF u(2)]) (simp add: same price_row_decode [OF json p nz(2)])
  moreover have "mutations_ok J (db_mutations db')"
    using mut nz json db_okD(2) [OF ok] t(1) u(1) unfolding persist_local_route_mutation_def
    by (elim mutations_ok_insert) (simp_all add: mutation_row_ok_def json_ok_def)
  moreover obtain ms where "db_mutations db' = db_mutations db @ ms"
    "db' = db\<lparr>db_pairs := t, db_prices := u, db_mutations := db_mutations db @ ms\<rparr>"
    using mut t(1) u(1) by (simp add: persist_local_route_mutation_def insert_mutation_Ok)
  ultimately show ?thesis
    using configuredI [OF ok, of t u ms] by simp
qed

section \<open>Events\<close>

text \<open>What a step never takes back: price heads only advance, mutation records are only
  appended, and a negotiation is only staged for an offer that was open.\<close>

definition grows :: "'j maker_json \<Rightarrow> 'j maker_db \<Rightarrow> 'j maker_db \<Rightarrow> bool" where
  "grows J db db' \<longleftrightarrow>
     table_le head_key head_le (db_heads db) (db_heads db') \<and>
     (\<exists>ms. db_mutations db' = db_mutations db @ ms) \<and>
     db_other_negotiations db' = db_other_negotiations db \<and>
     (\<forall>row \<in> set (db_zec db'). row \<in> set (db_zec db) \<or>
        phase_acceptable (phase_of J db (MakerOfferId (zr_offer_id row))))"

definition event_sound :: "'j maker_json \<Rightarrow> 'j maker_db \<Rightarrow> 'j maker_db \<Rightarrow> bool" where
  "event_sound J db db' \<longleftrightarrow> db_ok J db' \<and> grows J db db' \<and>
     (\<forall>i. phase_of J db' i = phase_of J db i \<or> offer_move (phase_of J db i) (phase_of J db' i))"

lemma growsI:
  assumes "db_heads db' = db_heads db" "db_mutations db' = db_mutations db @ ms"
    "db_other_negotiations db' = db_other_negotiations db" "db_zec db' = db_zec db"
  shows "grows J db db'"
  using assms by (simp add: grows_def table_le_refl)

lemma grows_refl: "grows J db db"
  by (rule growsI [of _ _ "[]"]) simp_all

lemma event_sound_refl: "db_ok J db \<Longrightarrow> event_sound J db db"
  by (simp add: event_sound_def grows_refl)

lemma event_sound_configured: "configured J db db' \<Longrightarrow> event_sound J db db'"
  by (auto simp: configured_def event_sound_def phase_of_def intro!: growsI)

lemma event_sound_offer:
  assumes "db_ok J db'" "offer_step J i db c db'" "grows J db db'"
  shows "event_sound J db db'"
  using assms unfolding event_sound_def offer_step_def by (metis (full_types))

lemma insert_swap_frame:
  "insert_swap J s db = Ok db' \<Longrightarrow> \<exists>t. db' = db\<lparr>db_swaps := db_swaps db @ t\<rparr>"
  by (auto simp: insert_swap_def and_then_Inr table_insert_Ok)

lemma transition_grows:
  assumes "transition_offer_tx J rid operation rj i expected swap transition db = Ok (c, db')" "db_ok J db"
  shows "grows J db db'"
  using assms(1) db_okD(5) [OF assms(2)]
proof (cases rule: transition_cases)
  case (fresh row v state res sw db1)
  from fresh(6) have "db_heads db1 = db_heads db" "db_mutations db1 = db_mutations db"
    "db_other_negotiations db1 = db_other_negotiations db" "db_zec db1 = db_zec db"
    by (auto split: option.splits dest!: insert_swap_frame)
  with fresh(11) show ?thesis
    by (intro growsI) (simp_all add: offer_moved_def)
qed (simp add: grows_refl)

lemma insert_offer_frame:
  "insert_offer J rid r off db = Ok db' \<Longrightarrow> \<exists>t. db' = db\<lparr>db_offers := t\<rparr>"
  by (auto simp: insert_offer_def and_then_Inr)

lemma publish_local_grows:
  assumes "publish_local_offer_tx J rid i r expected now db = Ok (c, db')"
  shows "grows J db db'"
  using assms
proof (cases rule: publish_local_cases)
  case (fresh policy policy_revision price price_revision expires db1)
  with insert_offer_frame [OF fresh(11)] show ?thesis
    by (auto simp: insert_mutation_Ok intro!: growsI)
qed (simp add: grows_refl)

lemma update_head_frame:
  "update_external_price_head r identity price source observed db = Ok db' \<Longrightarrow> \<exists>t. db' = db\<lparr>db_heads := t\<rparr>"
  by (auto simp: update_external_price_head_def and_then_Inr)

lemma publish_logos_grows:
  assumes "publish_logos_offer_tx J rid i r expected price identity source observed now age db = Ok (c, db')"
    "db_ok J db" "json_ok J"
  shows "grows J db db'"
  using assms(1)
proof (cases rule: publish_logos_cases)
  case (fresh policy expires db1 db2)
  from publish_logos_keeps [OF assms(2,3,1)]
  have "table_le head_key head_le (db_heads db) (db_heads db')" by simp
  with update_head_frame [OF fresh(6)] insert_offer_frame [OF fresh(7)] fresh(8) show ?thesis
    by (auto simp: insert_mutation_Ok grows_def)
qed (simp add: grows_refl)

lemma stage_zec_grows:
  assumes "stage_zec_tx J sha256 rid i expected n db = Ok (c, db')" "db_ok J db"
  shows "grows J db db'"
  using assms(1) db_okD(5) [OF assms(2)]
proof (cases rule: stage_zec_cases)
  case (fresh row v db1)
  have "phase_of J db i = Open (mor_offer v)"
    using fresh(2,3,5) by (simp add: phase_of_def offer_row_phase_def status_phase.simps)
  with insert_zec_Ok [OF fresh(9)] fresh(11) show ?thesis
    by (auto simp: grows_def offer_moved_def table_le_refl zec_row_of_def offer_id_of_str)
qed (simp add: grows_refl)

lemma transact_sound:
  assumes "db_ok J db" "\<And>c db'. body db = Ok (c, db') \<Longrightarrow> event_sound J db db'"
  shows "event_sound J db (snd (transact MakerSqlite io body db))"
  by (rule transact_inv [where Q = "event_sound J db", OF event_sound_refl [OF assms(1)] assms(2)])

lemma transact_configured:
  assumes "db_ok J db" "\<And>c db'. body db = Ok (c, db') \<Longrightarrow> configured J db db'"
  shows "event_sound J db (snd (transact MakerSqlite io body db))"
  by (rule transact_sound [OF assms(1)]) (rule event_sound_configured [OF assms(2)])

lemma transition_sound:
  assumes "db_ok J db" "json_ok J" "operation \<noteq> ''local_route_save''" "closure_moves swap transition"
  shows "event_sound J db (snd (transition_offer J io rid operation rj i expected swap transition db))"
  unfolding transition_offer_def
proof (rule transact_sound [OF assms(1)])
  fix c db'
  assume tx: "transition_offer_tx J rid operation rj i expected swap transition db = Ok (c, db')"
  from transition_keeps [OF assms(1,2) tx assms(3,4)] transition_grows [OF tx assms(1)]
  show "event_sound J db db'" by (auto intro: event_sound_offer)
qed

lemma offer_call_sound:
  assumes ok: "db_ok J db" and json: "json_ok J" and typed: "event_typed e"
  shows "event_sound J db (snd (offer_call J sha256 e db))"
proof (cases e)
  case (PublishLocal io rid i r expected now)
  with ok json show ?thesis
    by (auto simp: publish_local_offer_inner_def intro!: transact_sound
        intro: event_sound_offer publish_local_grows dest: publish_local_keeps [OF ok json])
next
  case (PublishLogos io rid i r expected p identity source observed now age)
  with ok json show ?thesis
    by (auto simp: publish_logos_offer_def intro!: transact_sound
        intro: event_sound_offer publish_logos_grows dest: publish_logos_keeps [OF ok json])
next
  case (ReserveOffer io rid i expected res now)
  with typed show ?thesis
    by (simp add: reserve_maker_offer_def transition_sound [OF ok json] reserve_closure)
next
  case (StageZec io rid i expected n)
  show ?thesis
  proof (cases "zec_negotiation_validate n = Ok () \<and> zn_status n = ZecProposed")
    case True
    with StageZec typed show ?thesis
      by (auto simp: stage_zec_maker_negotiation_def intro!: transact_sound [OF ok]
          intro: event_sound_offer stage_zec_grows [OF _ ok]
          dest: stage_zec_keeps [OF ok json])
  next
    case False
    with StageZec have "snd (offer_call J sha256 e db) = db"
      by (cases "zec_negotiation_validate n") (auto simp: stage_zec_maker_negotiation_def)
    with event_sound_refl [OF ok] show ?thesis by simp
  qed
next
  case (ConsumeOffer query io rid i expected res swap)
  with typed show ?thesis
    by (simp add: consume_maker_offer_def transition_sound [OF ok json] consume_closure
        event_sound_refl [OF ok])
next
  case (WithdrawOffer io rid i expected)
  then show ?thesis
    by (simp add: withdraw_maker_offer_def transition_sound [OF ok json] withdraw_closure)
qed (simp_all add: event_sound_refl [OF ok])

lemma configuration_call_sound:
  assumes ok: "db_ok J db" and json: "json_ok J"
  shows "event_sound J db (snd (configure_maker_pair J io rid expected c db))"
    "event_sound J db (snd (set_local_price J io rid expected p db))"
    "event_sound J db (snd (save_local_maker_route J io rid ep eq c p db))"
  unfolding configure_maker_pair_def set_local_price_def save_local_maker_route_def
  by (auto simp: event_sound_refl [OF ok] map_err_Inr and_then_Inr
      split: sum.splits if_splits intro!: transact_configured [OF ok]
      intro: configure_keeps [OF ok json] set_price_keeps [OF ok json] save_route_keeps [OF ok json])

theorem maker_step_sound: "json_ok J \<Longrightarrow> db_ok J db \<Longrightarrow> event_sound J db (maker_step J sha256 db e)"
  unfolding maker_step_def
  by (cases e) (auto simp: configuration_call_sound event_sound_refl intro: offer_call_sound simp del: offer_call.simps)

section \<open>Runs\<close>

abbreviation store_ok :: "'j maker_json \<Rightarrow> 'j maker_db \<Rightarrow> bool" where
  "store_ok J \<equiv> \<lambda>db. json_ok J \<and> db_ok J db"

interpretation store: step_system "maker_step J sha256" "store_ok J" for J sha256
  by unfold_locales (use maker_step_sound in \<open>auto simp: event_sound_def\<close>)

lemma step_le: "store_ok J db \<Longrightarrow> phase_le (phase_of J db i) (phase_of J (maker_step J sha256 db e) i)"
  using maker_step_sound [of J db sha256 e] move_le unfolding event_sound_def
  by (metis phase_le_refl)

interpretation phases: step_order "maker_step J sha256" "store_ok J"
  "\<lambda>a b. phase_le (phase_of J a i) (phase_of J b i)" for J sha256 i
  by unfold_locales (auto intro: phase_le_trans step_le)

interpretation heads: step_order "maker_step J sha256" "store_ok J"
  "\<lambda>a b. table_le head_key head_le (db_heads a) (db_heads b)" for J sha256
proof unfold_locales
  show "table_le head_key head_le (db_heads a) (db_heads a)" for a :: "'a maker_db"
    by (rule table_le_refl) simp
  show "table_le head_key head_le (db_heads a) (db_heads c)"
    if "table_le head_key head_le (db_heads a) (db_heads b)"
      "table_le head_key head_le (db_heads b) (db_heads c)" for a b c :: "'a maker_db"
    by (rule table_le_trans [OF that]) (rule head_le_trans)
  show "table_le head_key head_le (db_heads db) (db_heads (maker_step J sha256 db e))"
    if "store_ok J db" for db e
    using maker_step_sound [of J db sha256 e] that by (simp add: event_sound_def grows_def)
qed

interpretation records: step_order "maker_step J sha256" "store_ok J"
  "\<lambda>a b. \<exists>ms. db_mutations b = db_mutations a @ ms" for J sha256
  by unfold_locales
    (use maker_step_sound [of J _ sha256] in \<open>auto simp: event_sound_def grows_def\<close>)

section \<open>Acceptance\<close>

fun acceptance_of :: "maker_event \<Rightarrow> request_id option" where
  "acceptance_of (ReserveOffer io rid i expected res now) = Some res"
| "acceptance_of (StageZec io rid i expected n) = Some (zn_reservation_id n)"
| "acceptance_of _ = None"

lemma fresh_commitE:
  assumes "fresh_commit (fst (transact MakerSqlite io body db))"
  obtains c db' where "body db = Ok (c, db')" "\<not> moc_was_replay c"
    "snd (transact MakerSqlite io body db) = db'"
  using assms by (auto simp: fresh_commit_def transact_fst_Ok split: sum.splits)

lemma map_request_id_Some:
  "Some (request_id_str r) = map_option request_id_str x \<longleftrightarrow> x = Some r"
  by (cases x) auto

lemma reserve_fresh:
  assumes "store_ok J db" "request_valid res"
    "fresh_commit (fst (reserve_maker_offer J io rid i expected res now db))"
  shows "\<exists>off. phase_of J db i = Open off \<and>
    phase_of J (snd (reserve_maker_offer J io rid i expected res now db)) i = Held off res"
proof -
  from assms(3) obtain c db' where
    tx: "transition_offer_tx J rid ''offer_reserve'' (js_request J (ReserveRequest i expected res now))
      i expected None (reserve_transition res now) db = Ok (c, db')"
    and c: "\<not> moc_was_replay c"
    and db': "snd (reserve_maker_offer J io rid i expected res now db) = db'"
    unfolding reserve_maker_offer_def transition_offer_def by (rule fresh_commitE)
  from transition_keeps [OF _ _ tx _ reserve_closure [OF assms(2)]] assms(1) c
  have move: "offer_move (phase_of J db i) (phase_of J db' i)"
    and did: "transition_done J rid i expected (reserve_transition res now) db db'"
    by (simp_all add: offer_step_def)
  from did obtain off where "phase_of J db i = Open off"
    "phase_winner (phase_of J db' i) = Some res"
    by (auto simp: transition_done_def reserve_transition_def status_phase.simps map_request_id_Some
        split: if_splits)
  with move db' show ?thesis by auto
qed

lemma stage_fresh:
  assumes "store_ok J db" "zec_typed n"
    "fresh_commit (fst (stage_zec_maker_negotiation J sha256 io rid i expected n db))"
  shows "\<exists>off. phase_of J db i = Open off \<and>
    phase_of J (snd (stage_zec_maker_negotiation J sha256 io rid i expected n db)) i =
      Held off (zn_reservation_id n)"
proof -
  have n: "zec_negotiation_validate n = Ok ()" "zn_status n = ZecProposed"
    using assms(3) by (auto simp: stage_zec_maker_negotiation_def fresh_commit_def map_err_Inr
        split: sum.splits if_splits)
  then have stage: "stage_zec_maker_negotiation J sha256 io rid i expected n db =
      transact MakerSqlite io (stage_zec_tx J sha256 rid i expected n) db"
    by (simp add: stage_zec_maker_negotiation_def)
  from assms(3) obtain c db' where tx: "stage_zec_tx J sha256 rid i expected n db = Ok (c, db')"
    and c: "\<not> moc_was_replay c"
    and db': "snd (stage_zec_maker_negotiation J sha256 io rid i expected n db) = db'"
    unfolding stage by (rule fresh_commitE)
  from stage_zec_keeps [OF _ _ assms(2) n tx] assms(1) c db' show ?thesis by simp
qed

lemma accepted_move:
  assumes "store_ok J db" "offer_accepted J sha256 i db e"
  obtains off res where "phase_of J db i = Open off" "acceptance_of e = Some res"
    "phase_of J (maker_step J sha256 db e) i = Held off res"
proof (cases e)
  case (ReserveOffer io rid j expected res now)
  with assms reserve_fresh [OF assms(1), of res io rid i expected now] that show thesis
    by (auto simp: offer_accepted_def maker_step_def)
next
  case (StageZec io rid j expected n)
  with assms stage_fresh [OF assms(1), of n sha256 io rid i expected] that show thesis
    by (auto simp: offer_accepted_def maker_step_def)
qed (use assms(2) in \<open>simp_all add: offer_accepted_def\<close>)

interpretation winner: once_only "maker_step J sha256" "store_ok J" "offer_accepted J sha256 i"
  "\<lambda>db. phase_acceptable (phase_of J db i)" for J sha256 i
proof unfold_locales
  show "phase_acceptable (phase_of J db i)"
    if "store_ok J db" "offer_accepted J sha256 i db e" for db e
    by (rule accepted_move [OF that]) simp
  show "\<not> phase_acceptable (phase_of J (maker_step J sha256 db e) i)"
    if "store_ok J db" "offer_accepted J sha256 i db e" for db e
    by (rule accepted_move [OF that]) simp
  show "\<not> phase_acceptable (phase_of J (maker_step J sha256 db e) i)"
    if "store_ok J db" "\<not> phase_acceptable (phase_of J db i)" for db e
    using step_le [OF that(1)] that(2) by (auto simp: phase_le_def)
qed

lemma reachable_ok: "json_ok J \<Longrightarrow> db_ok J (run (maker_step J sha256) empty_db es)"
  using store.run_inv [of J empty_db sha256 es] by (simp add: empty_db_ok)

end
