(* ===== verification/Maker_Calls.thy ===== *)
theory Maker_Calls
  imports Maker_Runs
begin

text \<open>
  The exact answers of the maker store's calls on a store that satisfies the invariant: a
  transition succeeds exactly when its closure accepts the current record, a committed call
  is replayed by every later identical call, and the listings are the open, live offers.
\<close>

section \<open>Transitions succeed\<close>

lemma decode_offer_check:
  assumes "decode_offer_tuple J row 0 = Ok v"
  shows "offer_row_check row"
proof -
  from assms have row: "or_payload_version row = 1" "or_revision row > 0"
    "or_pair row = pair_name (rt_pair (offer_route (mor_offer v)))"
    "or_direction row = direction_name (rt_direction (offer_route (mor_offer v)))"
    and v: "offer_validate (mor_offer v) = Ok ()"
    and exp: "or_expires_at row = uint (of_expires_at (mor_offer v))"
    and shape: "or_state row = status_column (mor_status v)"
      "status_shape (mor_status v) (mor_reservation_id v) (mor_swap_id v)"
      "or_reservation_id row = map_option request_id_str (mor_reservation_id v)"
      "or_swap_id row = mor_swap_id v"
    by (simp_all add: decode_offer_Ok)
  from v have "route_validate (offer_route (mor_offer v)) = Ok ()"
    by (simp add: offer_validate_Ok pair_configuration_validate_Ok offer_route_def)
  from route_columns_check_Ok [OF this] row(3,4)
  have "route_columns_check (or_pair row) (or_direction row)" by simp
  moreover have "or_expires_at row > 0"
    using v exp by (auto simp: offer_validate_Ok)
  moreover have "or_state row \<in> {''active'', ''withdrawn''}
        \<and> or_reservation_id row = None \<and> or_swap_id row = None
      \<or> or_state row = ''reserved'' \<and> or_reservation_id row \<noteq> None \<and> or_swap_id row = None
      \<or> or_state row = ''consumed'' \<and> or_reservation_id row \<noteq> None \<and> or_swap_id row \<noteq> None"
    using shape by (cases "mor_status v") (simp_all add: status_shape_def)
  ultimately show ?thesis
    using row(1,2) by (simp add: offer_row_check_def)
qed

lemma phase_revision_small:
  "checked_add (phase_revision p) 1 = Some (phase_revision p + 1)"
  "phase_revision p + 1 \<le> i64_max" "phase_revision p \<le> i64_max"
  by (cases p; simp add: checked_add_def i64_max_def)+

lemma update_offer_row:
  assumes "distinct (map or_offer_id (db_offers db))" "row_at or_offer_id (db_offers db) k = Some row"
    "P row" "\<And>x. P x \<Longrightarrow> or_offer_id x = k" "offer_row_check (f row)"
    "\<And>s. or_swap_id (f row) = Some s \<Longrightarrow> s \<in> sw_id ` set (db_swaps db)"
  shows "update_offer P f db = Ok (1, db\<lparr>db_offers := replace_row row (f row) (db_offers db)\<rparr>)"
  unfolding update_offer_def
  by (subst table_update_row [where key = or_offer_id and k = k and r = row])
    (use assms in \<open>auto split: option.split\<close>)

lemma transition_exact:
  assumes ok: "db_ok J db" and none: "mutation_at db rid = None"
    and operation: "operation \<in> set mutation_operations" and closure: "closure_moves swap transition"
    and row: "row_at or_offer_id (db_offers db) (offer_id_str i) = Some row"
    and v: "decode_offer_tuple J row 0 = Ok v"
  shows "transition_offer_tx J rid operation rj i expected swap transition db =
    (if mor_revision v \<noteq> expected then Err (StaleMakerOffer expected (mor_revision v))
     else and_then (transition v) (\<lambda>(state, res, sw).
       and_then (case swap of None \<Rightarrow> Ok db | Some s \<Rightarrow> insert_swap J s db) (\<lambda>db1.
       Ok (\<lparr>moc_revision = expected + 1, moc_was_replay = False\<rparr>,
           offer_moved J rid operation rj row (expected + 1) state res sw db1))))"
proof -
  have load: "load_offer J db i 0 = Ok (Some v)"
    using row v by (simp add: load_offer_def)
  have replay: "replay_offer_mutation J db rid operation rj = Ok None"
    using none by simp
  have rev: "mor_revision v = phase_revision (status_phase v)"
    using offer_row_okD [OF db_okD(1) [OF ok] row] v by (metis Inr_inject)
  show ?thesis
  proof (cases "mor_revision v = expected \<and> (\<exists>state res sw db1. transition v = Ok (state, res, sw) \<and>
      (case swap of None \<Rightarrow> Ok db | Some s \<Rightarrow> insert_swap J s db) = Ok db1)")
    case False
    then show ?thesis
      unfolding transition_offer_tx_def replay load
      by (auto simp: and_then_def split: sum.split)
  next
    case True
    then obtain state res sw db1 where expected: "mor_revision v = expected"
      and tr: "transition v = Ok (state, res, sw)"
      and ins: "(case swap of None \<Rightarrow> Ok db | Some s \<Rightarrow> insert_swap J s db) = Ok db1" by auto
    have shape: "status_shape (mor_status v) (mor_reservation_id v) (mor_swap_id v)"
      "\<forall>i. mor_reservation_id v = Some i \<longrightarrow> request_valid i"
      using v by (simp_all add: decode_offer_Ok)
    obtain st r where st: "state = status_column st" "res = map_option request_id_str r"
      "status_shape st r sw" "\<And>i. r = Some i \<Longrightarrow> request_valid i" "\<And>i. sw = Some i \<Longrightarrow> swap_id_valid i"
      "sw = map_option (\<lambda>s. swap_id_str (sc_id s)) swap"
      by (rule closure_movesE [OF closure tr shape]) blast
    note small = phase_revision_small [of "status_phase v", folded rev, unfolded expected]
    have check: "offer_row_check (moved_row rid (expected + 1) state res sw row)"
      unfolding st(1,2)
      by (rule decode_offer_check [OF moved_row_decode [OF v st(3) checked_add_nonzero [OF small(1)] st(4,5)]])
    have same: "db_offers db1 = db_offers db" "db_mutations db1 = db_mutations db"
      "\<And>s. sw = Some s \<Longrightarrow> s \<in> sw_id ` set (db_swaps db1)"
      using ins st(6) by (auto simp: insert_swap_def and_then_Inr table_insert_Ok split: option.splits)
    have upd: "update_offer
         (\<lambda>row. or_offer_id row = offer_id_str i \<and> or_revision row = uint expected)
         (\<lambda>row. row\<lparr>or_state := state, or_revision := uint (expected + 1), or_reservation_id := res,
            or_swap_id := sw, or_updated_request_id := request_id_str rid\<rparr>) db1 =
        Ok (1, db1\<lparr>db_offers := replace_row row (moved_row rid (expected + 1) state res sw row)
           (db_offers db1)\<rparr>)"
      unfolding moved_row_def [symmetric]
      by (rule update_offer_row)
        (use db_okD(5) [OF ok] row row_at_Some [OF row] v check same expected in
          \<open>simp_all add: decode_offer_Ok moved_row_def\<close>)
    have mut: "insert_mutation (mutation_of J rid operation rj (expected + 1))
         (db1\<lparr>db_offers := t\<rparr>) =
        Ok (db1\<lparr>db_offers := t, db_mutations := db_mutations db @ [mutation_of J rid operation rj (expected + 1)]\<rparr>)"
      for t
      unfolding insert_mutation_Ok using none same(2) operation
      by (simp add: mutation_of_def mutation_check_def mutation_at_None)
    show ?thesis
      unfolding transition_offer_tx_def replay load
      using expected tr ins small upd mut same
      by (simp add: u64_to_sql_def to_i64_def not_less persist_offer_mutation_eq offer_moved_def)
  qed
qed

text \<open>The answer of a transition without a swap, read off the abstract phase.\<close>

lemma phase_terms_row:
  assumes "db_ok J db"
  shows "phase_terms (phase_of J db i) = None \<longleftrightarrow>
    row_at or_offer_id (db_offers db) (offer_id_str i) = None"
proof (cases "row_at or_offer_id (db_offers db) (offer_id_str i)")
  case (Some row)
  obtain v where "decode_offer_tuple J row 0 = Ok v" "offer_row_phase J row = status_phase v"
    by (rule offer_row_okD [OF db_okD(1) [OF assms] Some])
  with Some show ?thesis
    using status_phase_shape(1) [of v] by (simp add: phase_of_def decode_offer_Ok)
qed (simp add: phase_of_def)

lemma phase_of_Some:
  assumes "db_ok J db" "phase_terms (phase_of J db i) = Some off"
  obtains row v where "row_at or_offer_id (db_offers db) (offer_id_str i) = Some row"
    "decode_offer_tuple J row 0 = Ok v" "phase_of J db i = status_phase v" "mor_offer v = off"
    "mor_revision v = phase_revision (phase_of J db i)"
    "phase_acceptable (phase_of J db i) \<longleftrightarrow> mor_status v = OfferActive"
proof -
  from assms phase_terms_row [OF assms(1), of i] obtain row where
    row: "row_at or_offer_id (db_offers db) (offer_id_str i) = Some row" by fastforce
  obtain v where v: "decode_offer_tuple J row 0 = Ok v" "offer_row_phase J row = status_phase v"
    "mor_revision v = phase_revision (status_phase v)"
    by (rule offer_row_okD [OF db_okD(1) [OF assms(1)] row])
  have phase: "phase_of J db i = status_phase v" using row v(2) by (simp add: phase_of_def)
  have shape: "status_shape (mor_status v) (mor_reservation_id v) (mor_swap_id v)"
    using v(1) by (simp add: decode_offer_Ok)
  from status_phase_shape [OF shape] assms(2) phase row v show thesis
    by (intro that [of row v]) simp_all
qed

lemma transition_missing:
  assumes "db_ok J db" "mutation_at db rid = None" "phase_terms (phase_of J db i) = None"
  shows "transition_offer_tx J rid operation rj i expected swap transition db = Err MissingMakerOffer"
proof -
  have load: "load_offer J db i 0 = Ok None"
    using assms(3) phase_terms_row [OF assms(1), of i] by (simp add: load_offer_def)
  have replay: "replay_offer_mutation J db rid operation rj = Ok None"
    using assms(2) by simp
  show ?thesis
    unfolding transition_offer_tx_def replay load by simp
qed

lemma reserve_answer:
  assumes ok: "db_ok J db" and none: "mutation_at db rid = None" and valid: "request_valid res"
    and io: "begin_ok io" "commit_ok io"
  shows "fst (reserve_maker_offer J io rid i expected res now db) =
    (case phase_terms (phase_of J db i) of
       None \<Rightarrow> Err MissingMakerOffer
     | Some off \<Rightarrow>
         if phase_revision (phase_of J db i) \<noteq> expected
         then Err (StaleMakerOffer expected (phase_revision (phase_of J db i)))
         else if now > i64_max \<or> now \<ge> of_expires_at off then Err MakerOfferExpired
         else if \<not> phase_acceptable (phase_of J db i) then Err MakerOfferUnavailable
         else Ok \<lparr>moc_revision = expected + 1, moc_was_replay = False\<rparr>)"
proof (cases "phase_terms (phase_of J db i)")
  case None
  with io show ?thesis
    by (simp add: reserve_maker_offer_def transition_offer_def transact_def end_transaction_def
        transition_missing [OF ok none None])
next
  case (Some off)
  obtain row v where rv: "row_at or_offer_id (db_offers db) (offer_id_str i) = Some row"
    "decode_offer_tuple J row 0 = Ok v" "mor_offer v = off"
    "mor_revision v = phase_revision (phase_of J db i)"
    "phase_acceptable (phase_of J db i) \<longleftrightarrow> mor_status v = OfferActive"
    by (rule phase_of_Some [OF ok Some]) blast
  have "''offer_reserve'' \<in> set mutation_operations" by (simp add: mutation_operations_def)
  from transition_exact [OF ok none this reserve_closure [OF valid] rv(1,2)] rv(3-5) Some io
  show ?thesis
    by (simp add: reserve_maker_offer_def transition_offer_def transact_def end_transaction_def
        reserve_transition_def)
qed

text \<open>Binding a reserved offer: the swap must be new, of the route of the offer and not yet
  started, and the call must come from the winner.\<close>

lemma consume_answer:
  assumes ok: "db_ok J db" and none: "mutation_at db rid = None"
    and valid: "swap_id_valid (swap_id_str (sc_id swap))"
    and free: "offer_id_str i \<notin> set (map zr_offer_id (db_zec db))"
      "offer_id_str i \<notin> set (db_other_negotiations db)"
    and io: "begin_ok io" "commit_ok io"
  shows "fst (consume_maker_offer J True io rid i expected res swap db) =
    (case phase_terms (phase_of J db i) of
       None \<Rightarrow> Err MissingMakerOffer
     | Some off \<Rightarrow>
         if phase_revision (phase_of J db i) \<noteq> expected
         then Err (StaleMakerOffer expected (phase_revision (phase_of J db i)))
         else if phase_of J db i \<noteq> Held off res then Err MakerOfferReservationConflict
         else if offer_route off \<noteq> \<lparr>rt_pair = sc_pair swap, rt_direction = sc_direction swap\<rparr>
           \<or> sc_phase swap \<noteq> Offered then Err MakerOfferSwapMismatch
         else if swap_id_str (sc_id swap) \<in> sw_id ` set (db_swaps db) then Err MakerSqlite
         else Ok \<lparr>moc_revision = expected + 1, moc_was_replay = False\<rparr>)"
proof (cases "phase_terms (phase_of J db i)")
  case None
  with io free show ?thesis
    by (simp add: consume_maker_offer_def transition_offer_def transact_def end_transaction_def
        transition_missing [OF ok none None])
next
  case (Some off)
  obtain row v where rv: "row_at or_offer_id (db_offers db) (offer_id_str i) = Some row"
    "decode_offer_tuple J row 0 = Ok v" "mor_offer v = off"
    "mor_revision v = phase_revision (phase_of J db i)" "phase_of J db i = status_phase v"
    by (rule phase_of_Some [OF ok Some]) blast
  have shape: "status_shape (mor_status v) (mor_reservation_id v) (mor_swap_id v)"
    using rv(2) by (simp add: decode_offer_Ok)
  have held: "phase_of J db i = Held off res \<longleftrightarrow>
      mor_status v = OfferReserved \<and> mor_reservation_id v = Some res"
    using shape rv(3,5) by (cases "mor_status v") (auto simp: status_shape_def status_phase.simps)
  have route: "offer_route off = \<lparr>rt_pair = sc_pair swap, rt_direction = sc_direction swap\<rparr> \<longleftrightarrow>
      rt_pair (offer_route off) = sc_pair swap \<and> rt_direction (offer_route off) = sc_direction swap"
    by (cases "offer_route off") simp
  have swap: "insert_swap J swap db = (if swap_id_str (sc_id swap) \<in> sw_id ` set (db_swaps db)
      then Err MakerSqlite else Ok (db\<lparr>db_swaps := db_swaps db @
        [\<lparr>sw_id = swap_id_str (sc_id swap), sw_schema_version = swap_payload_version,
          sw_state_json = js_swap J swap, sw_revision = 0\<rparr>]\<rparr>))"
    by (auto simp: insert_swap_def table_insert_def list_ex_iff)
  have "''offer_consume'' \<in> set mutation_operations" by (simp add: mutation_operations_def)
  from transition_exact [OF ok none this consume_closure [OF valid] rv(1,2)] rv(3,4) Some io free
  show ?thesis
    by (simp add: consume_maker_offer_def transition_offer_def transact_def end_transaction_def
        consume_transition_def held route swap)
qed

section \<open>Replay\<close>

lemma mutation_at_new:
  "mutation_at db rid = None \<Longrightarrow>
   db_mutations db' = db_mutations db @ [mutation_of J rid operation rj revision] \<Longrightarrow>
   mutation_at db' rid = Some (mutation_of J rid operation rj revision)"
  by (simp add: mutation_at_def row_at_append mutation_of_def)

lemma mutation_at_kept:
  assumes "mutation_at db rid = Some row" "db_mutations db' = db_mutations db @ ms"
  shows "mutation_at db' rid = Some row"
proof -
  have "row_at key (t @ u) k = Some r" if "row_at key t k = Some r" for key :: "'x \<Rightarrow> 'y" and t u k r
    using that by (induction t) (auto simp: row_at_def split: if_splits)
  with assms show ?thesis by (simp add: mutation_at_def)
qed

lemma recorded_replays:
  "json_ok J \<Longrightarrow> mutation_at db rid = Some (mutation_of J rid operation rj revision) \<Longrightarrow> revision \<noteq> 0 \<Longrightarrow>
   replay_offer_mutation J db rid operation rj =
     Ok (Some \<lparr>moc_revision = revision, moc_was_replay = True\<rparr>)"
  by (simp add: replay_offer_mutation_def mutation_of_def json_ok_def)

text \<open>The record under which a call is replayed, and the guard \<open>consume_maker_offer\<close> takes
  before it looks at that record.\<close>

fun call_key ::
    "'j maker_json \<Rightarrow> (bytes \<Rightarrow> bytes) \<Rightarrow> maker_event \<Rightarrow> (request_id \<times> string \<times> 'j) option" where
  "call_key J sha256 (PublishLocal io rid i r expected now) =
     Some (rid, publish_operation expected, js_request J (publish_request i r expected))"
| "call_key J sha256 (PublishLogos io rid i r expected p identity source observed now age) =
     Some (rid, ''offer_publish'', js_request J (PublishRequest i r))"
| "call_key J sha256 (ReserveOffer io rid i expected res now) =
     Some (rid, ''offer_reserve'', js_request J (ReserveRequest i expected res now))"
| "call_key J sha256 (StageZec io rid i expected n) =
     Some (rid, ''zec_negotiation_stage'', js_request J (stage_zec_request sha256 i expected n))"
| "call_key J sha256 (ConsumeOffer query io rid i expected res swap) =
     Some (rid, ''offer_consume'', js_request J (ConsumeRequest i expected res swap))"
| "call_key J sha256 (WithdrawOffer io rid i expected) =
     Some (rid, ''offer_withdraw'', js_request J (WithdrawRequest i expected))"
| "call_key J sha256 _ = None"

definition unstaged :: "maker_offer_id \<Rightarrow> 'j maker_db \<Rightarrow> bool" where
  "unstaged i db \<longleftrightarrow> offer_id_str i \<notin> set (map zr_offer_id (db_zec db)) \<and>
     offer_id_str i \<notin> set (db_other_negotiations db)"

fun consume_guard :: "maker_event \<Rightarrow> 'j maker_db \<Rightarrow> bool" where
  "consume_guard (ConsumeOffer query io rid i expected res swap) db \<longleftrightarrow> unstaged i db"
| "consume_guard _ db \<longleftrightarrow> True"

lemma transact_Ok_io:
  "fst (transact MakerSqlite io body db) = Ok c \<Longrightarrow> begin_ok io \<and> commit_ok io \<and>
     body db = Ok (c, snd (transact MakerSqlite io body db))"
  by (auto simp: transact_fst_Ok)

lemma transact_replay:
  "begin_ok io \<Longrightarrow> commit_ok io \<Longrightarrow> body db = Ok (c, db) \<Longrightarrow> transact MakerSqlite io body db = (Ok c, db)"
  by (simp add: transact_def end_transaction_def)

lemma transition_replays:
  "replay_offer_mutation J db rid operation rj = Ok (Some c) \<Longrightarrow>
   transition_offer_tx J rid operation rj i expected swap transition db = Ok (c, db)"
  by (simp add: transition_offer_tx_def)

lemma publish_local_replays:
  "replay_offer_mutation J db rid (publish_operation expected)
     (js_request J (publish_request i r expected)) = Ok (Some c) \<Longrightarrow>
   publish_local_offer_tx J rid i r expected now db = Ok (c, db)"
  by (cases expected)
    (auto simp: publish_local_offer_tx_def publish_operation_def publish_request_def Let_def)

text \<open>A call that answered once is open to replay: its transaction was possible, and when the
  record is found nothing else is read or written.\<close>

lemma answered_call_replays:
  assumes "fst (offer_call J sha256 e db0) = Ok c0" "call_key J sha256 e = Some (rid, operation, rj)"
    "replay_offer_mutation J db rid operation rj = Ok (Some c)" "consume_guard e db"
  shows "offer_call J sha256 e db = (Ok c, db)"
proof (cases e)
  case (PublishLocal io rid' i r expected now)
  with assms show ?thesis
    by (auto simp: publish_local_offer_inner_def dest!: transact_Ok_io
        intro!: transact_replay publish_local_replays)
next
  case (PublishLogos io rid' i r expected p identity source observed now age)
  with assms show ?thesis
    by (auto simp: publish_logos_offer_def publish_logos_offer_tx_def dest!: transact_Ok_io
        intro!: transact_replay)
next
  case (ReserveOffer io rid' i expected res now)
  with assms show ?thesis
    by (auto simp: reserve_maker_offer_def transition_offer_def dest!: transact_Ok_io
        intro!: transact_replay transition_replays)
next
  case (StageZec io rid' i expected n)
  from assms(1) StageZec have n: "zec_negotiation_validate n = Ok ()" "zn_status n = ZecProposed"
    and io: "begin_ok io" "commit_ok io"
    by (auto simp: stage_zec_maker_negotiation_def map_err_Inr split: sum.splits if_splits
        dest!: transact_Ok_io)
  with StageZec assms(2,3) show ?thesis
    by (auto simp: stage_zec_maker_negotiation_def stage_zec_tx_def intro!: transact_replay)
next
  case (ConsumeOffer query io rid' i expected res swap)
  from assms(1) ConsumeOffer have "query" "begin_ok io" "commit_ok io"
    by (auto simp: consume_maker_offer_def transition_offer_def split: if_splits dest!: transact_Ok_io)
  with ConsumeOffer assms(2-) show ?thesis
    by (auto simp: consume_maker_offer_def transition_offer_def unstaged_def
        intro!: transact_replay transition_replays)
next
  case (WithdrawOffer io rid' i expected)
  with assms show ?thesis
    by (auto simp: withdraw_maker_offer_def transition_offer_def dest!: transact_Ok_io
        intro!: transact_replay transition_replays)
qed (use assms(2) in simp_all)

lemma transition_records:
  assumes "transition_offer_tx J rid operation rj i expected swap transition db = Ok (c, db')"
    "db_ok J db" "\<not> moc_was_replay c"
  shows "mutation_at db' rid = Some (mutation_of J rid operation rj (moc_revision c)) \<and>
    moc_revision c \<noteq> 0"
  using assms(1) db_okD(5) [OF assms(2)]
proof (cases rule: transition_cases)
  case (fresh row v state res sw db1)
  from fresh(6) have "db_mutations db1 = db_mutations db"
    by (auto split: option.splits dest!: insert_swap_frame)
  with fresh(1,11,12) checked_add_nonzero [OF fresh(7)] show ?thesis
    by (auto intro!: mutation_at_new simp: offer_moved_def)
qed (use assms(3) in simp)

lemma publish_local_records:
  assumes "publish_local_offer_tx J rid i r expected now db = Ok (c, db')" "\<not> moc_was_replay c"
  shows "mutation_at db' rid = Some (mutation_of J rid (publish_operation expected)
      (js_request J (publish_request i r expected)) (moc_revision c)) \<and> moc_revision c \<noteq> 0"
  using assms(1)
proof (cases rule: publish_local_cases)
  case (fresh policy policy_revision price price_revision expires db1)
  with insert_offer_frame [OF fresh(11)] show ?thesis
    by (auto simp: insert_mutation_Ok intro!: mutation_at_new)
qed (use assms(2) in simp)

lemma publish_logos_records:
  assumes "publish_logos_offer_tx J rid i r expected price identity source observed now age db = Ok (c, db')"
    "\<not> moc_was_replay c"
  shows "mutation_at db' rid = Some (mutation_of J rid ''offer_publish''
      (js_request J (PublishRequest i r)) (moc_revision c)) \<and> moc_revision c \<noteq> 0"
  using assms(1)
proof (cases rule: publish_logos_cases)
  case (fresh policy expires db1 db2)
  with update_head_frame [OF fresh(6)] insert_offer_frame [OF fresh(7)] show ?thesis
    by (auto simp: insert_mutation_Ok intro!: mutation_at_new)
qed (use assms(2) in simp)

lemma stage_zec_records:
  assumes "stage_zec_tx J sha256 rid i expected n db = Ok (c, db')" "db_ok J db" "\<not> moc_was_replay c"
  shows "mutation_at db' rid = Some (mutation_of J rid ''zec_negotiation_stage''
      (js_request J (stage_zec_request sha256 i expected n)) (moc_revision c)) \<and> moc_revision c \<noteq> 0"
  using assms(1) db_okD(5) [OF assms(2)]
proof (cases rule: stage_zec_cases)
  case (fresh row v db1)
  with insert_zec_Ok [OF fresh(9)] checked_add_nonzero [OF fresh(10)] show ?thesis
    by (auto intro!: mutation_at_new simp: offer_moved_def)
qed (use assms(3) in simp)

lemma fresh_call_records:
  assumes "db_ok J db" "fst (offer_call J sha256 e db) = Ok c" "\<not> moc_was_replay c"
  obtains rid operation rj where "call_key J sha256 e = Some (rid, operation, rj)"
    "mutation_at (snd (offer_call J sha256 e db)) rid = Some (mutation_of J rid operation rj (moc_revision c))"
    "moc_revision c \<noteq> 0"
proof (cases e)
  case (PublishLocal io rid i r expected now)
  with assms(2) publish_local_records [of J rid i r expected now db c, OF _ assms(3)] that show thesis
    by (auto simp: publish_local_offer_inner_def dest!: transact_Ok_io)
next
  case (PublishLogos io rid i r expected p identity source observed now age)
  with assms(2) publish_logos_records [OF _ assms(3), of J rid i r expected p identity source observed
      now age db] that show thesis
    by (auto simp: publish_logos_offer_def dest!: transact_Ok_io)
next
  case (ReserveOffer io rid i expected res now)
  with assms(2) transition_records [OF _ assms(1,3)] that show thesis
    by (auto simp: reserve_maker_offer_def transition_offer_def dest!: transact_Ok_io)
next
  case (StageZec io rid i expected n)
  from assms(2) StageZec have tx: "stage_zec_tx J sha256 rid i expected n db =
      Ok (c, snd (offer_call J sha256 e db))"
    by (auto simp: stage_zec_maker_negotiation_def split: sum.splits if_splits dest!: transact_Ok_io)
  with StageZec stage_zec_records [OF tx assms(1,3)] that show thesis by simp
next
  case (ConsumeOffer query io rid i expected res swap)
  with assms(2) transition_records [OF _ assms(1,3)] that show thesis
    by (auto simp: consume_maker_offer_def transition_offer_def split: if_splits dest!: transact_Ok_io)
next
  case (WithdrawOffer io rid i expected)
  with assms(2) transition_records [OF _ assms(1,3)] that show thesis
    by (auto simp: withdraw_maker_offer_def transition_offer_def dest!: transact_Ok_io)
qed (use assms(2) in simp_all)

lemma offer_call_step:
  "event_typed e \<Longrightarrow> call_key J sha256 e \<noteq> None \<Longrightarrow>
   maker_step J sha256 db e = snd (offer_call J sha256 e db)"
  by (cases e) (simp_all add: maker_step_def)

text \<open>Once an offer is no longer open, nothing stages a negotiation for it.\<close>

lemma unstaged_step:
  assumes "store_ok J db" "\<not> phase_acceptable (phase_of J db i)" "unstaged i db"
  shows "unstaged i (maker_step J sha256 db e)"
proof -
  let ?db = "maker_step J sha256 db e"
  from maker_step_sound [of J db sha256 e] assms(1)
  have other: "db_other_negotiations ?db = db_other_negotiations db"
    and zec: "row \<in> set (db_zec ?db) \<Longrightarrow> row \<in> set (db_zec db) \<or>
      phase_acceptable (phase_of J db (MakerOfferId (zr_offer_id row)))" for row
    by (simp_all add: event_sound_def grows_def)
  have "zr_offer_id row \<noteq> offer_id_str i" if "row \<in> set (db_zec ?db)" for row
    using zec [OF that] assms(2,3) offer_id_of_str [of i]
    by (metis image_eqI list.set_map unstaged_def)
  then have "offer_id_str i \<notin> set (map zr_offer_id (db_zec ?db))" by force
  with other assms(3) show ?thesis by (simp add: unstaged_def)
qed

interpretation settled: step_system "maker_step J sha256"
  "\<lambda>db. store_ok J db \<and> \<not> phase_acceptable (phase_of J db i) \<and> unstaged i db" for J sha256 i
proof unfold_locales
  fix db e
  assume inv: "store_ok J db \<and> \<not> phase_acceptable (phase_of J db i) \<and> unstaged i db"
  then have ok: "store_ok J db" by simp
  show "store_ok J (maker_step J sha256 db e) \<and>
      \<not> phase_acceptable (phase_of J (maker_step J sha256 db e) i) \<and> unstaged i (maker_step J sha256 db e)"
    using store.step_inv [OF ok] winner.stays_disarmed [OF ok] unstaged_step [OF ok] inv by simp
qed

lemma consume_settles:
  assumes "store_ok J db" "event_typed (ConsumeOffer query io rid i expected res swap)"
    "fresh_commit (fst (consume_maker_offer J query io rid i expected res swap db))"
  shows "\<not> phase_acceptable (phase_of J db i) \<and> unstaged i db"
proof -
  from assms(3) have unstaged: "unstaged i db"
    and call: "consume_maker_offer J query io rid i expected res swap db =
      transition_offer J io rid ''offer_consume'' (js_request J (ConsumeRequest i expected res swap))
        i expected (Some swap) (consume_transition res swap) db"
    by (auto simp: consume_maker_offer_def unstaged_def fresh_commit_def split: if_splits)
  from assms(3) obtain c db' where
    tx: "transition_offer_tx J rid ''offer_consume'' (js_request J (ConsumeRequest i expected res swap))
      i expected (Some swap) (consume_transition res swap) db = Ok (c, db')"
    and c: "\<not> moc_was_replay c"
    unfolding call transition_offer_def by (rule fresh_commitE)
  have "swap_id_valid (swap_id_str (sc_id swap))" using assms(2) by simp
  from transition_keeps [OF _ _ tx _ consume_closure [OF this]] assms(1) c
  have "transition_done J rid i expected (consume_transition res swap) db db'" by simp
  then have "\<not> phase_acceptable (phase_of J db i)"
    by (auto simp: transition_done_def consume_transition_def status_phase.simps status_shape_def
        split: if_splits option.splits)
  with unstaged show ?thesis by simp
qed

lemma consume_fresh:
  assumes ok: "store_ok J db" and typed: "event_typed (ConsumeOffer query io rid i expected res swap)"
    and fresh: "fresh_commit (fst (consume_maker_offer J query io rid i expected res swap db))"
  shows "\<exists>off. phase_of J db i = Held off res \<and>
    phase_of J (snd (consume_maker_offer J query io rid i expected res swap db)) i =
      Bound off res (swap_id_str (sc_id swap))"
proof -
  from fresh have call: "consume_maker_offer J query io rid i expected res swap db =
      transition_offer J io rid ''offer_consume'' (js_request J (ConsumeRequest i expected res swap))
        i expected (Some swap) (consume_transition res swap) db"
    by (auto simp: consume_maker_offer_def fresh_commit_def split: if_splits)
  from fresh obtain c db' where
    tx: "transition_offer_tx J rid ''offer_consume'' (js_request J (ConsumeRequest i expected res swap))
      i expected (Some swap) (consume_transition res swap) db = Ok (c, db')"
    and c: "\<not> moc_was_replay c"
    and db': "snd (consume_maker_offer J query io rid i expected res swap db) = db'"
    unfolding call transition_offer_def by (rule fresh_commitE)
  have "swap_id_valid (swap_id_str (sc_id swap))" using typed by simp
  from transition_keeps [OF _ _ tx _ consume_closure [OF this]] ok c
  have move: "offer_move (phase_of J db i) (phase_of J db' i)"
    and did: "transition_done J rid i expected (consume_transition res swap) db db'"
    by (simp_all add: offer_step_def)
  from did obtain off where "phase_of J db i = Held off res"
    "phase_swap (phase_of J db' i) = Some (swap_id_str (sc_id swap))"
    by (auto simp: transition_done_def consume_transition_def status_phase.simps split: if_splits)
  with move db' show ?thesis by auto
qed

lemma committed_replays:
  assumes ok: "store_ok J db" and typed: "event_typed e"
    and call: "fst (offer_call J sha256 e db) = Ok c" and fresh: "\<not> moc_was_replay c"
  shows "offer_call J sha256 e (run (maker_step J sha256) db (e # es)) =
    (Ok (c\<lparr>moc_was_replay := True\<rparr>), run (maker_step J sha256) db (e # es))"
proof -
  let ?db1 = "maker_step J sha256 db e" and ?db2 = "run (maker_step J sha256) db (e # es)"
  obtain rid operation rj where key: "call_key J sha256 e = Some (rid, operation, rj)"
    and rec: "mutation_at (snd (offer_call J sha256 e db)) rid =
        Some (mutation_of J rid operation rj (moc_revision c))"
    and nz: "moc_revision c \<noteq> 0"
    by (rule fresh_call_records [OF conjunct2 [OF ok] call fresh])
  have step: "?db1 = snd (offer_call J sha256 e db)"
    by (rule offer_call_step [OF typed]) (simp add: key)
  have ok1: "store_ok J ?db1" by (rule store.step_inv [OF ok])
  obtain ms where ms: "db_mutations ?db2 = db_mutations ?db1 @ ms"
    using records.run_le [OF ok1, of sha256 es] by auto
  from mutation_at_kept [OF rec [folded step] ms]
  have replay: "replay_offer_mutation J ?db2 rid operation rj = Ok (Some (c\<lparr>moc_was_replay := True\<rparr>))"
    using recorded_replays [of J ?db2 rid operation rj "moc_revision c"] ok nz by (cases c) simp
  have "consume_guard e ?db2"
  proof (cases e)
    case (ConsumeOffer query io rid' i expected res swap)
    with call fresh have "fresh_commit (fst (consume_maker_offer J query io rid' i expected res swap db))"
      by (simp add: fresh_commit_def)
    from consume_settles [OF ok _ this] typed ConsumeOffer ok
      settled.run_inv [of J db i sha256 "e # es"]
    show ?thesis by simp
  qed simp_all
  from answered_call_replays [OF call key replay this] show ?thesis .
qed

lemma conflict_refuses:
  assumes "call_key J sha256 e = Some (rid, operation, rj)"
    "replay_offer_mutation J db rid operation rj = Err x"
  shows "\<exists>err. offer_call J sha256 e db = (Err err, db)"
proof -
  have tx: "\<exists>err. transact MakerSqlite io body db = (Err err, db)" if "body db = Err x" for io and body ::
      "'a maker_db \<Rightarrow> (maker_offer_commit \<times> 'a maker_db) maker_result"
    using that by (simp add: transact_def end_transaction_def)
  have local: "publish_local_offer_tx J rid i r expected now db = Err x"
    if "replay_offer_mutation J db rid (publish_operation expected)
      (js_request J (publish_request i r expected)) = Err x" for i r expected now
    using that by (cases expected)
      (auto simp: publish_local_offer_tx_def publish_operation_def publish_request_def Let_def)
  show ?thesis
    using assms
    by (cases e)
      (auto simp: publish_local_offer_inner_def publish_logos_offer_def publish_logos_offer_tx_def
        reserve_maker_offer_def consume_maker_offer_def withdraw_maker_offer_def transition_offer_def
        transition_offer_tx_def stage_zec_maker_negotiation_def stage_zec_tx_def
        split: sum.split intro!: tx local)
qed

lemma reused_request_refused:
  assumes ok: "store_ok J db" and typed: "event_typed e" "event_typed e'"
    and call: "fst (offer_call J sha256 e db) = Ok c" and fresh: "\<not> moc_was_replay c"
    and key: "call_key J sha256 e = Some (rid, operation, rj)"
    and key': "call_key J sha256 e' = Some (rid, operation', rj')"
    and differ: "(operation', rj') \<noteq> (operation, rj)"
  shows "\<exists>err. offer_call J sha256 e' (run (maker_step J sha256) db (e # es)) =
    (Err err, run (maker_step J sha256) db (e # es))"
proof -
  let ?db1 = "maker_step J sha256 db e" and ?db2 = "run (maker_step J sha256) db (e # es)"
  have rec: "mutation_at (snd (offer_call J sha256 e db)) rid =
        Some (mutation_of J rid operation rj (moc_revision c))"
    by (rule fresh_call_records [OF conjunct2 [OF ok] call fresh]) (use key in simp)
  have step: "?db1 = snd (offer_call J sha256 e db)"
    by (rule offer_call_step [OF typed(1)]) (simp add: key)
  have ok1: "store_ok J ?db1" by (rule store.step_inv [OF ok])
  obtain ms where ms: "db_mutations ?db2 = db_mutations ?db1 @ ms"
    using records.run_le [OF ok1, of sha256 es] by auto
  note found = mutation_at_kept [OF rec [folded step] ms]
  have "\<not> equivalent_publish_requests J rj rj'" if "operation = ''offer_publish''" "operation' = ''offer_publish''"
  proof -
    from that(1) key typed(1) obtain i r where i: "rj = js_request J (PublishRequest i r)" "offer_id_valid i"
      by (cases e) (auto simp: publish_operation_def publish_request_def split: option.splits)
    from that(2) key' typed(2) obtain i' r' where
      i': "rj' = js_request J (PublishRequest i' r')" "offer_id_valid i'"
      by (cases e') (auto simp: publish_operation_def publish_request_def split: option.splits)
    from i i' ok have "rd_publish J rj = Some (i, r)" "rd_publish J rj' = Some (i', r')"
      by (simp_all add: json_ok_def)
    with differ that i i' show ?thesis by (auto simp: equivalent_publish_requests_def)
  qed
  then have "replay_offer_mutation J ?db2 rid operation' rj' = Err MakerOfferRequestConflict"
    using found differ by (auto simp: replay_offer_mutation_def mutation_of_def)
  from conflict_refuses [OF key' this] show ?thesis .
qed

section \<open>Listings\<close>

lemma set_insert_by [simp]: "set (insert_by le x t) = insert x (set t)"
  by (induction t) auto

lemma set_order_by [simp]: "set (order_by le t) = set t"
  by (induction t) (simp_all add: order_by_def)

lemma decode_all_Ok: "(\<And>r. r \<in> set t \<Longrightarrow> f r = Ok (g r)) \<Longrightarrow> decode_all f t = Ok (map g t)"
  by (induction t) simp_all

lemma decode_all_is_ok: "(\<And>r. r \<in> set t \<Longrightarrow> is_ok (f r)) \<Longrightarrow> is_ok (decode_all f t)"
proof (induction t)
  case (Cons r t)
  then obtain v vs where "f r = Ok v" "decode_all f t = Ok vs"
    by (metis is_okE list.set_intros)
  then show ?case by simp
qed simp

lemma offer_row_decodes:
  assumes "db_ok J db" "row \<in> set (db_offers db)"
  obtains v where "decode_offer_tuple J row 0 = Ok v"
    "phase_of J db (of_id (mor_offer v)) = status_phase v" "mor_revision v = phase_revision (status_phase v)"
    "status_shape (mor_status v) (mor_reservation_id v) (mor_swap_id v)"
proof -
  have at: "row_at or_offer_id (db_offers db) (or_offer_id row) = Some row"
    by (rule row_at_unique [OF db_okD(5) [OF assms(1)] assms(2)])
  obtain v where v: "decode_offer_tuple J row 0 = Ok v" "offer_row_phase J row = status_phase v"
    "mor_revision v = phase_revision (status_phase v)"
    by (rule offer_row_okD [OF db_okD(1) [OF assms(1)] at])
  have id: "or_offer_id row = offer_id_str (of_id (mor_offer v))"
    and shape: "status_shape (mor_status v) (mor_reservation_id v) (mor_swap_id v)"
    using v(1) by (simp_all add: decode_offer_Ok)
  from at id v shape show thesis by (intro that [of v]) (simp_all add: phase_of_def)
qed

lemma offer_row_decodes_at:
  "db_ok J db \<Longrightarrow> row \<in> set (db_offers db) \<Longrightarrow> is_ok (decode_offer_tuple J row now)"
  by (erule (1) offer_row_decodes) (simp add: decode_offer_at [of J row now])

text \<open>The record of an open offer.\<close>

lemma active_record_of:
  assumes "status_shape (mor_status v) (mor_reservation_id v) (mor_swap_id v)"
    "mor_revision v = phase_revision (status_phase v)" "mor_status v = OfferActive"
  shows "v = active_record (mor_offer v)"
  using assms by (cases v) (simp add: active_record_def status_shape_def status_phase.simps)

lemma discoverable_answer:
  assumes ok: "db_ok J db" and now: "now \<le> i64_max"
  obtains rs where "list_discoverable_maker_offers J db now = Ok rs"
    "set rs = {active_record off |off i. phase_of J db i = Open off \<and> now < of_expires_at off}"
proof -
  let ?P = "\<lambda>row. or_state row = ''active'' \<and> or_expires_at row > uint now"
  let ?g = "\<lambda>row. case decode_offer_tuple J row 0 of Inr v \<Rightarrow> active_record (mor_offer v)
    | Inl _ \<Rightarrow> undefined"
  have dec: "\<exists>off. decode_offer_tuple J row now = Ok (active_record off) \<and> ?g row = active_record off \<and>
      phase_of J db (of_id off) = Open off \<and> now < of_expires_at off"
    if mem: "row \<in> set (db_offers db)" and P: "?P row" for row
  proof -
    obtain v where v: "decode_offer_tuple J row 0 = Ok v"
      "phase_of J db (of_id (mor_offer v)) = status_phase v" "mor_revision v = phase_revision (status_phase v)"
      "status_shape (mor_status v) (mor_reservation_id v) (mor_swap_id v)"
      by (rule offer_row_decodes [OF ok mem])
    have "status_column (mor_status v) = ''active''" "or_expires_at row = uint (of_expires_at (mor_offer v))"
      using v(1) P by (auto simp: decode_offer_Ok)
    then have st: "mor_status v = OfferActive" and live: "now < of_expires_at (mor_offer v)"
      using P by (cases "mor_status v"; simp add: word_less_def)+
    have rec: "v = active_record (mor_offer v)" by (rule active_record_of [OF v(4,3) st])
    have "decode_offer_tuple J row now = Ok v"
      using live st by (simp add: decode_offer_at [of J row now] v(1) not_le [symmetric])
    with v(1,2) st live rec show ?thesis
      by (intro exI [of _ "mor_offer v"]) (simp add: status_phase.simps)
  qed
  have dec_now: "decode_offer_tuple J row now = Ok (?g row)"
    if "row \<in> set (db_offers db)" "or_state row = ''active''" "uint now < or_expires_at row" for row
    using dec [OF that(1)] that(2,3) by metis
  let ?rows = "order_by offer_row_le (filter ?P (db_offers db))"
  have list: "list_discoverable_maker_offers J db now = Ok (map ?g ?rows)"
    unfolding list_discoverable_maker_offers_def list_offers_def
    using now by (subst decode_all_Ok [of _ _ ?g]) (auto simp: not_less dec_now)
  have "set (map ?g ?rows) = {active_record off |off i. phase_of J db i = Open off \<and> now < of_expires_at off}"
    (is "_ = ?live")
  proof (intro set_eqI iffI)
    fix x
    assume "x \<in> set (map ?g ?rows)"
    then obtain row where "row \<in> set (db_offers db)" "?P row" "x = ?g row" by auto
    with dec [of row] show "x \<in> ?live" by blast
  next
    fix x
    assume "x \<in> ?live"
    then obtain off i where x: "x = active_record off" and ph: "phase_of J db i = Open off"
      and live: "now < of_expires_at off" by blast
    from ph have "phase_terms (phase_of J db i) = Some off" by simp
    from phase_of_Some [OF ok this] obtain row v where
      row: "row_at or_offer_id (db_offers db) (offer_id_str i) = Some row"
      and v: "decode_offer_tuple J row 0 = Ok v" "mor_offer v = off" "mor_status v = OfferActive"
      using ph by (metis phase_acceptable.simps(2))
    have "?P row" using v live by (simp add: decode_offer_Ok word_less_def)
    moreover have "x = ?g row" using v x by simp
    ultimately show "x \<in> set (map ?g ?rows)" using row_at_Some [OF row] by auto
  qed
  with list that show thesis by blast
qed

end
