(* ===== verification/Maker_Properties.thy ===== *)
theory Maker_Properties
  imports Maker_Calls
begin

text \<open>
  What the maker application store guarantees, over every sequence of its calls from an
  empty database: one winner per offer, one offer per swap, exact replay, exact listings,
  exact quotes, and price sources that never roll back. The witnesses run the store with a
  concrete serializer.
\<close>

section \<open>A concrete store\<close>

datatype demo_json =
    JPair maker_pair_configuration
  | JPrice local_price
  | JOffer maker_offer
  | JSwap swap_coordinator
  | JRequest maker_request
  | JCommit u16 u64
  | JRouteCommit u16 u64 u64

fun demo_rd_publish :: "demo_json \<Rightarrow> (maker_offer_id \<times> maker_route) option" where
  "demo_rd_publish (JRequest (PublishRequest i r)) = Some (i, r)"
| "demo_rd_publish (JRequest (GuardedPublishRequest i r a b)) = Some (i, r)"
| "demo_rd_publish _ = None"

definition demo_codec :: "demo_json maker_json" where
  "demo_codec =
     \<lparr>js_pair = JPair, rd_pair = (\<lambda>j. case j of JPair c \<Rightarrow> Some c | _ \<Rightarrow> None),
      js_price = JPrice, rd_price = (\<lambda>j. case j of JPrice p \<Rightarrow> Some p | _ \<Rightarrow> None),
      js_offer = JOffer, rd_offer = (\<lambda>j. case j of JOffer off \<Rightarrow> Some off | _ \<Rightarrow> None),
      js_swap = JSwap, js_request = JRequest, rd_publish = demo_rd_publish,
      js_commit = JCommit, rd_commit = (\<lambda>j. case j of JCommit v n \<Rightarrow> Some (v, n) | _ \<Rightarrow> None),
      js_route_commit = JRouteCommit,
      rd_route_commit = (\<lambda>j. case j of JRouteCommit v n m \<Rightarrow> Some (v, n, m) | _ \<Rightarrow> None)\<rparr>"

lemma demo_codec_ok: "json_ok demo_codec"
  by (simp add: json_ok_def demo_codec_def)

definition demo_sha :: "bytes \<Rightarrow> bytes" where
  "demo_sha b = replicate 32 (word_of_nat (length b))"

definition demo_io :: tx_io where
  "demo_io = \<lparr>begin_ok = True, commit_ok = True\<rparr>"

definition demo_route :: maker_route where
  "demo_route = \<lparr>rt_pair = Pair_Zcash, rt_direction = TakerSellsForeign\<rparr>"

definition demo_pair :: maker_pair_configuration where
  "demo_pair = \<lparr>pc_route = demo_route, pc_enabled = True, pc_price_source = LocalPriceSource,
     pc_minimum_foreign_units = 10, pc_maximum_foreign_units = 1000, pc_offer_ttl_seconds = 600\<rparr>"

definition demo_price :: local_price where
  "demo_price = \<lparr>lp_route = demo_route, lp_lez_units_per_lot = 3, lp_foreign_units_per_lot = 2\<rparr>"

definition demo_rid :: "char \<Rightarrow> request_id" where
  "demo_rid c = RequestId (''request-'' @ [c])"

definition demo_offer_id :: maker_offer_id where
  "demo_offer_id = MakerOfferId ''offer-0001''"

definition demo_offer :: maker_offer where
  "demo_offer = local_offer_of demo_offer_id demo_pair 1 demo_price 1 1000 1600"

definition demo_negotiation :: maker_zec_negotiation where
  "demo_negotiation = \<lparr>zn_reservation_id = demo_rid CHR ''z'', zn_offer_commitment = replicate 32 1,
     zn_maker_chat_identity = replicate 33 2, zn_taker_chat_identity = replicate 33 3,
     zn_foreign_units = 20, zn_lez_units = 30, zn_reserved_at = 1100,
     zn_agreement_commitment = replicate 32 4, zn_maker_proposal_wire = [5],
     zn_status = ZecProposed, zn_final_agreement_wire = None, zn_swap_id = None\<rparr>"

definition demo_setup :: "maker_event list" where
  "demo_setup =
     [SaveLocalRoute demo_io (demo_rid CHR ''a'') None None demo_pair demo_price,
      PublishLocal demo_io (demo_rid CHR ''b'') demo_offer_id demo_route None 1000]"

definition demo_reserve :: maker_event where
  "demo_reserve = ReserveOffer demo_io (demo_rid CHR ''c'') demo_offer_id 1 (demo_rid CHR ''x'') 1100"

definition demo_stage :: maker_event where
  "demo_stage = StageZec demo_io (demo_rid CHR ''d'') demo_offer_id 1 demo_negotiation"

abbreviation demo_run :: "maker_event list \<Rightarrow> demo_json maker_db" where
  "demo_run \<equiv> run (maker_step demo_codec demo_sha) empty_db"

lemmas demo_defs = demo_codec_def demo_io_def demo_route_def demo_pair_def demo_price_def
  demo_rid_def demo_offer_id_def

lemmas store_eval = transact_def end_transaction_def table_insert_def table_upsert_def
  row_at_def checked_add_def to_i64_def to_u64_def i64_max_def route_row_of_def route_key_def
  route_columns_def route_row_check_def route_columns_check_def mutation_check_def
  mutation_operations_def mutation_at_def application_payload_version_def
  offer_payload_version_def swap_payload_version_def empty_db_def maximum_offer_ttl_seconds_def

lemma demo_ids [simp]:
  "request_valid (demo_rid c) \<longleftrightarrow> is_ascii_alphanumeric c \<or> c = CHR ''.'' \<or> c = CHR ''_'' \<or> c = CHR ''-''"
  "offer_id_valid demo_offer_id"
  by (simp_all add: request_valid_def demo_rid_def safe_identifier_def is_ascii_alphanumeric_def
      ascii_defs offer_id_valid_def maker_offer_id_new_def demo_offer_id_def)

lemma demo_pair_ok: "pair_configuration_validate demo_pair = Ok ()"
  by (simp add: pair_configuration_validate_Ok demo_pair_def demo_route_def route_validate_def
      maximum_offer_ttl_seconds_def)

lemma demo_price_ok: "local_price_validate demo_price = Ok ()"
  by (simp add: local_price_validate_Ok demo_price_def demo_route_def route_validate_def i64_max_def)

definition demo_routes :: "demo_json maker_db" where
  "demo_routes = empty_db\<lparr>
     db_pairs := [route_row_of demo_route (JPair demo_pair) 1 (demo_rid CHR ''a'')],
     db_prices := [route_row_of demo_route (JPrice demo_price) 1 (demo_rid CHR ''a'')],
     db_mutations := [\<lparr>mu_request_id = ''request-a'', mu_operation = ''local_route_save'',
       mu_request_payload_version = 1,
       mu_request_json = JRequest (LocalRouteMutationRequest None None demo_pair demo_price),
       mu_result_json = JRouteCommit 1 1 1\<rparr>]\<rparr>"

lemma demo_save:
  "save_local_maker_route demo_codec demo_io (demo_rid CHR ''a'') None None demo_pair demo_price
     empty_db = (Ok \<lparr>mlr_pair_revision = 1, mlr_price_revision = 1, mlr_was_replay = False\<rparr>, demo_routes)"
  unfolding save_local_maker_route_def demo_pair_ok demo_price_ok
  by (simp add: maker_defs store_eval demo_defs demo_routes_def)

definition demo_db :: "demo_json maker_db" where
  "demo_db = demo_routes\<lparr>
     db_offers := [active_row demo_codec (demo_rid CHR ''b'') demo_offer],
     db_mutations := db_mutations demo_routes @ [mutation_of demo_codec (demo_rid CHR ''b'')
       ''offer_publish'' (JRequest (PublishRequest demo_offer_id demo_route)) 1]\<rparr>"

lemma demo_offer_ok: "offer_validate demo_offer = Ok ()"
  using demo_ids(2)
  by (simp add: offer_validate_Ok demo_offer_def local_offer_of_def offer_route_def demo_pair_ok
      demo_price_ok valid_observation_time_def i64_max_def)
    (simp add: demo_pair_def demo_price_def)

lemma demo_loads:
  "load_pair demo_codec demo_routes demo_route = Ok (Some (demo_pair, 1))"
  "load_price demo_codec demo_routes demo_route = Ok (Some (demo_price, 1))"
  by (simp_all add: load_pair_def load_price_def demo_routes_def row_at_def route_row_of_def
      route_key_def route_columns_def pair_configuration_new_self local_price_new_self
      demo_pair_ok demo_price_ok demo_codec_def offer_check_version_def offer_payload_version_def
      application_payload_version_def sql_to_u64_def to_u64_def)
    (simp_all add: demo_pair_def demo_price_def)

lemma demo_publish:
  "publish_local_offer_inner demo_codec demo_io (demo_rid CHR ''b'') demo_offer_id demo_route None
     1000 demo_routes = (Ok \<lparr>moc_revision = 1, moc_was_replay = False\<rparr>, demo_db)"
proof -
  have expiry: "offer_expiry 1000 demo_pair = Ok 1600"
    by (simp add: offer_expiry_def demo_pair_def checked_add_def i64_max_def)
  have ins: "insert_offer demo_codec (demo_rid CHR ''b'') demo_route demo_offer demo_routes =
      Ok (demo_routes\<lparr>db_offers := [active_row demo_codec (demo_rid CHR ''b'') demo_offer]\<rparr>)"
    by (simp add: insert_offer_def u64_to_sql_def to_i64_def i64_max_def demo_offer_def
        local_offer_of_def offer_route_def active_row_def table_insert_def offer_row_check_def
        route_columns_check_def offer_payload_version_def demo_routes_def empty_db_def)
      (simp add: demo_pair_def demo_route_def)
  have mut: "mutation_at demo_routes (demo_rid CHR ''b'') = None"
    by (simp add: mutation_at_None demo_routes_def demo_rid_def)
  have replay: "replay_offer_mutation demo_codec demo_routes (demo_rid CHR ''b'') ''offer_publish''
      (js_request demo_codec (PublishRequest demo_offer_id demo_route)) = Ok None"
    using mut by simp
  have ex: "\<not> offer_exists demo_routes demo_offer_id"
    by (simp add: offer_exists_def row_at_def demo_routes_def empty_db_def)
  have pol: "pc_enabled demo_pair" "pc_price_source demo_pair = LocalPriceSource"
    by (simp_all add: demo_pair_def)
  have persist: "persist_offer_mutation demo_codec (demo_rid CHR ''b'') ''offer_publish''
      (js_request demo_codec (PublishRequest demo_offer_id demo_route)) 1
      (demo_routes\<lparr>db_offers := [active_row demo_codec (demo_rid CHR ''b'') demo_offer]\<rparr>) = Ok demo_db"
    by (simp add: persist_offer_mutation_eq insert_mutation_Ok demo_db_def mutation_of_def
        mutation_check_def mutation_operations_def demo_routes_def demo_rid_def demo_codec_def)
  show ?thesis
    unfolding publish_local_offer_inner_def transact_def end_transaction_def publish_local_offer_tx_def
    by (simp add: Let_def replay ex pol demo_loads expiry demo_offer_ok [unfolded demo_offer_def]
        ins [unfolded demo_offer_def] persist [unfolded demo_offer_def] flip: local_offer_of_def)
      (simp add: demo_io_def i64_max_def)
qed

lemma demo_setup_run: "demo_run demo_setup = demo_db"
  by (simp add: demo_setup_def maker_step_def demo_save demo_publish is_ascii_alphanumeric_def ascii_defs)

lemma demo_ok: "db_ok demo_codec demo_db"
  using reachable_ok [OF demo_codec_ok, of demo_sha demo_setup] by (simp add: demo_setup_run)

lemma demo_open: "phase_of demo_codec demo_db demo_offer_id = Open demo_offer"
proof -
  have "row_at or_offer_id (db_offers demo_db) (offer_id_str demo_offer_id) =
      Some (active_row demo_codec (demo_rid CHR ''b'') demo_offer)"
    by (simp add: demo_db_def row_at_def active_row_def demo_offer_def)
  then show ?thesis
    by (simp add: phase_of_def offer_row_phase_def active_row_decode [OF demo_codec_ok demo_offer_ok]
        active_record_def status_phase.simps)
qed

lemma demo_fresh: "c \<notin> {CHR ''a'', CHR ''b''} \<Longrightarrow> mutation_at demo_db (demo_rid c) = None"
  by (simp add: mutation_at_None demo_db_def demo_routes_def demo_rid_def mutation_of_def)

lemma demo_accepts: "offer_accepted demo_codec demo_sha demo_offer_id demo_db demo_reserve"
  using reserve_answer [OF demo_ok, of "demo_rid CHR ''c''" "demo_rid CHR ''x''" demo_io demo_offer_id 1 1100]
  by (simp add: offer_accepted_def demo_reserve_def demo_fresh demo_open demo_io_def i64_max_def
      demo_offer_def local_offer_of_def fresh_commit_def is_ascii_alphanumeric_def ascii_defs)

lemma demo_held: "phase_of demo_codec (demo_run (demo_setup @ [demo_reserve])) demo_offer_id =
    Held demo_offer (demo_rid CHR ''x'')"
proof -
  have "store_ok demo_codec demo_db" by (simp add: demo_codec_ok demo_ok)
  then show ?thesis
    by (rule accepted_move [OF _ demo_accepts])
      (simp add: demo_setup_run demo_open, simp add: demo_reserve_def)
qed

section \<open>One winner\<close>

text \<open>
  C4: Over every sequence of maker store calls from an empty database, with any transaction
  failing to begin or to commit, an offer is accepted at most once: at most one reservation
  or staged negotiation of it commits, however many negotiations compete.
\<close>

theorem offer_accepted_at_most_once:
  assumes "json_ok J"
  shows "grant_count (maker_step J sha256) (offer_accepted J sha256 i) empty_db es \<le> 1"
  by (rule winner.grants_at_most_once) (simp add: assms empty_db_ok)

theorem offer_accepted_at_most_once_witness:
  "json_ok demo_codec \<and> offer_accepted demo_codec demo_sha demo_offer_id (demo_run demo_setup) demo_reserve \<and>
   grant_count (maker_step demo_codec demo_sha) (offer_accepted demo_codec demo_sha demo_offer_id) empty_db
     (demo_setup @ [demo_reserve, demo_stage]) \<le> 1"
  using offer_accepted_at_most_once [OF demo_codec_ok] demo_codec_ok demo_accepts
  by (simp add: demo_setup_run)

text \<open>
  C14: Every call moves every offer at most one step along the lifecycle from unpublished
  over open and held to bound or closed, and a committed acceptance is exactly the move of
  an open offer to the negotiation the call names, with the terms unchanged.
\<close>

theorem offer_store_refines_lifecycle:
  assumes "json_ok J"
  shows "let db = run (maker_step J sha256) empty_db es; db' = maker_step J sha256 db e in
    (phase_of J db' i = phase_of J db i \<or> offer_move (phase_of J db i) (phase_of J db' i)) \<and>
    (offer_accepted J sha256 i db e \<longrightarrow>
      (\<exists>off res. phase_of J db i = Open off \<and> acceptance_of e = Some res \<and> phase_of J db' i = Held off res))"
proof -
  let ?db = "run (maker_step J sha256) empty_db es"
  have ok: "store_ok J ?db" using assms reachable_ok by blast
  have "phase_of J (maker_step J sha256 ?db e) i = phase_of J ?db i \<or>
      offer_move (phase_of J ?db i) (phase_of J (maker_step J sha256 ?db e) i)"
    using maker_step_sound [of J ?db sha256 e] ok by (simp add: event_sound_def)
  moreover have "\<exists>off res. phase_of J ?db i = Open off \<and> acceptance_of e = Some res \<and>
      phase_of J (maker_step J sha256 ?db e) i = Held off res" if "offer_accepted J sha256 i ?db e"
    by (rule accepted_move [OF ok that]) blast
  ultimately show ?thesis by (simp add: Let_def)
qed

theorem offer_store_refines_lifecycle_witness:
  "offer_accepted demo_codec demo_sha demo_offer_id (demo_run demo_setup) demo_reserve \<and>
   (\<exists>off res. phase_of demo_codec (demo_run demo_setup) demo_offer_id = Open off \<and>
      acceptance_of demo_reserve = Some res \<and>
      phase_of demo_codec (maker_step demo_codec demo_sha (demo_run demo_setup) demo_reserve) demo_offer_id =
        Held off res)"
  using offer_store_refines_lifecycle [OF demo_codec_ok, of demo_sha demo_setup demo_reserve demo_offer_id]
    demo_accepts
  by (simp add: Let_def demo_setup_run)

text \<open>The outcome of an offer is final: its terms, its winner and its swap never change once
  they are set, and its revision never exceeds three.\<close>

theorem offer_outcome_final:
  assumes "json_ok J"
  shows "let a = phase_of J (run (maker_step J sha256) empty_db es) i;
             b = phase_of J (run (maker_step J sha256) empty_db (es @ es')) i in
    (\<forall>off. phase_terms a = Some off \<longrightarrow> phase_terms b = Some off) \<and>
    (\<forall>res. phase_winner a = Some res \<longrightarrow> phase_winner b = Some res) \<and>
    (\<forall>swap. phase_swap a = Some swap \<longrightarrow> phase_swap b = Some swap) \<and>
    phase_revision a \<le> phase_revision b \<and> phase_revision b \<le> 3"
proof -
  have "phase_revision p \<le> 3" for p by (cases p) simp_all
  with phases.run_le [of J "run (maker_step J sha256) empty_db es" i sha256 es'] reachable_ok [OF assms]
  show ?thesis by (simp add: assms phase_le_def Let_def)
qed

section \<open>One offer per swap\<close>

definition demo_swap :: swap_coordinator where
  "demo_swap = coordinator_new_with_direction (SwapId ''swap-1'') Pair_Zcash TakerSellsForeign
     (ConfirmationPolicy 1)
     \<lparr>rs_maker_trigger = Deadline (timestamp Chain_Lez 500),
      rs_taker_refund = timestamp Chain_Zcash 1000, rs_safety = None\<rparr>"

definition demo_consume :: maker_event where
  "demo_consume = ConsumeOffer True demo_io (demo_rid CHR ''e'') demo_offer_id 2
     (demo_rid CHR ''x'') demo_swap"

text \<open>The store after the reservation: one more mutation, and nothing staged.\<close>

lemma demo_reserved_store:
  "mutation_at (demo_run (demo_setup @ [demo_reserve])) (demo_rid CHR ''e'') = None"
  "unstaged demo_offer_id (demo_run (demo_setup @ [demo_reserve]))"
  "db_swaps (demo_run (demo_setup @ [demo_reserve])) = []"
proof -
  obtain c where tx: "transition_offer_tx demo_codec (demo_rid CHR ''c'') ''offer_reserve''
      (js_request demo_codec (ReserveRequest demo_offer_id 1 (demo_rid CHR ''x'') 1100)) demo_offer_id 1
      None (reserve_transition (demo_rid CHR ''x'') 1100) demo_db
      = Ok (c, demo_run (demo_setup @ [demo_reserve]))" and c: "\<not> moc_was_replay c"
    using demo_accepts
    by (auto simp: offer_accepted_def demo_setup_run maker_step_def demo_reserve_def
        reserve_maker_offer_def transition_offer_def elim!: fresh_commitE)
  have "mutation_at (demo_run (demo_setup @ [demo_reserve])) (demo_rid CHR ''e'') = None \<and>
    unstaged demo_offer_id (demo_run (demo_setup @ [demo_reserve])) \<and>
    db_swaps (demo_run (demo_setup @ [demo_reserve])) = []"
    using tx db_okD(5) [OF demo_ok]
  proof (cases rule: transition_cases)
    case (fresh row v state res sw db1)
    then have run: "demo_run (demo_setup @ [demo_reserve]) = offer_moved demo_codec (demo_rid CHR ''c'')
        ''offer_reserve'' (js_request demo_codec (ReserveRequest demo_offer_id 1 (demo_rid CHR ''x'') 1100))
        row (1 + 1) state res sw demo_db" by simp
    show ?thesis
      unfolding run offer_moved_def
      by (simp add: mutation_at_None unstaged_def demo_db_def demo_routes_def empty_db_def mutation_of_def
          demo_rid_def)
  qed (use c in simp)
  then show "mutation_at (demo_run (demo_setup @ [demo_reserve])) (demo_rid CHR ''e'') = None"
    "unstaged demo_offer_id (demo_run (demo_setup @ [demo_reserve]))"
    "db_swaps (demo_run (demo_setup @ [demo_reserve])) = []" by simp_all
qed

lemma demo_bound: "phase_of demo_codec (demo_run (demo_setup @ [demo_reserve, demo_consume])) demo_offer_id =
    Bound demo_offer (demo_rid CHR ''x'') ''swap-1''"
proof -
  let ?db = "demo_run (demo_setup @ [demo_reserve])"
  have typed: "event_typed demo_consume"
    by (simp add: demo_consume_def is_ascii_alphanumeric_def ascii_defs swap_id_valid_def demo_swap_def
        coordinator_new_with_direction_def coordinator_new_with_confirmation_policies_def)
  have ok: "store_ok demo_codec ?db" by (simp only: demo_codec_ok reachable_ok simp_thms)
  have "fst (consume_maker_offer demo_codec True demo_io (demo_rid CHR ''e'') demo_offer_id 2
      (demo_rid CHR ''x'') demo_swap ?db) = Ok \<lparr>moc_revision = 2 + 1, moc_was_replay = False\<rparr>"
    using demo_reserved_store typed
    by (subst consume_answer)
      (simp_all only: ok demo_held phase_terms.simps option.case phase_revision.simps unstaged_def,
       simp_all add: demo_io_def demo_consume_def demo_swap_def demo_offer_def local_offer_of_def
         demo_pair_def demo_route_def offer_route_def coordinator_new_with_direction_def
         coordinator_new_with_confirmation_policies_def)
  then have "fresh_commit (fst (consume_maker_offer demo_codec True demo_io (demo_rid CHR ''e'')
      demo_offer_id 2 (demo_rid CHR ''x'') demo_swap ?db))"
    by (simp add: fresh_commit_def)
  from consume_fresh [OF ok typed [unfolded demo_consume_def] this] demo_held typed
  show ?thesis
    by (auto simp: maker_step_def demo_consume_def demo_swap_def coordinator_new_with_direction_def
        coordinator_new_with_confirmation_policies_def)
qed

text \<open>
  C10: A swap serves one offer: two offers of a reachable store that are bound to the same
  swap are the same offer, and the swap they are bound to is stored.
\<close>

theorem swap_serves_one_offer:
  assumes "json_ok J" "db = run (maker_step J sha256) empty_db es"
    and "phase_swap (phase_of J db i) = Some s" "phase_swap (phase_of J db j) = Some s"
  shows "i = j \<and> s \<in> sw_id ` set (db_swaps db)"
proof -
  have ok: "db_ok J db" using assms(1,2) reachable_ok by blast
  have bound: "\<exists>row. row \<in> set (db_offers db) \<and> or_offer_id row = offer_id_str k \<and> or_swap_id row = Some s"
    if "phase_swap (phase_of J db k) = Some s" for k
  proof -
    from that obtain off where "phase_terms (phase_of J db k) = Some off"
      by (cases "phase_of J db k") auto
    then obtain row v where row: "row_at or_offer_id (db_offers db) (offer_id_str k) = Some row"
      and v: "decode_offer_tuple J row 0 = Ok v" "phase_of J db k = status_phase v"
      by (rule phase_of_Some [OF ok]) blast
    have "or_swap_id row = Some s"
      using v that status_phase_shape(3) [of v] by (simp add: decode_offer_Ok)
    with row_at_Some [OF row] show ?thesis by blast
  qed
  from bound [OF assms(3)] bound [OF assms(4)] swaps_okD [OF db_okD(4) [OF ok]] show ?thesis
    by (metis offer_id_str_inject)
qed

theorem swap_serves_one_offer_witness:
  "phase_swap (phase_of demo_codec (demo_run (demo_setup @ [demo_reserve, demo_consume])) demo_offer_id)
     = Some ''swap-1'' \<and>
   ''swap-1'' \<in> sw_id ` set (db_swaps (demo_run (demo_setup @ [demo_reserve, demo_consume])))"
  using swap_serves_one_offer [OF demo_codec_ok refl, of demo_sha "demo_setup @ [demo_reserve, demo_consume]"
      demo_offer_id "''swap-1''" demo_offer_id]
  by (simp only: demo_bound phase_swap.simps simp_thms)

section \<open>Exact answers\<close>

text \<open>
  On a reachable store with a working database and a request identifier not used
  before, the answer of reserve_maker_offer is read off the phase of the offer: missing,
  stale, expired, unavailable, or success with the next revision, in that order.
\<close>

theorem reserve_exact:
  assumes "json_ok J" "db = run (maker_step J sha256) empty_db es" "mutation_at db rid = None"
    and "request_valid res" "begin_ok io" "commit_ok io"
  shows "fst (reserve_maker_offer J io rid i expected res now db) =
    (case phase_terms (phase_of J db i) of
       None \<Rightarrow> Err MissingMakerOffer
     | Some off \<Rightarrow>
         if phase_revision (phase_of J db i) \<noteq> expected
         then Err (StaleMakerOffer expected (phase_revision (phase_of J db i)))
         else if now > i64_max \<or> now \<ge> of_expires_at off then Err MakerOfferExpired
         else if \<not> phase_acceptable (phase_of J db i) then Err MakerOfferUnavailable
         else Ok \<lparr>moc_revision = expected + 1, moc_was_replay = False\<rparr>)"
  using assms reachable_ok by (intro reserve_answer) simp_all

theorem reserve_exact_witness:
  "fst (reserve_maker_offer demo_codec demo_io (demo_rid CHR ''c'') demo_offer_id 1
      (demo_rid CHR ''x'') 1599 (demo_run demo_setup)) =
     Ok \<lparr>moc_revision = 2, moc_was_replay = False\<rparr> \<and>
   fst (reserve_maker_offer demo_codec demo_io (demo_rid CHR ''c'') demo_offer_id 1
      (demo_rid CHR ''x'') 1600 (demo_run demo_setup)) = Err MakerOfferExpired"
  using reserve_exact [OF demo_codec_ok demo_setup_run [symmetric], of "demo_rid CHR ''c''"
      "demo_rid CHR ''x''" demo_io demo_offer_id 1 1599]
    reserve_exact [OF demo_codec_ok demo_setup_run [symmetric], of "demo_rid CHR ''c''"
      "demo_rid CHR ''x''" demo_io demo_offer_id 1 1600]
  by (simp add: demo_setup_run demo_fresh demo_open demo_io_def i64_max_def demo_offer_def
      local_offer_of_def is_ascii_alphanumeric_def ascii_defs)

text \<open>The answer of consume_maker_offer, likewise: only the winning negotiation binds the
  offer, only to a new swap of its route that has not started.\<close>

theorem consume_exact:
  assumes "json_ok J" "db = run (maker_step J sha256) empty_db es" "mutation_at db rid = None"
    and "swap_id_valid (swap_id_str (sc_id swap))" "unstaged i db" "begin_ok io" "commit_ok io"
  shows "fst (consume_maker_offer J True io rid i expected res swap db) =
    (case phase_terms (phase_of J db i) of
       None \<Rightarrow> Err MissingMakerOffer
     | Some off \<Rightarrow>
         if phase_revision (phase_of J db i) \<noteq> expected
         then Err (StaleMakerOffer expected (phase_revision (phase_of J db i)))
         else if phase_of J db i \<noteq> Held off res then Err MakerOfferReservationConflict
         else if offer_route off \<noteq> \<lparr>rt_pair = sc_pair swap, rt_direction = sc_direction swap\<rparr>
           \<or> sc_phase swap \<noteq> Offered then Err MakerOfferSwapMismatch
         else if swap_id_str (sc_id swap) \<in> sw_id ` set (db_swaps db) then Err MakerSqlite
         else Ok \<lparr>moc_revision = expected + 1, moc_was_replay = False\<rparr>)"
  using assms reachable_ok unfolding unstaged_def by (intro consume_answer) simp_all

section \<open>Replay\<close>

text \<open>
  C26: A committed offer call is idempotent: repeated after any further calls, on a working
  database, it answers the same revision as a replay and changes nothing.
\<close>

theorem committed_call_replays:
  assumes "json_ok J" "db = run (maker_step J sha256) empty_db es" "event_typed e"
    and "fst (offer_call J sha256 e db) = Ok c" "\<not> moc_was_replay c"
  shows "offer_call J sha256 e (run (maker_step J sha256) db (e # es')) =
    (Ok (c\<lparr>moc_was_replay := True\<rparr>), run (maker_step J sha256) db (e # es'))"
  using assms reachable_ok by (intro committed_replays) simp_all

lemma demo_reserve_typed: "event_typed demo_reserve"
  by (simp add: demo_reserve_def is_ascii_alphanumeric_def ascii_defs)

lemma demo_reserve_answer:
  "fst (offer_call demo_codec demo_sha demo_reserve demo_db) =
     Ok \<lparr>moc_revision = 2, moc_was_replay = False\<rparr>"
  using reserve_answer [OF demo_ok, of "demo_rid CHR ''c''" "demo_rid CHR ''x''" demo_io demo_offer_id 1 1100]
  by (simp add: demo_reserve_def demo_fresh demo_open demo_io_def i64_max_def demo_offer_def
      local_offer_of_def is_ascii_alphanumeric_def ascii_defs)

theorem committed_call_replays_witness:
  "offer_call demo_codec demo_sha demo_reserve
     (run (maker_step demo_codec demo_sha) demo_db [demo_reserve, demo_consume]) =
   (Ok \<lparr>moc_revision = 2, moc_was_replay = True\<rparr>,
    run (maker_step demo_codec demo_sha) demo_db [demo_reserve, demo_consume])"
  using committed_call_replays [OF demo_codec_ok demo_setup_run [symmetric] demo_reserve_typed
      demo_reserve_answer, of "[demo_consume]"] by simp

text \<open>
  A request identifier never serves two requests: after a call committed under it, an
  offer call with the same identifier and another operation or another request is refused
  with an error and changes nothing, whatever calls come in between.
\<close>

theorem reused_request_id_refused:
  assumes "json_ok J" "db = run (maker_step J sha256) empty_db es" "event_typed e" "event_typed e'"
    and "fst (offer_call J sha256 e db) = Ok c" "\<not> moc_was_replay c"
    and "call_key J sha256 e = Some (rid, operation, rj)"
    and "call_key J sha256 e' = Some (rid, operation', rj')" "(operation', rj') \<noteq> (operation, rj)"
  shows "\<exists>err. offer_call J sha256 e' (run (maker_step J sha256) db (e # es')) =
    (Err err, run (maker_step J sha256) db (e # es'))"
  using assms reachable_ok by (intro reused_request_refused [of J db e e' sha256 c]) simp_all

theorem reused_request_id_refused_witness:
  "\<exists>err. offer_call demo_codec demo_sha
     (WithdrawOffer demo_io (demo_rid CHR ''c'') demo_offer_id 2)
     (run (maker_step demo_codec demo_sha) demo_db [demo_reserve]) =
   (Err err, run (maker_step demo_codec demo_sha) demo_db [demo_reserve])"
  by (rule reused_request_id_refused [OF demo_codec_ok demo_setup_run [symmetric] demo_reserve_typed _
        demo_reserve_answer])
    (simp_all add: demo_reserve_def is_ascii_alphanumeric_def ascii_defs, simp_all add: demo_codec_def)

section \<open>Every row decodes\<close>

text \<open>
  C35: No read of a reachable store fails on what the store itself wrote: all policies,
  prices and offers list, at any representable time, and every staged negotiation loads.
\<close>

theorem maker_store_never_corrupt:
  assumes "json_ok J" "db = run (maker_step J sha256) empty_db es" "now \<le> i64_max"
  shows "is_ok (list_maker_pairs J db) \<and> is_ok (list_local_prices J db) \<and>
    is_ok (list_maker_offer_history J db now) \<and> is_ok (list_retryable_maker_offers J db now) \<and>
    is_ok (load_zec_maker_negotiation db i)"
proof -
  have ok: "db_ok J db" using assms(1,2) reachable_ok by blast
  have "is_ok (list_maker_pairs J db)" "is_ok (list_local_prices J db)"
    unfolding list_maker_pairs_def list_local_prices_def
    using db_okD(7,8) [OF ok] by (auto simp: routes_ok_def list_all_iff intro!: decode_all_is_ok)
  moreover have "is_ok (list_offers J db P now)" for P
    unfolding list_offers_def using offer_row_decodes_at [OF ok] by (auto intro!: decode_all_is_ok)
  then have "is_ok (list_maker_offer_history J db now)" "is_ok (list_retryable_maker_offers J db now)"
    using assms(3) by (simp_all add: list_maker_offer_history_def list_retryable_maker_offers_def not_less)
  moreover have "is_ok (load_zec_maker_negotiation db i)"
  proof (cases "row_at zr_offer_id (db_zec db) (offer_id_str i)")
    case (Some row)
    with db_okD(3) [OF ok] have "zec_row_ok (\<lambda>s. phase_of J db (MakerOfferId s)) row"
      by (auto simp: zec_ok_def list_all_iff dest: row_at_Some)
    with Some show ?thesis
      by (auto simp: zec_row_ok_def load_zec_maker_negotiation_def split: sum.splits)
  qed (simp add: load_zec_maker_negotiation_def)
  ultimately show ?thesis by blast
qed

theorem maker_store_never_corrupt_witness:
  "is_ok (list_maker_pairs demo_codec (demo_run (demo_setup @ [demo_reserve, demo_consume]))) \<and>
   is_ok (list_maker_offer_history demo_codec (demo_run (demo_setup @ [demo_reserve, demo_consume])) 2000)"
  using maker_store_never_corrupt [OF demo_codec_ok refl, of 2000 demo_sha
      "demo_setup @ [demo_reserve, demo_consume]" demo_offer_id]
  by (simp add: i64_max_def)

section \<open>Discovery\<close>

text \<open>
  C20: At a representable time, the discoverable offers are exactly the open offers that
  have not expired, each listed at revision 1 with its published terms and no reservation.
\<close>

theorem discoverable_exact:
  assumes "json_ok J" "db = run (maker_step J sha256) empty_db es" "now \<le> i64_max"
  shows "\<exists>rs. list_discoverable_maker_offers J db now = Ok rs \<and>
    set rs = {active_record off |off i. phase_of J db i = Open off \<and> now < of_expires_at off}"
proof -
  have ok: "db_ok J db" using assms(1,2) reachable_ok by blast
  show ?thesis by (rule discoverable_answer [OF ok assms(3)]) blast
qed

theorem discoverable_exact_witness:
  "\<exists>rs. list_discoverable_maker_offers demo_codec demo_db 1599 = Ok rs \<and> active_record demo_offer \<in> set rs"
proof -
  obtain rs where "list_discoverable_maker_offers demo_codec demo_db 1599 = Ok rs"
    "set rs = {active_record off |off i. phase_of demo_codec demo_db i = Open off \<and> 1599 < of_expires_at off}"
    using discoverable_exact [OF demo_codec_ok demo_setup_run [symmetric], of 1599]
    by (auto simp: i64_max_def)
  moreover have "1599 < of_expires_at demo_offer" by (simp add: demo_offer_def local_offer_of_def)
  ultimately show ?thesis using demo_open by blast
qed

section \<open>Prices\<close>

text \<open>
  C30: A quote of a valid offer never overflows and never divides by zero. It succeeds
  exactly on amounts within the bounds that convert without remainder, and then the quoted
  LEZ units times the foreign lot is the amount times the LEZ lot.
\<close>

theorem quote_exact:
  assumes "offer_validate off = Ok ()"
  shows "quote_foreign_amount off v \<notin> {None, Some (Err InvalidSnapshot)} \<and>
    (quote_foreign_amount off v = Some (Ok q) \<longleftrightarrow>
      pc_minimum_foreign_units (of_pair_configuration off) \<le> v \<and>
      v \<le> pc_maximum_foreign_units (of_pair_configuration off) \<and>
      unat q * unat (lp_foreign_units_per_lot (of_price off)) =
        unat v * unat (lp_lez_units_per_lot (of_price off)))"
proof -
  define num where "num = unat v * unat (lp_lez_units_per_lot (of_price off))"
  define den where "den = unat (lp_foreign_units_per_lot (of_price off))"
  from assms have nz: "lp_foreign_units_per_lot (of_price off) \<noteq> 0"
    by (simp add: offer_validate_Ok local_price_validate_Ok)
  then have den: "den > 0" by (simp add: den_def unat_gt_0)
  have "num < 2 ^ LENGTH(128)"
    unfolding num_def using checked_mul_Some [THEN iffD1, OF checked_mul_u64_fits [of v]] by simp
  then have fits: "num div den < 2 ^ LENGTH(128)" by (rule le_less_trans [OF div_le_dividend])
  have "den dvd num \<and> word_of_nat (num div den) = q \<longleftrightarrow> unat q * den = num"
  proof
    assume "den dvd num \<and> word_of_nat (num div den) = q"
    moreover have "unat (word_of_nat (num div den) :: u128) = num div den"
      by (simp only: unsigned_of_nat take_bit_nat_eq_self [OF fits] of_nat_id)
    ultimately have "unat q = num div den" "den dvd num" by auto
    then show "unat q * den = num" by simp
  next
    assume eq: "unat q * den = num"
    then have "num div den = unat q" using den by auto
    then have "word_of_nat (num div den) = q" by simp
    with eq show "den dvd num \<and> word_of_nat (num div den) = q" by auto
  qed
  then show ?thesis
    unfolding quote_foreign_amount_cases [OF nz] Let_def num_def [symmetric] den_def [symmetric]
    by (auto simp: not_less)
qed

theorem quote_exact_witness:
  "offer_validate demo_offer = Ok () \<and> quote_foreign_amount demo_offer 20 = Some (Ok 30)"
  using quote_exact [OF demo_offer_ok, of 20 30] demo_offer_ok
  by (simp add: demo_offer_def local_offer_of_def demo_pair_def demo_price_def)

text \<open>
  C31: The loop of greatest_common_divisor ends: on every pair of 64-bit values its
  condition is tested at most 129 times, and the result is the greatest common divisor.
\<close>

theorem gcd_loop_terminates:
  "\<exists>g. gcd_loop 129 l r = Some g \<and> g = greatest_common_divisor l r \<and>
     unat g = gcd (unat l) (unat r)"
proof -
  have "unat r < 2 ^ LENGTH(64)" by (rule unsigned_less)
  then have "unat r < 2 ^ 64" by simp
  then have "gcd_loop (Suc (2 * 64)) l r \<noteq> None" by (rule gcd_loop_ends)
  moreover have "Suc (2 * 64) = 129" by simp
  ultimately obtain g where g: "gcd_loop 129 l r = Some g" by (metis not_None_eq)
  from gcd_loop_Some [OF g] g greatest_common_divisor_gcd show ?thesis by blast
qed

text \<open>
  C11: An external price source never rolls back: for every route and source, the recorded
  head of a reachable store is later the same, or one with a higher revision that was
  observed no earlier. No revision is ever recorded with two different prices.
\<close>

theorem price_head_never_rolls_back:
  assumes "json_ok J" "db = run (maker_step J sha256) empty_db es"
    and "row_at head_key (db_heads db) k = Some a"
  shows "\<exists>b. row_at head_key (db_heads (run (maker_step J sha256) db es')) k = Some b \<and>
    (b = a \<or> ph_source_revision a < ph_source_revision b \<and> ph_observed_at a \<le> ph_observed_at b)"
proof -
  have ok: "store_ok J db" using assms(1,2) reachable_ok by blast
  from table_leD [OF heads.run_le [OF ok, of sha256 es'] assms(3)] show ?thesis
    by (auto simp: head_le_def)
qed

text \<open>A store with a route priced by an external source, and one quote published from it.\<close>

definition demo_logos_pair :: maker_pair_configuration where
  "demo_logos_pair = demo_pair\<lparr>pc_price_source := LogosCApi\<rparr>"

definition demo_source :: bytes where
  "demo_source = replicate 32 7"

definition demo_logos :: "maker_event list" where
  "demo_logos =
     [ConfigurePair demo_io (demo_rid CHR ''a'') None demo_logos_pair,
      PublishLogos demo_io (demo_rid CHR ''b'') demo_offer_id demo_route 1 demo_price demo_source
        5 990 1000 30]"

definition demo_logos_routes :: "demo_json maker_db" where
  "demo_logos_routes = empty_db\<lparr>
     db_pairs := [route_row_of demo_route (JPair demo_logos_pair) 1 (demo_rid CHR ''a'')],
     db_mutations := [\<lparr>mu_request_id = ''request-a'', mu_operation = ''pair_configure'',
       mu_request_payload_version = 1, mu_request_json = JRequest (PairMutationRequest None demo_logos_pair),
       mu_result_json = JCommit 1 1\<rparr>]\<rparr>"

lemma demo_logos_pair_ok: "pair_configuration_validate demo_logos_pair = Ok ()"
  by (simp add: pair_configuration_validate_Ok demo_logos_pair_def demo_pair_def demo_route_def
      route_validate_def maximum_offer_ttl_seconds_def)

lemma demo_configure:
  "configure_maker_pair demo_codec demo_io (demo_rid CHR ''a'') None demo_logos_pair empty_db =
     (Ok \<lparr>mcc_revision = 1, mcc_was_replay = False\<rparr>, demo_logos_routes)"
  unfolding configure_maker_pair_def demo_logos_pair_ok
  by (simp add: maker_defs store_eval demo_defs demo_logos_pair_def demo_logos_routes_def)

definition demo_logos_offer :: maker_offer where
  "demo_logos_offer = logos_offer_of demo_offer_id demo_logos_pair 1 demo_price demo_source 5 990 1000 1600"

abbreviation demo_head_row :: head_row where
  "demo_head_row \<equiv> head_of demo_route demo_source demo_price 5 990"

lemma demo_source_ok: "demo_source \<noteq> zero32" "length demo_source = 32"
  by (simp_all add: demo_source_def zero32_def)

lemma demo_logos_offer_ok: "offer_validate demo_logos_offer = Ok ()"
  using demo_ids(2) demo_source_ok
  by (simp add: demo_logos_offer_def offer_validate_Ok logos_offer_of_def offer_route_def
      demo_logos_pair_ok demo_price_ok valid_observation_time_def i64_max_def max_logos_quote_age_seconds_def)
    (simp add: demo_logos_pair_def demo_pair_def demo_price_def max_logos_quote_age_seconds_def)

lemma demo_logos_reads:
  "load_pair demo_codec demo_logos_routes demo_route = Ok (Some (demo_logos_pair, 1))"
  "offer_expiry 1000 demo_logos_pair = Ok 1600"
  "replay_offer_mutation demo_codec demo_logos_routes (demo_rid CHR ''b'') ''offer_publish''
     (js_request demo_codec (PublishRequest demo_offer_id demo_route)) = Ok None"
  "\<not> offer_exists demo_logos_routes demo_offer_id"
  "pc_enabled demo_logos_pair" "pc_price_source demo_logos_pair = LogosCApi" "lp_route demo_price = demo_route"
proof -
  show "load_pair demo_codec demo_logos_routes demo_route = Ok (Some (demo_logos_pair, 1))"
    by (simp add: load_pair_def demo_logos_routes_def row_at_def route_row_of_def
        route_key_def route_columns_def pair_configuration_new_self
        demo_logos_pair_ok demo_codec_def offer_check_version_def offer_payload_version_def
        application_payload_version_def sql_to_u64_def to_u64_def)
      (simp add: demo_logos_pair_def demo_pair_def)
  show "offer_expiry 1000 demo_logos_pair = Ok 1600"
    by (simp add: offer_expiry_def demo_logos_pair_def demo_pair_def checked_add_def i64_max_def)
  have "mutation_at demo_logos_routes (demo_rid CHR ''b'') = None"
    by (simp add: mutation_at_None demo_logos_routes_def demo_rid_def)
  then show "replay_offer_mutation demo_codec demo_logos_routes (demo_rid CHR ''b'') ''offer_publish''
      (js_request demo_codec (PublishRequest demo_offer_id demo_route)) = Ok None" by simp
  show "\<not> offer_exists demo_logos_routes demo_offer_id"
    by (simp add: offer_exists_def row_at_def demo_logos_routes_def empty_db_def)
qed (simp_all add: demo_logos_pair_def demo_pair_def demo_price_def)

lemma demo_logos_writes:
  "update_external_price_head demo_route demo_source demo_price 5 990 demo_logos_routes =
     Ok (demo_logos_routes\<lparr>db_heads := [demo_head_row]\<rparr>)"
  "insert_offer demo_codec (demo_rid CHR ''b'') demo_route demo_logos_offer
     (demo_logos_routes\<lparr>db_heads := [demo_head_row]\<rparr>) =
   Ok (demo_logos_routes\<lparr>db_heads := [demo_head_row],
     db_offers := [active_row demo_codec (demo_rid CHR ''b'') demo_logos_offer]\<rparr>)"
proof -
  show "update_external_price_head demo_route demo_source demo_price 5 990 demo_logos_routes =
      Ok (demo_logos_routes\<lparr>db_heads := [demo_head_row]\<rparr>)"
    using demo_source_ok
    by (simp add: update_external_price_head_def demo_logos_routes_def empty_db_def row_at_def
        table_upsert_def head_row_check_def route_columns_check_def head_of_def u64_to_sql_def
        to_i64_def i64_max_def demo_price_def demo_route_def)
  show "insert_offer demo_codec (demo_rid CHR ''b'') demo_route demo_logos_offer
      (demo_logos_routes\<lparr>db_heads := [demo_head_row]\<rparr>) =
      Ok (demo_logos_routes\<lparr>db_heads := [demo_head_row],
        db_offers := [active_row demo_codec (demo_rid CHR ''b'') demo_logos_offer]\<rparr>)"
    by (simp add: insert_offer_def u64_to_sql_def to_i64_def i64_max_def demo_logos_offer_def
        logos_offer_of_def offer_route_def active_row_def table_insert_def offer_row_check_def
        route_columns_check_def offer_payload_version_def demo_logos_routes_def empty_db_def)
      (simp add: demo_logos_pair_def demo_pair_def demo_route_def)
qed

lemma demo_head: "row_at head_key (db_heads (demo_run demo_logos)) (head_key demo_head_row) = Some demo_head_row"
proof -
  note off = demo_logos_offer_def [unfolded logos_offer_of_def]
  obtain db where persist: "persist_offer_mutation demo_codec (demo_rid CHR ''b'') ''offer_publish''
      (js_request demo_codec (PublishRequest demo_offer_id demo_route)) 1
      (demo_logos_routes\<lparr>db_heads := [demo_head_row],
        db_offers := [active_row demo_codec (demo_rid CHR ''b'') demo_logos_offer]\<rparr>) = Ok db"
    and heads: "db_heads db = [demo_head_row]"
    by (simp add: persist_offer_mutation_eq insert_mutation_Ok mutation_of_def mutation_check_def
        mutation_operations_def demo_logos_routes_def demo_rid_def demo_codec_def)
  have "publish_logos_offer_tx demo_codec (demo_rid CHR ''b'') demo_offer_id demo_route 1 demo_price
      demo_source 5 990 1000 30 demo_logos_routes = Ok (\<lparr>moc_revision = 1, moc_was_replay = False\<rparr>, db)"
    unfolding publish_logos_offer_tx_def
    by (simp add: Let_def demo_logos_reads demo_source_ok demo_logos_offer_ok [unfolded off]
        demo_logos_writes(1) demo_logos_writes(2) [unfolded off] persist [unfolded off]
        max_logos_quote_age_seconds_def)
      (simp add: i64_max_def)
  then have "demo_run demo_logos = db"
    using demo_source_ok
    by (simp add: demo_logos_def maker_step_def demo_configure publish_logos_offer_def transact_def
        end_transaction_def is_ascii_alphanumeric_def ascii_defs)
      (simp add: demo_io_def)
  with heads show ?thesis by (simp add: row_at_def)
qed

theorem price_head_never_rolls_back_witness:
  "\<exists>b. row_at head_key (db_heads (run (maker_step demo_codec demo_sha) (demo_run demo_logos)
      [PublishLogos demo_io (demo_rid CHR ''c'') (MakerOfferId ''offer-0002'') demo_route 1
         demo_price demo_source 4 995 1000 30]))
      (head_key (head_of demo_route demo_source demo_price 5 990)) = Some b \<and>
    (b = head_of demo_route demo_source demo_price 5 990 \<or> 5 < ph_source_revision b \<and> 990 \<le> ph_observed_at b)"
  using price_head_never_rolls_back [OF demo_codec_ok refl demo_head, of "[PublishLogos demo_io
      (demo_rid CHR ''c'') (MakerOfferId ''offer-0002'') demo_route 1 demo_price demo_source 4 995 1000 30]"]
  by (simp add: head_of_def)

section \<open>Staged negotiations\<close>

text \<open>
  C24: A staged ZEC negotiation that loads from a reachable store is the one that won its
  offer, and its two amounts are exactly what the published terms of the offer quote.
\<close>

theorem staged_negotiation_sound:
  assumes "json_ok J" "db = run (maker_step J sha256) empty_db es"
    and "load_zec_maker_negotiation db i = Ok (Some n)"
  shows "phase_winner (phase_of J db i) = Some (zn_reservation_id n) \<and>
    (\<exists>off. phase_terms (phase_of J db i) = Some off \<and>
       quote_foreign_amount off (zn_foreign_units n) = Some (Ok (zn_lez_units n)))"
proof -
  have ok: "db_ok J db" using assms(1,2) reachable_ok by blast
  from assms(3) obtain row where at: "row_at zr_offer_id (db_zec db) (offer_id_str i) = Some row"
    and n: "decode_zec_negotiation_row row = Ok n"
    by (auto simp: load_zec_maker_negotiation_def and_then_Inr split: option.splits)
  from row_at_Some [OF at] have row: "row \<in> set (db_zec db)" "zr_offer_id row = offer_id_str i" by auto
  with db_okD(3) [OF ok] have "zec_row_ok (\<lambda>s. phase_of J db (MakerOfferId s)) row"
    by (simp add: zec_ok_def list_all_iff)
  then show ?thesis
    by (cases i) (auto simp: zec_row_ok_def n row(2) split: option.splits)
qed

lemma demo_negotiation_ok: "zec_negotiation_validate demo_negotiation = Ok ()" "zec_typed demo_negotiation"
  by (simp_all add: zec_negotiation_validate_def demo_negotiation_def zero32_def zero33_def
      i64_max_def maximum_zec_proposal_bytes_def zec_typed_def is_ascii_alphanumeric_def ascii_defs)

lemma demo_staged: "load_zec_maker_negotiation (demo_run (demo_setup @ [demo_stage])) demo_offer_id =
    Ok (Some demo_negotiation)"
proof -
  let ?row = "active_row demo_codec (demo_rid CHR ''b'') demo_offer"
  let ?rid = "demo_rid CHR ''d''"
  let ?zec = "zec_row_of ?rid demo_offer_id demo_negotiation"
  let ?db1 = "demo_db\<lparr>db_zec := [?zec]\<rparr>"
  have row: "row_at or_offer_id (db_offers demo_db) (offer_id_str demo_offer_id) = Some ?row"
    by (simp add: demo_db_def row_at_def active_row_def demo_offer_def)
  have off: "of_id demo_offer = demo_offer_id" "of_expires_at demo_offer = 1600"
      "offer_route demo_offer = demo_route"
    by (simp_all add: demo_offer_def local_offer_of_def offer_route_def demo_pair_def)
  have load: "load_offer demo_codec demo_db demo_offer_id 1100 = Ok (Some (active_record demo_offer))"
    unfolding load_offer_def row
    by (simp add: decode_offer_at [of _ _ 1100] active_row_decode [OF demo_codec_ok demo_offer_ok]
        active_record_def off)
  have n: "zn_reserved_at demo_negotiation = 1100" "zn_foreign_units demo_negotiation = 20"
      "zn_lez_units demo_negotiation = 30" "zn_status demo_negotiation = ZecProposed"
      "zn_reservation_id demo_negotiation = demo_rid CHR ''z''"
    by (simp_all add: demo_negotiation_def)
  have quote: "quote_foreign_amount demo_offer 20 = Some (Ok 30)"
    by (simp add: quote_foreign_amount_cases demo_offer_def local_offer_of_def demo_pair_def demo_price_def)
  have ins: "insert_zec_negotiation ?rid demo_offer_id demo_negotiation demo_db = Ok ?db1"
    by (simp add: insert_zec_negotiation_def u64_to_sql_def to_i64_def i64_max_def demo_negotiation_def
        table_insert_def zec_row_check_def zec_row_of_def demo_db_def demo_routes_def empty_db_def)
      (simp add: active_row_def off)
  have upd: "update_offer (\<lambda>row. or_offer_id row = offer_id_str demo_offer_id \<and> or_revision row = 1
        \<and> or_state row = ''active'')
      (\<lambda>row. row\<lparr>or_state := ''reserved'', or_revision := 2,
        or_reservation_id := Some (request_id_str (demo_rid CHR ''z'')),
        or_updated_request_id := request_id_str ?rid\<rparr>) ?db1 =
    Ok (1, ?db1\<lparr>db_offers := [?row\<lparr>or_state := ''reserved'', or_revision := 2,
        or_reservation_id := Some (request_id_str (demo_rid CHR ''z'')),
        or_updated_request_id := request_id_str ?rid\<rparr>]\<rparr>)" (is "_ = Ok (1, ?db2)")
    by (subst update_offer_row [where k = "offer_id_str demo_offer_id" and row = ?row])
      (use row in \<open>simp_all add: demo_db_def active_row_def replace_row_def offer_row_check_def
        demo_routes_def empty_db_def off demo_route_def route_columns_check_def\<close>)
  obtain db where persist: "persist_offer_mutation demo_codec ?rid ''zec_negotiation_stage''
      (js_request demo_codec (stage_zec_request demo_sha demo_offer_id 1 demo_negotiation)) 2 ?db2 = Ok db"
    and zec: "db_zec db = [?zec]"
    by (simp add: persist_offer_mutation_eq insert_mutation_Ok mutation_of_def mutation_check_def
        mutation_operations_def demo_db_def demo_routes_def demo_rid_def demo_codec_def)
  have replay: "replay_offer_mutation demo_codec demo_db ?rid ''zec_negotiation_stage''
      (js_request demo_codec (stage_zec_request demo_sha demo_offer_id 1 demo_negotiation)) = Ok None"
    using demo_fresh [of "CHR ''d''"] by simp
  have "stage_zec_tx demo_codec demo_sha ?rid demo_offer_id 1 demo_negotiation demo_db =
      Ok (\<lparr>moc_revision = 2, moc_was_replay = False\<rparr>, db)"
    unfolding stage_zec_tx_def
    by (simp add: replay quote n load active_record_def off ins upd persist checked_add_def u64_to_sql_def to_i64_def
        i64_max_def demo_route_def)
  then have "demo_run (demo_setup @ [demo_stage]) = db"
    using demo_negotiation_ok
    by (simp add: demo_setup_run demo_stage_def maker_step_def stage_zec_maker_negotiation_def n
        transact_def end_transaction_def is_ascii_alphanumeric_def ascii_defs demo_io_def)
  with zec zec_row_decode [OF demo_negotiation_ok(2,1) n(4)] show ?thesis
    by (simp add: load_zec_maker_negotiation_def row_at_def zec_row_of_def)
qed

theorem staged_negotiation_sound_witness:
  "phase_winner (phase_of demo_codec (demo_run (demo_setup @ [demo_stage])) demo_offer_id) =
     Some (demo_rid CHR ''z'') \<and>
   (\<exists>off. phase_terms (phase_of demo_codec (demo_run (demo_setup @ [demo_stage])) demo_offer_id) = Some off \<and>
      quote_foreign_amount off 20 = Some (Ok 30))"
  using staged_negotiation_sound [OF demo_codec_ok refl demo_staged]
  by (simp add: demo_negotiation_def)

end
