(* ===== verification/Spec2Isabelle.thy ===== *)
theory Spec2Isabelle
  imports Coordinator_Properties Effect_Plan Journal_Properties Adaptor_Properties Xmr_Properties
    Escrow_Properties Bridge_Properties Sidecar_Properties Poll_Properties Maker_Properties
begin

text \<open>
  \<^bold>\<open>A verification library for the LEZ atomic swaps.\<close>

  The program swaps an asset on the LEZ chain for one on Bitcoin, Zcash or
  Monero between a maker and a taker. Its parts, and how they interact:

  \<^item> \<^bold>\<open>swap-core\<close> (\<open>crates/swap-core/src/lib.rs\<close>) is the pure coordinator. It is
    fed with the observations a node makes of both chains (locks, claims, refunds,
    reorganisations) and says which phase the swap is in and which actions are
    refused.
  \<^item> \<^bold>\<open>swap-sdk-core\<close> (\<open>crates/swap-sdk-core/src\<close>) holds what the pair SDKs share:
    versions, error categories, the claim order, and the plan of exact public
    effects (transaction bytes fixed before anything is sent).
  \<^item> \<^bold>\<open>swap-store\<close> (\<open>crates/swap-store/src\<close>) makes effects durable. The public-effect
    journal records an effect before it is sent and grants the right to send it. The
    adaptor-session journal keeps the secret nonces and partial signatures of the
    two-party signing sessions. The XMR workflow journal orders the steps of one role
    in a Monero swap and grants each step one invocation. The bridge operation journal
    keeps the identifier and window of every request to the sidecar, so that a request
    whose answer was lost is repeated unchanged. The maker store keeps the maker's routes and prices, publishes offers, gives each offer to one negotiation and
    binds it to the swap that comes out of it.
  \<^item> \<^bold>\<open>The LEZ escrow program\<close> (\<open>compat/lez-v0.2-provisional/escrow/src/lib.rs\<close>) is the
    on-chain contract that holds the LEZ leg.
  \<^item> \<^bold>\<open>The bridge protocol\<close> (\<open>crates/lez-bridge-protocol/src\<close>) has the values and messages a
    node exchanges with the LEZ sidecar. The \<^bold>\<open>sidecar\<close> (\<open>compat/lez-v0_2-sidecar/src\<close>)
    holds the LEZ key of one role; its observers read finalized blocks and tell the node
    which effect of the escrow happened, did not happen, or is not decided.

  A swap starts from an offer of the maker store: a negotiation reserves it, and the
  swap it agrees on is stored as a new coordinator.
  The coordinator decides which action is due; the action is a step of a plan; the
  plan's bytes go through the journal, which allows one submission; on the LEZ
  side the submitted transaction is an instruction of the escrow program. The
  signatures that need both parties come out of an adaptor session, and the
  transactions of a Monero swap are the steps of a workflow. What became of a submitted
  transaction comes back through the sidecar's observer, in the messages of the bridge.

  \<^bold>\<open>Conventions.\<close> Definitions carry the names of the source. A Rust \<open>Result\<close> is a
  sum with \<open>Err\<close> on the left; a method on \<open>&mut self\<close> returns its result together with
  the new state; fixed-width integers are words; a Rust string is a \<open>string\<close>; bytes
  are words of width eight. Code outside the repository is a parameter: SHA-256
  (\<open>sha256\<close>), whether an SQLite transaction begins and commits (\<open>tx_io\<close>),
  what the checks of a database file return (\<open>storage_io\<close>), the signing callback of an
  adaptor session, and the
  framework of the escrow program with its codec, derived addresses and token
  decoding (\<open>escrow_env\<close>, with \<open>env_ok\<close> stating what the program relies on and \<open>framework_ok\<close> what
  the availability of a refund relies on), the hex and
  base64 codecs (\<open>wire_codecs\<close>), the official transaction format and key derivation
  (\<open>sidecar_env\<close>, with \<open>sidecar_env_ok\<close>), the JSON text of the maker tables
  (\<open>maker_json\<close>, with \<open>json_ok\<close>: what was written is read back, and different requests have
  different texts), and the indexer. The indexer is not trusted to be
  consistent: it is a function of the number of requests already made, so two reads of
  the same block may differ.

  \<^bold>\<open>Theories.\<close>

  \<^item> \<open>Prelude\<close>: types, the \<open>?\<close> operator, checked arithmetic, byte encodings, and the
    locales \<open>step_system\<close>, \<open>step_frame\<close>, \<open>step_order\<close> and \<open>once_only\<close> for components
    with state.
  \<^item> \<open>Swap_Clock\<close>, \<open>Swap_Coordinator\<close>: chains, positions, deadlines and the recovery
    schedule; the coordinator record and its ten observations.
    \<open>Coordinator_Spec\<close> lists the state-changing branches of the methods as one
    relation, the case rule of the proofs that follow; \<open>Coordinator_Invariants\<close> has the shape
    of each phase, the history behind claims and refunds and termination;
    \<open>Coordinator_Lifecycle\<close> the abstract lifecycle of two locks and nine stages and the proof
    that every method answers as it says; \<open>Coordinator_Properties\<close> the properties and two
    theorems that exhibit behaviour at odds with the comments of the code.
  \<^item> \<open>Effect_Plan\<close>: versions, errors, claim order and the plan, with the round trip of
    its wire form and the binding of its commitment.
  \<^item> \<open>Store_Table\<close>: what every journal of the store uses: errors, column encodings,
    constraint-checked statements and transactions on tables of rows.
  \<^item> \<open>Effect_Journal\<close>: the journal's table, row codec and three methods;
    \<open>Journal_Refinement\<close> relates a row to the abstract entry it stands for;
    \<open>Journal_Properties\<close> has one-time submission, immutability and error behaviour.
  \<^item> \<open>Adaptor_Journal\<close>: the sessions table, its row codec and the eight methods of
    \<open>SqliteAdaptorSessionJournal\<close>; \<open>Adaptor_Sessions\<close> the invariant of the rows and the
    order in which a session moves; \<open>Adaptor_Properties\<close> nonce use, finality of
    partial signatures, the commitment before the reveal.
  \<^item> \<open>Xmr_Workflow\<close>: the step catalog, the two tables and the methods of
    \<open>SqliteXmrWorkflowJournal\<close>; \<open>Xmr_Refinement\<close> the abstract workflow, the proof that
    each method is a step of it and that an enabled step is taken;
    \<open>Xmr_Properties\<close> one invocation per step, one branch per journal, order of
    steps, permanent evidence, and a replay that does not compare identities.
  \<^item> \<open>Escrow_Model\<close>, \<open>Escrow_Program\<close>: accounts, metadata and the eighteen
    instructions; \<open>Escrow_Lifecycle\<close> the abstract lifecycle and the proof that
    every committed instruction is a step of it; \<open>Escrow_Properties\<close> single payout,
    exact payout, claim authority and refund availability.
  \<^item> \<open>Bridge_Protocol\<close>, \<open>Bridge_Xmr\<close>: decimal amounts, identifiers, discovery windows, the
    terms of the escrows (\<open>primitives.rs\<close>), and the Monero effects with the validation of
    the facts reported about them (\<open>xmr_v3.rs\<close>); \<open>Bridge_Properties\<close> the exact amount codec.
  \<^item> \<open>Sidecar_Xmr\<close>: the classifier of finalized Monero-escrow effects
    (\<open>finalized_xmr_observation.rs\<close>) with the planner checks of \<open>native_prepare.rs\<close>;
    \<open>Sidecar_Soundness\<close> what each successful step has seen and how many requests it made;
    \<open>Sidecar_Guest\<close> the observer's expectations against the escrow program;
    \<open>Sidecar_Completeness\<close> a consistent indexer, a transaction the program executed, and
    the classification that finds it, up to the validation of the result;
    \<open>Sidecar_Properties\<close> soundness of Found and Absent, agreement with the program,
    that an effect which is there is found, and the bound on requests.
  \<^item> \<open>Poll_Journal\<close>: the table of \<open>bridge_operation_journal.rs\<close> and its four methods;
    \<open>Poll_Refinement\<close> the abstract journal of finished polls and one active request and
    the proof that the table implements it; \<open>Poll_Properties\<close> the refinement over every run,
    one request per identifier, and that an unanswered request stays active.
  \<^item> \<open>Maker_Types\<close>, \<open>Maker_Application\<close>, \<open>Maker_Offer\<close>: the values, tables and methods of
    \<open>maker_application.rs\<close> and \<open>maker_offer.rs\<close>. \<open>Maker_Rows\<close> has what each validator and
    decoder accepts and the greatest-common-divisor loop; \<open>Maker_Lifecycle\<close> the abstract
    phases of an offer and the calls; \<open>Maker_Invariant\<close>, \<open>Maker_Preservation\<close> and
    \<open>Maker_Runs\<close> the invariant of the tables, what each call can do to them, and the
    interpretations of the locales; \<open>Maker_Calls\<close> the exact answers, replays and listings;
    \<open>Maker_Properties\<close> one winner per offer, one offer per swap, replay and refusal of
    request identifiers, exact listings and quotes, prices that never roll back.

  \<^bold>\<open>Bounds.\<close> The loops of the modelled code are structural recursions over a list, and
  runs are lists of events of any length. The one other loop, \<open>greatest_common_divisor\<close>, is
  a function with a termination proof; \<open>gcd_loop\<close> counts its tests with fuel, and 129 is
  enough for every pair of 64-bit values, since two rounds halve the second value. One
  classification of the sidecar makes at most 8208 indexer requests.

  \<^bold>\<open>Not modelled.\<close> The node processes, chain adapters, bridge client and server,
  reference actors and user interfaces are asynchronous I/O around the components above.
  Curve arithmetic, hashing and SQLite are third-party. Creating, opening and
  migrating a database file is I/O. The sidecar's preparation of transactions and its
  other observers, the bridge messages of the hashlock and witnessed effects, the pair
  SDKs and the remaining tables of the store are not modelled. These are the recovery
  records, the registries of actors and facades, the snapshots of running swaps and the
  journal of the Bitcoin maker lock. In the maker store the
  negotiations of Bitcoin and Monero offers are left out: what they stage and complete is
  a wire format of the pair SDKs, and their tables stay empty under the modelled calls.
\<close>

end
